(* ===== verification/Rust_Prelude.thy ===== *)
theory Rust_Prelude
  imports Main "HOL-Library.Word" "HOL-Library.Sublist" "HOL-Library.AList" "HOL-Library.List_Lexorder"
    "HOL-Library.Code_Target_Nat"
begin

text \<open>
  Shared vocabulary of the development: the Rust types the components use and the part of
  the Rust standard library they call, with the lemmas the component proofs rest on.

  A Rust \<open>char\<close> is a Unicode scalar value, modelled as its code point (a natural number);
  a \<open>String\<close> or \<open>&str\<close> is the list of its characters. \<open>len()\<close> and byte slices go through
  the UTF-8 width of each character (\<open>utf8_len\<close>, \<open>utf8_bytes\<close>). String literals of the source
  are written \<open>lit ''...''\<close>.
\<close>

section \<open>Types\<close>

type_synonym rchar = nat

type_synonym rstr = "rchar list"

type_synonym u8 = "8 word"

type_synonym u32 = "32 word"

type_synonym u64 = "64 word"

text \<open>
  The crate-wide error type. Only the constructors that the modelled code builds are
  distinguished; an I/O error keeps the path it was raised for.
\<close>

datatype error =
    Io rstr
  | ConfigParse nat rstr
  | Other rstr

type_synonym 'a rresult = "error + 'a"

fun ok :: "'a rresult \<Rightarrow> 'a option" where
  "ok (Inl _) = None"
| "ok (Inr x) = Some x"

named_theorems str_simps \<open>equations that evaluate string primitives\<close>

section \<open>Characters and literals\<close>

definition lit :: "string \<Rightarrow> rstr" where
  "lit s = map of_char s"

lemma lit_inject [simp]: "lit a = lit b \<longleftrightarrow> a = b"
proof
  assume "lit a = lit b"
  then have "map (of_char :: char \<Rightarrow> nat) a = map of_char b" by (simp add: lit_def)
  then show "a = b" by (rule map_injective) (rule inj_of_char)
qed simp

lemma lit_eq_Nil [simp]: "lit a = [] \<longleftrightarrow> a = []"
  by (simp add: lit_def)

lemma Nil_eq_lit [simp]: "[] = lit a \<longleftrightarrow> a = []"
  by (auto simp: lit_def)

lemma length_lit [simp]: "length (lit a) = length a"
  by (simp add: lit_def)

lemma lit_append: "lit (a @ b) = lit a @ lit b"
  by (simp add: lit_def)

lemma lit_Nil [str_simps]: "lit [] = []"
  by (simp add: lit_def)

lemma lit_Cons [str_simps]: "lit (c # cs) = of_char c # lit cs"
  by (simp add: lit_def)

definition is_ascii_digit :: "rchar \<Rightarrow> bool" where
  "is_ascii_digit c \<longleftrightarrow> 48 \<le> c \<and> c \<le> 57"

definition is_ascii_uppercase :: "rchar \<Rightarrow> bool" where
  "is_ascii_uppercase c \<longleftrightarrow> 65 \<le> c \<and> c \<le> 90"

definition is_ascii_lowercase :: "rchar \<Rightarrow> bool" where
  "is_ascii_lowercase c \<longleftrightarrow> 97 \<le> c \<and> c \<le> 122"

definition to_ascii_lowercase_char :: "rchar \<Rightarrow> rchar" where
  "to_ascii_lowercase_char c = (if is_ascii_uppercase c then c + 32 else c)"

definition to_ascii_lowercase :: "rstr \<Rightarrow> rstr" where
  "to_ascii_lowercase s = map to_ascii_lowercase_char s"

text \<open>\<open>char::is_whitespace\<close>: the Unicode property White\_Space, which \<open>str::trim\<close> uses.\<close>

definition is_whitespace :: "rchar \<Rightarrow> bool" where
  "is_whitespace c \<longleftrightarrow>
     (9 \<le> c \<and> c \<le> 13) \<or> c = 32 \<or> c = 133 \<or> c = 160 \<or> c = 5760 \<or>
     (8192 \<le> c \<and> c \<le> 8202) \<or> c = 8232 \<or> c = 8233 \<or> c = 8239 \<or> c = 8287 \<or> c = 12288"

text \<open>\<open>char::is_control\<close>: the general category Cc.\<close>

definition is_control :: "rchar \<Rightarrow> bool" where
  "is_control c \<longleftrightarrow> c < 32 \<or> (127 \<le> c \<and> c < 160)"

lemmas char_class_defs =
  is_ascii_digit_def is_ascii_uppercase_def is_ascii_lowercase_def is_whitespace_def
  is_control_def to_ascii_lowercase_char_def

lemma ascii_lower_idem [simp]:
  "to_ascii_lowercase (to_ascii_lowercase s) = to_ascii_lowercase s"
  by (induction s) (auto simp: to_ascii_lowercase_def char_class_defs)

section \<open>UTF-8\<close>

definition utf8_char :: "rchar \<Rightarrow> u8 list" where
  "utf8_char c =
     (if c < 128 then [of_nat c]
      else if c < 2048 then [of_nat (192 + c div 64), of_nat (128 + c mod 64)]
      else if c < 65536 then
        [of_nat (224 + c div 4096), of_nat (128 + c div 64 mod 64), of_nat (128 + c mod 64)]
      else
        [of_nat (240 + c div 262144), of_nat (128 + c div 4096 mod 64),
         of_nat (128 + c div 64 mod 64), of_nat (128 + c mod 64)])"

definition utf8_bytes :: "rstr \<Rightarrow> u8 list" where
  "utf8_bytes s = concat (map utf8_char s)"

definition utf8_width :: "rchar \<Rightarrow> nat" where
  "utf8_width c = (if c < 128 then 1 else if c < 2048 then 2 else if c < 65536 then 3 else 4)"

text \<open>\<open>str::len\<close>: the number of bytes of the UTF-8 encoding.\<close>

definition utf8_len :: "rstr \<Rightarrow> nat" where
  "utf8_len s = sum_list (map utf8_width s)"

lemma utf8_len_bytes: "utf8_len s = length (utf8_bytes s)"
  by (induction s) (auto simp: utf8_len_def utf8_bytes_def utf8_width_def utf8_char_def)

lemma utf8_len_Nil [simp]: "utf8_len [] = 0"
  by (simp add: utf8_len_def)

lemma utf8_len_ascii: "list_all (\<lambda>c. c < 128) s \<Longrightarrow> utf8_len s = length s"
  by (induction s) (auto simp: utf8_len_def utf8_width_def)

lemma utf8_bytes_append [simp]: "utf8_bytes (a @ b) = utf8_bytes a @ utf8_bytes b"
  by (simp add: utf8_bytes_def)

text \<open>
  \<open>String::from_utf8\<close>: the well-formed byte sequences of the Unicode standard (no overlong
  form, no surrogate, nothing above U+10FFFF); \<open>None\<close> stands for the error.
\<close>

definition in_range :: "nat \<Rightarrow> nat \<Rightarrow> u8 \<Rightarrow> bool" where
  "in_range lo hi b \<longleftrightarrow> lo \<le> unat b \<and> unat b \<le> hi"

abbreviation cont_byte :: "u8 \<Rightarrow> bool" where
  "cont_byte \<equiv> in_range 128 191"

definition low6 :: "u8 \<Rightarrow> nat" where
  "low6 b = unat b - 128"

fun from_utf8 :: "u8 list \<Rightarrow> rstr option" where
  "from_utf8 [] = Some []"
| "from_utf8 (b # bs) =
     (if unat b < 128 then map_option ((#) (unat b)) (from_utf8 bs)
      else if in_range 194 223 b then
        (case bs of
           c1 # r \<Rightarrow>
             if cont_byte c1
             then map_option ((#) ((unat b - 192) * 64 + low6 c1)) (from_utf8 r)
             else None
         | _ \<Rightarrow> None)
      else if in_range 224 239 b then
        (case bs of
           c1 # c2 # r \<Rightarrow>
             if in_range (if unat b = 224 then 160 else 128) (if unat b = 237 then 159 else 191) c1
                \<and> cont_byte c2
             then map_option ((#) ((unat b - 224) * 4096 + low6 c1 * 64 + low6 c2)) (from_utf8 r)
             else None
         | _ \<Rightarrow> None)
      else if in_range 240 244 b then
        (case bs of
           c1 # c2 # c3 # r \<Rightarrow>
             if in_range (if unat b = 240 then 144 else 128) (if unat b = 244 then 143 else 191) c1
                \<and> cont_byte c2 \<and> cont_byte c3
             then map_option
                    ((#) ((unat b - 240) * 262144 + low6 c1 * 4096 + low6 c2 * 64 + low6 c3))
                    (from_utf8 r)
             else None
         | _ \<Rightarrow> None)
      else None)"

declare from_utf8.simps(2) [simp del]

lemma from_utf8_ascii: "list_all (\<lambda>c. c < 128) s \<Longrightarrow> from_utf8 (utf8_bytes s) = Some s"
proof (induction s)
  case (Cons c s)
  then have "unat (of_nat c :: u8) = c"
    by (simp add: unat_of_nat)
  with Cons show ?case
    by (simp add: utf8_bytes_def utf8_char_def from_utf8.simps(2))
qed (simp add: utf8_bytes_def)

section \<open>Splitting, joining and trimming\<close>

fun split_on :: "'a \<Rightarrow> 'a list \<Rightarrow> 'a list list" where
  "split_on c [] = [[]]"
| "split_on c (x # xs) =
     (if x = c then [] # split_on c xs
      else (case split_on c xs of [] \<Rightarrow> [[x]] | p # ps \<Rightarrow> (x # p) # ps))"

fun split_once :: "'a \<Rightarrow> 'a list \<Rightarrow> ('a list \<times> 'a list) option" where
  "split_once c [] = None"
| "split_once c (x # xs) =
     (if x = c then Some ([], xs)
      else (case split_once c xs of None \<Rightarrow> None | Some (a, b) \<Rightarrow> Some (x # a, b)))"

fun join :: "'a list \<Rightarrow> 'a list list \<Rightarrow> 'a list" where
  "join sep [] = []"
| "join sep [p] = p"
| "join sep (p # q # ps) = p @ sep @ join sep (q # ps)"

lemma split_on_ne [simp]: "split_on c s \<noteq> []"
  by (cases s) (auto split: list.split)

lemma split_on_notin: "c \<notin> set s \<Longrightarrow> split_on c s = [s]"
  by (induction s) auto

lemma split_on_append: "split_on c (a @ c # b) = split_on c a @ split_on c b"
proof (induction a)
  case (Cons x a)
  then show ?case by (cases "split_on c a") auto
qed simp

lemma split_on_pieces: "p \<in> set (split_on c s) \<Longrightarrow> c \<notin> set p"
proof (induction s arbitrary: p)
  case (Cons x s)
  then show ?case by (cases "split_on c s") (auto split: if_splits)
qed simp

lemma split_on_join: "ps \<noteq> [] \<Longrightarrow> \<forall>p \<in> set ps. c \<notin> set p \<Longrightarrow> split_on c (join [c] ps) = ps"
proof (induction ps rule: induct_list012)
  case (3 p q ps)
  then show ?case by (simp add: split_on_append split_on_notin)
qed (auto simp: split_on_notin)

lemma join_split_on: "join [c] (split_on c s) = s"
proof (induction s)
  case (Cons x s)
  show ?case
  proof (cases "split_on c s")
    case (Cons p ps)
    with Cons.IH show ?thesis by (cases ps) auto
  qed simp
qed simp

lemma set_split_on: "p \<in> set (split_on c s) \<Longrightarrow> set p \<subseteq> set s"
proof (induction s arbitrary: p)
  case (Cons x s)
  obtain q qs where s: "split_on c s = q # qs"
    by (cases "split_on c s") auto
  then have "set q \<subseteq> set s" using Cons.IH by simp
  moreover have "\<forall>r \<in> set qs. set r \<subseteq> set s" using Cons.IH s by simp
  moreover have "p = [] \<or> p = q \<or> p = x # q \<or> p \<in> set qs"
    using Cons.prems s by (auto split: if_splits)
  ultimately show ?case by auto
qed simp

lemma split_once_SomeD: "split_once c s = Some (a, b) \<Longrightarrow> s = a @ c # b \<and> c \<notin> set a"
  by (induction s arbitrary: a) (auto split: if_splits option.splits)

lemma split_once_append [simp]: "c \<notin> set a \<Longrightarrow> split_once c (a @ c # b) = Some (a, b)"
  by (induction a) auto

lemma split_once_Some_iff: "split_once c s = Some (a, b) \<longleftrightarrow> s = a @ c # b \<and> c \<notin> set a"
  by (auto dest: split_once_SomeD)

lemma split_once_None_iff: "split_once c s = None \<longleftrightarrow> c \<notin> set s"
  by (induction s) (auto split: option.split)

definition trim_start_matches :: "('a \<Rightarrow> bool) \<Rightarrow> 'a list \<Rightarrow> 'a list" where
  "trim_start_matches P s = dropWhile P s"

definition trim_end_matches :: "('a \<Rightarrow> bool) \<Rightarrow> 'a list \<Rightarrow> 'a list" where
  "trim_end_matches P s = rev (dropWhile P (rev s))"

definition trim_matches :: "('a \<Rightarrow> bool) \<Rightarrow> 'a list \<Rightarrow> 'a list" where
  "trim_matches P s = trim_end_matches P (trim_start_matches P s)"

definition trim :: "rstr \<Rightarrow> rstr" where
  "trim s = trim_matches is_whitespace s"

text \<open>A string that neither starts nor ends with a character of the class.\<close>

definition bare :: "('a \<Rightarrow> bool) \<Rightarrow> 'a list \<Rightarrow> bool" where
  "bare P s \<longleftrightarrow> s = [] \<or> (\<not> P (hd s) \<and> \<not> P (last s))"

lemma trim_end_decomp: "\<exists>t. s = trim_end_matches P s @ t \<and> list_all P t"
proof -
  have "s = rev (dropWhile P (rev s)) @ rev (takeWhile P (rev s))"
    by (metis rev_append rev_rev_ident takeWhile_dropWhile_id)
  then show ?thesis
    unfolding trim_end_matches_def list_all_iff by (metis set_rev set_takeWhileD)
qed

lemma trim_end_last: "trim_end_matches P s \<noteq> [] \<Longrightarrow> \<not> P (last (trim_end_matches P s))"
  by (simp add: trim_end_matches_def last_rev hd_dropWhile)

lemma trim_matches_bare: "bare P (trim_matches P s)"
proof (cases "trim_matches P s = []")
  case False
  let ?u = "trim_start_matches P s"
  obtain t where u: "?u = trim_matches P s @ t"
    using trim_end_decomp [of ?u P] by (auto simp: trim_matches_def)
  with False have hd: "hd ?u = hd (trim_matches P s)" and ne: "?u \<noteq> []"
    by auto
  have "\<not> P (hd ?u)"
    using ne by (simp add: trim_start_matches_def hd_dropWhile)
  moreover have "\<not> P (last (trim_matches P s))"
    using False unfolding trim_matches_def by (rule trim_end_last)
  ultimately show ?thesis by (simp add: bare_def hd)
qed (simp add: bare_def)

lemma bare_start: "bare P s \<Longrightarrow> dropWhile P s = s"
  by (cases s) (auto simp: bare_def)

lemma bare_rev: "bare P (rev s) = bare P s"
  by (cases s rule: rev_cases) (auto simp: bare_def hd_append last_rev)

lemma trim_matches_id: "bare P s \<Longrightarrow> trim_matches P s = s"
  by (simp add: trim_matches_def trim_start_matches_def trim_end_matches_def bare_start bare_rev)

lemma trim_matches_idem [simp]: "trim_matches P (trim_matches P s) = trim_matches P s"
  by (simp add: trim_matches_id trim_matches_bare)

lemma trim_idem [simp]: "trim (trim s) = trim s"
  by (simp add: trim_def)

lemma trim_bare: "bare is_whitespace (trim s)"
  by (simp add: trim_def trim_matches_bare)

lemma trim_id: "bare is_whitespace s \<Longrightarrow> trim s = s"
  by (simp add: trim_def trim_matches_id)

lemma trim_Nil [simp]: "trim [] = []"
  by (simp add: trim_id bare_def)

lemma set_trim_matches: "set (trim_matches P s) \<subseteq> set s"
  by (metis dual_order.trans set_dropWhileD set_rev subsetI trim_end_matches_def
      trim_matches_def trim_start_matches_def)

lemma set_trim: "set (trim s) \<subseteq> set s"
  by (simp add: trim_def set_trim_matches)

text \<open>Padding that belongs to the class is removed on both sides.\<close>

lemma dropWhile_pad: "list_all P a \<Longrightarrow> dropWhile P (a @ s) = dropWhile P s"
  by (induction a) auto

lemma trim_end_pad: "list_all P b \<Longrightarrow> trim_end_matches P (s @ b) = trim_end_matches P s"
  by (simp add: trim_end_matches_def dropWhile_pad list_all_iff)

lemma trim_matches_pad:
  assumes "list_all P a" and "list_all P b"
  shows "trim_matches P (a @ s @ b) = trim_matches P s"
proof (cases "list_all P s")
  case True
  then have "dropWhile P (a @ s @ b) = []" and "dropWhile P s = []"
    using assms by (auto simp: list_all_iff dropWhile_eq_Nil_conv)
  then show ?thesis
    unfolding trim_matches_def trim_start_matches_def by (simp only:)
next
  case False
  then have "dropWhile P (s @ b) = dropWhile P s @ b"
    by (auto simp: list_all_iff dropWhile_append1)
  with assms show ?thesis
    by (simp add: trim_matches_def trim_start_matches_def dropWhile_pad trim_end_pad)
qed

lemma trim_pad: "list_all is_whitespace a \<Longrightarrow> list_all is_whitespace b \<Longrightarrow> trim (a @ s @ b) = trim s"
  by (simp add: trim_def trim_matches_pad)

text \<open>\<open>str::lines\<close>: the pieces between line feeds without the last one when it is empty; a
  carriage return is removed only where a line feed follows it.\<close>

definition strip_cr :: "rstr \<Rightarrow> rstr" where
  "strip_cr l = (if l \<noteq> [] \<and> last l = 13 then butlast l else l)"

definition str_lines :: "rstr \<Rightarrow> rstr list" where
  "str_lines s =
     (let ps = split_on 10 s
      in map strip_cr (butlast ps) @ (if last ps = [] then [] else [last ps]))"

lemma trim_strip_cr [simp]: "trim (strip_cr l) = trim l"
proof (cases "l \<noteq> [] \<and> last l = 13")
  case True
  then have "l = butlast l @ [13]" by (metis append_butlast_last_id)
  then have "trim l = trim ([] @ butlast l @ [13])" by simp
  also have "\<dots> = trim (butlast l)"
    by (rule trim_pad) (auto simp: is_whitespace_def)
  finally show ?thesis using True by (simp add: strip_cr_def)
next
  case False
  then have "strip_cr l = l" by (auto simp: strip_cr_def)
  then show ?thesis by simp
qed

lemma str_lines_Nil [simp]: "str_lines [] = []"
  by (simp add: str_lines_def)

lemma str_lines_Cons: "10 \<notin> set l \<Longrightarrow> str_lines (l @ 10 # s) = strip_cr l # str_lines s"
  by (simp add: str_lines_def Let_def split_on_append split_on_notin)

lemma str_lines_concat:
  "\<forall>l \<in> set ls. 10 \<notin> set l \<Longrightarrow> str_lines (concat (map (\<lambda>l. l @ [10]) ls)) = map strip_cr ls"
  by (induction ls) (auto simp: str_lines_Cons)

lemma str_lines_no_lf: "l \<in> set (str_lines s) \<Longrightarrow> 10 \<notin> set l"
proof -
  assume l: "l \<in> set (str_lines s)"
  have "set (strip_cr p) \<subseteq> set p" for p
    by (auto simp: strip_cr_def dest: in_set_butlastD)
  moreover have "l \<in> strip_cr ` set (split_on 10 s) \<or> l \<in> set (split_on 10 s)"
    using l by (auto simp: str_lines_def Let_def dest: in_set_butlastD split: if_splits)
  ultimately show ?thesis by (blast dest: split_on_pieces)
qed

section \<open>Prefixes, suffixes and substrings\<close>

definition starts_with :: "rstr \<Rightarrow> rstr \<Rightarrow> bool" where
  "starts_with p s \<longleftrightarrow> prefix p s"

definition ends_with :: "rstr \<Rightarrow> rstr \<Rightarrow> bool" where
  "ends_with p s \<longleftrightarrow> suffix p s"

definition contains_str :: "rstr \<Rightarrow> rstr \<Rightarrow> bool" where
  "contains_str p s \<longleftrightarrow> sublist p s"

definition strip_prefix :: "rstr \<Rightarrow> rstr \<Rightarrow> rstr option" where
  "strip_prefix p s = (if prefix p s then Some (drop (length p) s) else None)"

lemma strip_prefix_append [simp]: "strip_prefix p (p @ s) = Some s"
  by (simp add: strip_prefix_def)

lemma strip_prefix_Some_iff: "strip_prefix p s = Some r \<longleftrightarrow> s = p @ r"
  by (auto simp: strip_prefix_def prefix_def)

text \<open>\<open>rfind(c)\<close> and the slice before it: the stem of a file name.\<close>

definition before_last :: "'a \<Rightarrow> 'a list \<Rightarrow> 'a list option" where
  "before_last c s =
     (case dropWhile (\<lambda>x. x \<noteq> c) (rev s) of [] \<Rightarrow> None | x # t \<Rightarrow> Some (rev t))"

lemma dropWhile_eq_Nil_notin: "dropWhile (\<lambda>x. x \<noteq> c) s = [] \<longleftrightarrow> c \<notin> set s"
  by (induction s) auto

lemma before_last_None_iff: "before_last c s = None \<longleftrightarrow> c \<notin> set s"
proof -
  have "before_last c s = None \<longleftrightarrow> dropWhile (\<lambda>x. x \<noteq> c) (rev s) = []"
    unfolding before_last_def using list.exhaust_sel by (force split: list.split simp del: dropWhile_eq_Nil_conv)
  then show ?thesis by (simp only: dropWhile_eq_Nil_notin set_rev)
qed

lemma dropWhile_until: "c \<notin> set b \<Longrightarrow> dropWhile (\<lambda>x. x \<noteq> c) (b @ c # a) = c # a"
  by (induction b) auto

lemma before_last_append: "c \<notin> set b \<Longrightarrow> before_last c (a @ c # b) = Some a"
  by (simp add: before_last_def dropWhile_until)

section \<open>Decimal numbers\<close>

fun nat_to_str :: "nat \<Rightarrow> rstr" where
  "nat_to_str n = (if n < 10 then [48 + n] else nat_to_str (n div 10) @ [48 + n mod 10])"

declare nat_to_str.simps [simp del]

definition digits_value :: "rstr \<Rightarrow> nat" where
  "digits_value ds = foldl (\<lambda>a d. a * 10 + (d - 48)) 0 ds"

text \<open>
  \<open>parse::<uN>()\<close> of an unsigned type of the given width: an optional plus sign, at least
  one digit, digits only, and a value that fits.
\<close>

definition parse_uint :: "nat \<Rightarrow> rstr \<Rightarrow> nat option" where
  "parse_uint w s =
     (let ds = (case s of c # cs \<Rightarrow> if c = 43 \<and> cs \<noteq> [] then cs else s | [] \<Rightarrow> [])
      in if ds = [] \<or> \<not> list_all is_ascii_digit ds then None
         else if digits_value ds < 2 ^ w then Some (digits_value ds) else None)"

lemma nat_to_str_ne [simp]: "nat_to_str n \<noteq> []"
  by (subst nat_to_str.simps) simp

lemma nat_to_str_digits: "list_all is_ascii_digit (nat_to_str n)"
proof (induction n rule: nat_to_str.induct)
  case (1 n)
  then show ?case
    by (cases "n < 10") (auto simp: nat_to_str.simps [of n] is_ascii_digit_def)
qed

lemma digits_value_nat_to_str: "digits_value (nat_to_str n) = n"
proof (induction n rule: nat_to_str.induct)
  case (1 n)
  show ?case
  proof (cases "n < 10")
    case False
    with 1 show ?thesis by (simp add: nat_to_str.simps [of n] digits_value_def)
  qed (simp add: nat_to_str.simps [of n] digits_value_def)
qed

lemma digit_not_in_digits: "list_all is_ascii_digit ds \<Longrightarrow> \<not> is_ascii_digit c \<Longrightarrow> c \<notin> set ds"
  by (auto simp: list_all_iff)

lemma parse_nat_to_str: "n < 2 ^ w \<Longrightarrow> parse_uint w (nat_to_str n) = Some n"
proof -
  assume n: "n < 2 ^ w"
  have "43 \<notin> set (nat_to_str n)"
    by (rule digit_not_in_digits [OF nat_to_str_digits]) (simp add: is_ascii_digit_def)
  then have "(case nat_to_str n of c # cs \<Rightarrow> if c = 43 \<and> cs \<noteq> [] then cs else nat_to_str n | [] \<Rightarrow> [])
      = nat_to_str n"
    by (auto split: list.split)
  then show ?thesis
    using n by (simp add: parse_uint_def nat_to_str_digits digits_value_nat_to_str)
qed

lemma nat_to_str_inject: "nat_to_str m = nat_to_str n \<Longrightarrow> m = n"
  by (metis digits_value_nat_to_str)

end
