(* ===== verification/Key_Value_Config.thy ===== *)
theory Key_Value_Config
  imports Rust_Prelude
begin

text \<open>
  The \<open>key = "value"\<close> configuration files of \<open>platform/config.rs\<close>: the parser, the setter with
  its sanitisation, the comment-preserving writer and the file operations around them.

  A \<open>HashMap<String, String>\<close> is an association list with distinct keys (kept so by
  \<open>AList.update\<close>); \<open>map_of\<close> reads it. The main facts are about parsing what the writer wrote:
  the new contents hold exactly the old keys overridden by the in-memory entries.
\<close>

section \<open>The model\<close>

record key_value_file =
  entries :: "(rstr \<times> rstr) list"

definition default_kv :: key_value_file where
  "default_kv = \<lparr>entries = []\<rparr>"

definition sanitize_config_value :: "rstr \<Rightarrow> rstr" where
  "sanitize_config_value value = filter (\<lambda>c. c \<noteq> 34 \<and> \<not> is_control c) value"

definition parse_error :: "nat \<Rightarrow> rstr \<Rightarrow> error" where
  "parse_error line_num line =
     ConfigParse (line_num + 1)
       (lit ''expected '' @ [39] @ lit ''key = '' @ [34] @ lit ''value'' @ [34, 39] @
        lit '', got: '' @ line)"

fun parse_lines ::
  "nat \<Rightarrow> rstr list \<Rightarrow> (rstr \<times> rstr) list \<Rightarrow> (rstr \<times> rstr) list rresult" where
  "parse_lines line_num [] es = Inr es"
| "parse_lines line_num (l # ls) es =
     (let line = trim l
      in if line = [] \<or> starts_with [35] line then parse_lines (Suc line_num) ls es
         else (case split_once 61 line of
                 None \<Rightarrow> Inl (parse_error line_num line)
               | Some (key, value) \<Rightarrow>
                   parse_lines (Suc line_num) ls
                     (AList.update (trim key) (trim_matches (\<lambda>c. c = 34) (trim value)) es)))"

definition parse :: "rstr \<Rightarrow> key_value_file rresult" where
  "parse content =
     (case parse_lines 0 (str_lines content) [] of
        Inl e \<Rightarrow> Inl e
      | Inr es \<Rightarrow> Inr \<lparr>entries = es\<rparr>)"

definition kv_get :: "key_value_file \<Rightarrow> rstr \<Rightarrow> rstr option" where
  "kv_get kv key = map_of (entries kv) key"

definition get_non_empty :: "key_value_file \<Rightarrow> rstr \<Rightarrow> rstr option" where
  "get_non_empty kv key =
     (case kv_get kv key of None \<Rightarrow> None | Some v \<Rightarrow> if v = [] then None else Some v)"

definition kv_set :: "rstr \<Rightarrow> rstr \<Rightarrow> key_value_file \<Rightarrow> key_value_file" where
  "kv_set key value kv =
     kv\<lparr>entries := AList.update key (sanitize_config_value value) (entries kv)\<rparr>"

definition format_entry :: "rstr \<Rightarrow> rstr \<Rightarrow> rstr" where
  "format_entry key value = key @ lit '' = '' @ [34] @ value @ [34] @ [10]"

fun render_lines ::
  "(rstr \<times> rstr) list \<Rightarrow> rstr list \<Rightarrow> rstr \<Rightarrow> rstr list \<Rightarrow> rstr \<times> rstr list" where
  "render_lines es [] output written_keys = (output, written_keys)"
| "render_lines es (line # ls) output written_keys =
     (let trimmed = trim line
      in if trimmed = [] \<or> starts_with [35] trimmed
         then render_lines es ls (output @ line @ [10]) written_keys
         else (case split_once 61 trimmed of
                 Some (k, _) \<Rightarrow>
                   (let key = trim k
                    in case map_of es key of
                         Some value \<Rightarrow>
                           render_lines es ls (output @ format_entry key value)
                             (List.insert key written_keys)
                       | None \<Rightarrow> render_lines es ls (output @ line @ [10]) written_keys)
               | None \<Rightarrow> render_lines es ls (output @ line @ [10]) written_keys))"

definition new_keys :: "(rstr \<times> rstr) list \<Rightarrow> rstr list \<Rightarrow> rstr list" where
  "new_keys es written_keys = sort (filter (\<lambda>k. k \<notin> set written_keys) (remdups (map fst es)))"

definition append_entry :: "(rstr \<times> rstr) list \<Rightarrow> rstr \<Rightarrow> rstr \<Rightarrow> rstr" where
  "append_entry es key output =
     (case map_of es key of Some value \<Rightarrow> output @ format_entry key value | None \<Rightarrow> output)"

definition render_preserving :: "key_value_file \<Rightarrow> rstr \<Rightarrow> rstr" where
  "render_preserving kv original_content =
     (let (output, written_keys) =
            render_lines (entries kv) (str_lines original_content) [] []
      in fold (append_entry (entries kv)) (new_keys (entries kv) written_keys) output)"

text \<open>
  A file on disk. \<open>Unreadable\<close> stands for a file that exists but whose bytes cannot be read as a
  string (an I/O error or invalid UTF-8).
\<close>

datatype disk_file = Missing | Unreadable | Contents rstr

definition read_to_string :: "rstr \<Rightarrow> disk_file \<Rightarrow> rstr rresult" where
  "read_to_string path f = (case f of Contents c \<Rightarrow> Inr c | _ \<Rightarrow> Inl (Io path))"

definition kv_from_file :: "rstr \<Rightarrow> disk_file \<Rightarrow> key_value_file rresult" where
  "kv_from_file path f = (case read_to_string path f of Inl e \<Rightarrow> Inl e | Inr c \<Rightarrow> parse c)"

text \<open>
  \<open>write_atomic\<close> writes a temporary file in the target's directory and renames it over the
  target. \<open>fault\<close> is the error of the first system call that fails before the rename, if any;
  the target is then what it was.
\<close>

definition write_atomic :: "error option \<Rightarrow> rstr \<Rightarrow> disk_file \<Rightarrow> disk_file \<times> unit rresult" where
  "write_atomic fault contents target =
     (case fault of Some e \<Rightarrow> (target, Inl e) | None \<Rightarrow> (Contents contents, Inr ()))"

definition kv_write ::
  "error option \<Rightarrow> key_value_file \<Rightarrow> rstr \<Rightarrow> disk_file \<Rightarrow> disk_file \<Rightarrow> disk_file \<times> unit rresult" where
  "kv_write fault kv original_path original output_file =
     (case read_to_string original_path original of
        Inl e \<Rightarrow> (output_file, Inl e)
      | Inr original_content \<Rightarrow>
          write_atomic fault (render_preserving kv original_content) output_file)"

section \<open>Lines\<close>

text \<open>What the parser makes of one line; both the parser and the writer decide by it.\<close>

datatype line_kind = Skip | Bad | Pair rstr rstr

definition kind_of :: "rstr \<Rightarrow> line_kind" where
  "kind_of l =
     (let line = trim l
      in if line = [] \<or> starts_with [35] line then Skip
         else (case split_once 61 line of
                 None \<Rightarrow> Bad
               | Some (key, value) \<Rightarrow> Pair (trim key) (trim_matches (\<lambda>c. c = 34) (trim value))))"

definition pairs_of :: "rstr list \<Rightarrow> (rstr \<times> rstr) list" where
  "pairs_of ls = concat (map (\<lambda>l. case kind_of l of Pair k v \<Rightarrow> [(k, v)] | _ \<Rightarrow> []) ls)"

definition entry_line :: "rstr \<Rightarrow> rstr \<Rightarrow> rstr" where
  "entry_line k v = k @ [32, 61, 32, 34] @ v @ [34]"

definition render_line :: "(rstr \<times> rstr) list \<Rightarrow> rstr \<Rightarrow> rstr" where
  "render_line es l =
     (case kind_of l of
        Pair k v \<Rightarrow> (case map_of es k of Some v' \<Rightarrow> entry_line k v' | None \<Rightarrow> l)
      | _ \<Rightarrow> l)"

text \<open>Keys and values that survive being written and read back.\<close>

definition wf_key :: "rstr \<Rightarrow> bool" where
  "wf_key k \<longleftrightarrow> bare is_whitespace k \<and> 61 \<notin> set k \<and> 10 \<notin> set k \<and> \<not> starts_with [35] k"

definition wf_val :: "rstr \<Rightarrow> bool" where
  "wf_val v \<longleftrightarrow> 10 \<notin> set v \<and> bare (\<lambda>c. c = 34) v"

definition wf_entries :: "(rstr \<times> rstr) list \<Rightarrow> bool" where
  "wf_entries es \<longleftrightarrow>
     distinct (map fst es) \<and> list_all (\<lambda>(k, v). wf_key k \<and> wf_val v) es"

abbreviation wf_kv :: "key_value_file \<Rightarrow> bool" where
  "wf_kv kv \<equiv> wf_entries (entries kv)"

lemma parse_lines_Cons:
  "parse_lines n (l # ls) es =
     (case kind_of l of
        Skip \<Rightarrow> parse_lines (Suc n) ls es
      | Bad \<Rightarrow> Inl (parse_error n (trim l))
      | Pair k v \<Rightarrow> parse_lines (Suc n) ls (AList.update k v es))"
  by (simp add: kind_of_def Let_def split: option.split)

declare parse_lines.simps(2) [simp del]

lemma kind_of_strip_cr [simp]: "kind_of (strip_cr l) = kind_of l"
  by (simp add: kind_of_def)

lemma pairs_of_Cons:
  "pairs_of (l # ls) = (case kind_of l of Pair k v \<Rightarrow> (k, v) # pairs_of ls | _ \<Rightarrow> pairs_of ls)"
  by (simp add: pairs_of_def split: line_kind.split)

lemma pairs_of_Nil [simp]: "pairs_of [] = []"
  by (simp add: pairs_of_def)

lemma pairs_of_append [simp]: "pairs_of (a @ b) = pairs_of a @ pairs_of b"
  by (simp add: pairs_of_def)

lemma pairs_of_strip_cr [simp]: "pairs_of (map strip_cr ls) = pairs_of ls"
  by (induction ls) (auto simp: pairs_of_Cons split: line_kind.split)

lemma parse_lines_good:
  "\<forall>l \<in> set ls. kind_of l \<noteq> Bad \<Longrightarrow>
   \<exists>es'. parse_lines n ls es = Inr es' \<and> map_of es' = map_of es ++ map_of (rev (pairs_of ls))"
proof (induction ls arbitrary: n es)
  case (Cons l ls)
  have rest: "\<forall>l \<in> set ls. kind_of l \<noteq> Bad" using Cons.prems by simp
  show ?case
  proof (cases "kind_of l")
    case (Pair k v)
    obtain es' where es': "parse_lines (Suc n) ls (AList.update k v es) = Inr es'"
      and m: "map_of es' = map_of (AList.update k v es) ++ map_of (rev (pairs_of ls))"
      using Cons.IH [OF rest] by blast
    have "map_of es' = map_of es ++ map_of (rev (pairs_of (l # ls)))"
      unfolding m using Pair
      by (intro ext) (simp add: pairs_of_Cons map_of_append update_conv' map_add_def split: option.split)
    with es' Pair show ?thesis by (simp add: parse_lines_Cons)
  qed (use Cons in \<open>simp_all add: parse_lines_Cons pairs_of_Cons\<close>)
qed simp

lemma parse_lines_bad:
  "\<forall>l \<in> set pre. kind_of l \<noteq> Bad \<Longrightarrow> kind_of l = Bad \<Longrightarrow>
   parse_lines n (pre @ l # post) es = Inl (parse_error (n + length pre) (trim l))"
  by (induction pre arbitrary: n es) (auto simp: parse_lines_Cons split: line_kind.split)

lemma first_bad_split:
  assumes "l \<in> set ls" and "kind_of l = Bad"
  obtains pre b post where "ls = pre @ b # post" "kind_of b = Bad" "\<forall>x \<in> set pre. kind_of x \<noteq> Bad"
  using split_list_first_prop [of ls "\<lambda>x. kind_of x = Bad"] assms by blast

lemma parse_lines_ok_iff: "(\<exists>es'. parse_lines n ls es = Inr es') \<longleftrightarrow> (\<forall>l \<in> set ls. kind_of l \<noteq> Bad)"
proof
  assume ok: "\<exists>es'. parse_lines n ls es = Inr es'"
  show "\<forall>l \<in> set ls. kind_of l \<noteq> Bad"
  proof (rule ccontr)
    assume "\<not> (\<forall>l \<in> set ls. kind_of l \<noteq> Bad)"
    then obtain pre b post where "ls = pre @ b # post" "kind_of b = Bad" "\<forall>x \<in> set pre. kind_of x \<noteq> Bad"
      by (meson first_bad_split)
    with ok show False by (auto simp: parse_lines_bad)
  qed
qed (meson parse_lines_good)

section \<open>What a line yields is well formed\<close>

lemma trim_hd: "a \<noteq> [] \<Longrightarrow> \<not> is_whitespace (hd a) \<Longrightarrow> trim a \<noteq> [] \<and> hd (trim a) = hd a"
proof -
  assume a: "a \<noteq> []" "\<not> is_whitespace (hd a)"
  then have "dropWhile is_whitespace a = a" by (cases a) auto
  then have "trim a = trim_end_matches is_whitespace a"
    by (simp add: trim_def trim_matches_def trim_start_matches_def)
  moreover obtain t where t: "a = trim_end_matches is_whitespace a @ t" "list_all is_whitespace t"
    using trim_end_decomp by blast
  moreover have "trim_end_matches is_whitespace a \<noteq> []"
    using a t by (cases t) (auto simp: list_all_iff)
  ultimately show ?thesis using a by (metis hd_append2)
qed

lemma kind_of_wf:
  assumes "kind_of l = Pair k v" and "10 \<notin> set l"
  shows "wf_key k \<and> wf_val v"
proof -
  obtain a b where ab: "split_once 61 (trim l) = Some (a, b)" "k = trim a"
      "v = trim_matches (\<lambda>c. c = 34) (trim b)" "trim l \<noteq> []" "\<not> starts_with [35] (trim l)"
    using assms(1) by (auto simp: kind_of_def Let_def split: if_splits option.splits)
  then have l: "trim l = a @ 61 # b" and "61 \<notin> set a"
    by (auto dest: split_once_SomeD)
  have sub: "set (trim l) \<subseteq> set l" by (rule set_trim)
  have "bare is_whitespace (trim l)" by (rule trim_bare)
  then have "a \<noteq> [] \<Longrightarrow> \<not> is_whitespace (hd a)" using l by (cases a) (auto simp: bare_def)
  then have "a \<noteq> [] \<Longrightarrow> hd (trim a) = hd (trim l)" using l trim_hd by (cases a) auto
  then have "\<not> starts_with [35] (trim a)"
    using ab(5) l by (cases a; cases "trim a") (auto simp: starts_with_def prefix_def)
  moreover have "61 \<notin> set (trim a)" and "10 \<notin> set (trim a)"
    using \<open>61 \<notin> set a\<close> sub l assms(2) set_trim [of a] by auto
  moreover have "10 \<notin> set v"
    using ab(3) sub l assms(2) set_trim [of b] set_trim_matches [of "\<lambda>c. c = 34" "trim b"] by auto
  ultimately show ?thesis
    using ab by (simp add: wf_key_def wf_val_def trim_bare trim_matches_bare)
qed

lemma kind_of_entry_line:
  assumes "wf_key k" and "wf_val v"
  shows "kind_of (entry_line k v) = Pair k v"
proof -
  have k: "bare is_whitespace k" "61 \<notin> set k" "\<not> starts_with [35] k"
    using assms(1) by (auto simp: wf_key_def)
  let ?a = "if k = [] then [] else k @ [32]"
  let ?l = "?a @ 61 # 32 # 34 # v @ [34]"
  have bare: "bare is_whitespace ?l"
    using k(1) by (auto simp: bare_def is_whitespace_def)
  have "trim (entry_line k v) = ?l"
  proof (cases "k = []")
    case True
    then have "trim (entry_line k v) = trim ([32] @ ?l @ [])" by (simp add: entry_line_def)
    also have "\<dots> = trim ?l" by (rule trim_pad) (auto simp: is_whitespace_def)
    finally show ?thesis using bare by (simp only: trim_id)
  next
    case False
    then have "entry_line k v = ?l" by (simp add: entry_line_def)
    then show ?thesis using bare by (simp only: trim_id)
  qed
  moreover have "\<not> starts_with [35] ?l"
    using k(3) by (cases k) (auto simp: starts_with_def)
  moreover have "split_once 61 ?l = Some (?a, 32 # 34 # v @ [34])"
    by (rule split_once_append) (use k(2) in simp)
  moreover have "trim ?a = k"
  proof (cases "k = []")
    case False
    then have "trim ?a = trim ([] @ k @ [32])" by simp
    also have "\<dots> = trim k" by (rule trim_pad) (auto simp: is_whitespace_def)
    finally show ?thesis using k(1) by (simp add: trim_id)
  qed simp
  moreover have "trim (32 # 34 # v @ [34]) = 34 # v @ [34]"
  proof -
    have "trim (32 # 34 # v @ [34]) = trim ([32] @ (34 # v @ [34]) @ [])" by simp
    also have "\<dots> = trim (34 # v @ [34])" by (rule trim_pad) (auto simp: is_whitespace_def)
    also have "\<dots> = 34 # v @ [34]" by (rule trim_id) (auto simp: bare_def is_whitespace_def)
    finally show ?thesis .
  qed
  moreover have "trim_matches (\<lambda>c. c = 34) (34 # v @ [34]) = v"
    using trim_matches_pad [of "\<lambda>c. c = 34" "[34]" "[34]" v] assms(2)
    by (simp add: wf_val_def trim_matches_id)
  ultimately show ?thesis by (simp add: kind_of_def Let_def)
qed

lemma entry_line_no_lf: "wf_key k \<Longrightarrow> wf_val v \<Longrightarrow> 10 \<notin> set (entry_line k v)"
  by (simp add: entry_line_def wf_key_def wf_val_def)

lemma format_entry_line: "format_entry k v = entry_line k v @ [10]"
  by (simp add: format_entry_def entry_line_def lit_def)

section \<open>The writer, line by line\<close>

lemma render_lines_Cons:
  "render_lines es (l # ls) out w =
     render_lines es ls (out @ render_line es l @ [10])
       (case kind_of l of
          Pair k v \<Rightarrow> if map_of es k = None then w else List.insert k w
        | _ \<Rightarrow> w)"
  by (simp add: kind_of_def render_line_def format_entry_line Let_def split: option.split)

declare render_lines.simps(2) [simp del]

lemma render_lines_output:
  "fst (render_lines es ls out w) = out @ concat (map (\<lambda>l. l @ [10]) (map (render_line es) ls))"
  by (induction ls arbitrary: out w) (simp_all add: render_lines_Cons)

lemma render_lines_written:
  "set (snd (render_lines es ls out w)) =
     set w \<union> (fst ` set (pairs_of ls) \<inter> dom (map_of es))"
proof (induction ls arbitrary: out w)
  case (Cons l ls)
  then show ?case
    by (cases "kind_of l") (auto simp: render_lines_Cons pairs_of_Cons)
qed simp

lemma fold_append_entry:
  "set ks \<subseteq> dom (map_of es) \<Longrightarrow>
   fold (append_entry es) ks out =
     out @ concat (map (\<lambda>l. l @ [10]) (map (\<lambda>k. entry_line k (the (map_of es k))) ks))"
  by (induction ks arbitrary: out) (auto simp: append_entry_def format_entry_line)

lemma set_new_keys: "set (new_keys es w) = dom (map_of es) - set w"
  by (auto simp: new_keys_def dom_map_of_conv_image_fst)

lemma distinct_new_keys: "distinct (new_keys es w)"
  by (simp add: new_keys_def)

definition rendered_lines :: "(rstr \<times> rstr) list \<Rightarrow> rstr list \<Rightarrow> rstr list" where
  "rendered_lines es ls =
     map (render_line es) ls @
     map (\<lambda>k. entry_line k (the (map_of es k)))
       (new_keys es (snd (render_lines es ls [] [])))"

lemma render_preserving_eq:
  "render_preserving kv c =
     concat (map (\<lambda>l. l @ [10]) (rendered_lines (entries kv) (str_lines c)))"
proof -
  obtain out w where r: "render_lines (entries kv) (str_lines c) [] [] = (out, w)"
    by (cases "render_lines (entries kv) (str_lines c) [] []") auto
  then have "out = concat (map (\<lambda>l. l @ [10]) (map (render_line (entries kv)) (str_lines c)))"
    using render_lines_output [of "entries kv" "str_lines c" "[]" "[]"] by simp
  with r show ?thesis
    by (simp add: render_preserving_def rendered_lines_def fold_append_entry set_new_keys)
qed

lemma wf_entries_lookup: "wf_entries es \<Longrightarrow> map_of es k = Some v \<Longrightarrow> wf_key k \<and> wf_val v"
  by (auto simp: wf_entries_def list_all_iff dest!: map_of_SomeD)

lemma kind_of_render_line:
  "wf_entries es \<Longrightarrow>
   kind_of (render_line es l) =
     (case kind_of l of
        Pair k v \<Rightarrow> Pair k (case map_of es k of Some v' \<Rightarrow> v' | None \<Rightarrow> v)
      | x \<Rightarrow> x)"
  by (auto simp: render_line_def kind_of_entry_line dest: wf_entries_lookup
      split: line_kind.split option.split)

lemma render_line_no_lf: "wf_entries es \<Longrightarrow> 10 \<notin> set l \<Longrightarrow> 10 \<notin> set (render_line es l)"
  by (auto simp: render_line_def entry_line_no_lf dest: wf_entries_lookup
      split: line_kind.split option.split)

lemma rendered_lines_no_lf:
  assumes "wf_entries es" and "\<forall>l \<in> set ls. 10 \<notin> set l" and "l \<in> set (rendered_lines es ls)"
  shows "10 \<notin> set l"
proof -
  consider l' where "l' \<in> set ls" "l = render_line es l'"
    | k v where "map_of es k = Some v" "l = entry_line k v"
    using assms(3) by (auto simp: rendered_lines_def set_new_keys)
  then show ?thesis
    by cases (use assms in \<open>auto simp: render_line_no_lf entry_line_no_lf dest: wf_entries_lookup\<close>)
qed

lemma str_lines_render:
  "wf_kv kv \<Longrightarrow>
   str_lines (render_preserving kv c) = map strip_cr (rendered_lines (entries kv) (str_lines c))"
  unfolding render_preserving_eq
  by (rule str_lines_concat) (blast dest: rendered_lines_no_lf str_lines_no_lf)

lemma rendered_lines_kinds:
  assumes "wf_entries es"
  shows "(\<forall>l \<in> set (rendered_lines es ls). kind_of l \<noteq> Bad) \<longleftrightarrow> (\<forall>l \<in> set ls. kind_of l \<noteq> Bad)"
proof -
  have "kind_of (render_line es l) = Bad \<longleftrightarrow> kind_of l = Bad" for l
    using assms by (simp add: kind_of_render_line split: line_kind.split)
  moreover have "kind_of (entry_line k (the (map_of es k))) \<noteq> Bad" if "k \<in> dom (map_of es)" for k
    using that assms by (auto simp: kind_of_entry_line dest: wf_entries_lookup)
  ultimately show ?thesis unfolding rendered_lines_def set_append set_map set_new_keys by blast
qed

lemma pairs_of_render:
  "wf_entries es \<Longrightarrow>
   pairs_of (map (render_line es) ls) =
     map (\<lambda>(k, v). (k, case map_of es k of Some v' \<Rightarrow> v' | None \<Rightarrow> v)) (pairs_of ls)"
proof (induction ls)
  case (Cons l ls)
  then show ?case by (cases "kind_of l") (simp_all add: pairs_of_Cons kind_of_render_line)
qed simp

lemma pairs_of_entries:
  "wf_entries es \<Longrightarrow> set ks \<subseteq> dom (map_of es) \<Longrightarrow>
   pairs_of (map (\<lambda>k. entry_line k (the (map_of es k))) ks) = map (\<lambda>k. (k, the (map_of es k))) ks"
proof (induction ks)
  case (Cons k ks)
  then obtain v where "map_of es k = Some v" by auto
  with Cons show ?case
    by (auto simp: pairs_of_Cons kind_of_entry_line dest: wf_entries_lookup)
qed simp

lemma map_of_override_list:
  "map_of (map (\<lambda>(k, v). (k, case m k of Some v' \<Rightarrow> v' | None \<Rightarrow> v)) ps) k =
     (if k \<in> fst ` set ps then (case m k of Some v' \<Rightarrow> Some v' | None \<Rightarrow> map_of ps k) else None)"
  by (induction ps) (auto split: option.split)

lemma map_of_pairs_rendered:
  assumes "wf_entries es"
  shows "map_of (rev (pairs_of (rendered_lines es ls))) = map_of (rev (pairs_of ls)) ++ map_of es"
proof
  fix k
  let ?w = "snd (render_lines es ls [] [])"
  let ?new = "map (\<lambda>k. (k, the (map_of es k))) (new_keys es ?w)"
  let ?f = "\<lambda>(k, v). (k, case map_of es k of Some v' \<Rightarrow> v' | None \<Rightarrow> v)"
  have w: "set ?w = fst ` set (pairs_of ls) \<inter> dom (map_of es)"
    by (simp add: render_lines_written)
  have eq: "rev (pairs_of (rendered_lines es ls)) = rev ?new @ map ?f (rev (pairs_of ls))"
    using assms by (simp add: rendered_lines_def pairs_of_render pairs_of_entries set_new_keys rev_map)
  have new: "map_of (rev ?new) k = (if k \<in> dom (map_of es) - set ?w then map_of es k else None)"
    by (simp add: map_of_map_restrict [of "\<lambda>k. the (map_of es k)"] rev_map restrict_map_def set_new_keys)
      (auto simp: dom_def)
  have old: "map_of (map ?f (rev (pairs_of ls))) k =
      (if k \<in> fst ` set (pairs_of ls)
       then (case map_of es k of Some v' \<Rightarrow> Some v' | None \<Rightarrow> map_of (rev (pairs_of ls)) k) else None)"
    by (simp add: map_of_override_list)
  have notin: "k \<notin> fst ` set (pairs_of ls) \<Longrightarrow> map_of (rev (pairs_of ls)) k = None"
    by (metis list.set_map map_of_eq_None_iff set_rev)
  show "map_of (rev (pairs_of (rendered_lines es ls))) k = (map_of (rev (pairs_of ls)) ++ map_of es) k"
    unfolding eq map_of_append map_add_def new old using w notin
    by (auto split: option.split)
qed

section \<open>Parsing yields well-formed entries\<close>

lemma wf_entries_update:
  "wf_entries es \<Longrightarrow> wf_key k \<Longrightarrow> wf_val v \<Longrightarrow> wf_entries (AList.update k v es)"
proof -
  assume es: "wf_entries es" and kv: "wf_key k" "wf_val v"
  have "distinct (map fst (AList.update k v es))"
    using es by (simp add: wf_entries_def distinct_update)
  moreover have "wf_key k' \<and> wf_val v'" if "(k', v') \<in> set (AList.update k v es)" for k' v'
  proof -
    have "map_of (AList.update k v es) k' = Some v'"
      using \<open>distinct (map fst (AList.update k v es))\<close> that by simp
    then show ?thesis
      using es kv by (auto simp: update_conv' split: if_splits dest: wf_entries_lookup)
  qed
  ultimately show ?thesis by (auto simp: wf_entries_def list_all_iff)
qed

lemma parse_lines_wf:
  "parse_lines n ls es = Inr es' \<Longrightarrow> \<forall>l \<in> set ls. 10 \<notin> set l \<Longrightarrow> wf_entries es \<Longrightarrow> wf_entries es'"
proof (induction ls arbitrary: n es)
  case (Cons l ls)
  show ?case
  proof (cases "kind_of l")
    case (Pair k v)
    with Cons.prems have "wf_entries (AList.update k v es)"
      by (simp add: wf_entries_update kind_of_wf)
    with Cons Pair show ?thesis by (simp add: parse_lines_Cons)
  qed (use Cons in \<open>simp_all add: parse_lines_Cons\<close>)
qed simp

lemma parse_wf: "parse c = Inr kv \<Longrightarrow> wf_kv kv"
  by (auto simp: parse_def wf_entries_def [of "[]"] split: sum.splits
      dest!: parse_lines_wf dest: str_lines_no_lf)

lemma parse_ok_iff: "(\<exists>kv. parse c = Inr kv) \<longleftrightarrow> (\<forall>l \<in> set (str_lines c). kind_of l \<noteq> Bad)"
  by (auto simp: parse_def parse_lines_ok_iff [of 0 _ "[]", symmetric] split: sum.split)

lemma parse_lookup: "parse c = Inr kv \<Longrightarrow> kv_get kv = map_of (rev (pairs_of (str_lines c)))"
proof -
  assume p: "parse c = Inr kv"
  then have "\<forall>l \<in> set (str_lines c). kind_of l \<noteq> Bad" using parse_ok_iff by blast
  with p show ?thesis
    using parse_lines_good [of "str_lines c" 0 "[]"]
    by (auto simp: parse_def kv_get_def fun_eq_iff split: sum.splits)
qed

lemma parse_render_ok_iff:
  "wf_kv kv \<Longrightarrow> (\<exists>kv'. parse (render_preserving kv c) = Inr kv') \<longleftrightarrow> (\<exists>kv0. parse c = Inr kv0)"
  by (simp add: parse_ok_iff str_lines_render rendered_lines_kinds)

lemma parse_render:
  assumes "wf_kv kv" and "parse c = Inr kv0"
  shows "\<exists>kv'. parse (render_preserving kv c) = Inr kv' \<and> kv_get kv' = kv_get kv0 ++ kv_get kv"
proof -
  obtain kv' where kv': "parse (render_preserving kv c) = Inr kv'"
    using parse_render_ok_iff [OF assms(1)] assms(2) by blast
  have "kv_get kv' = map_of (rev (pairs_of (str_lines c))) ++ map_of (entries kv)"
    using parse_lookup [OF kv'] assms(1)
    by (simp add: str_lines_render map_of_pairs_rendered)
  moreover have "map_of (entries kv) = kv_get kv" by (simp add: kv_get_def [abs_def])
  ultimately show ?thesis using kv' parse_lookup [OF assms(2)] by simp
qed

lemma sanitize_wf: "wf_val (sanitize_config_value v)"
proof -
  have "c \<noteq> 34" if "c \<in> set (sanitize_config_value v)" for c
    using that by (simp add: sanitize_config_value_def)
  then have "bare (\<lambda>c. c = 34) (sanitize_config_value v)"
    by (metis bare_def hd_in_set last_in_set)
  moreover have "10 \<notin> set (sanitize_config_value v)"
    by (simp add: sanitize_config_value_def is_control_def)
  ultimately show ?thesis by (simp add: wf_val_def)
qed

lemma sanitize_idem [simp]:
  "sanitize_config_value (sanitize_config_value v) = sanitize_config_value v"
  by (simp add: sanitize_config_value_def)

lemma kv_set_wf: "wf_kv kv \<Longrightarrow> wf_key k \<Longrightarrow> wf_kv (kv_set k v kv)"
  by (simp add: kv_set_def wf_entries_update sanitize_wf)

lemma kv_get_set: "kv_get (kv_set k v kv) = (kv_get kv)(k \<mapsto> sanitize_config_value v)"
  by (simp add: kv_get_def [abs_def] kv_set_def update_conv')

lemma default_kv_wf: "wf_kv default_kv"
  by (simp add: default_kv_def wf_entries_def)

section \<open>The interface the settings rely on\<close>

text \<open>
  A keyed store kept in a text. Clients put values in memory and write the store over the text
  it came from; decoding the result gives the old bindings overridden by the store's, as long
  as the text decodes at all.
\<close>

locale text_store =
  fixes lookup :: "'s \<Rightarrow> 'k \<Rightarrow> 'v option"
    and put :: "'k \<Rightarrow> 'v \<Rightarrow> 's \<Rightarrow> 's"
    and norm :: "'v \<Rightarrow> 'v"
    and encode :: "'s \<Rightarrow> 't \<Rightarrow> 't"
    and decode :: "'t \<Rightarrow> 'e + 's"
    and good_key :: "'k \<Rightarrow> bool"
    and invar :: "'s \<Rightarrow> bool"
  assumes lookup_put: "lookup (put k v s) = (lookup s)(k \<mapsto> norm v)"
    and invar_put: "invar s \<Longrightarrow> good_key k \<Longrightarrow> invar (put k v s)"
    and invar_decode: "decode t = Inr s \<Longrightarrow> invar s"
    and decode_encode: "invar s \<Longrightarrow> decode t = Inr s0 \<Longrightarrow>
      \<exists>s'. decode (encode s t) = Inr s' \<and> lookup s' = lookup s0 ++ lookup s"
    and decode_encode_bad: "invar s \<Longrightarrow> decode t = Inl e \<Longrightarrow> \<exists>e'. decode (encode s t) = Inl e'"
begin

lemma read_modify_write:
  assumes "decode t = Inr s" and "good_key k"
  shows "\<exists>s'. decode (encode (put k v s) t) = Inr s' \<and> lookup s' = (lookup s)(k \<mapsto> norm v)"
proof -
  have "invar (put k v s)" using assms by (auto intro: invar_put invar_decode)
  then obtain s' where "decode (encode (put k v s) t) = Inr s'"
    and "lookup s' = lookup s ++ (lookup s)(k \<mapsto> norm v)"
    using decode_encode [OF _ assms(1)] by (metis lookup_put)
  then show ?thesis by (auto simp: map_add_def fun_eq_iff split: option.split)
qed

lemma rewrite_unchanged:
  assumes "decode t = Inr s"
  shows "\<exists>s'. decode (encode s t) = Inr s' \<and> lookup s' = lookup s"
proof -
  have "m ++ m = m" for m :: "'k \<Rightarrow> 'v option"
    by (rule ext) (simp add: map_add_def split: option.split)
  with decode_encode [OF invar_decode [OF assms] assms] show ?thesis by simp
qed

end

interpretation kv_store: text_store kv_get kv_set sanitize_config_value render_preserving parse wf_key wf_kv
proof unfold_locales
  fix kv c e
  assume "wf_kv kv" and "parse c = Inl e"
  then show "\<exists>e'. parse (render_preserving kv c) = Inl e'"
    using parse_render_ok_iff [of kv c] by (cases "parse (render_preserving kv c)") auto
qed (simp_all add: kv_get_set kv_set_wf parse_wf parse_render)

section \<open>Properties\<close>

text \<open>
  C35: setting any key to any value, writing the file over the text it was parsed from and
  parsing it again gives the old configuration with exactly that key bound to the sanitised
  value: no value can forge a line, change another key or make the file unparsable.
\<close>

theorem config_write_is_injection_free:
  assumes "parse c = Inr kv" and "wf_key key"
  shows "\<exists>kv'. parse (render_preserving (kv_set key value kv) c) = Inr kv' \<and>
    kv_get kv' = (kv_get kv)(key \<mapsto> sanitize_config_value value)"
  using assms by (rule kv_store.read_modify_write)

theorem config_write_is_injection_free_witness:
  "\<exists>kv'. parse (render_preserving
        (kv_set (lit ''wifi_name'') (lit ''x'' @ [34, 10] @ lit ''nfs_server = y'') default_kv) (lit ''# c'')) = Inr kv' \<and>
    kv_get kv' = (kv_get default_kv)(lit ''wifi_name'' \<mapsto> lit ''xnfs_server = y'')"
proof -
  have "parse (lit ''# c'') = Inr default_kv" by code_simp
  moreover have "wf_key (lit ''wifi_name'')" by code_simp
  moreover have "sanitize_config_value (lit ''x'' @ [34, 10] @ lit ''nfs_server = y'') = lit ''xnfs_server = y''"
    by code_simp
  ultimately show ?thesis
    using config_write_is_injection_free
      [of "lit ''# c''" default_kv "lit ''wifi_name''" "lit ''x'' @ [34, 10] @ lit ''nfs_server = y''"]
    by (simp only:)
qed

text \<open>
  C36: writing a configuration over any parsable text and parsing the result gives the text's
  bindings overridden by the configuration's (keys the configuration does not hold keep the
  value the text gave them).
\<close>

theorem config_render_roundtrip:
  assumes "wf_kv kv" and "parse c = Inr kv0"
  shows "\<exists>kv'. parse (render_preserving kv c) = Inr kv' \<and> wf_kv kv' \<and>
    kv_get kv' = kv_get kv0 ++ kv_get kv"
  using kv_store.decode_encode [OF assms] parse_wf by blast

theorem config_render_roundtrip_witness:
  "\<exists>kv'. parse (render_preserving \<lparr>entries = [(lit ''b'', lit ''2''), (lit ''a'', lit ''1'')]\<rparr> (lit ''a = 0'')) = Inr kv' \<and>
    wf_kv kv' \<and>
    kv_get kv' = kv_get \<lparr>entries = [(lit ''a'', lit ''0'')]\<rparr>
      ++ kv_get \<lparr>entries = [(lit ''b'', lit ''2''), (lit ''a'', lit ''1'')]\<rparr>"
proof (rule config_render_roundtrip)
  show "wf_kv \<lparr>entries = [(lit ''b'', lit ''2''), (lit ''a'', lit ''1'')]\<rparr>" by code_simp
  show "parse (lit ''a = 0'') = Inr \<lparr>entries = [(lit ''a'', lit ''0'')]\<rparr>" by code_simp
qed

text \<open>
  The parser fails exactly at the first line that is neither blank, nor a comment, nor
  contains an equals sign, and reports that line's number (from 1) and its trimmed text.
\<close>

lemma config_parse_error_line:
  assumes "str_lines c = pre @ l # post"
    and "\<forall>x \<in> set pre. kind_of x \<noteq> Bad"
    and "trim l \<noteq> []" and "\<not> starts_with [35] (trim l)" and "61 \<notin> set (trim l)"
  shows "parse c = Inl (parse_error (length pre) (trim l))"
proof -
  have "kind_of l = Bad"
    using assms(3-5) by (simp add: kind_of_def split_once_None_iff [symmetric])
  then show ?thesis
    using assms(1,2) by (simp add: parse_def parse_lines_bad)
qed

lemma config_parse_error_line_witness:
  "parse (lit ''a = 1'' @ [10] @ lit '' oops '' @ [10] @ lit ''b'') = Inl (parse_error 1 (lit ''oops''))"
proof -
  have "trim (lit '' oops '') = lit ''oops''" by code_simp
  moreover have "str_lines (lit ''a = 1'' @ [10] @ lit '' oops '' @ [10] @ lit ''b'')
      = [lit ''a = 1''] @ lit '' oops '' # [lit ''b'']" by code_simp
  moreover have "kind_of (lit ''a = 1'') \<noteq> Bad" by code_simp
  moreover have "lit ''oops'' \<noteq> [] \<and> \<not> starts_with [35] (lit ''oops'') \<and> 61 \<notin> set (lit ''oops'')" by code_simp
  ultimately show ?thesis
    using config_parse_error_line
      [of "lit ''a = 1'' @ [10] @ lit '' oops '' @ [10] @ lit ''b''" "[lit ''a = 1'']" "lit '' oops ''" "[lit ''b'']"]
    by simp
qed

lemma filter_skip_rendered:
  assumes "wf_entries es"
  shows "filter (\<lambda>l. kind_of l = Skip) (map strip_cr (rendered_lines es ls)) =
    map strip_cr (filter (\<lambda>l. kind_of l = Skip) ls)"
proof -
  have "kind_of (entry_line k (the (map_of es k))) \<noteq> Skip" if "k \<in> dom (map_of es)" for k
    using that assms by (auto simp: kind_of_entry_line dest: wf_entries_lookup)
  then have "filter (\<lambda>l. kind_of l = Skip) (map (\<lambda>k. strip_cr (entry_line k (the (map_of es k))))
      (new_keys es w)) = []" for w
    by (auto simp: filter_empty_conv set_new_keys)
  moreover have "filter (\<lambda>l. kind_of l = Skip) (map (strip_cr \<circ> render_line es) ls) =
      map strip_cr (filter (\<lambda>l. kind_of l = Skip) ls)"
  proof (induction ls)
    case (Cons l ls)
    then show ?case
      using assms kind_of_render_line [of es l]
      by (cases "kind_of l") (simp_all add: render_line_def [of es l])
  qed simp
  ultimately show ?thesis by (simp add: rendered_lines_def comp_def)
qed

text \<open>
  The writer keeps every comment and blank line of the original file, in order (up to a
  carriage return before the line feed), and adds none.
\<close>

lemma config_comments_preserved:
  assumes "wf_kv kv"
  shows "filter (\<lambda>l. kind_of l = Skip) (str_lines (render_preserving kv c)) =
    map strip_cr (filter (\<lambda>l. kind_of l = Skip) (str_lines c))"
  using assms by (simp add: str_lines_render filter_skip_rendered)

lemma config_comments_preserved_witness:
  "filter (\<lambda>l. kind_of l = Skip)
      (str_lines (render_preserving \<lparr>entries = [(lit ''k'', lit ''v'')]\<rparr> (lit ''# a'' @ [10, 10] @ lit ''x = 1''))) =
    map strip_cr [lit ''# a'', []]"
proof -
  have "wf_kv \<lparr>entries = [(lit ''k'', lit ''v'')]\<rparr>" by code_simp
  moreover have "filter (\<lambda>l. kind_of l = Skip) (str_lines (lit ''# a'' @ [10, 10] @ lit ''x = 1'')) = [lit ''# a'', []]"
    by code_simp
  ultimately show ?thesis
    using config_comments_preserved [of "\<lparr>entries = [(lit ''k'', lit ''v'')]\<rparr>" "lit ''# a'' @ [10, 10] @ lit ''x = 1''"]
    by simp
qed

end
