(* ===== verification/Regions.thy ===== *)
theory Regions
  imports Rust_Prelude
begin

text \<open>
  The ordering types of \<open>game/rom_tags.rs\<close>: the classification tier of a ROM, its region
  priority, the user's region preference and the sort key that combines them.
\<close>

section \<open>The model\<close>

datatype rom_tier =
    Original | Revision | RegionVariant | Translation | Unlicensed | Homebrew | Hack | PreRelease | Pirate

datatype region_priority = World | Usa | Europe | Japan | OtherRegion | UnknownRegion

datatype region_preference = PrefUsa | PrefEurope | PrefJapan | PrefWorld

fun tier_discriminant :: "rom_tier \<Rightarrow> nat" where
  "tier_discriminant Original = 0"
| "tier_discriminant Revision = 1"
| "tier_discriminant RegionVariant = 2"
| "tier_discriminant Translation = 3"
| "tier_discriminant Unlicensed = 4"
| "tier_discriminant Homebrew = 5"
| "tier_discriminant Hack = 6"
| "tier_discriminant PreRelease = 7"
| "tier_discriminant Pirate = 8"

fun region_discriminant :: "region_priority \<Rightarrow> nat" where
  "region_discriminant World = 0"
| "region_discriminant Usa = 1"
| "region_discriminant Europe = 2"
| "region_discriminant Japan = 3"
| "region_discriminant OtherRegion = 4"
| "region_discriminant UnknownRegion = 5"

definition region_from_str_value :: "rstr \<Rightarrow> region_preference" where
  "region_from_str_value s =
     (if s = lit ''usa'' then PrefUsa
      else if s = lit ''europe'' then PrefEurope
      else if s = lit ''japan'' then PrefJapan
      else PrefWorld)"

fun region_as_str :: "region_preference \<Rightarrow> rstr" where
  "region_as_str PrefUsa = lit ''usa''"
| "region_as_str PrefEurope = lit ''europe''"
| "region_as_str PrefJapan = lit ''japan''"
| "region_as_str PrefWorld = lit ''world''"

fun pref_to_priority :: "region_preference \<Rightarrow> region_priority" where
  "pref_to_priority PrefUsa = Usa"
| "pref_to_priority PrefEurope = Europe"
| "pref_to_priority PrefJapan = Japan"
| "pref_to_priority PrefWorld = World"

definition remaining_order :: "region_preference \<Rightarrow> region_priority list" where
  "remaining_order pref =
     filter (\<lambda>r. r \<noteq> pref_to_priority pref \<and> r \<noteq> World) [Usa, Europe, Japan]"

text \<open>The enumerated search through \<open>remaining\<close>, with the fallback after the loop.\<close>

fun slot_of :: "region_priority \<Rightarrow> nat \<Rightarrow> region_priority list \<Rightarrow> nat" where
  "slot_of self i [] = 3"
| "slot_of self i (r # rs) = (if self = r then 2 + i else slot_of self (Suc i) rs)"

definition region_sort_key :: "region_priority \<Rightarrow> region_preference \<Rightarrow> region_preference option \<Rightarrow> nat" where
  "region_sort_key self pref secondary0 =
     (let secondary = (case secondary0 of None \<Rightarrow> None | Some s \<Rightarrow> if s \<noteq> pref then Some s else None)
      in if self = OtherRegion then 4
         else if self = UnknownRegion then 5
         else if self = pref_to_priority pref then 0
         else (case secondary of
                 Some sec \<Rightarrow>
                   if self = pref_to_priority sec then 1
                   else if self = World then 2
                   else 3
               | None \<Rightarrow>
                   if self = World then 1
                   else slot_of self 0 (remaining_order pref)))"

section \<open>The derived orders\<close>

text \<open>\<open>derive(PartialOrd, Ord)\<close> compares the variants by their discriminants.\<close>

instantiation rom_tier :: linorder
begin

definition less_eq_rom_tier :: "rom_tier \<Rightarrow> rom_tier \<Rightarrow> bool" where
  "less_eq_rom_tier a b \<longleftrightarrow> tier_discriminant a \<le> tier_discriminant b"

definition less_rom_tier :: "rom_tier \<Rightarrow> rom_tier \<Rightarrow> bool" where
  "less_rom_tier a b \<longleftrightarrow> tier_discriminant a < tier_discriminant b"

instance
proof
  fix a b :: rom_tier
  show "a \<le> b \<Longrightarrow> b \<le> a \<Longrightarrow> a = b"
    by (cases a; cases b; simp add: less_eq_rom_tier_def)
qed (auto simp: less_eq_rom_tier_def less_rom_tier_def)

end

instantiation region_priority :: linorder
begin

definition less_eq_region_priority :: "region_priority \<Rightarrow> region_priority \<Rightarrow> bool" where
  "less_eq_region_priority a b \<longleftrightarrow> region_discriminant a \<le> region_discriminant b"

definition less_region_priority :: "region_priority \<Rightarrow> region_priority \<Rightarrow> bool" where
  "less_region_priority a b \<longleftrightarrow> region_discriminant a < region_discriminant b"

instance
proof
  fix a b :: region_priority
  show "a \<le> b \<Longrightarrow> b \<le> a \<Longrightarrow> a = b"
    by (cases a; cases b; simp add: less_eq_region_priority_def)
qed (auto simp: less_eq_region_priority_def less_region_priority_def)

end

section \<open>Lemmas\<close>

lemma region_roundtrip [simp]: "region_from_str_value (region_as_str p) = p"
  by (cases p) (simp_all add: region_from_str_value_def)

lemma region_key_table:
  "region_sort_key World PrefWorld None = 0" "region_sort_key Usa PrefWorld None = 2"
  "region_sort_key Europe PrefWorld None = 3" "region_sort_key Japan PrefWorld None = 4"
  "region_sort_key OtherRegion PrefWorld None = 4" "region_sort_key UnknownRegion PrefWorld None = 5"
  by (simp_all add: region_sort_key_def remaining_order_def)

lemma region_key_le: "region_sort_key r p s \<le> 5"
  by (cases r; cases p; cases s) (auto simp: region_sort_key_def remaining_order_def split: option.split)

section \<open>Properties\<close>

text \<open>
  Without a secondary preference the sort key orders all six regions strictly exactly when
  the primary preference is not World. With World (the default) the key of Japan and the key
  of an unlisted region are both 4, although the function's comment promises
  World > Usa > Europe > Japan > Other > Unknown.
\<close>

lemma region_key_injective_iff: "inj (\<lambda>r. region_sort_key r p None) \<longleftrightarrow> p \<noteq> PrefWorld"
proof
  assume inj: "inj (\<lambda>r. region_sort_key r p None)"
  show "p \<noteq> PrefWorld"
  proof
    assume "p = PrefWorld"
    then have "region_sort_key Japan p None = region_sort_key OtherRegion p None" by (simp add: region_key_table)
    then have "Japan = OtherRegion" using inj by (blast dest: injD)
    then show False by simp
  qed
next
  assume "p \<noteq> PrefWorld"
  then show "inj (\<lambda>r. region_sort_key r p None)"
    by (intro injI; cases p; rename_tac x y; case_tac x; case_tac y;
        simp add: region_sort_key_def remaining_order_def)
qed

lemma region_key_zero: "region_sort_key r p s = 0 \<longleftrightarrow> r = pref_to_priority p"
  by (cases r; cases p; simp add: region_sort_key_def remaining_order_def split: option.split)

lemma region_key_one: "q \<noteq> p \<Longrightarrow> region_sort_key r p (Some q) = 1 \<longleftrightarrow> r = pref_to_priority q"
  by (cases r; cases p; cases q; simp add: region_sort_key_def)

lemma region_key_minor:
  "region_sort_key r p s \<le> region_sort_key OtherRegion p s \<or> r = UnknownRegion"
  "region_sort_key r p s \<le> region_sort_key UnknownRegion p s"
  by (cases r; cases p; simp add: region_sort_key_def remaining_order_def split: option.split)+

text \<open>
  Whatever the preferences, the primary region comes first and alone, a secondary region
  other than the primary comes second and alone, a secondary equal to the primary changes
  nothing, and no region sorts after the unknown one.
\<close>

lemma region_key_priorities:
  "(region_sort_key r p s = 0 \<longleftrightarrow> r = pref_to_priority p) \<and>
   (q \<noteq> p \<longrightarrow> (region_sort_key r p (Some q) = 1 \<longleftrightarrow> r = pref_to_priority q)) \<and>
   region_sort_key r p (Some p) = region_sort_key r p None \<and>
   region_sort_key r p s \<le> region_sort_key UnknownRegion p s"
proof (intro conjI impI)
  show "region_sort_key r p (Some p) = region_sort_key r p None"
    by (simp add: region_sort_key_def)
qed (rule region_key_zero region_key_one region_key_minor | assumption)+

lemma region_key_priorities_witness:
  "PrefJapan \<noteq> PrefUsa \<and> region_sort_key Japan PrefUsa (Some PrefJapan) = 1"
  using region_key_priorities [of Japan PrefUsa None PrefJapan] by simp

end
