(* ===== verification/Skins.thy ===== *)
theory Skins
  imports Rust_Prelude
begin

text \<open>
  The skin identities and palettes of \<open>core/settings/skins.rs\<close>. A \<open>SkinId\<close> is the trimmed,
  lower-cased text it wraps; the eleven bundled skins are the list \<open>SKINS\<close> in display order,
  which is also the meaning of the numeric values that older releases stored.
\<close>

record skin_palette =
  sp_bg :: rstr
  sp_surface :: rstr
  sp_surface_hover :: rstr
  sp_border :: rstr
  sp_text :: rstr
  sp_text_secondary :: rstr
  sp_accent :: rstr
  sp_accent_hover :: rstr

record skin_definition =
  sk_id :: rstr
  sk_name :: rstr
  sk_palette :: skin_palette

definition skin_new :: "rstr \<Rightarrow> rstr" where
  "skin_new value = to_ascii_lowercase (trim value)"

definition skin_default :: rstr where
  "skin_default = skin_new (lit ''replay'')"

definition SKINS :: "skin_definition list" where
  "SKINS =
     (let skin = (\<lambda>i n b s sh bo t ts a ah.
            \<lparr>sk_id = lit i, sk_name = lit n,
             sk_palette = \<lparr>sp_bg = lit b, sp_surface = lit s, sp_surface_hover = lit sh, sp_border = lit bo,
               sp_text = lit t, sp_text_secondary = lit ts, sp_accent = lit a, sp_accent_hover = lit ah\<rparr>\<rparr>)
      in [
      skin ''replay'' ''REPLAY''
        ''#101b32'' ''#162541'' ''#1d3154'' ''#065ab5'' ''#edf4ff'' ''#94a8c7'' ''#be1250'' ''#d52b68'',
      skin ''mega-tech'' ''MEGA TECH''
        ''#1b1e1c'' ''#2d312d'' ''#3a3f3a'' ''#535d55'' ''#e8ebe8'' ''#a2aaa3'' ''#ff004a'' ''#ff3370'',
      skin ''play-choice'' ''PLAY CHOICE''
        ''#003800'' ''#005100'' ''#096809'' ''#4c864c'' ''#e7f0e5'' ''#a8c8a8'' ''#ff4300'' ''#ff6b33'',
      skin ''astro'' ''ASTRO''
        ''#000000'' ''#111111'' ''#1d1d1d'' ''#4e4e4e'' ''#e7eee9'' ''#97a79d'' ''#00b543'' ''#19ca58'',
      skin ''super-video'' ''SUPER VIDEO''
        ''#020304'' ''#111722'' ''#1c2636'' ''#2f54a4'' ''#e8edf5'' ''#9ba9bd'' ''#892123'' ''#a92d30'',
      skin ''mvs'' ''MVS''
        ''#0f0f0f'' ''#1a1a1a'' ''#292929'' ''#5e0a0a'' ''#eeeeee'' ''#a0a0a0'' ''#e10202'' ''#ff2424'',
      skin ''rpg'' ''RPG''
        ''#2c292c'' ''#4e4a4e'' ''#5d585d'' ''#8b542e'' ''#f2e9df'' ''#c5aa92'' ''#6daa2c'' ''#83c43b'',
      skin ''fantasy'' ''FANTASY''
        ''#02023c'' ''#07056d'' ''#08058b'' ''#909290'' ''#f0f1f3'' ''#b8b9c8'' ''#be1250'' ''#d52b68'',
      skin ''simple-purple'' ''SIMPLE PURPLE''
        ''#0e0e0e'' ''#171717'' ''#242424'' ''#474747'' ''#ededed'' ''#a0a0a0'' ''#4c007f'' ''#6500a8'',
      skin ''metal'' ''METAL''
        ''#040404'' ''#161616'' ''#252525'' ''#5d5c5c'' ''#dedede'' ''#929292'' ''#7e2553'' ''#9e3a70'',
      skin ''unicolors'' ''UNICOLORS''
        ''#020001'' ''#151313'' ''#242121'' ''#505050'' ''#eeeae0'' ''#b3a56b'' ''#a49963'' ''#b9ad76''])"

definition skin_from_stored_value :: "rstr \<Rightarrow> rstr option" where
  "skin_from_stored_value value =
     (if trim value = [] then None
      else (case parse_uint 64 value of
              Some index \<Rightarrow> if index < length SKINS then Some (skin_new (sk_id (SKINS ! index))) else None
            | None \<Rightarrow> Some (skin_new value)))"

definition skin_definition_of :: "rstr \<Rightarrow> skin_definition option" where
  "skin_definition_of skin_id = find (\<lambda>skin. sk_id skin = skin_id) SKINS"

definition is_supported :: "rstr \<Rightarrow> bool" where
  "is_supported skin_id \<longleftrightarrow> skin_definition_of skin_id \<noteq> None"

definition skin_palette_of :: "rstr \<Rightarrow> skin_palette" where
  "skin_palette_of skin_id =
     (case skin_definition_of skin_id of Some skin \<Rightarrow> sk_palette skin | None \<Rightarrow> sk_palette (SKINS ! 0))"

definition theme_css :: "rstr \<Rightarrow> rstr option" where
  "theme_css skin_id =
     (if skin_id = lit ''replay'' \<or> \<not> is_supported skin_id then None
      else
        (let p = skin_palette_of skin_id
         in Some (lit '':root{'' @
              lit ''--bg:'' @ sp_bg p @ lit '';'' @
              lit ''--surface:'' @ sp_surface p @ lit '';'' @
              lit ''--surface-hover:'' @ sp_surface_hover p @ lit '';'' @
              lit ''--border:'' @ sp_border p @ lit '';'' @
              lit ''--text:'' @ sp_text p @ lit '';'' @
              lit ''--text-secondary:'' @ sp_text_secondary p @ lit '';'' @
              lit ''--accent:'' @ sp_accent p @ lit '';'' @
              lit ''--accent-hover:'' @ sp_accent_hover p @ lit '';'' @ lit ''}'')))"

definition theme_color :: "rstr \<Rightarrow> rstr" where
  "theme_color skin_id = sp_bg (skin_palette_of skin_id)"

section \<open>Lemmas\<close>

definition hex_color :: "rstr \<Rightarrow> bool" where
  "hex_color s \<longleftrightarrow> length s = 7 \<and> hd s = 35 \<and> list_all (\<lambda>c. is_ascii_digit c \<or> 97 \<le> c \<and> c \<le> 102) (tl s)"

definition palette_ok :: "skin_palette \<Rightarrow> bool" where
  "palette_ok p \<longleftrightarrow>
     hex_color (sp_bg p) \<and> hex_color (sp_surface p) \<and> hex_color (sp_surface_hover p) \<and> hex_color (sp_border p) \<and>
     hex_color (sp_text p) \<and> hex_color (sp_text_secondary p) \<and> hex_color (sp_accent p) \<and> hex_color (sp_accent_hover p)"

lemma skins_wf: "list_all (\<lambda>s. palette_ok (sk_palette s) \<and> skin_new (sk_id s) = sk_id s) SKINS"
  by code_simp

lemma skins_ids_distinct: "distinct (map sk_id SKINS)"
  by code_simp

lemma skins_length: "length SKINS = 11"
  by code_simp

lemma palette_of_wf: "palette_ok (skin_palette_of skin_id)"
proof -
  have "\<exists>s \<in> set SKINS. skin_palette_of skin_id = sk_palette s"
    using skins_length
    by (auto simp: skin_palette_of_def skin_definition_of_def find_Some_iff split: option.splits intro: nth_mem)
  then show ?thesis using skins_wf by (auto simp: list_all_iff)
qed

lemma whitespace_lower: "is_whitespace (to_ascii_lowercase_char c) = is_whitespace c"
  by (auto simp: to_ascii_lowercase_char_def is_ascii_uppercase_def is_whitespace_def)

lemma trim_lower: "trim (to_ascii_lowercase s) = to_ascii_lowercase (trim s)"
  by (simp add: trim_def trim_matches_def trim_start_matches_def trim_end_matches_def to_ascii_lowercase_def
      dropWhile_map o_def whitespace_lower rev_map)

lemma skin_new_idem: "skin_new (skin_new v) = skin_new v"
  by (simp add: skin_new_def trim_lower)

lemma skin_stored_normal:
  assumes "skin_from_stored_value v = Some s"
  shows "skin_new s = s \<and> trim s \<noteq> []"
proof -
  have known: "trim (skin_new (sk_id k)) \<noteq> []" if "k \<in> set SKINS" for k
  proof -
    have "list_all (\<lambda>k. trim (skin_new (sk_id k)) \<noteq> []) SKINS" by code_simp
    with that show ?thesis by (auto simp: list_all_iff)
  qed
  have "trim v \<noteq> [] \<Longrightarrow> trim (skin_new v) \<noteq> []"
    by (simp add: skin_new_def trim_lower) (simp add: to_ascii_lowercase_def)
  with assms known nth_mem [of _ SKINS] skin_new_idem show ?thesis
    by (auto simp: skin_from_stored_value_def split: if_splits option.splits)
qed

text \<open>Characters that neither close the \<open>style\<close> element nor leave the declaration block.\<close>

definition css_char :: "rchar \<Rightarrow> bool" where
  "css_char c \<longleftrightarrow>
     is_ascii_lowercase c \<or> is_ascii_digit c \<or> c = 35 \<or> c = 45 \<or> c = 58 \<or> c = 59 \<or> c = 123 \<or> c = 125"

lemma hex_color_chars: "hex_color s \<Longrightarrow> list_all css_char s"
  by (cases s) (auto simp: hex_color_def list_all_iff css_char_def char_class_defs)

section \<open>Properties\<close>

text \<open>
  The style block built for a skin contains only characters of custom-property declarations
  with hexadecimal colours, whatever text the skin identity is: a stored or requested skin name
  cannot inject markup into the page head.
\<close>

lemma theme_css_is_safe:
  assumes "theme_css skin_id = Some css"
  shows "list_all css_char css \<and> hex_color (theme_color skin_id) \<and> (\<exists>s \<in> set SKINS. sk_id s = skin_id)"
proof -
  note ok = palette_of_wf [of skin_id, unfolded palette_ok_def]
  have supported: "is_supported skin_id" using assms by (auto simp: theme_css_def split: if_splits)
  have "list_all css_char (lit '':root{'')" "list_all css_char (lit ''--bg:'')" "list_all css_char (lit '';'')"
    "list_all css_char (lit ''--surface:'')" "list_all css_char (lit ''--surface-hover:'')"
    "list_all css_char (lit ''--border:'')" "list_all css_char (lit ''--text:'')"
    "list_all css_char (lit ''--text-secondary:'')" "list_all css_char (lit ''--accent:'')"
    "list_all css_char (lit ''--accent-hover:'')" "list_all css_char (lit ''}'')"
    by code_simp+
  then have "list_all css_char css"
    using assms ok hex_color_chars by (simp add: theme_css_def Let_def split: if_splits) auto
  then show ?thesis
    using ok supported by (auto simp: theme_color_def is_supported_def skin_definition_of_def find_Some_iff)
qed

lemma theme_css_is_safe_witness:
  "\<exists>css. theme_css (lit ''mega-tech'') = Some css \<and> list_all css_char css"
proof -
  have "theme_css (lit ''mega-tech'') \<noteq> None" by code_simp
  then show ?thesis using theme_css_is_safe by blast
qed

text \<open>
  A stored skin value survives being read and stored again: what \<open>from_stored_value\<close>
  returns is in normal form and reads back as itself, for the numbers of older releases as for
  names, except for a name that is itself a number.
\<close>

lemma stored_skin_is_stable:
  assumes "skin_from_stored_value value = Some skin_id" and "parse_uint 64 skin_id = None"
  shows "skin_from_stored_value skin_id = Some skin_id"
proof -
  have norm: "skin_new skin_id = skin_id \<and> trim skin_id \<noteq> []"
    using assms(1) skin_stored_normal by blast
  then show ?thesis using assms(2) by (simp add: skin_from_stored_value_def)
qed

lemma stored_skin_is_stable_witness:
  "skin_from_stored_value (lit ''1'') = Some (lit ''mega-tech'') \<and>
   skin_from_stored_value (lit ''mega-tech'') = Some (lit ''mega-tech'')"
proof -
  have "skin_from_stored_value (lit ''1'') = Some (lit ''mega-tech'')" "parse_uint 64 (lit ''mega-tech'') = None"
    by code_simp+
  then show ?thesis using stored_skin_is_stable by blast
qed

end
