(* ===== verification/App_Settings.thy ===== *)
theory App_Settings
  imports Key_Value_Config Regions Skins
begin

text \<open>
  The two typed views of the key-value files (\<open>ReplayConfig\<close> for \<open>replay.cfg\<close>, \<open>AppSettings\<close> for
  \<open>settings.cfg\<close>) of \<open>platform/config.rs\<close>, and the read and write functions of \<open>settings.rs\<close>
  on the \<open>SettingsStore\<close>.

  The store is the state of its one file. Every write takes the operating-system fault it meets
  (\<open>None\<close> when every call succeeds) and returns the new file with the result.
\<close>

section \<open>Enumerations kept in the settings\<close>

datatype admin_session_timeout = OneHour | ThreeHours | TwelveHours

definition timeout_from_str_value :: "rstr \<Rightarrow> admin_session_timeout option" where
  "timeout_from_str_value value =
     (if value = lit ''1h'' then Some OneHour
      else if value = lit ''3h'' then Some ThreeHours
      else if value = lit ''12h'' then Some TwelveHours
      else None)"

fun timeout_as_str :: "admin_session_timeout \<Rightarrow> rstr" where
  "timeout_as_str OneHour = lit ''1h''"
| "timeout_as_str ThreeHours = lit ''3h''"
| "timeout_as_str TwelveHours = lit ''12h''"

fun timeout_seconds :: "admin_session_timeout \<Rightarrow> u64" where
  "timeout_seconds OneHour = 60 * 60"
| "timeout_seconds ThreeHours = 3 * 60 * 60"
| "timeout_seconds TwelveHours = 12 * 60 * 60"

datatype locale_code = LocaleAuto | LocaleEn | LocaleEs | LocaleJa

fun locale_to_code :: "locale_code \<Rightarrow> rstr" where
  "locale_to_code LocaleAuto = lit ''auto''"
| "locale_to_code LocaleEn = lit ''en''"
| "locale_to_code LocaleEs = lit ''es''"
| "locale_to_code LocaleJa = lit ''ja''"

definition locale_from_code :: "rstr \<Rightarrow> locale_code" where
  "locale_from_code code =
     (if code = lit ''auto'' then LocaleAuto
      else if code = lit ''es'' then LocaleEs
      else if code = lit ''ja'' then LocaleJa
      else LocaleEn)"

definition locale_effective :: "locale_code \<Rightarrow> locale_code option" where
  "locale_effective l = (if l = LocaleAuto then None else Some l)"

datatype update_channel = Stable | Beta

fun channel_as_str :: "update_channel \<Rightarrow> rstr" where
  "channel_as_str Stable = lit ''stable''"
| "channel_as_str Beta = lit ''beta''"

definition channel_from_str_value :: "rstr \<Rightarrow> update_channel" where
  "channel_from_str_value s = (if s = lit ''beta'' then Beta else Stable)"

section \<open>ReplayConfig\<close>

record replay_config =
  rc_inner :: key_value_file

definition or_default :: "'a option \<Rightarrow> 'a \<Rightarrow> 'a" where
  "or_default x d = (case x of None \<Rightarrow> d | Some y \<Rightarrow> y)"

text \<open>The message of the errors that \<open>from_file\<close> and \<open>write_to_file\<close> build from the path.\<close>

definition replay_config_from_file :: "rstr \<Rightarrow> disk_file \<Rightarrow> replay_config rresult" where
  "replay_config_from_file path f =
     (case read_to_string path f of
        Inl e \<Rightarrow> Inl e
      | Inr content \<Rightarrow>
          if trim content = [] then Inl (Other (lit ''replay.cfg at '' @ path @ lit '' is empty''))
          else (case parse content of Inl e \<Rightarrow> Inl e | Inr kv \<Rightarrow> Inr \<lparr>rc_inner = kv\<rparr>))"

definition storage_mode :: "replay_config \<Rightarrow> rstr" where
  "storage_mode c = or_default (kv_get (rc_inner c) (lit ''system_storage'')) (lit ''sd'')"

definition data_location :: "replay_config \<Rightarrow> rstr" where
  "data_location c =
     or_default (kv_get (rc_inner c) (lit ''system_data_location'')) (lit ''storage_unit'')"

definition wifi_name :: "replay_config \<Rightarrow> rstr option" where
  "wifi_name c = kv_get (rc_inner c) (lit ''wifi_name'')"

definition wifi_country :: "replay_config \<Rightarrow> rstr option" where
  "wifi_country c = kv_get (rc_inner c) (lit ''wifi_country'')"

definition wifi_mode :: "replay_config \<Rightarrow> rstr option" where
  "wifi_mode c = kv_get (rc_inner c) (lit ''wifi_mode'')"

definition wifi_hidden :: "replay_config \<Rightarrow> bool" where
  "wifi_hidden c \<longleftrightarrow> or_default (kv_get (rc_inner c) (lit ''wifi_hidden'')) (lit ''false'') = lit ''true''"

definition nfs_server :: "replay_config \<Rightarrow> rstr option" where
  "nfs_server c = kv_get (rc_inner c) (lit ''nfs_server'')"

definition nfs_share :: "replay_config \<Rightarrow> rstr option" where
  "nfs_share c = kv_get (rc_inner c) (lit ''nfs_share'')"

definition nfs_version :: "replay_config \<Rightarrow> rstr option" where
  "nfs_version c = kv_get (rc_inner c) (lit ''nfs_version'')"

definition replay_http_token :: "replay_config \<Rightarrow> rstr option" where
  "replay_http_token c = get_non_empty (rc_inner c) (lit ''replay_http_token'')"

definition system_net_control_enabled :: "replay_config \<Rightarrow> bool" where
  "system_net_control_enabled c \<longleftrightarrow> kv_get (rc_inner c) (lit ''system_net_control'') = Some (lit ''true'')"

definition system_kiosk_mode_enabled :: "replay_config \<Rightarrow> bool" where
  "system_kiosk_mode_enabled c \<longleftrightarrow> kv_get (rc_inner c) (lit ''system_kiosk_mode'') = Some (lit ''true'')"

definition has_net_control_key :: "replay_config \<Rightarrow> bool" where
  "has_net_control_key c \<longleftrightarrow> kv_get (rc_inner c) (lit ''system_net_control'') \<noteq> None"

definition video_mode :: "replay_config \<Rightarrow> rstr option" where
  "video_mode c = kv_get (rc_inner c) (lit ''video_mode'')"

definition video_connector :: "replay_config \<Rightarrow> rstr option" where
  "video_connector c = kv_get (rc_inner c) (lit ''video_connector'')"

definition system_skin_id :: "replay_config \<Rightarrow> rstr" where
  "system_skin_id c = or_default (get_non_empty (rc_inner c) (lit ''system_skin'')) (lit ''replay'')"

definition system_skin :: "replay_config \<Rightarrow> rstr" where
  "system_skin c = skin_new (system_skin_id c)"

definition retroachievements_username :: "replay_config \<Rightarrow> rstr option" where
  "retroachievements_username c = get_non_empty (rc_inner c) (lit ''rcheevos_username'')"

definition retroachievements_password_configured :: "replay_config \<Rightarrow> bool" where
  "retroachievements_password_configured c \<longleftrightarrow> get_non_empty (rc_inner c) (lit ''rcheevos_password'') \<noteq> None"

definition replay_insider_token_configured :: "replay_config \<Rightarrow> bool" where
  "replay_insider_token_configured c \<longleftrightarrow> get_non_empty (rc_inner c) (lit ''replay_insider_token'') \<noteq> None"

definition set_system_net_control :: "bool \<Rightarrow> replay_config \<Rightarrow> replay_config" where
  "set_system_net_control enabled c =
     c\<lparr>rc_inner := kv_set (lit ''system_net_control'') (if enabled then lit ''true'' else lit ''false'') (rc_inner c)\<rparr>"

definition write_to_file ::
  "error option \<Rightarrow> replay_config \<Rightarrow> rstr \<Rightarrow> disk_file \<Rightarrow> disk_file \<Rightarrow> disk_file \<times> unit rresult" where
  "write_to_file fault c original_path original output_file =
     (if original = Missing then
        (output_file, Inl (Other (lit ''config file '' @ original_path @
           lit '' does not exist; it must be created by RePlayOS first'')))
      else if original = Contents [] then
        (output_file, Inl (Other (lit ''config file '' @ original_path @
           lit '' is empty; refusing to rewrite it'')))
      else kv_write fault (rc_inner c) original_path original output_file)"

section \<open>AppSettings\<close>

record app_settings =
  as_inner :: key_value_file

definition app_settings_empty :: app_settings where
  "app_settings_empty = \<lparr>as_inner = default_kv\<rparr>"

definition app_settings_from_file :: "rstr \<Rightarrow> disk_file \<Rightarrow> app_settings rresult" where
  "app_settings_from_file path f =
     (case kv_from_file path f of Inl e \<Rightarrow> Inl e | Inr kv \<Rightarrow> Inr \<lparr>as_inner = kv\<rparr>)"

definition app_settings_save ::
  "error option \<Rightarrow> rstr \<Rightarrow> app_settings \<Rightarrow> disk_file \<Rightarrow> disk_file \<times> unit rresult" where
  "app_settings_save fault path s f =
     (if f \<noteq> Missing then kv_write fault (as_inner s) path f f
      else write_atomic fault (render_preserving (as_inner s) []) f)"

definition region_preference :: "app_settings \<Rightarrow> rstr" where
  "region_preference s = or_default (kv_get (as_inner s) (lit ''region_preference'')) (lit ''world'')"

definition region_preference_secondary :: "app_settings \<Rightarrow> rstr option" where
  "region_preference_secondary s = get_non_empty (as_inner s) (lit ''region_preference_secondary'')"

definition font_size :: "app_settings \<Rightarrow> rstr" where
  "font_size s =
     (if kv_get (as_inner s) (lit ''font_size'') = Some (lit ''large'') then lit ''large'' else lit ''normal'')"

definition skin :: "app_settings \<Rightarrow> rstr option" where
  "skin s =
     (case get_non_empty (as_inner s) (lit ''skin'') of
        None \<Rightarrow> None | Some v \<Rightarrow> skin_from_stored_value v)"

definition language_primary :: "app_settings \<Rightarrow> rstr option" where
  "language_primary s = get_non_empty (as_inner s) (lit ''language_primary'')"

definition language_secondary :: "app_settings \<Rightarrow> rstr option" where
  "language_secondary s = get_non_empty (as_inner s) (lit ''language_secondary'')"

definition locale_setting :: "app_settings \<Rightarrow> locale_code option" where
  "locale_setting s =
     (case get_non_empty (as_inner s) (lit ''locale'') of
        None \<Rightarrow> None | Some code \<Rightarrow> locale_effective (locale_from_code code))"

definition locale_preference :: "app_settings \<Rightarrow> locale_code" where
  "locale_preference s =
     (case get_non_empty (as_inner s) (lit ''locale'') of
        None \<Rightarrow> LocaleAuto | Some code \<Rightarrow> locale_from_code code)"

definition github_api_key :: "app_settings \<Rightarrow> rstr option" where
  "github_api_key s = get_non_empty (as_inner s) (lit ''github_api_key'')"

definition replay_api_token :: "app_settings \<Rightarrow> rstr option" where
  "replay_api_token s = get_non_empty (as_inner s) (lit ''replay_api_token'')"

definition update_channel_setting :: "app_settings \<Rightarrow> rstr" where
  "update_channel_setting s = or_default (kv_get (as_inner s) (lit ''update_channel'')) (lit ''stable'')"

definition skipped_version :: "app_settings \<Rightarrow> rstr option" where
  "skipped_version s = get_non_empty (as_inner s) (lit ''skipped_version'')"

definition install_id :: "app_settings \<Rightarrow> rstr option" where
  "install_id s = get_non_empty (as_inner s) (lit ''install_id'')"

definition version_last_reported :: "app_settings \<Rightarrow> rstr option" where
  "version_last_reported s = get_non_empty (as_inner s) (lit ''version_last_reported'')"

definition analytics_enabled :: "app_settings \<Rightarrow> bool" where
  "analytics_enabled s \<longleftrightarrow> kv_get (as_inner s) (lit ''analytics'') \<noteq> Some (lit ''false'')"

definition first_setup_done :: "app_settings \<Rightarrow> bool" where
  "first_setup_done s \<longleftrightarrow> kv_get (as_inner s) (lit ''first_setup_done'') = Some (lit ''true'')"

definition admin_session_timeout_setting :: "app_settings \<Rightarrow> admin_session_timeout" where
  "admin_session_timeout_setting s =
     (case kv_get (as_inner s) (lit ''admin_session_timeout'') of
        None \<Rightarrow> OneHour
      | Some v \<Rightarrow> or_default (timeout_from_str_value v) OneHour)"

definition valid_duration :: "nat \<Rightarrow> bool" where
  "valid_duration d \<longleftrightarrow> d = 1 \<or> d = 3 \<or> d = 5 \<or> d = 10"

definition replayos_message_duration_secs :: "app_settings \<Rightarrow> nat" where
  "replayos_message_duration_secs s =
     (case kv_get (as_inner s) (lit ''replayos_message_duration_secs'') of
        None \<Rightarrow> 3
      | Some v \<Rightarrow>
          (case parse_uint 8 v of None \<Rightarrow> 3 | Some d \<Rightarrow> if valid_duration d then d else 3))"

definition setup_dismissed :: "app_settings \<Rightarrow> bool" where
  "setup_dismissed s \<longleftrightarrow> kv_get (as_inner s) (lit ''setup_dismissed'') = Some (lit ''true'')"

text \<open>The setters all go through \<open>KeyValueFile::set\<close>.\<close>

definition set_key :: "rstr \<Rightarrow> rstr \<Rightarrow> app_settings \<Rightarrow> app_settings" where
  "set_key key value s = s\<lparr>as_inner := kv_set key value (as_inner s)\<rparr>"

definition bool_str :: "bool \<Rightarrow> rstr" where
  "bool_str b = (if b then lit ''true'' else lit ''false'')"

definition set_region_preference :: "rstr \<Rightarrow> app_settings \<Rightarrow> app_settings" where
  "set_region_preference = set_key (lit ''region_preference'')"

definition set_region_preference_secondary :: "rstr \<Rightarrow> app_settings \<Rightarrow> app_settings" where
  "set_region_preference_secondary = set_key (lit ''region_preference_secondary'')"

definition set_font_size :: "rstr \<Rightarrow> app_settings \<Rightarrow> app_settings" where
  "set_font_size value =
     set_key (lit ''font_size'') (if value = lit ''large'' then lit ''large'' else lit ''normal'')"

definition set_skin :: "rstr option \<Rightarrow> app_settings \<Rightarrow> app_settings" where
  "set_skin sk = set_key (lit ''skin'') (case sk of Some skin_id \<Rightarrow> skin_id | None \<Rightarrow> [])"

definition set_language_primary :: "rstr \<Rightarrow> app_settings \<Rightarrow> app_settings" where
  "set_language_primary = set_key (lit ''language_primary'')"

definition set_language_secondary :: "rstr \<Rightarrow> app_settings \<Rightarrow> app_settings" where
  "set_language_secondary = set_key (lit ''language_secondary'')"

definition set_locale :: "rstr \<Rightarrow> app_settings \<Rightarrow> app_settings" where
  "set_locale = set_key (lit ''locale'')"

definition set_github_api_key :: "rstr \<Rightarrow> app_settings \<Rightarrow> app_settings" where
  "set_github_api_key = set_key (lit ''github_api_key'')"

definition set_replay_api_token :: "rstr \<Rightarrow> app_settings \<Rightarrow> app_settings" where
  "set_replay_api_token = set_key (lit ''replay_api_token'')"

definition set_update_channel :: "rstr \<Rightarrow> app_settings \<Rightarrow> app_settings" where
  "set_update_channel = set_key (lit ''update_channel'')"

definition set_skipped_version :: "rstr \<Rightarrow> app_settings \<Rightarrow> app_settings" where
  "set_skipped_version = set_key (lit ''skipped_version'')"

definition set_install_id :: "rstr \<Rightarrow> app_settings \<Rightarrow> app_settings" where
  "set_install_id = set_key (lit ''install_id'')"

definition set_version_last_reported :: "rstr \<Rightarrow> app_settings \<Rightarrow> app_settings" where
  "set_version_last_reported = set_key (lit ''version_last_reported'')"

definition set_analytics :: "bool \<Rightarrow> app_settings \<Rightarrow> app_settings" where
  "set_analytics enabled = set_key (lit ''analytics'') (bool_str enabled)"

definition set_first_setup_done :: "bool \<Rightarrow> app_settings \<Rightarrow> app_settings" where
  "set_first_setup_done setup_done = set_key (lit ''first_setup_done'') (bool_str setup_done)"

definition set_admin_session_timeout :: "admin_session_timeout \<Rightarrow> app_settings \<Rightarrow> app_settings" where
  "set_admin_session_timeout timeout = set_key (lit ''admin_session_timeout'') (timeout_as_str timeout)"

definition set_replayos_message_duration_secs :: "nat \<Rightarrow> app_settings \<Rightarrow> app_settings" where
  "set_replayos_message_duration_secs duration_secs =
     set_key (lit ''replayos_message_duration_secs'')
       (nat_to_str (if valid_duration duration_secs then duration_secs else 3))"

definition set_setup_dismissed :: "bool \<Rightarrow> app_settings \<Rightarrow> app_settings" where
  "set_setup_dismissed dismissed = set_key (lit ''setup_dismissed'') (bool_str dismissed)"

section \<open>SettingsStore\<close>

text \<open>\<open>settings_path\<close> is the path of the file; only error values carry it.\<close>

definition settings_path :: rstr where
  "settings_path = lit ''settings.cfg''"

definition store_load :: "disk_file \<Rightarrow> app_settings" where
  "store_load f =
     (case app_settings_from_file settings_path f of Inl _ \<Rightarrow> app_settings_empty | Inr s \<Rightarrow> s)"

definition store_save :: "error option \<Rightarrow> app_settings \<Rightarrow> disk_file \<Rightarrow> disk_file \<times> unit rresult" where
  "store_save fault s f = app_settings_save fault settings_path s f"

definition migrate_from_storage :: "error option \<Rightarrow> disk_file \<Rightarrow> disk_file \<Rightarrow> disk_file \<times> unit rresult" where
  "migrate_from_storage fault old f =
     (if f \<noteq> Missing then (f, Inr ())
      else if old = Missing then (f, Inr ())
      else (case fault of Some e \<Rightarrow> (f, Inl e) | None \<Rightarrow> (old, Inr ())))"

record user_preferences =
  up_skin :: "rstr option"
  up_locale :: "locale_code option"
  up_region :: region_preference
  up_region_secondary :: "region_preference option"
  up_font_size :: rstr
  up_setup_dismissed :: bool
  up_first_setup_done :: bool

definition user_preferences_load :: "disk_file \<Rightarrow> user_preferences" where
  "user_preferences_load f =
     (let s = store_load f
      in \<lparr>up_skin = skin s, up_locale = locale_setting s,
          up_region = region_from_str_value (region_preference s),
          up_region_secondary = map_option region_from_str_value (region_preference_secondary s),
          up_font_size = font_size s, up_setup_dismissed = setup_dismissed s,
          up_first_setup_done = first_setup_done s\<rparr>)"

definition read_region_preference :: "disk_file \<Rightarrow> region_preference" where
  "read_region_preference f = region_from_str_value (region_preference (store_load f))"

definition write_region_preference ::
  "error option \<Rightarrow> region_preference \<Rightarrow> disk_file \<Rightarrow> disk_file \<times> unit rresult" where
  "write_region_preference fault pref f =
     store_save fault (set_region_preference (region_as_str pref) (store_load f)) f"

definition read_region_preference_secondary :: "disk_file \<Rightarrow> region_preference option" where
  "read_region_preference_secondary f =
     map_option region_from_str_value (region_preference_secondary (store_load f))"

definition write_region_preference_secondary ::
  "error option \<Rightarrow> region_preference option \<Rightarrow> disk_file \<Rightarrow> disk_file \<times> unit rresult" where
  "write_region_preference_secondary fault pref f =
     store_save fault
       (set_region_preference_secondary (or_default (map_option region_as_str pref) []) (store_load f)) f"

definition write_font_size :: "error option \<Rightarrow> rstr \<Rightarrow> disk_file \<Rightarrow> disk_file \<times> unit rresult" where
  "write_font_size fault value f = store_save fault (set_font_size value (store_load f)) f"

definition read_skin :: "disk_file \<Rightarrow> rstr option" where
  "read_skin f = skin (store_load f)"

definition write_skin :: "error option \<Rightarrow> rstr option \<Rightarrow> disk_file \<Rightarrow> disk_file \<times> unit rresult" where
  "write_skin fault sk f = store_save fault (set_skin sk (store_load f)) f"

definition read_language_primary :: "disk_file \<Rightarrow> rstr option" where
  "read_language_primary f = language_primary (store_load f)"

definition write_language_primary :: "error option \<Rightarrow> rstr \<Rightarrow> disk_file \<Rightarrow> disk_file \<times> unit rresult" where
  "write_language_primary fault lang f = store_save fault (set_language_primary lang (store_load f)) f"

definition read_language_secondary :: "disk_file \<Rightarrow> rstr option" where
  "read_language_secondary f = language_secondary (store_load f)"

definition write_language_secondary :: "error option \<Rightarrow> rstr \<Rightarrow> disk_file \<Rightarrow> disk_file \<times> unit rresult" where
  "write_language_secondary fault lang f = store_save fault (set_language_secondary lang (store_load f)) f"

definition write_language_preferences ::
  "error option \<Rightarrow> rstr \<Rightarrow> rstr \<Rightarrow> disk_file \<Rightarrow> disk_file \<times> unit rresult" where
  "write_language_preferences fault primary secondary f =
     store_save fault
       (set_language_secondary secondary (set_language_primary primary (store_load f))) f"

definition default_language_for_region :: "region_preference \<Rightarrow> rstr" where
  "default_language_for_region region = (case region of PrefJapan \<Rightarrow> lit ''ja'' | _ \<Rightarrow> lit ''en'')"

definition preferred_languages :: "rstr option \<Rightarrow> rstr option \<Rightarrow> region_preference \<Rightarrow> rstr list" where
  "preferred_languages primary secondary region =
     (let langs =
            (case primary of
               Some p \<Rightarrow> if p \<noteq> [] then [p] else [default_language_for_region region]
             | None \<Rightarrow> [default_language_for_region region]);
          langs =
            (case secondary of
               Some s \<Rightarrow> if s \<noteq> [] \<and> s \<notin> set langs then langs @ [s] else langs
             | None \<Rightarrow> langs)
      in if lit ''en'' \<notin> set langs then langs @ [lit ''en''] else langs)"

text \<open>\<open>str::to_lowercase\<close> is the parameter \<open>lc\<close>: its Unicode tables are not part of the source.\<close>

definition lang_matches :: "(rstr \<Rightarrow> rstr) \<Rightarrow> rstr \<Rightarrow> rstr \<Rightarrow> bool" where
  "lang_matches lc manual_lang pref_lang \<longleftrightarrow>
     (let m = lc manual_lang; p = lc pref_lang
      in m = p \<or> hd (split_on 45 m) = p \<or> hd (split_on 45 p) = m)"

fun match_score_from :: "(rstr \<Rightarrow> rstr) \<Rightarrow> rstr list \<Rightarrow> nat \<Rightarrow> rstr list \<Rightarrow> nat" where
  "match_score_from lc manual_langs priority [] = 3"
| "match_score_from lc manual_langs priority (pref_lang # rest) =
     (if list_ex (\<lambda>m. lang_matches lc m pref_lang) manual_langs then priority mod 256
      else match_score_from lc manual_langs (Suc priority) rest)"

definition language_match_score :: "(rstr \<Rightarrow> rstr) \<Rightarrow> rstr \<Rightarrow> rstr list \<Rightarrow> nat" where
  "language_match_score lc manual_languages preferred =
     (let manual_langs = filter (\<lambda>s. s \<noteq> []) (map trim (split_on 44 manual_languages))
      in if manual_langs = [] then 3 else match_score_from lc manual_langs 0 preferred)"

definition read_locale :: "disk_file \<Rightarrow> locale_code option" where
  "read_locale f = locale_setting (store_load f)"

definition read_locale_preference :: "disk_file \<Rightarrow> locale_code" where
  "read_locale_preference f = locale_preference (store_load f)"

definition write_locale :: "error option \<Rightarrow> locale_code \<Rightarrow> disk_file \<Rightarrow> disk_file \<times> unit rresult" where
  "write_locale fault l f = store_save fault (set_locale (locale_to_code l) (store_load f)) f"

definition write_setup_dismissed :: "error option \<Rightarrow> bool \<Rightarrow> disk_file \<Rightarrow> disk_file \<times> unit rresult" where
  "write_setup_dismissed fault dismissed f =
     store_save fault (set_setup_dismissed dismissed (store_load f)) f"

definition read_first_setup_done :: "disk_file \<Rightarrow> bool" where
  "read_first_setup_done f = first_setup_done (store_load f)"

definition write_first_setup_done :: "error option \<Rightarrow> bool \<Rightarrow> disk_file \<Rightarrow> disk_file \<times> unit rresult" where
  "write_first_setup_done fault setup_done f =
     store_save fault (set_first_setup_done setup_done (store_load f)) f"

definition read_admin_session_timeout :: "disk_file \<Rightarrow> admin_session_timeout" where
  "read_admin_session_timeout f = admin_session_timeout_setting (store_load f)"

definition write_admin_session_timeout ::
  "error option \<Rightarrow> admin_session_timeout \<Rightarrow> disk_file \<Rightarrow> disk_file \<times> unit rresult" where
  "write_admin_session_timeout fault timeout f =
     store_save fault (set_admin_session_timeout timeout (store_load f)) f"

definition read_replayos_message_duration_secs :: "disk_file \<Rightarrow> nat" where
  "read_replayos_message_duration_secs f = replayos_message_duration_secs (store_load f)"

definition write_replayos_message_duration_secs ::
  "error option \<Rightarrow> nat \<Rightarrow> disk_file \<Rightarrow> disk_file \<times> unit rresult" where
  "write_replayos_message_duration_secs fault duration_secs f =
     store_save fault (set_replayos_message_duration_secs duration_secs (store_load f)) f"

definition read_github_api_key :: "disk_file \<Rightarrow> rstr option" where
  "read_github_api_key f = github_api_key (store_load f)"

definition write_github_api_key :: "error option \<Rightarrow> rstr \<Rightarrow> disk_file \<Rightarrow> disk_file \<times> unit rresult" where
  "write_github_api_key fault key f = store_save fault (set_github_api_key key (store_load f)) f"

definition read_replay_api_token :: "disk_file \<Rightarrow> rstr option" where
  "read_replay_api_token f = replay_api_token (store_load f)"

definition write_replay_api_token :: "error option \<Rightarrow> rstr \<Rightarrow> disk_file \<Rightarrow> disk_file \<times> unit rresult" where
  "write_replay_api_token fault token f = store_save fault (set_replay_api_token token (store_load f)) f"

definition read_update_channel :: "disk_file \<Rightarrow> update_channel" where
  "read_update_channel f = channel_from_str_value (update_channel_setting (store_load f))"

definition write_update_channel ::
  "error option \<Rightarrow> update_channel \<Rightarrow> disk_file \<Rightarrow> disk_file \<times> unit rresult" where
  "write_update_channel fault channel f =
     store_save fault (set_update_channel (channel_as_str channel) (store_load f)) f"

definition read_analytics_enabled :: "disk_file \<Rightarrow> bool" where
  "read_analytics_enabled f = analytics_enabled (store_load f)"

definition write_analytics :: "error option \<Rightarrow> bool \<Rightarrow> disk_file \<Rightarrow> disk_file \<times> unit rresult" where
  "write_analytics fault enabled f = store_save fault (set_analytics enabled (store_load f)) f"

definition write_version_last_reported :: "error option \<Rightarrow> rstr \<Rightarrow> disk_file \<Rightarrow> disk_file \<times> unit rresult" where
  "write_version_last_reported fault version f =
     store_save fault (set_version_last_reported version (store_load f)) f"

definition read_skipped_version :: "disk_file \<Rightarrow> rstr option" where
  "read_skipped_version f = skipped_version (store_load f)"

definition write_skipped_version :: "error option \<Rightarrow> rstr \<Rightarrow> disk_file \<Rightarrow> disk_file \<times> unit rresult" where
  "write_skipped_version fault version f = store_save fault (set_skipped_version version (store_load f)) f"

section \<open>Reading back what was written\<close>

text \<open>The bindings of the store, and the files that load (absent, or parsable).\<close>

definition settings_map :: "disk_file \<Rightarrow> rstr \<Rightarrow> rstr option" where
  "settings_map f = kv_get (as_inner (store_load f))"

definition loadable :: "disk_file \<Rightarrow> bool" where
  "loadable f = (case f of Missing \<Rightarrow> True | Unreadable \<Rightarrow> False | Contents c \<Rightarrow> (case parse c of Inl _ \<Rightarrow> False | Inr _ \<Rightarrow> True))"

lemma parse_Nil [simp]: "parse [] = Inr default_kv"
  by (simp add: parse_def default_kv_def)

lemma store_load_simps:
  "store_load Missing = app_settings_empty"
  "store_load Unreadable = app_settings_empty"
  "parse c = Inr kv \<Longrightarrow> store_load (Contents c) = \<lparr>as_inner = kv\<rparr>"
  "parse c = Inl e \<Longrightarrow> store_load (Contents c) = app_settings_empty"
  by (simp_all add: store_load_def app_settings_from_file_def kv_from_file_def read_to_string_def)

lemma store_save_set_key:
  assumes "loadable f" and "wf_key k"
  obtains f' where "store_save None (set_key k v (store_load f)) f = (f', Inr ())" "loadable f'"
    "settings_map f' = (settings_map f)(k \<mapsto> sanitize_config_value v)"
proof -
  define c where "c = (case f of Contents c \<Rightarrow> c | _ \<Rightarrow> [])"
  obtain kv where kv: "parse c = Inr kv" and load: "store_load f = \<lparr>as_inner = kv\<rparr>"
    using assms(1) by (cases f) (auto simp: c_def loadable_def store_load_simps app_settings_empty_def split: sum.splits)
  have save: "store_save None (set_key k v (store_load f)) f = (Contents (render_preserving (kv_set k v kv) c), Inr ())"
    using assms(1) load
    by (cases f) (auto simp: c_def loadable_def store_save_def app_settings_save_def kv_write_def write_atomic_def
        read_to_string_def set_key_def)
  obtain kv' where kv': "parse (render_preserving (kv_set k v kv) c) = Inr kv'"
      "kv_get kv' = (kv_get kv)(k \<mapsto> sanitize_config_value v)"
    using kv_store.read_modify_write [OF kv assms(2)] by blast
  show ?thesis
    by (rule that [OF save]) (use kv' load in \<open>simp_all add: loadable_def settings_map_def store_load_simps\<close>)
qed

text \<open>
  The contract that every typed setting meets: it lives under one key, its writer is a
  read-modify-write of that key, its reader looks at that key only.
\<close>

locale typed_setting =
  fixes key :: rstr
    and enc :: "'v \<Rightarrow> rstr"
    and dec :: "rstr option \<Rightarrow> 'w"
    and norm :: "'v \<Rightarrow> 'w"
    and writer :: "error option \<Rightarrow> 'v \<Rightarrow> disk_file \<Rightarrow> disk_file \<times> unit rresult"
    and reader :: "disk_file \<Rightarrow> 'w"
  assumes key_wf: "wf_key key"
    and writer_eq: "writer fault v f = store_save fault (set_key key (enc v) (store_load f)) f"
    and reader_eq: "reader f = dec (settings_map f key)"
    and dec_enc: "dec (Some (sanitize_config_value (enc v))) = norm v"
begin

lemma read_write: "loadable f \<Longrightarrow> reader (fst (writer None v f)) = norm v"
  by (rule store_save_set_key [OF _ key_wf, of f "enc v"]) (simp_all add: writer_eq reader_eq dec_enc)

lemma write_succeeds:
  "loadable f \<Longrightarrow> snd (writer None v f) = Inr () \<and> loadable (fst (writer None v f))"
  by (rule store_save_set_key [OF _ key_wf, of f "enc v"]) (simp_all add: writer_eq)

lemma write_frame: "loadable f \<Longrightarrow> k \<noteq> key \<Longrightarrow> settings_map (fst (writer None v f)) k = settings_map f k"
  by (rule store_save_set_key [OF _ key_wf, of f "enc v"]) (simp_all add: writer_eq)

lemma write_fault: "fst (writer (Some e) v f) = f \<and> (\<exists>e'. snd (writer (Some e) v f) = Inl e')"
  by (auto simp: writer_eq store_save_def app_settings_save_def kv_write_def write_atomic_def split: sum.split)

lemma write_lost_on_corrupt_file:
  assumes "parse c = Inl e"
  shows "snd (writer None v (Contents c)) = Inr () \<and> reader (fst (writer None v (Contents c))) = dec None"
proof -
  define kv where "kv = kv_set key (enc v) default_kv"
  have "wf_kv kv" unfolding kv_def by (rule kv_set_wf [OF default_kv_wf key_wf])
  then obtain e' where "parse (render_preserving kv c) = Inl e'"
    using kv_store.decode_encode_bad [OF _ assms] by blast
  then have "settings_map (Contents (render_preserving kv c)) key = None"
    by (simp add: settings_map_def store_load_simps app_settings_empty_def kv_get_def default_kv_def)
  moreover have "writer None v (Contents c) = (Contents (render_preserving kv c), Inr ())"
    using assms by (simp add: writer_eq store_load_simps kv_def store_save_def app_settings_save_def kv_write_def
        write_atomic_def read_to_string_def set_key_def app_settings_empty_def)
  ultimately show ?thesis by (simp add: reader_eq)
qed

end

interpretation region_setting: typed_setting "lit ''region_preference''" region_as_str
    "\<lambda>v. region_from_str_value (or_default v (lit ''world''))" "\<lambda>v. v" write_region_preference read_region_preference
proof unfold_locales
  show "wf_key (lit ''region_preference'')" by code_simp
  show "region_from_str_value (or_default (Some (sanitize_config_value (region_as_str v))) (lit ''world'')) = v" for v
    by (cases v; simp only:; code_simp)
qed (simp_all add: write_region_preference_def set_region_preference_def read_region_preference_def
    region_preference_def settings_map_def)

interpretation timeout_setting: typed_setting "lit ''admin_session_timeout''" timeout_as_str
    "\<lambda>v. case v of None \<Rightarrow> OneHour | Some v \<Rightarrow> or_default (timeout_from_str_value v) OneHour" "\<lambda>v. v"
    write_admin_session_timeout read_admin_session_timeout
proof unfold_locales
  show "wf_key (lit ''admin_session_timeout'')" by code_simp
  show "(case Some (sanitize_config_value (timeout_as_str v)) of None \<Rightarrow> OneHour
      | Some v \<Rightarrow> or_default (timeout_from_str_value v) OneHour) = v" for v
    by (cases v; simp only:; code_simp)
qed (simp_all add: write_admin_session_timeout_def set_admin_session_timeout_def read_admin_session_timeout_def
    admin_session_timeout_setting_def settings_map_def)

interpretation setup_setting: typed_setting "lit ''first_setup_done''" bool_str
    "\<lambda>v. v = Some (lit ''true'')" "\<lambda>v. v" write_first_setup_done read_first_setup_done
proof unfold_locales
  show "wf_key (lit ''first_setup_done'')" by code_simp
  show "(Some (sanitize_config_value (bool_str v)) = Some (lit ''true'')) = v" for v
    by (cases v; simp only:; code_simp)
qed (simp_all add: write_first_setup_done_def set_first_setup_done_def read_first_setup_done_def
    first_setup_done_def settings_map_def)

interpretation locale_pref_setting: typed_setting "lit ''locale''" locale_to_code
    "\<lambda>v. case v of None \<Rightarrow> LocaleAuto | Some v \<Rightarrow> if v = [] then LocaleAuto else locale_from_code v" "\<lambda>v. v"
    write_locale read_locale_preference
proof unfold_locales
  show "wf_key (lit ''locale'')" by code_simp
  show "(case Some (sanitize_config_value (locale_to_code v)) of None \<Rightarrow> LocaleAuto
      | Some v \<Rightarrow> if v = [] then LocaleAuto else locale_from_code v) = v" for v
    by (cases v; simp only:; code_simp)
qed (simp_all add: write_locale_def set_locale_def read_locale_preference_def locale_preference_def
    get_non_empty_def settings_map_def split: option.split)

interpretation channel_setting: typed_setting "lit ''update_channel''" channel_as_str
    "\<lambda>v. channel_from_str_value (or_default v (lit ''stable''))" "\<lambda>v. v" write_update_channel read_update_channel
proof unfold_locales
  show "wf_key (lit ''update_channel'')" by code_simp
  show "channel_from_str_value (or_default (Some (sanitize_config_value (channel_as_str v))) (lit ''stable'')) = v" for v
    by (cases v; simp only:; code_simp)
qed (simp_all add: write_update_channel_def set_update_channel_def read_update_channel_def
    update_channel_setting_def settings_map_def)

lemma valid_duration_cases: "valid_duration d \<longleftrightarrow> d \<in> {1, 3, 5, 10}"
  by (auto simp: valid_duration_def)

interpretation duration_setting: typed_setting "lit ''replayos_message_duration_secs''"
    "\<lambda>d. nat_to_str (if valid_duration d then d else 3)"
    "\<lambda>v. case v of None \<Rightarrow> 3 | Some v \<Rightarrow>
       (case parse_uint 8 v of None \<Rightarrow> 3 | Some d \<Rightarrow> if valid_duration d then d else 3)"
    "\<lambda>d. if valid_duration d then d else 3"
    write_replayos_message_duration_secs read_replayos_message_duration_secs
proof unfold_locales
  show "wf_key (lit ''replayos_message_duration_secs'')" by code_simp
  have "(case parse_uint 8 (sanitize_config_value (nat_to_str d)) of None \<Rightarrow> 3
      | Some d \<Rightarrow> if valid_duration d then d else 3) = d" if "d \<in> {1, 3, 5, 10}" for d
    using that by (elim insertE emptyE; simp only:; code_simp)
  moreover have "(if valid_duration d then d else 3) \<in> {1, 3, 5, 10}" for d
    by (simp add: valid_duration_cases)
  ultimately show "(case Some (sanitize_config_value (nat_to_str (if valid_duration d then d else 3))) of None \<Rightarrow> 3
      | Some v \<Rightarrow> (case parse_uint 8 v of None \<Rightarrow> 3 | Some d \<Rightarrow> if valid_duration d then d else 3))
      = (if valid_duration d then d else 3)" for d
    by simp
qed (simp_all add: write_replayos_message_duration_secs_def set_replayos_message_duration_secs_def
    read_replayos_message_duration_secs_def replayos_message_duration_secs_def settings_map_def split: option.split)

interpretation token_setting: typed_setting "lit ''replay_api_token''" "\<lambda>v. v"
    "\<lambda>v. case v of None \<Rightarrow> None | Some v \<Rightarrow> if v = [] then None else Some v"
    "\<lambda>v. if sanitize_config_value v = [] then None else Some (sanitize_config_value v)"
    write_replay_api_token read_replay_api_token
proof unfold_locales
  show "wf_key (lit ''replay_api_token'')" by code_simp
qed (simp_all add: write_replay_api_token_def set_replay_api_token_def read_replay_api_token_def
    replay_api_token_def get_non_empty_def settings_map_def split: option.split)

section \<open>Properties\<close>

lemma bool_str_inject: "(bool_str b = lit ''true'') = b"
  by (simp add: bool_str_def)



text \<open>
  Storing a Net Control code leaves every other setting as it was, in particular the
  first-setup flag and the admin session timeout that authentication depends on.
\<close>

lemma token_write_frame:
  assumes "loadable f" and "k \<noteq> lit ''replay_api_token''"
  shows "settings_map (fst (write_replay_api_token None tok f)) k = settings_map f k \<and>
    read_first_setup_done (fst (write_replay_api_token None tok f)) = read_first_setup_done f \<and>
    read_admin_session_timeout (fst (write_replay_api_token None tok f)) = read_admin_session_timeout f"
proof -
  note frame = token_setting.write_frame [OF assms(1)]
  have "lit ''first_setup_done'' \<noteq> lit ''replay_api_token''"
    and "lit ''admin_session_timeout'' \<noteq> lit ''replay_api_token''" by simp_all
  then show ?thesis
    using frame [OF assms(2)] frame by (simp add: setup_setting.reader_eq timeout_setting.reader_eq)
qed

lemma token_write_frame_witness:
  "loadable (Contents (lit ''first_setup_done = true'')) \<and>
   read_first_setup_done (fst (write_replay_api_token None (lit ''123456'') (Contents (lit ''first_setup_done = true'')))) = True"
proof -
  have h: "loadable (Contents (lit ''first_setup_done = true''))" by code_simp
  have "read_first_setup_done (Contents (lit ''first_setup_done = true''))" by code_simp
  with h token_write_frame [OF h, of "lit ''skin''" "lit ''123456''"] show ?thesis by simp
qed

text \<open>
  When \<open>settings.cfg\<close> holds a malformed line, a write reports success and is lost: the
  store loads as empty, the writer keeps the malformed line, and the next read gives the
  default again. First setup in particular can never be completed.
\<close>

lemma corrupt_settings_lose_writes:
  assumes "parse c = Inl e"
  shows "snd (write_first_setup_done None b (Contents c)) = Inr () \<and>
    read_first_setup_done (fst (write_first_setup_done None b (Contents c))) = False \<and>
    read_replay_api_token (fst (write_replay_api_token None tok (Contents c))) = None"
  using setup_setting.write_lost_on_corrupt_file [OF assms, of b]
    token_setting.write_lost_on_corrupt_file [OF assms, of tok] by simp

lemma corrupt_settings_lose_writes_witness:
  "snd (write_first_setup_done None True (Contents (lit ''garbage''))) = Inr () \<and>
   \<not> read_first_setup_done (fst (write_first_setup_done None True (Contents (lit ''garbage''))))"
proof -
  have "parse (lit ''garbage'') = Inl (parse_error 0 (lit ''garbage''))" by code_simp
  from corrupt_settings_lose_writes [OF this, of True] show ?thesis by simp
qed

text \<open>
  A write that meets an operating-system error reports it and leaves the settings file
  exactly as it was.
\<close>

lemma failed_write_keeps_file:
  "fst (write_first_setup_done (Some e) b f) = f \<and> (\<exists>e'. snd (write_first_setup_done (Some e) b f) = Inl e') \<and>
   fst (write_admin_session_timeout (Some e) t f) = f \<and> (\<exists>e'. snd (write_admin_session_timeout (Some e) t f) = Inl e') \<and>
   fst (write_replay_api_token (Some e) tok f) = f \<and> (\<exists>e'. snd (write_replay_api_token (Some e) tok f) = Inl e')"
  using setup_setting.write_fault timeout_setting.write_fault token_setting.write_fault by blast

lemma trim_eq_Nil: "trim s = [] \<Longrightarrow> list_all is_whitespace s"
proof (induction s)
  case (Cons c s)
  show ?case
  proof (cases "is_whitespace c")
    case True
    then have "trim (c # s) = trim s" using trim_pad [of "[c]" "[]" s] by simp
    with Cons True show ?thesis by simp
  next
    case False
    with Cons.prems trim_hd [of "c # s"] show ?thesis by simp
  qed
qed simp

lemma blank_trim: "list_all is_whitespace s \<Longrightarrow> trim s = []"
  using trim_pad [of s "[]" "[]"] by simp

lemma blank_lookup: "trim c = [] \<Longrightarrow> parse c = Inr kv \<Longrightarrow> kv_get kv k = None"
proof -
  assume c: "trim c = []" and p: "parse c = Inr kv"
  have "kind_of l = Skip" if l: "l \<in> set (str_lines c)" for l
  proof -
    have "set (strip_cr q) \<subseteq> set q" for q by (auto simp: strip_cr_def dest: in_set_butlastD)
    moreover have "l \<in> strip_cr ` set (split_on 10 c) \<or> l \<in> set (split_on 10 c)"
      using l by (auto simp: str_lines_def Let_def dest: in_set_butlastD split: if_splits)
    ultimately have "set l \<subseteq> set c" using set_split_on [of _ 10 c] by blast
    then have "list_all is_whitespace l" using trim_eq_Nil [OF c] by (auto simp: list_all_iff)
    then show ?thesis by (simp add: kind_of_def blank_trim)
  qed
  then have "pairs_of (str_lines c) = []" by (simp add: pairs_of_def)
  then show ?thesis using parse_lookup [OF p] by simp
qed

text \<open>
  Toggling Net Control rewrites \<open>replay.cfg\<close> so that it loads again, holds the new flag
  and keeps every other key; a missing or empty \<open>replay.cfg\<close> is never written.
\<close>

lemma net_control_write:
  assumes "replay_config_from_file path f = Inr rc"
  shows "\<exists>f' rc'. write_to_file None (set_system_net_control b rc) path f f = (f', Inr ()) \<and>
      replay_config_from_file path f' = Inr rc' \<and> system_net_control_enabled rc' = b \<and>
      (\<forall>k. k \<noteq> lit ''system_net_control'' \<longrightarrow> kv_get (rc_inner rc') k = kv_get (rc_inner rc) k) \<and>
      fst (write_to_file None rc path Missing f) = f \<and> fst (write_to_file None rc path (Contents []) f) = f"
proof -
  let ?k = "lit ''system_net_control''" and ?v = "if b then lit ''true'' else lit ''false''"
  obtain c kv where c: "f = Contents c" "trim c \<noteq> []" "parse c = Inr kv" "rc = \<lparr>rc_inner = kv\<rparr>"
    using assms by (auto simp: replay_config_from_file_def read_to_string_def split: disk_file.splits if_splits sum.splits)
  have "wf_key ?k" by code_simp
  then obtain kv' where kv': "parse (render_preserving (kv_set ?k ?v kv) c) = Inr kv'"
      "kv_get kv' = (kv_get kv)(?k \<mapsto> sanitize_config_value ?v)"
    using kv_store.read_modify_write [OF c(3)] by blast
  have v: "sanitize_config_value (lit ''true'') = lit ''true''" "sanitize_config_value (lit ''false'') = lit ''false''"
    by code_simp+
  have "trim (render_preserving (kv_set ?k ?v kv) c) \<noteq> []"
    using kv' by (auto dest: blank_lookup [where k = ?k])
  moreover have "c \<noteq> []" using c(2) by auto
  ultimately show ?thesis
    using c kv' v
    by (intro exI [of _ "Contents (render_preserving (kv_set ?k ?v kv) c)"] exI [of _ "\<lparr>rc_inner = kv'\<rparr>"])
       (auto simp: write_to_file_def set_system_net_control_def kv_write_def read_to_string_def write_atomic_def
         replay_config_from_file_def system_net_control_enabled_def)
qed

lemma net_control_write_witness:
  "\<exists>f' rc'. write_to_file None (set_system_net_control True \<lparr>rc_inner = \<lparr>entries = [(lit ''wifi_name'', lit ''x'')]\<rparr>\<rparr>)
       (lit ''p'') (Contents (lit ''wifi_name = x'')) (Contents (lit ''wifi_name = x'')) = (f', Inr ()) \<and>
     replay_config_from_file (lit ''p'') f' = Inr rc' \<and> system_net_control_enabled rc'"
proof -
  have "replay_config_from_file (lit ''p'') (Contents (lit ''wifi_name = x'')) =
      Inr \<lparr>rc_inner = \<lparr>entries = [(lit ''wifi_name'', lit ''x'')]\<rparr>\<rparr>" by code_simp
  from net_control_write [OF this, of True] show ?thesis by auto
qed

lemma match_score_from_bound:
  "i + length ps \<le> 3 \<Longrightarrow>
   match_score_from lc ms i ps \<le> 3 \<and>
   (match_score_from lc ms i ps < 3 \<longleftrightarrow> (\<exists>p \<in> set ps. \<exists>m \<in> set ms. lang_matches lc m p))"
  by (induction ps arbitrary: i) (auto simp: list_ex_iff)

lemma language_match_score_bound:
  assumes "length ps \<le> 3"
  shows "language_match_score lc ml ps \<le> 3 \<and>
    (language_match_score lc ml ps < 3 \<longleftrightarrow>
      (\<exists>q \<in> set ps. \<exists>m \<in> set (filter (\<lambda>s. s \<noteq> []) (map trim (split_on 44 ml))). lang_matches lc m q))"
proof -
  define ms where "ms = filter (\<lambda>s. s \<noteq> []) (map trim (split_on 44 ml))"
  have "language_match_score lc ml ps = (if ms = [] then 3 else match_score_from lc ms 0 ps)"
    by (simp add: language_match_score_def ms_def)
  moreover have "0 + length ps \<le> 3" using assms by simp
  ultimately show ?thesis
    unfolding ms_def [symmetric] using match_score_from_bound [of 0 ps lc ms] by (cases "ms = []") simp_all
qed

text \<open>
  The preferred-language list starts with the primary language (or the region's default),
  holds no duplicate, always offers English, and has at most three entries, so the match score
  against it is at most 3 and is 3 exactly when no listed language matches.
\<close>

lemma preferred_language_scores:
  "distinct (preferred_languages p s r) \<and> lit ''en'' \<in> set (preferred_languages p s r) \<and>
   hd (preferred_languages p s r) = (if p = None \<or> p = Some [] then default_language_for_region r else the p) \<and>
   language_match_score lc ml (preferred_languages p s r) \<le> 3 \<and>
   (language_match_score lc ml (preferred_languages p s r) < 3 \<longleftrightarrow>
     (\<exists>q \<in> set (preferred_languages p s r). \<exists>m \<in> set (filter (\<lambda>s. s \<noteq> []) (map trim (split_on 44 ml))). lang_matches lc m q))"
proof -
  have len: "length (preferred_languages p s r) \<le> 3"
    by (simp add: preferred_languages_def Let_def split: option.split)
  have "distinct (preferred_languages p s r) \<and> lit ''en'' \<in> set (preferred_languages p s r)"
    by (auto simp: preferred_languages_def Let_def split: option.split)
  moreover have "hd (preferred_languages p s r) = (if p = None \<or> p = Some [] then default_language_for_region r else the p)"
    by (auto simp: preferred_languages_def Let_def split: option.split)
  ultimately show ?thesis
    using language_match_score_bound [OF len, of lc ml] by blast
qed

lemma preferred_language_scores_witness:
  "language_match_score (\<lambda>s. s) (lit ''es, en-gb'') (preferred_languages (Some (lit ''ja'')) None PrefUsa) \<le> 3"
  using preferred_language_scores [of "Some (lit ''ja'')" None PrefUsa "\<lambda>s. s" "lit ''es, en-gb''"] by blast

end
