(* ===== verification/Auth_Session.thy ===== *)
theory Auth_Session
  imports App_Settings
begin

text \<open>
  Sign-in and sessions: the roles of \<open>core/auth.rs\<close> and the signed session cookies of
  \<open>core-server/auth.rs\<close> (claims, their text form, signing and verification, the credential
  fingerprints, and the operations of \<open>AuthStore\<close>).

  Three primitives come from crates outside the repository and are parameters (record
  \<open>crypto\<close>): HMAC-SHA256 signing and the URL-safe base64 codec. \<open>hmac::verify\<close> accepts exactly
  the tag that \<open>hmac::sign\<close> produces. Where a property needs more, the hypothesis
  \<open>b64_laws\<close> states what the codec's documentation promises.

  Times are seconds in \<open>u64\<close>, whose addition wraps in release builds; \<open>AuthStore\<close> is an
  \<open>auth_env\<close>: the key file, the shadow file, the settings file and the state of the key lock.
\<close>

section \<open>Roles and the cookie value\<close>

datatype auth_role = Anonymous | User | Admin

fun rank :: "auth_role \<Rightarrow> nat" where
  "rank Anonymous = 0"
| "rank User = 1"
| "rank Admin = 2"

definition allows :: "auth_role \<Rightarrow> auth_role \<Rightarrow> bool" where
  "allows self required \<longleftrightarrow> rank required \<le> rank self"

definition cookie_char :: "rchar \<Rightarrow> bool" where
  "cookie_char c \<longleftrightarrow>
     is_ascii_uppercase c \<or> is_ascii_lowercase c \<or> is_ascii_digit c \<or> c = 45 \<or> c = 95"

text \<open>The byte loop of \<open>valid_session_cookie_value\<close>: \<open>None\<close> is the early \<open>return false\<close>.\<close>

fun count_dots :: "u8 list \<Rightarrow> nat \<Rightarrow> nat option" where
  "count_dots [] dots = Some dots"
| "count_dots (b # bs) dots =
     (if cookie_char (unat b) then count_dots bs dots
      else if b = 46 then count_dots bs (dots + 1)
      else None)"

definition valid_session_cookie_value :: "rstr \<Rightarrow> bool" where
  "valid_session_cookie_value value \<longleftrightarrow>
     (if value = [] \<or> 2048 < utf8_len value then False
      else (case count_dots (utf8_bytes value) 0 of
              None \<Rightarrow> False
            | Some dots \<Rightarrow> dots = 1 \<and> \<not> starts_with [46] value \<and> \<not> ends_with [46] value))"

section \<open>Claims and sessions\<close>

record signed_session_claims =
  cl_role :: auth_role
  cl_base_role :: "auth_role option"
  cl_issued_at :: u64
  cl_expires_at :: u64
  cl_elevated_until :: "u64 option"
  cl_user_fingerprint :: "rstr option"
  cl_admin_fingerprint :: "rstr option"

record auth_session =
  se_token :: rstr
  se_role :: auth_role
  se_base_role :: "auth_role option"
  se_expires_at :: u64
  se_elevated_until :: "u64 option"

record resolved_auth_session =
  rs_role :: auth_role
  rs_can_downgrade :: bool
  rs_expires_at :: u64
  rs_elevated_until :: "u64 option"

definition USER_SESSION_TTL_SECONDS :: u64 where
  "USER_SESSION_TTL_SECONDS = 720 * 60 * 60"

definition MAX_ADMIN_SESSION_TTL_SECONDS :: u64 where
  "MAX_ADMIN_SESSION_TTL_SECONDS = 12 * 60 * 60"

definition SIGNING_KEY_BYTES :: nat where
  "SIGNING_KEY_BYTES = 32"

definition COOKIE_VERSION :: rstr where
  "COOKIE_VERSION = lit ''1''"

definition NONE_VALUE :: rstr where
  "NONE_VALUE = lit ''-''"

record crypto =
  hmac_sign :: "u8 list \<Rightarrow> u8 list \<Rightarrow> u8 list"
  b64_encode :: "u8 list \<Rightarrow> rstr"
  b64_decode :: "rstr \<Rightarrow> u8 list option"

definition sign_payload :: "crypto \<Rightarrow> u8 list \<Rightarrow> u8 list \<Rightarrow> u8 list" where
  "sign_payload cr key payload = hmac_sign cr key payload"

definition verify_payload_signature :: "crypto \<Rightarrow> u8 list \<Rightarrow> u8 list \<Rightarrow> u8 list \<Rightarrow> bool" where
  "verify_payload_signature cr key payload signature \<longleftrightarrow> hmac_sign cr key payload = signature"

section \<open>The text form of the claims\<close>

fun role_to_cookie :: "auth_role \<Rightarrow> rstr" where
  "role_to_cookie Anonymous = lit ''anonymous''"
| "role_to_cookie User = lit ''user''"
| "role_to_cookie Admin = lit ''admin''"

definition cookie_to_role :: "rstr \<Rightarrow> auth_role option" where
  "cookie_to_role value =
     (if value = lit ''user'' then Some User
      else if value = lit ''admin'' then Some Admin
      else if value = lit ''anonymous'' then Some Anonymous
      else None)"

definition u64_to_string :: "u64 \<Rightarrow> rstr" where
  "u64_to_string w = nat_to_str (unat w)"

definition parse_u64 :: "rstr \<Rightarrow> u64 option" where
  "parse_u64 s = map_option of_nat (parse_uint 64 s)"

definition encode_claims :: "signed_session_claims \<Rightarrow> rstr" where
  "encode_claims c =
     join [10]
       [COOKIE_VERSION,
        role_to_cookie (cl_role c),
        (case cl_base_role c of Some r \<Rightarrow> role_to_cookie r | None \<Rightarrow> NONE_VALUE),
        u64_to_string (cl_issued_at c),
        u64_to_string (cl_expires_at c),
        (case cl_elevated_until c of Some v \<Rightarrow> u64_to_string v | None \<Rightarrow> NONE_VALUE),
        (case cl_user_fingerprint c of Some v \<Rightarrow> v | None \<Rightarrow> NONE_VALUE),
        (case cl_admin_fingerprint c of Some v \<Rightarrow> v | None \<Rightarrow> NONE_VALUE)]"

definition optional_claim :: "rstr \<Rightarrow> rstr option" where
  "optional_claim value = (if value \<noteq> NONE_VALUE then Some value else None)"

definition valid_claim_shape :: "signed_session_claims \<Rightarrow> bool" where
  "valid_claim_shape c \<longleftrightarrow>
     (if cl_expires_at c \<le> cl_issued_at c then False
      else (case cl_role c of
              Anonymous \<Rightarrow> False
            | User \<Rightarrow>
                cl_base_role c = None \<and> cl_elevated_until c = None \<and>
                cl_expires_at c \<le> cl_issued_at c + USER_SESSION_TTL_SECONDS \<and>
                cl_user_fingerprint c \<noteq> None \<and> cl_admin_fingerprint c = None
            | Admin \<Rightarrow>
                (case cl_elevated_until c of
                   None \<Rightarrow> False
                 | Some elevated_until \<Rightarrow>
                     if elevated_until \<le> cl_issued_at c \<or> cl_expires_at c < elevated_until then False
                     else if cl_issued_at c + MAX_ADMIN_SESSION_TTL_SECONDS < elevated_until then False
                     else if cl_admin_fingerprint c = None then False
                     else (case cl_base_role c of
                             None \<Rightarrow>
                               cl_expires_at c \<le> cl_issued_at c + MAX_ADMIN_SESSION_TTL_SECONDS \<and>
                               cl_user_fingerprint c = None
                           | Some User \<Rightarrow>
                               cl_expires_at c \<le> cl_issued_at c + USER_SESSION_TTL_SECONDS \<and>
                               cl_user_fingerprint c \<noteq> None
                           | Some _ \<Rightarrow> False))))"

definition parse_claim_numbers ::
  "rstr list \<Rightarrow> auth_role \<Rightarrow> auth_role option \<Rightarrow> signed_session_claims option" where
  "parse_claim_numbers parts role base_role =
     (case parse_u64 (parts ! 3) of
        None \<Rightarrow> None
      | Some issued_at \<Rightarrow>
          (case parse_u64 (parts ! 4) of
             None \<Rightarrow> None
           | Some expires_at \<Rightarrow>
               (case (if parts ! 5 = NONE_VALUE then Some None
                      else map_option Some (parse_u64 (parts ! 5))) of
                  None \<Rightarrow> None
                | Some elevated_until \<Rightarrow>
                    (let claims =
                           \<lparr>cl_role = role, cl_base_role = base_role, cl_issued_at = issued_at,
                            cl_expires_at = expires_at, cl_elevated_until = elevated_until,
                            cl_user_fingerprint = optional_claim (parts ! 6),
                            cl_admin_fingerprint = optional_claim (parts ! 7)\<rparr>
                     in if valid_claim_shape claims then Some claims else None))))"

definition decode_claims :: "rstr \<Rightarrow> signed_session_claims option" where
  "decode_claims payload =
     (let parts = split_on 10 payload
      in if length parts \<noteq> 8 \<or> parts ! 0 \<noteq> COOKIE_VERSION then None
         else (case cookie_to_role (parts ! 1) of
                 None \<Rightarrow> None
               | Some role \<Rightarrow>
                   (let base_role =
                          (if parts ! 2 = NONE_VALUE then None else cookie_to_role (parts ! 2))
                    in if base_role = Some Anonymous \<or> base_role = Some Admin then None
                       else (case base_role of
                               None \<Rightarrow>
                                 if parts ! 2 \<noteq> NONE_VALUE then None
                                 else parse_claim_numbers parts role None
                             | Some base_role \<Rightarrow> parse_claim_numbers parts role (Some base_role)))))"

section \<open>Signing and verification\<close>

definition sign_claims_with_key :: "crypto \<Rightarrow> signed_session_claims \<Rightarrow> u8 list \<Rightarrow> rstr" where
  "sign_claims_with_key cr claims key =
     (let payload = encode_claims claims;
          signature = sign_payload cr key (utf8_bytes payload)
      in b64_encode cr (utf8_bytes payload) @ [46] @ b64_encode cr signature)"

definition verify_claims_with_key :: "crypto \<Rightarrow> rstr \<Rightarrow> u8 list \<Rightarrow> signed_session_claims option" where
  "verify_claims_with_key cr token key =
     (case split_once 46 token of
        None \<Rightarrow> None
      | Some (payload_b64, signature_b64) \<Rightarrow>
          (case b64_decode cr payload_b64 of
             None \<Rightarrow> None
           | Some payload \<Rightarrow>
               (case b64_decode cr signature_b64 of
                  None \<Rightarrow> None
                | Some signature \<Rightarrow>
                    if \<not> verify_payload_signature cr key payload signature then None
                    else (case from_utf8 payload of
                            None \<Rightarrow> None
                          | Some payload \<Rightarrow> decode_claims payload))))"

definition hex_digit :: "nat \<Rightarrow> rchar" where
  "hex_digit n = (if n < 10 then 48 + n else 87 + n)"

definition hex_encode :: "u8 list \<Rightarrow> rstr" where
  "hex_encode bytes = concat (map (\<lambda>b. [hex_digit (unat b div 16), hex_digit (unat b mod 16)]) bytes)"

definition fingerprint_with_key :: "crypto \<Rightarrow> rstr \<Rightarrow> u8 list \<Rightarrow> u8 list \<Rightarrow> rstr" where
  "fingerprint_with_key cr kind credential key =
     hex_encode (sign_payload cr key (utf8_bytes kind @ [58] @ credential))"

text \<open>
  \<open>constant_time_eq\<close>: \<open>ct_diff\<close> is the accumulated difference; a byte past the end of a slice
  reads as 0.
\<close>

definition byte_at :: "u8 list \<Rightarrow> nat \<Rightarrow> u8" where
  "byte_at bs index = (if index < length bs then bs ! index else 0)"

definition ct_diff :: "u8 list \<Rightarrow> u8 list \<Rightarrow> nat" where
  "ct_diff left right =
     fold (\<lambda>index diff. Bit_Operations.or diff
             (unat (Bit_Operations.xor (byte_at left index) (byte_at right index))))
       [0..<max (length left) (length right)]
       (Bit_Operations.xor (length left) (length right))"

definition constant_time_eq :: "u8 list \<Rightarrow> u8 list \<Rightarrow> bool" where
  "constant_time_eq left right \<longleftrightarrow> ct_diff left right = 0"

section \<open>Credentials\<close>

definition is_valid_replay_login_code :: "rstr \<Rightarrow> bool" where
  "is_valid_replay_login_code code \<longleftrightarrow> utf8_len code = 6 \<and> list_all is_ascii_digit code"

definition verify_replay_code_user_login :: "disk_file \<Rightarrow> rstr \<Rightarrow> bool" where
  "verify_replay_code_user_login settings code0 \<longleftrightarrow>
     (let code = trim code0
      in if \<not> is_valid_replay_login_code code then False
         else (case read_replay_api_token settings of
                 None \<Rightarrow> False
               | Some token0 \<Rightarrow>
                   (let token = trim token0
                    in if \<not> is_valid_replay_login_code token then False
                       else constant_time_eq (utf8_bytes token) (utf8_bytes code))))"

definition valid_password_input :: "rstr \<Rightarrow> bool" where
  "valid_password_input password \<longleftrightarrow> 10 \<notin> set password \<and> 0 \<notin> set password"

definition root_password_hash :: "rstr \<Rightarrow> rstr rresult" where
  "root_password_hash shadow =
     (case find (starts_with (lit ''root:'')) (str_lines shadow) of
        None \<Rightarrow> Inl (Other (lit ''Cannot find root password hash''))
      | Some line \<Rightarrow>
          (case split_on 58 line of
             _ # stored_hash # _ \<Rightarrow>
               if stored_hash = lit ''*'' \<or> stored_hash = lit ''!'' \<or> stored_hash = []
               then Inl (Other (lit ''Root account has no password set''))
               else Inr stored_hash
           | _ \<Rightarrow> Inl (Other (lit ''Cannot find root password hash''))))"

text \<open>\<open>crypt_password\<close> runs \<open>libcrypt\<close> in a child process; it is the parameter \<open>crypt\<close>.\<close>

definition verify_root_password ::
  "(rstr \<Rightarrow> rstr \<Rightarrow> rstr rresult) \<Rightarrow> disk_file \<Rightarrow> rstr \<Rightarrow> bool rresult" where
  "verify_root_password crypt shadow_file password =
     (if \<not> valid_password_input password then Inr False
      else (case shadow_file of
              Contents shadow \<Rightarrow>
                (case root_password_hash shadow of
                   Inl e \<Rightarrow> Inl e
                 | Inr stored_hash \<Rightarrow>
                     (case crypt password stored_hash of
                        Inl e \<Rightarrow> Inl e
                      | Inr computed_hash \<Rightarrow>
                          Inr (constant_time_eq (utf8_bytes computed_hash) (utf8_bytes stored_hash))))
            | _ \<Rightarrow> Inl (Other (lit ''Cannot read shadow file''))))"

section \<open>AuthStore\<close>

datatype key_file = KeyMissing | KeyUnreadable | KeyBytes "u8 list"

record auth_env =
  env_key_file :: key_file
  env_shadow :: disk_file
  env_settings :: disk_file
  env_lock_poisoned :: bool

definition key_path :: rstr where
  "key_path = lit ''auth-cookie.key''"

definition load_signing_key :: "auth_env \<Rightarrow> u8 list option rresult" where
  "load_signing_key env =
     (case env_key_file env of
        KeyBytes key \<Rightarrow> if length key = SIGNING_KEY_BYTES then Inr (Some key) else Inr None
      | KeyMissing \<Rightarrow> Inr None
      | KeyUnreadable \<Rightarrow> Inl (Io key_path))"

text \<open>
  \<open>generate_signing_key\<close> draws 32 random bytes; \<open>rnd\<close> is what the operating system delivers,
  \<open>None\<close> when it fails. \<open>write_signing_key\<close> writes a temporary file and renames it; \<open>fault\<close> is
  the error of the first call that fails before the rename takes effect.
\<close>

definition generate_signing_key :: "u8 list option \<Rightarrow> u8 list rresult" where
  "generate_signing_key rnd =
     (case rnd of
        Some bytes \<Rightarrow> Inr bytes
      | None \<Rightarrow> Inl (Other (lit ''Failed to generate auth signing key'')))"

definition write_signing_key :: "error option \<Rightarrow> u8 list \<Rightarrow> auth_env \<Rightarrow> auth_env \<times> unit rresult" where
  "write_signing_key fault key env =
     (case fault of
        Some e \<Rightarrow> (env, Inl e)
      | None \<Rightarrow> (env\<lparr>env_key_file := KeyBytes key\<rparr>, Inr ()))"

definition lock_error :: error where
  "lock_error = Other (lit ''Auth signing key lock is unavailable'')"

definition load_or_create_signing_key ::
  "u8 list option \<Rightarrow> error option \<Rightarrow> auth_env \<Rightarrow> auth_env \<times> u8 list rresult" where
  "load_or_create_signing_key rnd fault env =
     (if env_lock_poisoned env then (env, Inl lock_error)
      else (case load_signing_key env of
              Inl e \<Rightarrow> (env, Inl e)
            | Inr (Some key) \<Rightarrow> (env, Inr key)
            | Inr None \<Rightarrow>
                (case generate_signing_key rnd of
                   Inl e \<Rightarrow> (env, Inl e)
                 | Inr key \<Rightarrow>
                     (case write_signing_key fault key env of
                        (env', Inl e) \<Rightarrow> (env', Inl e)
                      | (env', Inr _) \<Rightarrow> (env', Inr key)))))"

definition rotate_signing_key ::
  "u8 list option \<Rightarrow> error option \<Rightarrow> auth_env \<Rightarrow> auth_env \<times> unit rresult" where
  "rotate_signing_key rnd fault env =
     (if env_lock_poisoned env then (env, Inl lock_error)
      else (case generate_signing_key rnd of
              Inl e \<Rightarrow> (env, Inl e)
            | Inr key \<Rightarrow> write_signing_key fault key env))"

definition user_credential_fingerprint_with_key :: "crypto \<Rightarrow> auth_env \<Rightarrow> u8 list \<Rightarrow> rstr rresult" where
  "user_credential_fingerprint_with_key cr env key =
     (case read_replay_api_token (env_settings env) of
        None \<Rightarrow> Inl (Other (lit ''RePlayOS Net Control code is not configured''))
      | Some token0 \<Rightarrow>
          (let token = trim token0
           in if \<not> is_valid_replay_login_code token
              then Inl (Other (lit ''Stored RePlayOS Net Control code is invalid''))
              else Inr (fingerprint_with_key cr (lit ''user'') (utf8_bytes token) key)))"

definition admin_credential_fingerprint_with_key :: "crypto \<Rightarrow> auth_env \<Rightarrow> u8 list \<Rightarrow> rstr rresult" where
  "admin_credential_fingerprint_with_key cr env key =
     (case env_shadow env of
        Contents shadow \<Rightarrow>
          (case root_password_hash shadow of
             Inl e \<Rightarrow> Inl e
           | Inr stored_hash \<Rightarrow> Inr (fingerprint_with_key cr (lit ''admin'') (utf8_bytes stored_hash) key))
      | _ \<Rightarrow> Inl (Other (lit ''Cannot read shadow file'')))"

text \<open>\<open>user_fingerprint_matches\<close> never returns an error: a missing or invalid code is \<open>false\<close>.\<close>

definition user_fingerprint_matches :: "crypto \<Rightarrow> auth_env \<Rightarrow> rstr option \<Rightarrow> u8 list \<Rightarrow> bool" where
  "user_fingerprint_matches cr env claim key =
     (case claim of
        None \<Rightarrow> False
      | Some claim \<Rightarrow>
          (case user_credential_fingerprint_with_key cr env key of
             Inl _ \<Rightarrow> False
           | Inr current \<Rightarrow> constant_time_eq (utf8_bytes current) (utf8_bytes claim)))"

definition admin_fingerprint_matches :: "crypto \<Rightarrow> auth_env \<Rightarrow> rstr option \<Rightarrow> u8 list \<Rightarrow> bool rresult" where
  "admin_fingerprint_matches cr env claim key =
     (case claim of
        None \<Rightarrow> Inr False
      | Some claim \<Rightarrow>
          (case admin_credential_fingerprint_with_key cr env key of
             Inl e \<Rightarrow> Inl e
           | Inr current \<Rightarrow> Inr (constant_time_eq (utf8_bytes current) (utf8_bytes claim))))"

definition session_expires_at :: "u64 \<Rightarrow> auth_role option \<Rightarrow> u64 \<Rightarrow> u64" where
  "session_expires_at now base_role admin_ttl =
     (if base_role = Some User then now + USER_SESSION_TTL_SECONDS else now + admin_ttl)"

definition valid_admin_base_role :: "auth_role option \<Rightarrow> bool" where
  "valid_admin_base_role base_role \<longleftrightarrow> base_role = None \<or> base_role = Some User"

definition user_resolution :: "signed_session_claims \<Rightarrow> resolved_auth_session" where
  "user_resolution claims =
     \<lparr>rs_role = User, rs_can_downgrade = False, rs_expires_at = cl_expires_at claims,
      rs_elevated_until = None\<rparr>"

definition effective_session ::
  "crypto \<Rightarrow> auth_env \<Rightarrow> signed_session_claims \<Rightarrow> u64 \<Rightarrow> u8 list \<Rightarrow> resolved_auth_session option" where
  "effective_session cr env claims now key =
     (if cl_expires_at claims \<le> now then None
      else (case cl_role claims of
              User \<Rightarrow>
                if \<not> user_fingerprint_matches cr env (cl_user_fingerprint claims) key then None
                else Some (user_resolution claims)
            | Admin \<Rightarrow>
                (let user_valid =
                       cl_base_role claims = Some User \<and>
                       user_fingerprint_matches cr env (cl_user_fingerprint claims) key
                 in if (case cl_elevated_until claims of None \<Rightarrow> False | Some expires \<Rightarrow> expires \<le> now) then
                      if user_valid then Some (user_resolution claims) else None
                    else
                      (let admin_valid =
                             (case admin_fingerprint_matches cr env (cl_admin_fingerprint claims) key of
                                Inr valid \<Rightarrow> valid
                              | Inl _ \<Rightarrow> False)
                       in if \<not> admin_valid then
                            if user_valid then Some (user_resolution claims) else None
                          else
                            Some \<lparr>rs_role = Admin, rs_can_downgrade = user_valid,
                                  rs_expires_at = cl_expires_at claims,
                                  rs_elevated_until = cl_elevated_until claims\<rparr>))
            | Anonymous \<Rightarrow> None))"

definition resolve_session_details_at ::
  "crypto \<Rightarrow> auth_env \<Rightarrow> rstr \<Rightarrow> u64 \<Rightarrow> resolved_auth_session option rresult" where
  "resolve_session_details_at cr env token now =
     (case load_signing_key env of
        Inl e \<Rightarrow> Inl e
      | Inr None \<Rightarrow> Inr None
      | Inr (Some key) \<Rightarrow>
          (case verify_claims_with_key cr token key of
             None \<Rightarrow> Inr None
           | Some claims \<Rightarrow> Inr (effective_session cr env claims now key)))"

definition resolve_session :: "crypto \<Rightarrow> auth_env \<Rightarrow> rstr \<Rightarrow> u64 \<Rightarrow> auth_role option rresult" where
  "resolve_session cr env token now =
     map_sum id (map_option rs_role) (resolve_session_details_at cr env token now)"

definition create_user_session ::
  "crypto \<Rightarrow> u8 list option \<Rightarrow> error option \<Rightarrow> u64 \<Rightarrow> auth_env \<Rightarrow> auth_env \<times> auth_session rresult" where
  "create_user_session cr rnd fault now env =
     (case load_or_create_signing_key rnd fault env of
        (env', Inl e) \<Rightarrow> (env', Inl e)
      | (env', Inr key) \<Rightarrow>
          (let expires_at = now + USER_SESSION_TTL_SECONDS
           in case user_credential_fingerprint_with_key cr env' key of
                Inl e \<Rightarrow> (env', Inl e)
              | Inr user_fingerprint \<Rightarrow>
                  (let claims =
                         \<lparr>cl_role = User, cl_base_role = None, cl_issued_at = now,
                          cl_expires_at = expires_at, cl_elevated_until = None,
                          cl_user_fingerprint = Some user_fingerprint, cl_admin_fingerprint = None\<rparr>
                   in (env', Inr \<lparr>se_token = sign_claims_with_key cr claims key, se_role = User,
                                  se_base_role = None, se_expires_at = expires_at,
                                  se_elevated_until = None\<rparr>))))"

text \<open>The optional user fingerprint of an admin session: computed only over a user base role.\<close>

definition base_user_fingerprint ::
  "crypto \<Rightarrow> auth_env \<Rightarrow> auth_role option \<Rightarrow> u8 list \<Rightarrow> rstr option rresult" where
  "base_user_fingerprint cr env base_role key =
     (if base_role = Some User
      then (case user_credential_fingerprint_with_key cr env key of Inl e \<Rightarrow> Inl e | Inr fp \<Rightarrow> Inr (Some fp))
      else Inr None)"

definition create_admin_session ::
  "crypto \<Rightarrow> u8 list option \<Rightarrow> error option \<Rightarrow> u64 \<Rightarrow> auth_role option \<Rightarrow> auth_env
   \<Rightarrow> auth_env \<times> auth_session rresult" where
  "create_admin_session cr rnd fault now base_role env =
     (if \<not> valid_admin_base_role base_role
      then (env, Inl (Other (lit ''Invalid admin session base role'')))
      else (case load_or_create_signing_key rnd fault env of
              (env', Inl e) \<Rightarrow> (env', Inl e)
            | (env', Inr key) \<Rightarrow>
                (let admin_ttl = timeout_seconds (read_admin_session_timeout (env_settings env'));
                     expires_at = session_expires_at now base_role admin_ttl;
                     elevated_until = Some (min (now + admin_ttl) expires_at)
                 in case base_user_fingerprint cr env' base_role key of
                      Inl e \<Rightarrow> (env', Inl e)
                    | Inr user_fingerprint \<Rightarrow>
                        (case admin_credential_fingerprint_with_key cr env' key of
                           Inl e \<Rightarrow> (env', Inl e)
                         | Inr admin_fingerprint \<Rightarrow>
                             (let claims =
                                    \<lparr>cl_role = Admin, cl_base_role = base_role, cl_issued_at = now,
                                     cl_expires_at = expires_at, cl_elevated_until = elevated_until,
                                     cl_user_fingerprint = user_fingerprint,
                                     cl_admin_fingerprint = Some admin_fingerprint\<rparr>
                              in (env', Inr \<lparr>se_token = sign_claims_with_key cr claims key,
                                             se_role = Admin, se_base_role = base_role,
                                             se_expires_at = expires_at,
                                             se_elevated_until = elevated_until\<rparr>))))))"

definition admin_required :: error where
  "admin_required = Other (lit ''Admin session is required'')"

definition refresh_admin_session_timeout ::
  "crypto \<Rightarrow> u64 \<Rightarrow> rstr \<Rightarrow> auth_env \<Rightarrow> auth_session rresult" where
  "refresh_admin_session_timeout cr now token env =
     (case load_signing_key env of
        Inl e \<Rightarrow> Inl e
      | Inr None \<Rightarrow> Inl admin_required
      | Inr (Some key) \<Rightarrow>
          (case verify_claims_with_key cr token key of
             None \<Rightarrow> Inl admin_required
           | Some claims \<Rightarrow>
               if \<not> (case effective_session cr env claims now key of
                       None \<Rightarrow> False | Some session \<Rightarrow> rs_role session = Admin)
               then Inl admin_required
               else
                 (let admin_ttl = timeout_seconds (read_admin_session_timeout (env_settings env));
                      expires_at = (if cl_base_role claims = Some User then cl_expires_at claims
                                    else now + admin_ttl);
                      elevated_until = Some (min (now + admin_ttl) expires_at)
                  in case base_user_fingerprint cr env (cl_base_role claims) key of
                       Inl e \<Rightarrow> Inl e
                     | Inr user_fingerprint \<Rightarrow>
                         (case admin_credential_fingerprint_with_key cr env key of
                            Inl e \<Rightarrow> Inl e
                          | Inr admin_fingerprint \<Rightarrow>
                              (let refreshed_claims =
                                     \<lparr>cl_role = Admin, cl_base_role = cl_base_role claims,
                                      cl_issued_at = now, cl_expires_at = expires_at,
                                      cl_elevated_until = elevated_until,
                                      cl_user_fingerprint = user_fingerprint,
                                      cl_admin_fingerprint = Some admin_fingerprint\<rparr>
                               in Inr \<lparr>se_token = sign_claims_with_key cr refreshed_claims key,
                                       se_role = Admin, se_base_role = cl_base_role claims,
                                       se_expires_at = expires_at,
                                       se_elevated_until = elevated_until\<rparr>)))))"

definition downgrade_session :: "crypto \<Rightarrow> u64 \<Rightarrow> rstr \<Rightarrow> auth_env \<Rightarrow> auth_session rresult" where
  "downgrade_session cr now token env =
     (case load_signing_key env of
        Inl e \<Rightarrow> Inl e
      | Inr None \<Rightarrow> Inl admin_required
      | Inr (Some key) \<Rightarrow>
          (case verify_claims_with_key cr token key of
             None \<Rightarrow> Inl admin_required
           | Some claims \<Rightarrow>
               if \<not> (case effective_session cr env claims now key of
                       None \<Rightarrow> False | Some session \<Rightarrow> rs_can_downgrade session)
               then Inl (Other (lit ''Only elevated admin sessions can switch to normal user''))
               else
                 (case user_credential_fingerprint_with_key cr env key of
                    Inl e \<Rightarrow> Inl e
                  | Inr user_fingerprint \<Rightarrow>
                      (let downgraded_claims =
                             \<lparr>cl_role = User, cl_base_role = None, cl_issued_at = now,
                              cl_expires_at = cl_expires_at claims, cl_elevated_until = None,
                              cl_user_fingerprint = Some user_fingerprint,
                              cl_admin_fingerprint = None\<rparr>
                       in Inr \<lparr>se_token = sign_claims_with_key cr downgraded_claims key,
                               se_role = User, se_base_role = None,
                               se_expires_at = cl_expires_at claims,
                               se_elevated_until = None\<rparr>))))"

section \<open>Comparison and hexadecimal text\<close>

lemma xor_eq_0_iff_eq: "Bit_Operations.xor a b = 0 \<longleftrightarrow> a = b" for a b :: "'a :: semiring_bit_operations"
proof
  assume "Bit_Operations.xor a b = 0"
  then have "\<forall>n. bit (Bit_Operations.xor a b) n = bit (0::'a) n" by simp
  then show "a = b" by (intro bit_eqI) (auto simp: bit_xor_iff)
qed simp

lemma fold_or_eq_0:
  "fold (\<lambda>i d. Bit_Operations.or d (f i)) xs d = 0 \<longleftrightarrow> d = (0::nat) \<and> (\<forall>i \<in> set xs. f i = 0)"
  by (induction xs arbitrary: d) (auto simp: or_eq_0_iff)

lemma constant_time_eq_iff: "constant_time_eq l r \<longleftrightarrow> l = r"
proof -
  have "constant_time_eq l r \<longleftrightarrow>
      length l = length r \<and> (\<forall>i < max (length l) (length r). byte_at l i = byte_at r i)"
    unfolding constant_time_eq_def ct_diff_def fold_or_eq_0
    by (auto simp: xor_eq_0_iff_eq unat_eq_0)
  also have "\<dots> \<longleftrightarrow> l = r"
    by (auto simp: byte_at_def intro!: nth_equalityI)
  finally show ?thesis .
qed

lemma unat_u8_lt: "unat (b :: u8) < 256"
  using unsigned_less [of b, where ?'a = nat] by simp

lemma u8_nibble: "unat (b :: u8) div 16 < 16"
  using unat_u8_lt [of b] by simp

lemma hex_digit_props: "n < 16 \<Longrightarrow> hex_digit n < 128 \<and> hex_digit n \<noteq> 10 \<and> hex_digit n \<noteq> 45"
  by (simp add: hex_digit_def)

lemma hex_digit_inj: "m < 16 \<Longrightarrow> n < 16 \<Longrightarrow> hex_digit m = hex_digit n \<Longrightarrow> m = n"
  by (auto simp: hex_digit_def split: if_splits)

lemma hex_encode_Cons:
  "hex_encode (b # bs) = hex_digit (unat b div 16) # hex_digit (unat b mod 16) # hex_encode bs"
  by (simp add: hex_encode_def)

lemma hex_encode_chars: "list_all (\<lambda>c. c < 128 \<and> c \<noteq> 10 \<and> c \<noteq> 45) (hex_encode bs)"
proof (induction bs)
  case (Cons b bs)
  then show ?case using hex_digit_props [OF u8_nibble [of b]] hex_digit_props [of "unat b mod 16"]
    by (simp add: hex_encode_Cons)
qed (simp add: hex_encode_def)

lemma length_hex_encode: "length (hex_encode bs) = 2 * length bs"
  by (induction bs) (simp_all add: hex_encode_def)

lemma hex_encode_inj: "hex_encode a = hex_encode b \<Longrightarrow> a = b"
proof (induction a arbitrary: b)
  case Nil
  then have "length (hex_encode b) = 0" by (simp add: hex_encode_def)
  then show ?case by (simp add: length_hex_encode)
next
  case (Cons x a)
  then have "length (hex_encode b) = 2 * length (x # a)" by (metis length_hex_encode)
  then obtain y b' where b: "b = y # b'" by (cases b) (auto simp: length_hex_encode)
  have "hex_digit (unat x div 16) = hex_digit (unat y div 16)" "hex_digit (unat x mod 16) = hex_digit (unat y mod 16)"
    "hex_encode a = hex_encode b'"
    using Cons.prems by (auto simp: b hex_encode_def)
  then have "unat x div 16 = unat y div 16" "unat x mod 16 = unat y mod 16" "a = b'"
    using Cons.IH hex_digit_inj [OF u8_nibble u8_nibble] hex_digit_inj [of "unat x mod 16" "unat y mod 16"] by auto
  then have "unat x = unat y" by (metis div_mult_mod_eq)
  then have "(of_nat (unat x) :: u8) = of_nat (unat y)" by simp
  with \<open>a = b'\<close> show ?case by (simp add: b)
qed


lemma utf8_bytes_inj_ascii:
  "list_all (\<lambda>c. c < 128) a \<Longrightarrow> list_all (\<lambda>c. c < 128) b \<Longrightarrow> utf8_bytes a = utf8_bytes b \<longleftrightarrow> a = b"
  by (metis from_utf8_ascii option.inject)

section \<open>The claims survive their text form\<close>

definition clean_fingerprint :: "rstr option \<Rightarrow> bool" where
  "clean_fingerprint fp =
     (case fp of None \<Rightarrow> True
      | Some s \<Rightarrow> s \<noteq> NONE_VALUE \<and> list_all (\<lambda>c. c < 128 \<and> c \<noteq> 10) s)"

definition wf_claims :: "signed_session_claims \<Rightarrow> bool" where
  "wf_claims c \<longleftrightarrow>
     valid_claim_shape c \<and> clean_fingerprint (cl_user_fingerprint c) \<and>
     clean_fingerprint (cl_admin_fingerprint c)"

lemma parse_u64_to_string [simp]: "parse_u64 (u64_to_string w) = Some w"
proof -
  have "unat w < 2 ^ 64" using unsigned_less [of w, where ?'a = nat] by simp
  then show ?thesis by (simp add: parse_u64_def u64_to_string_def parse_nat_to_str)
qed

lemma u64_to_string_chars: "list_all (\<lambda>c. c < 128 \<and> c \<noteq> 10) (u64_to_string w)"
  using nat_to_str_digits [of "unat w"] by (auto simp: u64_to_string_def list_all_iff is_ascii_digit_def)

lemma u64_to_string_not_none: "u64_to_string w \<noteq> NONE_VALUE"
proof
  assume "u64_to_string w = NONE_VALUE"
  then have "45 \<in> set (nat_to_str (unat w))" by (simp add: u64_to_string_def NONE_VALUE_def lit_def)
  then show False
    using digit_not_in_digits [OF nat_to_str_digits, of 45] by (auto simp: is_ascii_digit_def)
qed

lemma role_to_cookie_chars: "list_all (\<lambda>c. c < 128 \<and> c \<noteq> 10) (role_to_cookie r)"
  by (cases r) (simp_all add: lit_def)

lemma cookie_role_roundtrip [simp]: "cookie_to_role (role_to_cookie r) = Some r"
  by (cases r) (simp_all add: cookie_to_role_def)

lemma role_to_cookie_not_none: "role_to_cookie r \<noteq> NONE_VALUE"
  by (cases r) (simp_all add: NONE_VALUE_def)

text \<open>Claims whose text form is unambiguous, whatever their times are.\<close>

definition clean_claims :: "signed_session_claims \<Rightarrow> bool" where
  "clean_claims c \<longleftrightarrow>
     clean_fingerprint (cl_user_fingerprint c) \<and> clean_fingerprint (cl_admin_fingerprint c) \<and>
     (cl_base_role c = None \<or> cl_base_role c = Some User)"

definition claim_parts :: "signed_session_claims \<Rightarrow> rstr list" where
  "claim_parts c =
     [COOKIE_VERSION, role_to_cookie (cl_role c),
      (case cl_base_role c of Some r \<Rightarrow> role_to_cookie r | None \<Rightarrow> NONE_VALUE),
      u64_to_string (cl_issued_at c), u64_to_string (cl_expires_at c),
      (case cl_elevated_until c of Some v \<Rightarrow> u64_to_string v | None \<Rightarrow> NONE_VALUE),
      (case cl_user_fingerprint c of Some v \<Rightarrow> v | None \<Rightarrow> NONE_VALUE),
      (case cl_admin_fingerprint c of Some v \<Rightarrow> v | None \<Rightarrow> NONE_VALUE)]"

lemma none_value_chars: "list_all (\<lambda>c. c < 128 \<and> c \<noteq> 10) NONE_VALUE"
  by (simp add: NONE_VALUE_def lit_def)

lemma claim_parts_chars:
  assumes "clean_claims c"
  shows "\<forall>p \<in> set (claim_parts c). list_all (\<lambda>c. c < 128 \<and> c \<noteq> 10) p"
proof -
  have "list_all (\<lambda>c. c < 128 \<and> c \<noteq> 10) (case fp of Some v \<Rightarrow> v | None \<Rightarrow> NONE_VALUE)"
    if "clean_fingerprint fp" for fp
    using that none_value_chars by (simp add: clean_fingerprint_def split: option.splits)
  moreover have "list_all (\<lambda>c. c < 128 \<and> c \<noteq> 10) COOKIE_VERSION" by (simp add: COOKIE_VERSION_def lit_def)
  ultimately show ?thesis
    using assms none_value_chars u64_to_string_chars role_to_cookie_chars
    by (simp add: claim_parts_def clean_claims_def split: option.split)
qed

lemma join_chars: "\<forall>p \<in> set ps. list_all P p \<Longrightarrow> list_all P sep \<Longrightarrow> list_all P (join sep ps)"
  by (induction sep ps rule: join.induct) auto

lemma encode_claims_ascii: "clean_claims c \<Longrightarrow> list_all (\<lambda>c. c < 128) (encode_claims c)"
proof -
  assume "clean_claims c"
  then have "\<forall>p \<in> set (claim_parts c). list_all (\<lambda>c. c < 128) p"
    using claim_parts_chars by (auto simp: list_all_iff)
  then have "list_all (\<lambda>c. c < 128) (join [10] (claim_parts c))" by (rule join_chars) simp
  then show ?thesis by (simp add: encode_claims_def claim_parts_def)
qed

lemma split_encode_claims: "clean_claims c \<Longrightarrow> split_on 10 (encode_claims c) = claim_parts c"
proof -
  assume "clean_claims c"
  then have "\<forall>p \<in> set (claim_parts c). 10 \<notin> set p"
    using claim_parts_chars by (auto simp: list_all_iff)
  moreover have "claim_parts c \<noteq> []" by (simp add: claim_parts_def)
  ultimately have "split_on 10 (join [10] (claim_parts c)) = claim_parts c"
    by (intro split_on_join)
  then show ?thesis by (simp add: encode_claims_def claim_parts_def)
qed

lemma optional_claim_clean:
  "clean_fingerprint fp \<Longrightarrow> optional_claim (case fp of Some v \<Rightarrow> v | None \<Rightarrow> NONE_VALUE) = fp"
  by (cases fp) (simp_all add: optional_claim_def clean_fingerprint_def)

lemma valid_shape_user:
  "cl_role c = User \<Longrightarrow> valid_claim_shape c \<longleftrightarrow>
     cl_issued_at c < cl_expires_at c \<and> cl_base_role c = None \<and> cl_elevated_until c = None \<and>
     cl_expires_at c \<le> cl_issued_at c + USER_SESSION_TTL_SECONDS \<and>
     cl_user_fingerprint c \<noteq> None \<and> cl_admin_fingerprint c = None"
  by (auto simp: valid_claim_shape_def)

lemma valid_shape_admin:
  assumes "cl_role c = Admin"
  shows "valid_claim_shape c \<longleftrightarrow>
    (\<exists>e. cl_elevated_until c = Some e \<and> cl_issued_at c < cl_expires_at c \<and>
      cl_issued_at c < e \<and> e \<le> cl_expires_at c \<and>
      e \<le> cl_issued_at c + MAX_ADMIN_SESSION_TTL_SECONDS \<and> cl_admin_fingerprint c \<noteq> None \<and>
      (cl_base_role c = None \<and> cl_user_fingerprint c = None \<and>
         cl_expires_at c \<le> cl_issued_at c + MAX_ADMIN_SESSION_TTL_SECONDS \<or>
       cl_base_role c = Some User \<and> cl_user_fingerprint c \<noteq> None \<and>
         cl_expires_at c \<le> cl_issued_at c + USER_SESSION_TTL_SECONDS))"
proof (cases "cl_elevated_until c")
  case (Some e)
  show ?thesis
  proof (cases "cl_base_role c")
    case (Some r)
    with \<open>cl_elevated_until c = Some e\<close> show ?thesis
      by (cases r) (auto simp: valid_claim_shape_def assms)
  qed (auto simp: valid_claim_shape_def assms Some)
qed (simp add: valid_claim_shape_def assms)

lemma valid_shape_role: "valid_claim_shape c \<Longrightarrow> cl_role c = User \<or> cl_role c = Admin"
  by (cases "cl_role c") (auto simp: valid_claim_shape_def split: if_splits)

lemma valid_shape_base: "valid_claim_shape c \<Longrightarrow> cl_base_role c = None \<or> cl_base_role c = Some User"
  using valid_shape_role [of c] by (auto simp: valid_shape_user valid_shape_admin)

lemma claims_eta:
  "\<lparr>cl_role = cl_role c, cl_base_role = cl_base_role c, cl_issued_at = cl_issued_at c,
    cl_expires_at = cl_expires_at c, cl_elevated_until = cl_elevated_until c,
    cl_user_fingerprint = cl_user_fingerprint c, cl_admin_fingerprint = cl_admin_fingerprint c\<rparr>
   = (c :: signed_session_claims)"
  by simp

lemma decode_encode_claims:
  assumes "clean_claims c"
  shows "decode_claims (encode_claims c) = (if valid_claim_shape c then Some c else None)"
proof -
  have nth: "claim_parts c ! 0 = COOKIE_VERSION" "claim_parts c ! Suc 0 = role_to_cookie (cl_role c)"
    "claim_parts c ! 2 = (case cl_base_role c of Some r \<Rightarrow> role_to_cookie r | None \<Rightarrow> NONE_VALUE)"
    "claim_parts c ! 3 = u64_to_string (cl_issued_at c)" "claim_parts c ! 4 = u64_to_string (cl_expires_at c)"
    "claim_parts c ! 5 = (case cl_elevated_until c of Some v \<Rightarrow> u64_to_string v | None \<Rightarrow> NONE_VALUE)"
    "optional_claim (claim_parts c ! 6) = cl_user_fingerprint c"
    "optional_claim (claim_parts c ! 7) = cl_admin_fingerprint c" "length (claim_parts c) = 8"
    using assms by (simp_all add: claim_parts_def clean_claims_def optional_claim_clean)
  have base: "cl_base_role c = None \<or> cl_base_role c = Some User"
    using assms by (simp add: clean_claims_def)
  have elevated: "(if claim_parts c ! 5 = NONE_VALUE then Some None
      else map_option Some (parse_u64 (claim_parts c ! 5))) = Some (cl_elevated_until c)"
    using u64_to_string_not_none by (cases "cl_elevated_until c") (simp_all add: nth)
  have numbers: "parse_claim_numbers (claim_parts c) (cl_role c) (cl_base_role c) =
      (if valid_claim_shape c then Some c else None)"
    unfolding parse_claim_numbers_def elevated by (simp add: nth claims_eta Let_def)
  show ?thesis
    using base numbers role_to_cookie_not_none
    by (auto simp: decode_claims_def split_encode_claims [OF assms] nth Let_def cookie_to_role_def [of "lit ''user''"]
        NONE_VALUE_def)
qed

lemma wf_claims_iff: "wf_claims c \<longleftrightarrow> clean_claims c \<and> valid_claim_shape c"
  using valid_shape_base [of c] by (auto simp: wf_claims_def clean_claims_def)

lemma parse_numbers_shape: "parse_claim_numbers parts r b = Some c \<Longrightarrow> valid_claim_shape c"
  by (auto simp: parse_claim_numbers_def Let_def split: option.splits if_splits)

lemma decode_claims_shape:
  assumes "decode_claims p = Some c"
  shows "valid_claim_shape c"
proof -
  define parts where "parts = split_on 10 p"
  obtain r b where "parse_claim_numbers parts r b = Some c"
    using assms unfolding decode_claims_def Let_def parts_def [symmetric]
    by (cases "cookie_to_role (parts ! 1)"; cases "cookie_to_role (parts ! 2)") (auto split: if_splits)
  then show ?thesis by (rule parse_numbers_shape)
qed

section \<open>Tokens\<close>

text \<open>
  What the base64 crate documents for the URL-safe alphabet without padding: decoding inverts
  encoding, the output uses only letters, digits, minus and underscore, and it is empty only
  for empty input.
\<close>

definition b64_laws :: "crypto \<Rightarrow> bool" where
  "b64_laws cr \<longleftrightarrow>
     (\<forall>bs. b64_decode cr (b64_encode cr bs) = Some bs \<and> list_all cookie_char (b64_encode cr bs) \<and>
       (bs \<noteq> [] \<longrightarrow> b64_encode cr bs \<noteq> []))"

lemma cookie_char_not_dot: "list_all cookie_char s \<Longrightarrow> 46 \<notin> set s"
  by (auto simp: list_all_iff cookie_char_def char_class_defs)

lemma b64_no_dot: "b64_laws cr \<Longrightarrow> 46 \<notin> set (b64_encode cr bs)"
  by (intro cookie_char_not_dot) (simp add: b64_laws_def)

lemma verify_sign_clean:
  assumes "b64_laws cr" and "clean_claims c"
  shows "verify_claims_with_key cr (sign_claims_with_key cr c key) key = (if valid_claim_shape c then Some c else None)"
proof -
  have "split_once 46 (sign_claims_with_key cr c key) =
      Some (b64_encode cr (utf8_bytes (encode_claims c)),
        b64_encode cr (hmac_sign cr key (utf8_bytes (encode_claims c))))"
    using b64_no_dot [OF assms(1)] by (simp add: sign_claims_with_key_def Let_def sign_payload_def)
  then show ?thesis
    using assms(1) encode_claims_ascii [OF assms(2)] decode_encode_claims [OF assms(2)]
    by (simp add: verify_claims_with_key_def b64_laws_def verify_payload_signature_def from_utf8_ascii)
qed

lemma verify_sign_claims:
  assumes "b64_laws cr" and "wf_claims c"
  shows "verify_claims_with_key cr (sign_claims_with_key cr c key) key = Some c"
  using verify_sign_clean [of cr c key] assms by (simp add: wf_claims_iff)

text \<open>A token is authentic under a key when its second half is the tag of its first half.\<close>

definition authentic :: "crypto \<Rightarrow> u8 list \<Rightarrow> rstr \<Rightarrow> bool" where
  "authentic cr key token =
     (case split_once 46 token of
        None \<Rightarrow> False
      | Some (p, s) \<Rightarrow>
          (case b64_decode cr p of
             None \<Rightarrow> False
           | Some payload \<Rightarrow> b64_decode cr s = Some (hmac_sign cr key payload)))"

lemma verify_claims_authentic:
  "verify_claims_with_key cr token key = Some c \<Longrightarrow> authentic cr key token \<and> valid_claim_shape c"
  by (auto simp: verify_claims_with_key_def authentic_def verify_payload_signature_def
      split: option.splits if_splits dest: decode_claims_shape)

lemma fingerprint_clean: "clean_fingerprint (Some (fingerprint_with_key cr kind cred key))"
proof -
  have "list_all (\<lambda>c. c < 128 \<and> c \<noteq> 10 \<and> c \<noteq> 45) (fingerprint_with_key cr kind cred key)"
    unfolding fingerprint_with_key_def by (rule hex_encode_chars)
  then show ?thesis
    by (auto simp: clean_fingerprint_def NONE_VALUE_def lit_def list_all_iff)
qed

lemma user_fp_clean: "user_credential_fingerprint_with_key cr env key = Inr fp \<Longrightarrow> clean_fingerprint (Some fp)"
  by (auto simp: user_credential_fingerprint_with_key_def Let_def fingerprint_clean split: option.splits if_splits)

lemma admin_fp_clean: "admin_credential_fingerprint_with_key cr env key = Inr fp \<Longrightarrow> clean_fingerprint (Some fp)"
  by (auto simp: admin_credential_fingerprint_with_key_def fingerprint_clean split: disk_file.splits sum.splits)

lemma utf8_bytes_inj_left:
  "list_all (\<lambda>c. c < 128) a \<Longrightarrow> utf8_bytes a = utf8_bytes b \<Longrightarrow> list_all (\<lambda>c. c < 128) b \<Longrightarrow> a = b"
  by (simp add: utf8_bytes_inj_ascii)

lemma user_fp_matches_self:
  "user_credential_fingerprint_with_key cr env key = Inr fp \<Longrightarrow> user_fingerprint_matches cr env (Some fp) key"
  by (simp add: user_fingerprint_matches_def constant_time_eq_iff)

lemma admin_fp_matches_self:
  "admin_credential_fingerprint_with_key cr env key = Inr fp \<Longrightarrow> admin_fingerprint_matches cr env (Some fp) key = Inr True"
  by (simp add: admin_fingerprint_matches_def constant_time_eq_iff)

section \<open>What an Admin resolution rests on\<close>

lemma effective_admin:
  assumes "effective_session cr env claims now key = Some r" and "rs_role r = Admin"
  shows "cl_role claims = Admin \<and> now < cl_expires_at claims \<and>
    (\<forall>e. cl_elevated_until claims = Some e \<longrightarrow> now < e) \<and>
    admin_fingerprint_matches cr env (cl_admin_fingerprint claims) key = Inr True \<and>
    rs_expires_at r = cl_expires_at claims \<and> rs_elevated_until r = cl_elevated_until claims"
  using assms
  by (auto simp: effective_session_def user_resolution_def Let_def not_le split: if_splits auth_role.splits sum.splits option.splits)

lemma admin_fp_matches_iff:
  "admin_fingerprint_matches cr env claim key = Inr True \<longleftrightarrow>
     (\<exists>fp current. claim = Some fp \<and> admin_credential_fingerprint_with_key cr env key = Inr current \<and>
       utf8_bytes current = utf8_bytes fp)"
  by (auto simp: admin_fingerprint_matches_def constant_time_eq_iff split: option.splits sum.splits)

lemma user_fp_matches_iff:
  "user_fingerprint_matches cr env claim key \<longleftrightarrow>
     (\<exists>fp current. claim = Some fp \<and> user_credential_fingerprint_with_key cr env key = Inr current \<and>
       utf8_bytes current = utf8_bytes fp)"
  by (auto simp: user_fingerprint_matches_def constant_time_eq_iff split: option.splits sum.splits)

lemma admin_current_iff:
  "admin_credential_fingerprint_with_key cr env key = Inr current \<longleftrightarrow>
     (\<exists>shadow h. env_shadow env = Contents shadow \<and> root_password_hash shadow = Inr h \<and>
       current = fingerprint_with_key cr (lit ''admin'') (utf8_bytes h) key)"
  by (auto simp: admin_credential_fingerprint_with_key_def split: disk_file.splits sum.splits)

lemma resolve_details_Some:
  "resolve_session_details_at cr env token now = Inr (Some r) \<longleftrightarrow>
     (\<exists>key claims. load_signing_key env = Inr (Some key) \<and>
       verify_claims_with_key cr token key = Some claims \<and>
       effective_session cr env claims now key = Some r)"
  by (auto simp: resolve_session_details_at_def split: sum.splits option.splits)

lemma resolve_admin:
  assumes "resolve_session cr env token now = Inr (Some Admin)"
  obtains key shadow h claims fp e where
    "env_key_file env = KeyBytes key" "length key = 32" "authentic cr key token"
    "verify_claims_with_key cr token key = Some claims" "cl_role claims = Admin"
    "now < cl_expires_at claims" "cl_elevated_until claims = Some e" "now < e"
    "env_shadow env = Contents shadow" "root_password_hash shadow = Inr h"
    "cl_admin_fingerprint claims = Some fp"
    "utf8_bytes fp = utf8_bytes (fingerprint_with_key cr (lit ''admin'') (utf8_bytes h) key)"
proof -
  obtain r where r: "resolve_session_details_at cr env token now = Inr (Some r)" "rs_role r = Admin"
    using assms by (cases "resolve_session_details_at cr env token now") (auto simp: resolve_session_def)
  obtain key claims where k: "load_signing_key env = Inr (Some key)"
      "verify_claims_with_key cr token key = Some claims" "effective_session cr env claims now key = Some r"
    using r(1) by (auto simp: resolve_details_Some)
  note eff = effective_admin [OF k(3) r(2)] and auth = verify_claims_authentic [OF k(2)]
  obtain e where e: "cl_elevated_until claims = Some e"
    using auth eff by (auto simp: valid_shape_admin)
  obtain fp shadow h where fp: "cl_admin_fingerprint claims = Some fp" "env_shadow env = Contents shadow"
      "root_password_hash shadow = Inr h"
      "utf8_bytes (fingerprint_with_key cr (lit ''admin'') (utf8_bytes h) key) = utf8_bytes fp"
    using eff by (auto simp: admin_fp_matches_iff admin_current_iff)
  have "env_key_file env = KeyBytes key \<and> length key = 32"
    using k(1) by (auto simp: load_signing_key_def SIGNING_KEY_BYTES_def split: key_file.splits if_splits)
  then show thesis
    using that [of key claims e shadow h fp] auth eff e fp k(2) by simp
qed

section \<open>Sessions the store creates\<close>

lemma load_written_key:
  "length k = 32 \<Longrightarrow> load_signing_key (env\<lparr>env_key_file := KeyBytes k\<rparr>) = Inr (Some k)"
  by (simp add: load_signing_key_def SIGNING_KEY_BYTES_def)

lemma load_or_create_key:
  assumes "load_or_create_signing_key rnd fault env = (env', Inr key)" and "\<forall>bs. rnd = Some bs \<longrightarrow> length bs = 32"
  shows "load_signing_key env' = Inr (Some key) \<and> env_shadow env' = env_shadow env \<and> env_settings env' = env_settings env"
proof (cases "load_signing_key env")
  case (Inr k)
  show ?thesis
  proof (cases k)
    case None
    with assms Inr show ?thesis
      by (cases rnd; cases fault)
        (auto simp: load_or_create_signing_key_def generate_signing_key_def write_signing_key_def
          load_written_key split: if_splits)
  qed (use assms Inr in \<open>auto simp: load_or_create_signing_key_def split: if_splits\<close>)
qed (use assms in \<open>auto simp: load_or_create_signing_key_def split: if_splits\<close>)

lemma timeout_seconds_bound: "0 < timeout_seconds t \<and> timeout_seconds t \<le> MAX_ADMIN_SESSION_TTL_SECONDS"
  by (cases t) (simp_all add: MAX_ADMIN_SESSION_TTL_SECONDS_def)

lemma u64_add_no_wrap:
  assumes "unat (now :: u64) + unat b < 2 ^ 64" and "a \<le> b"
  shows "unat (now + a) = unat now + unat a" "now + a \<le> now + b" "0 < a \<Longrightarrow> now < now + a"
proof -
  have ab: "unat a \<le> unat b" using assms(2) by (simp add: word_le_nat_alt)
  have eq: "unat (now + x) = unat now + unat x" if "unat x \<le> unat b" for x
    using assms(1) that by (simp add: unat_word_ariths)
  show "unat (now + a) = unat now + unat a" using eq ab by simp
  show "now + a \<le> now + b" using eq ab by (simp add: word_le_nat_alt)
  show "0 < a \<Longrightarrow> now < now + a" using eq ab by (simp add: word_less_nat_alt)
qed

lemma TTL_values: "unat USER_SESSION_TTL_SECONDS = 2592000" "unat MAX_ADMIN_SESSION_TTL_SECONDS = 43200"
  "MAX_ADMIN_SESSION_TTL_SECONDS \<le> USER_SESSION_TTL_SECONDS" "0 < USER_SESSION_TTL_SECONDS"
  by (simp_all add: USER_SESSION_TTL_SECONDS_def MAX_ADMIN_SESSION_TTL_SECONDS_def)

text \<open>Clocks this side of the end of \<open>u64\<close>: adding the longest lifetime does not wrap.\<close>

definition sane_clock :: "u64 \<Rightarrow> bool" where
  "sane_clock now \<longleftrightarrow> unat now + 2592000 < 2 ^ 64"

lemma sane_clock_add:
  assumes "sane_clock now" and "a \<le> USER_SESSION_TTL_SECONDS"
  shows "unat (now + a) = unat now + unat a" "now + a \<le> now + USER_SESSION_TTL_SECONDS" "0 < a \<Longrightarrow> now < now + a"
  using u64_add_no_wrap [of now USER_SESSION_TTL_SECONDS a] assms by (simp_all add: sane_clock_def TTL_values)

lemma sane_clock_mono:
  assumes "sane_clock now" and "a \<le> b" and "b \<le> USER_SESSION_TTL_SECONDS"
  shows "now + a \<le> now + b"
proof -
  have "a \<le> USER_SESSION_TTL_SECONDS" using assms by simp
  then show ?thesis using sane_clock_add(1) [OF assms(1)] assms by (simp add: word_le_nat_alt)
qed

lemma create_user_claims:
  assumes "create_user_session cr rnd fault now env = (env', Inr s)" and "\<forall>bs. rnd = Some bs \<longrightarrow> length bs = 32"
    and "sane_clock now"
  obtains key fp claims where "load_signing_key env' = Inr (Some key)"
    "env_shadow env' = env_shadow env" "env_settings env' = env_settings env"
    "se_token s = sign_claims_with_key cr claims key" "wf_claims claims" "cl_role claims = User"
    "cl_issued_at claims = now" "cl_expires_at claims = now + USER_SESSION_TTL_SECONDS" "cl_elevated_until claims = None"
    "cl_user_fingerprint claims = Some fp" "user_credential_fingerprint_with_key cr env' key = Inr fp"
    "se_expires_at s = now + USER_SESSION_TTL_SECONDS"
proof -
  obtain key fp where k: "load_or_create_signing_key rnd fault env = (env', Inr key)"
      "user_credential_fingerprint_with_key cr env' key = Inr fp"
    using assms(1) by (auto simp: create_user_session_def Let_def split: prod.splits sum.splits)
  define claims where "claims = \<lparr>cl_role = User, cl_base_role = None, cl_issued_at = now,
      cl_expires_at = now + USER_SESSION_TTL_SECONDS, cl_elevated_until = None,
      cl_user_fingerprint = Some fp, cl_admin_fingerprint = None\<rparr>"
  have s: "se_token s = sign_claims_with_key cr claims key" "se_expires_at s = now + USER_SESSION_TTL_SECONDS"
    using assms(1) k by (auto simp: create_user_session_def Let_def claims_def)
  have "now < now + USER_SESSION_TTL_SECONDS" using sane_clock_add(3) [OF assms(3)] TTL_values by simp
  then have "wf_claims claims"
    using user_fp_clean [OF k(2)] by (simp add: wf_claims_def valid_shape_user claims_def clean_fingerprint_def)
  then show thesis
    using that [of key claims fp] s k load_or_create_key [OF k(1) assms(2)] by (simp add: claims_def)
qed


lemma create_admin_claims:
  assumes "create_admin_session cr rnd fault now base env = (env', Inr s)" and "\<forall>bs. rnd = Some bs \<longrightarrow> length bs = 32"
    and "sane_clock now"
  obtains key claims e fp where "load_signing_key env' = Inr (Some key)"
    "env_shadow env' = env_shadow env" "env_settings env' = env_settings env"
    "se_token s = sign_claims_with_key cr claims key" "wf_claims claims" "cl_role claims = Admin"
    "cl_base_role claims = base" "base = None \<or> base = Some User" "cl_issued_at claims = now"
    "e = now + timeout_seconds (read_admin_session_timeout (env_settings env))"
    "cl_elevated_until claims = Some e" "now < e" "e \<le> cl_expires_at claims"
    "cl_expires_at claims = (if base = None then e else now + USER_SESSION_TTL_SECONDS)"
    "cl_admin_fingerprint claims = Some fp" "admin_credential_fingerprint_with_key cr env' key = Inr fp"
    "base = Some User \<Longrightarrow> \<exists>ufp. cl_user_fingerprint claims = Some ufp \<and> user_credential_fingerprint_with_key cr env' key = Inr ufp"
    "se_expires_at s = cl_expires_at claims" "se_elevated_until s = Some e"
proof -
  have base: "base = None \<or> base = Some User"
    using assms(1) by (auto simp: create_admin_session_def valid_admin_base_role_def split: if_splits)
  obtain key ufp fp where k: "load_or_create_signing_key rnd fault env = (env', Inr key)"
      "base_user_fingerprint cr env' base key = Inr ufp" "admin_credential_fingerprint_with_key cr env' key = Inr fp"
    using assms(1) by (auto simp: create_admin_session_def Let_def split: prod.splits sum.splits if_splits)
  note key = load_or_create_key [OF k(1) assms(2)]
  define ttl where "ttl = timeout_seconds (read_admin_session_timeout (env_settings env))"
  define e where "e = now + ttl"
  define x where "x = (if base = None then e else now + USER_SESSION_TTL_SECONDS)"
  have ttl: "0 < ttl" "ttl \<le> MAX_ADMIN_SESSION_TTL_SECONDS" "ttl \<le> USER_SESSION_TTL_SECONDS"
    using timeout_seconds_bound TTL_values(3) order_trans unfolding ttl_def by blast+
  have e: "now < e" "e \<le> now + USER_SESSION_TTL_SECONDS" "e \<le> now + MAX_ADMIN_SESSION_TTL_SECONDS"
    using sane_clock_add [OF assms(3) ttl(3)] sane_clock_mono [OF assms(3) ttl(2) TTL_values(3)] ttl(1)
    by (simp_all add: e_def)
  have x: "session_expires_at now base ttl = x" "min (now + ttl) x = e" "e \<le> x"
    using base e by (auto simp: session_expires_at_def x_def e_def)
  define claims where "claims = \<lparr>cl_role = Admin, cl_base_role = base, cl_issued_at = now, cl_expires_at = x,
      cl_elevated_until = Some e, cl_user_fingerprint = ufp, cl_admin_fingerprint = Some fp\<rparr>"
  have s: "se_token s = sign_claims_with_key cr claims key" "se_expires_at s = x" "se_elevated_until s = Some e"
    using assms(1) base k key x
    by (auto simp: create_admin_session_def valid_admin_base_role_def Let_def claims_def ttl_def [symmetric])
  have ufp: "base = None \<Longrightarrow> ufp = None"
    "base = Some User \<Longrightarrow> \<exists>u. ufp = Some u \<and> user_credential_fingerprint_with_key cr env' key = Inr u"
    using k(2) by (auto simp: base_user_fingerprint_def split: sum.splits)
  have "clean_fingerprint ufp" using base ufp by (auto simp: user_fp_clean clean_fingerprint_def [of None])
  then have "wf_claims claims"
    using e x base ufp admin_fp_clean [OF k(3)]
    by (auto simp: wf_claims_def valid_shape_admin claims_def x_def)
  then show thesis
    using that [of key claims e fp] s k key base e x ufp by (simp add: claims_def x_def e_def ttl_def)
qed

section \<open>How a claim resolves over time\<close>

lemma effective_user:
  "cl_role c = User \<Longrightarrow>
   effective_session cr env c t key =
     (if cl_expires_at c \<le> t \<or> \<not> user_fingerprint_matches cr env (cl_user_fingerprint c) key then None
      else Some (user_resolution c))"
  by (simp add: effective_session_def)

lemma effective_admin_valid:
  assumes "cl_role c = Admin" and "cl_elevated_until c = Some e"
    and "admin_fingerprint_matches cr env (cl_admin_fingerprint c) key = Inr True"
    and "cl_base_role c = Some User \<Longrightarrow> user_fingerprint_matches cr env (cl_user_fingerprint c) key"
  shows "map_option rs_role (effective_session cr env c t key) =
     (if cl_expires_at c \<le> t then None else if t < e then Some Admin
      else if cl_base_role c = Some User then Some User else None)"
  using assms by (auto simp: effective_session_def Let_def user_resolution_def not_le)

lemma resolve_session_signed:
  assumes "b64_laws cr" and "wf_claims c" and "load_signing_key env = Inr (Some key)"
  shows "resolve_session cr env (sign_claims_with_key cr c key) t =
    Inr (map_option rs_role (effective_session cr env c t key))"
  using assms by (simp add: resolve_session_def resolve_session_details_at_def verify_sign_claims)

section \<open>Sessions derived from a session\<close>

lemma downgrade_claims:
  assumes "downgrade_session cr now token env = Inr s"
  obtains key claims r fp where "load_signing_key env = Inr (Some key)"
    "verify_claims_with_key cr token key = Some claims" "effective_session cr env claims now key = Some r"
    "rs_can_downgrade r" "user_credential_fingerprint_with_key cr env key = Inr fp"
    "se_expires_at s = cl_expires_at claims" "se_role s = User"
    "se_token s = sign_claims_with_key cr
       \<lparr>cl_role = User, cl_base_role = None, cl_issued_at = now, cl_expires_at = cl_expires_at claims,
        cl_elevated_until = None, cl_user_fingerprint = Some fp, cl_admin_fingerprint = None\<rparr> key"
  using assms by (auto simp: downgrade_session_def Let_def split: sum.splits option.splits if_splits)

lemma refresh_claims:
  assumes "refresh_admin_session_timeout cr now token env = Inr s"
  obtains key claims r ufp fp ttl x where "load_signing_key env = Inr (Some key)"
    "verify_claims_with_key cr token key = Some claims" "effective_session cr env claims now key = Some r"
    "rs_role r = Admin" "ttl = timeout_seconds (read_admin_session_timeout (env_settings env))"
    "x = (if cl_base_role claims = Some User then cl_expires_at claims else now + ttl)"
    "base_user_fingerprint cr env (cl_base_role claims) key = Inr ufp"
    "admin_credential_fingerprint_with_key cr env key = Inr fp" "se_role s = Admin"
    "se_base_role s = cl_base_role claims" "se_expires_at s = x" "se_elevated_until s = Some (min (now + ttl) x)"
    "se_token s = sign_claims_with_key cr
       \<lparr>cl_role = Admin, cl_base_role = cl_base_role claims, cl_issued_at = now, cl_expires_at = x,
        cl_elevated_until = Some (min (now + ttl) x), cl_user_fingerprint = ufp, cl_admin_fingerprint = Some fp\<rparr> key"
  using assms by (auto simp: refresh_admin_session_timeout_def Let_def split: sum.splits option.splits if_splits)

lemma base_fp_cases:
  assumes "base_user_fingerprint cr env base key = Inr ufp"
  shows "base \<noteq> Some User \<Longrightarrow> ufp = None"
    "base = Some User \<Longrightarrow> \<exists>u. ufp = Some u \<and> user_credential_fingerprint_with_key cr env key = Inr u"
    "clean_fingerprint ufp"
  using assms user_fp_clean
  by (auto simp: base_user_fingerprint_def clean_fingerprint_def [of None] split: sum.splits if_splits)

lemma effective_live: "effective_session cr env c t key = Some r \<Longrightarrow> t < cl_expires_at c"
  by (auto simp: effective_session_def not_le split: if_splits)

lemma resolve_admin_signed:
  assumes "b64_laws cr" and "load_signing_key env = Inr (Some key)" and "wf_claims c"
    and "cl_role c = Admin" and "cl_elevated_until c = Some e" and "e \<le> cl_expires_at c"
    and "cl_base_role c = None \<and> cl_expires_at c = e \<or> cl_base_role c = Some User"
    and "cl_admin_fingerprint c = Some fp" and "admin_credential_fingerprint_with_key cr env key = Inr fp"
    and "cl_base_role c = Some User \<Longrightarrow>
      \<exists>u. cl_user_fingerprint c = Some u \<and> user_credential_fingerprint_with_key cr env key = Inr u"
  shows "resolve_session cr env (sign_claims_with_key cr c key) t =
    Inr (if t < e then Some Admin else if cl_base_role c = Some User \<and> t < cl_expires_at c then Some User else None)"
proof -
  have "admin_fingerprint_matches cr env (cl_admin_fingerprint c) key = Inr True"
    using assms(8,9) admin_fp_matches_self by simp
  moreover have "cl_base_role c = Some User \<Longrightarrow> user_fingerprint_matches cr env (cl_user_fingerprint c) key"
    using assms(10) user_fp_matches_self by auto
  ultimately have "map_option rs_role (effective_session cr env c t key) =
      (if cl_expires_at c \<le> t then None else if t < e then Some Admin
       else if cl_base_role c = Some User then Some User else None)"
    by (rule effective_admin_valid [OF assms(4,5)])
  also have "\<dots> = (if t < e then Some Admin else if cl_base_role c = Some User \<and> t < cl_expires_at c then Some User else None)"
    using assms(6,7) by (auto simp: not_le not_less)
  finally show ?thesis by (simp only: resolve_session_signed [OF assms(1,3,2)])
qed

lemma resolve_session_clean:
  assumes "b64_laws cr" and "clean_claims c" and "load_signing_key env = Inr (Some key)"
  shows "resolve_session cr env (sign_claims_with_key cr c key) t =
    Inr (if valid_claim_shape c then map_option rs_role (effective_session cr env c t key) else None)"
  using assms by (simp add: resolve_session_def resolve_session_details_at_def verify_sign_clean)

lemma load_key_iff:
  "load_signing_key env = Inr (Some key) \<longleftrightarrow> env_key_file env = KeyBytes key \<and> length key = 32"
  by (auto simp: load_signing_key_def SIGNING_KEY_BYTES_def split: key_file.splits if_splits)

lemma count_dots_append: "list_all cookie_char a \<Longrightarrow> count_dots (utf8_bytes a @ bs) n = count_dots bs n"
proof (induction a)
  case (Cons c a)
  then have "utf8_bytes (c # a) = of_nat c # utf8_bytes a" "unat (of_nat c :: u8) = c"
    by (auto simp: utf8_bytes_def utf8_char_def cookie_char_def char_class_defs unat_of_nat)
  with Cons show ?case by simp
qed (simp add: utf8_bytes_def)

lemma count_dots_two_parts:
  assumes "list_all cookie_char a" and "list_all cookie_char b"
  shows "count_dots (utf8_bytes (a @ 46 # b)) 0 = Some 1"
proof -
  have "utf8_bytes (46 # b) = 46 # utf8_bytes b @ []" by (simp add: utf8_bytes_def utf8_char_def)
  moreover have "\<not> cookie_char 46" by (simp add: cookie_char_def char_class_defs)
  ultimately show ?thesis
    using count_dots_append [OF assms(1), of "46 # utf8_bytes b @ []" 0] count_dots_append [OF assms(2), of "[]" 1]
    by simp
qed

lemma fingerprint_utf8_inj:
  "utf8_bytes (fingerprint_with_key cr kind a key) = utf8_bytes (fingerprint_with_key cr kind' b key') \<Longrightarrow>
   fingerprint_with_key cr kind a key = fingerprint_with_key cr kind' b key'"
  using fingerprint_clean by (auto simp: clean_fingerprint_def list_all_iff intro: utf8_bytes_inj_left)

lemma authentic_two_keys:
  "authentic cr k token \<Longrightarrow> authentic cr k' token \<Longrightarrow> \<exists>p. hmac_sign cr k p = hmac_sign cr k' p"
  by (auto simp: authentic_def split: option.splits prod.splits)

lemma signed_token_cookie:
  assumes "b64_laws cr" and "\<And>payload. hmac_sign cr key payload \<noteq> []"
  shows "valid_session_cookie_value (sign_claims_with_key cr c key) \<longleftrightarrow>
    length (sign_claims_with_key cr c key) \<le> 2048"
proof -
  obtain a b where t: "sign_claims_with_key cr c key = a @ 46 # b" "a \<noteq> []" "b \<noteq> []"
      "list_all cookie_char a" "list_all cookie_char b"
  proof -
    have "utf8_bytes (encode_claims c) \<noteq> []"
      by (simp add: encode_claims_def COOKIE_VERSION_def lit_def utf8_bytes_def utf8_char_def)
    then show thesis
      using that [of "b64_encode cr (utf8_bytes (encode_claims c))" "b64_encode cr (hmac_sign cr key (utf8_bytes (encode_claims c)))"]
        assms by (simp add: sign_claims_with_key_def sign_payload_def b64_laws_def Let_def)
  qed
  have ascii: "list_all (\<lambda>c. c < 128) (a @ 46 # b)"
    using t(4,5) by (auto simp: list_all_iff cookie_char_def char_class_defs)
  have "count_dots (utf8_bytes (a @ 46 # b)) 0 = Some 1"
    using t(4,5) by (rule count_dots_two_parts)
  moreover have "46 \<notin> set a" "46 \<notin> set b" using t(4,5) cookie_char_not_dot by blast+
  then have "\<not> starts_with [46] (a @ 46 # b)" "last (a @ 46 # b) \<noteq> 46"
    using t(2,3) last_in_set [of b] by (cases a; auto simp: starts_with_def)+
  moreover from this(2) have "\<not> ends_with [46] (a @ 46 # b)"
    by (metis ends_with_def last_snoc suffix_def)
  ultimately show ?thesis
    using ascii by (simp add: t(1) valid_session_cookie_value_def utf8_len_ascii not_less)
qed

lemma rotation_signs_out:
  assumes "rotate_signing_key (Some new_key) None env = (env', Inr ())" and "length new_key = 32"
    and "env_key_file env = KeyBytes old_key" and "resolve_session cr env token now = Inr (Some r)"
    and "\<And>p. hmac_sign cr old_key p \<noteq> hmac_sign cr new_key p"
  shows "resolve_session cr env' token t = Inr None"
proof -
  have new: "load_signing_key env' = Inr (Some new_key)"
    using assms(1,2)
    by (auto simp: rotate_signing_key_def generate_signing_key_def write_signing_key_def load_written_key split: if_splits)
  obtain c where "verify_claims_with_key cr token old_key = Some c"
    using assms(3,4)
    by (cases "resolve_session_details_at cr env token now")
      (auto simp: resolve_session_def resolve_details_Some load_key_iff)
  then have "authentic cr old_key token" by (simp add: verify_claims_authentic)
  then have "verify_claims_with_key cr token new_key = None"
    using assms(5) authentic_two_keys verify_claims_authentic by (metis option.exhaust)
  then show ?thesis by (simp add: resolve_session_def resolve_session_details_at_def new)
qed

lemma created_admin_session:
  assumes "b64_laws cr" and "create_admin_session cr rnd fault now base env = (env', Inr s)"
    and "\<forall>bs. rnd = Some bs \<longrightarrow> length bs = 32" and "sane_clock now"
  shows "resolve_session cr env' (se_token s) t =
    Inr (if t < now + timeout_seconds (read_admin_session_timeout (env_settings env)) then Some Admin
         else if base = Some User \<and> t < now + USER_SESSION_TTL_SECONDS then Some User else None)"
proof (rule create_admin_claims [OF assms(2-4)])
  fix key c e fp
  assume c: "load_signing_key env' = Inr (Some key)" "se_token s = sign_claims_with_key cr c key" "wf_claims c"
    "cl_role c = Admin" "cl_base_role c = base" "base = None \<or> base = Some User"
    "e = now + timeout_seconds (read_admin_session_timeout (env_settings env))" "cl_elevated_until c = Some e"
    "e \<le> cl_expires_at c" "cl_expires_at c = (if base = None then e else now + USER_SESSION_TTL_SECONDS)"
    "cl_admin_fingerprint c = Some fp" "admin_credential_fingerprint_with_key cr env' key = Inr fp"
    "base = Some User \<Longrightarrow> \<exists>u. cl_user_fingerprint c = Some u \<and> user_credential_fingerprint_with_key cr env' key = Inr u"
  show ?thesis
    using resolve_admin_signed [OF assms(1) c(1,3,4,8,9) _ c(11,12), of t] c(5,6,10,13)
    by (auto simp: c(2) c(7) [symmetric])
qed

lemma created_admin_resolves:
  assumes "b64_laws cr" and "create_admin_session cr rnd fault now base env = (env', Inr s)"
    and "\<forall>bs. rnd = Some bs \<longrightarrow> length bs = 32" and "sane_clock now"
  shows "resolve_session cr env' (se_token s) now = Inr (Some Admin)"
proof -
  have "now < now + timeout_seconds (read_admin_session_timeout (env_settings env))"
    using sane_clock_add(3) [OF assms(4)] timeout_seconds_bound TTL_values(3) order_trans by blast
  then show ?thesis using created_admin_session [OF assms] by simp
qed

section \<open>What a client of the store may rely on\<close>

text \<open>
  A session is genuine for a role when its token is authentic under the key on disk, unexpired,
  and carries the fingerprint of the credential that now stands for that role (and, for Admin,
  an elevation that has not ended).
\<close>

definition genuine_session :: "crypto \<Rightarrow> auth_env \<Rightarrow> u64 \<Rightarrow> auth_role \<Rightarrow> rstr \<Rightarrow> bool" where
  "genuine_session cr env now role token \<longleftrightarrow>
     (\<exists>key claims fp.
        env_key_file env = KeyBytes key \<and> length key = 32 \<and> authentic cr key token \<and>
        verify_claims_with_key cr token key = Some claims \<and> now < cl_expires_at claims \<and>
        (case role of
           Anonymous \<Rightarrow> False
         | User \<Rightarrow>
             (cl_role claims = User \<or> cl_base_role claims = Some User) \<and>
             user_credential_fingerprint_with_key cr env key = Inr fp \<and>
             map_option utf8_bytes (cl_user_fingerprint claims) = Some (utf8_bytes fp)
         | Admin \<Rightarrow>
             cl_role claims = Admin \<and> (\<exists>e. cl_elevated_until claims = Some e \<and> now < e) \<and>
             admin_credential_fingerprint_with_key cr env key = Inr fp \<and>
             map_option utf8_bytes (cl_admin_fingerprint claims) = Some (utf8_bytes fp)))"

lemma effective_user_cases:
  assumes "effective_session cr env claims now key = Some r" and "rs_role r = User"
  shows "now < cl_expires_at claims \<and> (cl_role claims = User \<or> cl_base_role claims = Some User) \<and>
    user_fingerprint_matches cr env (cl_user_fingerprint claims) key"
  using assms
  by (auto simp: effective_session_def Let_def not_le split: if_splits auth_role.splits)

lemma effective_not_anonymous: "effective_session cr env claims now key = Some r \<Longrightarrow> rs_role r \<noteq> Anonymous"
  by (auto simp: effective_session_def Let_def user_resolution_def split: if_splits auth_role.splits)

lemma resolve_session_genuine:
  assumes "resolve_session cr env token now = Inr (Some role)"
  shows "genuine_session cr env now role token"
proof -
  obtain r where r: "resolve_session_details_at cr env token now = Inr (Some r)" "rs_role r = role"
    using assms by (cases "resolve_session_details_at cr env token now") (auto simp: resolve_session_def)
  obtain key claims where k: "load_signing_key env = Inr (Some key)"
      "verify_claims_with_key cr token key = Some claims" "effective_session cr env claims now key = Some r"
    using r(1) by (auto simp: resolve_details_Some)
  note auth = verify_claims_authentic [OF k(2)]
  have key: "env_key_file env = KeyBytes key" "length key = 32" using k(1) by (simp_all add: load_key_iff)
  show ?thesis
  proof (cases role)
    case Anonymous
    then show ?thesis using effective_not_anonymous [OF k(3)] r(2) by simp
  next
    case User
    then have "rs_role r = User" using r(2) by simp
    from effective_user_cases [OF k(3) this] obtain fp where "now < cl_expires_at claims"
        "cl_role claims = User \<or> cl_base_role claims = Some User"
        "user_credential_fingerprint_with_key cr env key = Inr fp"
        "map_option utf8_bytes (cl_user_fingerprint claims) = Some (utf8_bytes fp)"
      by (auto simp: user_fp_matches_iff)
    then show ?thesis using key auth k(2) User unfolding genuine_session_def by (intro exI [of _ key]) auto
  next
    case Admin
    then have "rs_role r = Admin" using r(2) by simp
    note eff = effective_admin [OF k(3) this]
    then obtain e where "cl_elevated_until claims = Some e" "now < e" "cl_role claims = Admin"
      using auth by (auto simp: valid_shape_admin)
    moreover obtain fp where "admin_credential_fingerprint_with_key cr env key = Inr fp"
        "map_option utf8_bytes (cl_admin_fingerprint claims) = Some (utf8_bytes fp)"
      using eff by (auto simp: admin_fp_matches_iff)
    ultimately show ?thesis using key auth k(2) eff Admin unfolding genuine_session_def by (intro exI [of _ key]) auto
  qed
qed

locale session_authority =
  fixes resolve :: "rstr \<Rightarrow> auth_role option rresult" and genuine :: "auth_role \<Rightarrow> rstr \<Rightarrow> bool"
  assumes resolved_is_genuine: "resolve token = Inr (Some role) \<Longrightarrow> genuine role token"
    and anonymous_never_genuine: "\<not> genuine Anonymous token"

interpretation auth_store: session_authority
  "\<lambda>token. resolve_session cr env token now" "genuine_session cr env now" for cr env now
  by unfold_locales (erule resolve_session_genuine, simp add: genuine_session_def)

section \<open>A concrete instance for evaluation\<close>

text \<open>
  A codec that satisfies \<open>b64_laws\<close> (hexadecimal text) and a keyed tag, to evaluate the
  properties at concrete sessions. They stand in for the crates, not for any code of the
  repository.
\<close>

definition hex_value :: "rchar \<Rightarrow> nat option" where
  "hex_value c =
     (if is_ascii_digit c then Some (c - 48) else if 97 \<le> c \<and> c \<le> 102 then Some (c - 87) else None)"

fun hex_decode :: "rstr \<Rightarrow> u8 list option" where
  "hex_decode [] = Some []"
| "hex_decode [_] = None"
| "hex_decode (h # l # cs) =
     (case (hex_value h, hex_value l, hex_decode cs) of
        (Some a, Some b, Some bs) \<Rightarrow> Some (of_nat (16 * a + b) # bs)
      | _ \<Rightarrow> None)"

definition demo_crypto :: crypto where
  "demo_crypto =
     \<lparr>hmac_sign = (\<lambda>key payload. take 4 key @ take 40 payload), b64_encode = hex_encode, b64_decode = hex_decode\<rparr>"

definition demo_key :: "u8 list" where
  "demo_key = replicate 32 7"

definition demo_env :: auth_env where
  "demo_env =
     \<lparr>env_key_file = KeyBytes demo_key, env_shadow = Contents (lit ''root:h4sh:19793:0''),
      env_settings = Contents (lit ''replay_api_token = 123456''), env_lock_poisoned = False\<rparr>"

lemma hex_value_digit: "n < 16 \<Longrightarrow> hex_value (hex_digit n) = Some n"
  by (auto simp: hex_value_def hex_digit_def is_ascii_digit_def)

lemma hex_decode_encode: "hex_decode (hex_encode bs) = Some bs"
proof (induction bs)
  case (Cons b bs)
  have "16 * (unat b div 16) + unat b mod 16 = unat b" by simp
  with Cons show ?case by (simp add: hex_encode_Cons hex_value_digit u8_nibble)
qed (simp add: hex_encode_def)

lemma hex_encode_cookie: "list_all cookie_char (hex_encode bs)"
proof (induction bs)
  case (Cons b bs)
  have "cookie_char (hex_digit n)" if "n < 16" for n
    using that by (auto simp: cookie_char_def hex_digit_def char_class_defs)
  with Cons show ?case by (simp add: hex_encode_Cons u8_nibble)
qed (simp add: hex_encode_def)

lemma demo_b64_laws: "b64_laws demo_crypto"
proof -
  have "bs \<noteq> [] \<longrightarrow> hex_encode bs \<noteq> []" for bs
    by (metis length_0_conv length_hex_encode mult_eq_0_iff zero_neq_numeral)
  then show ?thesis
    by (simp add: b64_laws_def demo_crypto_def hex_decode_encode hex_encode_cookie)
qed

definition demo_claims :: signed_session_claims where
  "demo_claims =
     \<lparr>cl_role = Admin, cl_base_role = Some User, cl_issued_at = 1000, cl_expires_at = 2593000,
      cl_elevated_until = Some 4600,
      cl_user_fingerprint = Some (fingerprint_with_key demo_crypto (lit ''user'') (utf8_bytes (lit ''123456'')) demo_key),
      cl_admin_fingerprint = Some (fingerprint_with_key demo_crypto (lit ''admin'') (utf8_bytes (lit ''h4sh'')) demo_key)\<rparr>"

definition demo_token :: rstr where
  "demo_token = sign_claims_with_key demo_crypto demo_claims demo_key"

lemma demo_key_loads: "load_signing_key demo_env = Inr (Some demo_key)"
  by code_simp

lemma demo_key_kept: "load_or_create_signing_key None None demo_env = (demo_env, Inr demo_key)"
  by (simp add: load_or_create_signing_key_def demo_key_loads) (simp add: demo_env_def)

lemma demo_user_fp:
  "user_credential_fingerprint_with_key demo_crypto demo_env demo_key =
     Inr (fingerprint_with_key demo_crypto (lit ''user'') (utf8_bytes (lit ''123456'')) demo_key)"
  by code_simp

lemma demo_admin_fp:
  "admin_credential_fingerprint_with_key demo_crypto demo_env demo_key =
     Inr (fingerprint_with_key demo_crypto (lit ''admin'') (utf8_bytes (lit ''h4sh'')) demo_key)"
  by code_simp

lemma demo_timeout: "timeout_seconds (read_admin_session_timeout (env_settings demo_env)) = 3600"
  by code_simp

lemma demo_claims_wf: "wf_claims demo_claims"
  by code_simp

lemma demo_clock: "sane_clock 1000" "\<forall>bs. None = Some bs \<longrightarrow> length (bs :: u8 list) = 32"
  by (code_simp, simp)

lemma demo_user_session:
  "\<exists>s. create_user_session demo_crypto None None 1000 demo_env = (demo_env, Inr s)"
  by (simp add: create_user_session_def demo_key_kept demo_user_fp Let_def)

lemma demo_admin_session:
  "\<exists>s. create_admin_session demo_crypto None None 1000 (Some User) demo_env = (demo_env, Inr s)"
  by (simp add: create_admin_session_def valid_admin_base_role_def demo_key_kept demo_user_fp demo_admin_fp
      base_user_fingerprint_def Let_def)

lemma demo_verifies: "verify_claims_with_key demo_crypto demo_token demo_key = Some demo_claims"
  unfolding demo_token_def by (rule verify_sign_claims [OF demo_b64_laws demo_claims_wf])

lemma demo_claims_times:
  "cl_base_role demo_claims = Some User" "cl_expires_at demo_claims = 2593000"
  "min (5100 :: u64) 2593000 = 5100"
  by (simp_all add: demo_claims_def min_def)

lemma demo_effective:
  "effective_session demo_crypto demo_env demo_claims 1500 demo_key =
     Some \<lparr>rs_role = Admin, rs_can_downgrade = True, rs_expires_at = 2593000, rs_elevated_until = Some 4600\<rparr>"
  by (simp add: effective_session_def demo_claims_def admin_fp_matches_self demo_admin_fp
      user_fp_matches_self demo_user_fp)

lemma demo_resolves: "resolve_session demo_crypto demo_env demo_token 1500 = Inr (Some Admin)"
  by (simp add: resolve_session_def resolve_session_details_at_def demo_key_loads demo_verifies demo_effective)

section \<open>Properties\<close>

text \<open>
  C10: a session token verifies under the key that signed it and yields exactly the claims it
  was made from, for every claim set of valid shape whose fingerprints are plain text.
\<close>

theorem token_roundtrip:
  assumes "b64_laws cr" and "wf_claims c"
  shows "verify_claims_with_key cr (sign_claims_with_key cr c key) key = Some c"
  using assms by (rule verify_sign_claims)

theorem token_roundtrip_witness:
  "verify_claims_with_key demo_crypto (sign_claims_with_key demo_crypto demo_claims demo_key) demo_key = Some demo_claims"
  by (rule token_roundtrip [OF demo_b64_laws demo_claims_wf])

text \<open>
  C3: a request resolves to Admin only when the token's second half is the HMAC tag of its
  first half under the key on disk, its claims are Admin claims that have neither expired nor
  left their elevation, and their admin fingerprint is that of the current root password hash.
\<close>

theorem admin_resolution_is_authentic:
  assumes "resolve_session cr env token now = Inr (Some Admin)"
  shows "\<exists>key shadow h claims fp e.
    env_key_file env = KeyBytes key \<and> length key = 32 \<and> authentic cr key token \<and>
    verify_claims_with_key cr token key = Some claims \<and> cl_role claims = Admin \<and>
    now < cl_expires_at claims \<and> cl_elevated_until claims = Some e \<and> now < e \<and>
    env_shadow env = Contents shadow \<and> root_password_hash shadow = Inr h \<and>
    cl_admin_fingerprint claims = Some fp \<and>
    utf8_bytes fp = utf8_bytes (fingerprint_with_key cr (lit ''admin'') (utf8_bytes h) key)"
proof (rule resolve_admin [OF assms])
  fix key shadow h claims fp e
  assume "env_key_file env = KeyBytes key" "length key = 32" "authentic cr key token"
    "verify_claims_with_key cr token key = Some claims" "cl_role claims = Admin"
    "now < cl_expires_at claims" "cl_elevated_until claims = Some e" "now < e"
    "env_shadow env = Contents shadow" "root_password_hash shadow = Inr h"
    "cl_admin_fingerprint claims = Some fp"
    "utf8_bytes fp = utf8_bytes (fingerprint_with_key cr (lit ''admin'') (utf8_bytes h) key)"
  then show ?thesis by (intro exI conjI)
qed

theorem admin_resolution_is_authentic_witness:
  "\<exists>key claims. env_key_file demo_env = KeyBytes key \<and> authentic demo_crypto key demo_token \<and>
     verify_claims_with_key demo_crypto demo_token key = Some claims \<and> cl_role claims = Admin"
  using admin_resolution_is_authentic [OF demo_resolves] by blast

text \<open>
  A user session resolves to User for exactly 30 days after it was created, as long as the
  Net Control code and the signing key stay.
\<close>

lemma user_session_lifecycle:
  assumes "b64_laws cr" and "create_user_session cr rnd fault now env = (env', Inr s)"
    and "\<forall>bs. rnd = Some bs \<longrightarrow> length bs = 32" and "sane_clock now"
  shows "resolve_session cr env' (se_token s) t =
    Inr (if t < now + USER_SESSION_TTL_SECONDS then Some User else None)"
proof (rule create_user_claims [OF assms(2-4)])
  fix key fp c
  assume c: "load_signing_key env' = Inr (Some key)" "se_token s = sign_claims_with_key cr c key" "wf_claims c"
    "cl_role c = User" "cl_expires_at c = now + USER_SESSION_TTL_SECONDS" "cl_user_fingerprint c = Some fp"
    "user_credential_fingerprint_with_key cr env' key = Inr fp"
  show ?thesis
    using resolve_session_signed [OF assms(1) c(3) c(1)] c(4-7) user_fp_matches_self [OF c(7)]
    by (auto simp: c(2) effective_user user_resolution_def not_le)
qed

lemma user_session_lifecycle_witness:
  "\<exists>s. create_user_session demo_crypto None None 1000 demo_env = (demo_env, Inr s) \<and>
     resolve_session demo_crypto demo_env (se_token s) 2000 = Inr (Some User) \<and>
     resolve_session demo_crypto demo_env (se_token s) 2593000 = Inr None"
proof -
  obtain s where s: "create_user_session demo_crypto None None 1000 demo_env = (demo_env, Inr s)"
    using demo_user_session by blast
  show ?thesis
    using user_session_lifecycle [OF demo_b64_laws s demo_clock(2,1)] s by (simp add: USER_SESSION_TTL_SECONDS_def)
qed

text \<open>
  C4: an admin session is Admin until its elevation ends, and then falls back to User when it
  was elevated from a user session (until that session's own expiry) and to nothing otherwise.
  The elevation lasts the configured timeout.
\<close>

theorem admin_session_lifecycle:
  assumes "b64_laws cr" and "create_admin_session cr rnd fault now base env = (env', Inr s)"
    and "\<forall>bs. rnd = Some bs \<longrightarrow> length bs = 32" and "sane_clock now"
  shows "resolve_session cr env' (se_token s) t =
    Inr (if t < now + timeout_seconds (read_admin_session_timeout (env_settings env)) then Some Admin
         else if base = Some User \<and> t < now + USER_SESSION_TTL_SECONDS then Some User else None)"
  using assms by (rule created_admin_session)

theorem admin_session_lifecycle_witness:
  "\<exists>s. create_admin_session demo_crypto None None 1000 (Some User) demo_env = (demo_env, Inr s) \<and>
     resolve_session demo_crypto demo_env (se_token s) 4599 = Inr (Some Admin) \<and>
     resolve_session demo_crypto demo_env (se_token s) 4600 = Inr (Some User) \<and>
     resolve_session demo_crypto demo_env (se_token s) 2593000 = Inr None"
proof -
  obtain s where s: "create_admin_session demo_crypto None None 1000 (Some User) demo_env = (demo_env, Inr s)"
    using demo_admin_session by blast
  show ?thesis
    using admin_session_lifecycle [OF demo_b64_laws s demo_clock(2,1)] s
    by (simp add: USER_SESSION_TTL_SECONDS_def demo_timeout)
qed



text \<open>
  Rotating the signing key signs everyone out: a token that resolved to some role under the
  old key resolves to nothing under the new one, when the two keys never produce the same tag.
\<close>

lemma key_rotation_signs_out:
  assumes "rotate_signing_key (Some new_key) None env = (env', Inr ())" and "length new_key = 32"
    and "env_key_file env = KeyBytes old_key" and "resolve_session cr env token now = Inr (Some r)"
    and "\<And>p. hmac_sign cr old_key p \<noteq> hmac_sign cr new_key p"
  shows "resolve_session cr env' token t = Inr None"
  using assms by (rule rotation_signs_out)

lemma key_rotation_signs_out_witness:
  "resolve_session demo_crypto (demo_env\<lparr>env_key_file := KeyBytes (replicate 32 9)\<rparr>) demo_token 1600 = Inr None"
proof (rule key_rotation_signs_out [OF _ _ _ demo_resolves])
  show "rotate_signing_key (Some (replicate 32 9)) None demo_env =
      (demo_env\<lparr>env_key_file := KeyBytes (replicate 32 9)\<rparr>, Inr ())"
    by (simp add: rotate_signing_key_def generate_signing_key_def write_signing_key_def demo_env_def)
  show "env_key_file demo_env = KeyBytes demo_key" by (simp add: demo_env_def)
  show "hmac_sign demo_crypto demo_key p \<noteq> hmac_sign demo_crypto (replicate 32 9) p" for p
    by (simp add: demo_crypto_def demo_key_def)
qed simp

text \<open>
  Switching back to the normal user keeps the session's expiry and gives a token that is
  exactly a User token until then. The new token is accepted only while the kept expiry is within
  the longest user lifetime of the clock, so after the clock has been set back it is refused.
\<close>

lemma downgrade_keeps_expiry:
  assumes "b64_laws cr" and "downgrade_session cr now token env = Inr s"
  shows "(\<exists>key claims. env_key_file env = KeyBytes key \<and> verify_claims_with_key cr token key = Some claims \<and>
      cl_role claims = Admin \<and> cl_base_role claims = Some User \<and> se_expires_at s = cl_expires_at claims) \<and>
    resolve_session cr env (se_token s) t =
      Inr (if t < se_expires_at s \<and> se_expires_at s \<le> now + USER_SESSION_TTL_SECONDS then Some User else None)"
proof (rule downgrade_claims [OF assms(2)])
  fix key claims r fp
  assume d: "load_signing_key env = Inr (Some key)" "verify_claims_with_key cr token key = Some claims"
    "effective_session cr env claims now key = Some r" "rs_can_downgrade r"
    "user_credential_fingerprint_with_key cr env key = Inr fp" "se_expires_at s = cl_expires_at claims"
    "se_token s = sign_claims_with_key cr
       \<lparr>cl_role = User, cl_base_role = None, cl_issued_at = now, cl_expires_at = cl_expires_at claims,
        cl_elevated_until = None, cl_user_fingerprint = Some fp, cl_admin_fingerprint = None\<rparr> key"
    (is "_ = sign_claims_with_key cr ?c key")
  have "cl_role claims = Admin" "cl_base_role claims = Some User"
    using d(3,4) by (auto simp: effective_session_def user_resolution_def Let_def split: if_splits auth_role.splits)
  moreover have "clean_claims ?c"
    using user_fp_clean [OF d(5)] by (simp add: clean_claims_def clean_fingerprint_def)
  then have "resolve_session cr env (se_token s) t =
      Inr (if t < se_expires_at s \<and> se_expires_at s \<le> now + USER_SESSION_TTL_SECONDS then Some User else None)"
    using resolve_session_clean [OF assms(1) _ d(1)] effective_live [OF d(3)] user_fp_matches_self [OF d(5)]
    by (auto simp: d(6,7) valid_shape_user effective_user user_resolution_def not_le)
  ultimately show ?thesis using d(1,2,6) by (auto simp: load_key_iff)
qed

lemma downgrade_keeps_expiry_witness:
  "\<exists>s. downgrade_session demo_crypto 1500 demo_token demo_env = Inr s \<and> se_expires_at s = 2593000 \<and>
     resolve_session demo_crypto demo_env (se_token s) 5000 = Inr (Some User)"
proof -
  obtain s where s: "downgrade_session demo_crypto 1500 demo_token demo_env = Inr s" "se_expires_at s = 2593000"
    by (simp add: downgrade_session_def demo_key_loads demo_verifies demo_effective demo_user_fp) (simp add: demo_claims_def)
  show ?thesis
    using downgrade_keeps_expiry [OF demo_b64_laws s(1), of 5000] s by (simp add: USER_SESSION_TTL_SECONDS_def)
qed

text \<open>
  Refreshing an admin session needs a token that is Admin now. The new elevation starts at
  the current time, lasts at most the configured timeout and never outlives the session; an
  elevated user session keeps its own expiry, so refreshing cannot prolong it. The new token is
  Admin for exactly that elevation.
\<close>

lemma refresh_admin_session:
  assumes "b64_laws cr" and "refresh_admin_session_timeout cr now token env = Inr s" and "sane_clock now"
    and "se_expires_at s \<le> now + USER_SESSION_TTL_SECONDS"
  shows "resolve_session cr env token now = Inr (Some Admin) \<and>
    (\<exists>key claims e. env_key_file env = KeyBytes key \<and> verify_claims_with_key cr token key = Some claims \<and>
      se_base_role s = cl_base_role claims \<and> se_elevated_until s = Some e \<and> now < e \<and> e \<le> se_expires_at s \<and>
      e \<le> now + timeout_seconds (read_admin_session_timeout (env_settings env)) \<and>
      (cl_base_role claims = Some User \<longrightarrow> se_expires_at s = cl_expires_at claims) \<and>
      (cl_base_role claims = None \<longrightarrow> se_expires_at s = e) \<and>
      (\<forall>t. resolve_session cr env (se_token s) t =
         Inr (if t < e then Some Admin
              else if cl_base_role claims = Some User \<and> t < se_expires_at s then Some User else None)))"
proof (rule refresh_claims [OF assms(2)])
  fix key claims r ufp fp ttl x
  assume d: "load_signing_key env = Inr (Some key)" "verify_claims_with_key cr token key = Some claims"
    "effective_session cr env claims now key = Some r" "rs_role r = Admin"
    "ttl = timeout_seconds (read_admin_session_timeout (env_settings env))"
    "x = (if cl_base_role claims = Some User then cl_expires_at claims else now + ttl)"
    "base_user_fingerprint cr env (cl_base_role claims) key = Inr ufp"
    "admin_credential_fingerprint_with_key cr env key = Inr fp"
    "se_base_role s = cl_base_role claims" "se_expires_at s = x" "se_elevated_until s = Some (min (now + ttl) x)"
    "se_token s = sign_claims_with_key cr
       \<lparr>cl_role = Admin, cl_base_role = cl_base_role claims, cl_issued_at = now, cl_expires_at = x,
        cl_elevated_until = Some (min (now + ttl) x), cl_user_fingerprint = ufp, cl_admin_fingerprint = Some fp\<rparr> key"
    (is "_ = sign_claims_with_key cr ?c key")
  define e where "e = min (now + ttl) x"
  have base: "cl_base_role claims = None \<or> cl_base_role claims = Some User"
    using verify_claims_authentic [OF d(2)] valid_shape_base by blast
  have ttl: "0 < ttl" "ttl \<le> MAX_ADMIN_SESSION_TTL_SECONDS" "ttl \<le> USER_SESSION_TTL_SECONDS"
    using timeout_seconds_bound TTL_values(3) order_trans unfolding d(5) by blast+
  have late: "now < now + ttl" "now + ttl \<le> now + MAX_ADMIN_SESSION_TTL_SECONDS"
    using sane_clock_add [OF assms(3) ttl(3)] sane_clock_mono [OF assms(3) ttl(2) TTL_values(3)] ttl(1) by simp_all
  have x: "now < x" "x \<le> now + USER_SESSION_TTL_SECONDS"
    using effective_live [OF d(3)] late(1) assms(4) by (simp_all add: d(6,10))
  have e: "now < e" "e \<le> now + ttl" "e \<le> x" "e \<le> now + MAX_ADMIN_SESSION_TTL_SECONDS"
    using late x by (auto simp: e_def min_def)
  have alone: "cl_base_role claims = None \<Longrightarrow> x = e" by (simp add: e_def d(6))
  note fps = base_fp_cases [OF d(7)] admin_fp_clean [OF d(8)]
  have wf: "wf_claims ?c"
    using base fps x e alone user_fp_clean
    by (auto simp: wf_claims_def valid_shape_admin e_def [symmetric])
  have tok: "resolve_session cr env (se_token s) t =
         Inr (if t < e then Some Admin
              else if cl_base_role claims = Some User \<and> t < x then Some User else None)" for t
  proof -
    have "resolve_session cr env (sign_claims_with_key cr ?c key) t =
        Inr (if t < e then Some Admin else if cl_base_role ?c = Some User \<and> t < cl_expires_at ?c then Some User else None)"
      by (rule resolve_admin_signed [OF assms(1) d(1) wf _ _ _ _ _ d(8)])
        (use e(3) base fps(2) alone in \<open>auto simp: e_def [symmetric]\<close>)
    then show ?thesis by (simp add: d(12))
  qed
  have "resolve_session cr env token now = Inr (Some Admin)"
    using d(1-4) by (simp add: resolve_session_def resolve_session_details_at_def)
  moreover have "env_key_file env = KeyBytes key" using d(1) by (simp add: load_key_iff)
  moreover have "se_elevated_until s = Some e" by (simp add: d(11) e_def)
  moreover have "cl_base_role claims = Some User \<Longrightarrow> x = cl_expires_at claims" by (simp add: d(6))
  ultimately show ?thesis
    using tok e(1-3) alone unfolding d(9,10) d(5) [symmetric]
    by (intro conjI exI [of _ key] exI [of _ claims] exI [of _ e] d(2)) simp_all
qed

lemma refresh_admin_session_witness:
  "\<exists>s. refresh_admin_session_timeout demo_crypto 1500 demo_token demo_env = Inr s \<and>
     se_expires_at s = 2593000 \<and> resolve_session demo_crypto demo_env (se_token s) 5099 = Inr (Some Admin)"
proof -
  obtain s where s: "refresh_admin_session_timeout demo_crypto 1500 demo_token demo_env = Inr s"
      "se_expires_at s = 2593000" "se_elevated_until s = Some 5100"
    by (simp add: refresh_admin_session_timeout_def demo_key_loads demo_verifies demo_effective demo_user_fp
        demo_admin_fp base_user_fingerprint_def demo_timeout demo_claims_times Let_def)
  have "sane_clock 1500" by code_simp
  then show ?thesis
    using refresh_admin_session [OF demo_b64_laws s(1)] s by (auto simp: USER_SESSION_TTL_SECONDS_def)
qed

text \<open>
  A Net Control sign-in succeeds exactly when the typed code, without surrounding
  whitespace, is the stored code and is six ASCII digits: a missing, malformed or longer stored
  token lets nobody in, and the byte-wise comparison is exact equality.
\<close>

lemma replay_code_login_iff:
  "verify_replay_code_user_login settings code \<longleftrightarrow>
     (\<exists>token. read_replay_api_token settings = Some token \<and> trim token = trim code \<and>
       length (trim code) = 6 \<and> list_all is_ascii_digit (trim code))"
proof -
  have digits: "list_all (\<lambda>c. c < 128) c" if "list_all is_ascii_digit c" for c
    using that by (auto simp: list_all_iff char_class_defs)
  have valid: "is_valid_replay_login_code c \<longleftrightarrow> length c = 6 \<and> list_all is_ascii_digit c" for c
    by (auto simp: is_valid_replay_login_code_def utf8_len_ascii digits)
  have same: "utf8_bytes a = utf8_bytes b \<longleftrightarrow> a = b"
    if "list_all is_ascii_digit a" "list_all is_ascii_digit b" for a b
    using that by (auto intro!: utf8_bytes_inj_ascii digits)
  show ?thesis
    by (auto simp: verify_replay_code_user_login_def valid constant_time_eq_iff same Let_def split: option.splits)
qed

text \<open>
  The root password check reports success exactly when the input has no line break or NUL,
  the shadow file has a usable root hash and the crypt function maps the password to that hash;
  an account without a password and an unreadable file are errors, never a success.
\<close>

lemma root_password_iff:
  "verify_root_password crypt shadow_file password = Inr True \<longleftrightarrow>
     (\<exists>shadow h computed. valid_password_input password \<and> shadow_file = Contents shadow \<and>
       root_password_hash shadow = Inr h \<and> h \<notin> {[], lit ''*'', lit ''!''} \<and>
       crypt password h = Inr computed \<and> utf8_bytes computed = utf8_bytes h)"
proof -
  have usable: "root_password_hash shadow = Inr h \<Longrightarrow> h \<notin> {[], lit ''*'', lit ''!''}" for shadow h
    by (auto simp: root_password_hash_def split: option.splits list.splits if_splits)
  show ?thesis
    by (auto simp: verify_root_password_def constant_time_eq_iff split: disk_file.splits sum.splits dest: usable)
qed

text \<open>
  Every token the store signs passes the cookie syntax check of the request guard, unless
  it is longer than 2048 characters: the guard never drops a cookie the server has just set.
\<close>

lemma signed_token_is_cookie:
  assumes "b64_laws cr" and "\<And>payload. hmac_sign cr key payload \<noteq> []"
  shows "valid_session_cookie_value (sign_claims_with_key cr c key) \<longleftrightarrow>
    length (sign_claims_with_key cr c key) \<le> 2048"
  using assms by (rule signed_token_cookie)

lemma signed_token_is_cookie_witness:
  "valid_session_cookie_value demo_token \<longleftrightarrow> length demo_token \<le> 2048"
proof -
  have "hmac_sign demo_crypto demo_key payload \<noteq> []" for payload by (simp add: demo_crypto_def demo_key_def)
  then show ?thesis unfolding demo_token_def by (rule signed_token_is_cookie [OF demo_b64_laws])
qed

end
