(* ===== verification/Auth_Gate.thy ===== *)
theory Auth_Gate
  imports Auth_Session "HOL-Library.Multiset"
begin

text \<open>
  The request guard of \<open>app/api/auth_gate.rs\<close>: the middleware \<open>with_auth_guard\<close> as a function
  from a request to its decision, the cross-site request check, the redirect targets and the
  role each route and server function requires.

  Code outside the repository is a parameter: \<open>url_encode\<close> (the crate \<open>urlencoding\<close>) and
  \<open>uri_authority\<close> (parsing a \<open>Uri\<close> of the crate \<open>http\<close> and taking its authority). The session
  store appears as the function \<open>resolve\<close> from a token to a role; the locale
  \<open>session_authority\<close> is what the guard relies on, and it is interpreted with \<open>AuthStore\<close>.
\<close>

section \<open>Requests\<close>

datatype http_method = GET | HEAD | OPTIONS | TRACE | POST | PUT | DELETE | PATCH | CONNECT | Extension rstr

record http_request =
  rq_method :: http_method
  rq_path :: rstr
  rq_path_and_query :: "rstr option"
  rq_headers :: "(rstr \<times> u8 list) list"

text \<open>\<open>HeaderMap::get\<close> gives the first value; \<open>to_str\<close> accepts visible ASCII and the tab.\<close>

definition header_get :: "(rstr \<times> u8 list) list \<Rightarrow> rstr \<Rightarrow> u8 list option" where
  "header_get headers name = map_of headers name"

definition to_str :: "u8 list \<Rightarrow> rstr option" where
  "to_str bytes =
     (if list_all (\<lambda>b. 32 \<le> b \<and> b < 127 \<or> b = 9) bytes then Some (map unat bytes) else None)"

definition header_str :: "(rstr \<times> u8 list) list \<Rightarrow> rstr \<Rightarrow> rstr option" where
  "header_str headers name = Option.bind (header_get headers name) to_str"

datatype gate_decision = Pass | Redirect rstr | Unauthorized | Forbidden

section \<open>Public paths and redirects\<close>

definition is_public_without_auth :: "rstr \<Rightarrow> bool" where
  "is_public_without_auth path \<longleftrightarrow>
     path = lit ''/login'' \<or> path = lit ''/waiting'' \<or> path = lit ''/api/version'' \<or>
     path = lit ''/api/core/status'' \<or> starts_with (lit ''/static/'') path"

definition wants_html_response :: "(rstr \<times> u8 list) list \<Rightarrow> bool" where
  "wants_html_response headers =
     (case header_str headers (lit ''accept'') of
        None \<Rightarrow> True
      | Some value \<Rightarrow> contains_str (lit ''text/html'') value)"

definition login_redirect_target :: "(rstr \<Rightarrow> rstr) \<Rightarrow> http_request \<Rightarrow> rstr" where
  "login_redirect_target url_encode rq =
     (let next0 = (case rq_path_and_query rq of Some p \<Rightarrow> p | None \<Rightarrow> lit ''/'');
          next1 = (if starts_with (lit ''/login'') next0 then lit ''/'' else next0)
      in lit ''/login?next='' @ url_encode next1)"

definition access_redirect_target :: "(rstr \<Rightarrow> rstr) \<Rightarrow> http_request \<Rightarrow> rstr" where
  "access_redirect_target url_encode rq =
     (let next0 = (case rq_path_and_query rq of Some p \<Rightarrow> p | None \<Rightarrow> lit ''/'');
          next1 = (if starts_with (lit ''/settings/access'') next0 then lit ''/settings'' else next0)
      in lit ''/settings/access?next='' @ url_encode next1)"

section \<open>The cross-site request check\<close>

definition is_unsafe_method :: "http_method \<Rightarrow> bool" where
  "is_unsafe_method m \<longleftrightarrow> \<not> (m = GET \<or> m = HEAD \<or> m = OPTIONS \<or> m = TRACE)"

definition normalize_authority :: "rstr \<Rightarrow> rstr option" where
  "normalize_authority value0 =
     (let value = trim_end_matches (\<lambda>c. c = 46) (trim value0)
      in if value = [] \<or> 64 \<in> set value \<or> 47 \<in> set value \<or> 92 \<in> set value \<or> list_ex is_whitespace value
         then None
         else Some (to_ascii_lowercase value))"

definition origin_authority :: "(rstr \<Rightarrow> rstr option) \<Rightarrow> rstr \<Rightarrow> rstr option" where
  "origin_authority uri_authority value = Option.bind (uri_authority value) normalize_authority"

definition passes_csrf_origin_check :: "(rstr \<Rightarrow> rstr option) \<Rightarrow> (rstr \<times> u8 list) list \<Rightarrow> bool" where
  "passes_csrf_origin_check uri_authority headers =
     (let fetch_site = header_str headers (lit ''sec-fetch-site'')
      in if fetch_site = Some (lit ''same-origin'') then True
         else if fetch_site = Some (lit ''same-site'') \<or> fetch_site = Some (lit ''cross-site'') then False
         else (case Option.bind (header_str headers (lit ''host'')) normalize_authority of
                 None \<Rightarrow> False
               | Some host \<Rightarrow>
                   (case header_str headers (lit ''origin'') of
                      Some value \<Rightarrow> origin_authority uri_authority value = Some host
                    | None \<Rightarrow>
                        (case header_str headers (lit ''referer'') of
                           Some value \<Rightarrow> origin_authority uri_authority value = Some host
                         | None \<Rightarrow> False))))"

section \<open>Server functions\<close>

text \<open>
  \<open>snake_case\<close> is the character loop of \<open>normalize_server_function_name\<close>; its first argument is
  the previous character, \<open>None\<close> at index 0.
\<close>

fun snake_case :: "rchar option \<Rightarrow> rstr \<Rightarrow> rstr" where
  "snake_case prev [] = []"
| "snake_case prev (ch # rest) =
     (if is_ascii_uppercase ch then
        (if (case prev of
               None \<Rightarrow> False
             | Some c \<Rightarrow>
                 is_ascii_lowercase c \<or> is_ascii_digit c \<or>
                 (case rest of [] \<Rightarrow> False | n # _ \<Rightarrow> is_ascii_lowercase n))
         then [95] else []) @ [to_ascii_lowercase_char ch]
      else if ch = 45 then [95]
      else [ch]) @ snake_case (Some ch) rest"

definition normalize_server_function_name :: "rstr \<Rightarrow> rstr" where
  "normalize_server_function_name function_name =
     (if 95 \<in> set function_name then to_ascii_lowercase function_name else snake_case None function_name)"

definition normalized_server_function_path :: "rstr \<Rightarrow> rstr option" where
  "normalized_server_function_path path =
     (case strip_prefix (lit ''/sfn/'') path of
        None \<Rightarrow> None
      | Some rest \<Rightarrow>
          Some (normalize_server_function_name
                  (trim_end_matches is_ascii_digit (hd (split_on 47 (trim_matches (\<lambda>c. c = 47) rest))))))"

definition public_auth_server_functions :: "rstr list" where
  "public_auth_server_functions =
     map lit
     [''get_auth_status'', ''login_with_replay_code'', ''login_admin'', ''complete_first_setup'',
      ''logout'']"

definition is_public_auth_server_function :: "rstr \<Rightarrow> bool" where
  "is_public_auth_server_function f \<longleftrightarrow> f \<in> set public_auth_server_functions"

definition is_public_during_first_setup :: "rstr \<Rightarrow> bool" where
  "is_public_during_first_setup path \<longleftrightarrow>
     path = lit ''/first-setup'' \<or> path = lit ''/waiting'' \<or> path = lit ''/api/version'' \<or>
     starts_with (lit ''/static/'') path \<or>
     (case normalized_server_function_path path of
        None \<Rightarrow> False
      | Some f \<Rightarrow> f = lit ''get_auth_status'' \<or> f = lit ''complete_first_setup'' \<or> f = lit ''logout'')"

definition user_read_server_functions :: "rstr list" where
  "user_read_server_functions =
     map lit
     [''get_systems'', ''get_recents'', ''get_roms_page'', ''get_rom_detail'', ''get_rom_file_group'',
      ''global_search'', ''get_all_genres'', ''get_system_genres'', ''search_by_developer'',
      ''get_developer_genres'', ''get_developer_games'', ''search_by_board'', ''get_board_genres'',
      ''get_board_games'', ''random_game'', ''random_game_for_system'', ''get_related_games'',
      ''get_recommendations'', ''get_game_documents'', ''get_local_manuals'',
      ''get_game_manual_suggestions'', ''get_game_resource_links'', ''get_game_videos'',
      ''get_provider_game_videos'', ''search_game_videos'', ''get_boxart_variants'',
      ''get_update_changelog'']"

definition is_user_read_server_function :: "rstr \<Rightarrow> bool" where
  "is_user_read_server_function f \<longleftrightarrow> f \<in> set user_read_server_functions"

definition admin_server_functions :: "rstr list" where
  "admin_server_functions =
     map lit
     [''get_wifi_config'', ''save_wifi_config'', ''get_nfs_config'', ''save_nfs_config'',
      ''get_retroachievements_config'', ''save_retroachievements_config_and_restart'', ''reboot_system'',
      ''power_off_replayos_device'', ''downgrade_admin_to_user'', ''logout_all_browsers'',
      ''get_admin_session_timeout'', ''set_admin_session_timeout'', ''get_hostname'', ''save_hostname'',
      ''change_root_password'', ''clear_metadata'', ''regenerate_metadata'', ''download_metadata'',
      ''clear_images'', ''cleanup_orphaned_images'', ''get_metadata_library_overview'',
      ''get_metadata_page_snapshot'', ''get_system_logs'', ''get_log_level_config'',
      ''save_log_level_config'', ''get_replayos_log_level'', ''get_github_api_key'',
      ''save_github_api_key'', ''save_region_preference'', ''save_region_preference_secondary'',
      ''save_language_preference'', ''refresh_storage'', ''regenerate_tls_certificate_info'',
      ''get_tls_certificate_info'', ''get_analytics_preference'', ''delete_rom'', ''rename_rom'',
      ''get_replayos_settings'', ''save_replayos_message_duration'', ''get_link_play_config'',
      ''save_link_play_config'', ''get_replay_insider_config'',
      ''save_replay_insider_token_and_restart'', ''enable_replay_api_assisted'',
      ''verify_replay_api_token'', ''save_replayos_kiosk_mode'', ''start_setup_metadata_downloads'',
      ''update_thumbnails'', ''cancel_thumbnail_update'', ''clear_thumbnail_index'',
      ''rescan_game_library'', ''rebuild_game_library'', ''rebuild_corrupt_library'',
      ''repair_corrupt_user_data'', ''restore_user_data_backup'', ''check_for_updates'',
      ''get_update_channel'', ''save_update_channel'', ''skip_version'', ''start_update'',
      ''save_analytics_preference'']"

definition is_admin_server_function :: "rstr \<Rightarrow> bool" where
  "is_admin_server_function f \<longleftrightarrow> f \<in> set admin_server_functions"

definition user_other_server_functions :: "rstr list" where
  "user_other_server_functions =
     map lit
     [''get_info'', ''get_live_stats'', ''get_host_kind'', ''get_standalone_storage_selector_available'',
      ''get_favorites'', ''get_system_favorites'', ''add_favorite'', ''remove_favorite'',
      ''organize_favorites'', ''group_favorites'', ''flatten_favorites'',
      ''get_favorites_recommendations'', ''delete_recent'', ''get_user_captures'',
      ''delete_user_capture'', ''launch_game'', ''get_replay_api_status'', ''get_replay_capabilities'',
      ''get_library_playtime'', ''get_game_playtime'', ''reprobe_replay_api'',
      ''send_replay_player_command'', ''get_active_override_configs'', ''save_active_override_config'',
      ''remove_active_override_settings'', ''send_replayos_message'', ''restart_replayos_game'',
      ''get_save_state_slots'', ''add_game_resource_link'', ''remove_game_resource_link'',
      ''add_game_video'', ''remove_game_video'', ''download_manual'', ''delete_manual'',
      ''set_boxart_override'', ''reset_boxart_override'', ''get_setup_status'', ''dismiss_setup'',
      ''get_skins'', ''set_skin'', ''set_skin_sync'', ''get_font_size'', ''save_font_size'',
      ''get_region_preference'', ''get_region_preference_secondary'', ''get_language_preference'',
      ''get_locale'', ''save_locale'', ''get_preferred_languages'']"

definition is_user_server_function :: "rstr \<Rightarrow> bool" where
  "is_user_server_function f \<longleftrightarrow> is_user_read_server_function f \<or> f \<in> set user_other_server_functions"

definition server_function_required_role :: "rstr \<Rightarrow> auth_role option" where
  "server_function_required_role path =
     (case normalized_server_function_path path of
        None \<Rightarrow> None
      | Some f \<Rightarrow>
          if is_public_auth_server_function f then Some Anonymous
          else if is_admin_server_function f then Some Admin
          else if is_user_server_function f then Some User
          else Some Admin)"

section \<open>Routes\<close>

definition admin_page_routes :: "rstr list" where
  "admin_page_routes =
     map lit
     [''/settings/wifi'', ''/settings/nfs'', ''/settings/hostname'', ''/settings/retroachievements'',
      ''/settings/replayos'', ''/settings/replay-net-control'', ''/settings/game-library'',
      ''/settings/metadata'', ''/settings/logs'', ''/settings/github'', ''/updating'']"

definition is_admin_page_route :: "rstr \<Rightarrow> bool" where
  "is_admin_page_route path \<longleftrightarrow> path \<in> set admin_page_routes"

definition is_user_route :: "http_method \<Rightarrow> rstr \<Rightarrow> bool" where
  "is_user_route m path \<longleftrightarrow>
     m = POST \<and> path = lit ''/api/favorites'' \<or> m = DELETE \<and> path = lit ''/api/favorites'' \<or>
     m = PUT \<and> path = lit ''/api/favorites/group'' \<or> m = PUT \<and> path = lit ''/api/favorites/flatten'' \<or>
     m = POST \<and> starts_with (lit ''/api/manuals/upload/'') path"

definition route_required_role :: "http_method \<Rightarrow> rstr \<Rightarrow> auth_role" where
  "route_required_role m path =
     (if m = POST \<and> starts_with (lit ''/api/upload/'') path \<or> m = GET \<and> path = lit ''/api/upload/targets''
      then Admin
      else if m = PUT \<and> path = lit ''/api/roms/rename'' then Admin
      else if m = GET \<and> path = lit ''/api/export/library.csv'' then Admin
      else if m = GET \<and> is_admin_page_route path then Admin
      else if is_user_route m path then User
      else if is_unsafe_method m then Admin
      else User)"

section \<open>The session of a request\<close>

text \<open>The cookies of the header: \<open>filter_map\<close> over the parts, then the first acceptable one.\<close>

definition cookie_pairs :: "rstr \<Rightarrow> (rstr \<times> rstr) list" where
  "cookie_pairs s = List.map_filter (\<lambda>part. split_once 61 (trim part)) (split_on 59 s)"

definition session_token_from_cookie :: "u8 list option \<Rightarrow> rstr option" where
  "session_token_from_cookie header =
     (case header of
        None \<Rightarrow> None
      | Some bytes \<Rightarrow>
          (case to_str bytes of
             None \<Rightarrow> None
           | Some s \<Rightarrow>
               map_option (\<lambda>(_, value). trim value)
                 (find (\<lambda>(name, value).
                     name = lit ''ReplayControlSession'' \<and> valid_session_cookie_value (trim value))
                   (cookie_pairs s))))"

definition request_auth_role :: "(rstr \<Rightarrow> auth_role option rresult) \<Rightarrow> http_request \<Rightarrow> auth_role" where
  "request_auth_role resolve rq =
     (case session_token_from_cookie (header_get (rq_headers rq) (lit ''cookie'')) of
        None \<Rightarrow> Anonymous
      | Some token \<Rightarrow> (case resolve token of Inr (Some role) \<Rightarrow> role | _ \<Rightarrow> Anonymous))"

section \<open>The guard\<close>

record gate_config =
  gc_is_replayos :: bool
  gc_first_setup_done :: bool
  gc_url_encode :: "rstr \<Rightarrow> rstr"
  gc_uri_authority :: "rstr \<Rightarrow> rstr option"

definition refuse :: "auth_role \<Rightarrow> gate_decision" where
  "refuse role = (if role = Anonymous then Unauthorized else Forbidden)"

definition with_auth_guard ::
  "gate_config \<Rightarrow> (rstr \<Rightarrow> auth_role option rresult) \<Rightarrow> http_request \<Rightarrow> gate_decision" where
  "with_auth_guard cfg resolve rq =
     (let path = rq_path rq; m = rq_method rq
      in if \<not> gc_is_replayos cfg then Pass
         else if starts_with (lit ''/static/'') path \<or> path = lit ''/api/version'' \<or> path = lit ''/waiting'' then Pass
         else
           (let role = request_auth_role resolve rq
            in if is_unsafe_method m \<and> role \<noteq> Anonymous \<and>
                  \<not> passes_csrf_origin_check (gc_uri_authority cfg) (rq_headers rq) then Forbidden
               else if \<not> gc_first_setup_done cfg then
                 (if is_public_during_first_setup path then Pass
                  else if m = GET \<and> wants_html_response (rq_headers rq) then Redirect (lit ''/first-setup'')
                  else Unauthorized)
               else if path = lit ''/login'' \<and> m = GET \<and> role \<noteq> Anonymous then Redirect (lit ''/'')
               else if is_public_without_auth path then Pass
               else
                 (case server_function_required_role path of
                    Some required_role \<Rightarrow> if allows role required_role then Pass else refuse role
                  | None \<Rightarrow>
                      if allows role (route_required_role m path) then Pass
                      else if m = GET \<and> wants_html_response (rq_headers rq) then
                        Redirect (if role = Anonymous then login_redirect_target (gc_url_encode cfg) rq
                                  else access_redirect_target (gc_url_encode cfg) rq)
                      else refuse role)))"

section \<open>Cookies\<close>

lemma session_token_valid:
  assumes "session_token_from_cookie h = Some t"
  shows "valid_session_cookie_value t"
  using assms
  by (auto simp: session_token_from_cookie_def find_Some_iff split: option.splits)

lemma count_dots_bytes: "count_dots bs n = Some m \<Longrightarrow> list_all (\<lambda>b. cookie_char (unat b) \<or> b = 46) bs"
  by (induction bs n rule: count_dots.induct) (auto split: if_splits)

lemma count_dots_chars:
  assumes "count_dots (utf8_bytes t) n = Some m"
  shows "list_all (\<lambda>c. cookie_char c \<or> c = 46) t"
proof -
  have "cookie_char c \<or> c = 46" if "c \<in> set t" for c
  proof (cases "c < 128")
    case True
    then have "of_nat c \<in> set (utf8_bytes t)" "unat (of_nat c :: u8) = c"
      using that by (force simp: utf8_bytes_def utf8_char_def, simp add: unat_of_nat)
    with count_dots_bytes [OF assms] show ?thesis by (force simp: list_all_iff)
  next
    case False
    then have "of_nat (128 + c mod 64) \<in> set (utf8_char c)" by (simp add: utf8_char_def)
    then have "of_nat (128 + c mod 64) \<in> set (utf8_bytes t)" using that by (auto simp: utf8_bytes_def)
    moreover have "unat (of_nat (128 + c mod 64) :: u8) = 128 + c mod 64"
      by (subst unat_of_nat) (simp add: take_bit_nat_eq_self)
    ultimately obtain w where w: "w \<in> set (utf8_bytes t)" "128 \<le> unat w" by (metis le_add1)
    then have "cookie_char (unat w) \<or> w = 46" using count_dots_bytes [OF assms] by (simp add: list_all_iff)
    with w(2) show ?thesis by (auto simp: cookie_char_def char_class_defs)
  qed
  then show ?thesis by (simp add: list_all_iff)
qed

lemma valid_cookie_chars: "valid_session_cookie_value t \<Longrightarrow> t \<noteq> [] \<and> list_all (\<lambda>c. cookie_char c \<or> c = 46) t"
  by (auto simp: valid_session_cookie_value_def split: if_splits option.splits dest: count_dots_chars)

lemma to_str_utf8:
  "list_all (\<lambda>c. 32 \<le> c \<and> c < 127) s \<Longrightarrow> to_str (utf8_bytes s) = Some s"
proof (induction s)
  case (Cons c s)
  then have "utf8_bytes (c # s) = of_nat c # utf8_bytes s" "unat (of_nat c :: u8) = c"
    by (simp_all add: utf8_bytes_def utf8_char_def unat_of_nat)
  with Cons show ?case by (auto simp: to_str_def word_le_nat_alt word_less_nat_alt split: if_splits)
qed (simp add: to_str_def utf8_bytes_def)

lemma session_cookie_found:
  assumes "valid_session_cookie_value t"
  shows "session_token_from_cookie (Some (utf8_bytes (lit ''ReplayControlSession='' @ t))) = Some t"
proof -
  let ?s = "lit ''ReplayControlSession='' @ t"
  have t: "t \<noteq> []" "\<forall>c \<in> set t. cookie_char c \<or> c = 46" using valid_cookie_chars [OF assms] by (auto simp: list_all_iff)
  have name: "\<forall>c \<in> set (lit ''ReplayControlSession=''). cookie_char c \<or> c = 61" by code_simp
  have cls: "32 \<le> c \<and> c < 127 \<and> c \<noteq> 59 \<and> \<not> is_whitespace c" if "cookie_char c \<or> c = 46 \<or> c = 61" for c
    using that by (auto simp: cookie_char_def char_class_defs is_whitespace_def)
  have ends: "\<not> is_whitespace (hd t)" "\<not> is_whitespace (last t)"
    using bspec [OF t(2) hd_in_set [OF t(1)]] bspec [OF t(2) last_in_set [OF t(1)]] cls by blast+
  have "to_str (utf8_bytes ?s) = Some ?s" using t(2) name cls by (intro to_str_utf8) (auto simp: list_all_iff)
  moreover have "split_on 59 ?s = [?s]" using t(2) name cls by (intro split_on_notin) fastforce
  moreover have "\<not> is_whitespace (hd ?s)" by (simp add: lit_def is_whitespace_def)
  then have "trim ?s = ?s"
    using t(1) ends(2) by (intro trim_id) (simp add: bare_def)
  moreover have "trim t = t"
    using ends by (intro trim_id) (simp add: bare_def)
  moreover have "split_once 61 ?s = Some (lit ''ReplayControlSession'', t)"
    by (simp add: split_once_Some_iff lit_def)
  ultimately show ?thesis
    using assms by (simp add: session_token_from_cookie_def cookie_pairs_def List.map_filter_simps)
qed

section \<open>What the guard promises over any session store\<close>

definition required_role :: "http_request \<Rightarrow> auth_role" where
  "required_role rq =
     (case server_function_required_role (rq_path rq) of
        Some r \<Rightarrow> r
      | None \<Rightarrow> route_required_role (rq_method rq) (rq_path rq))"

definition exempt_path :: "rstr \<Rightarrow> bool" where
  "exempt_path path \<longleftrightarrow>
     starts_with (lit ''/static/'') path \<or> path = lit ''/api/version'' \<or> path = lit ''/waiting''"

lemma guard_pass:
  assumes "with_auth_guard cfg resolve rq = Pass" and "gc_is_replayos cfg" and "gc_first_setup_done cfg"
  shows "is_public_without_auth (rq_path rq) \<or> allows (request_auth_role resolve rq) (required_role rq)"
  using assms
  by (auto simp: with_auth_guard_def Let_def required_role_def refuse_def is_public_without_auth_def
      split: if_splits option.splits)

lemma guard_setup_pass:
  assumes "with_auth_guard cfg resolve rq = Pass" and "gc_is_replayos cfg" and "\<not> gc_first_setup_done cfg"
  shows "is_public_during_first_setup (rq_path rq)"
  using assms by (auto simp: with_auth_guard_def Let_def is_public_during_first_setup_def split: if_splits)

lemma guard_csrf:
  assumes "with_auth_guard cfg resolve rq = Pass" and "gc_is_replayos cfg" and "\<not> exempt_path (rq_path rq)"
    and "is_unsafe_method (rq_method rq)" and "request_auth_role resolve rq \<noteq> Anonymous"
  shows "passes_csrf_origin_check (gc_uri_authority cfg) (rq_headers rq)"
  using assms by (auto simp: with_auth_guard_def Let_def exempt_path_def split: if_splits)

context session_authority
begin

lemma role_is_genuine:
  assumes "request_auth_role resolve rq = role" and "role \<noteq> Anonymous"
  obtains token where "session_token_from_cookie (header_get (rq_headers rq) (lit ''cookie'')) = Some token"
    "valid_session_cookie_value token" "genuine role token"
proof -
  obtain token where "session_token_from_cookie (header_get (rq_headers rq) (lit ''cookie'')) = Some token"
      "resolve token = Inr (Some role)"
    using assms by (auto simp: request_auth_role_def split: option.splits sum.splits)
  then show thesis using that [of token] resolved_is_genuine session_token_valid by blast
qed

lemma pass_needs_genuine_session:
  assumes "with_auth_guard cfg resolve rq = Pass" and "gc_is_replayos cfg" and "gc_first_setup_done cfg"
    and "\<not> is_public_without_auth (rq_path rq)" and "required_role rq \<noteq> Anonymous"
  shows "\<exists>token role. session_token_from_cookie (header_get (rq_headers rq) (lit ''cookie'')) = Some token \<and>
    genuine role token \<and> allows role (required_role rq)"
proof -
  have "allows (request_auth_role resolve rq) (required_role rq)" using guard_pass [OF assms(1-3)] assms(4) by blast
  moreover from this have "request_auth_role resolve rq \<noteq> Anonymous"
    using assms(5) by (cases "required_role rq") (auto simp: allows_def)
  ultimately show ?thesis using role_is_genuine [of rq] by metis
qed

end

text \<open>
  Distinctness of a long table, decided on a key of the names (their length and three of
  their characters): neighbouring runs are merged
  until one ascending run is left, in which a duplicate would show as two equal neighbours.
\<close>

definition name_key :: "rstr \<Rightarrow> nat" where
  "name_key f =
     (let g = f @ [0, 0, 0, 0, 0, 0, 0] in length f + 64 * (g ! 0 + 128 * (g ! 4 + 128 * g ! 12)))"

fun strictly_up :: "nat list \<Rightarrow> bool" where
  "strictly_up (a # b # rest) \<longleftrightarrow> a < b \<and> strictly_up (b # rest)"
| "strictly_up _ \<longleftrightarrow> True"

fun zip_up :: "nat list \<Rightarrow> nat list \<Rightarrow> nat list" where
  "zip_up (a # as) (b # bs) = (if b < a then b # zip_up (a # as) bs else a # zip_up as (b # bs))"
| "zip_up as bs = as @ bs"

fun zip_neighbours :: "nat list list \<Rightarrow> nat list list" where
  "zip_neighbours (as # bs # rest) = zip_up as bs # zip_neighbours rest"
| "zip_neighbours rest = rest"

lemma mset_zip_up: "mset (zip_up as bs) = mset as + mset bs"
  by (induction as bs rule: zip_up.induct) auto

lemma mset_zip_neighbours: "mset (concat (zip_neighbours xss)) = mset (concat xss)"
  by (induction xss rule: zip_neighbours.induct) (auto simp: mset_zip_up)

lemma strictly_up_distinct: "strictly_up xs \<Longrightarrow> distinct xs \<and> (\<forall>x \<in> set xs. hd xs \<le> x)"
  by (induction xs rule: strictly_up.induct) force+

lemma merged_distinct:
  assumes "strictly_up (concat (fold (\<lambda>_. zip_neighbours) rounds (map (\<lambda>x. [x]) xs)))"
  shows "distinct xs"
proof -
  have "mset (concat (fold (\<lambda>_. zip_neighbours) rounds xss)) = mset (concat xss)" for xss
    by (induction rounds arbitrary: xss) (simp_all add: mset_zip_neighbours)
  then have "mset (concat (fold (\<lambda>_. zip_neighbours) rounds (map (\<lambda>x. [x]) xs))) = mset xs" by simp
  then show ?thesis
    using strictly_up_distinct [OF assms] mset_eq_imp_distinct_iff by blast
qed

lemma tables_distinct:
  "distinct (public_auth_server_functions @ admin_server_functions @ user_read_server_functions @ user_other_server_functions)"
    (is "distinct ?tables")
proof -
  have "map name_key ?tables =
      [122436047, 106814230, 908043, 121477332, 965382, 107936207, 116128976, 111008206, 107740367, 111040988,
       109837545, 115211405, 118381593, 115144983, 120503059, 121387481, 121388249, 858572, 106691789,
       118290644, 122575054, 106814611, 102603025, 940236, 102619351, 100514269, 100514266, 117340623,
       114137556, 106691797, 100555222, 118290898, 102497491, 118226134, 118226144, 106691800, 102546575,
       114154655, 111057368, 121387480, 956682, 900234, 100555221, 121371870, 127769044, 102497493, 116283865,
       110886117, 127768922, 127720855, 121371864, 115252446, 116301137, 116177111, 102652117, 114048147,
       100482196, 123550871, 118307992, 100531352, 105740497, 110016978, 104594643, 785612, 957644, 104594649,
       948683, 940491, 106846669, 111040974, 100555218, 109853133, 106707406, 106854865, 124550355, 120363476,
       120363475, 102530255, 116152784, 115104207, 916619, 107871382, 108943825, 105798099, 123533778,
       116234705, 123533787, 117242327, 106756559, 100538840, 124550354, 102521299, 110016980, 866760,
       122526158, 105716173, 116292073, 121428429, 102660564, 841804, 111074447, 117300178, 122558927,
       120494481, 121428445, 122591501, 122599889, 104765715, 817931, 118381013, 102652375, 118331860,
       127728081, 102628498, 118226138, 124533211, 117177563, 106880159, 121371861, 102513813, 122583508,
       117241942, 120511641, 106756174, 124705937, 123574543, 114202893, 124542163, 100572309, 102660560,
       118307085, 948681, 949448, 104758477, 106748365, 128711886, 120478165, 120478175, 100506071, 891338,
       785611, 105781719]"
    by code_simp
  then have "strictly_up (concat (fold (\<lambda>_. zip_neighbours) [(), (), (), (), (), (), (), ()]
      (map (\<lambda>x. [x]) (map name_key ?tables))))"
    by (simp only:) simp
  then have "distinct (map name_key ?tables)" by (rule merged_distinct)
  then show ?thesis using distinct_map by blast
qed

definition classified_name :: "rstr \<Rightarrow> bool" where
  "classified_name f \<longleftrightarrow>
     normalize_server_function_name f = f \<and> f \<noteq> [] \<and> \<not> is_ascii_digit (last f) \<and> hd f \<noteq> 47 \<and>
     last f \<noteq> 47 \<and> 47 \<notin> set f"

lemma tables_normalized:
  "list_all classified_name
     (public_auth_server_functions @ admin_server_functions @ user_read_server_functions @ user_other_server_functions)"
  by code_simp

lemma normalized_path_of_name:
  assumes "classified_name f" and "list_all is_ascii_digit ds"
  shows "normalized_server_function_path (lit ''/sfn/'' @ f @ ds) = Some f"
proof -
  have ds: "47 \<notin> set ds" using assms(2) by (auto simp: list_all_iff char_class_defs)
  have f: "f \<noteq> []" "hd f \<noteq> 47" "47 \<notin> set f" "\<not> is_ascii_digit (last f)" "normalize_server_function_name f = f"
    using assms(1) by (simp_all add: classified_name_def)
  have "bare (\<lambda>c. c = 47) (f @ ds)"
    using f ds last_in_set [of "f @ ds"] by (auto simp: bare_def)
  then have "trim_matches (\<lambda>c. c = 47) (f @ ds) = f @ ds" by (rule trim_matches_id)
  moreover have "split_on 47 (f @ ds) = [f @ ds]" using f(3) ds by (intro split_on_notin) simp
  moreover have "trim_end_matches is_ascii_digit (f @ ds) = f"
    using f(1,4) trim_end_pad [OF assms(2), of f] by (cases f rule: rev_cases) (simp_all add: trim_end_matches_def)
  ultimately show ?thesis
    using f(5) by (simp add: normalized_server_function_path_def)
qed

section \<open>Properties\<close>

text \<open>
  No server function is in two role tables, and every listed name, with or without the
  numeric suffix that the framework appends to the path, gets exactly its table's role; a path
  under \<open>/sfn/\<close> whose function is in no table needs Admin.
\<close>

lemma server_function_roles:
  assumes "list_all is_ascii_digit ds"
  shows "(\<forall>f \<in> set public_auth_server_functions. server_function_required_role (lit ''/sfn/'' @ f @ ds) = Some Anonymous) \<and>
    (\<forall>f \<in> set admin_server_functions. server_function_required_role (lit ''/sfn/'' @ f @ ds) = Some Admin) \<and>
    (\<forall>f \<in> set (user_read_server_functions @ user_other_server_functions).
       server_function_required_role (lit ''/sfn/'' @ f @ ds) = Some User) \<and>
    (\<forall>path f. normalized_server_function_path path = Some f \<and>
       f \<notin> set (public_auth_server_functions @ user_read_server_functions @ user_other_server_functions) \<longrightarrow>
       server_function_required_role path = Some Admin)"
proof -
  have "normalized_server_function_path (lit ''/sfn/'' @ f @ ds) = Some f"
    if "f \<in> set (public_auth_server_functions @ admin_server_functions @ user_read_server_functions @ user_other_server_functions)" for f
    using that tables_normalized normalized_path_of_name [OF _ assms] unfolding list_all_iff by blast
  then show ?thesis
    using tables_distinct
    by (auto simp: server_function_required_role_def is_public_auth_server_function_def
        is_admin_server_function_def is_user_server_function_def is_user_read_server_function_def)
qed

lemma server_function_roles_witness:
  "server_function_required_role (lit ''/sfn/delete_rom12345'') = Some Admin"
proof -
  have "list_all is_ascii_digit (lit ''12345'')" by code_simp
  moreover have "lit ''delete_rom'' \<in> set admin_server_functions" by code_simp
  ultimately have "server_function_required_role (lit ''/sfn/'' @ lit ''delete_rom'' @ lit ''12345'') = Some Admin"
    using server_function_roles by blast
  then show ?thesis by (simp add: lit_append [symmetric])
qed


definition demo_cfg :: "bool \<Rightarrow> gate_config" where
  "demo_cfg setup_done =
     \<lparr>gc_is_replayos = True, gc_first_setup_done = setup_done, gc_url_encode = id, gc_uri_authority = Some\<rparr>"

definition demo_request :: "http_method \<Rightarrow> rstr \<Rightarrow> (rstr \<times> u8 list) list \<Rightarrow> http_request" where
  "demo_request m path headers =
     \<lparr>rq_method = m, rq_path = path, rq_path_and_query = Some path, rq_headers = headers\<rparr>"

definition demo_admin_request :: http_request where
  "demo_admin_request =
     demo_request POST (lit ''/sfn/reboot_system'')
       [(lit ''cookie'', utf8_bytes (lit ''a=b; ReplayControlSession=x.y'')),
        (lit ''host'', utf8_bytes (lit ''Replay.local'')), (lit ''origin'', utf8_bytes (lit ''replay.local''))]"

lemma demo_admin_request_passes:
  "with_auth_guard (demo_cfg True) (\<lambda>_. Inr (Some Admin)) demo_admin_request = Pass"
  by code_simp


text \<open>
  A request that changes state on behalf of a signed-in browser reaches its handler only
  when the browser says it is same-origin, or, when the browser says nothing decisive, when the
  origin (or, without one, the referring page) names the very host the request was sent to.
\<close>

lemma guard_blocks_cross_site:
  assumes "with_auth_guard cfg resolve rq = Pass" and "gc_is_replayos cfg" and "\<not> exempt_path (rq_path rq)"
    and "is_unsafe_method (rq_method rq)" and "request_auth_role resolve rq \<noteq> Anonymous"
  shows "header_str (rq_headers rq) (lit ''sec-fetch-site'') = Some (lit ''same-origin'') \<or>
    header_str (rq_headers rq) (lit ''sec-fetch-site'') \<notin> {Some (lit ''same-site''), Some (lit ''cross-site'')} \<and>
    (\<exists>host source. Option.bind (header_str (rq_headers rq) (lit ''host'')) normalize_authority = Some host \<and>
      origin_authority (gc_uri_authority cfg) source = Some host \<and>
      (header_str (rq_headers rq) (lit ''origin'') = Some source \<or>
       header_str (rq_headers rq) (lit ''origin'') = None \<and> header_str (rq_headers rq) (lit ''referer'') = Some source))"
  using guard_csrf [OF assms]
  by (auto simp: passes_csrf_origin_check_def Let_def split: option.splits if_splits)

lemma guard_blocks_cross_site_witness:
  "header_str (rq_headers demo_admin_request) (lit ''sec-fetch-site'') = Some (lit ''same-origin'') \<or>
   (\<exists>host. Option.bind (header_str (rq_headers demo_admin_request) (lit ''host'')) normalize_authority = Some host)"
proof -
  have "gc_is_replayos (demo_cfg True)" by (simp add: demo_cfg_def)
  moreover have "\<not> exempt_path (rq_path demo_admin_request)" "is_unsafe_method (rq_method demo_admin_request)" by code_simp+
  moreover have "request_auth_role (\<lambda>_. Inr (Some Admin)) demo_admin_request \<noteq> Anonymous" by code_simp
  ultimately show ?thesis using guard_blocks_cross_site [OF demo_admin_request_passes] by blast
qed

text \<open>
  C1: with the device's session store behind it, an administrator's route or server function
  is reached only by a request whose cookie holds a session token that is authentic under the key
  on disk, unexpired, still within its elevation and bound to the current root password hash.
\<close>

theorem admin_request_is_authenticated:
  assumes "with_auth_guard cfg (\<lambda>token. resolve_session cr env token now) rq = Pass"
    and "gc_is_replayos cfg" and "gc_first_setup_done cfg"
    and "\<not> is_public_without_auth (rq_path rq)" and "required_role rq = Admin"
  shows "\<exists>token. session_token_from_cookie (header_get (rq_headers rq) (lit ''cookie'')) = Some token \<and>
    genuine_session cr env now Admin token"
proof -
  have "required_role rq \<noteq> Anonymous" using assms(5) by simp
  from auth_store.pass_needs_genuine_session [OF assms(1-4) this]
  obtain token role where t: "session_token_from_cookie (header_get (rq_headers rq) (lit ''cookie'')) = Some token"
      "genuine_session cr env now role token" "allows role Admin"
    using assms(5) by auto
  then have "role = Admin" by (cases role) (simp_all add: allows_def)
  with t show ?thesis by blast
qed

definition demo_session_request :: http_request where
  "demo_session_request =
     demo_request POST (lit ''/sfn/reboot_system'')
       [(lit ''cookie'', utf8_bytes (lit ''ReplayControlSession='' @ demo_token)),
        (lit ''sec-fetch-site'', utf8_bytes (lit ''same-origin''))]"

lemma demo_cookie_valid: "valid_session_cookie_value demo_token"
proof -
  have "hmac_sign demo_crypto demo_key payload \<noteq> []" for payload by (simp add: demo_crypto_def demo_key_def)
  moreover have "length (utf8_bytes (encode_claims demo_claims)) \<le> 400" by code_simp
  then have "length demo_token \<le> 2048"
    by (simp add: demo_token_def sign_claims_with_key_def Let_def sign_payload_def demo_crypto_def length_hex_encode)
  ultimately show ?thesis using signed_token_cookie [OF demo_b64_laws] by (simp add: demo_token_def)
qed

theorem admin_request_is_authenticated_witness:
  "genuine_session demo_crypto demo_env 1500 Admin demo_token"
proof -
  have cookie: "session_token_from_cookie (header_get (rq_headers demo_session_request) (lit ''cookie'')) = Some demo_token"
    using session_cookie_found [OF demo_cookie_valid]
    by (simp add: demo_session_request_def demo_request_def header_get_def)
  then have role: "request_auth_role (\<lambda>token. resolve_session demo_crypto demo_env token 1500) demo_session_request = Admin"
    by (simp add: request_auth_role_def demo_resolves)
  have sfn: "server_function_required_role (lit ''/sfn/reboot_system'') = Some Admin" by code_simp
  have path: "rq_path demo_session_request = lit ''/sfn/reboot_system''" "rq_method demo_session_request = POST"
    by (simp_all add: demo_session_request_def demo_request_def)
  have public: "\<not> is_public_without_auth (lit ''/sfn/reboot_system'')" by code_simp
  have csrf: "passes_csrf_origin_check uri (rq_headers demo_session_request)" for uri
  proof -
    have "header_str (rq_headers demo_session_request) (lit ''sec-fetch-site'') = Some (lit ''same-origin'')"
      by (simp add: demo_session_request_def demo_request_def header_str_def header_get_def to_str_utf8 lit_def)
    then show ?thesis by (simp add: passes_csrf_origin_check_def)
  qed
  have "with_auth_guard (demo_cfg True) (\<lambda>token. resolve_session demo_crypto demo_env token 1500) demo_session_request = Pass"
    using public by (simp add: with_auth_guard_def Let_def demo_cfg_def role path csrf sfn allows_def is_public_without_auth_def)
  moreover have "required_role demo_session_request = Admin" by (simp add: required_role_def path sfn)
  ultimately show ?thesis
    using admin_request_is_authenticated [of "demo_cfg True" demo_crypto demo_env 1500 demo_session_request] cookie public path
    by (simp add: demo_cfg_def)
qed

end
