(* ===== verification/Login_Rate_Limiter.thy ===== *)
theory Login_Rate_Limiter
  imports Rust_Prelude
begin

text \<open>
  \<open>LoginRateLimiter\<close> of \<open>core-server/auth.rs\<close>: a fixed ten-minute window that counts failed
  sign-ins and locks for five minutes from the eighth on.

  An \<open>Instant\<close> is a natural number of nanoseconds since some fixed moment; \<open>duration_since\<close>
  saturates at zero, as subtraction of naturals does. The failure counter is a \<open>u32\<close>. A poisoned
  mutex is the flag \<open>rl_poisoned\<close>. The read of the clock is the argument \<open>now\<close> of each
  operation.
\<close>

section \<open>State and operations\<close>

record login_attempt_state =
  la_failures :: u32
  la_window_started :: nat
  la_locked_until :: "nat option"

record login_rate_limiter =
  rl_state :: login_attempt_state
  rl_poisoned :: bool

definition second :: nat where
  "second = 1000000000"

definition LOGIN_RATE_LIMIT_MAX_FAILURES :: u32 where
  "LOGIN_RATE_LIMIT_MAX_FAILURES = 8"

definition LOGIN_RATE_LIMIT_WINDOW :: nat where
  "LOGIN_RATE_LIMIT_WINDOW = 10 * 60 * second"

definition LOGIN_RATE_LIMIT_LOCKOUT :: nat where
  "LOGIN_RATE_LIMIT_LOCKOUT = 5 * 60 * second"

definition new_attempts :: "nat \<Rightarrow> login_attempt_state" where
  "new_attempts now = \<lparr>la_failures = 0, la_window_started = now, la_locked_until = None\<rparr>"

definition new_limiter :: "nat \<Rightarrow> login_rate_limiter" where
  "new_limiter now = \<lparr>rl_state = new_attempts now, rl_poisoned = False\<rparr>"

definition limiter_unavailable :: error where
  "limiter_unavailable = Other (lit ''Login rate limiter is unavailable'')"

definition too_many_attempts :: error where
  "too_many_attempts = Other (lit ''Too many failed login attempts. Try again in a few minutes.'')"

definition check :: "nat \<Rightarrow> login_rate_limiter \<Rightarrow> login_rate_limiter \<times> unit rresult" where
  "check now l =
     (if rl_poisoned l then (l, Inl limiter_unavailable)
      else if (case la_locked_until (rl_state l) of None \<Rightarrow> False | Some until \<Rightarrow> now < until)
      then (l, Inl too_many_attempts)
      else if LOGIN_RATE_LIMIT_WINDOW < now - la_window_started (rl_state l)
      then (l\<lparr>rl_state := new_attempts now\<rparr>, Inr ())
      else (l, Inr ()))"

definition record_success :: "nat \<Rightarrow> login_rate_limiter \<Rightarrow> login_rate_limiter \<times> unit rresult" where
  "record_success now l =
     (if rl_poisoned l then (l, Inl limiter_unavailable)
      else (l\<lparr>rl_state := new_attempts now\<rparr>, Inr ()))"

definition count_failure :: "nat \<Rightarrow> login_attempt_state \<Rightarrow> login_attempt_state" where
  "count_failure now st0 =
     (let st1 = (if LOGIN_RATE_LIMIT_WINDOW < now - la_window_started st0
                 then st0\<lparr>la_failures := 0, la_window_started := now, la_locked_until := None\<rparr>
                 else st0);
          st2 = st1\<lparr>la_failures := la_failures st1 + 1\<rparr>
      in if LOGIN_RATE_LIMIT_MAX_FAILURES \<le> la_failures st2
         then st2\<lparr>la_locked_until := Some (now + LOGIN_RATE_LIMIT_LOCKOUT)\<rparr>
         else st2)"

definition record_failure :: "nat \<Rightarrow> login_rate_limiter \<Rightarrow> login_rate_limiter \<times> unit rresult" where
  "record_failure now l =
     (if rl_poisoned l then (l, Inl limiter_unavailable)
      else (l\<lparr>rl_state := count_failure now (rl_state l)\<rparr>, Inr ()))"

section \<open>Attempts\<close>

text \<open>
  A sign-in attempt with a wrong secret, as the handlers make it: \<open>check\<close> at one moment and,
  when admitted, \<open>record_failure\<close> at a later one. \<open>guesses\<close> runs a sequence of attempts and
  counts the admitted ones.
\<close>

fun guesses :: "login_rate_limiter \<Rightarrow> (nat \<times> nat) list \<Rightarrow> nat" where
  "guesses l [] = 0"
| "guesses l ((checked, failed) # ts) =
     (case check checked l of
        (l', Inl _) \<Rightarrow> guesses l' ts
      | (l', Inr _) \<Rightarrow> 1 + guesses (fst (record_failure failed l')) ts)"

text \<open>Attempts that follow one another, all after \<open>from\<close> and none after \<open>until\<close>.\<close>

fun in_order :: "nat \<Rightarrow> nat \<Rightarrow> (nat \<times> nat) list \<Rightarrow> bool" where
  "in_order from until [] \<longleftrightarrow> True"
| "in_order from until ((checked, failed) # ts) \<longleftrightarrow>
     from \<le> checked \<and> checked \<le> failed \<and> failed \<le> until \<and> in_order failed until ts"

lemma MAX_FAILURES_unat: "LOGIN_RATE_LIMIT_MAX_FAILURES \<le> w \<longleftrightarrow> 8 \<le> unat w"
  by (simp add: LOGIN_RATE_LIMIT_MAX_FAILURES_def word_le_nat_alt)

lemma u32_suc: "unat (w :: u32) < 100 \<Longrightarrow> unat (w + 1) = unat w + 1"
  by (simp add: unat_word_ariths)

lemmas limit_defs = LOGIN_RATE_LIMIT_WINDOW_def LOGIN_RATE_LIMIT_LOCKOUT_def

section \<open>The bound on guesses\<close>

text \<open>
  In a window with \<open>f\<close> failures, the first eight are free and each further one has waited out a
  lock: the lock that the \<open>f\<close>-th failure sets ends at least \<open>f - 7\<close> lockouts after the window
  began. Three lockouts exceed a window, so a window never sees an eleventh failure.
\<close>

definition window_ok :: "login_attempt_state \<Rightarrow> bool" where
  "window_ok st \<longleftrightarrow>
     unat (la_failures st) \<le> 10 \<and>
     (8 \<le> unat (la_failures st) \<longrightarrow>
       (\<exists>until. la_locked_until st = Some until \<and>
         la_window_started st + (unat (la_failures st) - 7) * LOGIN_RATE_LIMIT_LOCKOUT \<le> until))"

definition unlocked :: "nat \<Rightarrow> login_attempt_state \<Rightarrow> bool" where
  "unlocked now st \<longleftrightarrow> (\<forall>until. la_locked_until st = Some until \<longrightarrow> until \<le> now)"

lemma window_ok_new [simp]: "window_ok (new_attempts now)" "unlocked t (new_attempts now)"
  by (simp_all add: window_ok_def unlocked_def new_attempts_def)

lemma count_failure_window:
  assumes "window_ok st" and "unlocked checked st" and "checked \<le> now" and "la_window_started st \<le> now"
  shows "window_ok (count_failure now st)"
    and "la_window_started (count_failure now st) = la_window_started st \<and>
           unat (la_failures (count_failure now st)) = unat (la_failures st) + 1 \<or>
         la_window_started st + LOGIN_RATE_LIMIT_WINDOW < la_window_started (count_failure now st) \<and>
           la_window_started (count_failure now st) = now \<and> unat (la_failures (count_failure now st)) = 1"
proof -
  have *: "window_ok (count_failure now st) \<and>
    (la_window_started (count_failure now st) = la_window_started st \<and>
           unat (la_failures (count_failure now st)) = unat (la_failures st) + 1 \<or>
         la_window_started st + LOGIN_RATE_LIMIT_WINDOW < la_window_started (count_failure now st) \<and>
           la_window_started (count_failure now st) = now \<and> unat (la_failures (count_failure now st)) = 1)"
  proof (cases "LOGIN_RATE_LIMIT_WINDOW < now - la_window_started st")
    case True
    then show ?thesis
      by (auto simp: count_failure_def Let_def MAX_FAILURES_unat window_ok_def)
  next
    case False
    define f where "f = unat (la_failures st)"
    have f: "f \<le> 10" using assms(1) by (simp add: window_ok_def f_def)
    then have suc: "unat (la_failures st + 1) = f + 1" by (simp add: u32_suc f_def)
    have wait: "la_window_started st + (f - 7) * LOGIN_RATE_LIMIT_LOCKOUT \<le> now" if "8 \<le> f"
      using assms that by (fastforce simp: window_ok_def unlocked_def f_def)
    have "f \<noteq> 10"
      using wait False by (auto simp: limit_defs second_def)
    with f have "f + 1 \<le> 10" by simp
    moreover have "la_window_started st + (f - 6) * LOGIN_RATE_LIMIT_LOCKOUT \<le> now + LOGIN_RATE_LIMIT_LOCKOUT" if "7 \<le> f"
    proof (cases "8 \<le> f")
      case True
      then have "f - 6 = Suc (f - 7)" by simp
      with wait True show ?thesis by simp
    next
      case False
      with that have "f = 7" by simp
      then show ?thesis using assms(4) by simp
    qed
    ultimately show ?thesis
      using False suc by (auto simp: count_failure_def Let_def MAX_FAILURES_unat window_ok_def f_def [symmetric])
  qed
  show "window_ok (count_failure now st)" using * by blast
  show "la_window_started (count_failure now st) = la_window_started st \<and>
           unat (la_failures (count_failure now st)) = unat (la_failures st) + 1 \<or>
         la_window_started st + LOGIN_RATE_LIMIT_WINDOW < la_window_started (count_failure now st) \<and>
           la_window_started (count_failure now st) = now \<and> unat (la_failures (count_failure now st)) = 1"
    using * by blast
qed

lemma window_count:
  assumes "ws + LOGIN_RATE_LIMIT_WINDOW < ws'" and "ws' \<le> until"
  shows "(until - ws') div LOGIN_RATE_LIMIT_WINDOW + 1 \<le> (until - ws) div LOGIN_RATE_LIMIT_WINDOW"
proof -
  have "0 < LOGIN_RATE_LIMIT_WINDOW" by (simp add: limit_defs second_def)
  then have "(until - ws') div LOGIN_RATE_LIMIT_WINDOW + 1 =
      (until - ws' + LOGIN_RATE_LIMIT_WINDOW) div LOGIN_RATE_LIMIT_WINDOW" by (simp add: div_add_self2)
  also have "\<dots> \<le> (until - ws) div LOGIN_RATE_LIMIT_WINDOW" by (rule div_le_mono) (use assms in simp)
  finally show ?thesis .
qed

lemma guesses_window_bound:
  assumes "window_ok (rl_state l)" and "la_window_started (rl_state l) \<le> from" and "in_order from until ts"
  shows "guesses l ts + unat (la_failures (rl_state l)) \<le>
    10 * ((until - la_window_started (rl_state l)) div LOGIN_RATE_LIMIT_WINDOW + 1)"
  using assms
proof (induction l ts arbitrary: "from" rule: guesses.induct)
  case (1 l)
  then show ?case by (simp add: window_ok_def)
next
  case (2 l checked failed ts)
  define st where "st = rl_state l"
  let ?bound = "\<lambda>ws. 10 * ((until - ws) div LOGIN_RATE_LIMIT_WINDOW + 1)"
  have ord: "la_window_started st \<le> checked" "checked \<le> failed" "failed \<le> until" "in_order failed until ts"
    using 2(4,5) by (auto simp: st_def)
  show ?case
  proof (cases "snd (check checked l)")
    case (Inl e)
    then have "check checked l = (l, Inl e)" by (auto simp: check_def split: if_splits)
    moreover from this have "guesses l ts + unat (la_failures (rl_state l)) \<le> ?bound (la_window_started (rl_state l))"
      using 2(1) [of l "Inl e" e failed] 2(3) ord by (simp add: st_def)
    ultimately show ?thesis by simp
  next
    case (Inr u)
    then obtain l' where l': "check checked l = (l', Inr u)" by (cases "check checked l") auto
    define st' where "st' = rl_state l'"
    define st2 where "st2 = count_failure failed st'"
    have c: "\<not> rl_poisoned l'" "unlocked checked st'" "window_ok st'" "la_window_started st' \<le> checked"
      "st' = st \<or> la_window_started st + LOGIN_RATE_LIMIT_WINDOW < la_window_started st' \<and> la_failures st' = 0"
      using l' 2(3) ord(1)
      by (auto simp: check_def st'_def st_def unlocked_def new_attempts_def window_ok_def not_less
          split: if_splits option.splits)
    have rec: "rl_state (fst (record_failure failed l')) = st2"
      using c(1) by (simp add: record_failure_def st2_def st'_def)
    have ws': "la_window_started st' \<le> failed" using c(4) ord(2) by simp
    note w = count_failure_window [OF c(3,2) ord(2) ws', folded st2_def]
    have ws2: "la_window_started st2 \<le> failed" using w(2) ws' by auto
    have ih: "guesses (fst (record_failure failed l')) ts + unat (la_failures st2) \<le> ?bound (la_window_started st2)"
      using 2(2) [of l' "Inr u" u failed] l' w(1) ws2 ord(4) by (simp add: rec)
    have later: "?bound ws \<le> 10 * ((until - la_window_started st) div LOGIN_RATE_LIMIT_WINDOW)"
      if "la_window_started st + LOGIN_RATE_LIMIT_WINDOW < ws" "ws \<le> until" for ws
      using window_count [OF that] by simp
    have f: "unat (la_failures st) \<le> 10" using 2(3) by (simp add: window_ok_def st_def)
    have "la_window_started st2 \<le> until" "la_window_started st' \<le> until" using ws2 ws' ord(3) by auto
    then have "guesses (fst (record_failure failed l')) ts + 1 + unat (la_failures st) \<le> ?bound (la_window_started st)"
      using w(2) c(5) ih later [of "la_window_started st2"] later [of "la_window_started st'"] f
      by (elim disjE) auto
    then show ?thesis using l' by (simp add: st_def)
  qed
qed

lemma fresh_guesses_bound:
  "in_order start until attempts \<Longrightarrow>
   guesses (new_limiter start) attempts \<le> 10 * ((until - start) div LOGIN_RATE_LIMIT_WINDOW + 1)"
  using guesses_window_bound [of "new_limiter start" start until attempts]
  by (simp add: new_limiter_def) (simp add: new_attempts_def)

section \<open>Runs of failures\<close>

definition fail_run :: "nat list \<Rightarrow> login_rate_limiter \<Rightarrow> login_rate_limiter" where
  "fail_run ts l = fold (\<lambda>t l. fst (record_failure t l)) ts l"

lemma fail_run_snoc: "fail_run (ts @ [t]) l = fst (record_failure t (fail_run ts l))"
  by (simp add: fail_run_def)

lemma fail_run_state:
  assumes "\<forall>t \<in> set ts. t \<le> w + LOGIN_RATE_LIMIT_WINDOW" and "length ts < 2 ^ 32" and "\<not> rl_poisoned l"
    and "rl_state l = new_attempts w"
  shows "\<not> rl_poisoned (fail_run ts l) \<and>
    rl_state (fail_run ts l) =
      \<lparr>la_failures = of_nat (length ts), la_window_started = w,
       la_locked_until = (if 8 \<le> length ts then Some (last ts + LOGIN_RATE_LIMIT_LOCKOUT) else None)\<rparr>"
  using assms(1,2)
proof (induction ts rule: rev_induct)
  case Nil
  then show ?case using assms(3,4) by (simp add: fail_run_def new_attempts_def)
next
  case (snoc t ts)
  have "unat (of_nat (length ts) + 1 :: u32) = length ts + 1"
    using snoc(3) by (simp add: unat_word_ariths unat_of_nat mod_simps)
  with snoc show ?case
    by (auto simp: fail_run_snoc record_failure_def count_failure_def Let_def MAX_FAILURES_unat add.commute)
qed

section \<open>Properties\<close>

text \<open>
  C11: guessing is slow. Whatever the timing of its attempts, a client that tries wrong secrets
  one after another gets at most ten of them examined per started ten-minute period, counted
  from the moment the limiter was created.
\<close>

theorem guesses_are_rate_limited:
  assumes "in_order start until attempts"
  shows "guesses (new_limiter start) attempts \<le> 10 * ((until - start) div LOGIN_RATE_LIMIT_WINDOW + 1)"
  using assms by (rule fresh_guesses_bound)

theorem guesses_are_rate_limited_witness:
  "guesses (new_limiter 0) [(1, 2), (2, 3), (4, 5), (6, 7), (8, 9), (10, 11), (12, 13), (14, 15), (16, 17), (18, 19), (20, 21), (22, 23)] \<le> 10"
proof -
  have "in_order 0 23 [(1, 2), (2, 3), (4, 5), (6, 7), (8, 9), (10, 11), (12, 13), (14, 15), (16, 17), (18, 19), (20, 21), (22, 23)]"
    by simp
  from guesses_are_rate_limited [OF this] show ?thesis by (simp add: limit_defs second_def)
qed

text \<open>
  After a success, failures within the window lock the limiter from the eighth on, and only
  then: a check is refused exactly when at least eight failures were recorded and the last one is
  less than five minutes old.
\<close>

lemma lockout_exact:
  assumes "\<not> rl_poisoned l" and "\<forall>t \<in> set ts. t \<le> w + LOGIN_RATE_LIMIT_WINDOW" and "length ts < 2 ^ 32"
  shows "snd (check now (fail_run ts (fst (record_success w l)))) =
    (if 8 \<le> length ts \<and> now < last ts + LOGIN_RATE_LIMIT_LOCKOUT then Inl too_many_attempts else Inr ())"
proof -
  have "rl_state (fst (record_success w l)) = new_attempts w" "\<not> rl_poisoned (fst (record_success w l))"
    using assms(1) by (simp_all add: record_success_def)
  then show ?thesis
    using fail_run_state [OF assms(2,3)] by (auto simp: check_def)
qed

lemma lockout_exact_witness:
  "snd (check (300 * second) (fail_run [1, 2, 3, 4, 5, 6, 7, second] (fst (record_success 0 (new_limiter 0))))) =
     Inl too_many_attempts \<and>
   snd (check (301 * second) (fail_run [1, 2, 3, 4, 5, 6, 7, second] (fst (record_success 0 (new_limiter 0))))) = Inr ()"
proof -
  have "\<not> rl_poisoned (new_limiter 0)" by (simp add: new_limiter_def)
  moreover have "\<forall>t \<in> set [1, 2, 3, 4, 5, 6, 7, second]. t \<le> 0 + LOGIN_RATE_LIMIT_WINDOW"
    by (simp add: limit_defs second_def)
  moreover have "length [1, 2, 3, 4, 5, 6, 7, second] < 2 ^ 32" by simp
  ultimately show ?thesis
    using lockout_exact [of "new_limiter 0" "[1, 2, 3, 4, 5, 6, 7, second]" 0]
    by (simp add: LOGIN_RATE_LIMIT_LOCKOUT_def second_def)
qed

end
