(* ===== verification/Auth_Handlers.thy ===== *)
theory Auth_Handlers
  imports Auth_Gate Login_Rate_Limiter
begin

text \<open>
  The authentication server functions of \<open>app/server_fns/auth.rs\<close>: sign-in with the Net Control
  code and with the device password, first setup, elevation timeout, downgrade and sign-out, with
  the cookies they set.

  A handler is a state transformer over \<open>server\<close> (the part of \<open>AppState\<close> it touches and the
  response headers) that ends in an error or a value; changes made before an error stay. What a
  handler reads from outside is the record \<open>input\<close>: the request headers, the clocks, the random
  bytes, the operating-system errors and whether the response context still exists. The session
  operations of one request read the same wall-clock second \<open>in_now\<close>; the remaining lifetimes
  are computed at \<open>in_later\<close>.
\<close>

section \<open>State\<close>

record auth_status =
  au_role :: auth_role
  au_auth_required :: bool
  au_can_downgrade :: bool
  au_session_seconds_remaining :: "u64 option"
  au_admin_seconds_remaining :: "u64 option"

datatype server_fn_error = ServerMsg rstr | ServerErr error

record server =
  sv_is_replayos :: bool
  sv_secure_cookies :: bool
  sv_first_setup_done :: bool
  sv_env :: auth_env
  sv_login_limiter :: login_rate_limiter
  sv_admin_limiter :: login_rate_limiter
  sv_cookies :: "rstr list"

record handler_input =
  in_crypto :: crypto
  in_crypt :: "rstr \<Rightarrow> rstr \<Rightarrow> rstr rresult"
  in_headers :: "(rstr \<times> u8 list) list"
  in_now :: u64
  in_later :: u64
  in_check_at :: nat
  in_record_at :: nat
  in_random :: "u8 list option"
  in_key_fault :: "error option"
  in_settings_fault :: "error option"
  in_context :: bool

type_synonym 'a handler = "server \<Rightarrow> server \<times> (server_fn_error + 'a)"

definition hreturn :: "'a \<Rightarrow> 'a handler" where
  "hreturn x sv = (sv, Inr x)"

definition hfail :: "server_fn_error \<Rightarrow> 'a handler" where
  "hfail e sv = (sv, Inl e)"

definition hbind :: "'a handler \<Rightarrow> ('a \<Rightarrow> 'b handler) \<Rightarrow> 'b handler" where
  "hbind m k sv = (case m sv of (sv', Inl e) \<Rightarrow> (sv', Inl e) | (sv', Inr x) \<Rightarrow> k x sv')"

definition hresult :: "'a rresult \<Rightarrow> 'a handler" where
  "hresult r = (case r of Inl e \<Rightarrow> hfail (ServerErr e) | Inr x \<Rightarrow> hreturn x)"

definition hget :: "(server \<Rightarrow> 'a) \<Rightarrow> 'a handler" where
  "hget f sv = (sv, Inr (f sv))"

definition on_env :: "(auth_env \<Rightarrow> auth_env \<times> 'a rresult) \<Rightarrow> 'a handler" where
  "on_env f sv =
     (case f (sv_env sv) of
        (env, Inl e) \<Rightarrow> (sv\<lparr>sv_env := env\<rparr>, Inl (ServerErr e))
      | (env, Inr x) \<Rightarrow> (sv\<lparr>sv_env := env\<rparr>, Inr x))"

definition on_settings :: "(disk_file \<Rightarrow> disk_file \<times> 'a rresult) \<Rightarrow> 'a handler" where
  "on_settings f =
     on_env (\<lambda>env. case f (env_settings env) of (settings, r) \<Rightarrow> (env\<lparr>env_settings := settings\<rparr>, r))"

definition on_login_limiter :: "(login_rate_limiter \<Rightarrow> login_rate_limiter \<times> unit rresult) \<Rightarrow> unit handler" where
  "on_login_limiter f sv =
     (case f (sv_login_limiter sv) of
        (l, r) \<Rightarrow> (sv\<lparr>sv_login_limiter := l\<rparr>, map_sum ServerErr id r))"

definition on_admin_limiter :: "(login_rate_limiter \<Rightarrow> login_rate_limiter \<times> unit rresult) \<Rightarrow> unit handler" where
  "on_admin_limiter f sv =
     (case f (sv_admin_limiter sv) of
        (l, r) \<Rightarrow> (sv\<lparr>sv_admin_limiter := l\<rparr>, map_sum ServerErr id r))"

section \<open>Cookies\<close>

definition USER_MAX_AGE_SECONDS :: u64 where
  "USER_MAX_AGE_SECONDS = 720 * 60 * 60"

definition SESSION_COOKIE :: rstr where
  "SESSION_COOKIE = lit ''ReplayControlSession''"

definition build_session_cookie :: "rstr \<Rightarrow> u64 \<Rightarrow> bool \<Rightarrow> rstr" where
  "build_session_cookie token max_age_seconds secure =
     SESSION_COOKIE @ lit ''='' @ token @ lit ''; HttpOnly; SameSite=Lax;'' @
     (if secure then lit '' Secure;'' else []) @
     (if max_age_seconds = 0 then lit '' Expires=Thu, 01 Jan 1970 00:00:00 GMT;'' else []) @
     lit '' Path=/; Max-Age='' @ u64_to_string max_age_seconds"

text \<open>
  \<open>HeaderValue::from_str\<close> accepts a string whose bytes are the tab or at least 32, except 127.
\<close>

definition header_value_ok :: "rstr \<Rightarrow> bool" where
  "header_value_ok s \<longleftrightarrow> list_all (\<lambda>b. 32 \<le> b \<and> b \<noteq> 127 \<or> b = 9) (utf8_bytes s)"

definition append_cookie_header :: "handler_input \<Rightarrow> rstr \<Rightarrow> unit handler" where
  "append_cookie_header inp cookie sv =
     (if \<not> in_context inp then (sv, Inl (ServerMsg (lit ''response context unavailable'')))
      else if \<not> header_value_ok cookie then (sv, Inl (ServerMsg (lit ''invalid session cookie'')))
      else (sv\<lparr>sv_cookies := sv_cookies sv @ [cookie]\<rparr>, Inr ()))"

definition set_session_cookie :: "handler_input \<Rightarrow> rstr \<Rightarrow> u64 \<Rightarrow> bool \<Rightarrow> unit handler" where
  "set_session_cookie inp token max_age_seconds secure =
     append_cookie_header inp (build_session_cookie token max_age_seconds secure)"

definition clear_session_cookie :: "handler_input \<Rightarrow> unit handler" where
  "clear_session_cookie inp =
     hbind (append_cookie_header inp (build_session_cookie [] 0 True))
       (\<lambda>_. append_cookie_header inp (build_session_cookie [] 0 False))"

definition session_token_from_headers :: "(rstr \<times> u8 list) list \<Rightarrow> rstr option" where
  "session_token_from_headers headers =
     (case header_str headers (lit ''cookie'') of
        None \<Rightarrow> None
      | Some s \<Rightarrow>
          map_option (\<lambda>(_, value). trim value)
            (find (\<lambda>(name, value). name = SESSION_COOKIE \<and> valid_session_cookie_value (trim value))
              (cookie_pairs s)))"

section \<open>Status\<close>

definition remaining_seconds_at :: "u64 \<Rightarrow> u64 \<Rightarrow> u64 option" where
  "remaining_seconds_at deadline now =
     (if deadline < now then None
      else if 0 < deadline - now then Some (deadline - now) else None)"

definition remaining_seconds :: "handler_input \<Rightarrow> u64 \<Rightarrow> u64 option" where
  "remaining_seconds inp deadline = remaining_seconds_at deadline (in_later inp)"

definition auth_status_for_role ::
  "server \<Rightarrow> auth_role \<Rightarrow> bool \<Rightarrow> u64 option \<Rightarrow> u64 option \<Rightarrow> auth_status" where
  "auth_status_for_role sv role can_downgrade session_seconds admin_seconds =
     \<lparr>au_role = role, au_auth_required = sv_is_replayos sv,
      au_can_downgrade = sv_is_replayos sv \<and> can_downgrade,
      au_session_seconds_remaining = session_seconds, au_admin_seconds_remaining = admin_seconds\<rparr>"

definition auth_status_from_session ::
  "handler_input \<Rightarrow> server \<Rightarrow> resolved_auth_session option \<Rightarrow> auth_status" where
  "auth_status_from_session inp sv session =
     auth_status_for_role sv
       (case session of Some s \<Rightarrow> rs_role s | None \<Rightarrow> Anonymous)
       (case session of Some s \<Rightarrow> rs_can_downgrade s | None \<Rightarrow> False)
       (Option.bind session (\<lambda>s. remaining_seconds inp (rs_expires_at s)))
       (Option.bind (Option.bind session rs_elevated_until) (remaining_seconds inp))"

definition auth_status_from_created_session ::
  "handler_input \<Rightarrow> server \<Rightarrow> auth_session \<Rightarrow> bool \<Rightarrow> auth_status" where
  "auth_status_from_created_session inp sv session can_downgrade =
     auth_status_for_role sv (se_role session) can_downgrade
       (remaining_seconds inp (se_expires_at session))
       (Option.bind (se_elevated_until session) (remaining_seconds inp))"

section \<open>Sessions of the request\<close>

definition resolve_details :: "handler_input \<Rightarrow> rstr \<Rightarrow> resolved_auth_session option handler" where
  "resolve_details inp token sv =
     hresult (resolve_session_details_at (in_crypto inp) (sv_env sv) token (in_now inp)) sv"

definition current_session :: "handler_input \<Rightarrow> resolved_auth_session option handler" where
  "current_session inp sv =
     (if \<not> sv_is_replayos sv then (sv, Inr None)
      else (case session_token_from_headers (in_headers inp) of
              None \<Rightarrow> (sv, Inr None)
            | Some token \<Rightarrow> resolve_details inp token sv))"

definition current_auth_role :: "handler_input \<Rightarrow> auth_role handler" where
  "current_auth_role inp =
     hbind (current_session inp)
       (\<lambda>session. hreturn (case session of Some s \<Rightarrow> rs_role s | None \<Rightarrow> Anonymous))"

definition is_valid_net_control_code :: "rstr \<Rightarrow> bool" where
  "is_valid_net_control_code code \<longleftrightarrow> utf8_len code = 6 \<and> list_all is_ascii_digit code"

definition normalize_login_code :: "rstr \<Rightarrow> rstr handler" where
  "normalize_login_code code0 =
     (let code = trim code0
      in if is_valid_net_control_code code then hreturn code
         else hfail (ServerMsg (lit ''Enter the 6-digit Net Control code'')))"

definition admin_base_role :: "resolved_auth_session option \<Rightarrow> auth_role option" where
  "admin_base_role previous_session =
     (case previous_session of
        Some s \<Rightarrow>
          if rs_role s = User then Some User
          else if rs_role s = Admin \<and> rs_can_downgrade s then Some User
          else None
      | None \<Rightarrow> None)"

section \<open>Server functions\<close>

definition get_auth_status :: "handler_input \<Rightarrow> auth_status handler" where
  "get_auth_status inp sv =
     (if \<not> sv_is_replayos sv then
        hbind (clear_session_cookie inp) (\<lambda>_. hget (\<lambda>sv. auth_status_from_session inp sv None)) sv
      else hbind (current_session inp) (\<lambda>session. hget (\<lambda>sv. auth_status_from_session inp sv session)) sv)"

definition login_with_replay_code :: "handler_input \<Rightarrow> rstr \<Rightarrow> auth_status handler" where
  "login_with_replay_code inp code0 sv =
     (if \<not> sv_is_replayos sv then
        hbind (clear_session_cookie inp) (\<lambda>_. hget (\<lambda>sv. auth_status_from_session inp sv None)) sv
      else
        hbind (normalize_login_code code0) (\<lambda>code.
        hbind (on_login_limiter (check (in_check_at inp))) (\<lambda>_.
        hbind (hget (\<lambda>sv. verify_replay_code_user_login (env_settings (sv_env sv)) code)) (\<lambda>valid.
        if \<not> valid then
          hbind (on_login_limiter (record_failure (in_record_at inp)))
            (\<lambda>_. hfail (ServerMsg (lit ''Access code is incorrect or not configured'')))
        else
          hbind (on_login_limiter (record_success (in_record_at inp))) (\<lambda>_.
          hbind (on_env (create_user_session (in_crypto inp) (in_random inp) (in_key_fault inp) (in_now inp))) (\<lambda>session.
          hbind (set_session_cookie inp (se_token session) USER_MAX_AGE_SECONDS (sv_secure_cookies sv)) (\<lambda>_.
          hget (\<lambda>sv. auth_status_from_created_session inp sv session False))))))) sv)"

definition verify_admin_password_with_rate_limit :: "handler_input \<Rightarrow> rstr \<Rightarrow> unit handler" where
  "verify_admin_password_with_rate_limit inp password =
     hbind (on_admin_limiter (check (in_check_at inp))) (\<lambda>_.
     hbind (hget (\<lambda>sv. verify_root_password (in_crypt inp) (env_shadow (sv_env sv)) password)) (\<lambda>r.
     hbind (hresult r) (\<lambda>valid.
     if \<not> valid then
       hbind (on_admin_limiter (record_failure (in_record_at inp)))
         (\<lambda>_. hfail (ServerMsg (lit ''Device password is incorrect'')))
     else on_admin_limiter (record_success (in_record_at inp)))))"

definition create_admin_session_response :: "handler_input \<Rightarrow> auth_role option \<Rightarrow> auth_status handler" where
  "create_admin_session_response inp base_role =
     hbind (on_env (create_admin_session (in_crypto inp) (in_random inp) (in_key_fault inp) (in_now inp) base_role)) (\<lambda>session.
     hbind (hget sv_secure_cookies) (\<lambda>secure.
     hbind (set_session_cookie inp (se_token session)
              (case remaining_seconds inp (se_expires_at session) of Some s \<Rightarrow> s | None \<Rightarrow> 0) secure) (\<lambda>_.
     hget (\<lambda>sv. auth_status_from_created_session inp sv session (base_role = Some User)))))"

definition login_admin :: "handler_input \<Rightarrow> rstr \<Rightarrow> auth_status handler" where
  "login_admin inp password sv =
     (if \<not> sv_is_replayos sv then
        hbind (clear_session_cookie inp)
          (\<lambda>_. hfail (ServerMsg (lit ''Admin login with the device password is available only on RePlayOS''))) sv
      else if password = [] then (sv, Inl (ServerMsg (lit ''Device password is required'')))
      else
        hbind (verify_admin_password_with_rate_limit inp password) (\<lambda>_.
        hbind (case session_token_from_headers (in_headers inp) of
                 Some token \<Rightarrow> resolve_details inp token
               | None \<Rightarrow> hreturn None) (\<lambda>previous_session.
        create_admin_session_response inp (admin_base_role previous_session))) sv)"

definition complete_first_setup :: "handler_input \<Rightarrow> rstr \<Rightarrow> auth_status handler" where
  "complete_first_setup inp password sv =
     (if \<not> sv_is_replayos sv then
        hbind (clear_session_cookie inp) (\<lambda>_. hget (\<lambda>sv. auth_status_from_session inp sv None)) sv
      else if sv_first_setup_done sv then (sv, Inl (ServerMsg (lit ''First setup is already complete'')))
      else if password = [] then (sv, Inl (ServerMsg (lit ''Device password is required'')))
      else
        hbind (verify_admin_password_with_rate_limit inp password) (\<lambda>_.
        hbind (on_settings (write_first_setup_done (in_settings_fault inp) True)) (\<lambda>_.
        hbind (\<lambda>sv. (sv\<lparr>sv_first_setup_done := True\<rparr>, Inr ())) (\<lambda>_.
        create_admin_session_response inp None))) sv)"

definition admin_session_base_role :: "handler_input \<Rightarrow> auth_role option option handler" where
  "admin_session_base_role inp =
     (case session_token_from_headers (in_headers inp) of
        None \<Rightarrow> hreturn None
      | Some token \<Rightarrow>
          hbind (resolve_details inp token) (\<lambda>session.
          hreturn (if (case session of Some s \<Rightarrow> rs_role s = Admin | None \<Rightarrow> False)
                   then Some (admin_base_role session) else None)))"

definition reissue_admin_session :: "handler_input \<Rightarrow> auth_role option \<Rightarrow> unit handler" where
  "reissue_admin_session inp base_role =
     hbind (create_admin_session_response inp base_role) (\<lambda>_. hreturn ())"

definition admin_required_msg :: server_fn_error where
  "admin_required_msg = ServerMsg (lit ''Admin session is required'')"

definition get_admin_session_timeout :: "handler_input \<Rightarrow> rstr handler" where
  "get_admin_session_timeout inp sv =
     (if \<not> sv_is_replayos sv then
        hbind (clear_session_cookie inp) (\<lambda>_. hreturn (timeout_as_str OneHour)) sv
      else
        hbind (current_session inp) (\<lambda>session.
        if \<not> (case session of Some s \<Rightarrow> rs_role s = Admin | None \<Rightarrow> False) then hfail admin_required_msg
        else hget (\<lambda>sv. timeout_as_str (read_admin_session_timeout (env_settings (sv_env sv))))) sv)"

definition admins_only_msg :: server_fn_error where
  "admins_only_msg = ServerMsg (lit ''Admin sessions are available only on RePlayOS'')"

definition set_admin_session_timeout :: "handler_input \<Rightarrow> rstr \<Rightarrow> auth_status handler" where
  "set_admin_session_timeout inp value sv =
     (if \<not> sv_is_replayos sv then hbind (clear_session_cookie inp) (\<lambda>_. hfail admins_only_msg) sv
      else (case timeout_from_str_value (trim value) of
              None \<Rightarrow> (sv, Inl (ServerMsg (lit ''Unsupported admin session timeout'')))
            | Some timeout \<Rightarrow>
                (case session_token_from_headers (in_headers inp) of
                   None \<Rightarrow> (sv, Inl admin_required_msg)
                 | Some token \<Rightarrow>
                     hbind (resolve_details inp token) (\<lambda>session.
                     if \<not> (case session of Some s \<Rightarrow> rs_role s = Admin | None \<Rightarrow> False) then hfail admin_required_msg
                     else
                       hbind (on_settings (write_admin_session_timeout (in_settings_fault inp) timeout)) (\<lambda>_.
                       hbind (on_env (\<lambda>env. (env, refresh_admin_session_timeout (in_crypto inp) (in_now inp) token env))) (\<lambda>session.
                       hbind (set_session_cookie inp (se_token session)
                                (case remaining_seconds inp (se_expires_at session) of Some s \<Rightarrow> s | None \<Rightarrow> 0)
                                (sv_secure_cookies sv)) (\<lambda>_.
                       hget (\<lambda>sv. auth_status_from_created_session inp sv session
                                    (se_base_role session = Some User)))))) sv)))"

definition downgrade_admin_to_user :: "handler_input \<Rightarrow> auth_status handler" where
  "downgrade_admin_to_user inp sv =
     (if \<not> sv_is_replayos sv then hbind (clear_session_cookie inp) (\<lambda>_. hfail admins_only_msg) sv
      else (case session_token_from_headers (in_headers inp) of
              None \<Rightarrow> (sv, Inl admin_required_msg)
            | Some token \<Rightarrow>
                hbind (resolve_details inp token) (\<lambda>session.
                if \<not> (case session of Some s \<Rightarrow> rs_can_downgrade s | None \<Rightarrow> False) then hfail admin_required_msg
                else
                  hbind (on_env (\<lambda>env. (env, downgrade_session (in_crypto inp) (in_now inp) token env))) (\<lambda>session.
                  hbind (set_session_cookie inp (se_token session)
                           (case remaining_seconds inp (se_expires_at session) of Some s \<Rightarrow> s | None \<Rightarrow> 0)
                           (sv_secure_cookies sv)) (\<lambda>_.
                  hget (\<lambda>sv. auth_status_from_created_session inp sv session False)))) sv))"

definition logout :: "handler_input \<Rightarrow> auth_status handler" where
  "logout inp = hbind (clear_session_cookie inp) (\<lambda>_. hget (\<lambda>sv. auth_status_from_session inp sv None))"

definition logout_all_browsers :: "handler_input \<Rightarrow> auth_status handler" where
  "logout_all_browsers inp sv =
     (if \<not> sv_is_replayos sv then hbind (clear_session_cookie inp) (\<lambda>_. hfail admins_only_msg) sv
      else (case session_token_from_headers (in_headers inp) of
              None \<Rightarrow> (sv, Inl admin_required_msg)
            | Some token \<Rightarrow>
                hbind (resolve_details inp token) (\<lambda>session.
                if \<not> (case session of Some s \<Rightarrow> rs_role s = Admin | None \<Rightarrow> False) then hfail admin_required_msg
                else
                  hbind (on_env (rotate_signing_key (in_random inp) (in_key_fault inp))) (\<lambda>_.
                  hbind (clear_session_cookie inp) (\<lambda>_.
                  hget (\<lambda>sv. auth_status_from_session inp sv None)))) sv))"

section \<open>Reasoning about handlers\<close>

lemma hbind_Inr:
  "hbind m k sv = (sv', Inr y) \<longleftrightarrow> (\<exists>sv1 x. m sv = (sv1, Inr x) \<and> k x sv1 = (sv', Inr y))"
  by (auto simp: hbind_def split: prod.splits sum.splits)

lemma hresult_Inr [simp]: "hresult r sv = (sv', Inr x) \<longleftrightarrow> sv' = sv \<and> r = Inr x"
  by (auto simp: hresult_def hfail_def hreturn_def split: sum.splits)

lemma hget_eq [simp]: "hget f sv = (sv', r) \<longleftrightarrow> sv' = sv \<and> r = Inr (f sv)"
  by (auto simp: hget_def)

lemma hfail_Inr [simp]: "hfail e sv \<noteq> (sv', Inr x)"
  by (simp add: hfail_def)

lemma hreturn_eq [simp]: "hreturn x sv = (sv', r) \<longleftrightarrow> sv' = sv \<and> r = Inr x"
  by (auto simp: hreturn_def)

lemma append_cookie_Inr [simp]:
  "append_cookie_header inp c sv = (sv', Inr u) \<longleftrightarrow>
     in_context inp \<and> header_value_ok c \<and> sv' = sv\<lparr>sv_cookies := sv_cookies sv @ [c]\<rparr>"
  by (auto simp: append_cookie_header_def)

lemma on_env_Inr:
  "on_env f sv = (sv', Inr x) \<longleftrightarrow> (\<exists>env. f (sv_env sv) = (env, Inr x) \<and> sv' = sv\<lparr>sv_env := env\<rparr>)"
  by (auto simp: on_env_def split: prod.splits sum.splits)

lemma on_login_limiter_eq:
  "on_login_limiter f sv = (sv\<lparr>sv_login_limiter := fst (f (sv_login_limiter sv))\<rparr>, map_sum ServerErr id (snd (f (sv_login_limiter sv))))"
  by (simp add: on_login_limiter_def split: prod.splits)

lemma on_admin_limiter_eq:
  "on_admin_limiter f sv = (sv\<lparr>sv_admin_limiter := fst (f (sv_admin_limiter sv))\<rparr>, map_sum ServerErr id (snd (f (sv_admin_limiter sv))))"
  by (simp add: on_admin_limiter_def split: prod.splits)

lemma map_sum_Inr [simp]: "map_sum f id r = Inr x \<longleftrightarrow> r = Inr x"
  by (cases r) auto

definition keeps :: "(server \<Rightarrow> server \<Rightarrow> bool) \<Rightarrow> 'a handler \<Rightarrow> bool" where
  "keeps I m \<longleftrightarrow> (\<forall>sv. I sv (fst (m sv)))"

locale server_frame =
  fixes I :: "server \<Rightarrow> server \<Rightarrow> bool"
  assumes frame_refl: "I sv sv"
    and frame_trans: "I a b \<Longrightarrow> I b c \<Longrightarrow> I a c"
begin

lemma keeps_pure: "keeps I (hreturn x)" "keeps I (hfail e)" "keeps I (hget f)" "keeps I (hresult r)"
  by (auto simp: keeps_def hreturn_def hfail_def hget_def hresult_def frame_refl split: sum.splits)

lemma keeps_bind: "keeps I m \<Longrightarrow> (\<And>x. keeps I (k x)) \<Longrightarrow> keeps I (hbind m k)"
  unfolding keeps_def hbind_def
  by (auto split: prod.splits sum.splits) (metis fst_conv, metis fst_conv frame_trans)

lemma keeps_at: "(\<And>sv. \<exists>m. keeps I m \<and> h sv = m sv) \<Longrightarrow> keeps I h"
  unfolding keeps_def by metis

end

section \<open>What every handler keeps\<close>

definition session_cookie :: "rstr \<Rightarrow> bool" where
  "session_cookie c \<longleftrightarrow> header_value_ok c \<and> (\<exists>token age secure. c = build_session_cookie token age secure)"

definition key_file_ok :: "auth_env \<Rightarrow> bool" where
  "key_file_ok env \<longleftrightarrow> (\<forall>key. env_key_file env = KeyBytes key \<longrightarrow> length key = 32)"

definition auth_frame :: "server \<Rightarrow> server \<Rightarrow> bool" where
  "auth_frame a b \<longleftrightarrow>
     sv_is_replayos b = sv_is_replayos a \<and> sv_secure_cookies b = sv_secure_cookies a \<and>
     env_shadow (sv_env b) = env_shadow (sv_env a) \<and> (sv_first_setup_done a \<longrightarrow> sv_first_setup_done b) \<and>
     (key_file_ok (sv_env a) \<longrightarrow> key_file_ok (sv_env b)) \<and>
     (\<exists>cs. sv_cookies b = sv_cookies a @ cs \<and> list_all session_cookie cs)"

interpretation auth_frame: server_frame auth_frame
proof
  show "auth_frame sv sv" for sv by (simp add: auth_frame_def)
  show "auth_frame a c" if "auth_frame a b" "auth_frame b c" for a b c
    using that unfolding auth_frame_def by (elim conjE exE) (intro conjI; (simp; fail | force))
qed

definition fresh_random :: "handler_input \<Rightarrow> bool" where
  "fresh_random inp \<longleftrightarrow> (\<forall>bs. in_random inp = Some bs \<longrightarrow> length bs = 32)"

lemma keeps_cookie: "keeps auth_frame (set_session_cookie inp t n s)" "keeps auth_frame (clear_session_cookie inp)"
proof -
  have app: "keeps auth_frame (append_cookie_header inp (build_session_cookie t n s))" for t n s
    by (auto simp: keeps_def append_cookie_header_def auth_frame_def session_cookie_def)
  then show "keeps auth_frame (set_session_cookie inp t n s)" by (simp add: set_session_cookie_def)
  show "keeps auth_frame (clear_session_cookie inp)"
    unfolding clear_session_cookie_def by (intro auth_frame.keeps_bind app)
qed

lemma keeps_limiter: "keeps auth_frame (on_login_limiter f)" "keeps auth_frame (on_admin_limiter f)"
  by (simp_all add: keeps_def on_login_limiter_eq on_admin_limiter_eq auth_frame_def)

lemma keeps_on_env:
  assumes "\<And>env. env_shadow (fst (f env)) = env_shadow env"
    and "\<And>env. key_file_ok env \<Longrightarrow> key_file_ok (fst (f env))"
  shows "keeps auth_frame (on_env f)"
proof -
  have "auth_frame sv (fst (on_env f sv))" for sv
    using assms [of "sv_env sv"] by (cases "f (sv_env sv)") (auto simp: on_env_def auth_frame_def split: sum.splits)
  then show ?thesis by (simp add: keeps_def)
qed

lemma keeps_on_settings: "keeps auth_frame (on_settings f)"
  unfolding on_settings_def by (rule keeps_on_env) (auto simp: key_file_ok_def split: prod.splits)

lemma load_or_create_frame:
  assumes "\<forall>bs. rnd = Some bs \<longrightarrow> length bs = 32"
  shows "env_shadow (fst (load_or_create_signing_key rnd fault env)) = env_shadow env"
    "key_file_ok env \<Longrightarrow> key_file_ok (fst (load_or_create_signing_key rnd fault env))"
  using assms
  by (auto simp: load_or_create_signing_key_def generate_signing_key_def write_signing_key_def key_file_ok_def
      split: sum.splits option.splits)

lemma create_session_env:
  "fst (create_user_session cr rnd fault now env) = fst (load_or_create_signing_key rnd fault env)"
  "fst (create_admin_session cr rnd fault now base env) \<in> {env, fst (load_or_create_signing_key rnd fault env)}"
  by (auto simp: create_user_session_def create_admin_session_def Let_def split: prod.splits sum.splits)

lemma keeps_store:
  assumes "fresh_random inp"
  shows "keeps auth_frame (on_env (create_user_session cr (in_random inp) fault now))"
    "keeps auth_frame (on_env (create_admin_session cr (in_random inp) fault now base))"
    "keeps auth_frame (on_env (rotate_signing_key (in_random inp) fault))"
proof -
  note fr = load_or_create_frame [OF assms [unfolded fresh_random_def]]
  show "keeps auth_frame (on_env (create_user_session cr (in_random inp) fault now))"
    by (rule keeps_on_env) (simp_all add: create_session_env fr)
  show "keeps auth_frame (on_env (create_admin_session cr (in_random inp) fault now base))"
    by (rule keeps_on_env) (metis create_session_env(2) empty_iff fr insert_iff)+
  show "keeps auth_frame (on_env (rotate_signing_key (in_random inp) fault))"
    by (rule keeps_on_env)
      (use assms in \<open>auto simp: fresh_random_def rotate_signing_key_def generate_signing_key_def
        write_signing_key_def key_file_ok_def split: option.splits\<close>)
qed

lemma keeps_env_read: "keeps auth_frame (on_env (\<lambda>env. (env, r env)))"
  by (rule keeps_on_env) simp_all

lemma keeps_session: "keeps auth_frame (resolve_details inp token)" "keeps auth_frame (current_session inp)"
proof -
  show r: "keeps auth_frame (resolve_details inp token)" for token
    by (auto simp: keeps_def resolve_details_def hresult_def hfail_def hreturn_def auth_frame.frame_refl split: sum.splits)
  show "keeps auth_frame (current_session inp)"
    using r by (auto simp: keeps_def current_session_def auth_frame.frame_refl split: option.splits)
qed

lemma keeps_if: "(b \<Longrightarrow> keeps I m) \<Longrightarrow> (\<not> b \<Longrightarrow> keeps I n) \<Longrightarrow> keeps I (if b then m else n)"
  by simp

lemma keeps_option:
  "keeps I m \<Longrightarrow> (\<And>x. keeps I (k x)) \<Longrightarrow> keeps I (case v of None \<Rightarrow> m | Some x \<Rightarrow> k x)"
  by (cases v) simp_all

lemmas keeps_rules =
  auth_frame.keeps_pure auth_frame.keeps_bind keeps_cookie keeps_limiter keeps_on_settings keeps_store keeps_env_read
  keeps_session keeps_if keeps_option

lemma keeps_pointwise:
  assumes "\<And>sv. keeps I (m sv)" and "\<And>sv. h sv = m sv sv"
  shows "keeps I h"
  using assms by (simp add: keeps_def)

lemma hfail_fold: "(sv, Inl e) = hfail e sv"
  by (simp add: hfail_def)

lemma if_apply: "(if b then f x else g x) = (if b then f else g) x"
  by simp

lemma keepsD: "keeps I m \<Longrightarrow> I sv (fst (m sv))"
  by (simp add: keeps_def)

lemma if_case: "(b \<Longrightarrow> I sv (fst x)) \<Longrightarrow> (\<not> b \<Longrightarrow> I sv (fst y)) \<Longrightarrow> I sv (fst (if b then x else y))"
  by simp

lemma option_case:
  "I sv (fst x) \<Longrightarrow> (\<And>z. I sv (fst (y z))) \<Longrightarrow> I sv (fst (case v of None \<Rightarrow> x | Some z \<Rightarrow> y z))"
  by (cases v) simp_all

lemma keeps_password: "keeps auth_frame (verify_admin_password_with_rate_limit inp password)"
  unfolding verify_admin_password_with_rate_limit_def by (intro keeps_rules)

lemma keeps_admin_response: "fresh_random inp \<Longrightarrow> keeps auth_frame (create_admin_session_response inp base)"
  unfolding create_admin_session_response_def by (intro keeps_rules)

lemma keeps_handlers:
  assumes "fresh_random inp"
  shows "keeps auth_frame (get_auth_status inp)" "keeps auth_frame (login_with_replay_code inp code)"
    "keeps auth_frame (login_admin inp password)" "keeps auth_frame (complete_first_setup inp password)"
    "keeps auth_frame (get_admin_session_timeout inp)" "keeps auth_frame (set_admin_session_timeout inp value)"
    "keeps auth_frame (downgrade_admin_to_user inp)" "keeps auth_frame (logout inp)"
    "keeps auth_frame (logout_all_browsers inp)" "keeps auth_frame (reissue_admin_session inp base)"
proof -
  note rules = keeps_rules keeps_password keeps_admin_response assms
  have code: "keeps auth_frame (normalize_login_code code)" for code
    unfolding normalize_login_code_def Let_def by (intro rules)
  have mark: "keeps auth_frame (\<lambda>sv. (sv\<lparr>sv_first_setup_done := True\<rparr>, Inr ()))"
    by (simp add: keeps_def auth_frame_def)
  show "keeps auth_frame (get_auth_status inp)"
    by (rule keeps_pointwise [OF _ get_auth_status_def [unfolded if_apply]]) (intro rules)
  show "keeps auth_frame (login_with_replay_code inp code)"
    by (rule keeps_pointwise [OF _ login_with_replay_code_def [unfolded if_apply]]) (intro rules code)
  show "keeps auth_frame (login_admin inp password)"
    by (rule keeps_pointwise [OF _ login_admin_def [unfolded hfail_fold if_apply]]) (intro rules)
  show "keeps auth_frame (complete_first_setup inp password)"
    by (rule keeps_pointwise [OF _ complete_first_setup_def [unfolded hfail_fold if_apply]]) (intro rules mark)
  show "keeps auth_frame (get_admin_session_timeout inp)"
    by (rule keeps_pointwise [OF _ get_admin_session_timeout_def [unfolded if_apply]]) (intro rules)
  show "keeps auth_frame (set_admin_session_timeout inp value)"
    unfolding keeps_def set_admin_session_timeout_def hfail_fold
    by (intro allI if_case [of _ auth_frame] option_case [of auth_frame]; rule keepsD; intro rules)
  show "keeps auth_frame (downgrade_admin_to_user inp)"
    unfolding keeps_def downgrade_admin_to_user_def hfail_fold
    by (intro allI if_case [of _ auth_frame] option_case [of auth_frame]; rule keepsD; intro rules)
  show "keeps auth_frame (logout inp)" unfolding logout_def by (intro rules)
  show "keeps auth_frame (logout_all_browsers inp)"
    unfolding keeps_def logout_all_browsers_def hfail_fold
    by (intro allI if_case [of _ auth_frame] option_case [of auth_frame]; rule keepsD; intro rules)
  show "keeps auth_frame (reissue_admin_session inp base)" unfolding reissue_admin_session_def by (intro rules)
qed

section \<open>Runs of requests\<close>

inductive auth_step :: "server \<Rightarrow> server \<Rightarrow> bool" where
  status: "fresh_random inp \<Longrightarrow> auth_step sv (fst (get_auth_status inp sv))"
| code_login: "fresh_random inp \<Longrightarrow> auth_step sv (fst (login_with_replay_code inp code sv))"
| admin_login: "fresh_random inp \<Longrightarrow> auth_step sv (fst (login_admin inp password sv))"
| first_setup: "fresh_random inp \<Longrightarrow> auth_step sv (fst (complete_first_setup inp password sv))"
| get_timeout: "fresh_random inp \<Longrightarrow> auth_step sv (fst (get_admin_session_timeout inp sv))"
| set_timeout: "fresh_random inp \<Longrightarrow> auth_step sv (fst (set_admin_session_timeout inp value sv))"
| downgrade: "fresh_random inp \<Longrightarrow> auth_step sv (fst (downgrade_admin_to_user inp sv))"
| sign_out: "fresh_random inp \<Longrightarrow> auth_step sv (fst (logout inp sv))"
| sign_out_all: "fresh_random inp \<Longrightarrow> auth_step sv (fst (logout_all_browsers inp sv))"
| reissue: "fresh_random inp \<Longrightarrow> auth_step sv (fst (reissue_admin_session inp base sv))"

inductive auth_run :: "server \<Rightarrow> server \<Rightarrow> bool" where
  start: "auth_run sv sv"
| request: "auth_run sv sv1 \<Longrightarrow> auth_step sv1 sv2 \<Longrightarrow> auth_run sv sv2"

lemma step_frame: "auth_step sv sv' \<Longrightarrow> auth_frame sv sv'"
  by (induction rule: auth_step.induct) (use keeps_handlers in \<open>auto simp: keeps_def\<close>)

lemma run_frame: "auth_run sv sv' \<Longrightarrow> auth_frame sv sv'"
  by (induction rule: auth_run.induct) (auto intro: auth_frame.frame_refl auth_frame.frame_trans step_frame)

section \<open>Successful sign-in\<close>

lemma verify_admin_password_success:
  assumes "verify_admin_password_with_rate_limit inp password sv = (sv1, Inr ())"
  shows "verify_root_password (in_crypt inp) (env_shadow (sv_env sv)) password = Inr True"
    "snd (check (in_check_at inp) (sv_admin_limiter sv)) = Inr ()"
    "sv_env sv1 = sv_env sv" "sv_cookies sv1 = sv_cookies sv" "sv_secure_cookies sv1 = sv_secure_cookies sv"
  using assms
  by (auto simp: verify_admin_password_with_rate_limit_def hbind_Inr on_admin_limiter_eq split: if_splits)

lemma login_admin_success:
  assumes "login_admin inp password sv = (sv', Inr st)" and "sv_is_replayos sv"
  shows "\<exists>sv1 base. verify_admin_password_with_rate_limit inp password sv = (sv1, Inr ()) \<and>
    create_admin_session_response inp base sv1 = (sv', Inr st)"
  using assms
  by (auto simp: login_admin_def hbind_Inr resolve_details_def split: if_splits option.splits)

lemma admin_response_success:
  assumes "create_admin_session_response inp base sv = (sv', Inr st)"
    and "b64_laws (in_crypto inp)" and "fresh_random inp" and "sane_clock (in_now inp)"
  shows "au_role st = Admin \<and>
    (\<exists>token age. sv_cookies sv' = sv_cookies sv @ [build_session_cookie token age (sv_secure_cookies sv)] \<and>
      resolve_session (in_crypto inp) (sv_env sv') token (in_now inp) = Inr (Some Admin))"
proof -
  obtain env' s age where e: "create_admin_session (in_crypto inp) (in_random inp) (in_key_fault inp) (in_now inp) base (sv_env sv)
        = (env', Inr s)"
      "sv_cookies sv' = sv_cookies sv @ [build_session_cookie (se_token s) age (sv_secure_cookies sv)]"
      "sv_env sv' = env'" "au_role st = se_role s"
    using assms(1)
    by (auto simp: create_admin_session_response_def hbind_Inr on_env_Inr set_session_cookie_def
        auth_status_from_created_session_def auth_status_for_role_def)
  have "se_role s = Admin"
    using e(1) by (auto simp: create_admin_session_def Let_def split: if_splits prod.splits sum.splits)
  moreover have "resolve_session (in_crypto inp) env' (se_token s) (in_now inp) = Inr (Some Admin)"
    by (rule created_admin_resolves [OF assms(2) e(1)]) (use assms(3,4) in \<open>simp_all add: fresh_random_def\<close>)
  ultimately show ?thesis using e by auto
qed

lemma signed_token_chars:
  "b64_laws cr \<Longrightarrow> list_all (\<lambda>c. cookie_char c \<or> c = 46) (sign_claims_with_key cr c key)"
  by (auto simp: sign_claims_with_key_def Let_def b64_laws_def list_all_iff)

lemma header_value_ok_ascii: "list_all (\<lambda>c. 32 \<le> c \<and> c < 127) s \<Longrightarrow> header_value_ok s"
proof (induction s)
  case (Cons c s)
  then have "utf8_bytes (c # s) = of_nat c # utf8_bytes s" "unat (of_nat c :: u8) = c"
    by (simp_all add: utf8_bytes_def utf8_char_def unat_of_nat)
  with Cons show ?case by (auto simp: header_value_ok_def word_le_nat_alt)
qed (simp add: header_value_ok_def utf8_bytes_def)

lemma cookie_header_ok:
  assumes "list_all (\<lambda>c. cookie_char c \<or> c = 46) token"
  shows "header_value_ok (build_session_cookie token age secure)"
proof -
  have "list_all (\<lambda>c. 32 \<le> c \<and> c < 127) token" "list_all (\<lambda>c. 32 \<le> c \<and> c < 127) (u64_to_string age)"
    using assms nat_to_str_digits [of "unat age"]
    by (auto simp: list_all_iff cookie_char_def char_class_defs u64_to_string_def)
  then show ?thesis
    by (intro header_value_ok_ascii) (simp add: build_session_cookie_def SESSION_COOKIE_def lit_def)
qed

lemma token_readers_agree:
  "session_token_from_headers headers = session_token_from_cookie (header_get headers (lit ''cookie''))"
  by (simp add: session_token_from_headers_def session_token_from_cookie_def header_str_def SESSION_COOKIE_def
      split: option.split)

lemma utf8_bytes_digits:
  "list_all is_ascii_digit a \<Longrightarrow> list_all is_ascii_digit b \<Longrightarrow> utf8_bytes a = utf8_bytes b \<longleftrightarrow> a = b"
  by (rule utf8_bytes_inj_ascii) (auto simp: list_all_iff char_class_defs)

section \<open>Wrong codes\<close>

definition wrong_code_msg :: server_fn_error where
  "wrong_code_msg = ServerMsg (lit ''Access code is incorrect or not configured'')"

text \<open>The sign-in requests of a run whose code the server compared and found wrong.\<close>

fun wrong_code_replies :: "server \<Rightarrow> (handler_input \<times> rstr) list \<Rightarrow> nat" where
  "wrong_code_replies sv [] = 0"
| "wrong_code_replies sv ((inp, code) # rest) =
     (case login_with_replay_code inp code sv of
        (sv', r) \<Rightarrow> (case r of Inl e \<Rightarrow> if e = wrong_code_msg then 1 else 0 | Inr _ \<Rightarrow> 0) + wrong_code_replies sv' rest)"

definition attempt_times :: "(handler_input \<times> rstr) list \<Rightarrow> (nat \<times> nat) list" where
  "attempt_times reqs = map (\<lambda>(inp, _). (in_check_at inp, in_record_at inp)) reqs"

definition well_formed_code :: "handler_input \<times> rstr \<Rightarrow> bool" where
  "well_formed_code rq \<longleftrightarrow> is_valid_net_control_code (trim (snd rq))"

lemma normalize_code: "normalize_login_code code =
   (if is_valid_net_control_code (trim code) then hreturn (trim code)
    else hfail (ServerMsg (lit ''Enter the 6-digit Net Control code'')))"
  by (simp add: normalize_login_code_def Let_def)

lemma login_wrong_code:
  assumes "sv_is_replayos sv" and "\<not> verify_replay_code_user_login (env_settings (sv_env sv)) (trim code)"
  shows "login_with_replay_code inp code sv =
    (if \<not> is_valid_net_control_code (trim code)
     then (sv, Inl (ServerMsg (lit ''Enter the 6-digit Net Control code'')))
     else (case check (in_check_at inp) (sv_login_limiter sv) of
             (l, Inl e) \<Rightarrow> (sv\<lparr>sv_login_limiter := l\<rparr>, Inl (ServerErr e))
           | (l, Inr _) \<Rightarrow>
               (case record_failure (in_record_at inp) l of
                  (l', Inl e) \<Rightarrow> (sv\<lparr>sv_login_limiter := l'\<rparr>, Inl (ServerErr e))
                | (l', Inr _) \<Rightarrow> (sv\<lparr>sv_login_limiter := l'\<rparr>, Inl wrong_code_msg))))"
  using assms
  by (auto simp: login_with_replay_code_def normalize_code hbind_def hreturn_def hfail_def on_login_limiter_eq
      hget_def wrong_code_msg_def split: prod.splits sum.splits)

lemma in_order_mono: "in_order a b ts \<Longrightarrow> a' \<le> a \<Longrightarrow> in_order a' b ts"
  by (cases ts) auto

lemma in_order_filter: "in_order a b (attempt_times reqs) \<Longrightarrow> in_order a b (attempt_times (filter P reqs))"
proof (induction reqs arbitrary: a)
  case (Cons rq reqs)
  show ?case
  proof (cases "P rq")
    case True
    with Cons show ?thesis by (cases rq) (simp add: attempt_times_def)
  next
    case False
    have "in_order (snd (hd (attempt_times (rq # reqs)))) b (attempt_times reqs)"
      using Cons(2) by (cases rq) (simp add: attempt_times_def)
    then have "in_order (snd (hd (attempt_times (rq # reqs)))) b (attempt_times (filter P reqs))" by (rule Cons(1))
    then show ?thesis
      using Cons(2) False by (cases rq) (auto simp: attempt_times_def intro: in_order_mono)
  qed
qed (simp add: attempt_times_def)

lemma replies_are_guesses:
  assumes "sv_is_replayos sv" and "\<not> rl_poisoned (sv_login_limiter sv)"
    and "list_all (\<lambda>(_, code). \<not> verify_replay_code_user_login (env_settings (sv_env sv)) (trim code)) reqs"
  shows "wrong_code_replies sv reqs = guesses (sv_login_limiter sv) (attempt_times (filter well_formed_code reqs))"
  using assms
proof (induction reqs arbitrary: sv)
  case (Cons rq reqs)
  obtain inp code where rq: "rq = (inp, code)" by (cases rq)
  have wrong: "\<not> verify_replay_code_user_login (env_settings (sv_env sv)) (trim code)"
    using Cons(4) by (simp add: rq)
  have ih: "wrong_code_replies (sv\<lparr>sv_login_limiter := l\<rparr>) reqs = guesses l (attempt_times (filter well_formed_code reqs))"
    if "\<not> rl_poisoned l" for l
    using Cons(1) [of "sv\<lparr>sv_login_limiter := l\<rparr>"] Cons(2,4) that by simp
  have wf: "well_formed_code (inp, code) \<longleftrightarrow> is_valid_net_control_code (trim code)" by (simp add: well_formed_code_def)
  have msg: "ServerMsg (lit ''Enter the 6-digit Net Control code'') \<noteq> wrong_code_msg" by (simp add: wrong_code_msg_def)
  have keep: "\<not> rl_poisoned (fst (check t l))" "\<not> rl_poisoned (fst (record_failure t l))"
    "snd (record_failure t l) = Inr ()" if "\<not> rl_poisoned l" for t l
    using that by (auto simp: check_def record_failure_def)
  show ?case
  proof (cases "is_valid_net_control_code (trim code)")
    case False
    then show ?thesis
      using ih [OF Cons(3)] msg login_wrong_code [OF Cons(2) wrong, of inp] wf by (simp add: rq)
  next
    case True
    obtain l r where c: "check (in_check_at inp) (sv_login_limiter sv) = (l, r)" by fastforce
    have l: "\<not> rl_poisoned l" using keep(1) [OF Cons(3), of "in_check_at inp"] c by simp
    obtain l' where f: "record_failure (in_record_at inp) l = (l', Inr ())" "\<not> rl_poisoned l'"
      using keep(2,3) [OF l, of "in_record_at inp"] by (cases "record_failure (in_record_at inp) l") auto
    show ?thesis
      using True ih [OF l] ih [OF f(2)] c f(1) login_wrong_code [OF Cons(2) wrong, of inp]
      by (cases r) (simp_all add: rq wf attempt_times_def wrong_code_msg_def)
  qed
qed (simp add: attempt_times_def)

section \<open>Properties\<close>

text \<open>
  C9: over any sequence of authentication requests, whatever their inputs and failures, first
  setup is never undone, the root password hash is never touched, the signing key on disk never
  becomes malformed, and every cookie sent is a session cookie that is not readable by scripts
  and not sent on cross-site subrequests.
\<close>

theorem auth_run_invariant:
  assumes "auth_run sv sv'" and "key_file_ok (sv_env sv)" and "sv_cookies sv = []"
  shows "(sv_first_setup_done sv \<longrightarrow> sv_first_setup_done sv') \<and> env_shadow (sv_env sv') = env_shadow (sv_env sv) \<and>
    key_file_ok (sv_env sv') \<and>
    (\<forall>c \<in> set (sv_cookies sv'). header_value_ok c \<and> starts_with (lit ''ReplayControlSession='') c \<and>
       contains_str (lit ''; HttpOnly; SameSite=Lax;'') c)"
proof -
  have cookie: "starts_with (lit ''ReplayControlSession='') c \<and> contains_str (lit ''; HttpOnly; SameSite=Lax;'') c"
    if sc: "session_cookie c" for c
  proof -
    obtain t n s where "c = build_session_cookie t n s" using sc unfolding session_cookie_def by blast
    then have "\<exists>r. c = lit ''ReplayControlSession='' @ t @ lit ''; HttpOnly; SameSite=Lax;'' @ r"
      by (simp add: build_session_cookie_def SESSION_COOKIE_def lit_def)
    then show ?thesis unfolding starts_with_def contains_str_def prefix_def sublist_def by (metis append_assoc)
  qed
  have "auth_frame sv sv'" using assms(1) by (rule run_frame)
  with assms(2,3) cookie show ?thesis by (auto simp: auth_frame_def list_all_iff session_cookie_def)
qed

definition demo_input :: handler_input where
  "demo_input =
     \<lparr>in_crypto = demo_crypto, in_crypt = (\<lambda>password h. Inr (if password = lit ''secret'' then h else [])),
      in_headers = [], in_now = 1000, in_later = 1000, in_check_at = 5, in_record_at = 6,
      in_random = None, in_key_fault = None, in_settings_fault = None, in_context = True\<rparr>"

definition demo_server :: server where
  "demo_server =
     \<lparr>sv_is_replayos = True, sv_secure_cookies = True, sv_first_setup_done = True, sv_env = demo_env,
      sv_login_limiter = new_limiter 0, sv_admin_limiter = new_limiter 0, sv_cookies = []\<rparr>"

lemma demo_fields:
  "in_crypto demo_input = demo_crypto" "in_headers demo_input = []" "in_now demo_input = 1000"
  "in_check_at demo_input = 5" "in_record_at demo_input = 6" "in_random demo_input = None"
  "in_key_fault demo_input = None" "in_context demo_input" "sv_is_replayos demo_server"
  "sv_secure_cookies demo_server" "sv_env demo_server = demo_env" "sv_admin_limiter demo_server = new_limiter 0"
  "sv_login_limiter demo_server = new_limiter 0" "sv_cookies demo_server = []"
  by (simp_all add: demo_input_def demo_server_def)

theorem auth_run_invariant_witness:
  "key_file_ok (sv_env (fst (logout demo_input demo_server)))"
proof -
  have "auth_run demo_server (fst (logout demo_input demo_server))"
    by (rule auth_run.request [OF auth_run.start]) (rule auth_step.sign_out, simp add: fresh_random_def demo_input_def)
  moreover have "key_file_ok (sv_env demo_server)" "sv_cookies demo_server = []"
    by (simp_all add: demo_server_def demo_env_def key_file_ok_def demo_key_def)
  ultimately show ?thesis using auth_run_invariant by blast
qed

text \<open>
  C6: a sign-in as administrator succeeds only when the limiter admitted it and the password
  matches the root hash; it then sends exactly one new cookie, whose token is an Admin session
  from that moment on.
\<close>

theorem admin_login_needs_password:
  assumes "login_admin inp password sv = (sv', Inr st)" and "sv_is_replayos sv"
    and "b64_laws (in_crypto inp)" and "fresh_random inp" and "sane_clock (in_now inp)"
  shows "verify_root_password (in_crypt inp) (env_shadow (sv_env sv)) password = Inr True \<and>
    snd (check (in_check_at inp) (sv_admin_limiter sv)) = Inr () \<and> au_role st = Admin \<and>
    (\<exists>token age. sv_cookies sv' = sv_cookies sv @ [build_session_cookie token age (sv_secure_cookies sv)] \<and>
      resolve_session (in_crypto inp) (sv_env sv') token (in_now inp) = Inr (Some Admin))"
proof -
  obtain sv1 base where v: "verify_admin_password_with_rate_limit inp password sv = (sv1, Inr ())"
      and r: "create_admin_session_response inp base sv1 = (sv', Inr st)"
    using login_admin_success [OF assms(1,2)] by blast
  note pw = verify_admin_password_success [OF v]
  show ?thesis using pw admin_response_success [OF r assms(3-5)] by auto
qed

theorem admin_login_needs_password_witness:
  "\<exists>sv' st. login_admin demo_input (lit ''secret'') demo_server = (sv', Inr st) \<and> au_role st = Admin"
proof -
  have pw: "verify_root_password (in_crypt demo_input) (env_shadow (sv_env demo_server)) (lit ''secret'') = Inr True"
  proof -
    have "root_password_hash (lit ''root:h4sh:19793:0'') = Inr (lit ''h4sh'')" "valid_password_input (lit ''secret'')"
      by code_simp+
    then show ?thesis
      by (simp add: verify_root_password_def demo_input_def demo_server_def demo_env_def constant_time_eq_iff)
  qed
  have lim: "check 5 (new_limiter 0) = (new_limiter 0, Inr ())" "snd (record_success 6 (new_limiter 0)) = Inr ()"
    by (simp_all add: check_def record_success_def new_limiter_def new_attempts_def limit_defs second_def)
  have verified: "verify_admin_password_with_rate_limit demo_input (lit ''secret'') demo_server =
      (demo_server\<lparr>sv_admin_limiter := fst (record_success 6 (new_limiter 0))\<rparr>, Inr ())"
    using pw lim
    by (simp add: verify_admin_password_with_rate_limit_def hbind_def on_admin_limiter_eq hget_def hresult_def hreturn_def)
      (simp add: demo_server_def demo_input_def)
  obtain s where s: "create_admin_session demo_crypto None None 1000 None demo_env = (demo_env, Inr s)"
    by (simp add: create_admin_session_def valid_admin_base_role_def demo_key_kept demo_admin_fp
        base_user_fingerprint_def Let_def)
  obtain claims where "se_token s = sign_claims_with_key demo_crypto claims demo_key"
    using create_admin_claims [OF s demo_clock(2,1)] demo_key_loads by auto
  then have "header_value_ok (build_session_cookie (se_token s) age True)" for age
    by (simp add: cookie_header_ok signed_token_chars [OF demo_b64_laws])
  then have ok: "\<exists>sv' st. login_admin demo_input (lit ''secret'') demo_server = (sv', Inr st)"
    using verified s
    by (simp add: login_admin_def hbind_def session_token_from_headers_def header_str_def header_get_def
        create_admin_session_response_def on_env_def set_session_cookie_def append_cookie_header_def
        hreturn_def hget_def admin_base_role_def demo_fields)
  then obtain sv' st where "login_admin demo_input (lit ''secret'') demo_server = (sv', Inr st)" by blast
  moreover from admin_login_needs_password [OF this] have "au_role st = Admin"
    by (simp add: demo_server_def demo_input_def demo_b64_laws demo_clock fresh_random_def)
  ultimately show ?thesis by blast
qed




definition demo_sign_out :: handler_input where
  "demo_sign_out =
     demo_input\<lparr>in_headers := [(lit ''cookie'', utf8_bytes (lit ''ReplayControlSession='' @ demo_token))],
       in_now := 1500, in_random := Some (replicate 32 9)\<rparr>"


end
