(* ===== verification/Activity.thy ===== *)
theory Activity
  imports Rust_Prelude
begin

text \<open>
  The server's activity state of \<open>app/api/activity.rs\<close>: what the server is doing, at most one
  operation at a time, and the guard that resets the state when an operation ends.

  The shared \<open>RwLock<Activity>\<close>, the guards that exist and the broadcast channel form the record
  \<open>activity_system\<close>. Every operation holds the lock for one read-modify-write, which is one
  step; the message it sends afterwards, with the lock released, is a step of its own, so it waits
  in \<open>as_unsent\<close> until it is delivered. The cancel token of a thumbnail update is an identifier
  into the set \<open>as_cancelled\<close>. Counters of type \<open>usize\<close> and \<open>u64\<close> are 64-bit words.
\<close>

section \<open>Activities and their progress\<close>

datatype startup_phase = FetchingMetadata | StartupScanning | StartupMediaStats | RebuildingIndex

datatype maintenance_kind = ClearMetadata | ClearImages | ClearThumbnailIndex | CleanupOrphans

datatype import_state = ImportDownloading | BuildingIndex | ImportParsing | ImportComplete | ImportFailed

datatype refresh_metadata_phase =
  RefreshChecking | RefreshDownloading | RefreshParsing | RefreshEnriching | RefreshComplete
  | RefreshFailed | RefreshUpToDate

datatype thumbnail_phase =
  ThumbnailIndexing | ThumbnailDownloading | ThumbnailComplete | ThumbnailFailed | ThumbnailCancelled

datatype rebuild_phase =
  RebuildScanning | RebuildEnriching | RebuildMediaStats | RebuildComplete | RebuildCancelled | RebuildFailed

datatype identity_phase = IdentityMatching | IdentityComplete | IdentityFailed | IdentityCancelled

datatype update_phase = UpdateDownloading | UpdateInstalling | UpdateRestarting | UpdateComplete | UpdateFailed

record import_progress =
  ip_state :: import_state
  ip_processed :: u64
  ip_matched :: u64
  ip_inserted :: u64
  ip_elapsed_secs :: u64
  ip_error :: "rstr option"
  ip_download_bytes :: u64
  ip_download_total :: "u64 option"

record refresh_metadata_progress =
  fp_phase :: refresh_metadata_phase
  fp_source_entries :: u64
  fp_downloaded_bytes :: u64
  fp_total_bytes :: "u64 option"
  fp_elapsed_secs :: u64
  fp_error :: "rstr option"

record thumbnail_progress =
  tp_phase :: thumbnail_phase
  tp_current_label :: rstr
  tp_step_done :: u64
  tp_step_total :: u64
  tp_downloaded :: u64
  tp_entries_indexed :: u64
  tp_elapsed_secs :: u64
  tp_error :: "rstr option"

record rebuild_progress =
  bp_phase :: rebuild_phase
  bp_current_system :: rstr
  bp_systems_done :: u64
  bp_systems_total :: u64
  bp_elapsed_secs :: u64
  bp_error :: "rstr option"
  bp_is_rescan :: bool
  bp_enriching :: bool

record identity_progress =
  dp_phase :: identity_phase
  dp_rows_done :: u64
  dp_rows_total :: u64
  dp_systems_done :: u64
  dp_systems_total :: u64
  dp_elapsed_secs :: u64
  dp_error :: "rstr option"

record update_progress =
  vp_phase :: update_phase
  vp_downloaded_bytes :: u64
  vp_total_bytes :: u64
  vp_phase_detail :: rstr
  vp_elapsed_secs :: u64
  vp_error :: "rstr option"

datatype activity =
    Idle
  | Startup startup_phase rstr bool
  | Import import_progress
  | RefreshExternalMetadata refresh_metadata_progress
  | ThumbnailUpdate thumbnail_progress nat
  | Rebuild rebuild_progress
  | Identity identity_progress
  | Maintenance maintenance_kind
  | Update update_progress

definition refresh_initial :: refresh_metadata_progress where
  "refresh_initial =
     \<lparr>fp_phase = RefreshChecking, fp_source_entries = 0, fp_downloaded_bytes = 0, fp_total_bytes = None,
      fp_elapsed_secs = 0, fp_error = None\<rparr>"

definition rebuild_initial :: "bool \<Rightarrow> rebuild_progress" where
  "rebuild_initial is_rescan =
     \<lparr>bp_phase = RebuildScanning, bp_current_system = [], bp_systems_done = 0, bp_systems_total = 0,
      bp_elapsed_secs = 0, bp_error = None, bp_is_rescan = is_rescan, bp_enriching = False\<rparr>"

definition identity_initial :: "u64 \<Rightarrow> u64 \<Rightarrow> identity_progress" where
  "identity_initial rows_total systems_total =
     \<lparr>dp_phase = IdentityMatching, dp_rows_done = 0, dp_rows_total = rows_total, dp_systems_done = 0,
      dp_systems_total = systems_total, dp_elapsed_secs = 0, dp_error = None\<rparr>"

fun status_label :: "activity \<Rightarrow> rstr" where
  "status_label Idle = lit ''idle''"
| "status_label (Startup _ _ _) = lit ''startup''"
| "status_label (Rebuild _) = lit ''rebuilding''"
| "status_label (Identity _) = lit ''identity''"
| "status_label (Import _) = lit ''import''"
| "status_label (RefreshExternalMetadata _) = lit ''metadata''"
| "status_label (ThumbnailUpdate _ _) = lit ''thumbnails''"
| "status_label (Maintenance _) = lit ''maintenance''"
| "status_label (Update _) = lit ''updating''"

fun is_terminal :: "activity \<Rightarrow> bool" where
  "is_terminal (Import p) \<longleftrightarrow> ip_state p = ImportComplete \<or> ip_state p = ImportFailed"
| "is_terminal (ThumbnailUpdate p _) \<longleftrightarrow>
     tp_phase p = ThumbnailComplete \<or> tp_phase p = ThumbnailFailed \<or> tp_phase p = ThumbnailCancelled"
| "is_terminal (Rebuild p) \<longleftrightarrow>
     bp_phase p = RebuildComplete \<or> bp_phase p = RebuildFailed \<or> bp_phase p = RebuildCancelled"
| "is_terminal (Identity p) \<longleftrightarrow>
     dp_phase p = IdentityComplete \<or> dp_phase p = IdentityFailed \<or> dp_phase p = IdentityCancelled"
| "is_terminal (Update p) \<longleftrightarrow> vp_phase p = UpdateComplete \<or> vp_phase p = UpdateFailed"
| "is_terminal (RefreshExternalMetadata p) \<longleftrightarrow>
     fp_phase p = RefreshComplete \<or> fp_phase p = RefreshFailed \<or> fp_phase p = RefreshUpToDate"
| "is_terminal _ \<longleftrightarrow> False"

definition num :: "u64 \<Rightarrow> rstr" where
  "num w = nat_to_str (unat w)"

definition error_text :: "rstr option \<Rightarrow> rstr" where
  "error_text e = (case e of Some s \<Rightarrow> s | None \<Rightarrow> lit ''unknown error'')"

fun terminal_message :: "activity \<Rightarrow> rstr" where
  "terminal_message (Import p) =
     (case ip_state p of
        ImportComplete \<Rightarrow>
          lit ''Import complete: '' @ num (ip_matched p) @ lit '' matched, '' @ num (ip_inserted p) @
          lit '' inserted ('' @ num (ip_elapsed_secs p) @ lit ''s)''
      | ImportFailed \<Rightarrow> lit ''Import failed: '' @ error_text (ip_error p)
      | _ \<Rightarrow> [])"
| "terminal_message (ThumbnailUpdate p _) =
     (case tp_phase p of
        ThumbnailComplete \<Rightarrow>
          lit ''Complete: '' @ num (tp_entries_indexed p) @ lit '' indexed, '' @ num (tp_downloaded p) @
          lit '' downloaded ('' @ num (tp_elapsed_secs p) @ lit ''s)''
      | ThumbnailCancelled \<Rightarrow>
          lit ''Cancelled after '' @ num (tp_elapsed_secs p) @ lit ''s ('' @ num (tp_downloaded p) @
          lit '' downloaded)''
      | ThumbnailFailed \<Rightarrow> lit ''Failed: '' @ error_text (tp_error p)
      | _ \<Rightarrow> [])"
| "terminal_message (Rebuild p) =
     (let label = (if bp_is_rescan p then lit ''Rescan'' else lit ''Rebuild'')
      in case bp_phase p of
           RebuildComplete \<Rightarrow> label @ lit '' complete ('' @ num (bp_elapsed_secs p) @ lit ''s)''
         | RebuildFailed \<Rightarrow> label @ lit '' failed: '' @ error_text (bp_error p)
         | RebuildCancelled \<Rightarrow> label @ lit '' cancelled ('' @ num (bp_elapsed_secs p) @ lit ''s)''
         | _ \<Rightarrow> [])"
| "terminal_message (Identity p) =
     (case dp_phase p of
        IdentityComplete \<Rightarrow> lit ''ROM matching complete ('' @ num (dp_elapsed_secs p) @ lit ''s)''
      | IdentityCancelled \<Rightarrow> lit ''ROM matching cancelled ('' @ num (dp_elapsed_secs p) @ lit ''s)''
      | IdentityFailed \<Rightarrow> lit ''ROM matching failed: '' @ error_text (dp_error p)
      | _ \<Rightarrow> [])"
| "terminal_message (Update p) =
     (case vp_phase p of
        UpdateComplete \<Rightarrow> lit ''Update complete ('' @ num (vp_elapsed_secs p) @ lit ''s)''
      | UpdateFailed \<Rightarrow> lit ''Update failed: '' @ error_text (vp_error p)
      | _ \<Rightarrow> [])"
| "terminal_message (RefreshExternalMetadata p) =
     (case fp_phase p of
        RefreshComplete \<Rightarrow>
          if 0 < fp_source_entries p
          then lit ''Metadata refresh complete ('' @ num (fp_elapsed_secs p) @ lit ''s, '' @
               num (fp_source_entries p) @ lit '' source entries)''
          else lit ''Metadata refresh complete ('' @ num (fp_elapsed_secs p) @ lit ''s)''
      | RefreshFailed \<Rightarrow> lit ''Metadata refresh failed: '' @ error_text (fp_error p)
      | RefreshUpToDate \<Rightarrow> lit ''Metadata already up to date''
      | _ \<Rightarrow> [])"
| "terminal_message _ = []"

section \<open>The shared state and its operations\<close>

record activity_system =
  as_activity :: activity
  as_guards :: "nat list"
  as_next_guard :: nat
  as_cancelled :: "nat list"
  as_unsent :: "activity list"
  as_delivered :: "activity list"
  as_populated :: bool

definition initial_system :: activity_system where
  "initial_system =
     \<lparr>as_activity = Idle, as_guards = [], as_next_guard = 0, as_cancelled = [], as_unsent = [],
      as_delivered = [], as_populated = False\<rparr>"

definition already_running :: rstr where
  "already_running = lit ''Another operation is already running''"

definition try_start_activity :: "activity \<Rightarrow> activity_system \<Rightarrow> activity_system \<times> (rstr + nat)" where
  "try_start_activity start_as sys =
     (if as_activity sys \<noteq> Idle then (sys, Inl already_running)
      else (sys\<lparr>as_activity := start_as, as_guards := as_next_guard sys # as_guards sys,
                as_next_guard := as_next_guard sys + 1, as_unsent := as_unsent sys @ [start_as]\<rparr>,
            Inr (as_next_guard sys)))"

definition update_activity :: "(activity \<Rightarrow> activity) \<Rightarrow> activity_system \<Rightarrow> activity_system" where
  "update_activity f sys =
     sys\<lparr>as_activity := f (as_activity sys), as_unsent := as_unsent sys @ [f (as_activity sys)]\<rparr>"

definition guard_update :: "(activity \<Rightarrow> activity) \<Rightarrow> activity_system \<Rightarrow> activity_system" where
  "guard_update f sys =
     sys\<lparr>as_activity := f (as_activity sys), as_unsent := as_unsent sys @ [f (as_activity sys)]\<rparr>"

definition guard_drop :: "nat \<Rightarrow> activity_system \<Rightarrow> activity_system" where
  "guard_drop g sys =
     sys\<lparr>as_activity := Idle, as_guards := removeAll g (as_guards sys), as_unsent := as_unsent sys @ [Idle]\<rparr>"

definition broadcast_activity :: "activity_system \<Rightarrow> activity_system" where
  "broadcast_activity sys = sys\<lparr>as_unsent := as_unsent sys @ [as_activity sys]\<rparr>"

definition mark_initial_populate_done :: "activity_system \<Rightarrow> activity_system" where
  "mark_initial_populate_done sys = sys\<lparr>as_populated := True\<rparr>"

definition initial_populate_done :: "activity_system \<Rightarrow> bool" where
  "initial_populate_done sys = as_populated sys"

definition is_idle :: "activity_system \<Rightarrow> bool" where
  "is_idle sys \<longleftrightarrow> as_activity sys = Idle"

definition identity_can_run :: "activity_system \<Rightarrow> bool" where
  "identity_can_run sys \<longleftrightarrow> (case as_activity sys of Idle \<Rightarrow> True | Identity _ \<Rightarrow> True | _ \<Rightarrow> False)"

definition is_startup_scanning :: "activity_system \<Rightarrow> bool" where
  "is_startup_scanning sys \<longleftrightarrow>
     (case as_activity sys of Startup phase _ _ \<Rightarrow> phase = StartupScanning | _ \<Rightarrow> False)"

definition request_cancel :: "activity_system \<Rightarrow> activity_system \<times> bool" where
  "request_cancel sys =
     (case as_activity sys of
        ThumbnailUpdate _ cancel \<Rightarrow> (sys\<lparr>as_cancelled := cancel # as_cancelled sys\<rparr>, True)
      | _ \<Rightarrow> (sys, False))"

text \<open>Delivery of the \<open>i\<close>-th waiting message: threads send in any order.\<close>

definition deliver :: "nat \<Rightarrow> activity_system \<Rightarrow> activity_system" where
  "deliver i sys =
     sys\<lparr>as_delivered := as_delivered sys @ [as_unsent sys ! i],
         as_unsent := take i (as_unsent sys) @ drop (Suc i) (as_unsent sys)\<rparr>"

section \<open>Steps\<close>

text \<open>
  The callers start an activity that is not \<open>Idle\<close> and update it in place: their closures match
  on the variant they own and change its progress, never the variant.
\<close>

definition keeps_variant :: "(activity \<Rightarrow> activity) \<Rightarrow> bool" where
  "keeps_variant f \<longleftrightarrow> (\<forall>a. status_label (f a) = status_label a)"

inductive activity_step :: "activity_system \<Rightarrow> activity_system \<Rightarrow> bool" where
  start: "a \<noteq> Idle \<Longrightarrow> activity_step sys (fst (try_start_activity a sys))"
| update: "keeps_variant f \<Longrightarrow> activity_step sys (update_activity f sys)"
| guarded: "g \<in> set (as_guards sys) \<Longrightarrow> keeps_variant f \<Longrightarrow> activity_step sys (guard_update f sys)"
| finish: "g \<in> set (as_guards sys) \<Longrightarrow> activity_step sys (guard_drop g sys)"
| broadcast: "activity_step sys (broadcast_activity sys)"
| populated: "activity_step sys (mark_initial_populate_done sys)"
| cancel: "activity_step sys (fst (request_cancel sys))"
| send: "i < length (as_unsent sys) \<Longrightarrow> activity_step sys (deliver i sys)"

inductive activity_reachable :: "activity_system \<Rightarrow> bool" where
  initial: "activity_reachable initial_system"
| step: "activity_reachable sys \<Longrightarrow> activity_step sys sys' \<Longrightarrow> activity_reachable sys'"

inductive_cases activity_stepE: "activity_step sys sys'"

lemma status_idle_iff: "status_label a = lit ''idle'' \<longleftrightarrow> a = Idle"
  by (cases a) simp_all

lemma keeps_variant_Idle: "keeps_variant f \<Longrightarrow> f a = Idle \<longleftrightarrow> a = Idle"
  by (metis keeps_variant_def status_idle_iff)

section \<open>Single flight\<close>

text \<open>What the rest of the server relies on: one holder at most, and none exactly when idle.\<close>

definition single_flight :: "activity_system \<Rightarrow> bool" where
  "single_flight sys \<longleftrightarrow>
     length (as_guards sys) \<le> 1 \<and> (as_guards sys = [] \<longleftrightarrow> as_activity sys = Idle) \<and>
     (\<forall>g \<in> set (as_guards sys). g < as_next_guard sys)"

lemma single_flight_step:
  assumes "activity_step sys sys'" and "single_flight sys"
  shows "single_flight sys'"
  using assms
proof (induction rule: activity_step.induct)
  case (start a sys)
  then show ?case by (auto simp: single_flight_def try_start_activity_def)
next
  case (finish g sys)
  then show ?case by (cases "as_guards sys") (auto simp: single_flight_def guard_drop_def)
qed (auto simp: single_flight_def update_activity_def guard_update_def broadcast_activity_def
    mark_initial_populate_done_def request_cancel_def deliver_def keeps_variant_Idle split: activity.splits)

lemma reachable_single_flight: "activity_reachable sys \<Longrightarrow> single_flight sys"
proof (induction rule: activity_reachable.induct)
  case initial
  show ?case by (simp add: single_flight_def initial_system_def)
next
  case (step sys sys')
  then show ?case using single_flight_step by blast
qed

text \<open>The abstract contract: a lock that is free or held by one kind of operation.\<close>

datatype lock = Free | Held rstr

definition lock_of :: "activity_system \<Rightarrow> lock" where
  "lock_of sys = (if as_activity sys = Idle then Free else Held (status_label (as_activity sys)))"

inductive lock_step :: "lock \<Rightarrow> lock \<Rightarrow> bool" where
  acquire: "lock_step Free (Held l)"
| release: "lock_step (Held l) Free"
| stay: "lock_step k k"

inductive_simps lock_step_simps: "lock_step k k'"

lemma lock_of_update:
  assumes "keeps_variant f"
  shows "lock_of (update_activity f sys) = lock_of sys" and "lock_of (guard_update f sys) = lock_of sys"
  using assms keeps_variant_Idle [OF assms]
  by (simp_all add: lock_of_def update_activity_def guard_update_def keeps_variant_def)

lemma step_lock:
  assumes "activity_step sys sys'"
  shows "lock_of sys' = lock_of sys \<or>
    lock_of sys = Free \<and> (\<exists>a g. try_start_activity a sys = (sys', Inr g) \<and> lock_of sys' = Held (status_label a)) \<or>
    lock_of sys' = Free \<and> (\<exists>g \<in> set (as_guards sys). sys' = guard_drop g sys)"
  using assms
proof (induction rule: activity_step.induct)
  case (start a sys)
  then show ?case by (auto simp: lock_of_def try_start_activity_def)
next
  case (finish g sys)
  then show ?case by (auto simp: lock_of_def guard_drop_def)
qed (simp_all add: lock_of_update,
    simp_all add: lock_of_def broadcast_activity_def mark_initial_populate_done_def request_cancel_def
      deliver_def split: activity.split)

section \<open>Delivery in order\<close>

inductive fifo_reachable :: "activity_system \<Rightarrow> bool" where
  fifo_initial: "fifo_reachable initial_system"
| fifo_step: "fifo_reachable sys \<Longrightarrow> activity_step sys sys' \<Longrightarrow> as_delivered sys' = as_delivered sys \<Longrightarrow> fifo_reachable sys'"
| fifo_send: "fifo_reachable sys \<Longrightarrow> as_unsent sys \<noteq> [] \<Longrightarrow> fifo_reachable (deliver 0 sys)"

definition announced :: "activity_system \<Rightarrow> bool" where
  "announced sys \<longleftrightarrow> (let ms = as_delivered sys @ as_unsent sys in ms = [] \<and> as_activity sys = Idle \<or> ms \<noteq> [] \<and> last ms = as_activity sys)"

lemma announced_step:
  "activity_step sys sys' \<Longrightarrow> as_delivered sys' = as_delivered sys \<Longrightarrow> announced sys \<Longrightarrow> announced sys'"
proof (induction rule: activity_step.induct)
  case (start a sys)
  then show ?case by (cases "as_activity sys = Idle") (simp_all add: announced_def Let_def try_start_activity_def)
next
  case (cancel sys)
  then show ?case by (simp add: announced_def Let_def request_cancel_def split: activity.splits)
qed (simp_all add: announced_def Let_def update_activity_def guard_update_def guard_drop_def
    broadcast_activity_def mark_initial_populate_done_def deliver_def last_append)

lemma fifo_announced: "fifo_reachable sys \<Longrightarrow> announced sys"
proof (induction rule: fifo_reachable.induct)
  case fifo_initial
  show ?case by (simp add: announced_def initial_system_def)
next
  case (fifo_step sys sys')
  then show ?case using announced_step by blast
next
  case (fifo_send sys)
  then show ?case by (cases "as_unsent sys") (auto simp: announced_def deliver_def Let_def)
qed

section \<open>Properties\<close>

text \<open>
  C39: in every reachable state at most one operation holds the activity, the state is \<open>Idle\<close>
  exactly when none does, and a new operation is admitted exactly then; otherwise it is refused
  and nothing changes.
\<close>

theorem activity_single_flight:
  assumes "activity_reachable sys"
  shows "length (as_guards sys) \<le> 1 \<and> (is_idle sys \<longleftrightarrow> as_guards sys = []) \<and>
    (if is_idle sys then \<exists>sys' g. try_start_activity a sys = (sys', Inr g) \<and> as_guards sys' = [g] \<and> as_activity sys' = a
     else try_start_activity a sys = (sys, Inl already_running))"
  using reachable_single_flight [OF assms] by (auto simp: single_flight_def is_idle_def try_start_activity_def)

theorem activity_single_flight_witness:
  "try_start_activity (Maintenance ClearImages) (fst (try_start_activity (Rebuild (rebuild_initial True)) initial_system))
     = (fst (try_start_activity (Rebuild (rebuild_initial True)) initial_system), Inl already_running)"
proof -
  let ?sys = "fst (try_start_activity (Rebuild (rebuild_initial True)) initial_system)"
  have "activity_reachable ?sys"
    by (rule activity_reachable.step [OF activity_reachable.initial activity_step.start]) simp
  moreover have "\<not> is_idle ?sys" by (simp add: is_idle_def try_start_activity_def initial_system_def)
  ultimately show ?thesis using activity_single_flight by auto
qed

text \<open>
  C40: the activity refines a lock that is free or held by one kind of operation: it is acquired
  only by a successful start, released only by dropping the one live guard, and no update,
  cancellation, broadcast or refused start changes which operation holds it.
\<close>

theorem activity_refines_lock:
  assumes "activity_reachable sys" and "activity_step sys sys'"
  shows "lock_step (lock_of sys) (lock_of sys') \<and>
    (lock_of sys' \<noteq> lock_of sys \<longrightarrow>
      (if is_idle sys then \<exists>a g. try_start_activity a sys = (sys', Inr g)
       else \<exists>g. as_guards sys = [g] \<and> sys' = guard_drop g sys))"
proof -
  have one: "as_guards sys = [g]" if "g \<in> set (as_guards sys)" for g
    using reachable_single_flight [OF assms(1)] that
    by (cases "as_guards sys") (auto simp: single_flight_def)
  have free: "lock_of sys = Free \<longleftrightarrow> is_idle sys" by (simp add: lock_of_def is_idle_def)
  from step_lock [OF assms(2)] show ?thesis
    using one free by (cases "lock_of sys") (auto simp: lock_step_simps)
qed

theorem activity_refines_lock_witness:
  "lock_step (lock_of initial_system) (lock_of (fst (try_start_activity (Maintenance ClearImages) initial_system)))"
proof -
  have "activity_step initial_system (fst (try_start_activity (Maintenance ClearImages) initial_system))"
    by (rule activity_step.start) simp
  then show ?thesis using activity_refines_lock [OF activity_reachable.initial] by blast
qed

text \<open>
  An activity has a message for the user exactly when it is over: the terminal states of
  every variant, and only they, produce a non-empty text.
\<close>

lemma terminal_message_iff: "terminal_message a \<noteq> [] \<longleftrightarrow> is_terminal a"
  by (cases a)
    (auto simp: Let_def split: import_state.split refresh_metadata_phase.split thumbnail_phase.split
      rebuild_phase.split identity_phase.split update_phase.split)

text \<open>
  Messages are sent after the lock is released. As long as threads happen to send in the
  order in which they held the lock, listeners end with the true activity once nothing is
  waiting; but there is a run in which every message has been delivered, the last one says
  \<open>Idle\<close>, and an operation is running.
\<close>

lemma broadcast_order_matters:
  "(\<forall>sys. fifo_reachable sys \<and> as_unsent sys = [] \<and> as_delivered sys \<noteq> [] \<longrightarrow>
      last (as_delivered sys) = as_activity sys) \<and>
   (\<exists>sys. activity_reachable sys \<and> as_unsent sys = [] \<and> last (as_delivered sys) = Idle \<and> as_activity sys \<noteq> Idle)"
proof
  show "\<forall>sys. fifo_reachable sys \<and> as_unsent sys = [] \<and> as_delivered sys \<noteq> [] \<longrightarrow>
      last (as_delivered sys) = as_activity sys"
  proof (intro allI impI)
    fix sys
    assume "fifo_reachable sys \<and> as_unsent sys = [] \<and> as_delivered sys \<noteq> []"
    then show "last (as_delivered sys) = as_activity sys"
      using fifo_announced [of sys] by (simp add: announced_def Let_def)
  qed
  let ?a = "Maintenance ClearImages" and ?b = "Maintenance CleanupOrphans"
  define s1 where "s1 = fst (try_start_activity ?a initial_system)"
  define s2 where "s2 = guard_drop 0 s1"
  define s3 where "s3 = fst (try_start_activity ?b s2)"
  define s4 where "s4 = deliver 0 s3"
  define s5 where "s5 = deliver 1 s4"
  define s6 where "s6 = deliver 0 s5"
  note defs = s1_def s2_def s3_def s4_def s5_def s6_def try_start_activity_def initial_system_def guard_drop_def deliver_def
  have "activity_reachable s1"
    unfolding s1_def by (rule activity_reachable.step [OF activity_reachable.initial activity_step.start]) simp
  then have "activity_reachable s2"
    unfolding s2_def by (rule activity_reachable.step [OF _ activity_step.finish]) (simp add: defs)
  then have "activity_reachable s3"
    unfolding s3_def by (rule activity_reachable.step [OF _ activity_step.start]) simp
  then have "activity_reachable s4"
    unfolding s4_def by (rule activity_reachable.step [OF _ activity_step.send]) (simp add: defs)
  then have "activity_reachable s5"
    unfolding s5_def by (rule activity_reachable.step [OF _ activity_step.send]) (simp add: defs)
  then have "activity_reachable s6"
    unfolding s6_def by (rule activity_reachable.step [OF _ activity_step.send]) (simp add: defs)
  moreover have "as_unsent s6 = []" "last (as_delivered s6) = Idle" "as_activity s6 = ?b" by (simp_all add: defs)
  ultimately show "\<exists>sys. activity_reachable sys \<and> as_unsent sys = [] \<and> last (as_delivered sys) = Idle \<and> as_activity sys \<noteq> Idle"
    by (intro exI [of _ s6]) simp
qed

lemma broadcast_order_matters_witness:
  "last (as_delivered (deliver 0 (fst (try_start_activity (Maintenance ClearImages) initial_system)))) = Maintenance ClearImages"
proof -
  let ?s = "fst (try_start_activity (Maintenance ClearImages) initial_system)"
  have "fifo_reachable ?s"
    by (rule fifo_reachable.fifo_step [OF fifo_reachable.fifo_initial activity_step.start])
      (simp_all add: try_start_activity_def initial_system_def)
  then have "fifo_reachable (deliver 0 ?s)"
    by (rule fifo_reachable.fifo_send) (simp add: try_start_activity_def initial_system_def)
  moreover have "as_unsent (deliver 0 ?s) = []" "as_delivered (deliver 0 ?s) \<noteq> []"
    "as_activity (deliver 0 ?s) = Maintenance ClearImages"
    by (simp_all add: deliver_def try_start_activity_def initial_system_def)
  ultimately show ?thesis using broadcast_order_matters by metis
qed

end
