(* ===== verification/Rust_Text.thy ===== *)
theory Rust_Text
  imports Rust_Prelude "HOL-Library.Monad_Syntax"
begin

text \<open>
  The text operations of the Rust standard library that file names go through: case mapping,
  byte slices with their panics, and the fallible loop over a list.

  An \<open>option\<close> result whose \<open>None\<close> is a panic is written with the type \<open>may_panic\<close>, so a function
  of the source that returns \<open>Option<T>\<close> and slices a string has type
  \<open>T option may_panic\<close>. A byte slice panics when its index is not the start of a character.

  \<open>to_lowercase\<close>, \<open>to_uppercase\<close> and the character classes follow the Unicode tables. ASCII
  characters are treated by definition; the mapping of every other character, which may depend
  on its position in the string (the final sigma), and its class are a parameter of type
  \<open>unicode\<close>. \<open>lower_laws\<close> states what the
  tables guarantee: no character disappears, and the only ASCII characters that a non-ASCII one
  is mapped to are \<open>i\<close> (from U+0130) and \<open>k\<close> (from U+212A).
\<close>

section \<open>Panics\<close>

type_synonym 'a may_panic = "'a option"

abbreviation panics :: "'a may_panic \<Rightarrow> bool" where
  "panics r \<equiv> r = None"

text \<open>A loop whose body may panic, and the first element for which a body returns a value.\<close>

fun each :: "('s \<Rightarrow> 'a \<Rightarrow> 's may_panic) \<Rightarrow> 's \<Rightarrow> 'a list \<Rightarrow> 's may_panic" where
  "each f s [] = Some s"
| "each f s (x # xs) = do { s' \<leftarrow> f s x; each f s' xs }"

lemma each_Some [simp]: "each (\<lambda>s x. Some (f s x)) s xs = Some (foldl f s xs)"
  by (induction xs arbitrary: s) auto

lemma each_snoc: "each f s (xs @ [x]) = each f s xs \<bind> (\<lambda>s'. f s' x)"
  by (induction xs arbitrary: s) (auto simp: Option.bind_assoc split: bind_splits)

lemma each_panics_iff:
  assumes "\<And>s x. x \<in> set xs \<Longrightarrow> panics (f s x) \<longleftrightarrow> P x"
  shows "panics (each f s xs) \<longleftrightarrow> (\<exists>x \<in> set xs. P x)"
  using assms
proof (induction xs arbitrary: s)
  case (Cons x xs)
  then have head: "panics (f s x) \<longleftrightarrow> P x" and tail: "panics (each f s' xs) \<longleftrightarrow> (\<exists>x \<in> set xs. P x)" for s'
    by auto
  show ?case
  proof (cases "f s x")
    case None
    then show ?thesis using head by simp
  next
    case (Some s')
    then show ?thesis using head tail by simp
  qed
qed simp

section \<open>Byte slices\<close>

text \<open>\<open>&s[..n]\<close> and \<open>&s[n..]\<close> together.\<close>

fun byte_split :: "nat \<Rightarrow> rstr \<Rightarrow> (rstr \<times> rstr) may_panic" where
  "byte_split n [] = (if n = 0 then Some ([], []) else None)"
| "byte_split n (c # s) =
     (if n = 0 then Some ([], c # s)
      else if utf8_width c \<le> n then map_option (map_prod ((#) c) id) (byte_split (n - utf8_width c) s)
      else None)"

definition byte_take :: "nat \<Rightarrow> rstr \<Rightarrow> rstr may_panic" where
  "byte_take n s = map_option fst (byte_split n s)"

definition byte_drop :: "nat \<Rightarrow> rstr \<Rightarrow> rstr may_panic" where
  "byte_drop n s = map_option snd (byte_split n s)"

text \<open>\<open>s.as_bytes().get(n)\<close>.\<close>

definition byte_get :: "nat \<Rightarrow> rstr \<Rightarrow> nat option" where
  "byte_get n s = (if n < length (utf8_bytes s) then Some (unat (utf8_bytes s ! n)) else None)"

lemma utf8_width_pos [simp]: "0 < utf8_width c" "utf8_width c \<noteq> 0"
  by (simp_all add: utf8_width_def)

lemma utf8_len_append [simp]: "utf8_len (a @ b) = utf8_len a + utf8_len b"
  by (simp add: utf8_len_def)

lemma utf8_len_Cons [simp]: "utf8_len (c # s) = utf8_width c + utf8_len s"
  by (simp add: utf8_len_def)

lemma byte_split_zero [simp]: "byte_split 0 s = Some ([], s)"
  by (cases s) simp_all

lemma byte_split_prefix: "byte_split (utf8_len a) (a @ b) = Some (a, b)"
  by (induction a) auto

lemma byte_split_skip:
  "byte_split (utf8_len a + n) (a @ b) = map_option (map_prod ((@) a) id) (byte_split n b)"
  by (induction a) (cases "byte_split n b"; auto)+

lemma byte_split_Some_iff: "byte_split n s = Some (a, b) \<longleftrightarrow> s = a @ b \<and> utf8_len a = n"
proof
  show "byte_split n s = Some (a, b) \<Longrightarrow> s = a @ b \<and> utf8_len a = n"
    by (induction n s arbitrary: a rule: byte_split.induct) (auto split: if_splits)
  show "s = a @ b \<and> utf8_len a = n \<Longrightarrow> byte_split n s = Some (a, b)"
    by (auto simp: byte_split_prefix)
qed

lemma byte_split_ascii:
  "n \<le> length s \<Longrightarrow> \<forall>c \<in> set (take n s). c < 128 \<Longrightarrow> byte_split n s = Some (take n s, drop n s)"
  using utf8_len_ascii [of "take n s"] by (simp add: byte_split_Some_iff list_all_iff min_def)

lemma byte_drop_ascii:
  "n \<le> length s \<Longrightarrow> \<forall>c \<in> set (take n s). c < 128 \<Longrightarrow> byte_drop n s = Some (drop n s)"
  by (simp add: byte_drop_def byte_split_ascii)

lemma continuation_byte: "128 \<le> unat (128 + word_of_nat (m mod 64) :: u8)"
proof -
  have "(128 + word_of_nat (m mod 64) :: u8) = word_of_nat (128 + m mod 64)" by simp
  moreover have "128 + m mod 64 < 256" by (simp add: less_trans [OF mod_less_divisor])
  ultimately show ?thesis by (simp only: unat_of_nat) simp
qed

lemma utf8_char_tail: "0 < i \<Longrightarrow> i < length (utf8_char c) \<Longrightarrow> 128 \<le> unat (utf8_char c ! i)"
  by (auto simp: utf8_char_def nth_Cons continuation_byte split: nat.splits if_splits)

lemma length_utf8_char [simp]: "length (utf8_char c) = utf8_width c"
  by (simp add: utf8_char_def utf8_width_def)

text \<open>An ASCII byte is a character, so a slice that starts there is in order.\<close>

lemma byte_split_at_ascii:
  "n < length (utf8_bytes s) \<Longrightarrow> unat (utf8_bytes s ! n) < 128 \<Longrightarrow> \<not> panics (byte_split n s)"
proof (induction s arbitrary: n)
  case (Cons c s)
  show ?case
  proof (cases "n < utf8_width c")
    case True
    then have "utf8_bytes (c # s) ! n = utf8_char c ! n"
      by (simp add: utf8_bytes_def nth_append)
    then have "n = 0"
      using Cons.prems(2) True utf8_char_tail [of n c] by (cases n) auto
    then show ?thesis by simp
  next
    case False
    then have "utf8_bytes (c # s) ! n = utf8_bytes s ! (n - utf8_width c)"
      by (simp add: utf8_bytes_def nth_append)
    moreover have "n - utf8_width c < length (utf8_bytes s)"
      using Cons.prems(1) False by (simp add: utf8_bytes_def)
    ultimately show ?thesis
      using Cons.IH [of "n - utf8_width c"] Cons.prems(2) False by auto
  qed
qed (simp add: utf8_bytes_def)

lemma byte_take_at_ascii: "byte_get n s = Some b \<Longrightarrow> b < 128 \<Longrightarrow> \<exists>t. byte_take n s = Some t"
  using byte_split_at_ascii [of n s] by (auto simp: byte_get_def byte_take_def split: if_splits)

section \<open>Matching on literals\<close>

text \<open>\<open>matches!(s, "a" | "b" | ...)\<close> and the arms of a \<open>match\<close> on a string, tried in order.\<close>

definition one_of :: "rstr \<Rightarrow> string list \<Rightarrow> bool" where
  "one_of s names \<longleftrightarrow> list_ex (\<lambda>n. s = lit n) names"

fun match_str :: "(string list \<times> 'a) list \<Rightarrow> rstr \<Rightarrow> 'a option" where
  "match_str [] s = None"
| "match_str ((names, v) # arms) s = (if one_of s names then Some v else match_str arms s)"

lemma match_str_SomeD: "match_str arms s = Some v \<Longrightarrow> \<exists>names n. (names, v) \<in> set arms \<and> n \<in> set names \<and> s = lit n"
proof (induction arms)
  case (Cons arm arms)
  obtain names v' where arm: "arm = (names, v')" by (cases arm)
  show ?case
  proof (cases "one_of s names")
    case True
    then obtain n where "n \<in> set names" "s = lit n" by (auto simp: one_of_def list_ex_iff)
    then show ?thesis using Cons.prems True arm by auto
  next
    case False
    then show ?thesis using Cons arm by fastforce
  qed
qed simp

lemma starts_with_longer: "length t < length p \<Longrightarrow> \<not> starts_with (lit p) t"
  by (auto simp: starts_with_def dest: prefix_length_le)

lemma ends_with_longer: "length t < length p \<Longrightarrow> \<not> ends_with (lit p) t"
  by (auto simp: ends_with_def dest: suffix_length_le)

lemma lit_other_length: "length t \<noteq> length p \<Longrightarrow> t \<noteq> lit p"
  by auto

section \<open>Searching\<close>

fun split_by :: "(rchar \<Rightarrow> bool) \<Rightarrow> rstr \<Rightarrow> rstr list" where
  "split_by P [] = [[]]"
| "split_by P (c # s) =
     (if P c then [] # split_by P s
      else (case split_by P s of [] \<Rightarrow> [[c]] | w # ws \<Rightarrow> (c # w) # ws))"

definition split_whitespace :: "rstr \<Rightarrow> rstr list" where
  "split_whitespace s = filter (\<lambda>w. w \<noteq> []) (split_by is_whitespace s)"

text \<open>\<open>find(needle)\<close>: what stands before the first occurrence and what follows it.\<close>

fun find_split :: "rstr \<Rightarrow> rstr \<Rightarrow> (rstr \<times> rstr) option" where
  "find_split needle [] = (if needle = [] then Some ([], []) else None)"
| "find_split needle (c # s) =
     (if prefix needle (c # s) then Some ([], drop (length needle) (c # s))
      else map_option (map_prod ((#) c) id) (find_split needle s))"

text \<open>\<open>rfind(needle)\<close>: what stands before the last occurrence and what follows it.\<close>

fun rfind_split :: "rstr \<Rightarrow> rstr \<Rightarrow> (rstr \<times> rstr) option" where
  "rfind_split needle [] = (if needle = [] then Some ([], []) else None)"
| "rfind_split needle (c # s) =
     (case rfind_split needle s of
        Some (before, after) \<Rightarrow> Some (c # before, after)
      | None \<Rightarrow> if prefix needle (c # s) then Some ([], drop (length needle) (c # s)) else None)"

definition strip_suffix :: "rstr \<Rightarrow> rstr \<Rightarrow> rstr option" where
  "strip_suffix p s = (if suffix p s then Some (take (length s - length p) s) else None)"

lemma find_split_SomeD: "find_split needle s = Some (a, b) \<Longrightarrow> s = a @ needle @ b"
  by (induction s arbitrary: a) (auto split: if_splits simp: prefix_def)

lemma find_split_first: "find_split needle s = Some (a, b) \<Longrightarrow> s = a' @ needle @ b' \<Longrightarrow> length a \<le> length a'"
proof (induction s arbitrary: a a')
  case (Cons c s)
  show ?case
  proof (cases a')
    case Nil
    then have "prefix needle (c # s)" using Cons.prems(2) by auto
    with Cons.prems(1) show ?thesis by auto
  next
    case (Cons d t)
    with Cons.prems Cons.IH show ?thesis by (auto split: if_splits)
  qed
qed (auto split: if_splits)

lemma find_split_None_iff: "find_split needle s = None \<longleftrightarrow> \<not> contains_str needle s"
proof (induction s)
  case (Cons c s)
  then show ?case by (auto simp: contains_str_def sublist_Cons_right)
qed (auto simp: contains_str_def)

text \<open>\<open>rfind(predicate)\<close>: the byte index of the last character that satisfies it.\<close>

definition rfind_char :: "(rchar \<Rightarrow> bool) \<Rightarrow> rstr \<Rightarrow> nat option" where
  "rfind_char P s =
     (case dropWhile (\<lambda>c. \<not> P c) (rev s) of [] \<Rightarrow> None | c # front \<Rightarrow> Some (utf8_len (rev front)))"

section \<open>Case mapping\<close>

record unicode =
  lower_at :: "rstr \<Rightarrow> nat \<Rightarrow> rstr"
  lower_of :: "rchar \<Rightarrow> rstr"
  upper_of :: "rchar \<Rightarrow> rstr"
  alphabetic :: "rchar \<Rightarrow> bool"
  numeric :: "rchar \<Rightarrow> bool"

definition is_alphabetic :: "unicode \<Rightarrow> rchar \<Rightarrow> bool" where
  "is_alphabetic u c \<longleftrightarrow> (if c < 128 then is_ascii_uppercase c \<or> is_ascii_lowercase c else alphabetic u c)"

definition is_alphanumeric :: "unicode \<Rightarrow> rchar \<Rightarrow> bool" where
  "is_alphanumeric u c \<longleftrightarrow>
     (if c < 128 then is_ascii_uppercase c \<or> is_ascii_lowercase c \<or> is_ascii_digit c
      else alphabetic u c \<or> numeric u c)"

definition to_ascii_uppercase_char :: "rchar \<Rightarrow> rchar" where
  "to_ascii_uppercase_char c = (if is_ascii_lowercase c then c - 32 else c)"

definition lowered :: "unicode \<Rightarrow> rstr \<Rightarrow> nat \<Rightarrow> rstr" where
  "lowered u s i = (if s ! i < 128 then [to_ascii_lowercase_char (s ! i)] else lower_at u s i)"

definition to_lowercase :: "unicode \<Rightarrow> rstr \<Rightarrow> rstr" where
  "to_lowercase u s = concat (map (lowered u s) [0..<length s])"

text \<open>\<open>char::to_lowercase\<close>, which sees no context.\<close>

definition lower_char :: "unicode \<Rightarrow> rchar \<Rightarrow> rstr" where
  "lower_char u c = (if c < 128 then [to_ascii_lowercase_char c] else lower_of u c)"

definition to_uppercase :: "unicode \<Rightarrow> rstr \<Rightarrow> rstr" where
  "to_uppercase u s = concat (map (\<lambda>c. if c < 128 then [to_ascii_uppercase_char c] else upper_of u c) s)"

definition lower_laws :: "unicode \<Rightarrow> bool" where
  "lower_laws u \<longleftrightarrow>
     (\<forall>s i. i < length s \<and> 128 \<le> s ! i \<longrightarrow>
        lower_at u s i \<noteq> [] \<and> (\<forall>c \<in> set (lower_at u s i). c < 128 \<longrightarrow> c = 105 \<or> c = 107))"

text \<open>Tables for text whose non-ASCII characters are letters without case: they satisfy the laws.\<close>

definition caseless :: unicode where
  "caseless = \<lparr>lower_at = (\<lambda>s i. [s ! i]), lower_of = (\<lambda>c. [c]), upper_of = (\<lambda>c. [c]), alphabetic = (\<lambda>c. True), numeric = (\<lambda>c. False)\<rparr>"

lemma caseless_laws: "lower_laws caseless"
  by (simp add: lower_laws_def caseless_def)

abbreviation ascii :: "rstr \<Rightarrow> bool" where
  "ascii s \<equiv> list_all (\<lambda>c. c < 128) s"

lemma to_lowercase_ascii: "ascii s \<Longrightarrow> to_lowercase u s = to_ascii_lowercase s"
proof -
  assume "ascii s"
  then have "map (lowered u s) [0..<length s] = map ((\<lambda>c. [to_ascii_lowercase_char c]) \<circ> nth s) [0..<length s]"
    by (intro map_cong) (auto simp: lowered_def list_all_length)
  then show ?thesis
    by (simp add: to_lowercase_def to_ascii_lowercase_def map_nth concat_map_singleton flip: map_map)
qed

lemma to_uppercase_ascii: "ascii s \<Longrightarrow> to_uppercase u s = map to_ascii_uppercase_char s"
  by (induction s) (auto simp: to_uppercase_def)

lemma to_lowercase_Nil [simp]: "to_lowercase u [] = []"
  by (simp add: to_lowercase_def)

lemma ascii_lit: "ascii (lit s)" if "list_all (\<lambda>c. (of_char c :: nat) < 128) s"
  using that by (simp add: lit_def list_all_iff)

text \<open>
  A lowercased string that starts with ASCII characters other than \<open>i\<close> and \<open>k\<close> comes from a string
  that starts with as many ASCII characters.
\<close>

lemma lowered_prefix:
  assumes "lower_laws u" and "\<forall>c \<in> set p. c < 128 \<and> c \<noteq> 105 \<and> c \<noteq> 107"
    and "prefix p (concat (map (lowered u s) [k..<length s]))"
  shows "\<forall>j < length p. k + j < length s \<and> s ! (k + j) < 128"
  using assms(2,3)
proof (induction p arbitrary: k)
  case (Cons c p)
  then have k: "k < length s" by (cases "k < length s") auto
  then have split: "prefix (c # p) (lowered u s k @ concat (map (lowered u s) [Suc k..<length s]))"
    using Cons.prems(2) by (simp add: upt_conv_Cons)
  have small: "s ! k < 128"
  proof (rule ccontr)
    assume big: "\<not> s ! k < 128"
    with assms(1) have "lowered u s k \<noteq> []" and "\<forall>d \<in> set (lowered u s k). d < 128 \<longrightarrow> d = 105 \<or> d = 107"
      using k by (fastforce simp: lower_laws_def lowered_def)+
    moreover from this(1) split have "c \<in> set (lowered u s k)"
      by (cases "lowered u s k") auto
    ultimately show False using Cons.prems(1) by auto
  qed
  with split have "prefix p (concat (map (lowered u s) [Suc k..<length s]))"
    by (simp add: lowered_def)
  then have "\<forall>j < length p. Suc k + j < length s \<and> s ! (Suc k + j) < 128"
    using Cons.IH [of "Suc k"] Cons.prems(1) by simp
  with k small show ?case by (auto simp: less_Suc_eq_0_disj)
qed simp

lemma byte_drop_lowered:
  assumes "lower_laws u" and "starts_with p (to_lowercase u s)"
    and "\<forall>c \<in> set p. c < 128 \<and> c \<noteq> 105 \<and> c \<noteq> 107" and "n \<le> length p"
  shows "byte_drop n s = Some (drop n s)"
proof (rule byte_drop_ascii)
  have chars: "\<forall>j < length p. j < length s \<and> s ! j < 128"
    using lowered_prefix [OF assms(1,3), of s 0] assms(2) by (simp add: starts_with_def to_lowercase_def)
  then show le: "n \<le> length s"
    using assms(4) by (metis linorder_not_less nat_less_le order_trans)
  show "\<forall>c \<in> set (take n s). c < 128"
    using chars assms(4) le by (auto simp: in_set_conv_nth)
qed

end
