(* ===== verification/Rom_Tags.thy ===== *)
theory Rom_Tags
  imports Rust_Text Regions
begin

text \<open>
  The file-name tags of \<open>core/game/rom_tags.rs\<close>: the iterators over parenthesised and bracketed
  tags, the parsers of each kind of tag, the classification of a ROM for sorting, the display
  suffix, and the metadata of the TOSEC naming convention.

  Local variables that a loop of the source updates form a record (\<open>class_state\<close>, \<open>tag_state\<close>);
  the loop body is one function on it. A function that slices a string has a \<open>may_panic\<close>
  result, so that every slice of the source that is not at the start of a character is visible
  in the result. The Unicode tables behind \<open>to_lowercase\<close> are the parameter \<open>u\<close>.
\<close>

section \<open>Tag iterators\<close>

text \<open>
  \<open>next_tag\<close> is the body of both \<open>Iterator::next\<close> functions: the tag and what remains after it.
\<close>

definition next_tag :: "rchar \<Rightarrow> rchar \<Rightarrow> rstr \<Rightarrow> (rstr \<times> rstr) option" where
  "next_tag open close remaining =
     do { (_, after_open) \<leftarrow> split_once open remaining; split_once close after_open }"

lemma next_tag_shorter: "next_tag open close s = Some (tag, rest) \<Longrightarrow> length rest < length s"
  by (auto simp: next_tag_def bind_eq_Some_conv dest!: split_once_SomeD)

function tags_between :: "rchar \<Rightarrow> rchar \<Rightarrow> rstr \<Rightarrow> rstr list" where
  "tags_between open close remaining =
     (case next_tag open close remaining of None \<Rightarrow> [] | Some (tag, rest) \<Rightarrow> tag # tags_between open close rest)"
  by pat_completeness auto
termination by (relation "measure (\<lambda>(_, _, s). length s)") (auto dest: next_tag_shorter)

declare tags_between.simps [simp del]

definition paren_tags :: "rstr \<Rightarrow> rstr list" where
  "paren_tags s = tags_between 40 41 s"

definition bracket_tags :: "rstr \<Rightarrow> rstr list" where
  "bracket_tags s = tags_between 91 93 s"

definition stem_of :: "rstr \<Rightarrow> rstr" where
  "stem_of filename = (case before_last 46 filename of Some stem \<Rightarrow> stem | None \<Rightarrow> filename)"

section \<open>Tag tables\<close>

definition is_language_code :: "rstr \<Rightarrow> bool" where
  "is_language_code s \<longleftrightarrow>
     one_of s
      [''en'', ''fr'', ''de'', ''es'', ''it'', ''ja'', ''pt'', ''nl'', ''sv'', ''no'', ''da'',
       ''fi'', ''ko'', ''zh'', ''ru'', ''pl'', ''hu'', ''cs'', ''ca'', ''ro'', ''tr'', ''ar'',
       ''pt-br'']"

definition tosec_countries :: "(string list \<times> rstr) list" where
  "tosec_countries =
      [([''US''], lit ''USA''), ([''GB''], lit ''UK''), ([''JP''], lit ''Japan''),
       ([''DE''], lit ''Germany''), ([''FR''], lit ''France''), ([''ES''], lit ''Spain''),
       ([''IT''], lit ''Italy''), ([''NL''], lit ''Netherlands''), ([''SE''], lit ''Sweden''),
       ([''PT''], lit ''Portugal''), ([''AU''], lit ''Australia''), ([''BR''], lit ''Brazil''),
       ([''KR''], lit ''Korea''), ([''TW''], lit ''Taiwan''), ([''CN''], lit ''China''),
       ([''RU''], lit ''Russia''), ([''EU''], lit ''Europe''), ([''GR''], lit ''Greece''),
       ([''AT''], lit ''Austria''), ([''BE''], lit ''Belgium''), ([''BG''], lit ''Bulgaria''),
       ([''CH''], lit ''Switzerland''), ([''CZ''], lit ''Czechia''),
       ([''DK''], lit ''Denmark''), ([''EE''], lit ''Estonia''), ([''FI''], lit ''Finland''),
       ([''HR''], lit ''Croatia''), ([''HU''], lit ''Hungary''), ([''IE''], lit ''Ireland''),
       ([''IS''], lit ''Iceland''), ([''LT''], lit ''Lithuania''),
       ([''LU''], lit ''Luxembourg''), ([''LV''], lit ''Latvia''), ([''NO''], lit ''Norway''),
       ([''PL''], lit ''Poland''), ([''RO''], lit ''Romania''), ([''RS''], lit ''Serbia''),
       ([''SI''], lit ''Slovenia''), ([''SK''], lit ''Slovakia''), ([''UA''], lit ''Ukraine''),
       ([''AR''], lit ''Argentina''), ([''CA''], lit ''Canada''), ([''MX''], lit ''Mexico''),
       ([''HK''], lit ''Hong Kong''), ([''ID''], lit ''Indonesia''), ([''IN''], lit ''India''),
       ([''MY''], lit ''Malaysia''), ([''NZ''], lit ''New Zealand''),
       ([''PH''], lit ''Philippines''), ([''SG''], lit ''Singapore''),
       ([''TH''], lit ''Thailand''), ([''VN''], lit ''Vietnam''), ([''AE''], lit ''UAE''),
       ([''EG''], lit ''Egypt''), ([''IL''], lit ''Israel''), ([''SA''], lit ''Saudi Arabia''),
       ([''TR''], lit ''Turkey''), ([''ZA''], lit ''South Africa'')]"

definition expand_tosec_country_code :: "rstr \<Rightarrow> rstr option" where
  "expand_tosec_country_code code = match_str tosec_countries code"

definition is_tosec_country_code :: "rstr \<Rightarrow> bool" where
  "is_tosec_country_code tag \<longleftrightarrow> expand_tosec_country_code tag \<noteq> None"

definition normalize_language :: "unicode \<Rightarrow> rstr \<Rightarrow> rstr" where
  "normalize_language u lang =
     (case match_str
      [([''en'', ''eng'', ''english''], lit ''EN''),
       ([''es'', ''spa'', ''spanish'', ''espanol''], lit ''ES''),
       ([''fr'', ''fre'', ''french'', ''fra''], lit ''FR''),
       ([''de'', ''ger'', ''german'', ''deu''], lit ''DE''),
       ([''it'', ''ita'', ''italian''], lit ''IT''),
       ([''pt'', ''por'', ''portuguese''], lit ''PT''), ([''bra'', ''pt-br''], lit ''PT-BR''),
       ([''ru'', ''rus'', ''russian''], lit ''RU''),
       ([''ja'', ''jpn'', ''japanese''], lit ''JA''),
       ([''ko'', ''kor'', ''korean''], lit ''KO''),
       ([''zh'', ''chi'', ''chinese''], lit ''ZH''),
       ([''sv'', ''swe'', ''swedish''], lit ''SV''),
       ([''pl'', ''pol'', ''polish''], lit ''PL''), ([''nl'', ''dut'', ''dutch''], lit ''NL''),
       ([''el'', ''gre'', ''greek''], lit ''EL''),
       ([''no'', ''nor'', ''norwegian''], lit ''NO''),
       ([''da'', ''dan'', ''danish''], lit ''DA''),
       ([''fi'', ''fin'', ''finnish''], lit ''FI''),
       ([''hu'', ''hun'', ''hungarian''], lit ''HU''),
       ([''cs'', ''cze'', ''czech''], lit ''CS''),
       ([''ro'', ''rom'', ''romanian''], lit ''RO''),
       ([''tr'', ''tur'', ''turkish''], lit ''TR''),
       ([''ar'', ''ara'', ''arabic''], lit ''AR''), ([''ca'', ''cat'', ''catalan''], lit ''CA'')]
        (to_lowercase u lang)
      of Some code \<Rightarrow> code | None \<Rightarrow> to_uppercase u (to_lowercase u lang))"

definition tosec_language_to_region :: "rstr \<Rightarrow> rstr option" where
  "tosec_language_to_region tag =
     (let first = hd (split_on 45 tag)
      in case match_str
      [([''en''], lit ''english''), ([''fr''], lit ''french''), ([''es''], lit ''spanish''),
       ([''de''], lit ''german''), ([''it''], lit ''italian''), ([''pt''], lit ''portuguese''),
       ([''nl''], lit ''dutch''), ([''sv''], lit ''swedish''), ([''da''], lit ''danish''),
       ([''fi''], lit ''finnish''), ([''no''], lit ''norwegian''), ([''pl''], lit ''polish''),
       ([''ru''], lit ''russian''), ([''ja''], lit ''japanese''), ([''ko''], lit ''korean''),
       ([''zh''], lit ''chinese''), ([''hu''], lit ''hungarian''), ([''cs''], lit ''czech''),
       ([''ro''], lit ''romanian''), ([''tr''], lit ''turkish''), ([''ar''], lit ''arabic''),
       ([''ca''], lit ''catalan''), ([''el''], lit ''greek'')]
           first
         of Some name \<Rightarrow> Some name | None \<Rightarrow> Some (lit ''other''))"

definition is_tosec_language_tag :: "rstr \<Rightarrow> bool" where
  "is_tosec_language_tag tag \<longleftrightarrow>
     (if is_language_code tag then True
      else if 45 \<in> set tag
      then (let parts = split_on 45 tag in 2 \<le> length parts \<and> list_all is_language_code parts)
      else False)"

definition expand_tosec_language :: "unicode \<Rightarrow> rstr \<Rightarrow> rstr" where
  "expand_tosec_language u tag = to_uppercase u tag"

definition comma_parts :: "rstr \<Rightarrow> rstr list" where
  "comma_parts s = map trim (split_on 44 s)"

definition region_names :: "string list" where
  "region_names =
      [''usa'', ''europe'', ''japan'', ''world'', ''spain'', ''france'', ''germany'', ''italy'',
       ''brazil'', ''korea'', ''taiwan'', ''china'', ''australia'', ''asia'', ''russia'',
       ''argentina'', ''netherlands'', ''sweden'', ''scandinavia'', ''uk'', ''canada'']"

definition looks_like_region :: "unicode \<Rightarrow> rstr \<Rightarrow> bool" where
  "looks_like_region u tag =
     (let lower = to_lowercase u tag
      in if is_tosec_country_code tag then True
         else if utf8_len tag \<le> 5 \<and> list_all (\<lambda>c. c \<in> set (lit ''JUEBKW'')) tag then True
         else let parts = comma_parts lower
              in if list_all (\<lambda>p. one_of p region_names \<or> is_language_code p) parts
                 then \<not> list_all is_language_code parts
                 else False)"

definition is_distribution_channel :: "rstr \<Rightarrow> bool" where
  "is_distribution_channel lower \<longleftrightarrow>
     one_of lower
      [''seganet'', ''sega channel'', ''bs'', ''sufami turbo'', ''retro-bit'',
       ''retro-bit generations'']"

definition noise_names :: "string list" where
  "noise_names =
      [''virtual console'', ''switch online'', ''virtual console, switch online'',
       ''virtual console, classic mini, switch online'', ''virtual console, classic mini'',
       ''classic mini'', ''np'', ''program'', ''ntsc'', ''pal'', ''fixed'', ''alt'', ''final'',
       ''update'', ''steam'', ''collection of mana'', ''mega man x legacy collection'',
       ''game no kanzume otokuyou'', ''pd'', ''vc'', ''j-cart'', ''nintendo super system'',
       ''mame snes bootleg'', ''unknown'', ''cw'', ''fw'', ''gw'', ''sw'', ''alpha'',
       ''preview'', ''pre-release'']"

definition is_noise_tag :: "rstr \<Rightarrow> bool" where
  "is_noise_tag lower \<longleftrightarrow>
     (if list_all is_language_code (comma_parts lower) then True else one_of lower noise_names)"

section \<open>Regions\<close>

definition region_to_priority :: "unicode \<Rightarrow> rstr \<Rightarrow> region_priority" where
  "region_to_priority u tag =
     (case match_str [([''US''], Usa), ([''EU'', ''GB''], Europe), ([''JP''], Japan)] tag of
        Some p \<Rightarrow> p
      | None \<Rightarrow>
          if is_tosec_country_code tag then OtherRegion
          else
            let first = hd (comma_parts (to_lowercase u tag))
            in case match_str
                   [([''world'', ''w''], World), ([''usa'', ''u''], Usa), ([''usa, europe'', ''ue''], Usa),
                    ([''europe'', ''e''], Europe), ([''japan'', ''j''], Japan)] first of
                 Some p \<Rightarrow> p
               | None \<Rightarrow>
                   if contains_str (lit ''usa'') first then Usa
                   else if contains_str (lit ''europe'') first then Europe
                   else if contains_str (lit ''japan'') first then Japan
                   else OtherRegion)"

fun expand_region_chars :: "rstr \<Rightarrow> rstr list option" where
  "expand_region_chars [] = Some []"
| "expand_region_chars (c # cs) =
     do {
       name \<leftarrow> (if c = 74 then Some (lit ''Japan'') else if c = 85 then Some (lit ''USA'')
                else if c = 69 then Some (lit ''Europe'') else if c = 66 then Some (lit ''Brazil'')
                else if c = 75 then Some (lit ''Korea'') else if c = 87 then Some (lit ''World'')
                else None);
       names \<leftarrow> expand_region_chars cs;
       Some (name # names)
     }"

definition expand_region_code :: "rstr \<Rightarrow> rstr" where
  "expand_region_code code =
     (case expand_region_chars code of Some parts \<Rightarrow> join (lit '', '') parts | None \<Rightarrow> [])"

definition normalize_region :: "rstr \<Rightarrow> rstr" where
  "normalize_region region =
     (case expand_tosec_country_code region of
        Some expanded \<Rightarrow> expanded
      | None \<Rightarrow>
          if utf8_len region \<le> 5 \<and> list_all is_ascii_uppercase region
          then (let expanded = expand_region_code region in if expanded \<noteq> [] then expanded else region)
          else region)"

section \<open>Revisions and translations\<close>

definition parse_revision :: "unicode \<Rightarrow> rstr \<Rightarrow> rstr option may_panic" where
  "parse_revision u tag =
     (let lower = to_lowercase u tag
      in do {
           spaced \<leftarrow> (if starts_with (lit ''rev '') lower
                     then do { rest \<leftarrow> byte_drop 4 tag;
                               Some (if trim rest \<noteq> [] then Some (lit ''Rev '' @ trim rest) else None) }
                     else Some None);
           if spaced \<noteq> None then Some spaced
           else if starts_with (lit ''rev'') lower \<and> 5 \<le> utf8_len lower
           then do { rest \<leftarrow> byte_drop 3 tag;
                     Some (if list_all is_ascii_digit rest
                           then Some (lit ''Rev '' @ nat_to_str (case parse_uint 32 rest of Some n \<Rightarrow> n | None \<Rightarrow> 0))
                           else None) }
           else Some None
         })"

definition parse_translation_paren :: "unicode \<Rightarrow> rstr \<Rightarrow> rstr option may_panic" where
  "parse_translation_paren u tag =
     (let lower = to_lowercase u tag
      in if starts_with (lit ''traducido '') lower \<or> starts_with (lit ''traduccion '') lower
         then Some (Some (lit ''ES''))
         else if starts_with (lit ''traduzido '') lower \<or> lower = lit ''traduzido''
         then Some (Some (lit ''PT-BR''))
         else if lower = lit ''pt-br'' then Some (Some (lit ''PT-BR''))
         else if starts_with (lit ''translated '') lower
         then do { rest \<leftarrow> byte_drop 11 tag;
                   Some (Some (normalize_language u (to_lowercase u (trim rest)))) }
         else Some None)"

text \<open>The slice \<open>&lower[2..]\<close> follows two ASCII characters that the test before it has found.\<close>

definition parse_translation_bracket :: "unicode \<Rightarrow> rstr \<Rightarrow> rstr option" where
  "parse_translation_bracket u tag =
     (let lower = to_lowercase u tag
      in if \<not> starts_with (lit ''t+'') lower \<and> \<not> starts_with (lit ''t-'') lower then None
         else
           let lang = takeWhile (\<lambda>c. \<not> (is_ascii_digit c \<or> c = 32 \<or> c = 95 \<or> c = 93)) (drop 2 lower)
           in if lang = [] then None else Some (normalize_language u lang))"

section \<open>TOSEC dump flags\<close>

datatype tosec_bracket_flag =
  Alternate | HackFlag | Cracked | Trained | Fixed | Overdump | BadDump | PirateFlag

definition starts_with_flag :: "rstr \<Rightarrow> rstr \<Rightarrow> bool" where
  "starts_with_flag lower p \<longleftrightarrow>
     starts_with p lower \<and> utf8_len p < utf8_len lower \<and>
     (case byte_get (utf8_len p) lower of Some b \<Rightarrow> is_ascii_digit b | None \<Rightarrow> False)"

definition classify_tosec_bracket :: "unicode \<Rightarrow> rstr \<Rightarrow> tosec_bracket_flag option" where
  "classify_tosec_bracket u tag =
     (let lower = to_lowercase u tag
      in if lower = lit ''!'' then None
         else if lower = lit ''b'' \<or> starts_with (lit ''b '') lower \<or> starts_with_flag lower (lit ''b'')
         then Some BadDump
         else if lower = lit ''a'' \<or> starts_with_flag lower (lit ''a'') then Some Alternate
         else if lower = lit ''h'' \<or> starts_with (lit ''h '') lower then Some HackFlag
         else if lower = lit ''cr'' \<or> starts_with (lit ''cr '') lower \<or> starts_with_flag lower (lit ''cr'')
         then Some Cracked
         else if lower = lit ''t'' \<or> starts_with (lit ''t '') lower \<or> starts_with (lit ''t+'') lower
                 \<or> starts_with_flag lower (lit ''t'')
         then Some Trained
         else if lower = lit ''f'' \<or> starts_with_flag lower (lit ''f'') then Some Fixed
         else if lower = lit ''o'' \<or> starts_with_flag lower (lit ''o'') then Some Overdump
         else if lower = lit ''p'' \<or> starts_with (lit ''p '') lower \<or> starts_with_flag lower (lit ''p'')
         then Some PirateFlag
         else None)"

definition extract_bracket_number :: "rstr \<Rightarrow> nat option may_panic" where
  "extract_bracket_number tag =
     (case rfind_char (\<lambda>c. \<not> is_ascii_digit c) tag of
        Some pos \<Rightarrow>
          if pos + 1 < utf8_len tag then do { digits \<leftarrow> byte_drop (pos + 1) tag; Some (parse_uint 8 digits) }
          else Some None
      | None \<Rightarrow> Some None)"

definition format_numbered_label :: "rstr \<Rightarrow> nat option \<Rightarrow> rstr" where
  "format_numbered_label label num =
     (case num of Some n \<Rightarrow> label @ lit '' '' @ nat_to_str n | None \<Rightarrow> label)"

fun any_dump_flag :: "unicode \<Rightarrow> rstr list \<Rightarrow> bool" where
  "any_dump_flag u [] \<longleftrightarrow> False"
| "any_dump_flag u (tag # tags) \<longleftrightarrow>
     (let trimmed = trim tag
      in if parse_translation_bracket u trimmed \<noteq> None then any_dump_flag u tags
         else if classify_tosec_bracket u trimmed \<noteq> None then True
         else any_dump_flag u tags)"

definition has_tosec_bracket_flag :: "unicode \<Rightarrow> rstr \<Rightarrow> bool" where
  "has_tosec_bracket_flag u filename = any_dump_flag u (bracket_tags (stem_of filename))"

definition is_date_tag :: "rstr \<Rightarrow> bool" where
  "is_date_tag tag \<longleftrightarrow> utf8_len tag = 10 \<and> byte_get 4 tag = Some 45 \<and> byte_get 7 tag = Some 45"

definition extract_bracket_descriptors :: "unicode \<Rightarrow> rstr \<Rightarrow> rstr list" where
  "extract_bracket_descriptors u filename =
     filter (\<lambda>trimmed. \<not> (trimmed = [] \<or> trimmed = lit ''!'') \<and> parse_translation_bracket u trimmed = None
               \<and> classify_tosec_bracket u trimmed = None \<and> \<not> is_date_tag trimmed)
       (map trim (bracket_tags (stem_of filename)))"

fun first_language_region :: "unicode \<Rightarrow> rstr list \<Rightarrow> rstr option" where
  "first_language_region u [] = None"
| "first_language_region u (tag # tags) =
     (let trimmed = trim tag
      in if trimmed = [] then first_language_region u tags
         else if trimmed \<noteq> to_lowercase u trimmed then first_language_region u tags
         else if is_tosec_language_tag trimmed then tosec_language_to_region trimmed
         else first_language_region u tags)"

definition extract_tosec_language_as_region :: "unicode \<Rightarrow> rstr \<Rightarrow> rstr option" where
  "extract_tosec_language_as_region u filename = first_language_region u (paren_tags (stem_of filename))"

section \<open>Lemmas\<close>

text \<open>The iterators find exactly the tags between gaps that open none.\<close>

lemma tags_between_step:
  "open \<notin> set gap \<Longrightarrow> close \<notin> set tag \<Longrightarrow>
    tags_between open close (gap @ open # tag @ close # rest) = tag # tags_between open close rest"
  by (subst tags_between.simps) (simp add: next_tag_def)

lemma tags_between_none: "open \<notin> set s \<Longrightarrow> tags_between open close s = []"
  by (subst tags_between.simps) (simp add: next_tag_def split_once_None_iff [THEN iffD2])

lemma tags_between_closed: "tag \<in> set (tags_between open close s) \<Longrightarrow> close \<notin> set tag"
proof (induction "open" close s rule: tags_between.induct)
  case (1 "open" close s)
  show ?case
  proof (cases "next_tag open close s")
    case None
    with 1 show ?thesis by (simp add: tags_between.simps [of "open" close s])
  next
    case (Some found)
    then obtain t rest where found: "found = (t, rest)" by (cases found)
    then have "close \<notin> set t"
      using Some by (auto simp: next_tag_def bind_eq_Some_conv dest: split_once_SomeD)
    with 1 Some found show ?thesis by (auto simp: tags_between.simps [of "open" close s])
  qed
qed

definition tagged :: "rchar \<Rightarrow> rchar \<Rightarrow> (rstr \<times> rstr) list \<Rightarrow> rstr" where
  "tagged open close parts = concat (map (\<lambda>(gap, tag). gap @ open # tag @ [close]) parts)"

lemma tags_between_tagged:
  "\<forall>(gap, tag) \<in> set parts. open \<notin> set gap \<and> close \<notin> set tag \<Longrightarrow> open \<notin> set rest \<Longrightarrow>
    tags_between open close (tagged open close parts @ rest) = map snd parts"
  by (induction parts) (auto simp: tagged_def tags_between_step tags_between_none)

text \<open>Where the parsers slice, the test before it has seen ASCII characters.\<close>

lemma revision_in_order:
  assumes "lower_laws u"
  shows "\<not> panics (parse_revision u tag)"
proof -
  have 4: "byte_drop 4 tag = Some (drop 4 tag)" if "starts_with (lit ''rev '') (to_lowercase u tag)"
    using that assms by (rule_tac byte_drop_lowered) (auto simp: lit_def)
  have 3: "byte_drop 3 tag = Some (drop 3 tag)" if "starts_with (lit ''rev'') (to_lowercase u tag)"
    using that assms by (rule_tac byte_drop_lowered) (auto simp: lit_def)
  show ?thesis by (simp add: parse_revision_def Let_def 3 4)
qed

lemma translation_in_order:
  assumes "lower_laws u"
  shows "\<not> panics (parse_translation_paren u tag)"
proof -
  have "byte_drop 11 tag = Some (drop 11 tag)" if "starts_with (lit ''translated '') (to_lowercase u tag)"
    using that assms by (rule_tac byte_drop_lowered) (auto simp: lit_def)
  then show ?thesis by (simp add: parse_translation_paren_def Let_def)
qed

text \<open>The number after a dump flag is sliced one byte after the last character that is no digit.\<close>

definition wide_before_digits :: "rstr \<Rightarrow> bool" where
  "wide_before_digits tag \<longleftrightarrow> (case dropWhile is_ascii_digit (rev tag) of [] \<Rightarrow> False | c # _ \<Rightarrow> 128 \<le> c)"

lemma bracket_number_panics_iff: "panics (extract_bracket_number tag) \<longleftrightarrow> wide_before_digits tag"
proof (cases "dropWhile is_ascii_digit (rev tag)")
  case Nil
  then show ?thesis
    by (simp add: extract_bracket_number_def rfind_char_def wide_before_digits_def del: dropWhile_eq_Nil_conv)
next
  case (Cons c front)
  define digits where "digits = rev (takeWhile is_ascii_digit (rev tag))"
  have "rev tag = takeWhile is_ascii_digit (rev tag) @ c # front"
    using takeWhile_dropWhile_id [of is_ascii_digit "rev tag"] Cons by simp
  then have tag: "tag = rev front @ c # digits"
    unfolding digits_def by (metis append.assoc append_Cons append_Nil rev.simps(2) rev_append rev_rev_ident)
  have "byte_drop (utf8_len (rev front) + 1) tag = None \<longleftrightarrow> 128 \<le> c"
    by (simp only: tag byte_drop_def byte_split_skip) (simp add: utf8_width_def)
  moreover have "128 \<le> c \<Longrightarrow> utf8_len (rev front) + 1 < utf8_len tag"
    by (simp add: tag utf8_width_def)
  ultimately show ?thesis
    using Cons by (auto simp: extract_bracket_number_def rfind_char_def wide_before_digits_def bind_eq_None_conv)
qed

text \<open>Every country code is two upper-case letters, so none of the earlier tests can take it.\<close>

lemma tosec_countries_shape:
  "list_all (\<lambda>(names, name). name \<noteq> [] \<and>
      list_all (\<lambda>n. length n = 2 \<and> list_all is_ascii_uppercase (lit n)) names) tosec_countries"
  by code_simp

lemma country_code_shape:
  assumes "expand_tosec_country_code code = Some name"
  shows "name \<noteq> []" and "\<exists>a b. code = [a, b] \<and> is_ascii_uppercase a \<and> is_ascii_uppercase b"
proof -
  obtain names n where n: "(names, name) \<in> set tosec_countries" "n \<in> set names" "code = lit n"
    using assms match_str_SomeD unfolding expand_tosec_country_code_def by metis
  with tosec_countries_shape have "name \<noteq> []" "length n = 2" "list_all is_ascii_uppercase code"
    by (fastforce simp: list_all_iff)+
  moreover from this(2) n(3) have "length code = Suc (Suc 0)" by simp
  then obtain a b where "code = [a, b]" by (auto simp: length_Suc_conv)
  ultimately show "name \<noteq> []" and "\<exists>a b. code = [a, b] \<and> is_ascii_uppercase a \<and> is_ascii_uppercase b" by simp_all
qed

section \<open>Properties\<close>

text \<open>
  C23: the iterators are inverse to writing tags: from any sequence of gaps and tags they return
  exactly the tags, in order, provided that no gap opens a tag and no tag closes early.
\<close>

theorem tag_iterator_roundtrip:
  assumes "\<forall>(gap, tag) \<in> set parts. 40 \<notin> set gap \<and> 41 \<notin> set tag" and "40 \<notin> set rest"
    and "\<forall>(gap, tag) \<in> set parts'. 91 \<notin> set gap \<and> 93 \<notin> set tag" and "91 \<notin> set rest'"
  shows "paren_tags (tagged 40 41 parts @ rest) = map snd parts \<and>
    bracket_tags (tagged 91 93 parts' @ rest') = map snd parts'"
  using tags_between_tagged [OF assms(1,2)] tags_between_tagged [OF assms(3,4)]
  by (simp add: paren_tags_def bracket_tags_def)

theorem tag_iterator_roundtrip_witness:
  "paren_tags (lit ''Zool (USA) (Rev 1) [a2]'') = [lit ''USA'', lit ''Rev 1''] \<and>
   bracket_tags (lit ''Zool (USA) (Rev 1) [a2]'') = [lit ''a2'']"
proof -
  let ?p = "[(lit ''Zool '', lit ''USA''), (lit '' '', lit ''Rev 1'')]" and ?r = "lit '' [a2]''"
  let ?q = "[(lit ''Zool (USA) (Rev 1) '', lit ''a2'')]"
  have "\<forall>(gap, tag) \<in> set ?p. 40 \<notin> set gap \<and> 41 \<notin> set tag" "40 \<notin> set ?r"
    "\<forall>(gap, tag) \<in> set ?q. 91 \<notin> set gap \<and> 93 \<notin> set tag" "91 \<notin> set ([] :: rstr)"
    by (auto simp: lit_def)
  from tag_iterator_roundtrip [OF this]
  show ?thesis by (simp add: tagged_def lit_def)
qed

end
