(* ===== verification/Rom_Classify.thy ===== *)
theory Rom_Classify
  imports Rom_Tags
begin

text \<open>
  The consumers of the tags in \<open>core/game/rom_tags.rs\<close>: \<open>classify\<close>, \<open>extract_tags\<close>, the display
  name, and the TOSEC metadata. Each loop over the tags is a step function on the record of the
  local variables it updates, with the branches in the order of the source.
\<close>

section \<open>Conditions both loops share\<close>

definition revision_tag :: "unicode \<Rightarrow> rstr \<Rightarrow> rstr \<Rightarrow> rstr option may_panic" where
  "revision_tag u trimmed lower =
     (if starts_with (lit ''rev '') lower \<or> (starts_with (lit ''rev'') lower \<and> utf8_len trimmed \<le> 6)
      then parse_revision u trimmed else Some None)"

definition beta_tag :: "rstr \<Rightarrow> bool" where
  "beta_tag lower \<longleftrightarrow>
     lower = lit ''beta'' \<or> starts_with (lit ''beta '') lower \<or> lower = lit ''alpha'' \<or>
     lower = lit ''preview'' \<or> lower = lit ''pre-release''"

definition proto_tag :: "rstr \<Rightarrow> bool" where
  "proto_tag lower \<longleftrightarrow>
     lower = lit ''proto'' \<or> lower = lit ''prototype'' \<or> starts_with (lit ''proto '') lower"

definition demo_tag :: "rstr \<Rightarrow> bool" where
  "demo_tag lower \<longleftrightarrow> lower = lit ''demo'' \<or> starts_with (lit ''demo '') lower"

section \<open>Classification\<close>

record class_state =
  cs_has_region :: bool
  cs_region :: region_priority
  cs_revision :: bool
  cs_translation :: bool
  cs_hack :: bool
  cs_beta :: bool
  cs_proto :: bool
  cs_demo :: bool
  cs_sample :: bool
  cs_unlicensed :: bool
  cs_aftermarket :: bool
  cs_pirate :: bool
  cs_fastrom :: bool
  cs_60hz :: bool
  cs_extended :: bool

definition class_start :: class_state where
  "class_start =
     \<lparr>cs_has_region = False, cs_region = UnknownRegion, cs_revision = False, cs_translation = False,
      cs_hack = False, cs_beta = False, cs_proto = False, cs_demo = False, cs_sample = False,
      cs_unlicensed = False, cs_aftermarket = False, cs_pirate = False, cs_fastrom = False,
      cs_60hz = False, cs_extended = False\<rparr>"

definition classify_plain_tag :: "unicode \<Rightarrow> class_state \<Rightarrow> rstr \<Rightarrow> rstr \<Rightarrow> class_state" where
  "classify_plain_tag u st trimmed lower =
     (if one_of lower [''hack'', ''smw hack'', ''sa-1 smw hack'', ''smw2 hack'', ''smrpg hack'', ''smk hack'']
         \<or> ends_with (lit '' hack'') lower then st\<lparr>cs_hack := True\<rparr>
      else if beta_tag lower then st\<lparr>cs_beta := True\<rparr>
      else if proto_tag lower then st\<lparr>cs_proto := True\<rparr>
      else if demo_tag lower then st\<lparr>cs_demo := True\<rparr>
      else if lower = lit ''sample'' then st\<lparr>cs_sample := True\<rparr>
      else if one_of lower [''unl'', ''unlicensed''] then st\<lparr>cs_unlicensed := True\<rparr>
      else if one_of lower [''aftermarket'', ''homebrew''] then st\<lparr>cs_aftermarket := True\<rparr>
      else if lower = lit ''pirate'' then st\<lparr>cs_pirate := True\<rparr>
      else if lower = lit ''fastrom'' then st\<lparr>cs_fastrom := True\<rparr>
      else if lower = lit ''extended screen'' then st\<lparr>cs_extended := True\<rparr>
      else if lower = lit ''60hz'' then st\<lparr>cs_60hz := True\<rparr>
      else if looks_like_region u trimmed
      then st\<lparr>cs_has_region := True, cs_region := region_to_priority u trimmed\<rparr>
      else st)"

definition classify_paren :: "unicode \<Rightarrow> class_state \<Rightarrow> rstr \<Rightarrow> class_state may_panic" where
  "classify_paren u st tag =
     (let trimmed = trim tag; lower = to_lowercase u trimmed
      in if trimmed = [] then Some st
         else do {
           revision \<leftarrow> revision_tag u trimmed lower;
           if revision \<noteq> None then Some (st\<lparr>cs_revision := True\<rparr>)
           else do {
             translation \<leftarrow> parse_translation_paren u trimmed;
             if translation \<noteq> None then Some (st\<lparr>cs_translation := True\<rparr>)
             else Some (classify_plain_tag u st trimmed lower)
           }
         })"

fun dump_flag_class :: "class_state \<Rightarrow> tosec_bracket_flag \<Rightarrow> class_state" where
  "dump_flag_class st HackFlag = st\<lparr>cs_hack := True\<rparr>"
| "dump_flag_class st PirateFlag = st\<lparr>cs_pirate := True\<rparr>"
| "dump_flag_class st Alternate = st\<lparr>cs_revision := True\<rparr>"
| "dump_flag_class st Fixed = st\<lparr>cs_revision := True\<rparr>"
| "dump_flag_class st Overdump = st\<lparr>cs_revision := True\<rparr>"
| "dump_flag_class st BadDump = st\<lparr>cs_pirate := True\<rparr>"
| "dump_flag_class st Trained = st\<lparr>cs_hack := True\<rparr>"
| "dump_flag_class st Cracked = st\<lparr>cs_hack := True\<rparr>"

definition classify_bracket :: "unicode \<Rightarrow> class_state \<Rightarrow> rstr \<Rightarrow> class_state" where
  "classify_bracket u st tag =
     (let trimmed = trim tag
      in if parse_translation_bracket u trimmed \<noteq> None then st\<lparr>cs_translation := True\<rparr>
         else (case classify_tosec_bracket u trimmed of
                 Some flag \<Rightarrow> dump_flag_class st flag
               | None \<Rightarrow> st))"

definition class_tier :: "class_state \<Rightarrow> rom_tier" where
  "class_tier st =
     (if cs_pirate st then Pirate
      else if cs_beta st \<or> cs_proto st \<or> cs_demo st \<or> cs_sample st then PreRelease
      else if cs_hack st then Hack
      else if cs_aftermarket st then Homebrew
      else if cs_unlicensed st then Unlicensed
      else if cs_translation st then Translation
      else if cs_revision st then Revision
      else if cs_has_region st \<and> cs_region st = OtherRegion then RegionVariant
      else Original)"

definition class_special :: "class_state \<Rightarrow> bool" where
  "class_special st \<longleftrightarrow>
     class_tier st \<in> {Unlicensed, Homebrew, PreRelease, Pirate} \<or>
     cs_fastrom st \<or> cs_extended st \<or> cs_60hz st"

definition classify :: "unicode \<Rightarrow> rstr \<Rightarrow> (rom_tier \<times> region_priority \<times> bool) may_panic" where
  "classify u filename =
     do {
       st \<leftarrow> each (classify_paren u) class_start (paren_tags (stem_of filename));
       let st' = foldl (classify_bracket u) st (bracket_tags (stem_of filename));
       Some (class_tier st', cs_region st', class_special st')
     }"

section \<open>Display suffix\<close>

record tag_state =
  ts_region :: "rstr option"
  ts_revision :: "rstr option"
  ts_translation :: "rstr option"
  ts_platform :: "rstr option"
  ts_language :: "rstr option"
  ts_60hz :: bool
  ts_fastrom :: bool
  ts_extended :: bool
  ts_hack :: bool
  ts_beta :: bool
  ts_proto :: bool
  ts_demo :: bool
  ts_sample :: bool
  ts_unlicensed :: bool
  ts_aftermarket :: bool
  ts_pirate :: bool
  ts_alternate :: "nat option option"
  ts_cracked :: "nat option option"
  ts_trained :: "nat option option"
  ts_fixed :: bool
  ts_overdump :: bool
  ts_bad_dump :: bool
  ts_extra :: "rstr list"

definition tag_start :: tag_state where
  "tag_start =
     \<lparr>ts_region = None, ts_revision = None, ts_translation = None, ts_platform = None, ts_language = None,
      ts_60hz = False, ts_fastrom = False, ts_extended = False, ts_hack = False, ts_beta = False,
      ts_proto = False, ts_demo = False, ts_sample = False, ts_unlicensed = False,
      ts_aftermarket = False, ts_pirate = False, ts_alternate = None, ts_cracked = None,
      ts_trained = None, ts_fixed = False, ts_overdump = False, ts_bad_dump = False, ts_extra = []\<rparr>"

definition plain_tag :: "unicode \<Rightarrow> tag_state \<Rightarrow> rstr \<Rightarrow> rstr \<Rightarrow> tag_state" where
  "plain_tag u st trimmed lower =
     (if lower = lit ''60hz'' then st\<lparr>ts_60hz := True\<rparr>
      else if lower = lit ''fastrom'' then st\<lparr>ts_fastrom := True\<rparr>
      else if lower = lit ''extended screen'' then st\<lparr>ts_extended := True\<rparr>
      else if one_of lower [''hack'', ''smw hack'', ''sa-1 smw hack'', ''smw2 hack'', ''smrpg hack'', ''smk hack'',
                 ''sd gundam g next hack'', ''uncensored hack''] \<or> ends_with (lit '' hack'') lower
      then st\<lparr>ts_hack := True\<rparr>
      else if beta_tag lower then st\<lparr>ts_beta := True\<rparr>
      else if proto_tag lower then st\<lparr>ts_proto := True\<rparr>
      else if demo_tag lower then st\<lparr>ts_demo := True\<rparr>
      else if lower = lit ''sample'' then st\<lparr>ts_sample := True\<rparr>
      else if one_of lower [''unl'', ''unlicensed''] then st\<lparr>ts_unlicensed := True\<rparr>
      else if one_of lower [''aftermarket'', ''homebrew''] then st\<lparr>ts_aftermarket := True\<rparr>
      else if lower = lit ''pirate'' then st\<lparr>ts_pirate := True\<rparr>
      else if ts_language st = None \<and> trimmed = lower \<and> is_tosec_language_tag trimmed
      then st\<lparr>ts_language := Some (expand_tosec_language u trimmed)\<rparr>
      else if ts_region st = None \<and> looks_like_region u trimmed
      then st\<lparr>ts_region := Some (normalize_region trimmed)\<rparr>
      else if one_of lower [''sega cd 32x'', ''mega-cd 32x''] then st\<lparr>ts_platform := Some (lit ''CD 32X'')\<rparr>
      else if is_distribution_channel lower then st\<lparr>ts_extra := ts_extra st @ [trimmed]\<rparr>
      else st)"

definition paren_tag :: "unicode \<Rightarrow> tag_state \<Rightarrow> rstr \<Rightarrow> tag_state may_panic" where
  "paren_tag u st tag =
     (let trimmed = trim tag; lower = to_lowercase u trimmed
      in if trimmed = [] then Some st
         else do {
           revision \<leftarrow> revision_tag u trimmed lower;
           if revision \<noteq> None then Some (st\<lparr>ts_revision := revision\<rparr>)
           else do {
             translation \<leftarrow> parse_translation_paren u trimmed;
             if translation \<noteq> None then Some (st\<lparr>ts_translation := translation\<rparr>)
             else Some (plain_tag u st trimmed lower)
           }
         })"

fun dump_flag_tag :: "tag_state \<Rightarrow> rstr \<Rightarrow> tosec_bracket_flag \<Rightarrow> tag_state may_panic" where
  "dump_flag_tag st trimmed HackFlag = Some (st\<lparr>ts_hack := True\<rparr>)"
| "dump_flag_tag st trimmed Trained =
     do { n \<leftarrow> extract_bracket_number trimmed; Some (st\<lparr>ts_trained := Some n\<rparr>) }"
| "dump_flag_tag st trimmed Cracked =
     do { n \<leftarrow> extract_bracket_number trimmed; Some (st\<lparr>ts_cracked := Some n\<rparr>) }"
| "dump_flag_tag st trimmed PirateFlag = Some (st\<lparr>ts_pirate := True\<rparr>)"
| "dump_flag_tag st trimmed Alternate =
     do { n \<leftarrow> extract_bracket_number trimmed; Some (st\<lparr>ts_alternate := Some n\<rparr>) }"
| "dump_flag_tag st trimmed Fixed = Some (st\<lparr>ts_fixed := True\<rparr>)"
| "dump_flag_tag st trimmed Overdump = Some (st\<lparr>ts_overdump := True\<rparr>)"
| "dump_flag_tag st trimmed BadDump = Some (st\<lparr>ts_bad_dump := True\<rparr>)"

definition bracket_tag :: "unicode \<Rightarrow> tag_state \<Rightarrow> rstr \<Rightarrow> tag_state may_panic" where
  "bracket_tag u st tag =
     (let trimmed = trim tag
      in if trimmed = [] then Some st
         else (case parse_translation_bracket u trimmed of
                 Some lang \<Rightarrow> Some (if ts_translation st = None then st\<lparr>ts_translation := Some lang\<rparr> else st)
               | None \<Rightarrow>
                   (case classify_tosec_bracket u trimmed of
                      Some flag \<Rightarrow> dump_flag_tag st trimmed flag
                    | None \<Rightarrow> Some st)))"

definition part :: "bool \<Rightarrow> string \<Rightarrow> rstr list" where
  "part b label = (if b then [lit label] else [])"

definition opt_part :: "rstr option \<Rightarrow> rstr list" where
  "opt_part p = (case p of Some s \<Rightarrow> [s] | None \<Rightarrow> [])"

definition num_part :: "string \<Rightarrow> nat option option \<Rightarrow> rstr list" where
  "num_part label n = (case n of Some num \<Rightarrow> [format_numbered_label (lit label) num] | None \<Rightarrow> [])"

definition suffix_parts :: "tag_state \<Rightarrow> rstr list" where
  "suffix_parts st =
     opt_part (ts_region st) @ opt_part (ts_language st) @ ts_extra st @ opt_part (ts_revision st) @
     opt_part (map_option (\<lambda>lang. lang @ lit '' Translation'') (ts_translation st)) @
     part (ts_60hz st) ''60Hz'' @ part (ts_fastrom st) ''FastROM'' @ part (ts_extended st) ''Extended Screen'' @
     part (ts_hack st) ''Hack'' @ num_part ''Cracked'' (ts_cracked st) @ num_part ''Trained'' (ts_trained st) @
     num_part ''Alternate'' (ts_alternate st) @ part (ts_fixed st) ''Fixed'' @
     part (ts_overdump st) ''Overdump'' @ part (ts_bad_dump st) ''Bad Dump'' @ part (ts_beta st) ''Beta'' @
     part (ts_proto st) ''Proto'' @ part (ts_demo st) ''Demo'' @ part (ts_sample st) ''Sample'' @
     part (ts_unlicensed st) ''Unlicensed'' @ part (ts_aftermarket st) ''Homebrew'' @
     part (ts_pirate st) ''Pirate'' @ opt_part (ts_platform st)"

definition collect_tags :: "unicode \<Rightarrow> rstr \<Rightarrow> tag_state may_panic" where
  "collect_tags u stem =
     do { st \<leftarrow> each (paren_tag u) tag_start (paren_tags stem); each (bracket_tag u) st (bracket_tags stem) }"

definition extract_tags :: "unicode \<Rightarrow> rstr \<Rightarrow> rstr may_panic" where
  "extract_tags u filename =
     do { st \<leftarrow> collect_tags u (stem_of filename); Some (join (lit '', '') (suffix_parts st)) }"

definition display_name_with_tags :: "unicode \<Rightarrow> rstr \<Rightarrow> rstr \<Rightarrow> rstr may_panic" where
  "display_name_with_tags u display_name filename =
     do {
       tags \<leftarrow> extract_tags u filename;
       Some (if tags = [] then display_name else display_name @ lit '' ('' @ tags @ lit '')'')
     }"

section \<open>TOSEC metadata\<close>

definition year_in_range :: "rstr \<Rightarrow> nat option" where
  "year_in_range digits =
     (case parse_uint 16 digits of
        Some y \<Rightarrow> if 1970 \<le> y \<and> y \<le> 2030 then Some y else None
      | None \<Rightarrow> None)"

definition dated_year :: "rstr \<Rightarrow> nat option may_panic" where
  "dated_year tag =
     do { year_str \<leftarrow> byte_take 4 tag;
          Some (if list_all is_ascii_digit year_str then year_in_range year_str else None) }"

definition parse_year_tag :: "unicode \<Rightarrow> rstr \<Rightarrow> nat option may_panic" where
  "parse_year_tag u tag =
     (let lower = to_lowercase u tag
      in if utf8_len tag = 10 \<and> byte_get 4 tag = Some 45 \<and> byte_get 7 tag = Some 45 then dated_year tag
         else if utf8_len tag = 7 \<and> byte_get 4 tag = Some 45 then dated_year tag
         else if utf8_len tag \<noteq> 4 then Some None
         else if ends_with (lit ''xx'') lower \<or> ends_with (lit ''x'') lower then Some None
         else if list_all is_ascii_digit tag then Some (year_in_range tag)
         else Some None)"

definition disc_label :: "rstr \<Rightarrow> bool" where
  "disc_label lower \<longleftrightarrow>
     starts_with (lit ''side '') lower \<or> starts_with (lit ''disc '') lower \<or> starts_with (lit ''disk '') lower
     \<or> starts_with (lit ''tape '') lower \<or> starts_with (lit ''part '') lower"

record tosec_metadata =
  tm_year :: "nat option"
  tm_date :: "rstr option"
  tm_publisher :: "rstr option"
  tm_disc_label :: "rstr option"

definition tosec_default :: tosec_metadata where
  "tosec_default = \<lparr>tm_year = None, tm_date = None, tm_publisher = None, tm_disc_label = None\<rparr>"

text \<open>The loop state: the metadata, the index of the tag and whether a year was found.\<close>

type_synonym tosec_state = "tosec_metadata \<times> nat \<times> bool"

definition tosec_later_tag :: "unicode \<Rightarrow> tosec_metadata \<Rightarrow> nat \<Rightarrow> bool \<Rightarrow> rstr \<Rightarrow> rstr \<Rightarrow> tosec_metadata" where
  "tosec_later_tag u meta index found trimmed lower =
     (if index = 2 \<and> found \<and> trimmed \<noteq> lit ''-'' \<and> trimmed \<noteq> [] \<and> \<not> is_noise_tag lower
         \<and> \<not> looks_like_region u trimmed
      then meta\<lparr>tm_publisher := Some trimmed\<rparr>
      else if disc_label lower then meta\<lparr>tm_disc_label := Some trimmed\<rparr>
      else meta)"

definition tosec_tag :: "unicode \<Rightarrow> tosec_state \<Rightarrow> rstr \<Rightarrow> tosec_state may_panic" where
  "tosec_tag u = (\<lambda>(meta, i, found) tag.
     (let trimmed = trim tag; lower = to_lowercase u trimmed; index = i + 1
      in if trimmed = [] then Some (meta, i, found)
         else do {
           year \<leftarrow> (if index = 1 then parse_year_tag u trimmed else Some None);
           Some (case year of
                   Some y \<Rightarrow> (meta\<lparr>tm_year := Some y, tm_date := Some trimmed\<rparr>, index, True)
                 | None \<Rightarrow> (tosec_later_tag u meta index found trimmed lower, index, found))
         }))"

definition extract_tosec_metadata :: "unicode \<Rightarrow> rstr \<Rightarrow> tosec_metadata may_panic" where
  "extract_tosec_metadata u filename =
     do {
       (meta, _, _) \<leftarrow> each (tosec_tag u) (tosec_default, 0, False) (paren_tags (stem_of filename));
       Some meta
     }"

fun first_disc_label :: "unicode \<Rightarrow> rstr list \<Rightarrow> rstr option" where
  "first_disc_label u [] = None"
| "first_disc_label u (tag # tags) =
     (if disc_label (to_lowercase u (trim tag)) then Some (trim tag) else first_disc_label u tags)"

definition extract_disc_label :: "unicode \<Rightarrow> rstr \<Rightarrow> rstr option" where
  "extract_disc_label u filename = first_disc_label u (paren_tags (stem_of filename))"

section \<open>The worst tag decides\<close>

fun flagged :: "class_state \<Rightarrow> rom_tier \<Rightarrow> bool" where
  "flagged st Pirate \<longleftrightarrow> cs_pirate st"
| "flagged st PreRelease \<longleftrightarrow> cs_beta st \<or> cs_proto st \<or> cs_demo st \<or> cs_sample st"
| "flagged st Hack \<longleftrightarrow> cs_hack st"
| "flagged st Homebrew \<longleftrightarrow> cs_aftermarket st"
| "flagged st Unlicensed \<longleftrightarrow> cs_unlicensed st"
| "flagged st Translation \<longleftrightarrow> cs_translation st"
| "flagged st Revision \<longleftrightarrow> cs_revision st"
| "flagged st RegionVariant \<longleftrightarrow> False"
| "flagged st Original \<longleftrightarrow> True"

lemma finite_tiers [simp]: "finite (A :: rom_tier set)"
proof (rule finite_subset)
  show "A \<subseteq> set [Original, Revision, RegionVariant, Translation, Unlicensed, Homebrew, Hack, PreRelease, Pirate]"
  proof
    fix t :: rom_tier
    show "t \<in> set [Original, Revision, RegionVariant, Translation, Unlicensed, Homebrew, Hack, PreRelease, Pirate]"
      by (cases t) simp_all
  qed
qed simp

definition tier_with_region :: "rom_tier \<Rightarrow> region_priority \<Rightarrow> rom_tier" where
  "tier_with_region worst region = (if worst = Original \<and> region = OtherRegion then RegionVariant else worst)"

lemma class_tier_Max:
  assumes "cs_has_region st \<longleftrightarrow> cs_region st \<noteq> UnknownRegion"
  shows "class_tier st = tier_with_region (Max {t. flagged st t}) (cs_region st)"
proof -
  define worst where
    "worst = (if cs_pirate st then Pirate else if flagged st PreRelease then PreRelease
       else if cs_hack st then Hack else if cs_aftermarket st then Homebrew
       else if cs_unlicensed st then Unlicensed else if cs_translation st then Translation
       else if cs_revision st then Revision else Original)"
  have "Max {t. flagged st t} = worst"
  proof (rule Max_eqI)
    show "worst \<in> {t. flagged st t}" by (simp add: worst_def)
    show "t \<le> worst" if "t \<in> {t. flagged st t}" for t
      using that by (cases t) (simp_all add: worst_def less_eq_rom_tier_def)
  qed simp
  with assms show ?thesis by (simp add: class_tier_def worst_def tier_with_region_def)
qed

text \<open>What a tag says on its own: the tiers it raises and the region it names.\<close>

definition paren_says :: "unicode \<Rightarrow> rstr \<Rightarrow> rom_tier \<Rightarrow> bool" where
  "paren_says u tag t = (case classify_paren u class_start tag of Some st \<Rightarrow> flagged st t | None \<Rightarrow> False)"

definition bracket_says :: "unicode \<Rightarrow> rstr \<Rightarrow> rom_tier \<Rightarrow> bool" where
  "bracket_says u tag t = flagged (classify_bracket u class_start tag) t"

definition paren_region :: "unicode \<Rightarrow> rstr \<Rightarrow> region_priority option" where
  "paren_region u tag =
     (case classify_paren u class_start tag of
        Some st \<Rightarrow> if cs_has_region st then Some (cs_region st) else None
      | None \<Rightarrow> None)"

text \<open>An update of the loop state whose effect does not depend on the state it meets.\<close>

definition additive :: "(class_state \<Rightarrow> class_state) \<Rightarrow> bool" where
  "additive f \<longleftrightarrow>
     (\<forall>st. (\<forall>t. flagged (f st) t = (flagged st t \<or> flagged (f class_start) t)) \<and>
           cs_has_region (f st) = (cs_has_region st \<or> cs_has_region (f class_start)) \<and>
           cs_region (f st) = (if cs_has_region (f class_start) then cs_region (f class_start) else cs_region st))"

lemma additiveD:
  assumes "additive f"
  shows "flagged (f st) t = (flagged st t \<or> flagged (f class_start) t)"
    and "cs_has_region (f st) = (cs_has_region st \<or> cs_has_region (f class_start))"
    and "cs_region (f st) = (if cs_has_region (f class_start) then cs_region (f class_start) else cs_region st)"
  using assms unfolding additive_def by blast+

lemma all_tiers:
  "(\<forall>t. P t) \<longleftrightarrow> P Original \<and> P Revision \<and> P RegionVariant \<and> P Translation \<and> P Unlicensed \<and> P Homebrew \<and>
     P Hack \<and> P PreRelease \<and> P Pirate"
  using rom_tier.exhaust by metis

lemma additive_if: "additive f \<Longrightarrow> additive g \<Longrightarrow> additive (\<lambda>st. if c then f st else g st)"
  by (cases c) simp_all

lemma additive_updates:
  "additive (\<lambda>st. st)"
  "additive (\<lambda>st. st\<lparr>cs_revision := True\<rparr>)" "additive (\<lambda>st. st\<lparr>cs_translation := True\<rparr>)"
  "additive (\<lambda>st. st\<lparr>cs_hack := True\<rparr>)" "additive (\<lambda>st. st\<lparr>cs_beta := True\<rparr>)"
  "additive (\<lambda>st. st\<lparr>cs_proto := True\<rparr>)" "additive (\<lambda>st. st\<lparr>cs_demo := True\<rparr>)"
  "additive (\<lambda>st. st\<lparr>cs_sample := True\<rparr>)" "additive (\<lambda>st. st\<lparr>cs_unlicensed := True\<rparr>)"
  "additive (\<lambda>st. st\<lparr>cs_aftermarket := True\<rparr>)" "additive (\<lambda>st. st\<lparr>cs_pirate := True\<rparr>)"
  "additive (\<lambda>st. st\<lparr>cs_fastrom := True\<rparr>)" "additive (\<lambda>st. st\<lparr>cs_extended := True\<rparr>)"
  "additive (\<lambda>st. st\<lparr>cs_60hz := True\<rparr>)" "additive (\<lambda>st. st\<lparr>cs_has_region := True, cs_region := r\<rparr>)"
  by (simp_all add: additive_def all_tiers class_start_def)

lemma additive_plain: "additive (\<lambda>st. classify_plain_tag u st t l)"
  unfolding classify_plain_tag_def by (intro additive_if additive_updates)

lemma additive_dump: "additive (\<lambda>st. dump_flag_class st flag)"
  by (cases flag) (simp_all add: additive_updates)

lemma additive_bracket: "additive (\<lambda>st. classify_bracket u st tag)"
  unfolding classify_bracket_def Let_def
  by (cases "classify_tosec_bracket u (trim tag)") (simp_all add: additive_if additive_updates additive_dump)

text \<open>A parenthesised tag either panics in every state or is one additive update.\<close>

lemma paren_additive:
  "(\<forall>st. classify_paren u st tag = None) \<or> (\<exists>f. additive f \<and> (\<forall>st. classify_paren u st tag = Some (f st)))"
proof (cases "trim tag = []")
  case True
  then show ?thesis using additive_updates(1) by (auto simp: classify_paren_def)
next
  case False
  let ?l = "to_lowercase u (trim tag)"
  show ?thesis
  proof (cases "revision_tag u (trim tag) ?l")
    case None
    with False show ?thesis by (simp add: classify_paren_def Let_def)
  next
    case rev: (Some rev)
    show ?thesis
    proof (cases "rev = None")
      case True
      show ?thesis
      proof (cases "parse_translation_paren u (trim tag)")
        case None
        with False rev True show ?thesis by (simp add: classify_paren_def Let_def)
      next
        case (Some tr)
        have "classify_paren u st tag =
            Some (if tr \<noteq> None then st\<lparr>cs_translation := True\<rparr> else classify_plain_tag u st (trim tag) ?l)" for st
          using False rev True Some by (simp add: classify_paren_def Let_def)
        then show ?thesis
          using additive_if [OF additive_updates(3) additive_plain] by blast
      qed
    next
      case False': False
      then have "classify_paren u st tag = Some (st\<lparr>cs_revision := True\<rparr>)" for st
        using False rev by (simp add: classify_paren_def Let_def)
      then show ?thesis using additive_updates(2) by blast
    qed
  qed
qed

lemma classify_paren_effect:
  assumes "classify_paren u st tag = Some st'"
  shows "flagged st' t = (flagged st t \<or> paren_says u tag t)"
    and "cs_has_region st' = (cs_has_region st \<or> paren_region u tag \<noteq> None)"
    and "cs_region st' = (case paren_region u tag of Some r \<Rightarrow> r | None \<Rightarrow> cs_region st)"
proof -
  obtain f where f: "additive f" "\<And>st. classify_paren u st tag = Some (f st)"
    using paren_additive [of u tag] assms by auto
  with assms have st': "st' = f st" by simp
  have says: "paren_says u tag t = flagged (f class_start) t"
    and region: "paren_region u tag = (if cs_has_region (f class_start) then Some (cs_region (f class_start)) else None)"
    by (simp_all add: paren_says_def paren_region_def f(2))
  show "flagged st' t = (flagged st t \<or> paren_says u tag t)"
    unfolding st' says by (rule additiveD [OF f(1)])
  show "cs_has_region st' = (cs_has_region st \<or> paren_region u tag \<noteq> None)"
    unfolding st' region by (subst additiveD(2) [OF f(1)]) simp
  show "cs_region st' = (case paren_region u tag of Some r \<Rightarrow> r | None \<Rightarrow> cs_region st)"
    unfolding st' region by (subst additiveD(3) [OF f(1)]) simp
qed

lemma classify_parens:
  "each (classify_paren u) st tags = Some st' \<Longrightarrow>
    (\<forall>t. flagged st' t = (flagged st t \<or> (\<exists>tag \<in> set tags. paren_says u tag t))) \<and>
    cs_region st' = last (cs_region st # List.map_filter (paren_region u) tags) \<and>
    (cs_has_region st' \<longleftrightarrow> cs_has_region st \<or> List.map_filter (paren_region u) tags \<noteq> [])"
proof (induction tags arbitrary: st)
  case (Cons tag tags)
  then obtain st1 where st1: "classify_paren u st tag = Some st1" "each (classify_paren u) st1 tags = Some st'"
    by (auto simp: bind_eq_Some_conv)
  note effect = classify_paren_effect [OF st1(1)]
  note rest = Cons.IH [OF st1(2), unfolded effect]
  show ?case
    using rest by (cases "paren_region u tag") (simp_all add: map_filter_simps)
qed (simp add: map_filter_simps)

lemma bracket_effect:
  "flagged (classify_bracket u st tag) t = (flagged st t \<or> bracket_says u tag t)"
  "cs_region (classify_bracket u st tag) = cs_region st" "cs_has_region (classify_bracket u st tag) = cs_has_region st"
proof -
  have "cs_has_region (dump_flag_class class_start flag) = False" for flag
    by (cases flag) (simp_all add: class_start_def)
  then have no_region: "cs_has_region (classify_bracket u class_start tag) = False"
    by (simp add: classify_bracket_def Let_def class_start_def split: option.split)
  note effect = additiveD [OF additive_bracket [of u tag], of st]
  show "flagged (classify_bracket u st tag) t = (flagged st t \<or> bracket_says u tag t)"
    unfolding bracket_says_def by (rule effect)
  show "cs_region (classify_bracket u st tag) = cs_region st"
    "cs_has_region (classify_bracket u st tag) = cs_has_region st"
    using effect(2,3) no_region by simp_all
qed

lemma classify_brackets:
  "(\<forall>t. flagged (foldl (classify_bracket u) st tags) t = (flagged st t \<or> (\<exists>tag \<in> set tags. bracket_says u tag t))) \<and>
   cs_region (foldl (classify_bracket u) st tags) = cs_region st \<and>
   cs_has_region (foldl (classify_bracket u) st tags) = cs_has_region st"
  by (induction tags arbitrary: st) (simp_all add: bracket_effect)

lemma region_to_priority_known: "region_to_priority u tag \<noteq> UnknownRegion"
  by (simp add: region_to_priority_def Let_def split: option.split)

lemma plain_region_known:
  "cs_has_region (classify_plain_tag u class_start t l) \<Longrightarrow> cs_region (classify_plain_tag u class_start t l) \<noteq> UnknownRegion"
  by (simp add: classify_plain_tag_def region_to_priority_known class_start_def split: if_splits)

lemma start_region [simp]: "cs_has_region class_start = False" "cs_region class_start = UnknownRegion"
  by (simp_all add: class_start_def)

lemma paren_region_known: "paren_region u tag = Some r \<Longrightarrow> r \<noteq> UnknownRegion"
  using plain_region_known [of u "trim tag" "to_lowercase u (trim tag)"]
  by (auto simp: paren_region_def classify_paren_def Let_def bind_eq_Some_conv split: option.splits if_splits)

lemma classify_result:
  assumes "classify u filename = Some (tier, region, special)"
  shows "\<exists>st. tier = class_tier st \<and> region = cs_region st \<and> special = class_special st \<and>
    cs_has_region st = (region \<noteq> UnknownRegion) \<and>
    region = last (UnknownRegion # List.map_filter (paren_region u) (paren_tags (stem_of filename))) \<and>
    (\<forall>t. flagged st t \<longleftrightarrow> t = Original \<or> (\<exists>tag \<in> set (paren_tags (stem_of filename)). paren_says u tag t) \<or>
        (\<exists>tag \<in> set (bracket_tags (stem_of filename)). bracket_says u tag t))"
proof -
  let ?rs = "List.map_filter (paren_region u) (paren_tags (stem_of filename))"
  obtain st where st: "each (classify_paren u) class_start (paren_tags (stem_of filename)) = Some st"
    using assms by (auto simp: classify_def bind_eq_Some_conv)
  define st' where "st' = foldl (classify_bracket u) st (bracket_tags (stem_of filename))"
  have known: "r \<noteq> UnknownRegion" if "r \<in> set ?rs" for r
    using that paren_region_known by (auto simp: List.map_filter_def)
  have "last (UnknownRegion # ?rs) \<noteq> UnknownRegion \<longleftrightarrow> ?rs \<noteq> []"
    using known last_in_set [of ?rs] by auto
  moreover have "flagged class_start t \<longleftrightarrow> t = Original" for t
    by (cases t) (simp_all add: class_start_def)
  moreover note start_region
  moreover have "tier = class_tier st'" "region = cs_region st'" "special = class_special st'"
    using assms st by (simp_all add: classify_def Let_def st'_def)
  moreover note classify_parens [OF st] classify_brackets [of u st "bracket_tags (stem_of filename)", folded st'_def]
  ultimately show ?thesis
    by (intro exI [of _ st']) (simp only: disj_assoc simp_thms)
qed

section \<open>Panics\<close>

lemma tag_parsers_in_order:
  assumes "lower_laws u"
  obtains rev tr where "revision_tag u t l = Some rev" and "parse_translation_paren u t = Some tr"
proof -
  have "\<not> panics (revision_tag u t l)"
    using revision_in_order [OF assms] by (simp add: revision_tag_def)
  then show ?thesis using that translation_in_order [OF assms, of t] by blast
qed

lemma classify_paren_in_order:
  assumes "lower_laws u"
  shows "\<not> panics (classify_paren u st tag)"
  by (rule tag_parsers_in_order [OF assms, of "trim tag" "to_lowercase u (trim tag)"])
    (simp add: classify_paren_def Let_def)

lemma paren_tag_in_order:
  assumes "lower_laws u"
  shows "\<not> panics (paren_tag u st tag)"
  by (rule tag_parsers_in_order [OF assms, of "trim tag" "to_lowercase u (trim tag)"])
    (simp add: paren_tag_def Let_def)

lemma year_in_order: "\<not> panics (parse_year_tag u tag)"
proof -
  have "\<not> panics (dated_year tag)" if "byte_get 4 tag = Some 45"
    using byte_take_at_ascii [OF that] by (auto simp: dated_year_def)
  then show ?thesis by (auto simp: parse_year_tag_def Let_def)
qed

lemma tosec_tag_in_order: "\<not> panics (tosec_tag u st tag)"
proof -
  obtain meta i found where st: "st = (meta, i, found)" by (cases st)
  obtain year where "parse_year_tag u (trim tag) = Some year" using year_in_order by blast
  then show ?thesis by (cases year) (auto simp: st tosec_tag_def Let_def)
qed

lemma rom_classify_in_order:
  assumes "lower_laws u"
  shows "\<not> panics (classify u filename)"
proof -
  have "\<not> panics (each (classify_paren u) class_start (paren_tags (stem_of filename)))"
    using each_panics_iff [of _ "classify_paren u" "\<lambda>_. False"] classify_paren_in_order [OF assms] by blast
  then show ?thesis by (auto simp: classify_def Let_def bind_eq_None_conv)
qed

text \<open>The tags on which the display suffix panics.\<close>

definition bad_flag :: "unicode \<Rightarrow> rstr \<Rightarrow> bool" where
  "bad_flag u tag \<longleftrightarrow>
     (let t = trim tag
      in t \<noteq> [] \<and> parse_translation_bracket u t = None \<and>
         classify_tosec_bracket u t \<in> {Some Alternate, Some Cracked, Some Trained} \<and> wide_before_digits t)"

lemma bracket_tag_panics_iff: "panics (bracket_tag u st tag) \<longleftrightarrow> bad_flag u tag"
proof (cases "classify_tosec_bracket u (trim tag)")
  case (Some flag)
  then show ?thesis
    by (cases flag)
      (auto simp: bracket_tag_def bad_flag_def Let_def bind_eq_None_conv bracket_number_panics_iff split: option.split)
qed (auto simp: bracket_tag_def bad_flag_def Let_def split: option.split)

section \<open>Properties\<close>


text \<open>
  C21: the display suffix panics on exactly the file names with an alternate, cracked or trained
  flag whose last character before the trailing digits is not ASCII; the classification and the
  TOSEC metadata never panic.
\<close>

theorem rom_tags_panic_iff:
  assumes "lower_laws u"
  shows "(panics (extract_tags u filename) \<longleftrightarrow> (\<exists>tag \<in> set (bracket_tags (stem_of filename)). bad_flag u tag)) \<and>
    \<not> panics (classify u filename) \<and> \<not> panics (extract_tosec_metadata u filename)"
proof (intro conjI)
  have "\<not> panics (each (paren_tag u) tag_start (paren_tags (stem_of filename)))"
    using each_panics_iff [of _ "paren_tag u" "\<lambda>_. False"] paren_tag_in_order [OF assms] by blast
  then show "panics (extract_tags u filename) \<longleftrightarrow> (\<exists>tag \<in> set (bracket_tags (stem_of filename)). bad_flag u tag)"
    using each_panics_iff [of _ "bracket_tag u" "bad_flag u"] bracket_tag_panics_iff
    by (auto simp: extract_tags_def collect_tags_def bind_eq_None_conv)
  show "\<not> panics (classify u filename)" by (rule rom_classify_in_order [OF assms])
  have "\<not> panics (each (tosec_tag u) (tosec_default, 0, False) (paren_tags (stem_of filename)))"
    using each_panics_iff [of _ "tosec_tag u" "\<lambda>_. False"] tosec_tag_in_order by blast
  then show "\<not> panics (extract_tosec_metadata u filename)" by (auto simp: extract_tosec_metadata_def bind_eq_None_conv)
qed


theorem rom_tags_panic_iff_witness:
  "panics (extract_tags caseless (lit ''Zool [cr Jos'' @ [233] @ lit ''].adf''))"
proof -
  let ?f = "lit ''Zool [cr Jos'' @ [233] @ lit ''].adf''"
  have "list_ex (bad_flag caseless) (bracket_tags (stem_of ?f))" by code_simp
  then have "\<exists>tag \<in> set (bracket_tags (stem_of ?f)). bad_flag caseless tag" by (simp add: list_ex_iff)
  with rom_tags_panic_iff [OF caseless_laws, of ?f] show ?thesis by blast
qed

lemma plain_country:
  assumes "expand_tosec_country_code code = Some name"
  shows "paren_tag u tag_start code = Some (tag_start\<lparr>ts_region := Some name\<rparr>)"
proof -
  obtain a b where code: "code = [a, b]" and up: "is_ascii_uppercase a" "is_ascii_uppercase b"
    using country_code_shape [OF assms] by blast
  have trim: "trim code = code"
    using up by (intro trim_id) (auto simp: code bare_def char_class_defs)
  have lower: "to_lowercase u code = [a + 32, b + 32]"
    using up by (subst to_lowercase_ascii) (auto simp: code to_ascii_lowercase_def char_class_defs)
  have other: "[a + 32, b + 32] \<noteq> lit p" if "length p \<noteq> 2" for p
    using that by (intro lit_other_length) simp
  have region: "looks_like_region u code" "normalize_region code = name"
    using assms by (simp_all add: looks_like_region_def Let_def is_tosec_country_code_def normalize_region_def)
  have "plain_tag u tag_start code [a + 32, b + 32] = tag_start\<lparr>ts_region := Some name\<rparr>"
    using region
    by (simp add: plain_tag_def beta_tag_def proto_tag_def demo_tag_def one_of_def other starts_with_longer
        ends_with_longer) (simp add: code tag_start_def)
  moreover have "revision_tag u code [a + 32, b + 32] = Some None" "parse_translation_paren u code = Some None"
    by (simp_all add: revision_tag_def parse_translation_paren_def lower Let_def other starts_with_longer)
  ultimately show ?thesis
    by (simp add: paren_tag_def Let_def trim lower) (simp add: code)
qed

text \<open>
  A file name that carries a TOSEC country code, and no other tag, is displayed with the name
  of the country, whatever the title and the extension.
\<close>

lemma country_code_display:
  assumes "expand_tosec_country_code code = Some name"
    and "40 \<notin> set title" and "91 \<notin> set title" and "46 \<notin> set ext"
  shows "display_name_with_tags u display (title @ lit '' ('' @ code @ lit '').'' @ ext) =
    Some (display @ lit '' ('' @ name @ lit '')'')"
proof -
  obtain a b where code: "code = [a, b]" and up: "is_ascii_uppercase a" "is_ascii_uppercase b"
    using country_code_shape [OF assms(1)] by blast
  let ?stem = "(title @ [32]) @ 40 # code @ 41 # []"
  have "title @ lit '' ('' @ code @ lit '').'' @ ext = ?stem @ 46 # ext"
    by (simp add: lit_def)
  then have stem: "stem_of (title @ lit '' ('' @ code @ lit '').'' @ ext) = ?stem"
    by (simp only: stem_of_def before_last_append [OF assms(4)] option.case)
  have "paren_tags ?stem = [code]"
    unfolding paren_tags_def using assms(2) up
    by (subst tags_between_step) (auto simp: code is_ascii_uppercase_def tags_between_none)
  moreover have "bracket_tags ?stem = []"
    unfolding bracket_tags_def using assms(3) up
    by (intro tags_between_none) (auto simp: code is_ascii_uppercase_def)
  ultimately have "collect_tags u ?stem = Some (tag_start\<lparr>ts_region := Some name\<rparr>)"
    using plain_country [OF assms(1)] by (simp add: collect_tags_def)
  then show ?thesis
    using country_code_shape [OF assms(1)]
    by (simp add: display_name_with_tags_def extract_tags_def stem)
      (simp add: suffix_parts_def tag_start_def opt_part_def part_def num_part_def)
qed

lemma country_code_display_witness:
  "display_name_with_tags caseless (lit ''Zool'') (lit ''Zool 1.0 (PL).adf'') = Some (lit ''Zool (Poland)'')"
proof -
  have "expand_tosec_country_code (lit ''PL'') = Some (lit ''Poland'')" by code_simp
  from country_code_display [OF this, of "lit ''Zool 1.0''" "lit ''adf''" caseless "lit ''Zool''"]
  show ?thesis by (simp add: lit_def)
qed

text \<open>The loop of the metadata, after any number of tags.\<close>

definition label_tags :: "rstr list \<Rightarrow> rstr list" where
  "label_tags tags = filter (\<lambda>t. t \<noteq> []) (map trim tags)"

definition tosec_ok :: "unicode \<Rightarrow> rstr list \<Rightarrow> tosec_state \<Rightarrow> bool" where
  "tosec_ok u ts = (\<lambda>(meta, i, found).
     i = length ts \<and> (found \<longleftrightarrow> tm_year meta \<noteq> None) \<and>
     (\<forall>y. tm_year meta = Some y \<longrightarrow> 1970 \<le> y \<and> y \<le> 2030 \<and> ts \<noteq> [] \<and> tm_date meta = Some (hd ts)) \<and>
     (\<forall>p. tm_publisher meta = Some p \<longrightarrow>
        tm_year meta \<noteq> None \<and> 2 \<le> length ts \<and> p = ts ! 1 \<and> \<not> is_noise_tag (to_lowercase u p) \<and>
        \<not> looks_like_region u p) \<and>
     (\<forall>d. tm_disc_label meta = Some d \<longrightarrow> d \<in> set ts \<and> disc_label (to_lowercase u d)))"

lemma year_range: "parse_year_tag u tag = Some (Some y) \<Longrightarrow> 1970 \<le> y \<and> y \<le> 2030"
  by (auto simp: parse_year_tag_def dated_year_def year_in_range_def Let_def bind_eq_Some_conv
      split: if_splits option.splits)

lemma label_tags_snoc: "label_tags (tags @ [tag]) = label_tags tags @ (if trim tag = [] then [] else [trim tag])"
  by (simp add: label_tags_def)

lemma tosec_later_ok:
  assumes "tosec_ok u ts (meta, i, found)"
  shows "tosec_ok u (ts @ [t]) (tosec_later_tag u meta (i + 1) found t (to_lowercase u t), i + 1, found)"
proof -
  have "ts \<noteq> []" if "tm_year meta \<noteq> None" using assms that by (auto simp: tosec_ok_def)
  with assms show ?thesis
    by (auto simp: tosec_ok_def tosec_later_tag_def nth_append)
qed

lemma tosec_tag_ok:
  assumes "tosec_ok u (label_tags tags) st" and "tosec_tag u st tag = Some st'"
  shows "tosec_ok u (label_tags (tags @ [tag])) st'"
proof (cases "trim tag = []")
  case True
  with assms show ?thesis by (cases st) (simp add: tosec_tag_def label_tags_snoc)
next
  case False
  obtain meta i found where st: "st = (meta, i, found)" by (cases st)
  obtain year where year: "(if Suc i = 1 then parse_year_tag u (trim tag) else Some None) = Some year"
    and st': "st' = (case year of
        Some y \<Rightarrow> (meta\<lparr>tm_year := Some y, tm_date := Some (trim tag)\<rparr>, Suc i, True)
      | None \<Rightarrow> (tosec_later_tag u meta (Suc i) found (trim tag) (to_lowercase u (trim tag)), Suc i, found))"
    using assms(2) False by (auto simp: st tosec_tag_def Let_def bind_eq_Some_conv split: if_splits)
  show ?thesis
  proof (cases year)
    case None
    with st' tosec_later_ok [OF assms(1) [unfolded st], of "trim tag"] False show ?thesis
      by (simp add: label_tags_snoc)
  next
    case (Some y)
    with year have first: "i = 0" "parse_year_tag u (trim tag) = Some (Some y)"
      by (auto split: if_splits)
    then have none: "label_tags tags = []"
      using assms(1) by (auto simp: st tosec_ok_def)
    have "1970 \<le> y \<and> y \<le> 2030" using first(2) by (rule year_range)
    moreover have "tm_publisher meta = None" "tm_disc_label meta = None"
      using assms(1) unfolding st none tosec_ok_def by (auto intro: option.exhaust)
    ultimately show ?thesis
      using Some st' first False none by (simp add: tosec_ok_def label_tags_snoc)
  qed
qed

lemma tosec_loop_ok:
  "each (tosec_tag u) (tosec_default, 0, False) tags = Some st \<Longrightarrow> tosec_ok u (label_tags tags) st"
proof (induction tags arbitrary: st rule: rev_induct)
  case Nil
  then show ?case by (auto simp: tosec_ok_def label_tags_def tosec_default_def)
next
  case (snoc tag tags)
  then obtain st1 where "each (tosec_tag u) (tosec_default, 0, False) tags = Some st1" "tosec_tag u st1 tag = Some st"
    by (auto simp: each_snoc bind_eq_Some_conv)
  with snoc.IH tosec_tag_ok show ?case by blast
qed

text \<open>
  TOSEC metadata is positional: a year lies between 1970 and 2030 and its date is the first
  non-empty tag; a publisher is only read when there is a year, and then it is the second
  non-empty tag, neither a region nor a noise tag; a disc label is a tag of the file name.
\<close>

lemma tosec_metadata_positional:
  assumes "extract_tosec_metadata u filename = Some meta"
  shows "(\<forall>y. tm_year meta = Some y \<longrightarrow> 1970 \<le> y \<and> y \<le> 2030 \<and>
            tm_date meta = Some (hd (label_tags (paren_tags (stem_of filename))))) \<and>
    (\<forall>p. tm_publisher meta = Some p \<longrightarrow> tm_year meta \<noteq> None \<and>
            p = label_tags (paren_tags (stem_of filename)) ! 1 \<and>
            \<not> is_noise_tag (to_lowercase u p) \<and> \<not> looks_like_region u p) \<and>
    (\<forall>d. tm_disc_label meta = Some d \<longrightarrow> d \<in> set (label_tags (paren_tags (stem_of filename))))"
proof -
  obtain i found where "each (tosec_tag u) (tosec_default, 0, False) (paren_tags (stem_of filename)) = Some (meta, i, found)"
    using assms by (auto simp: extract_tosec_metadata_def bind_eq_Some_conv)
  from tosec_loop_ok [OF this] show ?thesis by (simp add: tosec_ok_def)
qed

lemma tosec_metadata_positional_witness:
  "\<exists>meta. extract_tosec_metadata caseless (lit ''Zool (1992-11)(Gremlin)(Disk 1 of 2).adf'') = Some meta \<and>
     tm_year meta = Some 1992 \<and> tm_publisher meta = Some (lit ''Gremlin'') \<and>
     \<not> looks_like_region caseless (lit ''Gremlin'')"
proof -
  let ?m = "\<lparr>tm_year = Some 1992, tm_date = Some (lit ''1992-11''), tm_publisher = Some (lit ''Gremlin''),
    tm_disc_label = Some (lit ''Disk 1 of 2'')\<rparr>"
  have "extract_tosec_metadata caseless (lit ''Zool (1992-11)(Gremlin)(Disk 1 of 2).adf'') = Some ?m" by code_simp
  with tosec_metadata_positional [OF this] show ?thesis by auto
qed

text \<open>
  Three evaluations behind the remarks on this module: a hack of an unlicensed game is not
  special; a revision of a minor regional variant ranks before the variant itself; and a
  language tag becomes the region although the name has a country code.
\<close>

lemma hack_hides_unlicensed:
  "classify caseless (lit ''Zool (Unl).nes'') = Some (Unlicensed, UnknownRegion, True) \<and>
   classify caseless (lit ''Zool (Unl) (Hack).nes'') = Some (Hack, UnknownRegion, False)"
  by code_simp

lemma revision_lifts_variant:
  "classify caseless (lit ''Zool (Spain).nes'') = Some (RegionVariant, OtherRegion, False) \<and>
   classify caseless (lit ''Zool (Spain) (Rev 1).nes'') = Some (Revision, OtherRegion, False) \<and>
   Revision < RegionVariant"
  by (intro conjI) (code_simp, code_simp, simp add: less_rom_tier_def)

lemma language_despite_country:
  "extract_tosec_language_as_region caseless (lit ''Zool (1992)(Gremlin)(FR)(en).adf'') = Some (lit ''english'')"
  by code_simp

end
