(* ===== verification/Search_Scoring.thy ===== *)
theory Search_Scoring
  imports Rom_Classify
begin

text \<open>
  The relevance score of \<open>core/search_scoring.rs\<close>: the match tiers, the word-level fallback, and
  the bonuses and penalties, on top of the classification of the file name.

  Scores are \<open>u32\<close> values that stay far below \<open>2 ^ 32\<close> (the base is at most 10000, and the
  word-level bonuses are linear in the number of words of the query), so they are natural
  numbers here; \<open>saturating_sub\<close> is their subtraction. The coverage bonus is computed in
  \<open>f32\<close>, whose rounding is written out.
\<close>

section \<open>Single-precision rounding\<close>

text \<open>
  A non-negative \<open>f32\<close> is a fraction of natural numbers whose numerator has 24 significant bits.
  \<open>f32_of n d\<close> is the fraction nearest to \<open>n / d\<close>, ties to even.
\<close>

definition round_div :: "nat \<Rightarrow> nat \<Rightarrow> nat" where
  "round_div n d =
     (let q = n div d; r = n mod d
      in if 2 * r < d then q else if d < 2 * r then q + 1 else if even q then q else q + 1)"

function f32_up :: "nat \<Rightarrow> nat \<Rightarrow> nat \<Rightarrow> nat" where
  "f32_up n d s = (if n = 0 \<or> 2 ^ 23 * d \<le> n then s else f32_up (2 * n) d (s + 1))"
  by pat_completeness auto
termination by (relation "measure (\<lambda>(n, d, _). 2 ^ 23 * d - n)") auto

function f32_down :: "nat \<Rightarrow> nat \<Rightarrow> nat \<Rightarrow> nat" where
  "f32_down n d t = (if d = 0 \<or> n < 2 ^ 24 * d then t else f32_down n (2 * d) (t + 1))"
  by pat_completeness auto
termination by (relation "measure (\<lambda>(n, d, _). n - 2 ^ 23 * d)") auto

declare f32_up.simps [simp del] f32_down.simps [simp del]

definition f32_of :: "nat \<Rightarrow> nat \<Rightarrow> nat \<times> nat" where
  "f32_of n d =
     (let s = f32_up n d 0; t = f32_down n d 0
      in (round_div (n * 2 ^ s) (d * 2 ^ t) * 2 ^ t, 2 ^ s))"

definition coverage_bonus :: "nat \<Rightarrow> nat \<Rightarrow> nat" where
  "coverage_bonus matched words =
     (let (a, b) = f32_of matched 1; (c, e) = f32_of (max words 1) 1;
          (x, y) = f32_of (a * e) (b * c); (p, q) = f32_of (x * 50) y
      in min (2 ^ 32 - 1) (p div q))"

section \<open>Words\<close>

definition split_into_words :: "rstr \<Rightarrow> rstr list" where
  "split_into_words s =
     filter (\<lambda>w. w \<noteq> [])
       (map (trim_end_matches (\<lambda>c. c \<in> set (lit ''.,:!?;'')))
         (split_by (\<lambda>c. is_whitespace c \<or> c = 45) s))"

fun position_from :: "(nat \<Rightarrow> 'a \<Rightarrow> bool) \<Rightarrow> nat \<Rightarrow> 'a list \<Rightarrow> nat option" where
  "position_from P i [] = None"
| "position_from P i (x # xs) = (if P i x then Some i else position_from P (Suc i) xs)"

fun words_in_order_after :: "nat option \<Rightarrow> rstr list \<Rightarrow> rstr list \<Rightarrow> bool" where
  "words_in_order_after last_pos [] title_words \<longleftrightarrow> True"
| "words_in_order_after last_pos (qw # qws) title_words \<longleftrightarrow>
     (case position_from (\<lambda>i tw. starts_with qw tw \<and> (case last_pos of None \<Rightarrow> True | Some lp \<Rightarrow> lp < i)) 0 title_words of
        Some pos \<Rightarrow> words_in_order_after (Some pos) qws title_words
      | None \<Rightarrow> False)"

definition words_in_order :: "rstr list \<Rightarrow> rstr list \<Rightarrow> bool" where
  "words_in_order query_words title_words = words_in_order_after None query_words title_words"

fun adjacent_pairs :: "nat option list \<Rightarrow> nat" where
  "adjacent_pairs (Some p1 # Some p2 # ps) = (if p2 = p1 + 1 then 1 else 0) + adjacent_pairs (Some p2 # ps)"
| "adjacent_pairs (_ # p2 # ps) = adjacent_pairs (p2 # ps)"
| "adjacent_pairs _ = 0"

definition count_adjacent_pairs :: "rstr list \<Rightarrow> rstr list \<Rightarrow> nat" where
  "count_adjacent_pairs query_words title_words =
     (if length query_words < 2 then 0
      else adjacent_pairs (map (\<lambda>qw. position_from (\<lambda>_ tw. starts_with qw tw) 0 title_words) query_words))"

definition count_exact_word_matches :: "rstr list \<Rightarrow> rstr list \<Rightarrow> nat" where
  "count_exact_word_matches query_words title_words =
     length (filter (\<lambda>qw. list_ex (\<lambda>tw. tw = qw) title_words) query_words)"

definition matched_words :: "rstr list \<Rightarrow> rstr list \<Rightarrow> nat" where
  "matched_words query_words words = length (filter (\<lambda>qw. list_ex (starts_with qw) words) query_words)"

definition word_bonus :: "rstr list \<Rightarrow> rstr list \<Rightarrow> nat" where
  "word_bonus query_words words =
     (if words_in_order query_words words then 50 else 0) +
     coverage_bonus (matched_words query_words words) (length words) +
     count_adjacent_pairs query_words words * 20 + count_exact_word_matches query_words words * 30"

definition try_word_match :: "rstr list \<Rightarrow> rstr list \<Rightarrow> rstr list \<Rightarrow> (nat \<times> bool) option" where
  "try_word_match query_words display_words filename_words =
     (if matched_words query_words display_words = length query_words
      then Some (400 + word_bonus query_words display_words, False)
      else if matched_words query_words filename_words = length query_words
      then Some (300 + word_bonus query_words filename_words, True)
      else None)"

section \<open>Bonuses and penalties\<close>

fun tier_penalty :: "rom_tier \<Rightarrow> nat" where
  "tier_penalty Original = 0"
| "tier_penalty Revision = 5"
| "tier_penalty RegionVariant = 10"
| "tier_penalty Translation = 50"
| "tier_penalty Unlicensed = 60"
| "tier_penalty Homebrew = 100"
| "tier_penalty Hack = 200"
| "tier_penalty PreRelease = 250"
| "tier_penalty Pirate = 300"

definition region_bonus :: "nat \<Rightarrow> nat" where
  "region_bonus key = (if key = 0 then 20 else if key = 1 then 15 else if key = 2 then 10 else if key = 3 then 5 else 0)"

definition apply_bonuses ::
  "unicode \<Rightarrow> nat \<Rightarrow> rstr \<Rightarrow> rstr \<Rightarrow> region_preference \<Rightarrow> region_preference option \<Rightarrow> nat may_panic" where
  "apply_bonuses u base filename display_name region_pref region_secondary =
     do {
       (tier, region, _) \<leftarrow> classify u filename;
       Some (base + (if utf8_len display_name < 40 then 100 else 0)
             + region_bonus (region_sort_key region region_pref region_secondary) - tier_penalty tier)
     }"

section \<open>The score\<close>

text \<open>The end of a match is a word boundary when no alphanumeric character follows.\<close>

definition word_boundary :: "unicode \<Rightarrow> rstr \<Rightarrow> bool" where
  "word_boundary u after = (case after of [] \<Rightarrow> True | c # _ \<Rightarrow> \<not> is_alphanumeric u c)"

lemma byte_drop_one: "byte_drop 1 s = Some r \<Longrightarrow> s \<noteq> [] \<Longrightarrow> \<exists>c. s = c # r \<and> c < 128"
  by (cases s) (auto simp: byte_drop_def utf8_width_def split: if_splits)

lemma byte_drop_one_Cons: "byte_drop 1 (c # s) = (if c < 128 then Some s else None)"
  by (simp add: byte_drop_def utf8_width_def)

text \<open>
  \<open>contains_at_word_boundary\<close> on the rest of the haystack. The next search starts one byte after
  the match that was not at a boundary.
\<close>

function boundary_scan :: "unicode \<Rightarrow> rstr \<Rightarrow> rstr \<Rightarrow> bool may_panic" where
  "boundary_scan u needle rest =
     (case find_split needle rest of
        None \<Rightarrow> Some False
      | Some (_, after) \<Rightarrow>
          if word_boundary u after then Some True
          else (case byte_drop 1 (needle @ after) of
                  None \<Rightarrow> None
                | Some rest' \<Rightarrow> boundary_scan u needle rest'))"
  by pat_completeness auto
termination
proof (relation "measure (\<lambda>(_, _, rest). length rest)", simp)
  fix u needle rest x before after rest'
  assume "find_split needle rest = Some x" "(before, after) = x" "\<not> word_boundary u after"
    and drop: "byte_drop 1 (needle @ after) = Some rest'"
  then have "rest = before @ needle @ after" and ne: "needle @ after \<noteq> []"
    by (auto dest: find_split_SomeD simp: word_boundary_def)
  moreover have "length rest' < length (needle @ after)"
    using byte_drop_one [OF drop ne] by (metis length_Cons lessI)
  ultimately show "((u, needle, rest'), (u, needle, rest)) \<in> measure (\<lambda>(_, _, rest). length rest)"
    by simp
qed

declare boundary_scan.simps [simp del]

definition substring_base :: "unicode \<Rightarrow> rstr \<Rightarrow> rstr \<Rightarrow> nat \<Rightarrow> nat \<Rightarrow> nat may_panic" where
  "substring_base u query haystack clean mid_word =
     (if 32 \<in> set query
      then do { at_boundary \<leftarrow> boundary_scan u query haystack; Some (if at_boundary then clean else mid_word) }
      else Some clean)"

text \<open>The base score of a match on the whole query, or \<open>None\<close> where the source falls back to words.\<close>

definition match_base :: "unicode \<Rightarrow> rstr \<Rightarrow> rstr \<Rightarrow> rstr \<Rightarrow> nat option may_panic" where
  "match_base u query display_lower filename_lower =
     (if display_lower = query then Some (Some 10000)
      else if starts_with query display_lower \<and> word_boundary u (drop (length query) display_lower)
      then Some (Some 5000)
      else if list_ex (\<lambda>w. starts_with query w \<and> word_boundary u (drop (length query) w))
                (split_whitespace display_lower)
      then Some (Some 2000)
      else if contains_str query display_lower
      then map_option Some (substring_base u query display_lower 1000 500)
      else if contains_str query filename_lower
      then map_option Some (substring_base u query filename_lower 500 250)
      else Some None)"

definition word_score :: "rstr \<Rightarrow> rstr \<Rightarrow> rstr \<Rightarrow> (nat \<times> bool) option" where
  "word_score query display_lower filename_lower =
     (if 32 \<notin> set query then None
      else
        let query_words = split_into_words query
        in if length query_words < 2 then None
           else try_word_match query_words (split_into_words display_lower) (split_into_words filename_lower))"

definition search_score ::
  "unicode \<Rightarrow> rstr \<Rightarrow> rstr \<Rightarrow> rstr \<Rightarrow> region_preference \<Rightarrow> region_preference option \<Rightarrow> nat may_panic" where
  "search_score u query display_name filename region_pref region_secondary =
     (let display_lower = to_lowercase u display_name; filename_lower = to_lowercase u filename
      in do {
        base \<leftarrow> match_base u query display_lower filename_lower;
        case base of
          Some b \<Rightarrow> apply_bonuses u b filename display_name region_pref region_secondary
        | None \<Rightarrow>
            (case word_score query display_lower filename_lower of
               Some (word_base, _) \<Rightarrow> apply_bonuses u word_base filename display_name region_pref region_secondary
             | None \<Rightarrow> Some 0)
      })"

section \<open>The boundary scan\<close>

text \<open>With an ASCII first character the loop finds exactly an occurrence that ends at a boundary.\<close>

lemma boundary_scan_ascii:
  assumes "c < 128"
  shows "boundary_scan u (c # cs) hay = Some (\<exists>a b. hay = a @ (c # cs) @ b \<and> word_boundary u b)"
proof (induction "length hay" arbitrary: hay rule: less_induct)
  case less
  show ?case
  proof (cases "find_split (c # cs) hay")
    case None
    then have "\<not> (\<exists>a b. hay = a @ (c # cs) @ b)"
      by (auto simp: find_split_None_iff contains_str_def sublist_def)
    with None show ?thesis by (subst boundary_scan.simps) auto
  next
    case (Some found)
    then obtain before after where found: "found = (before, after)" by (cases found)
    have hay: "hay = before @ (c # cs) @ after"
      using Some found by (auto dest: find_split_SomeD)
    show ?thesis
    proof (cases "word_boundary u after")
      case True
      then show ?thesis using Some found hay by (subst boundary_scan.simps) auto
    next
      case False
      have step: "boundary_scan u (c # cs) hay = boundary_scan u (c # cs) (cs @ after)"
        using Some found False assms byte_drop_one_Cons [of c "cs @ after"]
        by (subst boundary_scan.simps) simp
      have "(\<exists>a b. hay = a @ (c # cs) @ b \<and> word_boundary u b) \<longleftrightarrow>
          (\<exists>a b. cs @ after = a @ (c # cs) @ b \<and> word_boundary u b)"
      proof
        assume "\<exists>a b. hay = a @ (c # cs) @ b \<and> word_boundary u b"
        then obtain a b where a: "hay = a @ (c # cs) @ b" and b: "word_boundary u b" by blast
        have "length before \<le> length a"
          by (rule find_split_first [OF Some [unfolded found] a])
        then obtain us where us: "a = before @ us" "us @ (c # cs) @ b = (c # cs) @ after"
          using a hay by (auto simp: append_eq_append_conv2)
        then obtain us' where "us = c # us'"
          using False b by (cases us) auto
        with us(2) have "cs @ after = us' @ (c # cs) @ b" by simp
        with b show "\<exists>a b. cs @ after = a @ (c # cs) @ b \<and> word_boundary u b" by blast
      next
        assume "\<exists>a b. cs @ after = a @ (c # cs) @ b \<and> word_boundary u b"
        then obtain a b where "cs @ after = a @ (c # cs) @ b" "word_boundary u b" by blast
        then have "hay = (before @ c # a) @ (c # cs) @ b" by (simp add: hay)
        with \<open>word_boundary u b\<close> show "\<exists>a b. hay = a @ (c # cs) @ b \<and> word_boundary u b" by blast
      qed
      with step less [of "cs @ after"] hay show ?thesis by simp
    qed
  qed
qed

text \<open>With another first character it stops at the first occurrence, if need be by a panic.\<close>

definition mid_word :: "unicode \<Rightarrow> rstr \<Rightarrow> rstr \<Rightarrow> bool" where
  "mid_word u needle hay \<longleftrightarrow>
     (case find_split needle hay of Some (_, after) \<Rightarrow> \<not> word_boundary u after | None \<Rightarrow> False)"

lemma boundary_scan_panics_iff:
  assumes "needle \<noteq> []"
  shows "panics (boundary_scan u needle hay) \<longleftrightarrow> 128 \<le> hd needle \<and> mid_word u needle hay"
proof -
  obtain c cs where needle: "needle = c # cs" using assms by (cases needle) auto
  show ?thesis
  proof (cases "c < 128")
    case True
    then show ?thesis by (simp add: needle boundary_scan_ascii)
  next
    case False
    then show ?thesis
      using byte_drop_one_Cons [of c]
      by (subst boundary_scan.simps) (auto simp: needle mid_word_def split: option.splits)
  qed
qed

section \<open>Match ranks\<close>

text \<open>Exact match, clean prefix, clean word, substring of the display or file name, and no match.\<close>

definition match_rank :: "unicode \<Rightarrow> rstr \<Rightarrow> rstr \<Rightarrow> rstr \<Rightarrow> nat" where
  "match_rank u query display_lower filename_lower =
     (if display_lower = query then 4
      else if starts_with query display_lower \<and> word_boundary u (drop (length query) display_lower) then 3
      else if list_ex (\<lambda>w. starts_with query w \<and> word_boundary u (drop (length query) w)) (split_whitespace display_lower)
      then 2
      else if contains_str query display_lower \<or> contains_str query filename_lower then 1
      else 0)"

lemma substring_base_values:
  "substring_base u query hay x y = Some b \<Longrightarrow> b = x \<or> b = y"
  by (auto simp: substring_base_def bind_eq_Some_conv split: if_splits)

lemma match_base_ranks:
  assumes "match_base u query D F = Some (Some b)"
  shows "(match_rank u query D F = 4 \<and> b = 10000) \<or> (match_rank u query D F = 3 \<and> b = 5000) \<or>
    (match_rank u query D F = 2 \<and> b = 2000) \<or> (match_rank u query D F = 1 \<and> b \<in> {1000, 500, 250})"
  using assms by (auto simp: match_base_def match_rank_def dest!: substring_base_values split: if_splits)

lemma match_base_rank_0: "match_base u query D F = Some None \<longleftrightarrow> match_rank u query D F = 0"
  by (auto simp: match_base_def match_rank_def)

lemma region_bonus_bound: "region_bonus k \<le> 20"
  by (simp add: region_bonus_def)

lemma tier_penalty_bound: "tier_penalty t \<le> 300"
  by (cases t) simp_all

lemma apply_bonuses_bounds:
  assumes "apply_bonuses u b filename display p s = Some n"
  shows "b - 300 \<le> n" and "n \<le> b + 120"
proof -
  obtain tier region special where "classify u filename = Some (tier, region, special)"
    and n: "n = b + (if utf8_len display < 40 then 100 else 0) + region_bonus (region_sort_key region p s) - tier_penalty tier"
    using assms by (auto simp: apply_bonuses_def bind_eq_Some_conv)
  have "region_bonus (region_sort_key region p s) \<le> 20" "tier_penalty tier \<le> 300"
    by (rule region_bonus_bound tier_penalty_bound)+
  with n show "b - 300 \<le> n" and "n \<le> b + 120" by auto
qed

lemma search_score_ranked:
  assumes "search_score u query display filename p s = Some n"
    and "match_rank u query (to_lowercase u display) (to_lowercase u filename) = Suc r"
  obtains b where "match_base u query (to_lowercase u display) (to_lowercase u filename) = Some (Some b)"
    and "apply_bonuses u b filename display p s = Some n"
proof -
  obtain base where base: "match_base u query (to_lowercase u display) (to_lowercase u filename) = Some base"
    using assms(1) by (auto simp: search_score_def Let_def bind_eq_Some_conv)
  with assms(2) match_base_rank_0 [of u query] obtain b where "base = Some b" by (cases base) auto
  with base assms(1) show thesis
    by (intro that [of b]) (simp_all add: search_score_def Let_def)
qed

section \<open>Properties\<close>



text \<open>
  C20: the score panics on exactly the searches with a space whose first character is not ASCII
  and whose first occurrence, in the display name or else in the file name, ends inside a word;
  no such character may start a better match.
\<close>

theorem search_panics_iff:
  assumes "lower_laws u"
  shows "panics (search_score u query display filename p s) \<longleftrightarrow>
    match_rank u query (to_lowercase u display) (to_lowercase u filename) = 1 \<and> 32 \<in> set query \<and> 128 \<le> hd query \<and>
    (if contains_str query (to_lowercase u display) then mid_word u query (to_lowercase u display)
     else mid_word u query (to_lowercase u filename))"
proof -
  let ?D = "to_lowercase u display" and ?F = "to_lowercase u filename"
  have no_panic: "\<exists>n. apply_bonuses u b filename display p s = Some n" for b
    using rom_classify_in_order [OF assms, of filename] by (auto simp: apply_bonuses_def)
  have "panics (search_score u query display filename p s) \<longleftrightarrow> panics (match_base u query ?D ?F)"
  proof (cases "match_base u query ?D ?F")
    case (Some base)
    then show ?thesis
      using no_panic by (cases base; cases "word_score query ?D ?F") (auto simp: search_score_def Let_def)
  qed (simp add: search_score_def Let_def)
  moreover have "panics (substring_base u query hay x y) \<longleftrightarrow>
      32 \<in> set query \<and> 128 \<le> hd query \<and> mid_word u query hay" for hay x y
    using boundary_scan_panics_iff [of query u hay] by (cases "query = []") (auto simp: substring_base_def bind_eq_None_conv)
  ultimately show ?thesis by (auto simp: match_base_def match_rank_def)
qed

theorem search_panics_iff_witness:
  "panics (search_score caseless [12489, 12521, 32, 12463] [12489, 12521, 32, 12463, 12456] (lit ''dq.nes'') PrefJapan None)"
proof -
  let ?q = "[12489, 12521, 32, 12463] :: rstr" and ?d = "[12489, 12521, 32, 12463, 12456] :: rstr"
  have "match_rank caseless ?q (to_lowercase caseless ?d) (to_lowercase caseless (lit ''dq.nes'')) = 1"
    and "contains_str ?q (to_lowercase caseless ?d)" and "mid_word caseless ?q (to_lowercase caseless ?d)"
    by code_simp+
  then show ?thesis using search_panics_iff [OF caseless_laws, of ?q ?d] by simp
qed

text \<open>
  A score of zero means no match to the caller, which drops the file. A match on the whole
  query scores zero exactly when it is a mid-word match in the file name of a multi-word query,
  the display name has 40 bytes or more, and the file is a pirate, or a pre-release of a minor
  or unknown region.
\<close>

lemma search_drops_match_iff:
  assumes "match_base u query (to_lowercase u display) (to_lowercase u filename) = Some (Some b)"
    and "classify u filename = Some (tier, region, special)"
  shows "search_score u query display filename p s = Some 0 \<longleftrightarrow>
    b = 250 \<and> 40 \<le> utf8_len display \<and>
    (tier = Pirate \<or> (tier = PreRelease \<and> 4 \<le> region_sort_key region p s))"
proof -
  have "search_score u query display filename p s =
      Some (b + (if utf8_len display < 40 then 100 else 0) + region_bonus (region_sort_key region p s) - tier_penalty tier)"
    using assms by (simp add: search_score_def Let_def apply_bonuses_def)
  moreover have "b \<in> {10000, 5000, 2000, 1000, 500, 250}"
    using match_base_ranks [OF assms(1)] by auto
  moreover have "region_bonus (region_sort_key region p s) \<le> 20"
    "region_bonus (region_sort_key region p s) = 0 \<longleftrightarrow> 4 \<le> region_sort_key region p s"
    by (auto simp: region_bonus_def)
  moreover have "tier_penalty tier \<le> 200 \<or> tier = PreRelease \<or> tier = Pirate"
    by (cases tier) simp_all
  ultimately show ?thesis by (auto split: if_splits)
qed

lemma search_drops_match_iff_witness:
  "search_score caseless (lit ''sonic 3'') (lit ''The Collected Adventures of a Blue Hedgehog'')
     (lit ''Sonic 3D Blast (Pirate).md'') PrefUsa None = Some 0"
proof -
  let ?q = "lit ''sonic 3''" and ?d = "lit ''The Collected Adventures of a Blue Hedgehog''"
    and ?f = "lit ''Sonic 3D Blast (Pirate).md''"
  have "match_base caseless ?q (to_lowercase caseless ?d) (to_lowercase caseless ?f) = Some (Some 250)"
    and "classify caseless ?f = Some (Pirate, UnknownRegion, True)" and "40 \<le> utf8_len ?d"
    by code_simp+
  then show ?thesis using search_drops_match_iff [of caseless ?q ?d ?f] by simp
qed

end
