(* ===== verification/Title_Utils.thy ===== *)
theory Title_Utils
  imports Rom_Tags
begin

text \<open>
  Title normalisation of \<open>core/game/title_utils.rs\<close>: the TOSEC display name, base titles, the keys
  by which titles of different sources are matched, series keys, and the labels of arcade
  clones.

  The scans of the source over bytes and indices are recursions over characters where the index
  only ever points at ASCII characters it has compared; the slices of \<open>series_key\<close>, whose index
  comes from the lowercased copy of the string, are byte slices that may panic.
\<close>

section \<open>Tags and versions\<close>

definition strip_tags :: "rstr \<Rightarrow> rstr" where
  "strip_tags name =
     trim (case find_split (lit '' ('') name of
             Some (before, _) \<Rightarrow> before
           | None \<Rightarrow> (case find_split (lit '' ['') name of Some (before, _) \<Rightarrow> before | None \<Rightarrow> name))"

text \<open>A version starts here: space, \<open>v\<close>, a digit, and nothing but digits, dots, spaces, underscores.\<close>

fun version_at :: "rstr \<Rightarrow> bool" where
  "version_at (a # b # d # rest) \<longleftrightarrow>
     a = 32 \<and> b = 118 \<and> is_ascii_digit d \<and>
     list_all (\<lambda>c. is_ascii_digit c \<or> c = 46 \<or> c = 32 \<or> c = 95) (d # rest)"
| "version_at _ \<longleftrightarrow> False"

fun before_last_version :: "rstr \<Rightarrow> rstr option" where
  "before_last_version [] = None"
| "before_last_version (c # s) =
     (case before_last_version s of
        Some before \<Rightarrow> Some (c # before)
      | None \<Rightarrow> if version_at (c # s) then Some [] else None)"

definition strip_version :: "rstr \<Rightarrow> rstr" where
  "strip_version name = (case before_last_version name of Some before \<Rightarrow> trim before | None \<Rightarrow> name)"

definition base_title :: "unicode \<Rightarrow> rstr \<Rightarrow> rstr" where
  "base_title u name =
     (let stripped = strip_version (strip_tags name);
          s = (case rfind_split (lit '' ~ '') stripped of Some (_, r) \<Rightarrow> r | None \<Rightarrow> stripped);
          lower = to_lowercase u s
      in case strip_suffix (lit '', the'') lower of
           Some title \<Rightarrow> lit ''the '' @ title
         | None \<Rightarrow>
             (case strip_suffix (lit '', an'') lower of
                Some title \<Rightarrow> lit ''an '' @ title
              | None \<Rightarrow>
                  (case strip_suffix (lit '', a'') lower of
                     Some title \<Rightarrow> lit ''a '' @ title
                   | None \<Rightarrow> lower)))"

section \<open>TOSEC display names\<close>

text \<open>The groups of balanced parentheses at depth zero; the state is depth, current group, groups.\<close>

fun paren_groups :: "nat \<Rightarrow> rstr \<Rightarrow> rstr \<Rightarrow> rstr list" where
  "paren_groups depth cur [] = []"
| "paren_groups depth cur (ch # s) =
     (if ch = 40 then paren_groups (depth + 1) (if depth = 0 then [] else cur @ [ch]) s
      else if ch = 41 \<and> 0 < depth
      then (if depth = 1 then cur # paren_groups 0 [] s else paren_groups (depth - 1) (cur @ [ch]) s)
      else paren_groups depth (cur @ [ch]) s)"

definition tosec_uninvert_article :: "rstr \<Rightarrow> rstr option" where
  "tosec_uninvert_article s =
     (case rfind_split (lit '', '') s of
        None \<Rightarrow> None
      | Some (before, rest) \<Rightarrow>
          let article = trim rest
          in if list_ex (\<lambda>a. to_ascii_lowercase (lit a) = to_ascii_lowercase article)
                  [''The'', ''A'', ''An'', ''Les'', ''La'', ''Le'', ''Der'', ''Die'', ''Das'', ''El'']
             then Some (article @ lit '' '' @ before) else None)"

definition four_digits :: "rstr \<Rightarrow> bool" where
  "four_digits g \<longleftrightarrow> utf8_len g = 4 \<and> list_all is_ascii_digit g"

definition tosec_is_metadata_group :: "rstr \<Rightarrow> bool" where
  "tosec_is_metadata_group g \<longleftrightarrow>
     (if starts_with (lit ''Disk '') g \<or> starts_with (lit ''Side '') g \<or> starts_with (lit ''Tape '') g then True
      else if four_digits g then True
      else if g \<noteq> [] \<and> list_all (\<lambda>c. is_ascii_lowercase c \<or> c = 45) g then True
      else 2 \<le> utf8_len g \<and> starts_with (lit ''M'') g \<and> list_all is_ascii_digit (tl g))"

definition edition_group :: "rstr \<Rightarrow> bool" where
  "edition_group g \<longleftrightarrow>
     \<not> one_of g [''AGA'', ''ECS'', ''OCS'', ''CD32'', ''CDTV''] \<and> \<not> tosec_is_metadata_group g \<and>
     \<not> is_tosec_country_code g"

definition tosec_display_name :: "rstr \<Rightarrow> rstr option" where
  "tosec_display_name stem =
     (case paren_groups 0 [] stem of
        [] \<Rightarrow> None
      | first # groups \<Rightarrow>
          if \<not> four_digits first then None
          else
            let raw_base = trim_end_matches is_whitespace (takeWhile (\<lambda>c. c \<noteq> 40) stem);
                stripped = strip_version raw_base;
                base = (case tosec_uninvert_article stripped of Some b \<Rightarrow> b | None \<Rightarrow> stripped)
            in Some (base @ concat (map (\<lambda>g. lit '' ('' @ g @ lit '')'') (filter edition_group (drop 1 groups)))))"

section \<open>Roman numerals\<close>

definition ROMAN_NUMERALS :: "(string \<times> nat) list" where
  "ROMAN_NUMERALS =
     [(''xviii'', 18), (''xvii'', 17), (''xvi'', 16), (''xiii'', 13), (''xiv'', 14), (''xv'', 15), (''xii'', 12),
      (''xi'', 11), (''viii'', 8), (''vii'', 7), (''vi'', 6), (''iv'', 4), (''ix'', 9), (''iii'', 3), (''ii'', 2),
      (''x'', 10), (''v'', 5)]"

definition roman_value_of :: "rstr \<Rightarrow> nat option" where
  "roman_value_of s = map_option snd (find (\<lambda>(numeral, _). lit numeral = s) ROMAN_NUMERALS)"

definition roman_token_to_arabic :: "unicode \<Rightarrow> rstr \<Rightarrow> nat option" where
  "roman_token_to_arabic u token =
     (let letters = filter (is_alphabetic u) token
      in if utf8_len letters < 2 then None else roman_value_of (to_lowercase u letters))"

definition roman_to_arabic_suffix :: "rstr \<Rightarrow> rstr option" where
  "roman_to_arabic_suffix normalized =
     (case rfind_split (lit '' '') normalized of
        None \<Rightarrow> None
      | Some (before, last_word) \<Rightarrow>
          map_option (\<lambda>value. before @ lit '' '' @ nat_to_str value) (roman_value_of last_word))"

section \<open>Matching keys\<close>

fun outside_brackets :: "nat \<Rightarrow> rstr \<Rightarrow> rstr" where
  "outside_brackets depth [] = []"
| "outside_brackets depth (ch # s) =
     (if ch = 40 \<or> ch = 91 then outside_brackets (depth + 1) s
      else if ch = 41 \<or> ch = 93 then outside_brackets (depth - 1) s
      else if depth = 0 then ch # outside_brackets depth s
      else outside_brackets depth s)"

definition reorder_article :: "unicode \<Rightarrow> rstr \<Rightarrow> rstr" where
  "reorder_article u stripped =
     (case rfind_split (lit '', '') stripped of
        None \<Rightarrow> stripped
      | Some (before, after_comma) \<Rightarrow>
          let first_word = takeWhile (is_alphabetic u) after_comma;
              rest = trim_start_matches (\<lambda>c. c = 32 \<or> c = 45) (dropWhile (is_alphabetic u) after_comma)
          in if one_of (to_ascii_lowercase first_word) [''the'', ''a'', ''an'']
             then (if rest = [] then first_word @ lit '' '' @ before
                   else first_word @ lit '' '' @ before @ lit '' '' @ rest)
             else stripped)"

definition normalize_title_for_metadata :: "unicode \<Rightarrow> rstr \<Rightarrow> rstr" where
  "normalize_title_for_metadata u name =
     (let stripped = trim (outside_brackets 0 name);
          version_stripped = strip_version (reorder_article u stripped);
          folded = join (lit '' '')
            (map (\<lambda>tok. case roman_token_to_arabic u tok of Some value \<Rightarrow> nat_to_str value | None \<Rightarrow> tok)
              (split_whitespace version_stripped))
      in map to_ascii_lowercase_char (filter (is_alphanumeric u) folded))"

definition normalize_aggressive :: "unicode \<Rightarrow> rstr \<Rightarrow> rstr" where
  "normalize_aggressive u name =
     join (lit '' '')
       (map (\<lambda>tok. case roman_token_to_arabic u tok of
                     Some value \<Rightarrow> nat_to_str value
                   | None \<Rightarrow> to_lowercase u tok)
         (split_whitespace (map (\<lambda>ch. if is_alphanumeric u ch \<or> ch = 32 then ch else 32) name)))"

definition normalize_aggressive_compact :: "unicode \<Rightarrow> rstr \<Rightarrow> rstr" where
  "normalize_aggressive_compact u name = concat (map (lower_char u) (filter (is_alphanumeric u) name))"

definition fuzzy_match_key :: "unicode \<Rightarrow> rstr \<Rightarrow> rstr" where
  "fuzzy_match_key u title =
     join (lit '' '')
       (split_whitespace
         (map (\<lambda>ch. if is_alphanumeric u ch \<or> ch = 32 then to_ascii_lowercase_char ch else 32) title))"

definition normalize_for_wikidata :: "unicode \<Rightarrow> rstr \<Rightarrow> rstr" where
  "normalize_for_wikidata u title =
     join (lit '' '')
       (split_whitespace
         (map to_ascii_lowercase_char (filter (\<lambda>ch. is_alphanumeric u ch \<or> ch = 32) (trim title))))"

definition resolve_to_library_title ::
  "unicode \<Rightarrow> rstr \<Rightarrow> rstr set \<Rightarrow> (rstr \<rightharpoonup> rstr) \<Rightarrow> rstr" where
  "resolve_to_library_title u external_name library_exact library_fuzzy =
     (let normalized = base_title u external_name
      in if normalized \<in> library_exact then normalized
         else (case library_fuzzy (fuzzy_match_key u normalized) of
                 Some lib_bt \<Rightarrow> lib_bt
               | None \<Rightarrow> normalized))"

section \<open>Series keys\<close>

definition series_normal :: "unicode \<Rightarrow> rstr \<Rightarrow> rstr" where
  "series_normal u s =
     join (lit '' '')
       (split_whitespace (filter (\<lambda>c. is_alphanumeric u c \<or> is_whitespace c) (to_lowercase u s)))"

definition strip_subtitle :: "rstr \<Rightarrow> rstr" where
  "strip_subtitle result =
     (case find_split (lit '': '') result of
        Some (before, _) \<Rightarrow> trim before
      | None \<Rightarrow>
          (case find_split (lit '' - '') result of
             Some (before, _) \<Rightarrow> if 4 \<le> utf8_len (trim before) then trim before else result
           | None \<Rightarrow> result))"

definition roman_suffix :: "rstr \<Rightarrow> string option" where
  "roman_suffix lower =
     map_option fst (find (\<lambda>(numeral, _). ends_with (lit '' '' @ lit numeral) lower) ROMAN_NUMERALS)"

definition strip_roman :: "unicode \<Rightarrow> rstr \<Rightarrow> rstr may_panic" where
  "strip_roman u result =
     (case roman_suffix (to_lowercase u result) of
        None \<Rightarrow> Some result
      | Some roman \<Rightarrow>
          let cut = length roman + 1
          in if utf8_len result < cut then None
             else map_option trim (byte_take (utf8_len result - cut) result))"

definition strip_number :: "unicode \<Rightarrow> rstr \<Rightarrow> rstr may_panic" where
  "strip_number u result =
     (case rfind_split (lit '' '') (to_lowercase u result) of
        None \<Rightarrow> Some result
      | Some (before, after) \<Rightarrow>
          if after \<noteq> [] \<and> list_all is_ascii_digit after
          then map_option trim (byte_take (utf8_len before) result)
          else Some result)"

definition series_key :: "unicode \<Rightarrow> rstr \<Rightarrow> rstr may_panic" where
  "series_key u base =
     (let trimmed = trim base
      in if trimmed = [] then Some []
         else do {
           without_roman \<leftarrow> strip_roman u (strip_subtitle trimmed);
           result \<leftarrow> strip_number u without_roman;
           let normalized = series_normal u result;
           Some (if normalized = series_normal u trimmed \<or> utf8_len normalized < 4 then [] else normalized)
         })"

section \<open>File names and arcade labels\<close>

definition filename_stem :: "rstr \<Rightarrow> rstr" where
  "filename_stem rom_filename = (case before_last 46 rom_filename of Some stem \<Rightarrow> stem | None \<Rightarrow> rom_filename)"

definition strip_n64dd_prefix :: "rstr \<Rightarrow> rstr" where
  "strip_n64dd_prefix stem = (case strip_prefix (lit ''N64DD - '') stem of Some rest \<Rightarrow> rest | None \<Rightarrow> stem)"

definition before_paren :: "rstr \<Rightarrow> rstr" where
  "before_paren s = (case find_split (lit '' ('') s of Some (before, _) \<Rightarrow> before | None \<Rightarrow> s)"

text \<open>
  The tag lies between the last opening parenthesis and the last closing one, when the latter
  comes later, that is, when it occurs after the former.
\<close>

definition arcade_clone_label :: "rstr \<Rightarrow> rstr \<Rightarrow> rstr" where
  "arcade_clone_label parent_display clone_display =
     (let tag = (case rfind_split (lit ''('') clone_display of
                   None \<Rightarrow> []
                 | Some (_, after) \<Rightarrow>
                     (case rfind_split (lit '')'') after of None \<Rightarrow> [] | Some (inner, _) \<Rightarrow> inner))
      in if before_paren clone_display = before_paren parent_display
         then (if tag = [] then clone_display else tag)
         else clone_display)"

section \<open>Words and joins\<close>

definition words_ok :: "rstr list \<Rightarrow> bool" where
  "words_ok ws \<longleftrightarrow> (\<forall>w \<in> set ws. w \<noteq> [] \<and> (\<forall>c \<in> set w. \<not> is_whitespace c))"

lemma split_by_pieces: "w \<in> set (split_by P s) \<Longrightarrow> c \<in> set w \<Longrightarrow> \<not> P c \<and> c \<in> set s"
proof (induction s arbitrary: w)
  case (Cons x s)
  show ?case
  proof (cases "split_by P s")
    case Nil
    with Cons.prems show ?thesis by (auto split: if_splits)
  next
    case vs: (Cons v vs)
    note IH = Cons.IH [unfolded vs]
    have "w = [] \<or> w = v \<or> w \<in> set vs \<or> (w = x # v \<and> \<not> P x)"
      using Cons.prems vs by (auto split: if_splits)
    with IH [of v] IH [of w] Cons.prems(2) show ?thesis by auto
  qed
qed simp

lemma split_by_ne [simp]: "split_by P s \<noteq> []"
  by (cases s) (auto split: list.split)

lemma split_by_clean: "\<forall>c \<in> set s. \<not> P c \<Longrightarrow> split_by P s = [s]"
  by (induction s) auto

lemma split_by_append: "P c \<Longrightarrow> split_by P (a @ c # b) = split_by P a @ split_by P b"
proof (induction a)
  case (Cons x a)
  then show ?case by (cases "split_by P a") auto
qed simp

lemma split_whitespace_words: "words_ok (split_whitespace s)"
  by (auto simp: words_ok_def split_whitespace_def dest: split_by_pieces)

lemma split_whitespace_set: "w \<in> set (split_whitespace s) \<Longrightarrow> c \<in> set w \<Longrightarrow> c \<in> set s"
  by (auto simp: split_whitespace_def dest: split_by_pieces)

lemma split_whitespace_append:
  "is_whitespace c \<Longrightarrow> split_whitespace (a @ c # b) = split_whitespace a @ split_whitespace b"
  by (simp add: split_whitespace_def split_by_append)

lemma split_whitespace_word: "w \<noteq> [] \<Longrightarrow> \<forall>c \<in> set w. \<not> is_whitespace c \<Longrightarrow> split_whitespace w = [w]"
  by (simp add: split_whitespace_def split_by_clean)

lemma split_join_words: "words_ok ws \<Longrightarrow> split_whitespace (join (lit '' '') ws) = ws"
proof (induction ws rule: induct_list012)
  case (3 v w ws)
  have "is_whitespace 32" by (simp add: is_whitespace_def)
  then have "split_whitespace (join (lit '' '') (v # w # ws)) = split_whitespace v @ split_whitespace (join (lit '' '') (w # ws))"
    using split_whitespace_append [of 32 v "join (lit '' '') (w # ws)"] by (simp add: lit_def)
  with 3 show ?case by (simp add: words_ok_def split_whitespace_word)
next
  case 1
  show ?case by (simp add: split_whitespace_def)
next
  case (2 w)
  then show ?case by (simp add: words_ok_def split_whitespace_word)
qed

lemma join_chars_space: "c \<in> set (join (lit '' '') ws) \<Longrightarrow> c = 32 \<or> (\<exists>w \<in> set ws. c \<in> set w)"
  by (induction ws rule: induct_list012) (auto simp: lit_def)

lemma join_bare: "words_ok ws \<Longrightarrow> bare is_whitespace (join (lit '' '') ws)"
proof (induction ws rule: induct_list012)
  case (3 v w ws)
  then have "join (lit '' '') (w # ws) \<noteq> []" by (cases ws) (auto simp: words_ok_def)
  with 3 show ?case by (auto simp: bare_def words_ok_def hd_append)
qed (auto simp: bare_def words_ok_def)

section \<open>Character classes\<close>

lemma alphanumeric_lower [simp]: "is_alphanumeric u (to_ascii_lowercase_char c) = is_alphanumeric u c"
  by (auto simp: is_alphanumeric_def char_class_defs)

lemma lower_char_idem [simp]: "to_ascii_lowercase_char (to_ascii_lowercase_char c) = to_ascii_lowercase_char c"
  by (auto simp: char_class_defs)

lemma lower_not_upper [simp]: "\<not> is_ascii_uppercase (to_ascii_lowercase_char c)"
  by (auto simp: char_class_defs)

lemma lower_space [simp]: "to_ascii_lowercase_char 32 = 32"
  by (simp add: char_class_defs)

lemma lower_char_id: "\<not> is_ascii_uppercase c \<Longrightarrow> to_ascii_lowercase_char c = c"
  by (simp add: to_ascii_lowercase_char_def)

text \<open>The two keys made of words.\<close>

definition key_char :: "unicode \<Rightarrow> rchar \<Rightarrow> bool" where
  "key_char u c \<longleftrightarrow> is_alphanumeric u c \<and> to_ascii_lowercase_char c = c"

definition word_key :: "unicode \<Rightarrow> rstr \<Rightarrow> bool" where
  "word_key u key \<longleftrightarrow> (\<exists>ws. words_ok ws \<and> (\<forall>w \<in> set ws. \<forall>c \<in> set w. key_char u c) \<and> key = join (lit '' '') ws)"

lemma word_keyI:
  assumes "\<forall>c \<in> set s. key_char u c \<or> c = 32"
  shows "word_key u (join (lit '' '') (split_whitespace s))"
proof -
  have "key_char u c" if "w \<in> set (split_whitespace s)" "c \<in> set w" for w c
  proof -
    have "c \<in> set s" "\<not> is_whitespace c"
      using that split_whitespace_set split_whitespace_words [of s] by (auto simp: words_ok_def)
    with assms show ?thesis by (auto simp: is_whitespace_def)
  qed
  then show ?thesis using split_whitespace_words [of s] unfolding word_key_def by blast
qed

lemma word_key_chars: "word_key u key \<Longrightarrow> \<forall>c \<in> set key. key_char u c \<or> c = 32"
  by (auto simp: word_key_def dest: join_chars_space)

lemma word_key_join: "word_key u key \<Longrightarrow> join (lit '' '') (split_whitespace key) = key"
  by (auto simp: word_key_def split_join_words)

lemma word_key_trim: "word_key u key \<Longrightarrow> trim key = key"
  by (auto simp: word_key_def intro: trim_id join_bare)

lemma fuzzy_word_key: "word_key u (fuzzy_match_key u t)"
  unfolding fuzzy_match_key_def by (rule word_keyI) (auto simp: key_char_def lower_space)

lemma wikidata_word_key: "word_key u (normalize_for_wikidata u t)"
  unfolding normalize_for_wikidata_def by (rule word_keyI) (auto simp: key_char_def lower_space)

lemma fuzzy_of_word_key: "word_key u key \<Longrightarrow> fuzzy_match_key u key = key"
proof -
  assume key: "word_key u key"
  then have "map (\<lambda>ch. if is_alphanumeric u ch \<or> ch = 32 then to_ascii_lowercase_char ch else 32) key = key"
    using word_key_chars [OF key] by (intro map_idI) (auto simp: key_char_def lower_space)
  then show ?thesis using word_key_join [OF key] by (simp add: fuzzy_match_key_def)
qed

lemma wikidata_of_word_key: "word_key u key \<Longrightarrow> normalize_for_wikidata u key = key"
proof -
  assume key: "word_key u key"
  have "filter (\<lambda>ch. is_alphanumeric u ch \<or> ch = 32) key = key"
    using word_key_chars [OF key] by (intro filter_True) (auto simp: key_char_def)
  moreover have "map to_ascii_lowercase_char key = key"
    using word_key_chars [OF key] by (intro map_idI) (auto simp: key_char_def lower_space)
  ultimately show ?thesis
    using word_key_join [OF key] word_key_trim [OF key] by (simp add: normalize_for_wikidata_def)
qed

section \<open>Properties\<close>



text \<open>The canonical numeral, as a reference: subtractive notation, from the largest value down.\<close>

function to_roman :: "nat \<Rightarrow> string" where
  "to_roman n =
     (if 10 \<le> n then CHR ''x'' # to_roman (n - 10)
      else if n = 9 then ''ix''
      else if 5 \<le> n then CHR ''v'' # to_roman (n - 5)
      else if n = 4 then ''iv''
      else replicate n CHR ''i'')"
  by pat_completeness auto
termination by (relation "measure id") auto

declare to_roman.simps [simp del]

lemma roman_table: "ROMAN_NUMERALS = map (\<lambda>v. (to_roman v, v)) [18, 17, 16, 13, 14, 15, 12, 11, 8, 7, 6, 4, 9, 3, 2, 10, 5]"
  by code_simp

lemma roman_exact: "roman_value_of s = Some v \<longleftrightarrow> s = lit (to_roman v) \<and> 2 \<le> v \<and> v \<le> 18"
proof
  assume "roman_value_of s = Some v"
  then obtain n where "find (\<lambda>(m, _). lit m = s) ROMAN_NUMERALS = Some (n, v)"
    by (auto simp: roman_value_of_def)
  then have "(n, v) \<in> set ROMAN_NUMERALS" "lit n = s"
    by (auto simp: find_Some_iff dest: nth_mem)
  then show "s = lit (to_roman v) \<and> 2 \<le> v \<and> v \<le> 18" by (auto simp: roman_table)
next
  assume s: "s = lit (to_roman v) \<and> 2 \<le> v \<and> v \<le> 18"
  then have "v \<in> set [2 ..< 19]" by (simp only: set_upt) simp
  moreover have "list_all (\<lambda>v. roman_value_of (lit (to_roman v)) = Some v) [2 ..< 19]" by code_simp
  ultimately show "roman_value_of s = Some v" using s by (simp only: list_all_iff)
qed

text \<open>
  The table of Roman numerals is exact: a word is read as the number \<open>v\<close> precisely when it is
  the canonical numeral of \<open>v\<close> and \<open>v\<close> lies between 2 and 18.
\<close>

lemma roman_numerals_exact: "roman_value_of s = Some v \<longleftrightarrow> s = lit (to_roman v) \<and> 2 \<le> v \<and> v \<le> 18"
  by (rule roman_exact)

section \<open>Sequels\<close>

lemma rfind_split_space: "32 \<notin> set t \<Longrightarrow> rfind_split (lit '' '') (a @ 32 # t) = Some (a, t)"
proof -
  have none: "rfind_split (lit '' '') t = None" if "32 \<notin> set t" for t
    using that by (induction t) (auto simp: lit_def)
  then show "32 \<notin> set t \<Longrightarrow> ?thesis"
    by (induction a) (auto simp: lit_def)
qed

lemma rfind_split_spaceD: "rfind_split (lit '' '') s = Some (a, t) \<Longrightarrow> s = a @ 32 # t"
  by (induction s arbitrary: a) (auto simp: lit_def split: option.splits if_splits)

lemma find_split_absent: "c \<in> set needle \<Longrightarrow> c \<notin> set s \<Longrightarrow> find_split needle s = None"
  by (auto simp: find_split_None_iff contains_str_def sublist_def)

text \<open>An ASCII title in lower case made of words, the form \<open>base_title\<close> gives to a plain name.\<close>

definition plain_title :: "rstr \<Rightarrow> bool" where
  "plain_title b \<longleftrightarrow>
     (\<exists>ws. words_ok ws \<and> ws \<noteq> [] \<and> b = join (lit '' '') ws \<and>
       (\<forall>w \<in> set ws. \<forall>c \<in> set w. is_ascii_lowercase c \<or> is_ascii_digit c))"

lemma plain_title_chars:
  "plain_title b \<Longrightarrow> c \<in> set b \<Longrightarrow> is_ascii_lowercase c \<or> is_ascii_digit c \<or> c = 32"
  by (auto simp: plain_title_def dest: join_chars_space)

lemma plain_title_char:
  assumes "plain_title b" and "c \<in> set b"
  shows "c < 128" and "c \<noteq> 58 \<and> c \<noteq> 45" and "is_alphanumeric u c \<or> is_whitespace c"
    and "to_ascii_lowercase_char c = c"
  using plain_title_chars [OF assms] by (auto simp: is_alphanumeric_def char_class_defs)

lemma join_snoc: "ws \<noteq> [] \<Longrightarrow> join sep (ws @ [w]) = join sep ws @ sep @ w"
  by (induction ws rule: induct_list012) auto

lemma plain_title_snoc:
  assumes "plain_title b" and "w \<noteq> []" and "\<forall>c \<in> set w. is_ascii_lowercase c \<or> is_ascii_digit c"
  shows "plain_title (b @ 32 # w)"
proof -
  obtain ws where ws: "words_ok ws" "ws \<noteq> []" "b = join (lit '' '') ws"
    "\<forall>w \<in> set ws. \<forall>c \<in> set w. is_ascii_lowercase c \<or> is_ascii_digit c"
    using assms(1) by (auto simp: plain_title_def)
  have "\<not> is_whitespace c" if "c \<in> set w" for c
    using assms(3) that by (auto simp: char_class_defs)
  then show ?thesis
    unfolding plain_title_def using ws assms
    by (intro exI [of _ "ws @ [w]"]) (auto simp: words_ok_def join_snoc lit_def)
qed

lemma plain_title_word_key: "plain_title b \<Longrightarrow> word_key u b"
  unfolding plain_title_def word_key_def
  by (fastforce simp: key_char_def is_alphanumeric_def char_class_defs)

lemma plain_title_lower: "plain_title b \<Longrightarrow> to_lowercase u b = b"
proof -
  assume b: "plain_title b"
  then have "ascii b" using plain_title_char(1) by (auto simp: list_all_iff)
  moreover have "to_ascii_lowercase b = b"
    unfolding to_ascii_lowercase_def using plain_title_char(4) [OF b] by (intro map_idI) auto
  ultimately show ?thesis by (simp add: to_lowercase_ascii)
qed

lemma plain_title_normal: "plain_title b \<Longrightarrow> series_normal u b = b"
proof -
  assume b: "plain_title b"
  have "filter (\<lambda>c. is_alphanumeric u c \<or> is_whitespace c) b = b"
    using plain_title_char(3) [OF b] by (intro filter_True) blast
  then show ?thesis
    using plain_title_lower [OF b] word_key_join [OF plain_title_word_key [OF b]] by (simp add: series_normal_def)
qed

lemma plain_title_trim: "plain_title b \<Longrightarrow> trim b = b"
  using plain_title_word_key word_key_trim by blast

lemma plain_title_subtitle: "plain_title b \<Longrightarrow> strip_subtitle b = b"
proof -
  assume b: "plain_title b"
  have "58 \<notin> set b" "45 \<notin> set b"
    using plain_title_char(2) [OF b] by auto
  then have "find_split (lit '': '') b = None" "find_split (lit '' - '') b = None"
    using find_split_absent [of 58 "lit '': ''" b] find_split_absent [of 45 "lit '' - ''" b] by (simp_all add: lit_def)
  then show ?thesis by (simp add: strip_subtitle_def)
qed

lemma byte_take_append: "byte_take (utf8_len a) (a @ b) = Some a"
  by (simp add: byte_take_def byte_split_prefix)

lemma roman_letters:
  "list_all (\<lambda>(n, _). n \<noteq> [] \<and> list_all (\<lambda>c. is_ascii_lowercase c) (lit n)) ROMAN_NUMERALS"
  by code_simp

lemma suffix_after_space:
  fixes r :: rstr
  assumes "32 \<notin> set m" and "32 \<notin> set r" and "suffix (32 # m) (b @ 32 # r)"
  shows "m = r"
proof -
  obtain a where "b @ 32 # r = a @ 32 # m" using assms(3) by (auto simp: suffix_def)
  then have "rfind_split (lit '' '') (b @ 32 # r) = Some (a, m)" using rfind_split_space [OF assms(1)] by simp
  with rfind_split_space [OF assms(2)] show ?thesis by simp
qed

lemma roman_suffix_of:
  assumes "(n, v) \<in> set ROMAN_NUMERALS"
  shows "roman_suffix (b @ 32 # lit n) = Some n"
proof -
  have no_space: "32 \<notin> set (lit m)" if "(m, w) \<in> set ROMAN_NUMERALS" for m w
  proof -
    have "\<forall>c \<in> set (lit m). is_ascii_lowercase c" using roman_letters that by (auto simp: list_all_iff)
    then show ?thesis by (auto simp: is_ascii_lowercase_def dest: bspec [of _ _ 32])
  qed
  have "ends_with (lit '' '' @ lit m) (b @ 32 # lit n) \<longleftrightarrow> m = n" if "(m, w) \<in> set ROMAN_NUMERALS" for m w
    using suffix_after_space [OF no_space [OF that] no_space [OF assms], of b]
    by (auto simp: ends_with_def lit_Cons lit_Nil suffix_def)
  then have "find (\<lambda>(m, _). ends_with (lit '' '' @ lit m) (b @ 32 # lit n)) ROMAN_NUMERALS =
      find (\<lambda>(m, _). m = n) ROMAN_NUMERALS"
    by (intro find_cong) auto
  moreover have "\<exists>w. find (\<lambda>(m, _). m = n) ROMAN_NUMERALS = Some (n, w)"
    using assms by (auto simp: ROMAN_NUMERALS_def)
  ultimately show ?thesis by (auto simp: roman_suffix_def)
qed

lemma no_roman_suffix:
  assumes "list_all is_ascii_digit ds" and "ds \<noteq> []"
  shows "roman_suffix (b @ 32 # ds) = None"
proof -
  have "\<not> ends_with (lit '' '' @ lit m) (b @ 32 # ds)" if "(m, w) \<in> set ROMAN_NUMERALS" for m w
  proof
    assume "ends_with (lit '' '' @ lit m) (b @ 32 # ds)"
    moreover have m: "m \<noteq> []" "\<forall>c \<in> set (lit m). is_ascii_lowercase c"
      using roman_letters that by (auto simp: list_all_iff)
    ultimately have "last ds = last (lit m)" using assms(2)
      by (auto simp: ends_with_def suffix_def lit_Cons lit_Nil) (metis last.simps last_append list.distinct(1) lit_eq_Nil)
    moreover have "is_ascii_digit (last ds)" using assms by (simp add: list_all_iff)
    moreover have "is_ascii_lowercase (last (lit m))" using m by (simp add: last_in_set)
    ultimately show False by (simp add: char_class_defs)
  qed
  then show ?thesis by (auto simp: roman_suffix_def find_None_iff)
qed

lemma series_key_step:
  assumes "plain_title b" and "4 \<le> utf8_len b" and "w \<noteq> []" and "\<forall>c \<in> set w. is_ascii_lowercase c \<or> is_ascii_digit c"
    and "strip_roman u (b @ 32 # w) = Some r" and "strip_number u r = Some b"
  shows "series_key u (b @ 32 # w) = Some b"
proof -
  have whole: "plain_title (b @ 32 # w)" using plain_title_snoc [OF assms(1,3,4)] .
  then show ?thesis
    using assms plain_title_normal [of b u] plain_title_normal [OF whole, of u]
    by (simp add: series_key_def Let_def plain_title_trim plain_title_subtitle)
qed

text \<open>
  Sequels share the key of their series: a plain title followed by any number, or, when it
  does not itself end in a digit, by any Roman numeral from 2 to 18, has the title as its key.
\<close>

lemma sequels_share_series:
  assumes "plain_title b" and "4 \<le> utf8_len b"
  shows "series_key u (b @ lit '' '' @ nat_to_str n) = Some b \<and>
    (\<not> is_ascii_digit (last b) \<and> 2 \<le> v \<and> v \<le> 18 \<longrightarrow> series_key u (b @ lit '' '' @ lit (to_roman v)) = Some b)"
proof (intro conjI impI)
  let ?d = "nat_to_str n"
  have digits: "list_all is_ascii_digit ?d" "?d \<noteq> []" by (simp_all add: nat_to_str_digits)
  have chars: "\<forall>c \<in> set ?d. is_ascii_lowercase c \<or> is_ascii_digit c" and no_space: "32 \<notin> set ?d"
    using digits by (auto simp: list_all_iff is_ascii_digit_def)
  have lower: "to_lowercase u (b @ 32 # ?d) = b @ 32 # ?d"
    using plain_title_snoc [OF assms(1) digits(2) chars] by (rule plain_title_lower)
  have "strip_roman u (b @ 32 # ?d) = Some (b @ 32 # ?d)"
    by (simp add: strip_roman_def lower no_roman_suffix [OF digits])
  moreover have "strip_number u (b @ 32 # ?d) = Some b"
    using digits
    by (simp add: strip_number_def lower rfind_split_space [OF no_space] byte_take_append plain_title_trim [OF assms(1)])
  ultimately show "series_key u (b @ lit '' '' @ ?d) = Some b"
    using series_key_step [OF assms digits(2) chars] by (simp add: lit_def)
next
  assume v: "\<not> is_ascii_digit (last b) \<and> 2 \<le> v \<and> v \<le> 18"
  let ?r = "to_roman v"
  have "roman_value_of (lit ?r) = Some v" using v roman_exact [of "lit ?r" v] by simp
  then have entry: "(?r, v) \<in> set ROMAN_NUMERALS"
    by (auto simp: roman_value_of_def find_Some_iff dest: nth_mem)
  then have "?r \<noteq> []" and letters: "\<forall>c \<in> set (lit ?r). is_ascii_lowercase c"
    using roman_letters by (auto simp: list_all_iff)
  then have ne: "lit ?r \<noteq> []" and chars: "\<forall>c \<in> set (lit ?r). is_ascii_lowercase c \<or> is_ascii_digit c"
    by simp_all
  have "ascii (lit ?r)" using letters by (fastforce simp: list_all_iff is_ascii_lowercase_def)
  then have len: "utf8_len (lit ?r) = length ?r" by (simp add: utf8_len_ascii)
  have lower: "to_lowercase u (b @ 32 # lit ?r) = b @ 32 # lit ?r"
    using plain_title_snoc [OF assms(1) ne chars] by (rule plain_title_lower)
  have "utf8_width 32 = 1" by (simp add: utf8_width_def)
  then have "strip_roman u (b @ 32 # lit ?r) = Some b"
    by (simp add: strip_roman_def lower roman_suffix_of [OF entry] len byte_take_append plain_title_trim [OF assms(1)])
  moreover have "strip_number u b = Some b"
  proof (cases "rfind_split (lit '' '') b")
    case (Some found)
    then obtain a t where found: "found = (a, t)" "b = a @ 32 # t"
      using rfind_split_spaceD by (metis prod.exhaust)
    then have "t \<noteq> [] \<Longrightarrow> last t = last b" by simp
    then have "\<not> (t \<noteq> [] \<and> list_all is_ascii_digit t)" using v last_in_set [of t] by (auto simp: list_all_iff)
    with Some found(1) show ?thesis by (auto simp: strip_number_def plain_title_lower [OF assms(1)])
  qed (simp add: strip_number_def plain_title_lower [OF assms(1)])
  ultimately show "series_key u (b @ lit '' '' @ lit ?r) = Some b"
    using series_key_step [OF assms ne chars] by (simp add: lit_def)
qed

lemma sequels_share_series_witness:
  "series_key caseless (lit ''streets of rage'' @ lit '' '' @ nat_to_str 4) = Some (lit ''streets of rage'') \<and>
   series_key caseless (lit ''streets of rage'' @ lit '' '' @ lit (to_roman 3)) = Some (lit ''streets of rage'')"
proof -
  let ?ws = "[lit ''streets'', lit ''of'', lit ''rage'']"
  have "words_ok ?ws \<and> (\<forall>w \<in> set ?ws. \<forall>c \<in> set w. is_ascii_lowercase c \<or> is_ascii_digit c)"
    by (simp add: words_ok_def lit_def char_class_defs)
  moreover have "lit ''streets of rage'' = join (lit '' '') ?ws" by (simp add: lit_def)
  ultimately have "plain_title (lit ''streets of rage'')" unfolding plain_title_def by blast
  moreover have "4 \<le> utf8_len (lit ''streets of rage'')" by code_simp
  moreover have "\<not> is_ascii_digit (last (lit ''streets of rage''))" by code_simp
  ultimately show ?thesis using sequels_share_series [of "lit ''streets of rage''" caseless 4 3] by simp
qed

end
