(* ===== verification/Update_Check.thy ===== *)
theory Update_Check
  imports App_Settings "HOL-Library.Multiset"
begin

text \<open>
  Release checks of \<open>core/update.rs\<close> and \<open>core-server/update.rs\<close>: parsing releases, choosing the
  update to offer, the changelog, the download URLs of a release and its checksum manifest.

  Code outside the repository is a parameter. \<open>'j json\<close> holds the accessors of
  \<open>serde_json::Value\<close>; \<open>semver\<close> is \<open>semver::Version::parse\<close>, with the crate's total order on
  versions as the order of its result type; \<open>github\<close> is \<open>github_get\<close>, the HTTP request; \<open>render\<close> is
  the Markdown renderer of the release notes. An error is its \<open>Display\<close> text.
\<close>

section \<open>JSON fields\<close>

record 'j json =
  j_get :: "'j \<Rightarrow> rstr \<Rightarrow> 'j option"
  j_str :: "'j \<Rightarrow> rstr option"
  j_bool :: "'j \<Rightarrow> bool option"
  j_u64 :: "'j \<Rightarrow> u64 option"
  j_array :: "'j \<Rightarrow> 'j list option"

definition field :: "'j json \<Rightarrow> ('j json \<Rightarrow> 'j \<Rightarrow> 'a option) \<Rightarrow> 'j \<Rightarrow> string \<Rightarrow> 'a option" where
  "field js as v key = (case j_get js v (lit key) of Some x \<Rightarrow> as js x | None \<Rightarrow> None)"

definition unwrap_or :: "'a \<Rightarrow> 'a option \<Rightarrow> 'a" where
  "unwrap_or d x = (case x of Some y \<Rightarrow> y | None \<Rightarrow> d)"

section \<open>Versions\<close>

definition is_newer :: "(rstr \<Rightarrow> 'v :: linorder option) \<Rightarrow> rstr \<Rightarrow> rstr \<Rightarrow> bool" where
  "is_newer semver current candidate \<longleftrightarrow>
     (case (semver current, semver candidate) of (Some c, Some v) \<Rightarrow> c < v | _ \<Rightarrow> False)"

definition strip_v :: "rstr \<Rightarrow> rstr" where
  "strip_v tag = unwrap_or tag (strip_prefix (lit ''v'') tag)"

definition validate_version :: "rstr \<Rightarrow> bool" where
  "validate_version version \<longleftrightarrow>
     (let v = strip_v version
      in v \<noteq> [] \<and>
         list_all (\<lambda>c. is_ascii_digit c \<or> is_ascii_uppercase c \<or> is_ascii_lowercase c \<or> c = 46 \<or> c = 45) v)"

section \<open>Releases\<close>

record available_update =
  au_version :: rstr
  au_tag :: rstr
  au_prerelease :: bool
  au_release_notes_url :: rstr
  au_published_at :: rstr
  au_binary_size :: u64
  au_site_size :: u64
  au_catalog_size :: u64

datatype asset_kind = AssetBinary | AssetCatalog | AssetSite

definition classify_asset :: "rstr \<Rightarrow> asset_kind option" where
  "classify_asset name =
     (if contains_str (lit ''replay-control-app'') name then Some AssetBinary
      else if contains_str (lit ''catalog'') name then Some AssetCatalog
      else if contains_str (lit ''site'') name then Some AssetSite
      else None)"

definition asset_sizes :: "'j json \<Rightarrow> 'j list \<Rightarrow> u64 \<times> u64 \<times> u64" where
  "asset_sizes js assets =
     foldl (\<lambda>(binary, site, catalog) asset.
        let name = unwrap_or [] (field js j_str asset ''name''); size = unwrap_or 0 (field js j_u64 asset ''size'')
        in case classify_asset name of
             Some AssetBinary \<Rightarrow> (size, site, catalog)
           | Some AssetSite \<Rightarrow> (binary, size, catalog)
           | Some AssetCatalog \<Rightarrow> (binary, site, size)
           | None \<Rightarrow> (binary, site, catalog)) (0, 0, 0) assets"

definition parse_release :: "'j json \<Rightarrow> (rstr \<Rightarrow> 'v :: linorder option) \<Rightarrow> 'j \<Rightarrow> available_update option" where
  "parse_release js semver v =
     (if field js j_bool v ''draft'' = Some True then None
      else (case field js j_str v ''tag_name'' of
              None \<Rightarrow> None
            | Some tag \<Rightarrow>
                let version = strip_v tag
                in if semver version = None then None
                   else
                     let (binary, site, catalog) = asset_sizes js (unwrap_or [] (field js j_array v ''assets''))
                     in Some
                          \<lparr>au_version = version, au_tag = tag,
                           au_prerelease = unwrap_or False (field js j_bool v ''prerelease''),
                           au_release_notes_url = unwrap_or [] (field js j_str v ''html_url''),
                           au_published_at = unwrap_or [] (field js j_str v ''published_at''),
                           au_binary_size = binary, au_site_size = site, au_catalog_size = catalog\<rparr>))"

type_synonym 'j github = "rstr \<Rightarrow> rstr + 'j"

definition fetch_latest_stable ::
  "'j json \<Rightarrow> (rstr \<Rightarrow> 'v :: linorder option) \<Rightarrow> 'j github \<Rightarrow> rstr \<Rightarrow> rstr \<Rightarrow> rstr + available_update option" where
  "fetch_latest_stable js semver github base_url repo =
     (case github (base_url @ lit ''/repos/'' @ repo @ lit ''/releases/latest'') of
        Inr v \<Rightarrow> Inr (parse_release js semver v)
      | Inl e \<Rightarrow> if contains_str (lit ''404'') e then Inr None else Inl e)"

text \<open>One turn of the loop that keeps the best release so far.\<close>

definition better_release ::
  "'j json \<Rightarrow> (rstr \<Rightarrow> 'v :: linorder option) \<Rightarrow> rstr \<Rightarrow> available_update option \<Rightarrow> 'j \<Rightarrow> available_update option" where
  "better_release js semver current best release =
     (case parse_release js semver release of
        Some parsed \<Rightarrow>
          if is_newer semver current (au_version parsed) \<and>
             (case best of None \<Rightarrow> True | Some b \<Rightarrow> is_newer semver (au_version b) (au_version parsed))
          then Some parsed else best
      | None \<Rightarrow> best)"

definition fetch_latest_beta ::
  "'j json \<Rightarrow> (rstr \<Rightarrow> 'v :: linorder option) \<Rightarrow> 'j github \<Rightarrow> rstr \<Rightarrow> rstr \<Rightarrow> rstr \<Rightarrow> rstr + available_update option" where
  "fetch_latest_beta js semver github current base_url repo =
     (case github (base_url @ lit ''/repos/'' @ repo @ lit ''/releases?per_page=10'') of
        Inl e \<Rightarrow> Inl e
      | Inr v \<Rightarrow> Inr (foldl (better_release js semver current) None (unwrap_or [] (j_array js v))))"

definition check_github_update ::
  "'j json \<Rightarrow> (rstr \<Rightarrow> 'v :: linorder option) \<Rightarrow> 'j github \<Rightarrow> rstr \<Rightarrow> rstr \<Rightarrow> rstr \<Rightarrow> update_channel \<Rightarrow>
     rstr option \<Rightarrow> rstr + available_update option" where
  "check_github_update js semver github current base_url repo channel skipped =
     (case (case channel of
              Beta \<Rightarrow> fetch_latest_beta js semver github current base_url repo
            | Stable \<Rightarrow> fetch_latest_stable js semver github base_url repo) of
        Inl e \<Rightarrow> Inl e
      | Inr None \<Rightarrow> Inr None
      | Inr (Some release) \<Rightarrow>
          if \<not> is_newer semver current (au_version release) then Inr None
          else if skipped = Some (au_version release) then Inr None
          else Inr (Some release))"

section \<open>The changelog\<close>

text \<open>The loop over the characters before the scheme is decided; \<open>scheme\<close> is what it has collected.\<close>

fun scheme_scan :: "rstr \<Rightarrow> rstr \<Rightarrow> bool" where
  "scheme_scan scheme [] \<longleftrightarrow> True"
| "scheme_scan scheme (ch # s) \<longleftrightarrow>
     (if ch = 47 \<or> ch = 63 \<or> ch = 35 then True
      else if ch = 58
      then (let normalized = filter (\<lambda>c. \<not> is_whitespace c \<and> \<not> is_control c) scheme
            in to_ascii_lowercase normalized \<in> {lit ''http'', lit ''https'', lit ''mailto''})
      else scheme_scan (scheme @ [ch]) s)"

definition link_scheme_is_safe :: "rstr \<Rightarrow> bool" where
  "link_scheme_is_safe url \<longleftrightarrow>
     (if starts_with (lit ''//'') (trim_start_matches is_whitespace url) then False else scheme_scan [] url)"

record changelog_entry =
  ce_version :: rstr
  ce_tag :: rstr
  ce_prerelease :: bool
  ce_published_at :: rstr
  ce_notes_html :: rstr
  ce_release_url :: rstr

definition parse_changelog_entry ::
  "'j json \<Rightarrow> (rstr \<Rightarrow> 'v :: linorder option) \<Rightarrow> (rstr \<Rightarrow> rstr) \<Rightarrow> 'j \<Rightarrow> rstr \<Rightarrow> changelog_entry option" where
  "parse_changelog_entry js semver render v current =
     (case field js j_str v ''tag_name'' of
        None \<Rightarrow> None
      | Some tag \<Rightarrow>
          let version = strip_v tag
          in if semver version = None then None
             else if \<not> is_newer semver current version then None
             else if unwrap_or False (field js j_bool v ''draft'') then None
             else Some
               \<lparr>ce_version = version, ce_tag = tag,
                ce_prerelease = unwrap_or False (field js j_bool v ''prerelease''),
                ce_published_at = unwrap_or [] (field js j_str v ''published_at''),
                ce_notes_html = render (unwrap_or [] (field js j_str v ''body'')),
                ce_release_url = unwrap_or [] (field js j_str v ''html_url'')\<rparr>)"

text \<open>
  \<open>sort_by\<close> with the order of the versions reversed. Both versions parse, and the sort is stable,
  so it is the ascending stable sort of the reversed list, reversed.
\<close>

definition newest_first :: "(rstr \<Rightarrow> 'v :: linorder option) \<Rightarrow> changelog_entry list \<Rightarrow> changelog_entry list" where
  "newest_first semver es = rev (sort_key (\<lambda>e. the (semver (ce_version e))) (rev es))"

definition fetch_changelog ::
  "'j json \<Rightarrow> (rstr \<Rightarrow> 'v :: linorder option) \<Rightarrow> (rstr \<Rightarrow> rstr) \<Rightarrow> 'j github \<Rightarrow> rstr \<Rightarrow> rstr \<Rightarrow> rstr \<Rightarrow>
     rstr + changelog_entry list" where
  "fetch_changelog js semver render github current base_url repo =
     (case github (base_url @ lit ''/repos/'' @ repo @ lit ''/releases?per_page=30'') of
        Inl e \<Rightarrow> Inl e
      | Inr v \<Rightarrow>
          Inr (newest_first semver
                 (List.map_filter (\<lambda>r. parse_changelog_entry js semver render r current) (unwrap_or [] (j_array js v)))))"

section \<open>Download URLs and checksums\<close>

record asset_urls =
  ur_package :: "rstr option"
  ur_binary :: rstr
  ur_site :: rstr
  ur_catalog :: "rstr option"
  ur_checksums :: "rstr option"

record found_assets =
  fa_package :: "rstr option"
  fa_binary :: "rstr option"
  fa_site :: "rstr option"
  fa_catalog :: "rstr option"
  fa_checksums :: "rstr option"

definition sort_asset :: "'j json \<Rightarrow> rstr option \<Rightarrow> found_assets \<Rightarrow> 'j \<Rightarrow> found_assets" where
  "sort_asset js package_name fa asset =
     (let name = unwrap_or [] (field js j_str asset ''name'')
      in case field js j_str asset ''browser_download_url'' of
           None \<Rightarrow> fa
         | Some url \<Rightarrow>
             if name = lit ''checksums.sha256'' then fa\<lparr>fa_checksums := Some url\<rparr>
             else if package_name = Some name then fa\<lparr>fa_package := Some url\<rparr>
             else if \<not> ends_with (lit ''.tar.gz'') name then fa
             else (case classify_asset name of
                     Some AssetBinary \<Rightarrow> fa\<lparr>fa_binary := Some url\<rparr>
                   | Some AssetSite \<Rightarrow> fa\<lparr>fa_site := Some url\<rparr>
                   | Some AssetCatalog \<Rightarrow> fa\<lparr>fa_catalog := Some url\<rparr>
                   | None \<Rightarrow> fa))"

definition resolve_asset_urls ::
  "'j json \<Rightarrow> 'j github \<Rightarrow> rstr \<Rightarrow> rstr \<Rightarrow> rstr \<Rightarrow> rstr option \<Rightarrow> rstr + asset_urls" where
  "resolve_asset_urls js github base_url repo tag package_name =
     (case github (base_url @ lit ''/repos/'' @ repo @ lit ''/releases/tags/'' @ tag) of
        Inl e \<Rightarrow> Inl e
      | Inr release \<Rightarrow>
          (case field js j_array release ''assets'' of
             None \<Rightarrow> Inl (lit ''No assets found in release'')
           | Some assets \<Rightarrow>
               let fa = foldl (sort_asset js package_name)
                          \<lparr>fa_package = None, fa_binary = None, fa_site = None, fa_catalog = None, fa_checksums = None\<rparr> assets
               in case fa_binary fa of
                    None \<Rightarrow> Inl (lit ''Binary asset not found in release'')
                  | Some binary \<Rightarrow>
                      (case fa_site fa of
                         None \<Rightarrow> Inl (lit ''Site asset not found in release'')
                       | Some site \<Rightarrow>
                           Inr \<lparr>ur_package = fa_package fa, ur_binary = binary, ur_site = site,
                                ur_catalog = fa_catalog fa, ur_checksums = fa_checksums fa\<rparr>)))"

fun split_once_by :: "(rchar \<Rightarrow> bool) \<Rightarrow> rstr \<Rightarrow> (rstr \<times> rstr) option" where
  "split_once_by P [] = None"
| "split_once_by P (c # s) =
     (if P c then Some ([], s) else map_option (\<lambda>(a, b). (c # a, b)) (split_once_by P s))"

definition add_checksum :: "(rstr \<rightharpoonup> rstr) \<Rightarrow> rstr \<Rightarrow> (rstr \<rightharpoonup> rstr)" where
  "add_checksum m raw_line =
     (let line = trim raw_line
      in if line = [] \<or> starts_with (lit ''#'') line then m
         else (case split_once_by is_whitespace line of
                 None \<Rightarrow> m
               | Some (hex, rest) \<Rightarrow>
                   let name = trim_start_matches (\<lambda>c. c = 42) (trim rest)
                   in if hex \<noteq> [] \<and> name \<noteq> [] then m(name \<mapsto> to_ascii_lowercase (trim hex)) else m))"

definition parse_checksums :: "rstr \<Rightarrow> (rstr \<rightharpoonup> rstr)" where
  "parse_checksums text = foldl add_checksum Map.empty (str_lines text)"

section \<open>Lemmas\<close>

lemma parse_release_version: "parse_release js semver v = Some r \<Longrightarrow> semver (au_version r) \<noteq> None"
  by (auto simp: parse_release_def Let_def split: option.splits if_splits prod.splits)

lemma parse_release_not_draft: "parse_release js semver v = Some r \<Longrightarrow> field js j_bool v ''draft'' \<noteq> Some True"
  by (auto simp: parse_release_def)

lemma is_newer_iff:
  "semver a = Some x \<Longrightarrow> semver b = Some y \<Longrightarrow> is_newer semver a b \<longleftrightarrow> x < y"
  by (simp add: is_newer_def)

text \<open>The loop over the releases keeps a release newer than the running one, and none is newer still.\<close>

definition best_of ::
  "'j json \<Rightarrow> (rstr \<Rightarrow> 'v :: linorder option) \<Rightarrow> rstr \<Rightarrow> 'j list \<Rightarrow> available_update option \<Rightarrow> bool" where
  "best_of js semver current releases best \<longleftrightarrow>
     (case best of
        None \<Rightarrow> \<forall>v \<in> set releases. \<forall>p. parse_release js semver v = Some p \<longrightarrow> \<not> is_newer semver current (au_version p)
      | Some r \<Rightarrow>
          (\<exists>v \<in> set releases. parse_release js semver v = Some r) \<and> is_newer semver current (au_version r) \<and>
          (\<forall>v \<in> set releases. \<forall>p. parse_release js semver v = Some p \<longrightarrow> \<not> is_newer semver (au_version r) (au_version p)))"

lemma better_release_best:
  assumes "best_of js semver current releases best"
  shows "best_of js semver current (releases @ [v]) (better_release js semver current best v)"
proof (cases "parse_release js semver v")
  case None
  with assms show ?thesis by (auto simp: best_of_def better_release_def split: option.splits)
next
  case (Some p)
  obtain y where y: "semver (au_version p) = Some y" using parse_release_version [OF Some] by auto
  have irrefl: "\<not> is_newer semver (au_version p) (au_version p)" by (simp add: is_newer_def y)
  show ?thesis
  proof (cases best)
    case None
    have "\<not> is_newer semver (au_version p) (au_version q)"
      if "is_newer semver current (au_version p)" "w \<in> set releases" "parse_release js semver w = Some q" for w q
    proof
      assume "is_newer semver (au_version p) (au_version q)"
      then have "is_newer semver current (au_version q)"
        using that(1) by (auto simp: is_newer_def split: option.splits)
      with assms None that(2,3) show False by (auto simp: best_of_def)
    qed
    with assms None Some irrefl show ?thesis by (auto simp: best_of_def better_release_def)
  next
    case best: (Some b)
    obtain w where w: "w \<in> set releases" "parse_release js semver w = Some b"
      and b: "is_newer semver current (au_version b)"
      and top: "\<forall>v \<in> set releases. \<forall>q. parse_release js semver v = Some q \<longrightarrow> \<not> is_newer semver (au_version b) (au_version q)"
      using assms best by (auto simp: best_of_def)
    obtain x where x: "semver (au_version b) = Some x" using parse_release_version [OF w(2)] by auto
    show ?thesis
    proof (cases "is_newer semver (au_version b) (au_version p)")
      case True
      then have "x < y" by (simp add: is_newer_def x y)
      then have newer: "is_newer semver current (au_version p)"
        using b by (auto simp: is_newer_def x y split: option.splits)
      have "\<not> is_newer semver (au_version p) (au_version q)" if "v \<in> set releases" "parse_release js semver v = Some q" for v q
        using top that \<open>x < y\<close> by (fastforce simp: is_newer_def x y split: option.splits)
      with True newer Some best irrefl show ?thesis by (auto simp: best_of_def better_release_def)
    next
      case False
      with Some best w b top show ?thesis by (auto simp: best_of_def better_release_def)
    qed
  qed
qed

lemma best_release: "best_of js semver current releases (foldl (better_release js semver current) None releases)"
  by (induction releases rule: rev_induct) (simp_all add: best_of_def [of _ _ _ "[]"] better_release_best)

lemma newest_first_sorted:
  "sorted_wrt (\<lambda>a b. the (semver (ce_version b)) \<le> the (semver (ce_version a))) (newest_first semver es)"
  using sorted_sort_key [of "\<lambda>e. the (semver (ce_version e))" "rev es"]
  by (simp add: newest_first_def sorted_wrt_rev sorted_map)

lemma newest_first_mset: "mset (newest_first semver es) = mset es"
  by (simp add: newest_first_def)

text \<open>The scheme of a link once white space and control characters, which browsers skip, are dropped.\<close>

definition link_chars :: "rstr \<Rightarrow> rstr" where
  "link_chars s = filter (\<lambda>c. \<not> is_whitespace c \<and> \<not> is_control c) s"

definition browser_scheme :: "rstr \<Rightarrow> rstr option" where
  "browser_scheme url =
     (let before = takeWhile (\<lambda>c. c \<notin> {47, 63, 35, 58}) (link_chars url)
      in if drop (length before) (link_chars url) \<noteq> [] \<and> hd (drop (length before) (link_chars url)) = 58
         then Some (to_ascii_lowercase before) else None)"

lemma scheme_scan_iff:
  "scheme_scan p s \<longleftrightarrow>
     (let rest = dropWhile (\<lambda>c. c \<notin> {47, 63, 35, 58}) s
      in rest = [] \<or> hd rest \<noteq> 58 \<or>
         to_ascii_lowercase (link_chars (p @ takeWhile (\<lambda>c. c \<notin> {47, 63, 35, 58}) s)) \<in> {lit ''http'', lit ''https'', lit ''mailto''})"
  by (induction p s rule: scheme_scan.induct) (auto simp: Let_def link_chars_def)

lemma link_chars_delimiter: "c \<in> {47, 63, 35, 58} \<Longrightarrow> \<not> is_whitespace c \<and> \<not> is_control c"
  by (auto simp: is_whitespace_def is_control_def)

lemma takeWhile_link_chars:
  "takeWhile (\<lambda>c. c \<notin> {47, 63, 35, 58}) (link_chars s) = link_chars (takeWhile (\<lambda>c. c \<notin> {47, 63, 35, 58}) s)"
  "dropWhile (\<lambda>c. c \<notin> {47, 63, 35, 58}) (link_chars s) = link_chars (dropWhile (\<lambda>c. c \<notin> {47, 63, 35, 58}) s)"
proof (induction s)
  case (Cons c s)
  {
    case 1
    then show ?case using Cons link_chars_delimiter [of c] by (cases "c \<in> {47, 63, 35, 58}") (auto simp: link_chars_def)
  next
    case 2
    then show ?case using Cons link_chars_delimiter [of c] by (cases "c \<in> {47, 63, 35, 58}") (auto simp: link_chars_def)
  }
qed (simp_all add: link_chars_def)

section \<open>A concrete instance\<close>

text \<open>JSON values, and versions of numbers between dots, for the witnesses.\<close>

datatype demo_value = DStr rstr | DBool bool | DNum u64 | DArr "demo_value list" | DObj "(rstr \<times> demo_value) list"

definition demo_json :: "demo_value json" where
  "demo_json =
     \<lparr>j_get = (\<lambda>v key. case v of DObj kvs \<Rightarrow> map_of kvs key | _ \<Rightarrow> None),
      j_str = (\<lambda>v. case v of DStr s \<Rightarrow> Some s | _ \<Rightarrow> None),
      j_bool = (\<lambda>v. case v of DBool b \<Rightarrow> Some b | _ \<Rightarrow> None),
      j_u64 = (\<lambda>v. case v of DNum n \<Rightarrow> Some n | _ \<Rightarrow> None),
      j_array = (\<lambda>v. case v of DArr vs \<Rightarrow> Some vs | _ \<Rightarrow> None)\<rparr>"

definition demo_semver :: "rstr \<Rightarrow> nat list option" where
  "demo_semver s = those (map (parse_uint 64) (split_on 46 s))"

definition demo_release :: "string \<Rightarrow> demo_value" where
  "demo_release tag = DObj [(lit ''tag_name'', DStr (lit tag)), (lit ''draft'', DBool False)]"

definition demo_github :: "demo_value github" where
  "demo_github url = Inr (DArr [demo_release ''v1.2.0'', demo_release ''v1.10.0'', demo_release ''v0.9.0''])"

definition demo_update :: available_update where
  "demo_update =
     \<lparr>au_version = lit ''1.10.0'', au_tag = lit ''v1.10.0'', au_prerelease = False, au_release_notes_url = [],
      au_published_at = [], au_binary_size = 0, au_site_size = 0, au_catalog_size = 0\<rparr>"

section \<open>Properties\<close>



text \<open>
  The changelog lists exactly the accepted releases of the response, each newer than the
  running version, from the newest to the oldest.
\<close>

lemma changelog_newest_first:
  assumes "fetch_changelog js semver render github current base_url repo = Inr es"
  shows "sorted_wrt (\<lambda>a b. the (semver (ce_version b)) \<le> the (semver (ce_version a))) es \<and>
    (\<forall>e \<in> set es. is_newer semver current (ce_version e)) \<and>
    (\<exists>response. github (base_url @ lit ''/repos/'' @ repo @ lit ''/releases?per_page=30'') = Inr response \<and>
      mset es = mset (List.map_filter (\<lambda>r. parse_changelog_entry js semver render r current) (unwrap_or [] (j_array js response))))"
proof -
  obtain response where response: "github (base_url @ lit ''/repos/'' @ repo @ lit ''/releases?per_page=30'') = Inr response"
    and es: "es = newest_first semver
      (List.map_filter (\<lambda>r. parse_changelog_entry js semver render r current) (unwrap_or [] (j_array js response)))"
    using assms by (auto simp: fetch_changelog_def split: sum.splits)
  have newer: "is_newer semver current (ce_version e)" if "parse_changelog_entry js semver render v current = Some e" for v e
    using that by (auto simp: parse_changelog_entry_def Let_def split: option.splits if_splits)
  have "is_newer semver current (ce_version e)" if "e \<in> set es" for e
    using that newer by (auto simp: es newest_first_def List.map_filter_def)
  with response newest_first_sorted newest_first_mset show ?thesis unfolding es by blast
qed

lemma changelog_newest_first_witness:
  "\<exists>es. fetch_changelog demo_json demo_semver id demo_github (lit ''1.0.0'') [] [] = Inr es \<and>
     map ce_tag es = [lit ''v1.10.0'', lit ''v1.2.0''] \<and>
     sorted_wrt (\<lambda>a b. the (demo_semver (ce_version b)) \<le> the (demo_semver (ce_version a))) es"
proof -
  obtain es where es: "fetch_changelog demo_json demo_semver id demo_github (lit ''1.0.0'') [] [] = Inr es"
    by (simp add: fetch_changelog_def demo_github_def)
  have "map_sum id (map ce_tag) (fetch_changelog demo_json demo_semver id demo_github (lit ''1.0.0'') [] []) =
      Inr [lit ''v1.10.0'', lit ''v1.2.0'']" by code_simp
  with es changelog_newest_first [OF es] show ?thesis by auto
qed

text \<open>
  A link is accepted exactly when it does not start with two slashes after white space and
  its scheme, with white space and control characters dropped, is missing
  or one of http, https and mailto. A tab between the two slashes escapes the first test, so an
  off-origin link is accepted as a relative one.
\<close>

lemma link_safe_iff:
  "(link_scheme_is_safe url \<longleftrightarrow>
      \<not> starts_with (lit ''//'') (trim_start_matches is_whitespace url) \<and>
      (browser_scheme url = None \<or> browser_scheme url \<in> Some ` {lit ''http'', lit ''https'', lit ''mailto''})) \<and>
   link_scheme_is_safe (lit ''/'' @ [9] @ lit ''/evil.example'') \<and>
   starts_with (lit ''//'') (link_chars (lit ''/'' @ [9] @ lit ''/evil.example''))"
proof (intro conjI)
  let ?P = "\<lambda>c::rchar. c \<notin> {47, 63, 35, 58}"
  let ?D = "dropWhile ?P url"
  have drop: "drop (length (takeWhile ?P (link_chars url))) (link_chars url) = link_chars ?D"
    using dropWhile_eq_drop [of ?P "link_chars url"] takeWhile_link_chars(2) [of url] by simp
  have hd: "link_chars ?D \<noteq> [] \<and> hd (link_chars ?D) = 58 \<longleftrightarrow> ?D \<noteq> [] \<and> hd ?D = 58"
  proof (cases ?D)
    case (Cons c t)
    then have "\<not> ?P c" using hd_dropWhile [of ?P url] by auto
    then have "\<not> is_whitespace c \<and> \<not> is_control c" using link_chars_delimiter by blast
    with Cons show ?thesis by (simp add: link_chars_def)
  qed (simp add: link_chars_def del: dropWhile_eq_Nil_conv)
  have scheme: "browser_scheme url =
      (if ?D \<noteq> [] \<and> hd ?D = 58 then Some (to_ascii_lowercase (link_chars (takeWhile ?P url))) else None)"
    unfolding browser_scheme_def Let_def drop hd unfolding takeWhile_link_chars(1) ..
  have scan: "scheme_scan [] url \<longleftrightarrow> ?D = [] \<or> hd ?D \<noteq> 58 \<or>
      to_ascii_lowercase (link_chars (takeWhile ?P url)) \<in> {lit ''http'', lit ''https'', lit ''mailto''}"
    unfolding scheme_scan_iff Let_def append_Nil ..
  show "link_scheme_is_safe url \<longleftrightarrow>
      \<not> starts_with (lit ''//'') (trim_start_matches is_whitespace url) \<and>
      (browser_scheme url = None \<or> browser_scheme url \<in> Some ` {lit ''http'', lit ''https'', lit ''mailto''})"
    unfolding link_scheme_is_safe_def scan scheme
    by (cases "?D \<noteq> [] \<and> hd ?D = 58") (simp_all del: dropWhile_eq_Nil_conv, blast+)
qed (code_simp, code_simp)

end
