(* ===== verification/Disc_Io.thy ===== *)
theory Disc_Io
  imports Rust_Text
begin

text \<open>
  Files, binary fields and disc readers: what the disc hashing of \<open>library/rc_hash_disc.rs\<close>
  builds on.

  An operation on a reader is a function on the reader's state: it panics, fails with an I/O
  error, or returns a value and the next state. The trait \<open>SectorReader\<close> is the record
  \<open>sector_reader\<close>; \<open>read_sector\<close> returns the bytes that the source writes to the start of the
  caller's buffer, so the result of the source is their number, and a caller that keeps one
  buffer applies \<open>fill\<close> to it. Arithmetic on \<open>u32\<close> wraps, as in a release build.
\<close>

section \<open>Results of I/O\<close>

datatype io_kind = NotFound | InvalidData | UnexpectedEof | OtherError

datatype 'a io = Panic | Fail io_kind | Done 'a

type_synonym ('s, 'a) act = "'s \<Rightarrow> ('a \<times> 's) io"

definition ret :: "'a \<Rightarrow> ('s, 'a) act" where
  "ret x s = Done (x, s)"

definition panic :: "('s, 'a) act" where
  "panic s = Panic"

definition throw :: "io_kind \<Rightarrow> ('s, 'a) act" where
  "throw e s = Fail e"

definition then_do :: "('s, 'a) act \<Rightarrow> ('a \<Rightarrow> ('s, 'b) act) \<Rightarrow> ('s, 'b) act" where
  "then_do m f s = (case m s of Panic \<Rightarrow> Panic | Fail e \<Rightarrow> Fail e | Done (x, s') \<Rightarrow> f x s')"

text \<open>A value that an earlier computation without a reader produced.\<close>

definition lift_io :: "'a io \<Rightarrow> ('s, 'a) act" where
  "lift_io r s = (case r of Panic \<Rightarrow> Panic | Fail e \<Rightarrow> Fail e | Done x \<Rightarrow> Done (x, s))"

lemma then_do_cong [fundef_cong]:
  "m = m' \<Longrightarrow> (\<And>x. f x = f' x) \<Longrightarrow> then_do m f = then_do m' f'"
  by (metis ext)

named_theorems act_simps \<open>running actions\<close>

lemma ret_app [act_simps]: "ret x s = Done (x, s)"
  by (simp add: ret_def)

lemma panic_app [act_simps]: "panic s = Panic"
  by (simp add: panic_def)

lemma throw_app [act_simps]: "throw e s = Fail e"
  by (simp add: throw_def)

lemma then_do_Done [act_simps]: "m s = Done (x, s') \<Longrightarrow> then_do m f s = f x s'"
  by (simp add: then_do_def)

lemma then_do_ret [act_simps]: "then_do (ret x) f = f x"
  by (simp add: fun_eq_iff then_do_def ret_def)

lemma then_do_throw [act_simps]: "then_do (throw e) f = throw e"
  by (simp add: fun_eq_iff then_do_def throw_def)

lemma then_do_Done_iff: "then_do m f s = Done r \<longleftrightarrow> (\<exists>x s'. m s = Done (x, s') \<and> f x s' = Done r)"
  by (auto simp: then_do_def split: io.splits)

lemma then_do_Panic_iff: "then_do m f s = Panic \<longleftrightarrow> m s = Panic \<or> (\<exists>x s'. m s = Done (x, s') \<and> f x s' = Panic)"
  by (auto simp: then_do_def split: io.splits)

section \<open>Binary fields\<close>

definition byte_at :: "u8 list \<Rightarrow> nat \<Rightarrow> nat" where
  "byte_at bs i = unat (bs ! i)"

definition le16 :: "u8 list \<Rightarrow> nat \<Rightarrow> nat" where
  "le16 bs i = byte_at bs i + 256 * byte_at bs (i + 1)"

definition le32 :: "u8 list \<Rightarrow> nat \<Rightarrow> u32" where
  "le32 bs i =
     of_nat (byte_at bs i + 256 * byte_at bs (i + 1) + 65536 * byte_at bs (i + 2) + 16777216 * byte_at bs (i + 3))"

definition be32 :: "u8 list \<Rightarrow> nat \<Rightarrow> u32" where
  "be32 bs i =
     of_nat (16777216 * byte_at bs i + 65536 * byte_at bs (i + 1) + 256 * byte_at bs (i + 2) + byte_at bs (i + 3))"

definition le64 :: "u8 list \<Rightarrow> nat \<Rightarrow> nat" where
  "le64 bs i = unat (le32 bs i) + 4294967296 * unat (le32 bs (i + 4))"

definition be64 :: "u8 list \<Rightarrow> nat \<Rightarrow> nat" where
  "be64 bs i = 4294967296 * unat (be32 bs i) + unat (be32 bs (i + 4))"

definition be3 :: "u8 list \<Rightarrow> nat \<Rightarrow> u32" where
  "be3 b i = of_nat (byte_at b i * 65536 + byte_at b (i + 1) * 256 + byte_at b (i + 2))"

text \<open>\<open>b"..."\<close>: the bytes of an ASCII literal.\<close>

definition bytes_lit :: "string \<Rightarrow> u8 list" where
  "bytes_lit s = map (\<lambda>c. of_nat (of_char c)) s"

text \<open>\<open>b as char\<close> for a run of bytes.\<close>

definition latin1 :: "u8 list \<Rightarrow> rstr" where
  "latin1 bs = map unat bs"

text \<open>\<open>eq_ignore_ascii_case\<close> and \<open>to_ascii_uppercase\<close> on strings.\<close>

definition eq_ignore_case :: "rstr \<Rightarrow> rstr \<Rightarrow> bool" where
  "eq_ignore_case a b \<longleftrightarrow> to_ascii_lowercase a = to_ascii_lowercase b"

definition to_ascii_uppercase :: "rstr \<Rightarrow> rstr" where
  "to_ascii_uppercase s = map to_ascii_uppercase_char s"

definition is_ascii_whitespace :: "rchar \<Rightarrow> bool" where
  "is_ascii_whitespace c \<longleftrightarrow> c \<in> {9, 10, 12, 13, 32}"

text \<open>\<open>String::from_utf8_lossy\<close>: each maximal ill-formed run becomes U+FFFD.\<close>

fun utf8_lossy :: "u8 list \<Rightarrow> rstr" where
  "utf8_lossy [] = []"
| "utf8_lossy (b # bs) =
     (if unat b < 128 then unat b # utf8_lossy bs
      else if in_range 194 223 b then
        (case bs of
           c1 # r1 \<Rightarrow> if cont_byte c1 then ((unat b - 192) * 64 + low6 c1) # utf8_lossy r1 else 65533 # utf8_lossy bs
         | [] \<Rightarrow> [65533])
      else if in_range 224 239 b then
        (case bs of
           c1 # r1 \<Rightarrow>
             if in_range (if unat b = 224 then 160 else 128) (if unat b = 237 then 159 else 191) c1
             then (case r1 of
                     c2 # r2 \<Rightarrow>
                       if cont_byte c2
                       then ((unat b - 224) * 4096 + low6 c1 * 64 + low6 c2) # utf8_lossy r2
                       else 65533 # utf8_lossy r1
                   | [] \<Rightarrow> [65533])
             else 65533 # utf8_lossy bs
         | [] \<Rightarrow> [65533])
      else if in_range 240 244 b then
        (case bs of
           c1 # r1 \<Rightarrow>
             if in_range (if unat b = 240 then 144 else 128) (if unat b = 244 then 143 else 191) c1
             then (case r1 of
                     c2 # r2 \<Rightarrow>
                       if cont_byte c2
                       then (case r2 of
                               c3 # r3 \<Rightarrow>
                                 if cont_byte c3
                                 then ((unat b - 240) * 262144 + low6 c1 * 4096 + low6 c2 * 64 + low6 c3) # utf8_lossy r3
                                 else 65533 # utf8_lossy r2
                             | [] \<Rightarrow> [65533])
                       else 65533 # utf8_lossy r1
                   | [] \<Rightarrow> [65533])
             else 65533 # utf8_lossy bs
         | [] \<Rightarrow> [65533])
      else 65533 # utf8_lossy bs)"

declare utf8_lossy.simps(2) [simp del]

lemma utf8_lossy_ascii: "\<forall>b \<in> set bs. unat b < 128 \<Longrightarrow> utf8_lossy bs = latin1 bs"
  by (induction bs) (simp_all add: utf8_lossy.simps(2) latin1_def)

section \<open>Files\<close>

text \<open>
  The bytes of a file and the positions that the device cannot read. \<open>file_read\<close> seeks and
  reads until the buffer is full or the file ends; a seek beyond \<open>i64::MAX\<close> fails.
\<close>

record disk_file =
  fi_bytes :: "u8 list"
  fi_fault :: "nat \<Rightarrow> bool"

definition file_read :: "disk_file \<Rightarrow> nat \<Rightarrow> nat \<Rightarrow> u8 list io" where
  "file_read f off n =
     (let bs = take n (drop off (fi_bytes f))
      in if 2 ^ 63 \<le> off then Fail OtherError
         else if list_ex (fi_fault f) [off ..< off + length bs] then Fail OtherError
         else Done bs)"

definition file_read_exact :: "disk_file \<Rightarrow> nat \<Rightarrow> nat \<Rightarrow> u8 list io" where
  "file_read_exact f off n =
     (case file_read f off n of
        Done bs \<Rightarrow> if length bs < n then Fail UnexpectedEof else Done bs
      | r \<Rightarrow> r)"

lemma file_read_length: "file_read f off n = Done bs \<Longrightarrow> length bs \<le> n"
  by (auto simp: file_read_def Let_def split: if_splits)

lemma file_read_exact_length: "file_read_exact f off n = Done bs \<Longrightarrow> length bs = n"
  by (auto simp: file_read_exact_def split: io.splits if_splits dest: file_read_length)

lemma file_read_no_panic [simp]: "file_read f off n \<noteq> Panic" "file_read_exact f off n \<noteq> Panic"
  by (auto simp: file_read_exact_def file_read_def Let_def split: io.splits)

section \<open>Sector readers\<close>

abbreviation SECTOR_USER :: nat where
  "SECTOR_USER \<equiv> 2048"

abbreviation MAX_BUFFER_SIZE :: nat where
  "MAX_BUFFER_SIZE \<equiv> 67108864"

record 's sector_reader =
  read_sector :: "u32 \<Rightarrow> ('s, u8 list) act"
  first_track_sector :: u32

definition fill :: "u8 list \<Rightarrow> u8 list \<Rightarrow> u8 list" where
  "fill buf bs = bs @ drop (length bs) buf"

definition zero_sector :: "u8 list" where
  "zero_sector = replicate SECTOR_USER 0"

lemma length_zero_sector [simp]: "length zero_sector = 2048"
  by (simp add: zero_sector_def)

lemma length_fill [simp]: "length bs \<le> length buf \<Longrightarrow> length (fill buf bs) = length buf"
  by (simp add: fill_def)

lemma fill_whole: "length bs = length buf \<Longrightarrow> fill buf bs = bs"
  by (simp add: fill_def)

text \<open>
  Two actions agree on the states that a relation pairs: they give the same value or the same
  error, and related states.
\<close>

definition sim :: "('s \<Rightarrow> 't \<Rightarrow> bool) \<Rightarrow> ('s, 'a) act \<Rightarrow> ('t, 'a) act \<Rightarrow> bool" where
  "sim R m n \<longleftrightarrow> (\<forall>s t. R s t \<longrightarrow> rel_io (rel_prod (=) R) (m s) (n t))"

named_theorems sim_intros \<open>agreement of actions\<close>

lemma simD: "sim R m n \<Longrightarrow> R s t \<Longrightarrow> rel_io (rel_prod (=) R) (m s) (n t)"
  by (simp add: sim_def)

lemma sim_ret [sim_intros]: "sim R (ret x) (ret x)"
  by (simp add: sim_def ret_def)

lemma sim_throw [sim_intros]: "sim R (throw e) (throw e)"
  by (simp add: sim_def throw_def)

lemma sim_panic [sim_intros]: "sim R panic panic"
  by (simp add: sim_def panic_def)

lemma sim_lift_io [sim_intros]: "sim R (lift_io r) (lift_io r)"
  by (simp add: sim_def lift_io_def split: io.splits)

lemma sim_then_do [sim_intros]:
  assumes "sim R m n" and "\<And>x. sim R (f x) (g x)"
  shows "sim R (then_do m f) (then_do n g)"
  unfolding sim_def
proof (intro allI impI)
  fix s t
  assume "R s t"
  with assms(1) have "rel_io (rel_prod (=) R) (m s) (n t)" by (rule simD)
  then show "rel_io (rel_prod (=) R) (then_do m f s) (then_do n g t)"
    using assms(2) by cases (auto simp: then_do_def intro: simD)
qed

lemma sim_if [sim_intros]: "(b \<Longrightarrow> sim R m n) \<Longrightarrow> (\<not> b \<Longrightarrow> sim R m' n') \<Longrightarrow> sim R (if b then m else m') (if b then n else n')"
  by simp

lemma sim_option [sim_intros]:
  "sim R m n \<Longrightarrow> (\<And>x. sim R (f x) (g x)) \<Longrightarrow> sim R (case v of None \<Rightarrow> m | Some x \<Rightarrow> f x) (case v of None \<Rightarrow> n | Some x \<Rightarrow> g x)"
  by (cases v) simp_all

lemma sim_prod [sim_intros]: "(\<And>x y. sim R (f x y) (g x y)) \<Longrightarrow> sim R (case p of (x, y) \<Rightarrow> f x y) (case p of (x, y) \<Rightarrow> g x y)"
  by (cases p) simp

lemma sim_Let [sim_intros]: "(\<And>x. sim R (f x) (g x)) \<Longrightarrow> sim R (let x = v in f x) (let x = v in g x)"
  by simp

text \<open>What a run of an action returns, without the final state.\<close>

definition result :: "('a \<times> 's) io \<Rightarrow> 'a io" where
  "result r = map_io fst r"

lemma result_Panic_iff: "map_option result r = Some Panic \<longleftrightarrow> r = Some Panic"
proof (cases r)
  case (Some x)
  then show ?thesis by (cases x) (simp_all add: result_def)
qed simp

lemma sim_result: "sim R m n \<Longrightarrow> R s t \<Longrightarrow> result (m s) = result (n t)"
  using simD [of R m n s t] by (auto simp: result_def elim!: io.rel_cases)

text \<open>
  The contract of \<open>SectorReader\<close>. A reader with hidden state (a seek position, a cache of
  decompressed blocks) presents a fixed disc: in every state its invariant allows, reading a
  sector gives what the disc \<open>image\<close> holds there, whatever was read before.
\<close>

type_synonym image = "u32 \<Rightarrow> u8 list io"

definition image_reader :: "image \<Rightarrow> u32 \<Rightarrow> unit sector_reader" where
  "image_reader img first = \<lparr>read_sector = (\<lambda>n. lift_io (img n)), first_track_sector = first\<rparr>"

locale sector_source =
  fixes rd :: "'s sector_reader" and img :: image and inv :: "'s \<Rightarrow> bool"
  assumes read_image: "inv s \<Longrightarrow>
      (case img n of Panic \<Rightarrow> read_sector rd n s = Panic | Fail e \<Rightarrow> read_sector rd n s = Fail e
       | Done bs \<Rightarrow> \<exists>s'. read_sector rd n s = Done (bs, s') \<and> inv s')"
    and image_bound: "img n = Done bs \<Longrightarrow> length bs \<le> SECTOR_USER"
    and image_no_panic: "img n \<noteq> Panic"
begin

definition pure_reader :: "unit sector_reader" where
  "pure_reader = image_reader img (first_track_sector rd)"

definition same :: "'s \<Rightarrow> unit \<Rightarrow> bool" where
  "same s t \<longleftrightarrow> inv s"

lemma sim_read: "sim same (read_sector rd n) (read_sector pure_reader n)"
  unfolding sim_def
proof (intro allI impI)
  fix s t
  assume "same s t"
  then show "rel_io (rel_prod (=) same) (read_sector rd n s) (read_sector pure_reader n t)"
    using read_image [of s n]
    by (cases "img n") (auto simp: pure_reader_def image_reader_def lift_io_def same_def)
qed

end

end
