(* ===== verification/Systems.thy ===== *)
theory Systems
  imports Rust_Text
begin

text \<open>
  The system registry of \<open>platform/systems.rs\<close>: one record per emulated system, the lookups by
  folder name, the map from LaunchBox platform names with its fingerprint, and the sources of
  arcade metadata. The CRC-32 of the crate \<open>crc32fast\<close> and the URL encoder of the crate \<open>url\<close>
  are parameters.
\<close>

section \<open>Types\<close>

datatype system_category = Arcade | Console | Computer | Handheld | Utility

record cart_hash_rule =
  ch_extensions :: "rstr list"
  excluded_name_markers :: "rstr list"

datatype rc_hash_kind =
    Nes | Snes | N64 | VirtualBoy | Psx | Psp | SegaCd | DreamcastDisc | ThreeDo | PceCd | NeoGeoCd
  | JaguarCd | GameCube | Wii | Ps2

definition is_cart :: "rc_hash_kind \<Rightarrow> bool" where
  "is_cart k \<longleftrightarrow> k = Nes \<or> k = Snes \<or> k = N64 \<or> k = VirtualBoy"

definition is_disc :: "rc_hash_kind \<Rightarrow> bool" where
  "is_disc k \<longleftrightarrow> \<not> is_cart k"

record rom_system =
  sy_folder_name :: rstr
  sy_shared_manuals_folder :: "rstr option"
  sy_retrokit_manuals_folder :: "rstr option"
  sy_cart_hash :: "cart_hash_rule option"
  sy_rc_kind :: "rc_hash_kind option"
  sy_nointro_dats :: "rstr list"
  sy_tgdb_platform_ids :: "nat list"
  sy_mister_manual_repos :: "rstr list"
  sy_display_name :: rstr
  sy_manufacturer :: rstr
  sy_category :: system_category
  sy_extensions :: "rstr list"
  sy_abbreviation :: rstr
  sy_placeholder_color :: rstr
  sy_launchbox_platforms :: "rstr list"
  sy_hidden :: bool
  sy_uses_megabit :: bool
  sy_thumbnail_repos :: "rstr list"
  sy_has_retroachievements :: bool
  sy_core_supports_retroachievements :: bool

section \<open>The registry\<close>

definition sys_arcade_fbneo :: rom_system where
  "sys_arcade_fbneo =
     \<lparr>sy_folder_name = lit ''arcade_fbneo'', sy_shared_manuals_folder = Some (lit ''arcade''), sy_retrokit_manuals_folder = Some (lit ''arcade''),
      sy_cart_hash = None, sy_rc_kind = None,
      sy_nointro_dats = [],
      sy_tgdb_platform_ids = [], sy_mister_manual_repos = [],
      sy_display_name = lit ''Arcade (FBNeo)'', sy_manufacturer = lit ''Various'', sy_category = Arcade,
      sy_extensions = [lit ''zip''],
      sy_abbreviation = lit ''FBN'', sy_placeholder_color = lit ''#1a1a2e'',
      sy_launchbox_platforms = [lit ''Arcade''], sy_hidden = False, sy_uses_megabit = True,
      sy_thumbnail_repos = [lit ''FBNeo - Arcade Games'', lit ''MAME''],
      sy_has_retroachievements = True, sy_core_supports_retroachievements = True\<rparr>"

definition sys_arcade_mame :: rom_system where
  "sys_arcade_mame =
     \<lparr>sy_folder_name = lit ''arcade_mame'', sy_shared_manuals_folder = Some (lit ''arcade''), sy_retrokit_manuals_folder = Some (lit ''arcade''),
      sy_cart_hash = None, sy_rc_kind = None,
      sy_nointro_dats = [],
      sy_tgdb_platform_ids = [], sy_mister_manual_repos = [],
      sy_display_name = lit ''Arcade (MAME)'', sy_manufacturer = lit ''Various'', sy_category = Arcade,
      sy_extensions = [lit ''zip''],
      sy_abbreviation = lit ''MAME'', sy_placeholder_color = lit ''#1a1a2e'',
      sy_launchbox_platforms = [lit ''Arcade''], sy_hidden = False, sy_uses_megabit = True,
      sy_thumbnail_repos = [lit ''MAME'', lit ''FBNeo - Arcade Games''],
      sy_has_retroachievements = True, sy_core_supports_retroachievements = False\<rparr>"

definition sys_arcade_mame_2k3p :: rom_system where
  "sys_arcade_mame_2k3p =
     \<lparr>sy_folder_name = lit ''arcade_mame_2k3p'', sy_shared_manuals_folder = Some (lit ''arcade''), sy_retrokit_manuals_folder = Some (lit ''arcade''),
      sy_cart_hash = None, sy_rc_kind = None,
      sy_nointro_dats = [],
      sy_tgdb_platform_ids = [], sy_mister_manual_repos = [],
      sy_display_name = lit ''Arcade (MAME 2003+)'', sy_manufacturer = lit ''Various'', sy_category = Arcade,
      sy_extensions = [lit ''zip''],
      sy_abbreviation = lit ''2K3P'', sy_placeholder_color = lit ''#1a1a2e'',
      sy_launchbox_platforms = [lit ''Arcade''], sy_hidden = False, sy_uses_megabit = True,
      sy_thumbnail_repos = [lit ''MAME'', lit ''FBNeo - Arcade Games''],
      sy_has_retroachievements = True, sy_core_supports_retroachievements = False\<rparr>"

definition sys_arcade_dc :: rom_system where
  "sys_arcade_dc =
     \<lparr>sy_folder_name = lit ''arcade_dc'', sy_shared_manuals_folder = Some (lit ''arcade''), sy_retrokit_manuals_folder = Some (lit ''arcade''),
      sy_cart_hash = None, sy_rc_kind = None,
      sy_nointro_dats = [],
      sy_tgdb_platform_ids = [], sy_mister_manual_repos = [],
      sy_display_name = lit ''Arcade (Atomiswave/Naomi)'', sy_manufacturer = lit ''Various'', sy_category = Arcade,
      sy_extensions = [lit ''zip'', lit ''chd''],
      sy_abbreviation = lit ''NAO'', sy_placeholder_color = lit ''#1a1a2e'',
      sy_launchbox_platforms = [lit ''Sammy Atomiswave'', lit ''Sega Naomi'', lit ''Sega Naomi 2''], sy_hidden = False, sy_uses_megabit = False,
      sy_thumbnail_repos = [lit ''Atomiswave'', lit ''Sega - Naomi'', lit ''Sega - Naomi 2''],
      sy_has_retroachievements = True, sy_core_supports_retroachievements = True\<rparr>"

definition sys_arcade_stv :: rom_system where
  "sys_arcade_stv =
     \<lparr>sy_folder_name = lit ''arcade_stv'', sy_shared_manuals_folder = Some (lit ''arcade''), sy_retrokit_manuals_folder = Some (lit ''arcade''),
      sy_cart_hash = None, sy_rc_kind = None,
      sy_nointro_dats = [],
      sy_tgdb_platform_ids = [], sy_mister_manual_repos = [],
      sy_display_name = lit ''Sega Titan Video (ST-V)'', sy_manufacturer = lit ''Sega'', sy_category = Arcade,
      sy_extensions = [lit ''zip''],
      sy_abbreviation = lit ''STV'', sy_placeholder_color = lit ''#1a1a2e'',
      sy_launchbox_platforms = [lit ''Sega ST-V'', lit ''Arcade''], sy_hidden = False, sy_uses_megabit = True,
      sy_thumbnail_repos = [lit ''MAME''],
      sy_has_retroachievements = True, sy_core_supports_retroachievements = False\<rparr>"

definition sys_arcade_triforce :: rom_system where
  "sys_arcade_triforce =
     \<lparr>sy_folder_name = lit ''arcade_triforce'', sy_shared_manuals_folder = Some (lit ''arcade''), sy_retrokit_manuals_folder = Some (lit ''arcade''),
      sy_cart_hash = None, sy_rc_kind = None,
      sy_nointro_dats = [],
      sy_tgdb_platform_ids = [], sy_mister_manual_repos = [],
      sy_display_name = lit ''Arcade Triforce'', sy_manufacturer = lit ''Nintendo / Sega / Namco'', sy_category = Arcade,
      sy_extensions = [lit ''gcm'', lit ''iso'', lit ''ciso'', lit ''gcz'', lit ''elf'', lit ''dol'', lit ''dff'', lit ''tgc'', lit ''rvz'', lit ''m3u'', lit ''wia''],
      sy_abbreviation = lit ''TRI'', sy_placeholder_color = lit ''#6b5f9f'',
      sy_launchbox_platforms = [lit ''Arcade''], sy_hidden = False, sy_uses_megabit = False,
      sy_thumbnail_repos = [lit ''MAME''],
      sy_has_retroachievements = False, sy_core_supports_retroachievements = False\<rparr>"

definition sys_atari_2600 :: rom_system where
  "sys_atari_2600 =
     \<lparr>sy_folder_name = lit ''atari_2600'', sy_shared_manuals_folder = None, sy_retrokit_manuals_folder = Some (lit ''atari2600''),
      sy_cart_hash = None, sy_rc_kind = None,
      sy_nointro_dats = [],
      sy_tgdb_platform_ids = [22], sy_mister_manual_repos = [lit ''manualsdb-atari2600''],
      sy_display_name = lit ''Atari 2600'', sy_manufacturer = lit ''Atari'', sy_category = Console,
      sy_extensions = [lit ''a26'', lit ''bin''],
      sy_abbreviation = lit ''2600'', sy_placeholder_color = lit ''#8b4513'',
      sy_launchbox_platforms = [lit ''Atari 2600''], sy_hidden = False, sy_uses_megabit = True,
      sy_thumbnail_repos = [lit ''Atari - 2600''],
      sy_has_retroachievements = False, sy_core_supports_retroachievements = False\<rparr>"

definition sys_atari_5200 :: rom_system where
  "sys_atari_5200 =
     \<lparr>sy_folder_name = lit ''atari_5200'', sy_shared_manuals_folder = None, sy_retrokit_manuals_folder = Some (lit ''atari5200''),
      sy_cart_hash = None, sy_rc_kind = None,
      sy_nointro_dats = [],
      sy_tgdb_platform_ids = [26], sy_mister_manual_repos = [lit ''manualsdb-atari5200''],
      sy_display_name = lit ''Atari 5200'', sy_manufacturer = lit ''Atari'', sy_category = Console,
      sy_extensions = [lit ''a52'', lit ''bin''],
      sy_abbreviation = lit ''5200'', sy_placeholder_color = lit ''#8b4513'',
      sy_launchbox_platforms = [lit ''Atari 5200''], sy_hidden = False, sy_uses_megabit = True,
      sy_thumbnail_repos = [lit ''Atari - 5200''],
      sy_has_retroachievements = False, sy_core_supports_retroachievements = False\<rparr>"

definition sys_atari_7800 :: rom_system where
  "sys_atari_7800 =
     \<lparr>sy_folder_name = lit ''atari_7800'', sy_shared_manuals_folder = None, sy_retrokit_manuals_folder = Some (lit ''atari7800''),
      sy_cart_hash = None, sy_rc_kind = None,
      sy_nointro_dats = [],
      sy_tgdb_platform_ids = [27], sy_mister_manual_repos = [lit ''manualsdb-atari7800''],
      sy_display_name = lit ''Atari 7800'', sy_manufacturer = lit ''Atari'', sy_category = Console,
      sy_extensions = [lit ''a78'', lit ''bin'', lit ''cdf''],
      sy_abbreviation = lit ''7800'', sy_placeholder_color = lit ''#8b4513'',
      sy_launchbox_platforms = [lit ''Atari 7800''], sy_hidden = False, sy_uses_megabit = True,
      sy_thumbnail_repos = [lit ''Atari - 7800''],
      sy_has_retroachievements = False, sy_core_supports_retroachievements = False\<rparr>"

definition sys_atari_jaguar :: rom_system where
  "sys_atari_jaguar =
     \<lparr>sy_folder_name = lit ''atari_jaguar'', sy_shared_manuals_folder = None, sy_retrokit_manuals_folder = Some (lit ''atarijaguar''),
      sy_cart_hash = None, sy_rc_kind = None,
      sy_nointro_dats = [],
      sy_tgdb_platform_ids = [28], sy_mister_manual_repos = [lit ''manualsdb-jaguar''],
      sy_display_name = lit ''Atari Jaguar'', sy_manufacturer = lit ''Atari'', sy_category = Console,
      sy_extensions = [lit ''j64'', lit ''jag'', lit ''rom'', lit ''abs''],
      sy_abbreviation = lit ''JAG'', sy_placeholder_color = lit ''#8b4513'',
      sy_launchbox_platforms = [lit ''Atari Jaguar''], sy_hidden = False, sy_uses_megabit = True,
      sy_thumbnail_repos = [lit ''Atari - Jaguar''],
      sy_has_retroachievements = False, sy_core_supports_retroachievements = False\<rparr>"

definition sys_atari_jaguarcd :: rom_system where
  "sys_atari_jaguarcd =
     \<lparr>sy_folder_name = lit ''atari_jaguarcd'', sy_shared_manuals_folder = None, sy_retrokit_manuals_folder = Some (lit ''atarijaguar''),
      sy_cart_hash = None, sy_rc_kind = Some JaguarCd,
      sy_nointro_dats = [],
      sy_tgdb_platform_ids = [29], sy_mister_manual_repos = [lit ''manualsdb-jaguarcd''],
      sy_display_name = lit ''Atari Jaguar CD'', sy_manufacturer = lit ''Atari'', sy_category = Console,
      sy_extensions = [lit ''cue'', lit ''cdi'', lit ''chd''],
      sy_abbreviation = lit ''JCD'', sy_placeholder_color = lit ''#8b4513'',
      sy_launchbox_platforms = [lit ''Atari Jaguar CD''], sy_hidden = False, sy_uses_megabit = False,
      sy_thumbnail_repos = [lit ''Atari - Jaguar''],
      sy_has_retroachievements = True, sy_core_supports_retroachievements = True\<rparr>"

definition sys_atari_lynx :: rom_system where
  "sys_atari_lynx =
     \<lparr>sy_folder_name = lit ''atari_lynx'', sy_shared_manuals_folder = None, sy_retrokit_manuals_folder = Some (lit ''atarilynx''),
      sy_cart_hash = None, sy_rc_kind = None,
      sy_nointro_dats = [],
      sy_tgdb_platform_ids = [4924], sy_mister_manual_repos = [lit ''manualsdb-atarilynx''],
      sy_display_name = lit ''Atari Lynx'', sy_manufacturer = lit ''Atari'', sy_category = Handheld,
      sy_extensions = [lit ''lnx''],
      sy_abbreviation = lit ''LYNX'', sy_placeholder_color = lit ''#8b4513'',
      sy_launchbox_platforms = [lit ''Atari Lynx''], sy_hidden = False, sy_uses_megabit = True,
      sy_thumbnail_repos = [lit ''Atari - Lynx''],
      sy_has_retroachievements = False, sy_core_supports_retroachievements = False\<rparr>"

definition sys_amstrad_cpc :: rom_system where
  "sys_amstrad_cpc =
     \<lparr>sy_folder_name = lit ''amstrad_cpc'', sy_shared_manuals_folder = None, sy_retrokit_manuals_folder = None,
      sy_cart_hash = None, sy_rc_kind = None,
      sy_nointro_dats = [],
      sy_tgdb_platform_ids = [4914], sy_mister_manual_repos = [],
      sy_display_name = lit ''Amstrad CPC'', sy_manufacturer = lit ''Amstrad'', sy_category = Computer,
      sy_extensions = [lit ''dsk'', lit ''sna'', lit ''tap'', lit ''cdt'', lit ''voc'', lit ''cpr'', lit ''m3u''],
      sy_abbreviation = lit ''CPC'', sy_placeholder_color = lit ''#2a4858'',
      sy_launchbox_platforms = [lit ''Amstrad CPC''], sy_hidden = False, sy_uses_megabit = False,
      sy_thumbnail_repos = [lit ''Amstrad - CPC''],
      sy_has_retroachievements = False, sy_core_supports_retroachievements = False\<rparr>"

definition sys_commodore_ami :: rom_system where
  "sys_commodore_ami =
     \<lparr>sy_folder_name = lit ''commodore_ami'', sy_shared_manuals_folder = None, sy_retrokit_manuals_folder = Some (lit ''amiga''),
      sy_cart_hash = Some \<lparr>ch_extensions = [lit ''lha'', lit ''adf'', lit ''adz'', lit ''dms'', lit ''ipf''], excluded_name_markers = []\<rparr>, sy_rc_kind = None,
      sy_nointro_dats = [],
      sy_tgdb_platform_ids = [4911], sy_mister_manual_repos = [],
      sy_display_name = lit ''Commodore Amiga'', sy_manufacturer = lit ''Commodore'', sy_category = Computer,
      sy_extensions = [lit ''adf'', lit ''hdf'', lit ''ipf'', lit ''lha'', lit ''adz'', lit ''dms'', lit ''fdi'', lit ''raw'', lit ''hdz'', lit ''slave'', lit ''info'', lit ''uae'', lit ''m3u''],
      sy_abbreviation = lit ''AMI'', sy_placeholder_color = lit ''#4a3728'',
      sy_launchbox_platforms = [lit ''Commodore Amiga''], sy_hidden = False, sy_uses_megabit = False,
      sy_thumbnail_repos = [lit ''Commodore - Amiga''],
      sy_has_retroachievements = False, sy_core_supports_retroachievements = False\<rparr>"

definition sys_commodore_amicd :: rom_system where
  "sys_commodore_amicd =
     \<lparr>sy_folder_name = lit ''commodore_amicd'', sy_shared_manuals_folder = None, sy_retrokit_manuals_folder = None,
      sy_cart_hash = None, sy_rc_kind = None,
      sy_nointro_dats = [],
      sy_tgdb_platform_ids = [4947], sy_mister_manual_repos = [],
      sy_display_name = lit ''Commodore Amiga CD'', sy_manufacturer = lit ''Commodore'', sy_category = Computer,
      sy_extensions = [lit ''iso'', lit ''cue'', lit ''chd'', lit ''ccd'', lit ''nrg'', lit ''mds'', lit ''m3u''],
      sy_abbreviation = lit ''ACD'', sy_placeholder_color = lit ''#4a3728'',
      sy_launchbox_platforms = [lit ''Commodore Amiga CD32''], sy_hidden = False, sy_uses_megabit = False,
      sy_thumbnail_repos = [lit ''Commodore - CD32'', lit ''Commodore - CDTV''],
      sy_has_retroachievements = False, sy_core_supports_retroachievements = False\<rparr>"

definition sys_commodore_c64 :: rom_system where
  "sys_commodore_c64 =
     \<lparr>sy_folder_name = lit ''commodore_c64'', sy_shared_manuals_folder = None, sy_retrokit_manuals_folder = Some (lit ''c64''),
      sy_cart_hash = None, sy_rc_kind = None,
      sy_nointro_dats = [],
      sy_tgdb_platform_ids = [40], sy_mister_manual_repos = [],
      sy_display_name = lit ''Commodore 64'', sy_manufacturer = lit ''Commodore'', sy_category = Computer,
      sy_extensions = [lit ''d64'', lit ''t64'', lit ''tap'', lit ''prg'', lit ''crt'', lit ''d71'', lit ''d80'', lit ''d81'', lit ''d82'', lit ''g64'', lit ''g41'', lit ''x64'', lit ''p00'', lit ''bin'', lit ''gz'', lit ''d6z'', lit ''d8z'', lit ''g6z'', lit ''g4z'', lit ''x6z'', lit ''cmd'', lit ''m3u'', lit ''vfl'', lit ''vs''],
      sy_abbreviation = lit ''C64'', sy_placeholder_color = lit ''#4a3728'',
      sy_launchbox_platforms = [lit ''Commodore 64''], sy_hidden = False, sy_uses_megabit = False,
      sy_thumbnail_repos = [lit ''Commodore - 64''],
      sy_has_retroachievements = False, sy_core_supports_retroachievements = False\<rparr>"

definition sys_ibm_pc :: rom_system where
  "sys_ibm_pc =
     \<lparr>sy_folder_name = lit ''ibm_pc'', sy_shared_manuals_folder = Some (lit ''pc''), sy_retrokit_manuals_folder = Some (lit ''pc''),
      sy_cart_hash = None, sy_rc_kind = None,
      sy_nointro_dats = [],
      sy_tgdb_platform_ids = [1], sy_mister_manual_repos = [],
      sy_display_name = lit ''IBM PC (DOS)'', sy_manufacturer = lit ''IBM'', sy_category = Computer,
      sy_extensions = [lit ''zip'', lit ''exe'', lit ''com'', lit ''bat'', lit ''dosz'', lit ''iso'', lit ''cue'', lit ''img'', lit ''m3u'', lit ''m3u8''],
      sy_abbreviation = lit ''DOS'', sy_placeholder_color = lit ''#2a4858'',
      sy_launchbox_platforms = [lit ''MS-DOS''], sy_hidden = False, sy_uses_megabit = False,
      sy_thumbnail_repos = [lit ''DOS''],
      sy_has_retroachievements = False, sy_core_supports_retroachievements = False\<rparr>"

definition sys_microsoft_msx :: rom_system where
  "sys_microsoft_msx =
     \<lparr>sy_folder_name = lit ''microsoft_msx'', sy_shared_manuals_folder = None, sy_retrokit_manuals_folder = None,
      sy_cart_hash = Some \<lparr>ch_extensions = [lit ''rom'', lit ''mx1'', lit ''mx2''], excluded_name_markers = []\<rparr>, sy_rc_kind = None,
      sy_nointro_dats = [lit ''Microsoft - MSX.dat'', lit ''Microsoft - MSX2.dat''],
      sy_tgdb_platform_ids = [4929], sy_mister_manual_repos = [],
      sy_display_name = lit ''MSX'', sy_manufacturer = lit ''Microsoft'', sy_category = Computer,
      sy_extensions = [lit ''rom'', lit ''mx1'', lit ''mx2'', lit ''dsk'', lit ''ri'', lit ''col'', lit ''sg'', lit ''sc'', lit ''sf'', lit ''cas'', lit ''m3u''],
      sy_abbreviation = lit ''MSX'', sy_placeholder_color = lit ''#2a4858'',
      sy_launchbox_platforms = [lit ''Microsoft MSX'', lit ''Microsoft MSX2''], sy_hidden = False, sy_uses_megabit = False,
      sy_thumbnail_repos = [lit ''Microsoft - MSX'', lit ''Microsoft - MSX2''],
      sy_has_retroachievements = True, sy_core_supports_retroachievements = True\<rparr>"

definition sys_nec_pce :: rom_system where
  "sys_nec_pce =
     \<lparr>sy_folder_name = lit ''nec_pce'', sy_shared_manuals_folder = None, sy_retrokit_manuals_folder = Some (lit ''pcengine''),
      sy_cart_hash = None, sy_rc_kind = None,
      sy_nointro_dats = [],
      sy_tgdb_platform_ids = [34], sy_mister_manual_repos = [lit ''manualsdb-turbografx16''],
      sy_display_name = lit ''PC Engine / TurboGrafx-16'', sy_manufacturer = lit ''NEC'', sy_category = Console,
      sy_extensions = [lit ''pce'', lit ''sgx'', lit ''toc''],
      sy_abbreviation = lit ''PCE'', sy_placeholder_color = lit ''#cc3300'',
      sy_launchbox_platforms = [lit ''NEC TurboGrafx-16'', lit ''NEC PC Engine''], sy_hidden = False, sy_uses_megabit = True,
      sy_thumbnail_repos = [lit ''NEC - PC Engine - TurboGrafx 16''],
      sy_has_retroachievements = False, sy_core_supports_retroachievements = False\<rparr>"

definition sys_nec_pcecd :: rom_system where
  "sys_nec_pcecd =
     \<lparr>sy_folder_name = lit ''nec_pcecd'', sy_shared_manuals_folder = None, sy_retrokit_manuals_folder = Some (lit ''pce-cd''),
      sy_cart_hash = None, sy_rc_kind = Some PceCd,
      sy_nointro_dats = [],
      sy_tgdb_platform_ids = [4955], sy_mister_manual_repos = [lit ''manualsdb-turbografxcd''],
      sy_display_name = lit ''PC Engine CD'', sy_manufacturer = lit ''NEC'', sy_category = Console,
      sy_extensions = [lit ''cue'', lit ''chd'', lit ''ccd'', lit ''m3u''],
      sy_abbreviation = lit ''PCD'', sy_placeholder_color = lit ''#cc3300'',
      sy_launchbox_platforms = [lit ''NEC TurboGrafx-CD'', lit ''NEC PC Engine CD-ROM''], sy_hidden = False, sy_uses_megabit = False,
      sy_thumbnail_repos = [lit ''NEC - PC Engine CD - TurboGrafx-CD''],
      sy_has_retroachievements = True, sy_core_supports_retroachievements = False\<rparr>"

definition sys_nintendo_ds :: rom_system where
  "sys_nintendo_ds =
     \<lparr>sy_folder_name = lit ''nintendo_ds'', sy_shared_manuals_folder = None, sy_retrokit_manuals_folder = Some (lit ''nds''),
      sy_cart_hash = None, sy_rc_kind = None,
      sy_nointro_dats = [],
      sy_tgdb_platform_ids = [8], sy_mister_manual_repos = [],
      sy_display_name = lit ''Nintendo DS'', sy_manufacturer = lit ''Nintendo'', sy_category = Handheld,
      sy_extensions = [lit ''nds''],
      sy_abbreviation = lit ''NDS'', sy_placeholder_color = lit ''#888888'',
      sy_launchbox_platforms = [lit ''Nintendo DS''], sy_hidden = False, sy_uses_megabit = False,
      sy_thumbnail_repos = [lit ''Nintendo - Nintendo DS''],
      sy_has_retroachievements = False, sy_core_supports_retroachievements = False\<rparr>"

definition sys_nintendo_gc :: rom_system where
  "sys_nintendo_gc =
     \<lparr>sy_folder_name = lit ''nintendo_gc'', sy_shared_manuals_folder = None, sy_retrokit_manuals_folder = None,
      sy_cart_hash = None, sy_rc_kind = Some GameCube,
      sy_nointro_dats = [],
      sy_tgdb_platform_ids = [2], sy_mister_manual_repos = [],
      sy_display_name = lit ''Nintendo GameCube'', sy_manufacturer = lit ''Nintendo'', sy_category = Console,
      sy_extensions = [lit ''gcm'', lit ''iso'', lit ''ciso'', lit ''gcz'', lit ''elf'', lit ''dol'', lit ''dff'', lit ''tgc'', lit ''rvz'', lit ''m3u'', lit ''wia''],
      sy_abbreviation = lit ''GC'', sy_placeholder_color = lit ''#6355a5'',
      sy_launchbox_platforms = [lit ''Nintendo GameCube''], sy_hidden = False, sy_uses_megabit = False,
      sy_thumbnail_repos = [lit ''Nintendo - GameCube''],
      sy_has_retroachievements = True, sy_core_supports_retroachievements = False\<rparr>"

definition sys_nintendo_wii :: rom_system where
  "sys_nintendo_wii =
     \<lparr>sy_folder_name = lit ''nintendo_wii'', sy_shared_manuals_folder = None, sy_retrokit_manuals_folder = None,
      sy_cart_hash = None, sy_rc_kind = Some Wii,
      sy_nointro_dats = [],
      sy_tgdb_platform_ids = [9], sy_mister_manual_repos = [],
      sy_display_name = lit ''Nintendo Wii'', sy_manufacturer = lit ''Nintendo'', sy_category = Console,
      sy_extensions = [lit ''iso'', lit ''wbfs'', lit ''ciso'', lit ''gcz'', lit ''elf'', lit ''dol'', lit ''dff'', lit ''wad'', lit ''rvz'', lit ''m3u'', lit ''wia''],
      sy_abbreviation = lit ''WII'', sy_placeholder_color = lit ''#95b8cf'',
      sy_launchbox_platforms = [lit ''Nintendo Wii''], sy_hidden = False, sy_uses_megabit = False,
      sy_thumbnail_repos = [lit ''Nintendo - Wii''],
      sy_has_retroachievements = True, sy_core_supports_retroachievements = True\<rparr>"

definition sys_nintendo_gb :: rom_system where
  "sys_nintendo_gb =
     \<lparr>sy_folder_name = lit ''nintendo_gb'', sy_shared_manuals_folder = None, sy_retrokit_manuals_folder = Some (lit ''gb''),
      sy_cart_hash = Some \<lparr>ch_extensions = [lit ''gb'', lit ''sgb''], excluded_name_markers = []\<rparr>, sy_rc_kind = None,
      sy_nointro_dats = [lit ''Nintendo - Game Boy.dat''],
      sy_tgdb_platform_ids = [4], sy_mister_manual_repos = [lit ''manualsdb-gameboy''],
      sy_display_name = lit ''Game Boy'', sy_manufacturer = lit ''Nintendo'', sy_category = Handheld,
      sy_extensions = [lit ''gb'', lit ''sgb''],
      sy_abbreviation = lit ''GB'', sy_placeholder_color = lit ''#8b9c37'',
      sy_launchbox_platforms = [lit ''Nintendo Game Boy''], sy_hidden = False, sy_uses_megabit = True,
      sy_thumbnail_repos = [lit ''Nintendo - Game Boy''],
      sy_has_retroachievements = True, sy_core_supports_retroachievements = True\<rparr>"

definition sys_nintendo_gba :: rom_system where
  "sys_nintendo_gba =
     \<lparr>sy_folder_name = lit ''nintendo_gba'', sy_shared_manuals_folder = None, sy_retrokit_manuals_folder = Some (lit ''gba''),
      sy_cart_hash = Some \<lparr>ch_extensions = [lit ''gba''], excluded_name_markers = []\<rparr>, sy_rc_kind = None,
      sy_nointro_dats = [lit ''Nintendo - Game Boy Advance.dat''],
      sy_tgdb_platform_ids = [5], sy_mister_manual_repos = [lit ''manualsdb-gba''],
      sy_display_name = lit ''Game Boy Advance'', sy_manufacturer = lit ''Nintendo'', sy_category = Handheld,
      sy_extensions = [lit ''gba''],
      sy_abbreviation = lit ''GBA'', sy_placeholder_color = lit ''#4b0082'',
      sy_launchbox_platforms = [lit ''Nintendo Game Boy Advance''], sy_hidden = False, sy_uses_megabit = True,
      sy_thumbnail_repos = [lit ''Nintendo - Game Boy Advance''],
      sy_has_retroachievements = True, sy_core_supports_retroachievements = True\<rparr>"

definition sys_nintendo_gbc :: rom_system where
  "sys_nintendo_gbc =
     \<lparr>sy_folder_name = lit ''nintendo_gbc'', sy_shared_manuals_folder = None, sy_retrokit_manuals_folder = Some (lit ''gbc''),
      sy_cart_hash = Some \<lparr>ch_extensions = [lit ''gbc'', lit ''sgbc''], excluded_name_markers = []\<rparr>, sy_rc_kind = None,
      sy_nointro_dats = [lit ''Nintendo - Game Boy Color.dat''],
      sy_tgdb_platform_ids = [41], sy_mister_manual_repos = [lit ''manualsdb-gbc''],
      sy_display_name = lit ''Game Boy Color'', sy_manufacturer = lit ''Nintendo'', sy_category = Handheld,
      sy_extensions = [lit ''gbc'', lit ''sgbc''],
      sy_abbreviation = lit ''GBC'', sy_placeholder_color = lit ''#6a0dad'',
      sy_launchbox_platforms = [lit ''Nintendo Game Boy Color''], sy_hidden = False, sy_uses_megabit = True,
      sy_thumbnail_repos = [lit ''Nintendo - Game Boy Color''],
      sy_has_retroachievements = True, sy_core_supports_retroachievements = True\<rparr>"

definition sys_nintendo_n64 :: rom_system where
  "sys_nintendo_n64 =
     \<lparr>sy_folder_name = lit ''nintendo_n64'', sy_shared_manuals_folder = None, sy_retrokit_manuals_folder = Some (lit ''n64''),
      sy_cart_hash = Some \<lparr>ch_extensions = [lit ''z64'', lit ''n64'', lit ''v64'', lit ''bin'', lit ''u1''], excluded_name_markers = []\<rparr>, sy_rc_kind = Some N64,
      sy_nointro_dats = [lit ''Nintendo - Nintendo 64.dat''],
      sy_tgdb_platform_ids = [3], sy_mister_manual_repos = [lit ''manualsdb-n64''],
      sy_display_name = lit ''Nintendo 64'', sy_manufacturer = lit ''Nintendo'', sy_category = Console,
      sy_extensions = [lit ''z64'', lit ''n64'', lit ''v64'', lit ''bin'', lit ''u1''],
      sy_abbreviation = lit ''N64'', sy_placeholder_color = lit ''#009e60'',
      sy_launchbox_platforms = [lit ''Nintendo 64''], sy_hidden = False, sy_uses_megabit = True,
      sy_thumbnail_repos = [lit ''Nintendo - Nintendo 64''],
      sy_has_retroachievements = True, sy_core_supports_retroachievements = True\<rparr>"

definition sys_nintendo_vb :: rom_system where
  "sys_nintendo_vb =
     \<lparr>sy_folder_name = lit ''nintendo_vb'', sy_shared_manuals_folder = None, sy_retrokit_manuals_folder = None,
      sy_cart_hash = Some \<lparr>ch_extensions = [lit ''vb'', lit ''vboy'', lit ''bin''], excluded_name_markers = []\<rparr>, sy_rc_kind = Some VirtualBoy,
      sy_nointro_dats = [lit ''Nintendo - Virtual Boy.dat''],
      sy_tgdb_platform_ids = [4918], sy_mister_manual_repos = [],
      sy_display_name = lit ''Virtual Boy'', sy_manufacturer = lit ''Nintendo'', sy_category = Console,
      sy_extensions = [lit ''vb'', lit ''vboy'', lit ''bin''],
      sy_abbreviation = lit ''VB'', sy_placeholder_color = lit ''#bb1826'',
      sy_launchbox_platforms = [lit ''Nintendo Virtual Boy''], sy_hidden = False, sy_uses_megabit = True,
      sy_thumbnail_repos = [lit ''Nintendo - Virtual Boy''],
      sy_has_retroachievements = True, sy_core_supports_retroachievements = True\<rparr>"

definition sys_nintendo_nes :: rom_system where
  "sys_nintendo_nes =
     \<lparr>sy_folder_name = lit ''nintendo_nes'', sy_shared_manuals_folder = None, sy_retrokit_manuals_folder = Some (lit ''nes''),
      sy_cart_hash = Some \<lparr>ch_extensions = [lit ''nes'', lit ''unif'', lit ''unf'', lit ''fds''], excluded_name_markers = []\<rparr>, sy_rc_kind = Some Nes,
      sy_nointro_dats = [lit ''Nintendo - Nintendo Entertainment System.dat''],
      sy_tgdb_platform_ids = [7], sy_mister_manual_repos = [lit ''manualsdb-fds'', lit ''manualsdb-nes''],
      sy_display_name = lit ''NES / Famicom'', sy_manufacturer = lit ''Nintendo'', sy_category = Console,
      sy_extensions = [lit ''nes'', lit ''unif'', lit ''unf'', lit ''fds''],
      sy_abbreviation = lit ''NES'', sy_placeholder_color = lit ''#c41230'',
      sy_launchbox_platforms = [lit ''Nintendo Entertainment System''], sy_hidden = False, sy_uses_megabit = True,
      sy_thumbnail_repos = [lit ''Nintendo - Nintendo Entertainment System''],
      sy_has_retroachievements = True, sy_core_supports_retroachievements = True\<rparr>"

definition sys_nintendo_snes :: rom_system where
  "sys_nintendo_snes =
     \<lparr>sy_folder_name = lit ''nintendo_snes'', sy_shared_manuals_folder = None, sy_retrokit_manuals_folder = Some (lit ''snes''),
      sy_cart_hash = Some \<lparr>ch_extensions = [lit ''smc'', lit ''sfc'', lit ''swc'', lit ''fig'', lit ''bs'', lit ''st''], excluded_name_markers = []\<rparr>, sy_rc_kind = Some Snes,
      sy_nointro_dats = [lit ''Nintendo - Super Nintendo Entertainment System.dat''],
      sy_tgdb_platform_ids = [6], sy_mister_manual_repos = [lit ''manualsdb-snes''],
      sy_display_name = lit ''Super Nintendo / Super Famicom'', sy_manufacturer = lit ''Nintendo'', sy_category = Console,
      sy_extensions = [lit ''smc'', lit ''sfc'', lit ''swc'', lit ''fig'', lit ''bs'', lit ''st''],
      sy_abbreviation = lit ''SNES'', sy_placeholder_color = lit ''#6b238e'',
      sy_launchbox_platforms = [lit ''Super Nintendo Entertainment System''], sy_hidden = False, sy_uses_megabit = True,
      sy_thumbnail_repos = [lit ''Nintendo - Super Nintendo Entertainment System''],
      sy_has_retroachievements = True, sy_core_supports_retroachievements = True\<rparr>"

definition sys_panasonic_3do :: rom_system where
  "sys_panasonic_3do =
     \<lparr>sy_folder_name = lit ''panasonic_3do'', sy_shared_manuals_folder = None, sy_retrokit_manuals_folder = Some (lit ''3do''),
      sy_cart_hash = None, sy_rc_kind = Some ThreeDo,
      sy_nointro_dats = [],
      sy_tgdb_platform_ids = [25], sy_mister_manual_repos = [lit ''manualsdb-3do''],
      sy_display_name = lit ''3DO'', sy_manufacturer = lit ''Panasonic'', sy_category = Console,
      sy_extensions = [lit ''iso'', lit ''chd'', lit ''cue''],
      sy_abbreviation = lit ''3DO'', sy_placeholder_color = lit ''#2a4858'',
      sy_launchbox_platforms = [lit ''3DO Interactive Multiplayer''], sy_hidden = False, sy_uses_megabit = False,
      sy_thumbnail_repos = [lit ''The 3DO Company - 3DO''],
      sy_has_retroachievements = True, sy_core_supports_retroachievements = True\<rparr>"

definition sys_philips_cdi :: rom_system where
  "sys_philips_cdi =
     \<lparr>sy_folder_name = lit ''philips_cdi'', sy_shared_manuals_folder = None, sy_retrokit_manuals_folder = None,
      sy_cart_hash = None, sy_rc_kind = None,
      sy_nointro_dats = [],
      sy_tgdb_platform_ids = [4917], sy_mister_manual_repos = [lit ''manualsdb-cdi''],
      sy_display_name = lit ''Philips CD-i'', sy_manufacturer = lit ''Philips'', sy_category = Console,
      sy_extensions = [lit ''chd'', lit ''iso'', lit ''cue''],
      sy_abbreviation = lit ''CDi'', sy_placeholder_color = lit ''#2a4858'',
      sy_launchbox_platforms = [lit ''Philips CD-i''], sy_hidden = False, sy_uses_megabit = False,
      sy_thumbnail_repos = [lit ''Philips - CD-i''],
      sy_has_retroachievements = False, sy_core_supports_retroachievements = False\<rparr>"

definition sys_scummvm :: rom_system where
  "sys_scummvm =
     \<lparr>sy_folder_name = lit ''scummvm'', sy_shared_manuals_folder = Some (lit ''pc''), sy_retrokit_manuals_folder = Some (lit ''pc''),
      sy_cart_hash = None, sy_rc_kind = None,
      sy_nointro_dats = [],
      sy_tgdb_platform_ids = [], sy_mister_manual_repos = [],
      sy_display_name = lit ''ScummVM'', sy_manufacturer = lit ''Various'', sy_category = Computer,
      sy_extensions = [lit ''scummvm'', lit ''svm''],
      sy_abbreviation = lit ''SVM'', sy_placeholder_color = lit ''#2a4858'',
      sy_launchbox_platforms = [lit ''ScummVM''], sy_hidden = False, sy_uses_megabit = False,
      sy_thumbnail_repos = [lit ''ScummVM''],
      sy_has_retroachievements = False, sy_core_supports_retroachievements = False\<rparr>"

definition sys_sega_32x :: rom_system where
  "sys_sega_32x =
     \<lparr>sy_folder_name = lit ''sega_32x'', sy_shared_manuals_folder = None, sy_retrokit_manuals_folder = Some (lit ''sega32x''),
      sy_cart_hash = Some \<lparr>ch_extensions = [lit ''32x'', lit ''bin''], excluded_name_markers = [lit ''sega cd 32x'', lit ''mega-cd 32x'']\<rparr>, sy_rc_kind = None,
      sy_nointro_dats = [lit ''Sega - 32X.dat''],
      sy_tgdb_platform_ids = [33], sy_mister_manual_repos = [lit ''manualsdb-sega32x''],
      sy_display_name = lit ''Sega 32X'', sy_manufacturer = lit ''Sega'', sy_category = Console,
      sy_extensions = [lit ''32x'', lit ''bin'', lit ''chd'', lit ''cue'', lit ''iso'', lit ''m3u''],
      sy_abbreviation = lit ''32X'', sy_placeholder_color = lit ''#0060a8'',
      sy_launchbox_platforms = [lit ''Sega 32X'', lit ''Sega CD 32X''], sy_hidden = False, sy_uses_megabit = True,
      sy_thumbnail_repos = [lit ''Sega - 32X'', lit ''Sega - Mega-CD - Sega CD''],
      sy_has_retroachievements = True, sy_core_supports_retroachievements = True\<rparr>"

definition sys_sega_cd :: rom_system where
  "sys_sega_cd =
     \<lparr>sy_folder_name = lit ''sega_cd'', sy_shared_manuals_folder = None, sy_retrokit_manuals_folder = Some (lit ''segacd''),
      sy_cart_hash = None, sy_rc_kind = Some SegaCd,
      sy_nointro_dats = [],
      sy_tgdb_platform_ids = [21], sy_mister_manual_repos = [lit ''manualsdb-segacd''],
      sy_display_name = lit ''Sega CD / Mega-CD'', sy_manufacturer = lit ''Sega'', sy_category = Console,
      sy_extensions = [lit ''chd'', lit ''cue'', lit ''iso'', lit ''m3u''],
      sy_abbreviation = lit ''MCD'', sy_placeholder_color = lit ''#333355'',
      sy_launchbox_platforms = [lit ''Sega CD''], sy_hidden = False, sy_uses_megabit = False,
      sy_thumbnail_repos = [lit ''Sega - Mega-CD - Sega CD''],
      sy_has_retroachievements = True, sy_core_supports_retroachievements = True\<rparr>"

definition sys_sega_dc :: rom_system where
  "sys_sega_dc =
     \<lparr>sy_folder_name = lit ''sega_dc'', sy_shared_manuals_folder = None, sy_retrokit_manuals_folder = Some (lit ''dreamcast''),
      sy_cart_hash = None, sy_rc_kind = Some DreamcastDisc,
      sy_nointro_dats = [],
      sy_tgdb_platform_ids = [16], sy_mister_manual_repos = [],
      sy_display_name = lit ''Sega Dreamcast'', sy_manufacturer = lit ''Sega'', sy_category = Console,
      sy_extensions = [lit ''gdi'', lit ''chd'', lit ''cdi'', lit ''elf'', lit ''cue'', lit ''lst'', lit ''dat'', lit ''m3u''],
      sy_abbreviation = lit ''DC'', sy_placeholder_color = lit ''#ff6600'',
      sy_launchbox_platforms = [lit ''Sega Dreamcast''], sy_hidden = False, sy_uses_megabit = False,
      sy_thumbnail_repos = [lit ''Sega - Dreamcast''],
      sy_has_retroachievements = True, sy_core_supports_retroachievements = True\<rparr>"

definition sys_sega_gg :: rom_system where
  "sys_sega_gg =
     \<lparr>sy_folder_name = lit ''sega_gg'', sy_shared_manuals_folder = None, sy_retrokit_manuals_folder = Some (lit ''gamegear''),
      sy_cart_hash = Some \<lparr>ch_extensions = [lit ''gg''], excluded_name_markers = []\<rparr>, sy_rc_kind = None,
      sy_nointro_dats = [lit ''Sega - Game Gear.dat''],
      sy_tgdb_platform_ids = [20], sy_mister_manual_repos = [lit ''manualsdb-gamegear''],
      sy_display_name = lit ''Sega Game Gear'', sy_manufacturer = lit ''Sega'', sy_category = Handheld,
      sy_extensions = [lit ''gg''],
      sy_abbreviation = lit ''GG'', sy_placeholder_color = lit ''#1a1a2e'',
      sy_launchbox_platforms = [lit ''Sega Game Gear''], sy_hidden = False, sy_uses_megabit = True,
      sy_thumbnail_repos = [lit ''Sega - Game Gear''],
      sy_has_retroachievements = True, sy_core_supports_retroachievements = True\<rparr>"

definition sys_sega_sg :: rom_system where
  "sys_sega_sg =
     \<lparr>sy_folder_name = lit ''sega_sg'', sy_shared_manuals_folder = None, sy_retrokit_manuals_folder = Some (lit ''sg-1000''),
      sy_cart_hash = Some \<lparr>ch_extensions = [lit ''sg''], excluded_name_markers = []\<rparr>, sy_rc_kind = None,
      sy_nointro_dats = [lit ''Sega - SG-1000.dat''],
      sy_tgdb_platform_ids = [4949], sy_mister_manual_repos = [lit ''manualsdb-segasg1000''],
      sy_display_name = lit ''Sega SG-1000'', sy_manufacturer = lit ''Sega'', sy_category = Console,
      sy_extensions = [lit ''sg''],
      sy_abbreviation = lit ''SG'', sy_placeholder_color = lit ''#0060a8'',
      sy_launchbox_platforms = [lit ''Sega SG-1000''], sy_hidden = False, sy_uses_megabit = True,
      sy_thumbnail_repos = [lit ''Sega - SG-1000''],
      sy_has_retroachievements = True, sy_core_supports_retroachievements = True\<rparr>"

definition sys_sega_smd :: rom_system where
  "sys_sega_smd =
     \<lparr>sy_folder_name = lit ''sega_smd'', sy_shared_manuals_folder = None, sy_retrokit_manuals_folder = Some (lit ''megadrive''),
      sy_cart_hash = Some \<lparr>ch_extensions = [lit ''md'', lit ''bin'', lit ''gen'', lit ''smd''], excluded_name_markers = []\<rparr>, sy_rc_kind = None,
      sy_nointro_dats = [lit ''Sega - Mega Drive - Genesis.dat''],
      sy_tgdb_platform_ids = [18, 36], sy_mister_manual_repos = [lit ''manualsdb-megadrive''],
      sy_display_name = lit ''Sega Mega Drive / Genesis'', sy_manufacturer = lit ''Sega'', sy_category = Console,
      sy_extensions = [lit ''md'', lit ''bin'', lit ''gen'', lit ''smd''],
      sy_abbreviation = lit ''MD'', sy_placeholder_color = lit ''#0060a8'',
      sy_launchbox_platforms = [lit ''Sega Genesis'', lit ''Sega Mega Drive''], sy_hidden = False, sy_uses_megabit = True,
      sy_thumbnail_repos = [lit ''Sega - Mega Drive - Genesis''],
      sy_has_retroachievements = True, sy_core_supports_retroachievements = True\<rparr>"

definition sys_sega_sms :: rom_system where
  "sys_sega_sms =
     \<lparr>sy_folder_name = lit ''sega_sms'', sy_shared_manuals_folder = None, sy_retrokit_manuals_folder = Some (lit ''mastersystem''),
      sy_cart_hash = Some \<lparr>ch_extensions = [lit ''sms''], excluded_name_markers = []\<rparr>, sy_rc_kind = None,
      sy_nointro_dats = [lit ''Sega - Master System - Mark III.dat''],
      sy_tgdb_platform_ids = [35], sy_mister_manual_repos = [lit ''manualsdb-sms''],
      sy_display_name = lit ''Sega Master System'', sy_manufacturer = lit ''Sega'', sy_category = Console,
      sy_extensions = [lit ''sms''],
      sy_abbreviation = lit ''SMS'', sy_placeholder_color = lit ''#cc0000'',
      sy_launchbox_platforms = [lit ''Sega Master System''], sy_hidden = False, sy_uses_megabit = True,
      sy_thumbnail_repos = [lit ''Sega - Master System - Mark III''],
      sy_has_retroachievements = True, sy_core_supports_retroachievements = True\<rparr>"

definition sys_sega_st :: rom_system where
  "sys_sega_st =
     \<lparr>sy_folder_name = lit ''sega_st'', sy_shared_manuals_folder = None, sy_retrokit_manuals_folder = Some (lit ''saturn''),
      sy_cart_hash = None, sy_rc_kind = Some SegaCd,
      sy_nointro_dats = [],
      sy_tgdb_platform_ids = [17], sy_mister_manual_repos = [lit ''manualsdb-segasaturn''],
      sy_display_name = lit ''Sega Saturn'', sy_manufacturer = lit ''Sega'', sy_category = Console,
      sy_extensions = [lit ''chd'', lit ''cue'', lit ''iso'', lit ''ccd'', lit ''toc'', lit ''m3u''],
      sy_abbreviation = lit ''SAT'', sy_placeholder_color = lit ''#222244'',
      sy_launchbox_platforms = [lit ''Sega Saturn''], sy_hidden = False, sy_uses_megabit = False,
      sy_thumbnail_repos = [lit ''Sega - Saturn''],
      sy_has_retroachievements = True, sy_core_supports_retroachievements = True\<rparr>"

definition sys_sharp_x68k :: rom_system where
  "sys_sharp_x68k =
     \<lparr>sy_folder_name = lit ''sharp_x68k'', sy_shared_manuals_folder = None, sy_retrokit_manuals_folder = None,
      sy_cart_hash = None, sy_rc_kind = None,
      sy_nointro_dats = [],
      sy_tgdb_platform_ids = [4931], sy_mister_manual_repos = [],
      sy_display_name = lit ''Sharp X68000'', sy_manufacturer = lit ''Sharp'', sy_category = Computer,
      sy_extensions = [lit ''dim'', lit ''hdf'', lit ''m3u'', lit ''img'', lit ''d88'', lit ''88d'', lit ''hdm'', lit ''dup'', lit ''2hd'', lit ''xdf'', lit ''cmd''],
      sy_abbreviation = lit ''X68K'', sy_placeholder_color = lit ''#2a4858'',
      sy_launchbox_platforms = [lit ''Sharp X68000''], sy_hidden = False, sy_uses_megabit = False,
      sy_thumbnail_repos = [lit ''Sharp - X68000''],
      sy_has_retroachievements = False, sy_core_supports_retroachievements = False\<rparr>"

definition sys_sinclair_zx :: rom_system where
  "sys_sinclair_zx =
     \<lparr>sy_folder_name = lit ''sinclair_zx'', sy_shared_manuals_folder = None, sy_retrokit_manuals_folder = None,
      sy_cart_hash = None, sy_rc_kind = None,
      sy_nointro_dats = [],
      sy_tgdb_platform_ids = [4913], sy_mister_manual_repos = [],
      sy_display_name = lit ''ZX Spectrum'', sy_manufacturer = lit ''Sinclair'', sy_category = Computer,
      sy_extensions = [lit ''tzx'', lit ''tap'', lit ''z80'', lit ''sna'', lit ''rzx'', lit ''scl'', lit ''trd'', lit ''dsk'', lit ''dck'', lit ''szx''],
      sy_abbreviation = lit ''ZX'', sy_placeholder_color = lit ''#2a4858'',
      sy_launchbox_platforms = [lit ''Sinclair ZX Spectrum''], sy_hidden = False, sy_uses_megabit = False,
      sy_thumbnail_repos = [lit ''Sinclair - ZX Spectrum''],
      sy_has_retroachievements = False, sy_core_supports_retroachievements = False\<rparr>"

definition sys_snk_ng :: rom_system where
  "sys_snk_ng =
     \<lparr>sy_folder_name = lit ''snk_ng'', sy_shared_manuals_folder = None, sy_retrokit_manuals_folder = Some (lit ''neogeo''),
      sy_cart_hash = None, sy_rc_kind = None,
      sy_nointro_dats = [],
      sy_tgdb_platform_ids = [24], sy_mister_manual_repos = [lit ''manualsdb-neogeoaes''],
      sy_display_name = lit ''Neo Geo'', sy_manufacturer = lit ''SNK'', sy_category = Arcade,
      sy_extensions = [lit ''zip''],
      sy_abbreviation = lit ''NG'', sy_placeholder_color = lit ''#b8860b'',
      sy_launchbox_platforms = [lit ''SNK Neo Geo AES'', lit ''SNK Neo Geo MVS''], sy_hidden = False, sy_uses_megabit = True,
      sy_thumbnail_repos = [lit ''SNK - Neo Geo''],
      sy_has_retroachievements = True, sy_core_supports_retroachievements = True\<rparr>"

definition sys_snk_ngcd :: rom_system where
  "sys_snk_ngcd =
     \<lparr>sy_folder_name = lit ''snk_ngcd'', sy_shared_manuals_folder = None, sy_retrokit_manuals_folder = Some (lit ''neogeocd''),
      sy_cart_hash = None, sy_rc_kind = Some NeoGeoCd,
      sy_nointro_dats = [],
      sy_tgdb_platform_ids = [4956], sy_mister_manual_repos = [lit ''manualsdb-neogeocd''],
      sy_display_name = lit ''Neo Geo CD'', sy_manufacturer = lit ''SNK'', sy_category = Console,
      sy_extensions = [lit ''chd'', lit ''cue''],
      sy_abbreviation = lit ''NGCD'', sy_placeholder_color = lit ''#b8860b'',
      sy_launchbox_platforms = [lit ''SNK Neo Geo CD''], sy_hidden = False, sy_uses_megabit = False,
      sy_thumbnail_repos = [lit ''SNK - Neo Geo CD''],
      sy_has_retroachievements = True, sy_core_supports_retroachievements = True\<rparr>"

definition sys_snk_ngp :: rom_system where
  "sys_snk_ngp =
     \<lparr>sy_folder_name = lit ''snk_ngp'', sy_shared_manuals_folder = None, sy_retrokit_manuals_folder = Some (lit ''ngp''),
      sy_cart_hash = None, sy_rc_kind = None,
      sy_nointro_dats = [],
      sy_tgdb_platform_ids = [4922, 4923], sy_mister_manual_repos = [lit ''manualsdb-ngp'', lit ''manualsdb-ngpc''],
      sy_display_name = lit ''Neo Geo Pocket'', sy_manufacturer = lit ''SNK'', sy_category = Handheld,
      sy_extensions = [lit ''ngp'', lit ''ngc'', lit ''ngpc'', lit ''npc''],
      sy_abbreviation = lit ''NGP'', sy_placeholder_color = lit ''#b8860b'',
      sy_launchbox_platforms = [lit ''SNK Neo Geo Pocket'', lit ''SNK Neo Geo Pocket Color''], sy_hidden = False, sy_uses_megabit = True,
      sy_thumbnail_repos = [lit ''SNK - Neo Geo Pocket''],
      sy_has_retroachievements = False, sy_core_supports_retroachievements = False\<rparr>"

definition sys_sony_ps2 :: rom_system where
  "sys_sony_ps2 =
     \<lparr>sy_folder_name = lit ''sony_ps2'', sy_shared_manuals_folder = None, sy_retrokit_manuals_folder = None,
      sy_cart_hash = None, sy_rc_kind = Some Ps2,
      sy_nointro_dats = [],
      sy_tgdb_platform_ids = [11], sy_mister_manual_repos = [],
      sy_display_name = lit ''PlayStation 2'', sy_manufacturer = lit ''Sony'', sy_category = Console,
      sy_extensions = [lit ''elf'', lit ''iso'', lit ''ciso'', lit ''cue'', lit ''gz'', lit ''chd'', lit ''cso'', lit ''zso'', lit ''m3u''],
      sy_abbreviation = lit ''PS2'', sy_placeholder_color = lit ''#003791'',
      sy_launchbox_platforms = [lit ''Sony Playstation 2''], sy_hidden = False, sy_uses_megabit = False,
      sy_thumbnail_repos = [lit ''Sony - PlayStation 2''],
      sy_has_retroachievements = True, sy_core_supports_retroachievements = False\<rparr>"

definition sys_sony_psp :: rom_system where
  "sys_sony_psp =
     \<lparr>sy_folder_name = lit ''sony_psp'', sy_shared_manuals_folder = None, sy_retrokit_manuals_folder = Some (lit ''psp''),
      sy_cart_hash = None, sy_rc_kind = Some Psp,
      sy_nointro_dats = [],
      sy_tgdb_platform_ids = [13], sy_mister_manual_repos = [],
      sy_display_name = lit ''PlayStation Portable'', sy_manufacturer = lit ''Sony'', sy_category = Handheld,
      sy_extensions = [lit ''elf'', lit ''iso'', lit ''cso'', lit ''prx'', lit ''pbp'', lit ''chd''],
      sy_abbreviation = lit ''PSP'', sy_placeholder_color = lit ''#2d2d2d'',
      sy_launchbox_platforms = [lit ''Sony PSP''], sy_hidden = False, sy_uses_megabit = False,
      sy_thumbnail_repos = [lit ''Sony - PlayStation Portable''],
      sy_has_retroachievements = True, sy_core_supports_retroachievements = True\<rparr>"

definition sys_sony_psx :: rom_system where
  "sys_sony_psx =
     \<lparr>sy_folder_name = lit ''sony_psx'', sy_shared_manuals_folder = None, sy_retrokit_manuals_folder = Some (lit ''psx''),
      sy_cart_hash = None, sy_rc_kind = Some Psx,
      sy_nointro_dats = [],
      sy_tgdb_platform_ids = [10], sy_mister_manual_repos = [lit ''manualsdb-psx''],
      sy_display_name = lit ''PlayStation'', sy_manufacturer = lit ''Sony'', sy_category = Console,
      sy_extensions = [lit ''chd'', lit ''cue'', lit ''bin'', lit ''img'', lit ''pbp'', lit ''m3u'', lit ''exe'', lit ''psexe'', lit ''iso'', lit ''ecm'', lit ''mds'', lit ''psf''],
      sy_abbreviation = lit ''PS1'', sy_placeholder_color = lit ''#003791'',
      sy_launchbox_platforms = [lit ''Sony Playstation''], sy_hidden = False, sy_uses_megabit = False,
      sy_thumbnail_repos = [lit ''Sony - PlayStation''],
      sy_has_retroachievements = True, sy_core_supports_retroachievements = False\<rparr>"

definition sys_alpha_player :: rom_system where
  "sys_alpha_player =
     \<lparr>sy_folder_name = lit ''alpha_player'', sy_shared_manuals_folder = None, sy_retrokit_manuals_folder = None,
      sy_cart_hash = None, sy_rc_kind = None,
      sy_nointro_dats = [],
      sy_tgdb_platform_ids = [], sy_mister_manual_repos = [],
      sy_display_name = lit ''Alpha Player'', sy_manufacturer = lit ''RePlayOS'', sy_category = Utility,
      sy_extensions = [lit ''mkv'', lit ''avi'', lit ''mp4'', lit ''mp3'', lit ''flac'', lit ''ogg'', lit ''f4v'', lit ''f4f'', lit ''3gp'', lit ''ogm'', lit ''flv'', lit ''m4a'', lit ''webm'', lit ''3g2'', lit ''mov'', lit ''wmv'', lit ''mpg'', lit ''mpeg'', lit ''vob'', lit ''asf'', lit ''divx'', lit ''m2p'', lit ''m2ts'', lit ''ps'', lit ''ts'', lit ''mxf'', lit ''wma'', lit ''wav'', lit ''s3m'', lit ''it'', lit ''xm'', lit ''mod'', lit ''ay'', lit ''gbs'', lit ''gym'', lit ''hes'', lit ''kss'', lit ''nsf'', lit ''nsfe'', lit ''sap'', lit ''spc'', lit ''vgm'', lit ''vgz''],
      sy_abbreviation = lit ''VID'', sy_placeholder_color = lit ''#333333'',
      sy_launchbox_platforms = [], sy_hidden = True, sy_uses_megabit = False,
      sy_thumbnail_repos = [],
      sy_has_retroachievements = False, sy_core_supports_retroachievements = False\<rparr>"

definition SYSTEMS :: "rom_system list" where
  "SYSTEMS =
   [sys_arcade_fbneo, sys_arcade_mame, sys_arcade_mame_2k3p, sys_arcade_dc, sys_arcade_stv,
    sys_arcade_triforce, sys_atari_2600, sys_atari_5200, sys_atari_7800, sys_atari_jaguar,
    sys_atari_jaguarcd, sys_atari_lynx, sys_amstrad_cpc, sys_commodore_ami, sys_commodore_amicd,
    sys_commodore_c64, sys_ibm_pc, sys_microsoft_msx, sys_nec_pce, sys_nec_pcecd, sys_nintendo_ds,
    sys_nintendo_gc, sys_nintendo_wii, sys_nintendo_gb, sys_nintendo_gba, sys_nintendo_gbc,
    sys_nintendo_n64, sys_nintendo_vb, sys_nintendo_nes, sys_nintendo_snes, sys_panasonic_3do,
    sys_philips_cdi, sys_scummvm, sys_sega_32x, sys_sega_cd, sys_sega_dc, sys_sega_gg, sys_sega_sg,
    sys_sega_smd, sys_sega_sms, sys_sega_st, sys_sharp_x68k, sys_sinclair_zx, sys_snk_ng,
    sys_snk_ngcd, sys_snk_ngp, sys_sony_ps2, sys_sony_psp, sys_sony_psx, sys_alpha_player]"

lemmas system_defs =
  sys_arcade_fbneo_def sys_arcade_mame_def sys_arcade_mame_2k3p_def sys_arcade_dc_def
  sys_arcade_stv_def sys_arcade_triforce_def sys_atari_2600_def sys_atari_5200_def
  sys_atari_7800_def sys_atari_jaguar_def sys_atari_jaguarcd_def sys_atari_lynx_def
  sys_amstrad_cpc_def sys_commodore_ami_def sys_commodore_amicd_def sys_commodore_c64_def
  sys_ibm_pc_def sys_microsoft_msx_def sys_nec_pce_def sys_nec_pcecd_def
  sys_nintendo_ds_def sys_nintendo_gc_def sys_nintendo_wii_def sys_nintendo_gb_def
  sys_nintendo_gba_def sys_nintendo_gbc_def sys_nintendo_n64_def sys_nintendo_vb_def
  sys_nintendo_nes_def sys_nintendo_snes_def sys_panasonic_3do_def sys_philips_cdi_def
  sys_scummvm_def sys_sega_32x_def sys_sega_cd_def sys_sega_dc_def
  sys_sega_gg_def sys_sega_sg_def sys_sega_smd_def sys_sega_sms_def
  sys_sega_st_def sys_sharp_x68k_def sys_sinclair_zx_def sys_snk_ng_def
  sys_snk_ngcd_def sys_snk_ngp_def sys_sony_ps2_def sys_sony_psp_def
  sys_sony_psx_def sys_alpha_player_def

section \<open>Lookups\<close>

fun find_first :: "('a \<Rightarrow> bool) \<Rightarrow> 'a list \<Rightarrow> 'a option" where
  "find_first P [] = None"
| "find_first P (x # xs) = (if P x then Some x else find_first P xs)"

definition find_system :: "rstr \<Rightarrow> rom_system option" where
  "find_system name = find_first (\<lambda>s. sy_folder_name s = name) SYSTEMS"

definition manuals_folder :: "rom_system \<Rightarrow> rstr" where
  "manuals_folder s = (case sy_shared_manuals_folder s of Some folder \<Rightarrow> folder | None \<Rightarrow> sy_folder_name s)"

definition is_arcade :: "rom_system \<Rightarrow> bool" where
  "is_arcade s \<longleftrightarrow> sy_category s = Arcade"

definition gamefaqs_search_url :: "(u8 list \<Rightarrow> rstr) \<Rightarrow> rom_system \<Rightarrow> rstr \<Rightarrow> rstr option" where
  "gamefaqs_search_url byte_serialize s title =
     (if sy_category s = Utility then None
      else Some (lit ''https://gamefaqs.gamespot.com/search?game='' @ byte_serialize (utf8_bytes title)))"

definition find_system_uses_megabit :: "rstr \<Rightarrow> bool" where
  "find_system_uses_megabit name \<longleftrightarrow> (case find_system name of Some s \<Rightarrow> sy_uses_megabit s | None \<Rightarrow> False)"

definition visible_systems :: "rom_system list" where
  "visible_systems = filter (\<lambda>s. \<not> sy_hidden s) SYSTEMS"

definition manual_folder_name :: "rstr \<Rightarrow> rstr" where
  "manual_folder_name name = (case find_system name of Some s \<Rightarrow> manuals_folder s | None \<Rightarrow> name)"

definition manual_scan_folders :: "rstr \<Rightarrow> rstr list" where
  "manual_scan_folders name =
     (let primary = manual_folder_name name
      in case (case find_system name of Some s \<Rightarrow> sy_retrokit_manuals_folder s | None \<Rightarrow> None) of
           Some legacy \<Rightarrow> if legacy \<noteq> primary then [primary, legacy] else [primary]
         | None \<Rightarrow> [primary])"

definition system_display_name :: "rstr \<Rightarrow> rstr" where
  "system_display_name name = (case find_system name of Some s \<Rightarrow> sy_display_name s | None \<Rightarrow> name)"

definition system_abbreviation :: "rstr \<Rightarrow> rstr" where
  "system_abbreviation name = (case find_system name of Some s \<Rightarrow> sy_abbreviation s | None \<Rightarrow> name)"

definition system_thumbnail_repos :: "rstr \<Rightarrow> rstr list option" where
  "system_thumbnail_repos name =
     (case find_system name of
        Some s \<Rightarrow> if sy_thumbnail_repos s \<noteq> [] then Some (sy_thumbnail_repos s) else None
      | None \<Rightarrow> None)"

definition is_arcade_system :: "rstr \<Rightarrow> bool" where
  "is_arcade_system name \<longleftrightarrow> (case find_system name of Some s \<Rightarrow> is_arcade s | None \<Rightarrow> False)"

definition is_multimedia_system :: "rstr \<Rightarrow> bool" where
  "is_multimedia_system name \<longleftrightarrow> (case find_system name of Some s \<Rightarrow> sy_category s = Utility | None \<Rightarrow> False)"

definition system_has_retroachievements :: "rstr \<Rightarrow> bool" where
  "system_has_retroachievements name \<longleftrightarrow>
     (case find_system name of Some s \<Rightarrow> sy_has_retroachievements s | None \<Rightarrow> False)"

definition system_core_supports_retroachievements :: "rstr \<Rightarrow> bool" where
  "system_core_supports_retroachievements name \<longleftrightarrow>
     (case find_system name of Some s \<Rightarrow> sy_core_supports_retroachievements s | None \<Rightarrow> False)"

section \<open>LaunchBox platforms\<close>

definition add_platforms :: "(rstr \<rightharpoonup> rstr list) \<Rightarrow> rom_system \<Rightarrow> (rstr \<rightharpoonup> rstr list)" where
  "add_platforms m s =
     foldl (\<lambda>m platform. m(platform \<mapsto> (case m platform of Some folders \<Rightarrow> folders | None \<Rightarrow> []) @ [sy_folder_name s]))
       m (sy_launchbox_platforms s)"

definition platform_map :: "rom_system list \<Rightarrow> (rstr \<rightharpoonup> rstr list)" where
  "platform_map systems = foldl add_platforms Map.empty systems"

definition launchbox_platform_map :: "rstr \<rightharpoonup> rstr list" where
  "launchbox_platform_map = platform_map SYSTEMS"

definition hex8 :: "u32 \<Rightarrow> rstr" where
  "hex8 n = map (\<lambda>i. let d = unat n div 16 ^ (7 - i) mod 16 in if d < 10 then 48 + d else 87 + d) [0 ..< 8]"

text \<open>The bytes that the fingerprint hashes, and the fingerprint of a list of systems.\<close>

definition fingerprint_entries :: "rom_system list \<Rightarrow> (rstr \<times> rstr list) list" where
  "fingerprint_entries systems =
     sort_key fst (map (\<lambda>s. (sy_folder_name s, sort (sy_launchbox_platforms s)))
       (filter (\<lambda>s. sy_launchbox_platforms s \<noteq> []) systems))"

definition fingerprint_bytes :: "rom_system list \<Rightarrow> u8 list" where
  "fingerprint_bytes systems =
     concat (map (\<lambda>(folder, platforms).
       utf8_bytes folder @ [0] @ concat (map (\<lambda>p. utf8_bytes p @ [1]) platforms) @ [10]) (fingerprint_entries systems))"

definition platform_fingerprint :: "(u8 list \<Rightarrow> u32) \<Rightarrow> rom_system list \<Rightarrow> rstr" where
  "platform_fingerprint crc systems = hex8 (crc (fingerprint_bytes systems))"

definition launchbox_platform_map_fingerprint :: "(u8 list \<Rightarrow> u32) \<Rightarrow> rstr" where
  "launchbox_platform_map_fingerprint crc = platform_fingerprint crc SYSTEMS"

section \<open>Arcade sources and favourites\<close>

datatype arcade_source = Fbneo | Mame | Mame2k3p | Naomi

definition ALL_SOURCES :: "arcade_source list" where
  "ALL_SOURCES = [Mame, Mame2k3p, Fbneo, Naomi]"

fun as_tag :: "arcade_source \<Rightarrow> rstr" where
  "as_tag Fbneo = lit ''fbneo''"
| "as_tag Mame = lit ''mame''"
| "as_tag Mame2k3p = lit ''mame_2k3p''"
| "as_tag Naomi = lit ''naomi''"

definition from_tag :: "rstr \<Rightarrow> arcade_source option" where
  "from_tag tag =
     (if tag = lit ''fbneo'' then Some Fbneo
      else if tag = lit ''mame'' then Some Mame
      else if tag = lit ''mame_2k3p'' then Some Mame2k3p
      else if tag = lit ''naomi'' then Some Naomi
      else None)"

fun source_idx :: "arcade_source \<Rightarrow> nat" where
  "source_idx Fbneo = 0"
| "source_idx Mame = 1"
| "source_idx Mame2k3p = 2"
| "source_idx Naomi = 3"

definition arcade_source_priority :: "rstr \<Rightarrow> arcade_source list" where
  "arcade_source_priority name =
     (if name = lit ''arcade_fbneo'' then [Fbneo, Mame, Mame2k3p]
      else if name = lit ''arcade_mame'' then [Mame, Mame2k3p, Fbneo]
      else if name = lit ''arcade_mame_2k3p'' then [Mame2k3p, Mame, Fbneo]
      else if name = lit ''arcade_dc'' then [Naomi, Mame, Mame2k3p, Fbneo]
      else if name = lit ''arcade_stv'' then [Mame, Mame2k3p, Fbneo]
      else if name = lit ''arcade_triforce'' then [Mame, Mame2k3p, Fbneo]
      else if name = lit ''snk_ng'' then [Mame, Mame2k3p, Fbneo]
      else [])"

definition system_from_fav_filename :: "rstr \<Rightarrow> rstr option" where
  "system_from_fav_filename filename =
     (case split_once 64 filename of
        None \<Rightarrow> None
      | Some (name, rest) \<Rightarrow> if name = [] \<or> rest = [] then None else Some name)"

section \<open>Lemmas\<close>

lemma find_first_SomeD: "find_first P xs = Some x \<Longrightarrow> x \<in> set xs \<and> P x"
  by (induction xs) (auto split: if_splits)

lemma find_first_None_iff: "find_first P xs = None \<longleftrightarrow> (\<forall>x \<in> set xs. \<not> P x)"
  by (induction xs) auto

lemma find_first_distinct:
  "distinct (map f xs) \<Longrightarrow> find_first (\<lambda>x. f x = k) xs = Some x \<longleftrightarrow> x \<in> set xs \<and> f x = k"
  by (induction xs) force+

lemma folder_names_distinct: "distinct (map sy_folder_name SYSTEMS)"
  unfolding SYSTEMS_def by code_simp

lemma find_system_iff: "find_system name = Some s \<longleftrightarrow> s \<in> set SYSTEMS \<and> sy_folder_name s = name"
  unfolding find_system_def by (rule find_first_distinct [OF folder_names_distinct])

end
