(* ===== verification/Disc_Recipes.thy ===== *)
theory Disc_Recipes
  imports Disc_Io Systems
begin

text \<open>
  The disc identity recipes of \<open>library/rc_hash_disc.rs\<close> that read sectors: the ISO 9660 walk
  and the hashes of PlayStation, PSP, PlayStation 2 (\<open>rc_hash_disc/ps2.rs\<close>), Sega CD and Saturn,
  Dreamcast, 3DO, PC Engine CD and Neo Geo CD. The MD5 digest is a parameter.
\<close>

section \<open>The ISO 9660 directory\<close>

definition iso_name :: "u8 list \<Rightarrow> rstr" where
  "iso_name bs = latin1 (takeWhile (\<lambda>b. b \<noteq> 59) bs)"

text \<open>The records of one directory sector, from an offset on.\<close>

function iso_scan :: "rstr \<Rightarrow> u8 list \<Rightarrow> nat \<Rightarrow> (u32 \<times> u32) option" where
  "iso_scan want sec off =
     (if off < SECTOR_USER
      then let rlen = byte_at sec off
           in if rlen = 0 then None
              else if rlen < 33 \<or> SECTOR_USER < off + rlen then None
              else let rec = take rlen (drop off sec);
                       lba = le32 rec 2;
                       len = le32 rec 10;
                       nlen = byte_at rec 32
                   in if 33 + nlen \<le> rlen \<and> eq_ignore_case (iso_name (take nlen (drop 33 rec))) want
                      then Some (lba, len)
                      else iso_scan want sec (off + rlen)
      else None)"
  by pat_completeness auto
termination
  by (relation "measure (\<lambda>(want, sec, off). SECTOR_USER - off)") auto

declare iso_scan.simps [simp del]

definition iso_want :: "rstr \<Rightarrow> rstr" where
  "iso_want name = to_ascii_uppercase (trim_start_matches (\<lambda>c. c = 92) name)"

text \<open>The sectors of a directory extent; \<open>sec\<close> is the buffer, which keeps what a short read leaves.\<close>

fun iso_dir_scan :: "'s sector_reader \<Rightarrow> rstr \<Rightarrow> u32 \<Rightarrow> nat \<Rightarrow> u8 list \<Rightarrow> ('s, (u32 \<times> u32) option) act" where
  "iso_dir_scan rd want lba 0 sec = ret None"
| "iso_dir_scan rd want lba (Suc n) sec =
     then_do (read_sector rd lba) (\<lambda>bs.
       if bs = [] then ret None
       else case iso_scan want (fill sec bs) 0 of
              Some e \<Rightarrow> ret (Some e)
            | None \<Rightarrow> iso_dir_scan rd want (lba + 1) n (fill sec bs))"

definition iso_dir_find :: "'s sector_reader \<Rightarrow> u32 \<Rightarrow> u32 \<Rightarrow> rstr \<Rightarrow> ('s, (u32 \<times> u32) option) act" where
  "iso_dir_find rd dir_lba dir_len name =
     iso_dir_scan rd (iso_want name) dir_lba ((unat dir_len + (SECTOR_USER - 1)) div SECTOR_USER) zero_sector"

fun iso_components ::
  "'s sector_reader \<Rightarrow> rstr list \<Rightarrow> u32 \<Rightarrow> u32 \<Rightarrow> (u32 \<times> u32) option \<Rightarrow> ('s, (u32 \<times> u32) option) act" where
  "iso_components rd [] lba len found = ret found"
| "iso_components rd (c # cs) lba len found =
     then_do (iso_dir_find rd lba len c) (\<lambda>r.
       case r of None \<Rightarrow> ret None | Some (lba', len') \<Rightarrow> iso_components rd cs lba' len' (Some (lba', len')))"

definition iso_find_path :: "'s sector_reader \<Rightarrow> rstr list \<Rightarrow> ('s, (u32 \<times> u32) option) act" where
  "iso_find_path rd path =
     then_do (read_sector rd (first_track_sector rd + 16)) (\<lambda>bs.
       if bs = [] then ret None
       else let sec = fill zero_sector bs
            in if take 5 (drop 1 sec) \<noteq> bytes_lit ''CD001'' then ret None
               else iso_components rd path (le32 sec 158) (le32 sec 166) None)"

definition iso_find_file :: "'s sector_reader \<Rightarrow> rstr \<Rightarrow> ('s, (u32 \<times> u32) option) act" where
  "iso_find_file rd name = iso_find_path rd [name]"

section \<open>Reading a file\<close>

function read_file_loop :: "'s sector_reader \<Rightarrow> u32 \<Rightarrow> nat \<Rightarrow> u8 list \<Rightarrow> ('s, u8 list) act" where
  "read_file_loop rd s remaining out =
     (if remaining = 0 then ret out
      else then_do (read_sector rd s) (\<lambda>bs.
             if bs = [] then ret out
             else read_file_loop rd (s + 1) (remaining - min remaining (length bs)) (out @ take remaining bs)))"
  by pat_completeness auto
termination
  by (relation "measure (\<lambda>(rd, s, remaining, out). remaining)") auto

declare read_file_loop.simps [simp del]

definition read_file_bytes :: "'s sector_reader \<Rightarrow> u32 \<Rightarrow> u32 \<Rightarrow> ('s, u8 list) act" where
  "read_file_bytes rd start len = read_file_loop rd start (unat len) []"

section \<open>Digests\<close>

definition hex_digit :: "nat \<Rightarrow> rchar" where
  "hex_digit n = (if n < 10 then 48 + n else 87 + n)"

definition md5_digest_hex :: "u8 list \<Rightarrow> rstr" where
  "md5_digest_hex digest = concat (map (\<lambda>b. [hex_digit (unat b div 16), hex_digit (unat b mod 16)]) digest)"

type_synonym md5 = "u8 list \<Rightarrow> u8 list"

definition md5_hex :: "md5 \<Rightarrow> u8 list \<Rightarrow> rstr" where
  "md5_hex md5 bytes = md5_digest_hex (md5 bytes)"

section \<open>PlayStation\<close>

text \<open>\<open>trim_start_matches\<close> with a string.\<close>

function trim_start_str :: "rstr \<Rightarrow> rstr \<Rightarrow> rstr" where
  "trim_start_str p s = (if p \<noteq> [] \<and> starts_with p s then trim_start_str p (drop (length p) s) else s)"
  by pat_completeness auto
termination
  by (relation "measure (\<lambda>(p, s). length s)") (auto simp: starts_with_def prefix_def)

declare trim_start_str.simps [simp del]

definition boot_line :: "rstr \<Rightarrow> rstr option" where
  "boot_line line =
     (case find_split (lit ''boot'') (to_ascii_lowercase line) of
        None \<Rightarrow> None
      | Some (a, _) \<Rightarrow>
          (case split_once 61 (drop (length a) line) of
             None \<Rightarrow> None
           | Some (_, rest) \<Rightarrow>
               let val = trim_start_matches (\<lambda>c. c = 47) (trim_start_matches (\<lambda>c. c = 92)
                           (trim_start_str (lit ''cdrom0:'') (trim_start_str (lit ''cdrom:'') (trim rest))));
                   name = takeWhile (\<lambda>c. c \<noteq> 59 \<and> c \<noteq> 32) val
               in if name \<noteq> [] then Some name else None))"

fun first_some :: "('a \<Rightarrow> 'b option) \<Rightarrow> 'a list \<Rightarrow> 'b option" where
  "first_some f [] = None"
| "first_some f (x # xs) = (case f x of Some y \<Rightarrow> Some y | None \<Rightarrow> first_some f xs)"

definition parse_boot :: "rstr \<Rightarrow> rstr option" where
  "parse_boot cnf = first_some boot_line (str_lines cnf)"

definition psx_exe_name :: "'s sector_reader \<Rightarrow> ('s, rstr) act" where
  "psx_exe_name rd =
     then_do (iso_find_file rd (lit ''SYSTEM.CNF'')) (\<lambda>r.
       case r of
         Some (lba, len) \<Rightarrow>
           then_do (read_file_bytes rd lba (min len 4096)) (\<lambda>bytes.
             ret (case parse_boot (utf8_lossy bytes) of Some name \<Rightarrow> name | None \<Rightarrow> lit ''PSX.EXE''))
       | None \<Rightarrow> ret (lit ''PSX.EXE''))"

definition psx_hash :: "md5 \<Rightarrow> 's sector_reader \<Rightarrow> ('s, rstr option) act" where
  "psx_hash md5 rd =
     then_do (psx_exe_name rd) (\<lambda>exe_name.
     then_do (iso_find_file rd exe_name) (\<lambda>r.
       case r of
         None \<Rightarrow> ret None
       | Some (lba, dir_size) \<Rightarrow>
           then_do (read_sector rd lba) (\<lambda>bs.
             if bs = [] then ret None
             else let sec = fill zero_sector bs;
                      len = (if take 8 sec = bytes_lit ''PS-X EXE'' then le32 sec 28 + 2048 else dir_size)
                  in then_do (read_file_bytes rd lba (min len (of_nat MAX_BUFFER_SIZE))) (\<lambda>body.
                       ret (Some (md5_hex md5 (utf8_bytes exe_name @ body)))))))"

section \<open>PSP\<close>

definition psp_hash :: "md5 \<Rightarrow> 's sector_reader \<Rightarrow> ('s, rstr option) act" where
  "psp_hash md5 rd =
     then_do (iso_find_path rd [lit ''PSP_GAME'', lit ''PARAM.SFO'']) (\<lambda>r.
       case r of
         None \<Rightarrow> ret None
       | Some (sfo_lba, sfo_size) \<Rightarrow>
           then_do (iso_find_path rd [lit ''PSP_GAME'', lit ''SYSDIR'', lit ''EBOOT.BIN'']) (\<lambda>r.
             case r of
               None \<Rightarrow> ret None
             | Some (eboot_lba, eboot_size) \<Rightarrow>
                 then_do (read_file_bytes rd sfo_lba (min sfo_size (of_nat MAX_BUFFER_SIZE))) (\<lambda>sfo.
                 then_do (read_file_bytes rd eboot_lba (min eboot_size (of_nat MAX_BUFFER_SIZE))) (\<lambda>eboot.
                   ret (Some (md5_hex md5 (sfo @ eboot)))))))"

section \<open>Sega CD, Saturn, Dreamcast\<close>

definition sega_cd_hash :: "md5 \<Rightarrow> 's sector_reader \<Rightarrow> ('s, rstr option) act" where
  "sega_cd_hash md5 rd =
     then_do (read_sector rd 0) (\<lambda>bs.
       if bs = [] then ret None
       else let sec = fill zero_sector bs;
                magic = take 16 sec
            in if magic \<noteq> bytes_lit ''SEGADISCSYSTEM  '' \<and> magic \<noteq> bytes_lit ''SEGA SEGASATURN '' then ret None
               else ret (Some (md5_hex md5 (take 512 sec))))"

definition dreamcast_hash :: "md5 \<Rightarrow> 's sector_reader \<Rightarrow> ('s, rstr option) act" where
  "dreamcast_hash md5 rd =
     then_do (read_sector rd (first_track_sector rd)) (\<lambda>bs.
       if bs = [] then ret None
       else let sec = fill zero_sector bs
            in if take 16 sec \<noteq> bytes_lit ''SEGA SEGAKATANA '' then ret None
               else let exe = latin1 (takeWhile (\<lambda>b. \<not> is_ascii_whitespace (unat b)) (take 16 (drop 96 sec)))
                    in if exe = [] then ret None
                       else then_do (iso_find_file rd exe) (\<lambda>r.
                              case r of
                                None \<Rightarrow> ret None
                              | Some (lba, len) \<Rightarrow>
                                  then_do (read_file_bytes rd lba (of_nat (min (unat len) MAX_BUFFER_SIZE))) (\<lambda>body.
                                    ret (Some (md5_hex md5 (take 256 sec @ body))))))"

section \<open>3DO\<close>

definition OPERA_ID :: "u8 list" where
  "OPERA_ID = [1, 90, 90, 90, 90, 90, 1]"

text \<open>The entries of one directory block: block size, location and size of \<open>LaunchMe\<close>.\<close>

function opera_scan :: "u8 list \<Rightarrow> nat \<Rightarrow> nat \<Rightarrow> (u32 \<times> u32 \<times> u32) option" where
  "opera_scan buf stop offset =
     (if offset < stop \<and> offset + 72 \<le> SECTOR_USER
      then if byte_at buf (offset + 3) = 2 \<and>
              eq_ignore_case (latin1 (takeWhile (\<lambda>b. b \<noteq> 0) (drop (offset + 32) buf))) (lit ''LaunchMe'')
           then let block_size = be3 buf (offset + 13)
                in Some (block_size, be3 buf (offset + 69) * block_size, be3 buf (offset + 17))
           else opera_scan buf stop (offset + (72 + byte_at buf (offset + 67) * 4))
      else None)"
  by pat_completeness auto
termination
  by (relation "measure (\<lambda>(buf, stop, offset). stop - offset)") auto

declare opera_scan.simps [simp del]

definition opera_entries :: "u8 list \<Rightarrow> (u32 \<times> u32 \<times> u32) option" where
  "opera_entries buf =
     opera_scan buf (byte_at buf 13 * 65536 + byte_at buf 14 * 256 + byte_at buf 15)
       (byte_at buf 18 * 256 + byte_at buf 19)"

text \<open>
  One block of the chained directory: where the file is, with size zero when the chain ends
  without it, or the location fields and the sector of the next block.
\<close>

definition opera_block :: "u32 \<Rightarrow> u32 \<Rightarrow> u8 list \<Rightarrow> (u32 \<times> u32) + (u32 \<times> u32 \<times> u32)" where
  "opera_block block_size block_location buf =
     (let (block_size, block_location, len) =
            (case opera_entries buf of Some found \<Rightarrow> found | None \<Rightarrow> (block_size, block_location, 0));
          next = byte_at buf 2 * 256 + byte_at buf 3
      in if len \<noteq> 0 then Inl (block_location, len)
         else if next = 65535 then Inl (block_location, 0)
         else Inr (block_size, block_location, (block_location + of_nat next * block_size) div 2048))"

text \<open>
  The loop over the blocks. Nothing in the code bounds it, so the result is an option whose
  \<open>None\<close> is a run that does not end.
\<close>

partial_function (option) opera_walk ::
  "'s sector_reader \<Rightarrow> u32 \<Rightarrow> u32 \<Rightarrow> u32 \<Rightarrow> u8 list \<Rightarrow> 's \<Rightarrow> ((u32 \<times> u32) \<times> 's) io option" where
  "opera_walk rd block_size block_location sector buf s =
     (case read_sector rd sector s of
        Panic \<Rightarrow> Some Panic
      | Fail e \<Rightarrow> Some (Fail e)
      | Done (bs, s') \<Rightarrow>
          if bs = [] then Some (Done ((block_location, 0), s'))
          else (case opera_block block_size block_location (fill buf bs) of
                  Inl found \<Rightarrow> Some (Done (found, s'))
                | Inr (block_size, block_location, sector) \<Rightarrow>
                    opera_walk rd block_size block_location sector (fill buf bs) s'))"

text \<open>
  The contents. The last partial sector is sliced out of the buffer, which panics when a read
  that gave nothing in the loop gives something afterwards.
\<close>

function opera_body :: "'s sector_reader \<Rightarrow> u32 \<Rightarrow> nat \<Rightarrow> u8 list \<Rightarrow> u8 list \<Rightarrow> ('s, u32 \<times> nat \<times> u8 list \<times> u8 list) act" where
  "opera_body rd sector remaining tmp out =
     (if SECTOR_USER < remaining
      then then_do (read_sector rd sector) (\<lambda>bs.
             if bs = [] then ret (sector, remaining, tmp, out)
             else opera_body rd (sector + 1) (remaining - SECTOR_USER) (fill tmp bs) (out @ fill tmp bs))
      else ret (sector, remaining, tmp, out))"
  by pat_completeness auto
termination
  by (relation "measure (\<lambda>(rd, sector, remaining, tmp, out). remaining)") auto

declare opera_body.simps [simp del]

definition opera_file :: "'s sector_reader \<Rightarrow> u32 \<Rightarrow> u32 \<Rightarrow> ('s, u8 list) act" where
  "opera_file rd block_location len =
     then_do (opera_body rd (block_location div 2048) (unat len) zero_sector []) (\<lambda>(sector, remaining, tmp, out).
     then_do (read_sector rd sector) (\<lambda>bs.
       if bs = [] then ret out
       else if SECTOR_USER < remaining then panic
       else ret (out @ take remaining (fill tmp bs))))"

definition three_do_start :: "'s sector_reader \<Rightarrow> ('s, u8 list option) act" where
  "three_do_start rd =
     then_do (read_sector rd 0) (\<lambda>bs.
       if bs = [] then ret None
       else if take 7 (fill zero_sector bs) \<noteq> OPERA_ID then ret None
       else ret (Some (fill zero_sector bs)))"

definition three_do_hash :: "md5 \<Rightarrow> 's sector_reader \<Rightarrow> 's \<Rightarrow> (rstr option \<times> 's) io option" where
  "three_do_hash md5 rd s =
     (case three_do_start rd s of
        Panic \<Rightarrow> Some Panic
      | Fail e \<Rightarrow> Some (Fail e)
      | Done (None, s1) \<Rightarrow> Some (Done (None, s1))
      | Done (Some buf, s1) \<Rightarrow>
          let block_size = be3 buf 77; block_location = be3 buf 101 * block_size
          in case opera_walk rd block_size block_location (block_location div 2048) buf s1 of
               None \<Rightarrow> None
             | Some Panic \<Rightarrow> Some Panic
             | Some (Fail e) \<Rightarrow> Some (Fail e)
             | Some (Done ((block_location, len), s2)) \<Rightarrow>
                 if len = 0 then Some (Done (None, s2))
                 else Some (then_do (opera_file rd block_location len) (\<lambda>body.
                              ret (Some (md5_hex md5 (take 132 buf @ body)))) s2))"

section \<open>PC Engine CD\<close>

fun pce_sectors :: "'s sector_reader \<Rightarrow> u32 \<Rightarrow> nat \<Rightarrow> u8 list \<Rightarrow> u8 list \<Rightarrow> ('s, u8 list) act" where
  "pce_sectors rd sector 0 buf out = ret out"
| "pce_sectors rd sector (Suc num) buf out =
     then_do (read_sector rd sector) (\<lambda>bs.
       if bs = [] then ret out
       else pce_sectors rd (sector + 1) num (fill buf bs) (out @ fill buf bs))"

definition pce_cd_hash :: "md5 \<Rightarrow> 's sector_reader \<Rightarrow> ('s, rstr option) act" where
  "pce_cd_hash md5 rd =
     then_do (read_sector rd (first_track_sector rd + 1)) (\<lambda>bs.
       if length bs < 128 then ret None
       else let buf = fill zero_sector bs
            in if take 23 (drop 32 buf) = bytes_lit ''PC Engine CD-ROM SYSTEM''
               then then_do (pce_sectors rd (be3 buf 0 + first_track_sector rd) (byte_at buf 3) buf []) (\<lambda>boot.
                      ret (Some (md5_hex md5 (take 22 (drop 106 buf) @ boot))))
               else then_do (iso_find_file rd (lit ''BOOT.BIN'')) (\<lambda>r.
                      case r of
                        None \<Rightarrow> ret None
                      | Some (lba, len) \<Rightarrow>
                          if unat len < MAX_BUFFER_SIZE
                          then then_do (read_file_bytes rd lba len) (\<lambda>body. ret (Some (md5_hex md5 body)))
                          else ret None))"

section \<open>Neo Geo CD\<close>

definition prg_name :: "rstr \<Rightarrow> rstr option" where
  "prg_name raw_line =
     (let line = trim raw_line
      in if line = [] then None
         else (case find_split (lit ''.PRG'') (to_ascii_uppercase line) of
                 None \<Rightarrow> None
               | Some (a, _) \<Rightarrow> Some (take (length a + 4) line)))"

text \<open>The loop over the lines; \<open>None\<close> when a file is missing, else the bytes so far.\<close>

fun prg_files :: "'s sector_reader \<Rightarrow> rstr list \<Rightarrow> bool \<Rightarrow> u8 list \<Rightarrow> ('s, (bool \<times> u8 list) option) act" where
  "prg_files rd [] found out = ret (Some (found, out))"
| "prg_files rd (raw_line # lines) found out =
     (case prg_name raw_line of
        None \<Rightarrow> prg_files rd lines found out
      | Some fname \<Rightarrow>
          then_do (iso_find_file rd fname) (\<lambda>r.
            case r of
              None \<Rightarrow> ret None
            | Some (lba, len) \<Rightarrow>
                then_do (read_file_bytes rd lba (of_nat (min (unat len) MAX_BUFFER_SIZE))) (\<lambda>body.
                  prg_files rd lines True (out @ body))))"

definition neogeo_cd_hash :: "md5 \<Rightarrow> 's sector_reader \<Rightarrow> ('s, rstr option) act" where
  "neogeo_cd_hash md5 rd =
     then_do (iso_find_file rd (lit ''IPL.TXT'')) (\<lambda>r.
       case r of
         None \<Rightarrow> ret None
       | Some (sector, _) \<Rightarrow>
           then_do (read_sector rd sector) (\<lambda>bs.
             if bs = [] then ret None
             else then_do (prg_files rd (split_by (\<lambda>c. c = 10 \<or> c = 26) (utf8_lossy (take 1024 (fill zero_sector bs)))) False []) (\<lambda>r.
                    case r of
                      None \<Rightarrow> ret None
                    | Some (found, body) \<Rightarrow> if found then ret (Some (md5_hex md5 body)) else ret None)))"

section \<open>PlayStation 2\<close>

definition boot2_line :: "rstr \<Rightarrow> rstr option" where
  "boot2_line line =
     (case (case strip_prefix (lit ''BOOT2'') line of
              None \<Rightarrow> None
            | Some s \<Rightarrow> strip_prefix (lit ''='') (trim_start_matches is_whitespace s)) of
        None \<Rightarrow> None
      | Some value \<Rightarrow>
          let value = trim_start_matches is_whitespace value;
              value = (case strip_prefix (lit ''cdrom0:'') value of Some v \<Rightarrow> v | None \<Rightarrow> value);
              value = trim_start_matches (\<lambda>c. c = 92) value;
              name = takeWhile (\<lambda>c. c \<noteq> 59 \<and> \<not> is_ascii_whitespace c) value
          in if name \<noteq> [] \<and> utf8_len name < 64 then Some name else None)"

definition boot_name :: "u8 list \<Rightarrow> rstr option" where
  "boot_name cnf =
     (case from_utf8 (takeWhile (\<lambda>b. b \<noteq> 0) cnf) of
        None \<Rightarrow> None
      | Some text \<Rightarrow> first_some boot2_line (str_lines text))"

function ps2_body :: "'s sector_reader \<Rightarrow> u32 \<Rightarrow> nat \<Rightarrow> u8 list \<Rightarrow> u8 list \<Rightarrow> ('s, u8 list) act" where
  "ps2_body rd sector remaining buf out =
     (if 0 < remaining
      then then_do (read_sector rd sector) (\<lambda>bs.
             if length bs < min remaining SECTOR_USER then throw UnexpectedEof
             else if unat sector = 4294967295 then throw InvalidData
             else ps2_body rd (sector + 1) (remaining - min remaining SECTOR_USER) (fill buf bs)
                    (out @ take (min remaining SECTOR_USER) (fill buf bs)))
      else ret out)"
  by pat_completeness auto
termination
  by (relation "measure (\<lambda>(rd, sector, remaining, buf, out). remaining)") auto

declare ps2_body.simps [simp del]

definition ps2_hash :: "md5 \<Rightarrow> 's sector_reader \<Rightarrow> ('s, rstr option) act" where
  "ps2_hash md5 rd =
     then_do (iso_find_file rd (lit ''SYSTEM.CNF'')) (\<lambda>r.
       case r of
         None \<Rightarrow> ret None
       | Some (cnf_sector, _) \<Rightarrow>
           then_do (read_sector rd cnf_sector) (\<lambda>bs.
             case boot_name (take 2047 bs) of
               None \<Rightarrow> ret None
             | Some name \<Rightarrow>
                 then_do (iso_find_path rd (split_on 92 name)) (\<lambda>r.
                   case r of
                     None \<Rightarrow> ret None
                   | Some (sector, len) \<Rightarrow>
                       if min (unat len) MAX_BUFFER_SIZE = 0 then ret None
                       else then_do (ps2_body rd sector (min (unat len) MAX_BUFFER_SIZE) (fill zero_sector bs) []) (\<lambda>body.
                              ret (Some (md5_hex md5 (utf8_bytes name @ body)))))))"

section \<open>Dispatch\<close>

text \<open>The recipe of a kind of disc over an opened reader.\<close>

definition sector_recipe :: "rc_hash_kind \<Rightarrow> md5 \<Rightarrow> 's sector_reader \<Rightarrow> 's \<Rightarrow> (rstr option \<times> 's) io option" where
  "sector_recipe kind md5 rd s =
     (case kind of
        Psx \<Rightarrow> Some (psx_hash md5 rd s)
      | Psp \<Rightarrow> Some (psp_hash md5 rd s)
      | SegaCd \<Rightarrow> Some (sega_cd_hash md5 rd s)
      | ThreeDo \<Rightarrow> three_do_hash md5 rd s
      | PceCd \<Rightarrow> Some (pce_cd_hash md5 rd s)
      | NeoGeoCd \<Rightarrow> Some (neogeo_cd_hash md5 rd s)
      | _ \<Rightarrow> Some (Done (None, s)))"

section \<open>Recipes and the reader\<close>

text \<open>
  A recipe looks at the reader through its sectors only: over two readers whose reads agree, it
  returns the same result.
\<close>

definition reader_sim :: "('s \<Rightarrow> 't \<Rightarrow> bool) \<Rightarrow> 's sector_reader \<Rightarrow> 't sector_reader \<Rightarrow> bool" where
  "reader_sim R rd rd' \<longleftrightarrow>
     first_track_sector rd = first_track_sector rd' \<and> (\<forall>n. sim R (read_sector rd n) (read_sector rd' n))"

lemma reader_sim_read [sim_intros]: "reader_sim R rd rd' \<Longrightarrow> sim R (read_sector rd n) (read_sector rd' n)"
  by (simp add: reader_sim_def)

lemma reader_sim_first: "reader_sim R rd rd' \<Longrightarrow> first_track_sector rd = first_track_sector rd'"
  by (simp add: reader_sim_def)

lemma sim_iso_dir_scan [sim_intros]:
  "reader_sim R rd rd' \<Longrightarrow> sim R (iso_dir_scan rd want lba n sec) (iso_dir_scan rd' want lba n sec)"
  by (induction n arbitrary: lba sec) (auto intro!: sim_intros)

lemma sim_iso_dir_find [sim_intros]:
  "reader_sim R rd rd' \<Longrightarrow> sim R (iso_dir_find rd lba len name) (iso_dir_find rd' lba len name)"
  by (simp add: iso_dir_find_def sim_intros)

lemma sim_iso_components [sim_intros]:
  "reader_sim R rd rd' \<Longrightarrow> sim R (iso_components rd cs lba len found) (iso_components rd' cs lba len found)"
  by (induction cs arbitrary: lba len found) (auto intro!: sim_intros)

lemma sim_iso_find_path [sim_intros]:
  "reader_sim R rd rd' \<Longrightarrow> sim R (iso_find_path rd path) (iso_find_path rd' path)"
  by (simp add: iso_find_path_def reader_sim_first cong: if_cong) (intro sim_intros; simp add: reader_sim_first)

lemma sim_iso_find_file [sim_intros]:
  "reader_sim R rd rd' \<Longrightarrow> sim R (iso_find_file rd name) (iso_find_file rd' name)"
  unfolding iso_find_file_def by (rule sim_intros)

lemma sim_read_file_loop:
  "reader_sim R rd rd' \<Longrightarrow> sim R (read_file_loop rd start remaining out) (read_file_loop rd' start remaining out)"
proof (induction remaining arbitrary: start out rule: less_induct)
  case (less remaining)
  show ?case
    by (subst (1 2) read_file_loop.simps) (intro sim_intros less; simp)
qed

lemma sim_read_file_bytes [sim_intros]:
  "reader_sim R rd rd' \<Longrightarrow> sim R (read_file_bytes rd start len) (read_file_bytes rd' start len)"
  unfolding read_file_bytes_def by (rule sim_read_file_loop)

lemma sim_psx_exe_name [sim_intros]: "reader_sim R rd rd' \<Longrightarrow> sim R (psx_exe_name rd) (psx_exe_name rd')"
  unfolding psx_exe_name_def by (intro sim_intros)

lemma sim_psx_hash [sim_intros]: "reader_sim R rd rd' \<Longrightarrow> sim R (psx_hash md5 rd) (psx_hash md5 rd')"
  unfolding psx_hash_def by (intro sim_intros)

lemma sim_psp_hash [sim_intros]: "reader_sim R rd rd' \<Longrightarrow> sim R (psp_hash md5 rd) (psp_hash md5 rd')"
  unfolding psp_hash_def by (intro sim_intros)

lemma sim_sega_cd_hash [sim_intros]: "reader_sim R rd rd' \<Longrightarrow> sim R (sega_cd_hash md5 rd) (sega_cd_hash md5 rd')"
  unfolding sega_cd_hash_def by (intro sim_intros)

lemma sim_dreamcast_hash [sim_intros]:
  "reader_sim R rd rd' \<Longrightarrow> sim R (dreamcast_hash md5 rd) (dreamcast_hash md5 rd')"
  by (simp add: dreamcast_hash_def reader_sim_first cong: if_cong) (intro sim_intros; simp add: reader_sim_first)

lemma sim_opera_body [sim_intros]:
  "reader_sim R rd rd' \<Longrightarrow> sim R (opera_body rd sector remaining tmp out) (opera_body rd' sector remaining tmp out)"
proof (induction remaining arbitrary: sector tmp out rule: less_induct)
  case (less remaining)
  show ?case
    by (subst (1 2) opera_body.simps) (intro sim_intros less; simp)
qed

lemma sim_opera_file [sim_intros]:
  "reader_sim R rd rd' \<Longrightarrow> sim R (opera_file rd bl len) (opera_file rd' bl len)"
  unfolding opera_file_def by (intro sim_intros)

lemma sim_three_do_start [sim_intros]:
  "reader_sim R rd rd' \<Longrightarrow> sim R (three_do_start rd) (three_do_start rd')"
  unfolding three_do_start_def by (intro sim_intros)

lemma sim_pce_sectors [sim_intros]:
  "reader_sim R rd rd' \<Longrightarrow> sim R (pce_sectors rd sector num buf out) (pce_sectors rd' sector num buf out)"
  by (induction num arbitrary: sector buf out) (auto intro!: sim_intros)

lemma sim_pce_cd_hash [sim_intros]:
  "reader_sim R rd rd' \<Longrightarrow> sim R (pce_cd_hash md5 rd) (pce_cd_hash md5 rd')"
  by (simp add: pce_cd_hash_def reader_sim_first cong: if_cong) (intro sim_intros; simp add: reader_sim_first)

lemma sim_prg_files [sim_intros]:
  "reader_sim R rd rd' \<Longrightarrow> sim R (prg_files rd lines found out) (prg_files rd' lines found out)"
  by (induction lines arbitrary: found out) (auto intro!: sim_intros)

lemma sim_neogeo_cd_hash [sim_intros]:
  "reader_sim R rd rd' \<Longrightarrow> sim R (neogeo_cd_hash md5 rd) (neogeo_cd_hash md5 rd')"
  unfolding neogeo_cd_hash_def by (intro sim_intros)

lemma sim_ps2_body [sim_intros]:
  "reader_sim R rd rd' \<Longrightarrow> sim R (ps2_body rd sector remaining buf out) (ps2_body rd' sector remaining buf out)"
proof (induction remaining arbitrary: sector buf out rule: less_induct)
  case (less remaining)
  show ?case
    by (subst (1 2) ps2_body.simps) (intro sim_intros less; simp)
qed

lemma sim_ps2_hash [sim_intros]:
  "reader_sim R rd rd' \<Longrightarrow> sim R (ps2_hash md5 rd) (ps2_hash md5 rd')"
  unfolding ps2_hash_def by (intro sim_intros)

text \<open>The walk over the Opera directory: one direction, then both.\<close>

lemma opera_walk_forward:
  assumes "opera_walk rd bs bl sector buf s = Some r" and "reader_sim R rd rd'" and "R s t"
  shows "\<exists>r'. opera_walk rd' bs bl sector buf t = Some r' \<and> rel_io (rel_prod (=) R) r r'"
proof -
  have "\<forall>t. reader_sim R rd rd' \<longrightarrow> R s t \<longrightarrow>
      (\<exists>r'. opera_walk rd' bs bl sector buf t = Some r' \<and> rel_io (rel_prod (=) R) r r')"
  proof (rule opera_walk.raw_induct [where P = "\<lambda>rd bs bl sector buf s r. \<forall>t. reader_sim R rd rd' \<longrightarrow> R s t \<longrightarrow>
      (\<exists>r'. opera_walk rd' bs bl sector buf t = Some r' \<and> rel_io (rel_prod (=) R) r r')", OF _ assms(1)])
    fix f rd bs bl sector buf s r
    assume IH: "\<And>rd bs bl sector buf s r. f rd bs bl sector buf s = Some r \<Longrightarrow>
        \<forall>t. reader_sim R rd rd' \<longrightarrow> R s t \<longrightarrow>
          (\<exists>r'. opera_walk rd' bs bl sector buf t = Some r' \<and> rel_io (rel_prod (=) R) r r')"
      and eq: "(case read_sector rd sector s of Panic \<Rightarrow> Some Panic | Fail e \<Rightarrow> Some (Fail e)
        | Done (bytes, s') \<Rightarrow> if bytes = [] then Some (Done ((bl, 0), s'))
            else (case opera_block bs bl (fill buf bytes) of Inl found \<Rightarrow> Some (Done (found, s'))
              | Inr (bs, bl, sector) \<Rightarrow> f rd bs bl sector (fill buf bytes) s')) = Some r"
    show "\<forall>t. reader_sim R rd rd' \<longrightarrow> R s t \<longrightarrow>
        (\<exists>r'. opera_walk rd' bs bl sector buf t = Some r' \<and> rel_io (rel_prod (=) R) r r')"
    proof (intro allI impI)
      fix t
      assume sim: "reader_sim R rd rd'" and st: "R s t"
      have rel: "rel_io (rel_prod (=) R) (read_sector rd sector s) (read_sector rd' sector t)"
        using reader_sim_read [OF sim] st by (rule simD)
      show "\<exists>r'. opera_walk rd' bs bl sector buf t = Some r' \<and> rel_io (rel_prod (=) R) r r'"
      proof (cases "read_sector rd sector s")
        case (Done x)
        then obtain bytes s' t' where s: "read_sector rd sector s = Done (bytes, s')"
          and t: "read_sector rd' sector t = Done (bytes, t')" and st': "R s' t'"
          using rel by (cases x) (auto elim: io.rel_cases)
        show ?thesis
        proof (cases "bytes = [] \<or> (\<exists>found. opera_block bs bl (fill buf bytes) = Inl found)")
          case True
          with eq s t st' show ?thesis by (subst opera_walk.simps) auto
        next
          case False
          then obtain bs2 bl2 sec2 where block: "bytes \<noteq> []" "opera_block bs bl (fill buf bytes) = Inr (bs2, bl2, sec2)"
            by (cases "opera_block bs bl (fill buf bytes)") auto
          with eq s have "f rd bs2 bl2 sec2 (fill buf bytes) s' = Some r" by simp
          from IH [OF this] sim st' show ?thesis by (subst opera_walk.simps) (simp add: t block)
        qed
      qed (use eq rel in \<open>subst opera_walk.simps, auto elim: io.rel_cases\<close>)+
    qed
  qed
  with assms show ?thesis by blast
qed

lemma sim_conversep: "sim R m n \<Longrightarrow> sim R\<inverse>\<inverse> n m"
  unfolding sim_def
proof (intro allI impI)
  fix s t
  assume "\<forall>s t. R s t \<longrightarrow> rel_io (rel_prod (=) R) (m s) (n t)" and "R\<inverse>\<inverse> s t"
  then have "rel_io (rel_prod (=) R) (m t) (n s)" by simp
  then show "rel_io (rel_prod (=) R\<inverse>\<inverse>) (n s) (m t)" by cases auto
qed

lemma reader_sim_conversep: "reader_sim R rd rd' \<Longrightarrow> reader_sim R\<inverse>\<inverse> rd' rd"
  by (simp add: reader_sim_def sim_conversep)

lemma opera_walk_sim:
  assumes sim: "reader_sim R rd rd'" and st: "R s t"
  shows "rel_option (rel_io (rel_prod (=) R)) (opera_walk rd bs bl sector buf s) (opera_walk rd' bs bl sector buf t)"
proof (cases "opera_walk rd bs bl sector buf s")
  case (Some r)
  with opera_walk_forward [OF Some sim st] show ?thesis by auto
next
  case None
  have "opera_walk rd' bs bl sector buf t = None"
  proof (cases "opera_walk rd' bs bl sector buf t")
    case (Some r')
    with opera_walk_forward [OF Some reader_sim_conversep [OF sim], of s] st None show ?thesis by simp
  qed
  with None show ?thesis by simp
qed

lemma three_do_hash_sim:
  assumes sim: "reader_sim R rd rd'" and st: "R s t"
  shows "rel_option (rel_io (rel_prod (=) R)) (three_do_hash md5 rd s) (three_do_hash md5 rd' t)"
proof -
  have start: "rel_io (rel_prod (=) R) (three_do_start rd s) (three_do_start rd' t)"
    using sim_three_do_start [OF sim] st by (rule simD)
  show ?thesis
  proof (cases "\<exists>buf s1. three_do_start rd s = Done (Some buf, s1)")
    case True
    then obtain buf s1 t1 where s1: "three_do_start rd s = Done (Some buf, s1)"
      and t1: "three_do_start rd' t = Done (Some buf, t1)" and st1: "R s1 t1"
      using start by (auto elim: io.rel_cases)
    let ?bs = "be3 buf 77" and ?bl = "be3 buf 101 * be3 buf 77"
    have walk: "rel_option (rel_io (rel_prod (=) R)) (opera_walk rd ?bs ?bl (?bl div 2048) buf s1)
        (opera_walk rd' ?bs ?bl (?bl div 2048) buf t1)"
      by (rule opera_walk_sim [OF sim st1])
    have contents: "rel_io (rel_prod (=) R)
        (then_do (opera_file rd bl len) (\<lambda>body. ret (Some (md5_hex md5 (take 132 buf @ body)))) s2)
        (then_do (opera_file rd' bl len) (\<lambda>body. ret (Some (md5_hex md5 (take 132 buf @ body)))) t2)"
      if "R s2 t2" for bl len s2 t2
      using _ that by (rule simD) (intro sim_intros sim)
    from walk show ?thesis
      unfolding three_do_hash_def s1 t1
      by (cases rule: option.rel_cases) (auto simp: Let_def elim!: io.rel_cases intro: contents)
  next
    case False
    with start show ?thesis
      by (auto simp: three_do_hash_def elim!: io.rel_cases split: option.splits)
  qed
qed

lemma sector_recipe_sim:
  assumes sim: "reader_sim R rd rd'" and st: "R s t"
  shows "rel_option (rel_io (rel_prod (=) R)) (sector_recipe kind md5 rd s) (sector_recipe kind md5 rd' t)"
  using three_do_hash_sim [OF sim st] sim_psx_hash [OF sim, THEN simD, OF st] sim_psp_hash [OF sim, THEN simD, OF st]
    sim_sega_cd_hash [OF sim, THEN simD, OF st] sim_pce_cd_hash [OF sim, THEN simD, OF st]
    sim_neogeo_cd_hash [OF sim, THEN simD, OF st] st
  by (cases kind) (simp_all add: sector_recipe_def)

context sector_source
begin

text \<open>A recipe over a reader computes what it computes on the disc image.\<close>

lemma reader_sim_pure: "reader_sim same rd pure_reader"
  by (simp add: reader_sim_def sim_read) (simp add: pure_reader_def image_reader_def)

lemma recipe_on_image:
  assumes "inv s"
  shows "map_option result (sector_recipe kind md5 rd s) = map_option result (sector_recipe kind md5 pure_reader ())"
proof -
  have "same s ()" using assms by (simp add: same_def)
  from sector_recipe_sim [OF reader_sim_pure this, of kind md5] show ?thesis
    by cases (auto simp: result_def elim!: io.rel_cases)
qed

lemma ps2_on_image: "inv s \<Longrightarrow> result (ps2_hash md5 rd s) = result (ps2_hash md5 pure_reader ())"
  by (rule sim_result [OF sim_ps2_hash [OF reader_sim_pure]]) (simp add: same_def)

lemma dreamcast_on_image: "inv s \<Longrightarrow> result (dreamcast_hash md5 rd s) = result (dreamcast_hash md5 pure_reader ())"
  by (rule sim_result [OF sim_dreamcast_hash [OF reader_sim_pure]]) (simp add: same_def)

end

section \<open>No panics\<close>

definition safe :: "('s, 'a) act \<Rightarrow> bool" where
  "safe m \<longleftrightarrow> (\<forall>s. m s \<noteq> Panic)"

named_theorems safe_intros \<open>actions that do not panic\<close>

lemma safe_ret [safe_intros]: "safe (ret x)"
  by (simp add: safe_def ret_def)

lemma safe_throw [safe_intros]: "safe (throw e)"
  by (simp add: safe_def throw_def)

lemma safe_then_do [safe_intros]: "safe m \<Longrightarrow> (\<And>x. safe (f x)) \<Longrightarrow> safe (then_do m f)"
  by (simp add: safe_def then_do_Panic_iff)

lemma safe_if [safe_intros]: "(b \<Longrightarrow> safe m) \<Longrightarrow> (\<not> b \<Longrightarrow> safe n) \<Longrightarrow> safe (if b then m else n)"
  by simp

lemma safe_option [safe_intros]: "safe m \<Longrightarrow> (\<And>x. safe (f x)) \<Longrightarrow> safe (case v of None \<Rightarrow> m | Some x \<Rightarrow> f x)"
  by (cases v) simp_all

lemma safe_prod [safe_intros]: "(\<And>x y. safe (f x y)) \<Longrightarrow> safe (case p of (x, y) \<Rightarrow> f x y)"
  by (cases p) simp

lemma safe_Let [safe_intros]: "(\<And>x. safe (f x)) \<Longrightarrow> safe (let x = v in f x)"
  by simp

definition safe_reader :: "'s sector_reader \<Rightarrow> bool" where
  "safe_reader rd \<longleftrightarrow> (\<forall>n. safe (read_sector rd n))"

lemma safe_read [safe_intros]: "safe_reader rd \<Longrightarrow> safe (read_sector rd n)"
  by (simp add: safe_reader_def)

lemma safe_iso_dir_scan [safe_intros]: "safe_reader rd \<Longrightarrow> safe (iso_dir_scan rd want lba n sec)"
  by (induction n arbitrary: lba sec) (auto intro!: safe_intros)

lemma safe_iso_components [safe_intros]: "safe_reader rd \<Longrightarrow> safe (iso_components rd cs lba len found)"
  by (induction cs arbitrary: lba len found) (auto simp: iso_dir_find_def intro!: safe_intros)

lemma safe_iso_find_path [safe_intros]: "safe_reader rd \<Longrightarrow> safe (iso_find_path rd path)"
  unfolding iso_find_path_def by (intro safe_intros)

lemma safe_iso_find_file [safe_intros]: "safe_reader rd \<Longrightarrow> safe (iso_find_file rd name)"
  unfolding iso_find_file_def by (rule safe_intros)

lemma safe_read_file_bytes [safe_intros]: "safe_reader rd \<Longrightarrow> safe (read_file_bytes rd start len)"
proof -
  assume rd: "safe_reader rd"
  have "safe (read_file_loop rd start remaining out)" for start remaining out
  proof (induction remaining arbitrary: start out rule: less_induct)
    case (less remaining)
    show ?case by (subst read_file_loop.simps) (intro safe_intros rd less; simp)
  qed
  then show ?thesis by (simp add: read_file_bytes_def)
qed

lemma safe_pce_sectors [safe_intros]: "safe_reader rd \<Longrightarrow> safe (pce_sectors rd sector num buf out)"
  by (induction num arbitrary: sector buf out) (auto intro!: safe_intros)

lemma safe_prg_files [safe_intros]: "safe_reader rd \<Longrightarrow> safe (prg_files rd lines found out)"
  by (induction lines arbitrary: found out) (auto intro!: safe_intros)

lemma safe_ps2_hash: "safe_reader rd \<Longrightarrow> safe (ps2_hash md5 rd)"
proof -
  assume rd: "safe_reader rd"
  have body: "safe (ps2_body rd sector remaining buf out)" for sector remaining buf out
  proof (induction remaining arbitrary: sector buf out rule: less_induct)
    case (less remaining)
    show ?case by (subst ps2_body.simps) (intro safe_intros rd less; simp)
  qed
  show ?thesis unfolding ps2_hash_def by (intro safe_intros rd body)
qed

text \<open>The slice of the 3DO recipe is in range when reading a sector twice gives the same.\<close>

lemma opera_body_image:
  "opera_body (image_reader img first) sector remaining tmp out () = Done ((sector', remaining', tmp', out'), s') \<Longrightarrow>
     remaining' \<le> SECTOR_USER \<or> img sector' = Done []"
proof (induction remaining arbitrary: sector tmp out rule: less_induct)
  case (less remaining)
  show ?case
  proof (cases "SECTOR_USER < remaining")
    case True
    with less.prems obtain bs where read: "img sector = Done bs"
      and rest: "(if bs = [] then ret (sector, remaining, tmp, out)
        else opera_body (image_reader img first) (sector + 1) (remaining - SECTOR_USER) (fill tmp bs) (out @ fill tmp bs)) ()
        = Done ((sector', remaining', tmp', out'), s')"
      by (subst (asm) opera_body.simps)
        (auto simp: then_do_def image_reader_def lift_io_def split: io.splits)
    show ?thesis
    proof (cases "bs = []")
      case False
      with rest show ?thesis using less.IH [of "remaining - SECTOR_USER"] True by simp
    qed (use read rest in \<open>simp add: ret_app\<close>)
  next
    case False
    with less.prems show ?thesis by (subst (asm) opera_body.simps) (simp add: ret_app)
  qed
qed

lemma safe_opera_file:
  assumes "\<And>n. img n \<noteq> Panic"
  shows "opera_file (image_reader img first) bl len () \<noteq> Panic"
proof
  assume panic: "opera_file (image_reader img first) bl len () = Panic"
  have rd: "safe_reader (image_reader img first)"
    using assms by (simp add: safe_reader_def safe_def image_reader_def lift_io_def split: io.split)
  have body: "safe (opera_body (image_reader img first) sector remaining tmp out)" for sector remaining tmp out
  proof (induction remaining arbitrary: sector tmp out rule: less_induct)
    case (less remaining)
    show ?case by (subst opera_body.simps) (intro safe_intros rd less; simp)
  qed
  let ?body = "opera_body (image_reader img first) (bl div 2048) (unat len) zero_sector []"
  have "?body () \<noteq> Panic" using body by (simp add: safe_def)
  with panic obtain sector remaining tmp out where
    b: "opera_body (image_reader img first) (bl div 2048) (unat len) zero_sector [] () = Done ((sector, remaining, tmp, out), ())"
    and slice: "then_do (read_sector (image_reader img first) sector) (\<lambda>bs.
       if bs = [] then ret out else if SECTOR_USER < remaining then panic else ret (out @ take remaining (fill tmp bs))) () = Panic"
    unfolding opera_file_def then_do_Panic_iff [of ?body] by (auto split: prod.splits)
  from slice assms [of sector] obtain bs where "img sector = Done bs" "bs \<noteq> []" "SECTOR_USER < remaining"
    by (auto simp: then_do_def image_reader_def lift_io_def ret_def split: io.splits if_splits)
  with opera_body_image [OF b] show False by simp
qed

lemma safe_opera_walk:
  assumes "opera_walk rd bs bl sector buf s = Some r" and "safe_reader rd"
  shows "r \<noteq> Panic"
proof -
  have "safe_reader rd \<longrightarrow> r \<noteq> Panic"
  proof (rule opera_walk.raw_induct [where P = "\<lambda>rd bs bl sector buf s r. safe_reader rd \<longrightarrow> r \<noteq> Panic", OF _ assms(1)])
    fix f rd bs bl sector buf s r
    assume IH: "\<And>rd bs bl sector buf s r. f rd bs bl sector buf s = Some r \<Longrightarrow> safe_reader rd \<longrightarrow> r \<noteq> Panic"
      and eq: "(case read_sector rd sector s of Panic \<Rightarrow> Some Panic | Fail e \<Rightarrow> Some (Fail e)
        | Done (bytes, s') \<Rightarrow> if bytes = [] then Some (Done ((bl, 0), s'))
            else (case opera_block bs bl (fill buf bytes) of Inl found \<Rightarrow> Some (Done (found, s'))
              | Inr (bs, bl, sector) \<Rightarrow> f rd bs bl sector (fill buf bytes) s')) = Some r"
    show "safe_reader rd \<longrightarrow> r \<noteq> Panic"
    proof
      assume rd: "safe_reader rd"
      then have "read_sector rd sector s \<noteq> Panic" by (simp add: safe_reader_def safe_def)
      with eq rd show "r \<noteq> Panic"
        by (cases "read_sector rd sector s") (auto split: if_splits sum.splits dest: IH)
    qed
  qed
  with assms(2) show ?thesis by blast
qed

lemma safe_three_do:
  assumes "\<And>n. img n \<noteq> Panic"
  shows "three_do_hash md5 (image_reader img first) () \<noteq> Some Panic"
proof -
  have rd: "safe_reader (image_reader img first)"
    using assms by (simp add: safe_reader_def safe_def image_reader_def lift_io_def split: io.split)
  then have start: "three_do_start (image_reader img first) () \<noteq> Panic"
    using safe_read [OF rd] by (auto simp: three_do_start_def then_do_Panic_iff safe_def ret_def split: if_splits)
  have contents: "then_do (opera_file (image_reader img first) bl len) (\<lambda>body. ret (Some (md5_hex md5 (pre @ body)))) () = Panic
      \<longleftrightarrow> False" for bl len pre
    using safe_opera_file [OF assms] by (auto simp: then_do_Panic_iff ret_def)
  have walk: "opera_walk (image_reader img first) bs bl sector buf s \<noteq> Some Panic" for bs bl sector buf s
    using safe_opera_walk [OF _ rd] by blast
  show ?thesis
    using start walk by (auto simp: three_do_hash_def Let_def contents split: io.splits option.splits)
qed

lemma safe_sector_recipe:
  assumes "\<And>n. img n \<noteq> Panic"
  shows "sector_recipe kind md5 (image_reader img first) () \<noteq> Some Panic"
proof -
  have rd: "safe_reader (image_reader img first)"
    using assms by (simp add: safe_reader_def safe_def image_reader_def lift_io_def split: io.split)
  have "safe (psx_hash md5 (image_reader img first))" "safe (psp_hash md5 (image_reader img first))"
    "safe (sega_cd_hash md5 (image_reader img first))" "safe (pce_cd_hash md5 (image_reader img first))"
    "safe (neogeo_cd_hash md5 (image_reader img first))"
    unfolding psx_hash_def psx_exe_name_def psp_hash_def sega_cd_hash_def pce_cd_hash_def neogeo_cd_hash_def
    by (intro safe_intros rd)+
  with safe_three_do [OF assms] show ?thesis
    by (cases kind) (auto simp: sector_recipe_def safe_def)
qed

lemma safe_dreamcast_hash: "safe_reader rd \<Longrightarrow> safe (dreamcast_hash md5 rd)"
  unfolding dreamcast_hash_def by (intro safe_intros)

lemma result_Panic_iff' [simp]: "result r = Panic \<longleftrightarrow> r = Panic"
  by (cases r) (simp_all add: result_def)

text \<open>On a reader that presents a disc no recipe panics.\<close>

context sector_source begin

lemma safe_pure_reader: "safe_reader pure_reader"
  using image_no_panic by (auto simp: safe_reader_def safe_def pure_reader_def image_reader_def lift_io_def split: io.split)

lemma recipe_no_panic: "inv s \<Longrightarrow> map_option result (sector_recipe kind md5 rd s) \<noteq> Some Panic"
  using recipe_on_image [of s kind md5] safe_sector_recipe [OF image_no_panic]
  by (auto simp: pure_reader_def)

lemma ps2_no_panic: "inv s \<Longrightarrow> result (ps2_hash md5 rd s) \<noteq> Panic"
  using ps2_on_image [of s md5] safe_ps2_hash [OF safe_pure_reader] by (simp add: safe_def)

lemma dreamcast_no_panic: "inv s \<Longrightarrow> result (dreamcast_hash md5 rd s) \<noteq> Panic"
  using dreamcast_on_image [of s md5] safe_dreamcast_hash [OF safe_pure_reader] by (simp add: safe_def)

end

end
