(* ===== verification/Disc_Readers.thy ===== *)
theory Disc_Readers
  imports Disc_Recipes
begin

text \<open>
  The readers behind \<open>SectorReader\<close>: raw track files with their framing, GD-ROM tracks and cue
  tracks, CHD images with their hunk cache, CSO and ZSO images with their block cache
  (\<open>rc_hash_disc/containers.rs\<close>) and sequential gzip streams. Each one is interpreted as a
  \<open>sector_source\<close> of the bytes it presents.

  The decoders of the crates \<open>chd\<close>, \<open>flate2\<close> and \<open>lz4_flex\<close> are parameters. A reader is
  dropped on its first error, so the state after an error is not part of the model.
\<close>

section \<open>Raw track files\<close>

definition SYNC :: "u8 list" where
  "SYNC = [0, 255, 255, 255, 255, 255, 255, 255, 255, 255, 255, 0]"

definition detect_framing :: "u8 list \<Rightarrow> nat \<Rightarrow> nat \<times> nat" where
  "detect_framing head file_len =
     (if 2352 \<le> length head \<and> take 12 head = SYNC
      then if take 5 (drop 25 head) = bytes_lit ''CD001'' then (2352, 24) else (2352, 16)
      else if file_len mod 2352 = 0 then (2352, 16)
      else if file_len mod 2336 = 0 then (2336, 8)
      else (2048, 0))"

record raw_bin =
  rb_file :: disk_file
  rb_raw_sector_size :: nat
  rb_header :: nat

definition raw_bin_open :: "disk_file \<Rightarrow> raw_bin io" where
  "raw_bin_open f =
     (case file_read f 0 2352 of
        Panic \<Rightarrow> Panic
      | Fail e \<Rightarrow> Fail e
      | Done head \<Rightarrow>
          let (raw_sector_size, header) = detect_framing head (length (fi_bytes f))
          in Done \<lparr>rb_file = f, rb_raw_sector_size = raw_sector_size, rb_header = header\<rparr>)"

definition raw_bin_read :: "raw_bin \<Rightarrow> image" where
  "raw_bin_read r sector =
     file_read (rb_file r) (unat sector * rb_raw_sector_size r + rb_header r) SECTOR_USER"

definition raw_bin_reader :: "raw_bin \<Rightarrow> unit sector_reader" where
  "raw_bin_reader r = image_reader (raw_bin_read r) 0"

text \<open>A GD-ROM track; the sector size comes from the text of the \<open>.gdi\<close> file, so the offset may wrap.\<close>

record gdi_reader =
  gr_file :: disk_file
  gr_raw_sector_size :: nat
  gr_header :: nat
  gr_track_first_sector :: u32

definition gdi_open :: "disk_file \<Rightarrow> nat \<Rightarrow> u32 \<Rightarrow> gdi_reader io" where
  "gdi_open f sector_size start_lba =
     (case file_read f 0 2352 of
        Panic \<Rightarrow> Panic
      | Fail e \<Rightarrow> Fail e
      | Done head \<Rightarrow>
          let (raw_sector_size, header) =
                (if sector_size = 2352 then detect_framing head (length (fi_bytes f)) else (sector_size, 0))
          in Done \<lparr>gr_file = f, gr_raw_sector_size = raw_sector_size, gr_header = header,
                   gr_track_first_sector = start_lba\<rparr>)"

definition gdi_read :: "gdi_reader \<Rightarrow> image" where
  "gdi_read r sector =
     (if sector < gr_track_first_sector r then Done []
      else file_read (gr_file r)
             ((unat (sector - gr_track_first_sector r) * gr_raw_sector_size r + gr_header r) mod 2 ^ 64) SECTOR_USER)"

definition gdi_sector_reader :: "gdi_reader \<Rightarrow> unit sector_reader" where
  "gdi_sector_reader r = image_reader (gdi_read r) (gr_track_first_sector r)"

text \<open>\<open>CueReader\<close> of \<open>ps2.rs\<close>: whole sectors only.\<close>

record cue_reader =
  cu_file :: disk_file
  cu_base :: nat
  cu_stride :: nat

definition cue_read :: "cue_reader \<Rightarrow> image" where
  "cue_read r sector = file_read_exact (cu_file r) ((cu_base r + unat sector * cu_stride r) mod 2 ^ 64) SECTOR_USER"

definition cue_sector_reader :: "cue_reader \<Rightarrow> unit sector_reader" where
  "cue_sector_reader r = image_reader (cue_read r) 0"

section \<open>CSO and ZSO images\<close>

record codecs =
  inflate :: "u8 list \<Rightarrow> u8 list \<times> io_kind option"
  lz4_decompress :: "u8 list \<Rightarrow> nat \<Rightarrow> io_kind + u8 list"

record cso =
  cs_file :: disk_file
  cs_length :: nat
  cs_block_size :: nat
  cs_shift :: nat
  cs_lz4 :: bool
  cs_index_end :: nat

record cso_cache =
  cc_block :: "u8 list"
  cc_cached :: "nat option"

definition is_power_of_two :: "nat \<Rightarrow> bool" where
  "is_power_of_two n \<longleftrightarrow> list_ex (\<lambda>k. n = 2 ^ k) [0 ..< 64]"

definition cso_open :: "disk_file \<Rightarrow> (cso \<times> cso_cache) io" where
  "cso_open f =
     (case file_read_exact f 0 24 of
        Panic \<Rightarrow> Panic
      | Fail e \<Rightarrow> Fail e
      | Done header \<Rightarrow>
          let len = le64 header 8;
              block_size = unat (le32 header 16)
          in if take 4 header \<notin> {bytes_lit ''CISO'', bytes_lit ''ZISO''} \<or> 1 < byte_at header 20 \<or>
                20 < byte_at header 21 \<or> block_size < 2048 \<or> 16777216 < block_size \<or>
                \<not> is_power_of_two block_size \<or> len = 0 \<or> 17179869184 < len
             then Fail InvalidData
             else let index_end = 24 + ((len + (block_size - 1)) div block_size + 1) * 4
                  in if length (fi_bytes f) < index_end then Fail InvalidData
                     else Done (\<lparr>cs_file = f, cs_length = len, cs_block_size = block_size,
                                 cs_shift = byte_at header 21, cs_lz4 = (header ! 0 = 90), cs_index_end = index_end\<rparr>,
                                \<lparr>cc_block = replicate block_size 0, cc_cached = None\<rparr>))"

text \<open>
  The length fields of the LZ4 sequences, up to the expected output size. A length that starts
  with 15 goes on with bytes up to one that is not 255.
\<close>

fun lz4_more :: "u8 list \<Rightarrow> nat \<Rightarrow> (nat \<times> u8 list) option" where
  "lz4_more [] n = None"
| "lz4_more (b # bs) n = (if b = 255 then lz4_more bs (n + 255) else Some (n + unat b, bs))"

definition lz4_length :: "nat \<Rightarrow> u8 list \<Rightarrow> (nat \<times> u8 list) option" where
  "lz4_length base bs = (if base = 15 then lz4_more bs 15 else Some (base, bs))"

lemma lz4_more_length: "lz4_more bs n = Some (m, rest) \<Longrightarrow> length rest < length bs"
  by (induction bs n rule: lz4_more.induct) (auto split: if_splits)

lemma lz4_length_length: "lz4_length base bs = Some (m, rest) \<Longrightarrow> length rest \<le> length bs"
  by (auto simp: lz4_length_def dest: lz4_more_length split: if_splits)

text \<open>What follows the last sequence; \<open>None\<close> is one of the errors.\<close>

function lz4_rest :: "u8 list \<Rightarrow> nat \<Rightarrow> nat \<Rightarrow> u8 list option" where
  "lz4_rest input produced expected =
     (if produced < expected
      then (case input of
              [] \<Rightarrow> None
            | token # bs \<Rightarrow>
                (case lz4_length (unat token div 16) bs of
                   None \<Rightarrow> None
                 | Some (literals, bs) \<Rightarrow>
                     if length bs < literals \<or> expected < produced + literals then None
                     else if produced + literals = expected then Some (drop literals bs)
                     else if length (drop literals bs) < 2 then None
                     else (case (if unat token mod 16 = 15 then lz4_more (drop (literals + 2) bs) 19
                                 else Some (unat token mod 16 + 4, drop (literals + 2) bs)) of
                             None \<Rightarrow> None
                           | Some (matched, bs) \<Rightarrow>
                               if expected < produced + literals + matched then None
                               else lz4_rest bs (produced + literals + matched) expected)))
      else Some input)"
  by pat_completeness auto
termination
  by (relation "measure (\<lambda>(input, produced, expected). length input)")
    (auto dest!: lz4_more_length lz4_length_length split: if_splits)

declare lz4_rest.simps [simp del]

definition decode_lz4_block :: "codecs \<Rightarrow> u8 list \<Rightarrow> nat \<Rightarrow> u8 list io" where
  "decode_lz4_block cd input expected =
     (case lz4_rest input 0 expected of
        None \<Rightarrow> Fail InvalidData
      | Some rest \<Rightarrow>
          (case lz4_decompress cd (take (length input - length rest) input) expected of
             Inl e \<Rightarrow> Fail OtherError
           | Inr out \<Rightarrow> if length out \<noteq> expected then Fail InvalidData else Done out))"

definition inflate_block :: "codecs \<Rightarrow> u8 list \<Rightarrow> nat \<Rightarrow> u8 list io" where
  "inflate_block cd input expected =
     (case inflate cd input of
        (out, err) \<Rightarrow>
          if length out < expected then Fail (case err of Some e \<Rightarrow> e | None \<Rightarrow> UnexpectedEof)
          else if expected < length out then Fail InvalidData
          else (case err of Some e \<Rightarrow> Fail e | None \<Rightarrow> Done out))"

text \<open>The bytes that \<open>load_block\<close> puts at the start of the block buffer.\<close>

definition cso_block :: "codecs \<Rightarrow> cso \<Rightarrow> nat \<Rightarrow> u8 list io" where
  "cso_block cd c block =
     (case file_read_exact (cs_file c) (24 + block * 4) 8 of
        Panic \<Rightarrow> Panic
      | Fail e \<Rightarrow> Fail e
      | Done entries \<Rightarrow>
          let first = unat (le32 entries 0); next = unat (le32 entries 4);
              start = (first mod 2147483648) * 2 ^ cs_shift c;
              stop = (next mod 2147483648) * 2 ^ cs_shift c
          in if start < cs_index_end c \<or> stop < start \<or> length (fi_bytes (cs_file c)) < stop \<or>
                cs_block_size c + 2 ^ cs_shift c < stop - start
             then Fail InvalidData
             else let expected = min (cs_length c - block * cs_block_size c) (cs_block_size c)
                  in if 2147483648 \<le> first
                     then if stop - start < expected then Fail InvalidData
                          else file_read_exact (cs_file c) start expected
                     else (case file_read_exact (cs_file c) start (stop - start) of
                             Panic \<Rightarrow> Panic
                           | Fail e \<Rightarrow> Fail e
                           | Done compressed \<Rightarrow>
                               if cs_lz4 c then decode_lz4_block cd compressed expected
                               else inflate_block cd compressed expected))"

definition cso_load_block :: "codecs \<Rightarrow> cso \<Rightarrow> nat \<Rightarrow> (cso_cache, unit) act" where
  "cso_load_block cd c block s =
     (if cc_cached s = Some block then Done ((), s)
      else (case cso_block cd c block of
              Panic \<Rightarrow> Panic
            | Fail e \<Rightarrow> Fail e
            | Done bytes \<Rightarrow> Done ((), s\<lparr>cc_block := fill (cc_block s) bytes, cc_cached := Some block\<rparr>)))"

definition cso_read_sector :: "codecs \<Rightarrow> cso \<Rightarrow> u32 \<Rightarrow> (cso_cache, u8 list) act" where
  "cso_read_sector cd c sector s =
     (let offset = unat sector * SECTOR_USER
      in if cs_length c \<le> offset then Done ([], s)
         else (case cso_load_block cd c (offset div cs_block_size c) s of
                 Panic \<Rightarrow> Panic
               | Fail e \<Rightarrow> Fail e
               | Done (_, s') \<Rightarrow>
                   let within = offset mod cs_block_size c;
                       count = min (cs_length c - offset) SECTOR_USER
                   in if length (cc_block s') < within + count then Panic
                      else Done (take count (drop within (cc_block s')), s')))"

definition cso_reader :: "codecs \<Rightarrow> cso \<Rightarrow> cso_cache sector_reader" where
  "cso_reader cd c = \<lparr>read_sector = cso_read_sector cd c, first_track_sector = 0\<rparr>"

text \<open>The disc a CSO image holds, without a cache.\<close>

definition cso_image :: "codecs \<Rightarrow> cso \<Rightarrow> image" where
  "cso_image cd c sector =
     (let offset = unat sector * SECTOR_USER
      in if cs_length c \<le> offset then Done []
         else (case cso_block cd c (offset div cs_block_size c) of
                 Panic \<Rightarrow> Panic
               | Fail e \<Rightarrow> Fail e
               | Done bytes \<Rightarrow> Done (take SECTOR_USER (drop (offset mod cs_block_size c) bytes))))"

definition cso_ok :: "cso \<Rightarrow> bool" where
  "cso_ok c \<longleftrightarrow> 0 < cs_block_size c \<and> SECTOR_USER dvd cs_block_size c"

definition cso_inv :: "codecs \<Rightarrow> cso \<Rightarrow> cso_cache \<Rightarrow> bool" where
  "cso_inv cd c s \<longleftrightarrow> cso_ok c \<and> length (cc_block s) = cs_block_size c \<and>
     (case cc_cached s of
        None \<Rightarrow> True
      | Some block \<Rightarrow> (\<exists>bytes. cso_block cd c block = Done bytes \<and> take (length bytes) (cc_block s) = bytes))"

lemma decode_lz4_block_length: "decode_lz4_block cd input n = Done out \<Longrightarrow> length out = n"
  by (auto simp: decode_lz4_block_def split: option.splits sum.splits if_splits)

lemma inflate_block_length: "inflate_block cd input n = Done out \<Longrightarrow> length out = n"
  by (auto simp: inflate_block_def split: prod.splits option.splits if_splits)

lemma cso_block_length:
  "cso_block cd c block = Done bytes \<Longrightarrow> length bytes = min (cs_length c - block * cs_block_size c) (cs_block_size c)"
  by (auto simp: cso_block_def Let_def split: io.splits if_splits
      dest!: file_read_exact_length decode_lz4_block_length inflate_block_length)

lemma cso_block_no_panic [simp]: "cso_block cd c block \<noteq> Panic"
  by (auto simp: cso_block_def Let_def decode_lz4_block_def inflate_block_def
      split: io.splits option.splits sum.splits prod.splits)

lemma cso_room:
  assumes "cso_ok c"
  shows "n * SECTOR_USER mod cs_block_size c + SECTOR_USER \<le> cs_block_size c"
proof -
  obtain k where k: "cs_block_size c = SECTOR_USER * k" using assms by (auto simp: cso_ok_def)
  have "n * SECTOR_USER mod cs_block_size c = SECTOR_USER * (n mod k)"
    unfolding k by (simp add: mult.commute mult_mod_right)
  moreover have "n mod k < k" using assms k by (auto simp: cso_ok_def)
  ultimately show ?thesis unfolding k by simp
qed

lemma cso_within:
  assumes "cso_ok c" and "offset < cs_length c" and "offset = n * SECTOR_USER"
  defines "block \<equiv> offset div cs_block_size c" and "within \<equiv> offset mod cs_block_size c"
  shows "within + min (cs_length c - offset) SECTOR_USER
     = min (within + SECTOR_USER) (min (cs_length c - block * cs_block_size c) (cs_block_size c))"
proof -
  have "offset = block * cs_block_size c + within" by (simp add: block_def within_def)
  moreover have "within + SECTOR_USER \<le> cs_block_size c"
    using cso_room [OF assms(1), of n] by (simp add: within_def assms(3))
  ultimately show ?thesis using assms(2) by auto
qed

interpretation cso: sector_source "cso_reader cd c" "cso_image cd c" "cso_inv cd c" for cd c
proof unfold_locales
  fix s and n :: u32
  assume inv: "cso_inv cd c s"
  let ?offset = "unat n * SECTOR_USER"
  let ?block = "?offset div cs_block_size c" and ?within = "?offset mod cs_block_size c"
  show "case cso_image cd c n of Panic \<Rightarrow> read_sector (cso_reader cd c) n s = Panic
      | Fail e \<Rightarrow> read_sector (cso_reader cd c) n s = Fail e
      | Done bs \<Rightarrow> \<exists>s'. read_sector (cso_reader cd c) n s = Done (bs, s') \<and> cso_inv cd c s'"
  proof (cases "cs_length c \<le> ?offset")
    case True
    with inv show ?thesis by (simp add: cso_image_def cso_reader_def cso_read_sector_def)
  next
    case False
    have read: "\<exists>s'. read_sector (cso_reader cd c) n s = Done (take SECTOR_USER (drop ?within bytes), s') \<and> cso_inv cd c s'"
      if bytes: "cso_block cd c ?block = Done bytes" and load: "cso_load_block cd c ?block s = Done ((), s')"
        and s': "cso_inv cd c s'" "take (length bytes) (cc_block s') = bytes" for bytes s'
    proof -
      have len: "length bytes = min (cs_length c - ?block * cs_block_size c) (cs_block_size c)"
        using bytes by (rule cso_block_length)
      have whole: "length (cc_block s') = cs_block_size c" using s'(1) by (simp add: cso_inv_def)
      have count: "?within + min (cs_length c - ?offset) SECTOR_USER = min (?within + SECTOR_USER) (length bytes)"
        unfolding len using cso_within [of c ?offset "unat n"] inv False by (simp add: cso_inv_def)
      have prefix: "take (min (?within + SECTOR_USER) (length bytes)) (cc_block s') = take (?within + SECTOR_USER) bytes"
        using arg_cong [OF s'(2), of "take (?within + SECTOR_USER)"] by simp
      have "take (min (cs_length c - ?offset) SECTOR_USER) (drop ?within (cc_block s'))
          = drop ?within (take (min (?within + SECTOR_USER) (length bytes)) (cc_block s'))"
        by (simp add: take_drop count add.commute)
      also have "\<dots> = take SECTOR_USER (drop ?within bytes)"
        unfolding prefix by (simp add: take_drop add.commute)
      finally have slice: "take (min (cs_length c - ?offset) SECTOR_USER) (drop ?within (cc_block s'))
          = take SECTOR_USER (drop ?within bytes)" .
      have "\<not> length (cc_block s') < ?within + min (cs_length c - ?offset) SECTOR_USER"
        unfolding count using whole len by simp
      with False load slice s'(1) show ?thesis
        by (simp add: cso_reader_def cso_read_sector_def Let_def)
    qed
    show ?thesis
    proof (cases "cc_cached s = Some ?block")
      case True
      then obtain bytes where "cso_block cd c ?block = Done bytes" "take (length bytes) (cc_block s) = bytes"
        using inv by (auto simp: cso_inv_def)
      with read [of bytes s] True False inv show ?thesis
        by (simp add: cso_image_def cso_load_block_def)
    next
      case new: False
      show ?thesis
      proof (cases "cso_block cd c ?block")
        case (Done bytes)
        let ?s = "s\<lparr>cc_block := fill (cc_block s) bytes, cc_cached := Some ?block\<rparr>"
        have "length bytes \<le> length (cc_block s)"
          using cso_block_length [OF Done] inv by (simp add: cso_inv_def)
        then have "cso_inv cd c ?s" using inv Done by (simp add: cso_inv_def fill_def)
        with read [OF Done, of ?s] Done new False show ?thesis
          by (simp add: cso_image_def cso_load_block_def fill_def)
      qed (use False new in \<open>simp_all add: cso_image_def cso_reader_def cso_read_sector_def cso_load_block_def\<close>)
    qed
  qed
next
  fix n :: u32 and bs
  show "cso_image cd c n = Done bs \<Longrightarrow> length bs \<le> SECTOR_USER"
    by (auto simp: cso_image_def Let_def split: if_splits io.splits)
  show "cso_image cd c n \<noteq> Panic"
    by (auto simp: cso_image_def Let_def split: io.splits)
qed

lemma is_power_of_two_sectors:
  assumes "is_power_of_two n" and "2048 \<le> n"
  shows "SECTOR_USER dvd n"
proof -
  obtain k where n: "n = 2 ^ k" using assms(1) by (auto simp: is_power_of_two_def list_ex_iff)
  have "11 \<le> k"
  proof (rule ccontr)
    assume "\<not> 11 \<le> k"
    then have "(2::nat) ^ k \<le> 2 ^ 10" by (intro power_increasing) auto
    with assms(2) n show False by simp
  qed
  then have "(2::nat) ^ 11 dvd 2 ^ k" by (rule le_imp_power_dvd)
  with n show ?thesis by simp
qed

lemma cso_open_inv: "cso_open f = Done (c, s) \<Longrightarrow> cso_inv cd c s"
  by (auto simp: cso_open_def cso_inv_def cso_ok_def Let_def split: io.splits if_splits
      intro: is_power_of_two_sectors)

section \<open>Files as discs\<close>

interpretation raw_bin: sector_source "raw_bin_reader r" "raw_bin_read r" "\<lambda>_. True" for r
  by unfold_locales
    (auto simp: raw_bin_reader_def image_reader_def lift_io_def raw_bin_read_def dest: file_read_length split: io.splits)

interpretation gdi: sector_source "gdi_sector_reader r" "gdi_read r" "\<lambda>_. True" for r
  by unfold_locales
    (auto simp: gdi_sector_reader_def image_reader_def lift_io_def gdi_read_def
      dest: file_read_length split: io.splits if_splits)

interpretation cue: sector_source "cue_sector_reader r" "cue_read r" "\<lambda>_. True" for r
  by unfold_locales
    (auto simp: cue_sector_reader_def image_reader_def lift_io_def cue_read_def
      dest: file_read_exact_length split: io.splits)

section \<open>Gzip streams\<close>

text \<open>
  The decoded stream, with the error that ends it if it does not end well. The state is the
  position of the decoder, which only moves forward; a sector behind it restarts the stream.
\<close>

record gzip =
  gz_bytes :: "u8 list"
  gz_error :: "io_kind option"

definition gzip_read_sector :: "gzip \<Rightarrow> u32 \<Rightarrow> (nat, u8 list) act" where
  "gzip_read_sector g sector position =
     (let target = unat sector * SECTOR_USER;
          position = (if target < position then 0 else position)
      in if 17179869184 < target then Fail InvalidData
         else if position < target \<and> length (gz_bytes g) < target
         then Fail (case gz_error g of Some e \<Rightarrow> e | None \<Rightarrow> UnexpectedEof)
         else let bs = take SECTOR_USER (drop target (gz_bytes g))
              in if length bs < SECTOR_USER \<and> gz_error g \<noteq> None then Fail (the (gz_error g))
                 else Done (bs, target + length bs))"

definition gzip_reader :: "gzip \<Rightarrow> nat sector_reader" where
  "gzip_reader g = \<lparr>read_sector = gzip_read_sector g, first_track_sector = 0\<rparr>"

definition gzip_image :: "gzip \<Rightarrow> image" where
  "gzip_image g sector =
     (let target = unat sector * SECTOR_USER
      in if 17179869184 < target then Fail InvalidData
         else if length (gz_bytes g) < target then Fail (case gz_error g of Some e \<Rightarrow> e | None \<Rightarrow> UnexpectedEof)
         else let bs = take SECTOR_USER (drop target (gz_bytes g))
              in if length bs < SECTOR_USER \<and> gz_error g \<noteq> None then Fail (the (gz_error g)) else Done bs)"

interpretation gzip: sector_source "gzip_reader g" "gzip_image g" "\<lambda>position. position \<le> length (gz_bytes g)" for g
  by unfold_locales
    (auto simp: gzip_reader_def gzip_read_sector_def gzip_image_def Let_def split: io.splits if_splits option.splits)

end
