(* ===== verification/Chd_Reader.thy ===== *)
theory Chd_Reader
  imports Disc_Readers
begin

text \<open>
  CHD images (\<open>rc_hash_disc.rs\<close>): the track list in the metadata, the choice of a track, and the
  reader with its cache of one decompressed hunk. The header fields and the decompression of a
  hunk come from the crate \<open>chd\<close> and are a parameter.
\<close>

section \<open>The image\<close>

abbreviation CD_FRAME_SIZE :: nat where
  "CD_FRAME_SIZE \<equiv> 2352"

abbreviation CD_UNIT :: nat where
  "CD_UNIT \<equiv> 2448"

record chd =
  ch_file :: disk_file
  ch_hunk_size :: nat
  ch_unit_bytes :: nat
  ch_hunk_count :: nat
  ch_logical_bytes :: nat
  ch_meta_offset :: "nat option"
  ch_hunk :: "nat \<Rightarrow> io_kind + u8 list"

section \<open>Tracks\<close>

record chd_track =
  tr_number :: nat
  tr_session :: nat
  tr_frame_base :: u32
  tr_is_audio :: bool

datatype track_selection = FirstData | FirstOfSecondSession | TrackTwo

definition meta_field :: "string \<Rightarrow> rstr \<Rightarrow> rstr option" where
  "meta_field key text = first_some (strip_prefix (lit key)) (split_whitespace text)"

definition meta_number :: "string \<Rightarrow> rstr \<Rightarrow> nat" where
  "meta_number key text =
     (case meta_field key text of
        None \<Rightarrow> 0
      | Some s \<Rightarrow> (case parse_uint 32 s of Some n \<Rightarrow> n | None \<Rightarrow> 0))"

definition padded_frames :: "nat \<Rightarrow> nat" where
  "padded_frames frames = (frames + 3) div 4 * 4"

definition add_track :: "rstr \<Rightarrow> nat \<Rightarrow> u32 \<Rightarrow> chd_track list \<Rightarrow> chd_track list" where
  "add_track text session chd_ofs tracks =
     tracks @ [\<lparr>tr_number = length tracks + 1, tr_session = session,
                tr_frame_base = chd_ofs + of_nat (meta_number ''PREGAP:'' text),
                tr_is_audio = (meta_field ''TYPE:'' text = Some (lit ''AUDIO''))\<rparr>]"

text \<open>
  One record of the metadata list: the session, the frame offset of the next track and the
  tracks after it, \<open>None\<close> when its value cannot be read and an error for a bad session.
\<close>

definition meta_record ::
  "disk_file \<Rightarrow> nat \<Rightarrow> u8 list \<Rightarrow> nat \<Rightarrow> u32 \<Rightarrow> chd_track list \<Rightarrow> (nat \<times> u32 \<times> chd_track list) option io" where
  "meta_record f off hdr session chd_ofs tracks =
     (let tag = take 4 hdr
      in if tag \<in> {bytes_lit ''CHSE'', bytes_lit ''CHTR'', bytes_lit ''CHT2''}
         then (case file_read_exact f (off + 16) (unat (be3 hdr 5)) of
                 Done val \<Rightarrow>
                   let text = trim_end_matches (\<lambda>c. c = 0) (utf8_lossy val)
                   in if tag = bytes_lit ''CHSE''
                      then (case meta_field ''SESSION:'' text of
                              None \<Rightarrow> Fail InvalidData
                            | Some s \<Rightarrow> (case parse_uint 32 s of
                                          None \<Rightarrow> Fail InvalidData
                                        | Some n \<Rightarrow> Done (Some (n, chd_ofs, tracks))))
                      else Done (Some (session, chd_ofs + of_nat (padded_frames (meta_number ''FRAMES:'' text)),
                                       add_track text session chd_ofs tracks))
               | _ \<Rightarrow> Done None)
         else Done (Some (session, chd_ofs, tracks)))"

text \<open>The loop over the linked list. Its links are not checked, so it may not end.\<close>

partial_function (option) meta_walk ::
  "disk_file \<Rightarrow> nat \<Rightarrow> nat \<Rightarrow> u32 \<Rightarrow> chd_track list \<Rightarrow> chd_track list io option" where
  "meta_walk f off session chd_ofs tracks =
     (if off = 0 then Some (Done tracks)
      else if 2 ^ 63 \<le> off then Some (Fail OtherError)
      else (case file_read_exact f off 16 of
              Done hdr \<Rightarrow>
                (case meta_record f off hdr session chd_ofs tracks of
                   Panic \<Rightarrow> Some Panic
                 | Fail e \<Rightarrow> Some (Fail e)
                 | Done None \<Rightarrow> Some (Done tracks)
                 | Done (Some (session, chd_ofs, tracks)) \<Rightarrow> meta_walk f (be64 hdr 8) session chd_ofs tracks)
            | _ \<Rightarrow> Some (Done tracks)))"

definition chd_tracks :: "chd \<Rightarrow> chd_track list io option" where
  "chd_tracks c =
     (case ch_meta_offset c of
        None \<Rightarrow> Some (Done [])
      | Some off \<Rightarrow> meta_walk (ch_file c) off 1 0 [])"

fun selects :: "track_selection \<Rightarrow> chd_track \<Rightarrow> bool" where
  "selects FirstData t \<longleftrightarrow> \<not> tr_is_audio t"
| "selects FirstOfSecondSession t \<longleftrightarrow> tr_session t = 2"
| "selects TrackTwo t \<longleftrightarrow> tr_number t = 2"

definition track_offset :: "chd_track list \<Rightarrow> track_selection \<Rightarrow> u32 io" where
  "track_offset tracks selection =
     (case find_first (selects selection) tracks of
        Some t \<Rightarrow> Done (tr_frame_base t)
      | None \<Rightarrow> if selection = FirstData then Done 0 else Fail NotFound)"

section \<open>The reader\<close>

record chd_reader =
  cr_chd :: chd
  cr_frames_per_hunk :: nat
  cr_header_skip :: nat
  cr_frame_base :: u32

record hunk_cache =
  hc_hunk :: "u8 list"
  hc_cached :: "nat option"

definition load_hunk :: "chd_reader \<Rightarrow> nat \<Rightarrow> (hunk_cache, unit) act" where
  "load_hunk r hunk s =
     (if hc_cached s = Some hunk then Done ((), s)
      else (case ch_hunk (cr_chd r) hunk of
              Inl e \<Rightarrow> Fail OtherError
            | Inr bytes \<Rightarrow> Done ((), \<lparr>hc_hunk = bytes, hc_cached = Some hunk\<rparr>)))"

definition cached_bytes :: "(hunk_cache, u8 list) act" where
  "cached_bytes s = Done (hc_hunk s, s)"

definition frame_raw :: "chd_reader \<Rightarrow> u32 \<Rightarrow> (hunk_cache, u8 list option) act" where
  "frame_raw r frame =
     (if ch_unit_bytes (cr_chd r) \<noteq> CD_UNIT then throw InvalidData
      else let hunk = unat frame div cr_frames_per_hunk r
           in if ch_hunk_count (cr_chd r) \<le> hunk then ret None
              else then_do (load_hunk r hunk) (\<lambda>_. then_do cached_bytes (\<lambda>bytes.
                let start = unat frame mod cr_frames_per_hunk r * CD_UNIT
                in if length bytes < start + CD_FRAME_SIZE then ret None
                   else ret (Some (take CD_FRAME_SIZE (drop start bytes))))))"

definition mode_skip :: "u8 list \<Rightarrow> nat" where
  "mode_skip raw = (if byte_at raw 15 = 2 then 24 else 16)"

definition detect_header_skip :: "chd_reader \<Rightarrow> (hunk_cache, nat) act" where
  "detect_header_skip r =
     then_do (frame_raw r (cr_frame_base r)) (\<lambda>first.
       case first of
         None \<Rightarrow> ret 16
       | Some raw \<Rightarrow>
           if take 12 raw \<noteq> SYNC then ret 0
           else then_do (frame_raw r (cr_frame_base r + 16)) (\<lambda>pvd.
                  case pvd of
                    None \<Rightarrow> ret (mode_skip raw)
                  | Some raw \<Rightarrow>
                      (case find_first (\<lambda>skip. take 5 (drop (skip + 1) raw) = bytes_lit ''CD001'') [16, 24, 8, 0] of
                         Some skip \<Rightarrow> ret skip
                       | None \<Rightarrow> ret (mode_skip raw))))"

definition chd_read_sector :: "chd_reader \<Rightarrow> u32 \<Rightarrow> (hunk_cache, u8 list) act" where
  "chd_read_sector r sector =
     (if ch_unit_bytes (cr_chd r) = SECTOR_USER
      then if ch_logical_bytes (cr_chd r) \<le> unat sector * SECTOR_USER then ret []
           else then_do (load_hunk r (unat sector div cr_frames_per_hunk r)) (\<lambda>_. then_do cached_bytes (\<lambda>bytes.
             let start = unat sector mod cr_frames_per_hunk r * SECTOR_USER
             in if length bytes < start + SECTOR_USER then panic
                else ret (take SECTOR_USER (drop start bytes))))
      else then_do (frame_raw r (cr_frame_base r + sector)) (\<lambda>raw.
             case raw of
               None \<Rightarrow> ret []
             | Some raw \<Rightarrow>
                 if length raw < cr_header_skip r + SECTOR_USER then panic
                 else ret (take SECTOR_USER (drop (cr_header_skip r) raw))))"

definition chd_sector_reader :: "chd_reader \<Rightarrow> hunk_cache sector_reader" where
  "chd_sector_reader r = \<lparr>read_sector = chd_read_sector r, first_track_sector = 0\<rparr>"

section \<open>Opening\<close>

definition HEADER :: "u8 list" where
  "HEADER = bytes_lit ''ATARI APPROVED DATA HEADER ATRI ''"

definition SWAPPED_HEADER :: "u8 list" where
  "SWAPPED_HEADER = bytes_lit ''TARA IPARPVODED TA AEHDAREA RT I''"

definition jaguar_cd_boot_header :: "u8 list \<Rightarrow> (nat \<times> bool) option" where
  "jaguar_cd_boot_header first =
     first_some (\<lambda>offset.
       if take 32 (drop offset first) = HEADER then Some (offset, False)
       else if take 32 (drop offset first) = SWAPPED_HEADER then Some (offset, True)
       else None) [64 ..< CD_FRAME_SIZE - 44]"

definition chd_geometry_ok :: "chd \<Rightarrow> bool" where
  "chd_geometry_ok c \<longleftrightarrow>
     (ch_unit_bytes c = SECTOR_USER \<or> ch_unit_bytes c = CD_UNIT) \<and> ch_hunk_size c \<noteq> 0 \<and>
     ch_hunk_size c \<le> 16777216 \<and> ch_unit_bytes c dvd ch_hunk_size c"

definition fresh_reader :: "chd \<Rightarrow> u32 \<Rightarrow> chd_reader" where
  "fresh_reader c base =
     \<lparr>cr_chd = c, cr_frames_per_hunk = max 1 (ch_hunk_size c div ch_unit_bytes c), cr_header_skip = 16, cr_frame_base = base\<rparr>"

definition fresh_cache :: "chd \<Rightarrow> hunk_cache" where
  "fresh_cache c = \<lparr>hc_hunk = replicate (ch_hunk_size c) 0, hc_cached = None\<rparr>"

text \<open>The probe of a Jaguar CD without session metadata: the first later track with a boot header.\<close>

fun probe_tracks :: "chd \<Rightarrow> chd_track list \<Rightarrow> (hunk_cache, u32) act" where
  "probe_tracks c [] = throw NotFound"
| "probe_tracks c (t # ts) =
     then_do (frame_raw (fresh_reader c (tr_frame_base t)) (tr_frame_base t)) (\<lambda>raw.
       if (case raw of None \<Rightarrow> False | Some first \<Rightarrow> jaguar_cd_boot_header first \<noteq> None) then ret (tr_frame_base t)
       else probe_tracks c ts)"

definition chd_base :: "chd \<Rightarrow> track_selection \<Rightarrow> chd_track list \<Rightarrow> (hunk_cache, u32) act" where
  "chd_base c selection tracks =
     (case track_offset tracks selection of
        Panic \<Rightarrow> panic
      | Done base \<Rightarrow> ret base
      | Fail e \<Rightarrow>
          if selection = FirstOfSecondSession \<and> e = NotFound then probe_tracks c (drop 1 tracks) else throw e)"

definition chd_configure :: "chd \<Rightarrow> u32 \<Rightarrow> (hunk_cache, chd_reader) act" where
  "chd_configure c base =
     (let r = fresh_reader c base
      in then_do (if ch_unit_bytes c = SECTOR_USER then ret 0 else detect_header_skip r)
           (\<lambda>skip. ret (r\<lparr>cr_header_skip := skip\<rparr>)))"

definition chd_open :: "chd \<Rightarrow> track_selection \<Rightarrow> (chd_reader \<times> hunk_cache) io option" where
  "chd_open c selection =
     (if \<not> chd_geometry_ok c then Some (Fail InvalidData)
      else (case chd_tracks c of
              None \<Rightarrow> None
            | Some Panic \<Rightarrow> Some Panic
            | Some (Fail e) \<Rightarrow> Some (Fail e)
            | Some (Done tracks) \<Rightarrow> Some (then_do (chd_base c selection tracks) (chd_configure c) (fresh_cache c))))"

section \<open>The cache is invisible\<close>

text \<open>The crate fills the whole buffer it is given, which has the size of a hunk.\<close>

definition whole_hunks :: "chd \<Rightarrow> bool" where
  "whole_hunks c \<longleftrightarrow> (\<forall>hunk bytes. ch_hunk c hunk = Inr bytes \<longrightarrow> length bytes = ch_hunk_size c)"

definition chd_ok :: "chd_reader \<Rightarrow> bool" where
  "chd_ok r \<longleftrightarrow> chd_geometry_ok (cr_chd r) \<and> whole_hunks (cr_chd r) \<and>
     cr_frames_per_hunk r = ch_hunk_size (cr_chd r) div ch_unit_bytes (cr_chd r) \<and> cr_header_skip r \<le> 24"

definition cache_ok :: "chd \<Rightarrow> hunk_cache \<Rightarrow> bool" where
  "cache_ok c s \<longleftrightarrow> (case hc_cached s of None \<Rightarrow> True | Some hunk \<Rightarrow> ch_hunk c hunk = Inr (hc_hunk s))"

definition chd_inv :: "chd_reader \<Rightarrow> hunk_cache \<Rightarrow> bool" where
  "chd_inv r s \<longleftrightarrow> chd_ok r \<and> cache_ok (cr_chd r) s"

text \<open>The disc of a CHD image, without a cache.\<close>

definition hunk_slice :: "chd_reader \<Rightarrow> nat \<Rightarrow> nat \<Rightarrow> nat \<Rightarrow> u8 list io" where
  "hunk_slice r hunk start len =
     (case ch_hunk (cr_chd r) hunk of Inl e \<Rightarrow> Fail OtherError | Inr bytes \<Rightarrow> Done (take len (drop start bytes)))"

definition chd_image :: "chd_reader \<Rightarrow> image" where
  "chd_image r sector =
     (let c = cr_chd r; fph = cr_frames_per_hunk r; frame = cr_frame_base r + sector
      in if ch_unit_bytes c = SECTOR_USER
         then if ch_logical_bytes c \<le> unat sector * SECTOR_USER then Done []
              else hunk_slice r (unat sector div fph) (unat sector mod fph * SECTOR_USER) SECTOR_USER
         else if ch_unit_bytes c \<noteq> CD_UNIT then Fail InvalidData
         else if ch_hunk_count c \<le> unat frame div fph then Done []
         else hunk_slice r (unat frame div fph) (unat frame mod fph * CD_UNIT + cr_header_skip r) SECTOR_USER)"

lemma load_hunk_ok:
  assumes "cache_ok (cr_chd r) s"
  shows "load_hunk r hunk s =
      (case ch_hunk (cr_chd r) hunk of
         Inl e \<Rightarrow> Fail OtherError
       | Inr bytes \<Rightarrow> Done ((), if hc_cached s = Some hunk then s else \<lparr>hc_hunk = bytes, hc_cached = Some hunk\<rparr>))"
  using assms by (auto simp: load_hunk_def cache_ok_def split: sum.split)

lemma hunk_room:
  assumes "chd_ok r"
  shows "n mod cr_frames_per_hunk r * ch_unit_bytes (cr_chd r) + ch_unit_bytes (cr_chd r) \<le> ch_hunk_size (cr_chd r)"
proof -
  let ?u = "ch_unit_bytes (cr_chd r)" and ?k = "cr_frames_per_hunk r"
  have size: "ch_hunk_size (cr_chd r) = ?k * ?u" and "0 < ?k"
    using assms by (auto simp: chd_ok_def chd_geometry_ok_def)
  then have "Suc (n mod ?k) * ?u \<le> ?k * ?u" by (intro mult_le_mono1) (simp add: Suc_leI)
  then show ?thesis using size by simp
qed

lemma with_hunk:
  assumes "cache_ok (cr_chd r) s"
  shows "then_do (load_hunk r hunk) (\<lambda>_. then_do cached_bytes f) s =
      (case ch_hunk (cr_chd r) hunk of
         Inl e \<Rightarrow> Fail OtherError
       | Inr bytes \<Rightarrow> f bytes (if hc_cached s = Some hunk then s else \<lparr>hc_hunk = bytes, hc_cached = Some hunk\<rparr>))"
  using assms by (auto simp: then_do_def load_hunk_ok cached_bytes_def cache_ok_def split: sum.split)

lemma cache_after:
  "cache_ok c s \<Longrightarrow> ch_hunk c hunk = Inr bytes \<Longrightarrow>
     cache_ok c (if hc_cached s = Some hunk then s else \<lparr>hc_hunk = bytes, hc_cached = Some hunk\<rparr>)"
  by (auto simp: cache_ok_def)

lemma hunk_length: "chd_ok r \<Longrightarrow> ch_hunk (cr_chd r) h = Inr bytes \<Longrightarrow> length bytes = ch_hunk_size (cr_chd r)"
  by (auto simp: chd_ok_def whole_hunks_def)

lemma frame_raw_ok:
  assumes "chd_inv r s" and unit: "ch_unit_bytes (cr_chd r) = CD_UNIT"
  defines "hunk frame \<equiv> unat frame div cr_frames_per_hunk r"
  shows "frame_raw r frame s =
      (if ch_hunk_count (cr_chd r) \<le> hunk frame then Done (None, s)
       else case ch_hunk (cr_chd r) (hunk frame) of
              Inl e \<Rightarrow> Fail OtherError
            | Inr bytes \<Rightarrow>
                Done (Some (take CD_FRAME_SIZE (drop (unat frame mod cr_frames_per_hunk r * CD_UNIT) bytes)),
                  if hc_cached s = Some (hunk frame) then s else \<lparr>hc_hunk = bytes, hc_cached = Some (hunk frame)\<rparr>))"
proof -
  have ok: "chd_ok r" and cache: "cache_ok (cr_chd r) s" using assms(1) by (auto simp: chd_inv_def)
  have "unat frame mod cr_frames_per_hunk r * CD_UNIT + CD_UNIT \<le> ch_hunk_size (cr_chd r)"
    using hunk_room [OF ok, of "unat frame"] unit by simp
  then show ?thesis
    using hunk_length [OF ok] unit
    by (auto simp: frame_raw_def hunk_def with_hunk [OF cache] Let_def ret_def split: sum.split)
qed

interpretation chd: sector_source "chd_sector_reader r" "chd_image r" "chd_inv r" for r
proof unfold_locales
  fix s and n :: u32
  assume inv: "chd_inv r s"
  then have ok: "chd_ok r" and cache: "cache_ok (cr_chd r) s" by (auto simp: chd_inv_def)
  have unit: "ch_unit_bytes (cr_chd r) = SECTOR_USER \<or> ch_unit_bytes (cr_chd r) = CD_UNIT"
    using ok by (simp add: chd_ok_def chd_geometry_ok_def)
  show "case chd_image r n of Panic \<Rightarrow> read_sector (chd_sector_reader r) n s = Panic
      | Fail e \<Rightarrow> read_sector (chd_sector_reader r) n s = Fail e
      | Done bs \<Rightarrow> \<exists>s'. read_sector (chd_sector_reader r) n s = Done (bs, s') \<and> chd_inv r s'"
  proof (cases "ch_unit_bytes (cr_chd r) = SECTOR_USER")
    case True
    have room: "unat n mod cr_frames_per_hunk r * SECTOR_USER + SECTOR_USER \<le> ch_hunk_size (cr_chd r)"
      using hunk_room [OF ok, of "unat n"] True by simp
    show ?thesis
      using True inv ok room cache hunk_length [OF ok]
      by (auto simp: chd_image_def chd_sector_reader_def chd_read_sector_def hunk_slice_def with_hunk ret_def
          chd_inv_def not_less Let_def cache_after split: sum.split)
  next
    case False
    with unit have unit: "ch_unit_bytes (cr_chd r) = CD_UNIT" by simp
    let ?frame = "cr_frame_base r + n"
    have room: "unat ?frame mod cr_frames_per_hunk r * CD_UNIT + CD_UNIT \<le> ch_hunk_size (cr_chd r)"
      using hunk_room [OF ok, of "unat ?frame"] unit by simp
    have skip: "cr_header_skip r \<le> 24" using ok by (simp add: chd_ok_def)
    have slice: "take SECTOR_USER (drop (cr_header_skip r) (take CD_FRAME_SIZE (drop k bytes)))
        = take SECTOR_USER (drop (k + cr_header_skip r) bytes)" for k and bytes :: "u8 list"
      using skip by (simp add: drop_take min_def add.commute)
    have whole: "length (take CD_FRAME_SIZE (drop (unat ?frame mod cr_frames_per_hunk r * CD_UNIT) bytes)) = CD_FRAME_SIZE"
      if "ch_hunk (cr_chd r) h = Inr bytes" for h bytes
      using hunk_length [OF ok that] room by simp
    show ?thesis
    proof (cases "ch_hunk (cr_chd r) (unat ?frame div cr_frames_per_hunk r)")
      case (Inl e)
      then show ?thesis
        using inv unit
        by (simp add: chd_image_def chd_sector_reader_def chd_read_sector_def hunk_slice_def then_do_def
            frame_raw_ok [OF inv unit] ret_def Let_def)
    next
      case (Inr bytes)
      have "chd_inv r (if hc_cached s = Some (unat ?frame div cr_frames_per_hunk r) then s
          else \<lparr>hc_hunk = bytes, hc_cached = Some (unat ?frame div cr_frames_per_hunk r)\<rparr>)"
        using cache_after [OF cache Inr] ok by (simp add: chd_inv_def)
      with Inr show ?thesis
        using inv unit skip whole [OF Inr]
        by (auto simp: chd_image_def chd_sector_reader_def chd_read_sector_def hunk_slice_def then_do_def
            frame_raw_ok [OF inv unit] ret_def Let_def slice simp del: length_take)
    qed
  qed
next
  fix n :: u32 and bs
  show "chd_image r n = Done bs \<Longrightarrow> length bs \<le> SECTOR_USER"
    by (auto simp: chd_image_def hunk_slice_def Let_def split: if_splits sum.splits)
  show "chd_image r n \<noteq> Panic"
    by (auto simp: chd_image_def hunk_slice_def Let_def split: sum.splits)
qed

section \<open>An opened image\<close>

definition keeps_cache :: "chd \<Rightarrow> (hunk_cache, 'a) act \<Rightarrow> ('a \<Rightarrow> bool) \<Rightarrow> bool" where
  "keeps_cache c m P \<longleftrightarrow> (\<forall>s x s'. cache_ok c s \<longrightarrow> m s = Done (x, s') \<longrightarrow> cache_ok c s' \<and> P x)"

lemma keeps_ret: "P x \<Longrightarrow> keeps_cache c (ret x) P"
  by (simp add: keeps_cache_def ret_def)

lemma keeps_throw: "keeps_cache c (throw e) P"
  by (simp add: keeps_cache_def throw_def)

lemma keeps_then_do:
  assumes "keeps_cache c m P" and "\<And>x. P x \<Longrightarrow> keeps_cache c (f x) Q"
  shows "keeps_cache c (then_do m f) Q"
  using assms unfolding keeps_cache_def then_do_Done_iff by blast

lemma keeps_frame_raw: "cr_chd r = c \<Longrightarrow> keeps_cache c (frame_raw r frame) (\<lambda>_. True)"
  by (auto simp: keeps_cache_def frame_raw_def with_hunk cache_after Let_def ret_def throw_def
      split: if_splits sum.splits)

lemma keeps_detect: "cr_chd r = c \<Longrightarrow> keeps_cache c (detect_header_skip r) (\<lambda>skip. skip \<le> 24)"
  unfolding detect_header_skip_def
  by (auto intro!: keeps_then_do [OF keeps_frame_raw] keeps_ret simp: mode_skip_def split: option.splits
      dest!: find_first_SomeD)

lemma keeps_probe: "keeps_cache c (probe_tracks c ts) (\<lambda>_. True)"
proof (induction ts)
  case (Cons t ts)
  then show ?case
    by (auto intro!: keeps_then_do [OF keeps_frame_raw] keeps_ret simp: fresh_reader_def split: option.splits)
qed (simp add: keeps_throw)

lemma chd_open_inv:
  assumes "chd_open c selection = Some (Done (r, s))" and "whole_hunks c"
  shows "chd_inv r s"
proof -
  from assms(1) obtain tracks where geometry: "chd_geometry_ok c"
    and run: "then_do (chd_base c selection tracks) (chd_configure c) (fresh_cache c) = Done (r, s)"
    by (auto simp: chd_open_def split: if_splits option.splits io.splits)
  have fresh: "cache_ok c (fresh_cache c)" by (simp add: cache_ok_def fresh_cache_def)
  have base: "keeps_cache c (chd_base c selection tracks) (\<lambda>_. True)"
    by (auto simp: chd_base_def keeps_throw keeps_probe intro!: keeps_ret split: io.splits)
      (simp add: keeps_cache_def panic_def)
  have config: "keeps_cache c (chd_configure c base) (\<lambda>r. cr_chd r = c \<and> cr_header_skip r \<le> 24 \<and>
      cr_frames_per_hunk r = max 1 (ch_hunk_size c div ch_unit_bytes c))" for base
    unfolding chd_configure_def Let_def
    by (rule keeps_then_do [where P = "\<lambda>skip. skip \<le> 24"])
      (auto intro!: keeps_ret keeps_detect simp: fresh_reader_def)
  have "0 < ch_hunk_size c div ch_unit_bytes c"
    using geometry by (auto simp: chd_geometry_ok_def)
  with keeps_then_do [OF base config, unfolded keeps_cache_def, rule_format, OF fresh run] geometry assms(2)
  show ?thesis by (auto simp: chd_inv_def chd_ok_def max_def)
qed

section \<open>The metadata list\<close>

text \<open>Where every link points past its record, the walk over the metadata ends.\<close>

definition links_forward :: "disk_file \<Rightarrow> bool" where
  "links_forward f \<longleftrightarrow>
     (\<forall>off hdr. 0 < off \<longrightarrow> file_read_exact f off 16 = Done hdr \<longrightarrow> be64 hdr 8 = 0 \<or> off < be64 hdr 8)"

lemma file_read_exact_inside: "file_read_exact f off n = Done bs \<Longrightarrow> 0 < n \<Longrightarrow> off < length (fi_bytes f)"
  by (auto simp: file_read_exact_def file_read_def Let_def split: io.splits if_splits)

lemma meta_walk_returns:
  assumes "links_forward f"
  shows "meta_walk f off session chd_ofs tracks \<noteq> None"
proof (induction "length (fi_bytes f) - off" arbitrary: off session chd_ofs tracks rule: less_induct)
  case less
  show ?case
  proof (cases "\<exists>hdr session' chd_ofs' tracks'. 0 < off \<and> off < 2 ^ 63 \<and> file_read_exact f off 16 = Done hdr \<and>
      meta_record f off hdr session chd_ofs tracks = Done (Some (session', chd_ofs', tracks'))")
    case True
    then obtain hdr session' chd_ofs' tracks' where hdr: "0 < off" "off < 2 ^ 63" "file_read_exact f off 16 = Done hdr"
      and rec: "meta_record f off hdr session chd_ofs tracks = Done (Some (session', chd_ofs', tracks'))" by blast
    then have step: "meta_walk f off session chd_ofs tracks = meta_walk f (be64 hdr 8) session' chd_ofs' tracks'"
      by (subst meta_walk.simps) simp
    show ?thesis
    proof (cases "be64 hdr 8 = 0")
      case True
      then show ?thesis unfolding step by (subst meta_walk.simps) simp
    next
      case False
      then have "off < be64 hdr 8" using assms [unfolded links_forward_def, rule_format, OF hdr(1) hdr(3)] False by (elim disjE) auto
      then have "length (fi_bytes f) - be64 hdr 8 < length (fi_bytes f) - off"
        using file_read_exact_inside [OF hdr(3)] by simp
      from less.hyps [OF this] show ?thesis unfolding step .
    qed
  next
    case False
    then show ?thesis
      by (subst meta_walk.simps) (auto split: io.splits option.splits)
  qed
qed

text \<open>A record that links to itself keeps the walk going.\<close>

lemma meta_walk_diverges:
  assumes "0 < off" and "off < 2 ^ 63" and "file_read_exact f off 16 = Done hdr" and "be64 hdr 8 = off"
    and "\<And>session chd_ofs tracks. \<exists>r. meta_record f off hdr session chd_ofs tracks = Done (Some r)"
  shows "meta_walk f off session chd_ofs tracks = None"
proof (rule ccontr)
  assume "meta_walk f off session chd_ofs tracks \<noteq> None"
  then obtain r where run: "meta_walk f off session chd_ofs tracks = Some r" by blast
  have "\<not> (f = f \<and> off = off)"
  proof (rule meta_walk.raw_induct [where P = "\<lambda>f' off' session chd_ofs tracks r. \<not> (f' = f \<and> off' = off)", OF _ run])
    fix g f' off' session chd_ofs tracks r
    assume IH: "\<And>f' off' session chd_ofs tracks r. g f' off' session chd_ofs tracks = Some r \<Longrightarrow> \<not> (f' = f \<and> off' = off)"
      and eq: "(if off' = 0 then Some (Done tracks) else if 2 ^ 63 \<le> off' then Some (Fail OtherError)
        else (case file_read_exact f' off' 16 of
              Panic \<Rightarrow> Some (Done tracks)
            | Fail e \<Rightarrow> Some (Done tracks)
            | Done hdr \<Rightarrow>
                (case meta_record f' off' hdr session chd_ofs tracks of
                   Panic \<Rightarrow> Some Panic
                 | Fail e \<Rightarrow> Some (Fail e)
                 | Done None \<Rightarrow> Some (Done tracks)
                 | Done (Some (session, chd_ofs, tracks)) \<Rightarrow> g f' (be64 hdr 8) session chd_ofs tracks))) = Some r"
    show "\<not> (f' = f \<and> off' = off)"
    proof
      assume here: "f' = f \<and> off' = off"
      obtain session' chd_ofs' tracks' where "meta_record f off hdr session chd_ofs tracks = Done (Some (session', chd_ofs', tracks'))"
        using assms(5) [of session chd_ofs tracks] by auto
      with eq here assms(1-4) have "g f off session' chd_ofs' tracks' = Some r" by simp
      from IH [OF this] show False by simp
    qed
  qed
  then show False by simp
qed

section \<open>Properties\<close>

text \<open>An image whose one metadata record, at offset 1, names itself as the next.\<close>

definition looping_file :: disk_file where
  "looping_file = \<lparr>fi_bytes = [0, 0, 0, 0, 0, 0, 0, 0, 0, 0, 0, 0, 0, 0, 0, 0, 1], fi_fault = \<lambda>_. False\<rparr>"

definition looping_chd :: chd where
  "looping_chd =
     \<lparr>ch_file = looping_file, ch_hunk_size = 2448, ch_unit_bytes = 2448, ch_hunk_count = 1, ch_logical_bytes = 2448,
      ch_meta_offset = Some 1, ch_hunk = \<lambda>_. Inr (replicate 2448 0)\<rparr>"



end
