(* ===== verification/Disc_Identity.thy ===== *)
theory Disc_Identity
  imports Chd_Reader
begin

text \<open>
  What the disc recipes compute: directories written to a disc are found again, a boot file is
  hashed with its name whatever container holds the disc, no reader makes a recipe panic, and
  the walk over an Opera directory ends when its links go forward.
\<close>

section \<open>Directories\<close>

text \<open>
  A directory record: its name, extent and size at the offsets of ISO 9660, padded to any length
  below 256. A directory sector is a sequence of records and then zeros.
\<close>

record dir_entry =
  de_name :: "u8 list"
  de_lba :: u32
  de_len :: u32

definition record_of :: "dir_entry \<Rightarrow> u8 list \<Rightarrow> bool" where
  "record_of e r \<longleftrightarrow>
     33 + length (de_name e) \<le> length r \<and> byte_at r 0 = length r \<and> byte_at r 32 = length (de_name e) \<and>
     take (length (de_name e)) (drop 33 r) = de_name e \<and> le32 r 2 = de_lba e \<and> le32 r 10 = de_len e"

definition dir_sector :: "dir_entry list \<Rightarrow> u8 list \<Rightarrow> bool" where
  "dir_sector es sec \<longleftrightarrow>
     length sec = SECTOR_USER \<and> (\<exists>rs z. list_all2 record_of es rs \<and> sec = concat rs @ z \<and> (z = [] \<or> hd z = 0))"

definition named :: "rstr \<Rightarrow> dir_entry \<Rightarrow> (u32 \<times> u32) option" where
  "named want e = (if eq_ignore_case (iso_name (de_name e)) want then Some (de_lba e, de_len e) else None)"

lemma le32_take: "i + 3 < n \<Longrightarrow> le32 (take n xs) i = le32 xs i"
  by (simp add: le32_def byte_at_def)

lemma le32_drop: "n \<le> length xs \<Longrightarrow> le32 (drop n xs) i = le32 xs (n + i)"
  by (simp add: le32_def byte_at_def add.assoc)

lemma iso_scan_records:
  assumes "list_all2 record_of es rs" and "length (pre @ concat rs @ z) = SECTOR_USER" and "z = [] \<or> hd z = 0"
  shows "iso_scan want (pre @ concat rs @ z) (length pre) = first_some (named want) es"
  using assms
proof (induction es rs arbitrary: pre rule: list_all2_induct)
  case Nil
  then show ?case
    by (subst iso_scan.simps) (cases z; auto simp: byte_at_def nth_append)
next
  case (Cons e es r rs)
  let ?sec = "pre @ concat (r # rs) @ z"
  have r: "record_of e r" by fact
  then have len: "33 \<le> length r" "byte_at r 0 = length r" by (auto simp: record_of_def)
  have at: "byte_at ?sec (length pre) = length r"
    using len by (cases r) (auto simp: byte_at_def nth_append)
  have rec: "take (length r) (drop (length pre) ?sec) = r" by simp
  have fits: "length pre + length r \<le> SECTOR_USER" using Cons.prems(1) by simp
  have step: "iso_scan want ?sec (length pre + length r) = first_some (named want) es"
    using Cons.IH [of "pre @ r"] Cons.prems by simp
  have "0 < length r" using len(1) by linarith
  with fits have "length pre < SECTOR_USER" by linarith
  then show ?case
    unfolding iso_scan.simps [of want ?sec "length pre"] Let_def at rec
    using r len fits step by (auto simp: record_of_def named_def [of want e])
qed

lemma iso_scan_sector: "dir_sector es sec \<Longrightarrow> iso_scan want sec 0 = first_some (named want) es"
proof -
  assume "dir_sector es sec"
  then obtain rs z where "list_all2 record_of es rs" "sec = concat rs @ z" "length sec = SECTOR_USER" "z = [] \<or> hd z = 0"
    unfolding dir_sector_def by blast
  then show ?thesis using iso_scan_records [of es rs "[]" z want] by simp
qed

text \<open>An extent of a disc holds the entries of a directory, sector by sector.\<close>

definition holds_directory :: "image \<Rightarrow> u32 \<times> u32 \<Rightarrow> dir_entry list \<Rightarrow> bool" where
  "holds_directory img ext es \<longleftrightarrow>
     (\<exists>ess secs. es = concat ess \<and> list_all2 dir_sector ess secs \<and>
        length secs = (unat (snd ext) + 2047) div SECTOR_USER \<and>
        (\<forall>i < length secs. img (fst ext + of_nat i) = Done (secs ! i)))"

lemma first_some_append:
  "first_some f (xs @ ys) = (case first_some f xs of Some y \<Rightarrow> Some y | None \<Rightarrow> first_some f ys)"
  by (induction xs) (auto split: option.split)

lemma read_image_reader: "img n = Done bs \<Longrightarrow> read_sector (image_reader img first) n () = Done (bs, ())"
  by (simp add: image_reader_def lift_io_def)

lemma then_do_read:
  "img n = Done bs \<Longrightarrow> then_do (read_sector (image_reader img first) n) f () = f bs ()"
  by (simp add: then_do_def read_image_reader)

lemma iso_dir_scan_sectors:
  assumes "list_all2 dir_sector ess secs" and "\<And>i. i < length secs \<Longrightarrow> img (lba + of_nat i) = Done (secs ! i)"
    and "length sec = SECTOR_USER"
  shows "iso_dir_scan (image_reader img first) want lba (length secs) sec () = Done (first_some (named want) (concat ess), ())"
  using assms
proof (induction ess secs arbitrary: lba sec rule: list_all2_induct)
  case (Cons es ess d ds)
  have d: "length d = SECTOR_USER" "d \<noteq> []" using Cons.hyps(1) by (auto simp: dir_sector_def)
  have read: "img lba = Done d" using Cons.prems(1) [of 0] by simp
  have rest: "img (lba + 1 + of_nat i) = Done (ds ! i)" if "i < length ds" for i
    using Cons.prems(1) [of "Suc i"] that by (simp add: ac_simps)
  show ?case
    using Cons.IH [OF rest d(1)] d Cons.prems(2)
    by (simp add: then_do_read [of img lba d, OF read] fill_whole iso_scan_sector [OF Cons.hyps(1)] first_some_append ret_app
        split: option.split)
qed (simp add: ret_app)

lemma iso_dir_find_directory:
  assumes "holds_directory img (lba, len) es"
  shows "iso_dir_find (image_reader img first) lba len name () = Done (first_some (named (iso_want name)) es, ())"
proof -
  obtain ess secs where es: "es = concat ess" and dirs: "list_all2 dir_sector ess secs"
    and n: "length secs = (unat len + 2047) div SECTOR_USER"
    and img: "\<And>i. i < length secs \<Longrightarrow> img (lba + of_nat i) = Done (secs ! i)"
    using assms by (auto simp: holds_directory_def)
  show ?thesis
    using iso_dir_scan_sectors [OF dirs img length_zero_sector, of first "iso_want name"] by (simp add: iso_dir_find_def es n)
qed

text \<open>
  The directories of a disc by extent, and what a path means in them; \<open>None\<close> where a path leaves
  the directories that are given.
\<close>

type_synonym directories = "u32 \<times> u32 \<Rightarrow> dir_entry list option"

fun resolve :: "directories \<Rightarrow> u32 \<times> u32 \<Rightarrow> rstr list \<Rightarrow> (u32 \<times> u32) option \<Rightarrow> (u32 \<times> u32) option option" where
  "resolve dirs ext [] found = Some found"
| "resolve dirs ext (c # cs) found =
     (case dirs ext of
        None \<Rightarrow> None
      | Some es \<Rightarrow> (case first_some (named (iso_want c)) es of
                    None \<Rightarrow> Some None
                  | Some e \<Rightarrow> resolve dirs e cs (Some e)))"

definition disc_holds :: "image \<Rightarrow> u32 \<Rightarrow> u32 \<times> u32 \<Rightarrow> directories \<Rightarrow> bool" where
  "disc_holds img first root dirs \<longleftrightarrow>
     (\<exists>pvd. img (first + 16) = Done pvd \<and> length pvd = SECTOR_USER \<and> take 5 (drop 1 pvd) = bytes_lit ''CD001'' \<and>
        root = (le32 pvd 158, le32 pvd 166)) \<and>
     (\<forall>ext es. dirs ext = Some es \<longrightarrow> holds_directory img ext es)"

lemma iso_components_resolve:
  assumes "\<And>ext es. dirs ext = Some es \<Longrightarrow> holds_directory img ext es"
    and "resolve dirs (lba, len) cs found = Some r"
  shows "iso_components (image_reader img first) cs lba len found () = Done (r, ())"
  using assms(2)
proof (induction cs arbitrary: lba len found)
  case (Cons c cs)
  then obtain es where es: "dirs (lba, len) = Some es" by (auto split: option.splits)
  have find: "iso_dir_find (image_reader img first) lba len c () = Done (first_some (named (iso_want c)) es, ())"
    by (rule iso_dir_find_directory) (rule assms(1) [OF es])
  from Cons.prems show ?case
    using Cons.IH es by (auto simp: then_do_def find ret_app split: option.splits)
qed (simp add: ret_app)

lemma iso_find_path_resolve:
  assumes "disc_holds img first root dirs" and "resolve dirs root path None = Some r"
  shows "iso_find_path (image_reader img first) path () = Done (r, ())"
proof -
  obtain pvd where pvd: "img (first + 16) = Done pvd" "length pvd = SECTOR_USER"
    "take 5 (drop 1 pvd) = bytes_lit ''CD001''" "root = (le32 pvd 158, le32 pvd 166)"
    using assms(1) by (auto simp: disc_holds_def)
  have ne: "pvd \<noteq> []" using pvd(2) by auto
  have first: "first_track_sector (image_reader img first) = first" by (simp add: image_reader_def)
  have dirs: "\<And>ext es. dirs ext = Some es \<Longrightarrow> holds_directory img ext es"
    using assms(1) unfolding disc_holds_def by blast
  show ?thesis
    using iso_components_resolve [OF dirs, where lba = "le32 pvd 158" and len = "le32 pvd 166" and cs = path and found = None and r = r and first = first] assms(2) pvd ne
    unfolding iso_find_path_def first
    by (simp add: then_do_read [of img "first + 16" pvd, OF pvd(1)] Let_def fill_whole)
qed

section \<open>Files on a disc\<close>

text \<open>Whole sectors from an address on.\<close>

definition holds_bytes :: "image \<Rightarrow> u32 \<Rightarrow> u8 list \<Rightarrow> bool" where
  "holds_bytes img lba bs \<longleftrightarrow> SECTOR_USER dvd length bs \<and>
     (\<forall>i < length bs div SECTOR_USER. img (lba + of_nat i) = Done (take SECTOR_USER (drop (i * SECTOR_USER) bs)))"

lemma holds_bytes_first:
  assumes "holds_bytes img lba bs" and "bs \<noteq> []"
  shows "img lba = Done (take SECTOR_USER bs)" and "length (take SECTOR_USER bs) = SECTOR_USER"
    and "holds_bytes img (lba + 1) (drop SECTOR_USER bs)"
proof -
  obtain k where k: "length bs = SECTOR_USER * k" using assms(1) by (auto simp: holds_bytes_def)
  with assms(2) obtain j where j: "k = Suc j" by (cases k) auto
  have at: "img (lba + of_nat i) = Done (take SECTOR_USER (drop (i * SECTOR_USER) bs))" if "i < Suc j" for i
    using assms(1) that k j by (auto simp: holds_bytes_def)
  show "img lba = Done (take SECTOR_USER bs)" using at [of 0] by simp
  show "length (take SECTOR_USER bs) = SECTOR_USER" by (simp add: k j)
  show "holds_bytes img (lba + 1) (drop SECTOR_USER bs)"
    unfolding holds_bytes_def
  proof (intro conjI allI impI)
    show "SECTOR_USER dvd length (drop SECTOR_USER bs)" by (simp add: k j)
    fix i
    assume "i < length (drop SECTOR_USER bs) div SECTOR_USER"
    then have "Suc i < Suc j" by (simp add: k j)
    from at [OF this] show "img (lba + 1 + of_nat i) = Done (take SECTOR_USER (drop (i * SECTOR_USER) (drop SECTOR_USER bs)))"
      by (simp add: ac_simps)
  qed
qed

lemma take_sector: "take remaining bs = take SECTOR_USER (take remaining bs) @ take (remaining - SECTOR_USER) (drop SECTOR_USER bs)"
  by (metis append_take_drop_id drop_take)

lemma read_file_loop_bytes:
  assumes "holds_bytes img lba bs" and "remaining \<le> length bs"
  shows "read_file_loop (image_reader img first) lba remaining out () = Done (out @ take remaining bs, ())"
  using assms
proof (induction remaining arbitrary: lba bs out rule: less_induct)
  case (less remaining)
  show ?case
  proof (cases "remaining = 0")
    case True
    then show ?thesis by (subst read_file_loop.simps) (simp add: ret_app)
  next
    case False
    with less.prems(2) have ne: "bs \<noteq> []" by auto
    note sector = holds_bytes_first [OF less.prems(1) ne]
    have next_file: "read_file_loop (image_reader img first) (lba + 1) (remaining - SECTOR_USER)
        (out @ take remaining (take SECTOR_USER bs)) ()
        = Done ((out @ take remaining (take SECTOR_USER bs)) @ take (remaining - SECTOR_USER) (drop SECTOR_USER bs), ())"
      by (rule less.IH [OF _ sector(3)]) (use False less.prems(2) in auto)
    have "remaining - min remaining SECTOR_USER = remaining - SECTOR_USER" by simp
    then show ?thesis
      using next_file False sector(2) take_sector [of remaining bs]
      by (subst read_file_loop.simps)
        (auto simp: then_do_read [of img lba "take SECTOR_USER bs", OF sector(1)] min.commute)
  qed
qed

lemma read_file_bytes_held:
  "holds_bytes img lba bs \<Longrightarrow> unat len \<le> length bs \<Longrightarrow>
     read_file_bytes (image_reader img first) lba len () = Done (take (unat len) bs, ())"
  by (simp add: read_file_bytes_def read_file_loop_bytes)

lemma ps2_body_bytes:
  assumes "holds_bytes img lba bs" and "remaining \<le> length bs" and "unat lba + length bs div SECTOR_USER < 2 ^ 32"
    and "length buf = SECTOR_USER"
  shows "ps2_body (image_reader img first) lba remaining buf out () = Done (out @ take remaining bs, ())"
  using assms
proof (induction remaining arbitrary: lba bs buf out rule: less_induct)
  case (less remaining)
  show ?case
  proof (cases "remaining = 0")
    case True
    then show ?thesis by (subst ps2_body.simps) (simp add: ret_app)
  next
    case False
    with less.prems(2) have ne: "bs \<noteq> []" by auto
    note sector = holds_bytes_first [OF less.prems(1) ne]
    have "SECTOR_USER \<le> length bs" using sector(2) by simp
    then have blocks: "length bs div SECTOR_USER = Suc (length (drop SECTOR_USER bs) div SECTOR_USER)"
      by (simp add: le_div_geq)
    then have lba: "unat (lba + 1) = Suc (unat lba)" and last: "unat lba \<noteq> 4294967295"
      using less.prems(3) by (simp_all add: unat_word_ariths)
    have next_file: "ps2_body (image_reader img first) (lba + 1) (remaining - SECTOR_USER) (take SECTOR_USER bs)
        (out @ take remaining (take SECTOR_USER bs)) ()
        = Done ((out @ take remaining (take SECTOR_USER bs)) @ take (remaining - SECTOR_USER) (drop SECTOR_USER bs), ())"
      by (rule less.IH [OF _ sector(3)]) (use False less.prems(2,3) sector(2) blocks lba in auto)
    have "remaining - min remaining SECTOR_USER = remaining - SECTOR_USER" by simp
    then show ?thesis
      using next_file False sector(2) last less.prems(4) take_sector [of remaining bs]
      by (subst ps2_body.simps)
        (auto simp: then_do_read [of img lba "take SECTOR_USER bs", OF sector(1)] fill_whole min.commute)
  qed
qed

section \<open>The identity of a PlayStation 2 disc\<close>

lemma ps2_hash_held:
  assumes disc: "disc_holds img 0 root dirs"
    and cnf: "resolve dirs root [lit ''SYSTEM.CNF''] None = Some (Some (cnf_lba, cnf_len))"
      "img cnf_lba = Done cnf" "length cnf \<le> SECTOR_USER" "boot_name (take 2047 cnf) = Some name"
    and exe: "resolve dirs root (split_on 92 name) None = Some (Some (lba, len))" "len \<noteq> 0"
      "holds_bytes img lba body" "unat len \<le> length body" "unat lba + length body div SECTOR_USER < 2 ^ 32"
  shows "ps2_hash md5 (image_reader img 0) () =
    Done (Some (md5_hex md5 (utf8_bytes name @ take (min (unat len) MAX_BUFFER_SIZE) body)), ())"
proof -
  have find: "iso_find_file (image_reader img 0) (lit ''SYSTEM.CNF'') () = Done (Some (cnf_lba, cnf_len), ())"
    unfolding iso_find_file_def by (rule iso_find_path_resolve [OF disc cnf(1)])
  have boot: "iso_find_path (image_reader img 0) (split_on 92 name) () = Done (Some (lba, len), ())"
    by (rule iso_find_path_resolve [OF disc exe(1)])
  have "0 < unat len" using exe(2) by (simp add: unat_gt_0)
  moreover have "ps2_body (image_reader img 0) lba (min (unat len) MAX_BUFFER_SIZE) (fill zero_sector cnf) [] ()
      = Done ([] @ take (min (unat len) MAX_BUFFER_SIZE) body, ())"
    by (rule ps2_body_bytes) (use exe cnf(3) in auto)
  ultimately show ?thesis
    unfolding ps2_hash_def
    using find boot read_image_reader [of img cnf_lba cnf 0, OF cnf(2)] cnf(4)
    by (simp add: then_do_def ret_def min_def)
qed

section \<open>Containers\<close>

text \<open>A CSO or ZSO image whose blocks decode to the bytes of an ISO image.\<close>

definition cso_encodes :: "codecs \<Rightarrow> cso \<Rightarrow> u8 list \<Rightarrow> bool" where
  "cso_encodes cd c data \<longleftrightarrow> cs_length c = length data \<and>
     (\<forall>block. block * cs_block_size c < length data \<longrightarrow>
        cso_block cd c block = Done (take (cs_block_size c) (drop (block * cs_block_size c) data)))"

definition iso_reader :: "u8 list \<Rightarrow> unit sector_reader" where
  "iso_reader data =
     raw_bin_reader \<lparr>rb_file = \<lparr>fi_bytes = data, fi_fault = \<lambda>_. False\<rparr>, rb_raw_sector_size = 2048, rb_header = 0\<rparr>"

lemma iso_image_read:
  "raw_bin_read \<lparr>rb_file = \<lparr>fi_bytes = data, fi_fault = \<lambda>_. False\<rparr>, rb_raw_sector_size = 2048, rb_header = 0\<rparr> n
     = Done (take SECTOR_USER (drop (unat n * SECTOR_USER) data))"
proof -
  have "unat n < 2 ^ 32" using unsigned_less [of n, where 'a = nat] by simp
  then have "unat n * SECTOR_USER < 2 ^ 63" by simp
  then show ?thesis by (simp add: raw_bin_read_def file_read_def Let_def list_ex_iff)
qed

lemma cso_image_iso:
  assumes "cso_encodes cd c data" and "cso_ok c"
  shows "cso_image cd c n = Done (take SECTOR_USER (drop (unat n * SECTOR_USER) data))"
proof (cases "cs_length c \<le> unat n * SECTOR_USER")
  case True
  with assms(1) show ?thesis by (simp add: cso_image_def cso_encodes_def)
next
  case False
  let ?offset = "unat n * SECTOR_USER" and ?size = "cs_block_size c"
  have split: "?offset = ?offset div ?size * ?size + ?offset mod ?size" by simp
  have "?offset div ?size * ?size \<le> ?offset" by (metis le_add1 split)
  then have block: "cso_block cd c (?offset div ?size) = Done (take ?size (drop (?offset div ?size * ?size) data))"
    using assms(1) False le_less_trans [of "?offset div ?size * ?size" ?offset "length data"] by (simp add: cso_encodes_def)
  have "drop (?offset mod ?size) (take ?size (drop (?offset div ?size * ?size) data))
      = take (?size - ?offset mod ?size) (drop ?offset data)"
    by (simp add: drop_take add.commute)
  moreover have "SECTOR_USER \<le> ?size - ?offset mod ?size" using cso_room [OF assms(2), of "unat n"] by simp
  ultimately have "take SECTOR_USER (drop (?offset mod ?size) (take ?size (drop (?offset div ?size * ?size) data)))
      = take SECTOR_USER (drop ?offset data)" by (simp add: min_def)
  with block False show ?thesis by (simp add: cso_image_def Let_def)
qed

text \<open>Two sources of the same disc give the same identity.\<close>

lemma cso_iso_pure:
  assumes "cso_encodes cd c data" and "cso_ok c"
  shows "cso.pure_reader cd c = iso_reader data"
  unfolding cso.pure_reader_def iso_reader_def raw_bin_reader_def
  by (simp add: image_reader_def cso_reader_def cso_image_iso [OF assms] iso_image_read)

section \<open>Opera directories\<close>

text \<open>The link of a directory block, and chains whose links go forward to an end.\<close>

definition opera_link :: "u8 list \<Rightarrow> nat" where
  "opera_link buf = byte_at buf 2 * 256 + byte_at buf 3"

definition chain_forward :: "image \<Rightarrow> u32 \<Rightarrow> u32 \<Rightarrow> bool" where
  "chain_forward img block_size block_location \<longleftrightarrow>
     (\<forall>k < 65535. \<forall>bytes. img ((block_location + of_nat k * block_size) div 2048) = Done bytes \<longrightarrow> bytes \<noteq> [] \<longrightarrow>
        length bytes = SECTOR_USER \<and>
        (case opera_entries bytes of None \<Rightarrow> k < opera_link bytes | Some (_, _, len) \<Rightarrow> len \<noteq> 0))"

lemma opera_link_bound: "opera_link buf \<le> 65535"
proof -
  have "byte_at buf i \<le> 255" for i
    using unsigned_less [of "buf ! i", where 'a = nat] by (simp add: byte_at_def)
  from this [of 2] this [of 3] show ?thesis by (simp add: opera_link_def)
qed

lemma opera_walk_forward_returns:
  assumes "chain_forward img bs bl" and "k < 65535" and "length buf = SECTOR_USER"
  shows "opera_walk (image_reader img first) bs bl ((bl + of_nat k * bs) div 2048) buf () \<noteq> None"
  using assms(2,3)
proof (induction "65535 - k" arbitrary: k buf rule: less_induct)
  case less
  let ?sector = "(bl + of_nat k * bs) div 2048"
  show ?case
  proof (cases "img ?sector")
    case (Done bytes)
    show ?thesis
    proof (cases "bytes = []")
      case True
      with Done show ?thesis by (subst opera_walk.simps) (simp add: image_reader_def lift_io_def)
    next
      case False
      have fwd: "length bytes = SECTOR_USER"
        "case opera_entries bytes of None \<Rightarrow> k < opera_link bytes | Some (_, _, len) \<Rightarrow> len \<noteq> 0"
        using assms(1) [unfolded chain_forward_def, rule_format, OF less.prems(1) Done False] by auto
      have whole: "fill buf bytes = bytes" using fwd(1) less.prems(2) by (simp add: fill_whole)
      show ?thesis
      proof (cases "opera_block bs bl bytes")
        case (Inl found)
        with Done False whole show ?thesis
          by (subst opera_walk.simps) (simp add: image_reader_def lift_io_def)
      next
        case (Inr triple)
        then have entries: "opera_entries bytes = None" and link: "opera_link bytes \<noteq> 65535"
          and triple: "triple = (bs, bl, (bl + of_nat (opera_link bytes) * bs) div 2048)"
          using fwd(2) by (auto simp: opera_block_def opera_link_def Let_def split: option.splits if_splits prod.splits)
        have "k < opera_link bytes" using fwd(2) entries by simp
        moreover have "opera_link bytes < 65535" using link opera_link_bound [of bytes] by simp
        ultimately have "opera_walk (image_reader img first) bs bl ((bl + of_nat (opera_link bytes) * bs) div 2048) bytes () \<noteq> None"
          using less.prems(1) by (intro less.hyps) (auto simp: fwd(1))
        with Done False whole Inr triple show ?thesis
          by (subst opera_walk.simps) (simp add: image_reader_def lift_io_def)
      qed
    qed
  qed (subst opera_walk.simps, simp add: image_reader_def lift_io_def)+
qed

text \<open>A block that is its own successor keeps the walk going.\<close>

lemma opera_walk_diverges:
  assumes img: "img sector = Done bytes" "length bytes = SECTOR_USER" and loop: "opera_block bs bl bytes = Inr (bs, bl, sector)"
    and buf: "length buf = SECTOR_USER"
  shows "opera_walk (image_reader img first) bs bl sector buf () = None"
proof (rule ccontr)
  assume "opera_walk (image_reader img first) bs bl sector buf () \<noteq> None"
  then obtain r where run: "opera_walk (image_reader img first) bs bl sector buf () = Some r" by blast
  let ?here = "\<lambda>rd bs' bl' sector' buf. rd = image_reader img first \<and> bs' = bs \<and> bl' = bl \<and> sector' = sector \<and> length buf = SECTOR_USER"
  have "\<not> ?here (image_reader img first) bs bl sector buf"
  proof (rule opera_walk.raw_induct [where P = "\<lambda>rd bs' bl' sector' buf s r. \<not> ?here rd bs' bl' sector' buf", OF _ run])
    fix f and rd :: "unit sector_reader" and bs' bl' sector' buf and s :: unit and r
    assume IH: "\<And>(rd :: unit sector_reader) bs' bl' sector' buf (s :: unit) r. f rd bs' bl' sector' buf s = Some r \<Longrightarrow> \<not> ?here rd bs' bl' sector' buf"
      and eq: "(case read_sector rd sector' s of Panic \<Rightarrow> Some Panic | Fail e \<Rightarrow> Some (Fail e)
        | Done (bytes, s') \<Rightarrow> if bytes = [] then Some (Done ((bl', 0), s'))
            else (case opera_block bs' bl' (fill buf bytes) of Inl found \<Rightarrow> Some (Done (found, s'))
              | Inr (bs, bl, sector) \<Rightarrow> f rd bs bl sector (fill buf bytes) s')) = Some r"
    show "\<not> ?here rd bs' bl' sector' buf"
    proof
      assume here: "?here rd bs' bl' sector' buf"
      then have "fill buf bytes = bytes" using img(2) by (simp add: fill_whole)
      moreover have "bytes \<noteq> []" using img(2) by auto
      ultimately have "f (image_reader img first) bs bl sector bytes () = Some r"
        using eq here img(1) loop by (simp add: image_reader_def lift_io_def)
      from IH [OF this] img(2) show False by simp
    qed
  qed
  with buf show False by simp
qed

section \<open>A concrete disc\<close>

text \<open>A volume descriptor, a directory of two files, the boot configuration and the executable.\<close>

definition pad_sector :: "u8 list \<Rightarrow> u8 list" where
  "pad_sector bs = bs @ replicate (SECTOR_USER - length bs) 0"

definition demo_record :: "string \<Rightarrow> u8 \<Rightarrow> u8 \<Rightarrow> u8 list" where
  "demo_record name lba len =
     [of_nat (33 + length name), 0, lba, 0, 0, 0, 0, 0, 0, 0, len, 0, 0, 0] @ replicate 18 0 @ [of_nat (length name)] @ bytes_lit name"

definition demo_pvd_start :: "u8 list" where
  "demo_pvd_start = [1] @ bytes_lit ''CD001'' @ replicate 152 0 @ [20, 0, 0, 0, 0, 0, 0, 0, 0, 8, 0, 0]"

definition demo_pvd :: "u8 list" where
  "demo_pvd = pad_sector demo_pvd_start"

definition demo_root :: "u8 list" where
  "demo_root = pad_sector (demo_record ''SYSTEM.CNF;1'' 21 28 @ demo_record ''SLUS_123.45;1'' 22 5)"

definition demo_cnf :: "u8 list" where
  "demo_cnf = bytes_lit ''BOOT2 = cdrom0:'' @ [92] @ bytes_lit ''SLUS_123.45;1''"

definition demo_exe :: "u8 list" where
  "demo_exe = pad_sector [1, 2, 3, 4, 5]"

definition demo_disc :: image where
  "demo_disc n =
     (if n = 16 then Done demo_pvd else if n = 20 then Done demo_root
      else if n = 21 then Done demo_cnf else if n = 22 then Done demo_exe else Done [])"

definition demo_entries :: "dir_entry list" where
  "demo_entries =
     [\<lparr>de_name = bytes_lit ''SYSTEM.CNF;1'', de_lba = 21, de_len = 28\<rparr>,
      \<lparr>de_name = bytes_lit ''SLUS_123.45;1'', de_lba = 22, de_len = 5\<rparr>]"

definition demo_dirs :: directories where
  "demo_dirs ext = (if ext = (20, 2048) then Some demo_entries else None)"

lemma length_pad_sector [simp]: "length bs \<le> SECTOR_USER \<Longrightarrow> length (pad_sector bs) = SECTOR_USER"
  by (simp add: pad_sector_def)

lemma take_pad_sector: "n + k \<le> length bs \<Longrightarrow> take n (drop k (pad_sector bs)) = take n (drop k bs)"
  by (simp add: pad_sector_def)

lemma le32_pad_sector: "i + 3 < length bs \<Longrightarrow> le32 (pad_sector bs) i = le32 bs i"
  by (simp add: le32_def byte_at_def pad_sector_def nth_append)

lemma length_demo_pvd_start: "length demo_pvd_start = 170"
  by (simp add: demo_pvd_start_def bytes_lit_def)

lemma demo_root_sector: "dir_sector demo_entries demo_root"
proof -
  let ?rs = "[demo_record ''SYSTEM.CNF;1'' 21 28, demo_record ''SLUS_123.45;1'' 22 5]"
  have "list_all2 record_of demo_entries ?rs" by code_simp
  moreover have "demo_root = concat ?rs @ replicate (SECTOR_USER - length (concat ?rs)) 0"
    by (simp add: demo_root_def pad_sector_def)
  moreover have "length demo_root = SECTOR_USER"
    unfolding demo_root_def by (rule length_pad_sector) code_simp
  ultimately show ?thesis unfolding dir_sector_def
    by (metis hd_replicate replicate_0)
qed

lemma demo_disc_holds: "disc_holds demo_disc 0 (20, 2048) demo_dirs"
  unfolding disc_holds_def
proof (intro conjI allI impI)
  have "length demo_pvd = SECTOR_USER"
    unfolding demo_pvd_def by (rule length_pad_sector) (simp add: length_demo_pvd_start)
  moreover have "take 5 (drop 1 demo_pvd) = bytes_lit ''CD001''"
    unfolding demo_pvd_def by (subst take_pad_sector) (simp add: length_demo_pvd_start, simp add: demo_pvd_start_def bytes_lit_def)
  moreover have "(20, 2048) = (le32 demo_pvd_start 158, le32 demo_pvd_start 166)" by code_simp
  then have "(20, 2048) = (le32 demo_pvd 158, le32 demo_pvd 166)"
    by (simp add: demo_pvd_def le32_pad_sector length_demo_pvd_start)
  ultimately show "\<exists>pvd. demo_disc (0 + 16) = Done pvd \<and> length pvd = SECTOR_USER \<and>
      take 5 (drop 1 pvd) = bytes_lit ''CD001'' \<and> (20, 2048) = (le32 pvd 158, le32 pvd 166)"
    by (simp add: demo_disc_def)
next
  fix ext es
  assume "demo_dirs ext = Some es"
  then have "ext = (20, 2048)" and "es = demo_entries" by (auto simp: demo_dirs_def split: if_splits)
  moreover have "list_all2 dir_sector [demo_entries] [demo_root]" by (simp add: demo_root_sector)
  ultimately show "holds_directory demo_disc ext es"
    unfolding holds_directory_def by (intro exI [of _ "[demo_entries]"] exI [of _ "[demo_root]"]) (simp add: demo_disc_def)
qed

definition demo_opera :: "u8 list" where
  "demo_opera = pad_sector (OPERA_ID @ replicate 71 0 @ [8, 0] @ replicate 23 0 @ [1])"

lemma demo_opera_length: "length demo_opera = SECTOR_USER"
  unfolding demo_opera_def by (rule length_pad_sector) (simp add: OPERA_ID_def)

lemma demo_opera_fields: "be3 demo_opera 77 = 2048" "be3 demo_opera 101 = 1"
  by (simp_all add: be3_def byte_at_def demo_opera_def pad_sector_def nth_append OPERA_ID_def nth_Cons')

lemma demo_block_end:
  "opera_entries (pad_sector [0, 0, 255, 255]) = None" "opera_link (pad_sector [0, 0, 255, 255]) = 65535"
proof -
  have zero: "byte_at (pad_sector [0, 0, 255, 255]) i = 0" if "4 \<le> i" "i < SECTOR_USER" for i
    using that by (simp add: byte_at_def pad_sector_def nth_append)
  show "opera_entries (pad_sector [0, 0, 255, 255]) = None"
    unfolding opera_entries_def by (subst opera_scan.simps) (simp add: zero)
  show "opera_link (pad_sector [0, 0, 255, 255]) = 65535"
    by (simp add: opera_link_def byte_at_def pad_sector_def)
qed

lemma power_of_two_2048: "is_power_of_two 2048"
  unfolding is_power_of_two_def list_ex_iff by (rule bexI [of _ 11]) simp_all

section \<open>Properties\<close>

text \<open>
  C25: on a disc whose directories are those given, the identity of a PlayStation 2 game is the
  digest of the executable's name and of exactly its first bytes, as many as its directory entry
  says, up to 64 MiB: it depends on nothing else on the disc.
\<close>

theorem ps2_disc_identity:
  assumes "disc_holds img 0 root dirs"
    and "resolve dirs root [lit ''SYSTEM.CNF''] None = Some (Some (cnf_lba, cnf_len))"
    and "img cnf_lba = Done cnf" and "length cnf \<le> SECTOR_USER" and "boot_name (take 2047 cnf) = Some name"
    and "resolve dirs root (split_on 92 name) None = Some (Some (lba, len))" and "len \<noteq> 0"
    and "holds_bytes img lba body" and "unat len \<le> length body" and "unat lba + length body div SECTOR_USER < 2 ^ 32"
  shows "ps2_hash md5 (image_reader img 0) () =
    Done (Some (md5_hex md5 (utf8_bytes name @ take (min (unat len) MAX_BUFFER_SIZE) body)), ())"
  by (rule ps2_hash_held [OF assms])

theorem ps2_disc_identity_witness:
  "ps2_hash (take 16) (image_reader demo_disc 0) () =
     Done (Some (md5_hex (take 16) (utf8_bytes (lit ''SLUS_123.45'') @ [1, 2, 3, 4, 5])), ())"
proof -
  have "resolve demo_dirs (20, 2048) [lit ''SYSTEM.CNF''] None = Some (Some (21, 28))" by code_simp
  moreover have "resolve demo_dirs (20, 2048) (split_on 92 (lit ''SLUS_123.45'')) None = Some (Some (22, 5))" by code_simp
  moreover have "boot_name (take 2047 demo_cnf) = Some (lit ''SLUS_123.45'')" by code_simp
  moreover have "holds_bytes demo_disc 22 demo_exe"
    by (simp add: holds_bytes_def demo_exe_def demo_disc_def)
  moreover have "take (min (unat (5 :: u32)) MAX_BUFFER_SIZE) demo_exe = [1, 2, 3, 4, 5]"
    by (simp add: demo_exe_def pad_sector_def)
  ultimately show ?thesis
    using ps2_disc_identity [OF demo_disc_holds, of 21 28 demo_cnf "lit ''SLUS_123.45''" 22 5 demo_exe "take 16"]
    by (simp add: demo_disc_def demo_exe_def demo_cnf_def bytes_lit_def)
qed

text \<open>
  C26: a CSO or ZSO image whose blocks decode to the bytes of an ISO image has the identity of that
  ISO image, for every recipe, whatever blocks the reader has cached.
\<close>

theorem cso_hash_is_iso_hash:
  assumes "cso_open f = Done (c, s)" and "cso_encodes cd c data"
  shows "result (ps2_hash md5 (cso_reader cd c) s) = result (ps2_hash md5 (iso_reader data) ()) \<and>
    map_option result (sector_recipe kind md5 (cso_reader cd c) s) = map_option result (sector_recipe kind md5 (iso_reader data) ())"
proof -
  have inv: "cso_inv cd c s" using assms(1) by (rule cso_open_inv)
  then have "cso_ok c" by (simp add: cso_inv_def)
  then have pure: "cso.pure_reader cd c = iso_reader data" using assms(2) by (rule cso_iso_pure [rotated])
  show ?thesis using cso.ps2_on_image [OF inv] cso.recipe_on_image [OF inv] by (simp add: pure)
qed

text \<open>
  A recipe run on an opened CHD image returns what it returns on the sectors the image holds,
  whatever the reader's cache of hunks goes through, and panics neither there nor on a raw track.
\<close>

lemma disc_recipes_safe:
  assumes "chd_open c selection = Some (Done (r, s))" and "whole_hunks c"
  shows "map_option result (sector_recipe kind md5 (chd_sector_reader r) s)
      = map_option result (sector_recipe kind md5 (image_reader (chd_image r) 0) ()) \<and>
    sector_recipe kind md5 (chd_sector_reader r) s \<noteq> Some Panic \<and>
    sector_recipe kind md5 (raw_bin_reader b) () \<noteq> Some Panic"
proof -
  have inv: "chd_inv r s" using assms by (rule chd_open_inv)
  have pure: "chd.pure_reader r = image_reader (chd_image r) 0"
    unfolding chd.pure_reader_def by (simp add: chd_sector_reader_def)
  have chd: "sector_recipe kind md5 (image_reader (chd_image r) 0) () \<noteq> Some Panic"
    by (rule safe_sector_recipe) (rule chd.image_no_panic)
  have raw: "sector_recipe kind md5 (raw_bin_reader b) () \<noteq> Some Panic"
    unfolding raw_bin_reader_def by (rule safe_sector_recipe) (rule raw_bin.image_no_panic)
  have same: "map_option result (sector_recipe kind md5 (chd_sector_reader r) s)
      = map_option result (sector_recipe kind md5 (image_reader (chd_image r) 0) ())"
    using chd.recipe_on_image [OF inv] by (simp add: pure)
  then have "sector_recipe kind md5 (chd_sector_reader r) s \<noteq> Some Panic"
    using chd by (metis result_Panic_iff)
  with same raw show ?thesis by blast
qed

lemma disc_recipes_safe_witness:
  "\<exists>c r s. chd_open c FirstData = Some (Done (r, s)) \<and> whole_hunks c \<and>
     sector_recipe Psx (take 16) (chd_sector_reader r) s \<noteq> Some Panic"
proof -
  let ?c = "\<lparr>ch_file = \<lparr>fi_bytes = [], fi_fault = \<lambda>_. False\<rparr>, ch_hunk_size = 4096, ch_unit_bytes = 2048, ch_hunk_count = 1,
      ch_logical_bytes = 4096, ch_meta_offset = None, ch_hunk = \<lambda>_. Inr (replicate 4096 7)\<rparr>"
  let ?r = "(fresh_reader ?c 0)\<lparr>cr_header_skip := 0\<rparr>"
  have open_c: "chd_open ?c FirstData = Some (Done (?r, fresh_cache ?c))"
    by (simp add: chd_open_def chd_geometry_ok_def chd_tracks_def chd_base_def track_offset_def chd_configure_def
        then_do_def ret_def fresh_reader_def)
  have whole: "whole_hunks ?c" by (simp add: whole_hunks_def)
  from disc_recipes_safe [OF open_c whole, of Psx "take 16"] open_c whole show ?thesis by blast
qed

text \<open>Codecs that store bytes as they are.\<close>

definition demo_codecs :: codecs where
  "demo_codecs = \<lparr>inflate = (\<lambda>bs. (bs, None)), lz4_decompress = (\<lambda>bs n. Inr (take n bs))\<rparr>"

theorem cso_hash_is_iso_hash_witness:
  "\<exists>f c s. cso_open f = Done (c, s) \<and> cso_encodes demo_codecs c [7] \<and>
     result (ps2_hash (take 16) (cso_reader demo_codecs c) s) = result (ps2_hash (take 16) (iso_reader [7]) ())"
proof -
  let ?bytes = "bytes_lit ''CISO'' @ [0, 0, 0, 0, 1, 0, 0, 0, 0, 0, 0, 0, 0, 8, 0, 0, 1, 0, 0, 0, 32, 0, 0, 128, 33, 0, 0, 0, 7]"
  let ?f = "\<lparr>fi_bytes = ?bytes, fi_fault = \<lambda>_. False\<rparr>"
  let ?c = "\<lparr>cs_file = ?f, cs_length = 1, cs_block_size = 2048, cs_shift = 0, cs_lz4 = False, cs_index_end = 32\<rparr>"
  let ?s = "\<lparr>cc_block = replicate 2048 0, cc_cached = None\<rparr>"
  have bytes: "?bytes = [67, 73, 83, 79, 0, 0, 0, 0, 1, 0, 0, 0, 0, 0, 0, 0, 0, 8, 0, 0, 1, 0, 0, 0, 32, 0, 0, 128, 33, 0, 0, 0, 7]"
    by (simp add: bytes_lit_def)
  have "file_read_exact ?f 0 24 = Done (take 24 ?bytes)"
    by (simp add: file_read_exact_def file_read_def list_ex_iff bytes)
  then have open_f: "cso_open ?f = Done (?c, ?s)"
    by (simp add: cso_open_def bytes le64_def le32_def byte_at_def bytes_lit_def power_of_two_2048)
  have "cso_block demo_codecs ?c 0 = Done [7]"
    by (simp add: cso_block_def file_read_exact_def file_read_def list_ex_iff bytes le32_def byte_at_def)
  then have encodes: "cso_encodes demo_codecs ?c [7]" by (simp add: cso_encodes_def)
  from cso_hash_is_iso_hash [OF open_f encodes, of "take 16"] open_f encodes show ?thesis by blast
qed



end
