(* ===== verification/Rom_Hash.thy ===== *)
theory Rom_Hash
  imports Disc_Recipes
begin

text \<open>
  Cartridge hashing of \<open>library/rom_hash.rs\<close>: which files are hashed, the RetroAchievements hashes
  of NES, SNES and Nintendo 64 dumps, the reuse of stored hashes, and the batch that hashes the
  files of a system and joins the results with the catalog.

  CRC-32, MD5 and the catalog look-ups are parameters. A path is a string; \<open>files\<close> gives the
  modification time and the contents of a file.
\<close>

section \<open>Paths\<close>

text \<open>\<open>Path::file_name\<close> and \<open>Path::extension\<close>.\<close>

definition path_file_name :: "rstr \<Rightarrow> rstr option" where
  "path_file_name p =
     (let cs = filter (\<lambda>c. c \<noteq> [] \<and> c \<noteq> lit ''.'') (split_on 47 p)
      in if cs = [] \<or> last cs = lit ''..'' then None else Some (last cs))"

definition path_extension :: "rstr \<Rightarrow> rstr option" where
  "path_extension p =
     (case path_file_name p of
        None \<Rightarrow> None
      | Some name \<Rightarrow>
          (case before_last 46 name of
             None \<Rightarrow> None
           | Some stem \<Rightarrow> if stem = [] then None else Some (drop (length stem + 1) name)))"

definition lower_extension :: "rstr \<Rightarrow> rstr" where
  "lower_extension p = to_ascii_lowercase (case path_extension p of Some e \<Rightarrow> e | None \<Rightarrow> [])"

text \<open>\<open>Path::join\<close>, and \<open>root.join(p.trim_start_matches('/'))\<close>.\<close>

definition path_join :: "rstr \<Rightarrow> rstr \<Rightarrow> rstr" where
  "path_join root p =
     (if take 1 p = [47] \<or> root = [] then p else if last root = 47 then root @ p else root @ [47] @ p)"

definition join_relative :: "rstr \<Rightarrow> rstr \<Rightarrow> rstr" where
  "join_relative root p = path_join root (trim_start_matches (\<lambda>c. c = 47) p)"

text \<open>\<open>Path::parent\<close>: empty components and a dot, except at the start, do not count.\<close>

definition drop_blank_end :: "rstr list \<Rightarrow> rstr list" where
  "drop_blank_end cs = trim_end_matches (\<lambda>c. c = [] \<or> c = lit ''.'') cs"

definition path_parent :: "rstr \<Rightarrow> rstr option" where
  "path_parent p =
     (if take 1 p = [47]
      then let cs = drop_blank_end (split_on 47 (tl p))
           in if cs = [] then None else Some ([47] @ join [47] (drop_blank_end (butlast cs)))
      else case split_on 47 p of
             [] \<Rightarrow> None
           | c # cs \<Rightarrow>
               let cs = drop_blank_end cs
               in if cs = [] then (if c = [] then None else Some [])
                  else Some (join [47] (c # drop_blank_end (butlast cs))))"

section \<open>Which files are hashed\<close>

definition hash_rule :: "rstr \<Rightarrow> cart_hash_rule option" where
  "hash_rule name = (case find_system name of Some s \<Rightarrow> sy_cart_hash s | None \<Rightarrow> None)"

definition is_hash_eligible :: "rstr \<Rightarrow> bool" where
  "is_hash_eligible name \<longleftrightarrow> hash_rule name \<noteq> None"

definition is_file_hash_eligible :: "rstr \<Rightarrow> rstr \<Rightarrow> bool" where
  "is_file_hash_eligible name rom_filename \<longleftrightarrow>
     (case hash_rule name of
        None \<Rightarrow> False
      | Some rule \<Rightarrow>
          if lower_extension rom_filename \<notin> set (ch_extensions rule) then False
          else \<not> list_ex (\<lambda>marker. contains_str marker (to_ascii_lowercase rom_filename)) (excluded_name_markers rule))"

definition needs_rc_hash :: "rstr \<Rightarrow> bool" where
  "needs_rc_hash name \<longleftrightarrow>
     (case find_system name of
        Some s \<Rightarrow> (case sy_rc_kind s of Some k \<Rightarrow> is_cart k | None \<Rightarrow> False)
      | None \<Rightarrow> False)"

section \<open>Hashes of one file\<close>

type_synonym crc32 = "u8 list \<Rightarrow> u32"

definition rom_header_skip :: "rstr \<Rightarrow> nat" where
  "rom_header_skip path =
     (let ext = lower_extension path in if ext = lit ''nes'' then 16 else if ext = lit ''lnx'' then 64 else 0)"

definition compute_crc32 :: "crc32 \<Rightarrow> rstr \<Rightarrow> disk_file \<Rightarrow> u32 io" where
  "compute_crc32 crc path f =
     (let skip = rom_header_skip path
      in case file_read f 0 (length (fi_bytes f)) of
           Panic \<Rightarrow> Panic
         | Fail e \<Rightarrow> Fail e
         | Done bytes \<Rightarrow> if length bytes < skip then Fail UnexpectedEof else Done (crc (drop skip bytes)))"

definition rc_hash_nes :: "md5 \<Rightarrow> u8 list \<Rightarrow> rstr" where
  "rc_hash_nes md5 buf =
     (if 16 < length buf \<and> (take 4 buf = bytes_lit ''NES'' @ [26] \<or> take 4 buf = bytes_lit ''FDS'' @ [26])
      then md5_hex md5 (drop 16 buf) else md5_hex md5 buf)"

definition rc_hash_snes :: "md5 \<Rightarrow> u8 list \<Rightarrow> rstr" where
  "rc_hash_snes md5 buf =
     (let aligned = length buf div 8192 * 8192
      in if length buf - aligned = 512 then md5_hex md5 (drop 512 buf) else md5_hex md5 buf)"

text \<open>The swaps work on whole chunks; what is left at the end stays.\<close>

fun byteswap16 :: "u8 list \<Rightarrow> u8 list" where
  "byteswap16 (a # b # bs) = b # a # byteswap16 bs"
| "byteswap16 bs = bs"

fun byteswap32 :: "u8 list \<Rightarrow> u8 list" where
  "byteswap32 (a # b # c # d # bs) = d # c # b # a # byteswap32 bs"
| "byteswap32 bs = bs"

definition rc_hash_n64 :: "md5 \<Rightarrow> u8 list \<Rightarrow> rstr option" where
  "rc_hash_n64 md5 buf =
     (case buf of
        [] \<Rightarrow> None
      | b # _ \<Rightarrow>
          if b = 128 \<or> b = 232 \<or> b = 34 then Some (md5_hex md5 buf)
          else if b = 55 then Some (md5_hex md5 (byteswap16 buf))
          else if b = 64 then Some (md5_hex md5 (byteswap32 buf))
          else None)"

definition rc_hash_from_buffer :: "md5 \<Rightarrow> rstr \<Rightarrow> u8 list \<Rightarrow> rstr option" where
  "rc_hash_from_buffer md5 name buf =
     (case find_system name of
        None \<Rightarrow> None
      | Some s \<Rightarrow>
          (case sy_rc_kind s of
             Some Nes \<Rightarrow> Some (rc_hash_nes md5 buf)
           | Some Snes \<Rightarrow> Some (rc_hash_snes md5 buf)
           | Some N64 \<Rightarrow> rc_hash_n64 md5 buf
           | Some VirtualBoy \<Rightarrow> Some (md5_hex md5 buf)
           | _ \<Rightarrow> None))"

definition compute_crc32_and_rc_hash :: "crc32 \<Rightarrow> md5 \<Rightarrow> rstr \<Rightarrow> rstr \<Rightarrow> disk_file \<Rightarrow> (u32 \<times> rstr option) io" where
  "compute_crc32_and_rc_hash crc md5 name path f =
     (case file_read f 0 MAX_BUFFER_SIZE of
        Panic \<Rightarrow> Panic
      | Fail e \<Rightarrow> Fail e
      | Done buf \<Rightarrow>
          let skip = min (rom_header_skip path) (length buf)
          in Done (crc (drop skip buf), rc_hash_from_buffer md5 name buf))"

section \<open>Stored hashes\<close>

record hash_result =
  hr_rom_filename :: rstr
  hr_crc32 :: u32
  hr_mtime_secs :: int
  hr_size_bytes :: nat
  hr_matched_name :: "rstr option"
  hr_ra_id :: "rstr option"
  hr_rc_hash :: "rstr option"

record stored_hash =
  st_crc32 :: u32
  st_hash_mtime :: int
  st_hash_size_bytes :: "nat option"
  st_matched_name :: "rstr option"
  st_rc_hash :: "rstr option"
  st_ra_id :: "rstr option"

definition reusable_stored_hash :: "rstr \<Rightarrow> stored_hash \<Rightarrow> int \<Rightarrow> nat \<Rightarrow> hash_result option" where
  "reusable_stored_hash rom_filename st current_mtime current_size =
     (let reusable = (case st_hash_size_bytes st of
                        Some stored_size \<Rightarrow> stored_size = current_size
                      | None \<Rightarrow> st_hash_mtime st = current_mtime)
      in if reusable
         then Some \<lparr>hr_rom_filename = rom_filename, hr_crc32 = st_crc32 st, hr_mtime_secs = current_mtime,
                    hr_size_bytes = current_size, hr_matched_name = st_matched_name st,
                    hr_ra_id = (case st_rc_hash st of Some _ \<Rightarrow> st_ra_id st | None \<Rightarrow> None),
                    hr_rc_hash = st_rc_hash st\<rparr>
         else None)"

datatype reuse_kind = Exact | Migrated | SizeOnly

definition reuse_of :: "stored_hash \<Rightarrow> int \<Rightarrow> nat \<Rightarrow> reuse_kind option" where
  "reuse_of st current_mtime size_bytes =
     (case st_hash_size_bytes st of
        Some stored_size \<Rightarrow>
          if st_hash_mtime st = current_mtime \<and> stored_size = size_bytes then Some Exact
          else if stored_size = size_bytes then Some SizeOnly
          else None
      | None \<Rightarrow> if st_hash_mtime st = current_mtime then Some Migrated else None)"

record hash_stats =
  sa_reused_exact :: nat
  sa_reused_migrated :: nat
  sa_reused_size_only :: nat
  sa_computed :: nat
  sa_forced_computed :: nat
  sa_skipped :: nat

definition no_stats :: hash_stats where
  "no_stats = \<lparr>sa_reused_exact = 0, sa_reused_migrated = 0, sa_reused_size_only = 0, sa_computed = 0,
               sa_forced_computed = 0, sa_skipped = 0\<rparr>"

fun count_reuse :: "reuse_kind \<Rightarrow> hash_stats \<Rightarrow> hash_stats" where
  "count_reuse Exact st = st\<lparr>sa_reused_exact := sa_reused_exact st + 1\<rparr>"
| "count_reuse Migrated st = st\<lparr>sa_reused_migrated := sa_reused_migrated st + 1\<rparr>"
| "count_reuse SizeOnly st = st\<lparr>sa_reused_size_only := sa_reused_size_only st + 1\<rparr>"

definition count_skipped :: "hash_stats \<Rightarrow> hash_stats" where
  "count_skipped st = st\<lparr>sa_skipped := sa_skipped st + 1\<rparr>"

definition count_computed :: "bool \<Rightarrow> hash_stats \<Rightarrow> hash_stats" where
  "count_computed force st =
     (if force then st\<lparr>sa_forced_computed := sa_forced_computed st + 1\<rparr> else st\<lparr>sa_computed := sa_computed st + 1\<rparr>)"

section \<open>The batch\<close>

datatype pending = Stored hash_result | NeedsLookup rstr u32 int nat "rstr option"

type_synonym files = "rstr \<Rightarrow> (int \<times> disk_file) option"

record hash_env =
  he_files :: files
  he_crc :: crc32
  he_md5 :: md5
  he_storage_root :: rstr
  he_cancelled :: "nat \<Rightarrow> bool"

text \<open>One file: what it adds to the pending results, and the counters. Hashing a file never panics.\<close>

lemma compute_no_panic: "compute_crc32 crc path f \<noteq> Panic" "compute_crc32_and_rc_hash crc md5 name path f \<noteq> Panic"
  by (auto simp: compute_crc32_def compute_crc32_and_rc_hash_def file_read_def Let_def)

definition hash_one ::
  "hash_env \<Rightarrow> rstr \<Rightarrow> (rstr \<rightharpoonup> stored_hash) \<Rightarrow> bool \<Rightarrow> rstr \<times> rstr \<times> nat \<Rightarrow> hash_stats \<Rightarrow> pending option \<times> hash_stats" where
  "hash_one env name stored force = (\<lambda>(rom_filename, rom_path, size_bytes) stats.
     if \<not> is_file_hash_eligible name rom_filename then (None, count_skipped stats)
     else
       let abs_path = join_relative (he_storage_root env) rom_path
       in case he_files env abs_path of
            None \<Rightarrow> (None, count_skipped stats)
          | Some (current_mtime, f) \<Rightarrow>
              (case (if force then None
                     else case stored rom_filename of
                            None \<Rightarrow> None
                          | Some st \<Rightarrow>
                              (case reuse_of st current_mtime size_bytes of
                                 None \<Rightarrow> None
                               | Some kind \<Rightarrow> map_option (Pair kind) (reusable_stored_hash rom_filename st current_mtime size_bytes))) of
                 Some (kind, r) \<Rightarrow> (Some (Stored r), count_reuse kind stats)
               | None \<Rightarrow>
                   (case (if needs_rc_hash name then compute_crc32_and_rc_hash (he_crc env) (he_md5 env) name abs_path f
                          else map_io (\<lambda>crc. (crc, None)) (compute_crc32 (he_crc env) abs_path f)) of
                      Done (crc, rc_hash) \<Rightarrow>
                        (Some (NeedsLookup rom_filename crc current_mtime size_bytes rc_hash), count_computed force stats)
                    | _ \<Rightarrow> (None, count_skipped stats))))"

text \<open>The loop, with the number of files done; \<open>he_cancelled\<close> is what the flag says before each file.\<close>

fun hash_loop ::
  "hash_env \<Rightarrow> rstr \<Rightarrow> (rstr \<rightharpoonup> stored_hash) \<Rightarrow> bool \<Rightarrow> nat \<Rightarrow> (rstr \<times> rstr \<times> nat) list \<Rightarrow> pending list \<Rightarrow> hash_stats \<Rightarrow>
     pending list \<times> hash_stats" where
  "hash_loop env name stored force i [] acc stats = (acc, stats)"
| "hash_loop env name stored force i (file # rest) acc stats =
     (if he_cancelled env i then (acc, stats)
      else case hash_one env name stored force file stats of
             (p, stats) \<Rightarrow>
               hash_loop env name stored force (i + 1) rest (acc @ (case p of Some p \<Rightarrow> [p] | None \<Rightarrow> [])) stats)"

text \<open>The catalog: names by CRC, and identifiers by hash, which may fail.\<close>

record catalog =
  ca_names :: "u32 list \<Rightarrow> u32 \<rightharpoonup> rstr"
  ca_ra_ids :: "rstr list \<Rightarrow> (rstr \<rightharpoonup> rstr) option"

fun fresh_crc :: "pending \<Rightarrow> u32 option" where
  "fresh_crc (NeedsLookup _ crc _ _ _) = Some crc"
| "fresh_crc (Stored _) = None"

fun to_result :: "(u32 \<rightharpoonup> rstr) \<Rightarrow> pending \<Rightarrow> hash_result" where
  "to_result matches (Stored r) = r"
| "to_result matches (NeedsLookup rom_filename crc mtime size_bytes rc_hash) =
     \<lparr>hr_rom_filename = rom_filename, hr_crc32 = crc, hr_mtime_secs = mtime, hr_size_bytes = size_bytes,
      hr_matched_name = matches crc, hr_ra_id = None, hr_rc_hash = rc_hash\<rparr>"

definition resolve_ra_ids :: "catalog \<Rightarrow> hash_result list \<Rightarrow> hash_result list" where
  "resolve_ra_ids cat results =
     (let rc_hashes = List.map_filter hr_rc_hash results
      in if rc_hashes = [] then results
         else case ca_ra_ids cat rc_hashes of
                None \<Rightarrow> results
              | Some ra_matches \<Rightarrow>
                  map (\<lambda>r. case hr_rc_hash r of Some h \<Rightarrow> r\<lparr>hr_ra_id := ra_matches h\<rparr> | None \<Rightarrow> r) results)"

definition hash_and_identify ::
  "hash_env \<Rightarrow> catalog \<Rightarrow> rstr \<Rightarrow> (rstr \<times> rstr \<times> nat) list \<Rightarrow> (rstr \<rightharpoonup> stored_hash) \<Rightarrow> bool \<Rightarrow> hash_result list \<times> hash_stats" where
  "hash_and_identify env cat name rom_files stored force =
     (if \<not> is_hash_eligible name then ([], no_stats)
      else case hash_loop env name stored force 0 rom_files [] no_stats of
             (pending, stats) \<Rightarrow>
               let fresh = List.map_filter fresh_crc pending;
                   matches = (if fresh = [] then Map.empty else ca_names cat fresh)
               in (resolve_ra_ids cat (map (to_result matches) pending), stats))"

section \<open>Byte orders\<close>

lemma byteswap16_twice: "byteswap16 (byteswap16 bs) = bs"
  by (induction bs rule: byteswap16.induct) simp_all

lemma byteswap32_twice: "byteswap32 (byteswap32 bs) = bs"
  by (induction bs rule: byteswap32.induct) simp_all

lemma n64_orders:
  assumes "bs = 128 # 55 # 18 # 64 # rest"
  shows "rc_hash_n64 md5 bs = Some (md5_hex md5 bs)"
    and "rc_hash_n64 md5 (byteswap16 bs) = Some (md5_hex md5 bs)"
    and "rc_hash_n64 md5 (byteswap32 bs) = Some (md5_hex md5 bs)"
proof -
  show "rc_hash_n64 md5 bs = Some (md5_hex md5 bs)" by (simp add: rc_hash_n64_def assms)
  have "byteswap16 bs = 55 # 128 # 64 # 18 # byteswap16 rest" by (simp add: assms)
  then show "rc_hash_n64 md5 (byteswap16 bs) = Some (md5_hex md5 bs)"
    using byteswap16_twice [of bs] by (simp add: rc_hash_n64_def)
  have "byteswap32 bs = 64 # 18 # 55 # 128 # byteswap32 rest" by (simp add: assms)
  then show "rc_hash_n64 md5 (byteswap32 bs) = Some (md5_hex md5 bs)"
    using byteswap32_twice [of bs] by (simp add: rc_hash_n64_def)
qed

section \<open>Accounting\<close>

definition done_files :: "hash_stats \<Rightarrow> nat" where
  "done_files st =
     sa_reused_exact st + sa_reused_migrated st + sa_reused_size_only st + sa_computed st + sa_forced_computed st"

definition reused_files :: "hash_stats \<Rightarrow> nat" where
  "reused_files st = sa_reused_exact st + sa_reused_migrated st + sa_reused_size_only st"

lemmas stats_simps = done_files_def reused_files_def no_stats_def count_skipped_def count_computed_def

lemma count_reuse_stats [simp]:
  "done_files (count_reuse k st) = done_files st + 1" "sa_skipped (count_reuse k st) = sa_skipped st"
  "sa_computed (count_reuse k st) = sa_computed st"
  by (cases k; simp add: done_files_def)+

lemma count_other_stats [simp]:
  "done_files (count_skipped st) = done_files st" "sa_skipped (count_skipped st) = sa_skipped st + 1"
  "done_files (count_computed b st) = done_files st + 1" "sa_skipped (count_computed b st) = sa_skipped st"
  by (simp_all add: done_files_def count_skipped_def count_computed_def)

fun pending_name :: "pending \<Rightarrow> rstr" where
  "pending_name (Stored r) = hr_rom_filename r"
| "pending_name (NeedsLookup name _ _ _ _) = name"

text \<open>One file is counted once: as skipped without a result, or as done with one.\<close>

lemma hash_one_counts:
  assumes "hash_one env name stored force file stats = (p, stats')"
  shows "case p of
      None \<Rightarrow> done_files stats' = done_files stats \<and> sa_skipped stats' = sa_skipped stats + 1
    | Some r \<Rightarrow> done_files stats' = done_files stats + 1 \<and> sa_skipped stats' = sa_skipped stats \<and> pending_name r = fst file"
  using assms
  by (auto simp: hash_one_def Let_def reusable_stored_hash_def
      split: prod.splits if_splits option.splits io.splits)

lemma hash_one_force:
  "hash_one env name stored True file stats = (p, stats') \<Longrightarrow>
     reused_files stats' = reused_files stats \<and> sa_computed stats' = sa_computed stats"
  by (auto simp: hash_one_def Let_def stats_simps split: prod.splits if_splits option.splits io.splits)

lemma hash_loop_counts:
  assumes "hash_loop env name stored force i fs acc stats = (acc', stats')" and "\<And>j. \<not> he_cancelled env j"
  shows "\<exists>new. acc' = acc @ new \<and> subseq (map pending_name new) (map fst fs) \<and>
    done_files stats' = done_files stats + length new \<and> sa_skipped stats' + length new = sa_skipped stats + length fs"
  using assms(1)
proof (induction fs arbitrary: i acc stats)
  case (Cons entry fs)
  obtain p stats1 where one: "hash_one env name stored force entry stats = (p, stats1)" by fastforce
  let ?p = "case p of Some p \<Rightarrow> [p] | None \<Rightarrow> []"
  from Cons.prems one assms(2) have "hash_loop env name stored force (i + 1) fs (acc @ ?p) stats1 = (acc', stats')"
    by simp
  from Cons.IH [OF this] obtain new where new: "acc' = (acc @ ?p) @ new" "subseq (map pending_name new) (map fst fs)"
    "done_files stats' = done_files stats1 + length new" "sa_skipped stats' + length new = sa_skipped stats1 + length fs"
    by blast
  show ?case
    using hash_one_counts [OF one] new by (intro exI [of _ "?p @ new"]) (auto split: option.splits)
qed simp

lemma hash_loop_force:
  "hash_loop env name stored True i fs acc stats = (acc', stats') \<Longrightarrow>
     reused_files stats' = reused_files stats \<and> sa_computed stats' = sa_computed stats"
  by (induction fs arbitrary: i acc stats) (fastforce split: if_splits prod.splits dest: hash_one_force)+

lemma length_resolve_ra_ids [simp]: "length (resolve_ra_ids cat rs) = length rs"
  by (simp add: resolve_ra_ids_def Let_def split: option.split)

lemma names_resolve_ra_ids [simp]: "map hr_rom_filename (resolve_ra_ids cat rs) = map hr_rom_filename rs"
  by (auto simp: resolve_ra_ids_def Let_def split: option.splits)

lemma name_to_result [simp]: "hr_rom_filename (to_result m p) = pending_name p"
  by (cases p) simp_all

lemma names_to_result: "map hr_rom_filename (map (to_result m) ps) = map pending_name ps"
  by simp

lemma resolve_ra_ids_lookup:
  assumes "r \<in> set (resolve_ra_ids cat rs)" and "hr_rc_hash r = Some h"
  shows "case ca_ra_ids cat (List.map_filter hr_rc_hash rs) of
      Some ra_matches \<Rightarrow> hr_ra_id r = ra_matches h
    | None \<Rightarrow> r \<in> set rs"
proof -
  have "hr_rc_hash q = Some h \<Longrightarrow> q \<in> set rs \<Longrightarrow> List.map_filter hr_rc_hash rs \<noteq> []" for q
    by (auto simp: List.map_filter_def filter_empty_conv)
  with assms show ?thesis
    by (auto simp: resolve_ra_ids_def Let_def split: option.splits if_splits)
qed

section \<open>Properties\<close>

text \<open>
  C30: the RetroAchievements hash of a cartridge dump does not depend on how it was dumped: a
  Nintendo 64 image in any of its three byte orders, an NES image with or without its 16-byte
  header and an SNES image with or without a 512-byte copier header have the same hash.
\<close>

theorem cart_hash_ignores_dump_format:
  assumes n64: "take 4 z64 = [128, 55, 18, 64]"
    and nes: "length header = 16" "take 4 header = bytes_lit ''NES'' @ [26]" "rom \<noteq> []"
      "take 4 rom \<noteq> bytes_lit ''NES'' @ [26]" "take 4 rom \<noteq> bytes_lit ''FDS'' @ [26]"
    and snes: "length smc = 512" "8192 dvd length sfc"
  shows "rc_hash_n64 md5 z64 = Some (md5_hex md5 z64) \<and> rc_hash_n64 md5 (byteswap16 z64) = rc_hash_n64 md5 z64 \<and>
    rc_hash_n64 md5 (byteswap32 z64) = rc_hash_n64 md5 z64 \<and>
    rc_hash_nes md5 (header @ rom) = rc_hash_nes md5 rom \<and> rc_hash_snes md5 (smc @ sfc) = rc_hash_snes md5 sfc"
proof -
  obtain rest where z64: "z64 = 128 # 55 # 18 # 64 # rest"
    using n64 append_take_drop_id [of 4 z64] by (metis append_Cons append_Nil)
  have "rc_hash_nes md5 (header @ rom) = rc_hash_nes md5 rom"
    using nes by (simp add: rc_hash_nes_def)
  moreover have "rc_hash_snes md5 (smc @ sfc) = rc_hash_snes md5 sfc"
  proof -
    obtain k where "length sfc = 8192 * k" using snes(2) by blast
    then show ?thesis using snes(1) by (simp add: rc_hash_snes_def Let_def)
  qed
  ultimately show ?thesis using n64_orders [OF z64] by simp
qed

theorem cart_hash_ignores_dump_format_witness:
  "rc_hash_n64 (take 16) [55, 128, 64, 18] = rc_hash_n64 (take 16) [128, 55, 18, 64] \<and>
   rc_hash_nes (take 16) ((bytes_lit ''NES'' @ [26] @ replicate 12 0) @ [9]) = rc_hash_nes (take 16) [9] \<and>
   rc_hash_snes (take 16) (replicate 512 0 @ []) = rc_hash_snes (take 16) []"
  using cart_hash_ignores_dump_format [of "[128, 55, 18, 64]" "bytes_lit ''NES'' @ [26] @ replicate 12 0" "[9]" "replicate 512 0" "[]" "take 16"]
  by (simp add: bytes_lit_def)

text \<open>
  C31: a batch that is not cancelled accounts for every file once: it is skipped without a result
  or has exactly one, the results come in the order of the files, and with a forced rehash
  nothing is reused.
\<close>

theorem hash_batch_accounts:
  assumes "hash_and_identify env cat name fs stored force = (results, stats)"
    and "is_hash_eligible name" and "\<And>j. \<not> he_cancelled env j"
  shows "length results + sa_skipped stats = length fs \<and> done_files stats = length results \<and>
    subseq (map hr_rom_filename results) (map fst fs) \<and>
    (force \<longrightarrow> reused_files stats = 0 \<and> sa_forced_computed stats = length results)"
proof -
  obtain ps where loop: "hash_loop env name stored force 0 fs [] no_stats = (ps, stats)"
    using assms(1,2) by (auto simp: hash_and_identify_def Let_def split: prod.splits)
  define m where "m = (if List.map_filter fresh_crc ps = [] then Map.empty else ca_names cat (List.map_filter fresh_crc ps))"
  have results: "results = resolve_ra_ids cat (map (to_result m) ps)"
    using assms(1,2) loop by (simp add: hash_and_identify_def Let_def m_def)
  from hash_loop_counts [OF loop assms(3)] have counts: "subseq (map pending_name ps) (map fst fs)"
    "done_files stats = length ps" "sa_skipped stats + length ps = length fs"
    by (auto simp: stats_simps)
  have forced: "reused_files stats = 0 \<and> sa_computed stats = 0" if "force"
    using hash_loop_force [of env name stored 0 fs "[]" no_stats ps stats] loop that by (simp add: stats_simps)
  have "length results = length ps" by (simp add: results)
  moreover have "map hr_rom_filename results = map pending_name ps" by (simp add: results)
  moreover have "force \<longrightarrow> sa_forced_computed stats = length ps"
    using forced counts(2) by (auto simp: stats_simps)
  ultimately show ?thesis using counts forced by auto
qed

text \<open>A small library: a headerless NES dump of one byte, a file that is not there and a text file.\<close>

definition demo_env :: hash_env where
  "demo_env = \<lparr>he_files = (\<lambda>p. if p = lit ''/roms/a.nes'' then Some (7, \<lparr>fi_bytes = [9], fi_fault = (\<lambda>_. False)\<rparr>) else None),
     he_crc = (\<lambda>_. 5), he_md5 = (\<lambda>_. []), he_storage_root = lit ''/'', he_cancelled = (\<lambda>_. False)\<rparr>"

theorem hash_batch_accounts_witness:
  "\<exists>results stats.
     hash_and_identify demo_env \<lparr>ca_names = (\<lambda>_. Map.empty), ca_ra_ids = (\<lambda>_. None)\<rparr> (lit ''nintendo_nes'')
       [(lit ''a.nes'', lit ''roms/a.nes'', 1), (lit ''b.nes'', lit ''roms/b.nes'', 1), (lit ''c.txt'', [], 0)] Map.empty True = (results, stats) \<and>
     length results + sa_skipped stats = 3"
proof -
  let ?fs = "[(lit ''a.nes'', lit ''roms/a.nes'', 1), (lit ''b.nes'', lit ''roms/b.nes'', 1), (lit ''c.txt'', [], 0)]"
  obtain results stats where run:
    "hash_and_identify demo_env \<lparr>ca_names = (\<lambda>_. Map.empty), ca_ra_ids = (\<lambda>_. None)\<rparr> (lit ''nintendo_nes'') ?fs Map.empty True = (results, stats)"
    by fastforce
  have "is_hash_eligible (lit ''nintendo_nes'')" by code_simp
  from hash_batch_accounts [OF run this] have "length results + sa_skipped stats = 3" by (simp add: demo_env_def)
  with run show ?thesis by blast
qed

end
