(* ===== verification/Disc_Files.thy ===== *)
theory Disc_Files
  imports Rom_Hash Chd_Reader
begin

text \<open>
  The files of a disc image and the formats that describe its tracks (\<open>rc_hash_disc.rs\<close>): GDI and
  CUE sheets, the descriptor of a CDI image, and playlists.

  \<open>disc_files\<close> is the file system: regular files, opening, directory listings (the names that are
  UTF-8), modification time and size; and what the crates \<open>chd\<close>, \<open>flate2\<close> and \<open>nod\<close> make of a file.
\<close>

record disc_files =
  df_is_file :: "rstr \<Rightarrow> bool"
  df_open :: "rstr \<Rightarrow> io_kind + disk_file"
  df_read_dir :: "rstr \<Rightarrow> rstr list option"
  df_metadata :: "rstr \<Rightarrow> (int \<times> nat) option"
  df_chd :: "rstr \<Rightarrow> io_kind + chd"
  df_gunzip :: "rstr \<Rightarrow> io_kind + gzip"
  df_nod :: "bool \<Rightarrow> rstr \<Rightarrow> io_kind + disk_file"

section \<open>Results without a reader\<close>

fun opened :: "io_kind + 'a \<Rightarrow> 'a io" where
  "opened (Inl e) = Fail e"
| "opened (Inr f) = Done f"

definition after :: "'a io \<Rightarrow> ('a \<Rightarrow> 'b io) \<Rightarrow> 'b io" where
  "after r f = (case r of Panic \<Rightarrow> Panic | Fail e \<Rightarrow> Fail e | Done x \<Rightarrow> f x)"

text \<open>\<open>checked_add\<close> and \<open>checked_mul\<close> on \<open>u64\<close>, with the error of the call, and \<open>checked_sub\<close>.\<close>

definition checked :: "nat \<Rightarrow> nat io" where
  "checked n = (if n < 2 ^ 64 then Done n else Fail InvalidData)"

definition checked_sub :: "nat \<Rightarrow> nat \<Rightarrow> nat io" where
  "checked_sub a b = (if b \<le> a then Done (a - b) else Fail InvalidData)"

definition saturating :: "nat \<Rightarrow> nat" where
  "saturating n = min n (2 ^ 64 - 1)"

definition or_invalid :: "'a option \<Rightarrow> 'a io" where
  "or_invalid x = (case x of None \<Rightarrow> Fail InvalidData | Some y \<Rightarrow> Done y)"

lemma after_cong [fundef_cong]: "r = r' \<Longrightarrow> (\<And>x. r' = Done x \<Longrightarrow> f x = f' x) \<Longrightarrow> after r f = after r' f'"
  by (auto simp: after_def split: io.splits)

lemma after_Panic_iff: "after r f = Panic \<longleftrightarrow> r = Panic \<or> (\<exists>x. r = Done x \<and> f x = Panic)"
  by (cases r) (auto simp: after_def)

lemma after_Done_iff: "after r f = Done y \<longleftrightarrow> (\<exists>x. r = Done x \<and> f x = Done y)"
  by (cases r) (auto simp: after_def)

lemma no_panic [simp]:
  "opened x \<noteq> Panic" "checked n \<noteq> Panic" "checked_sub a b \<noteq> Panic" "or_invalid y \<noteq> Panic"
  by (cases x; simp) (simp_all add: checked_def checked_sub_def or_invalid_def split: option.split)

lemma map_io_Panic_iff [simp]: "map_io g r = Panic \<longleftrightarrow> r = Panic"
  by (cases r) simp_all

lemma map_io_Done_iff [simp]: "map_io g r = Done y \<longleftrightarrow> (\<exists>x. r = Done x \<and> y = g x)"
  by (cases r) auto

text \<open>\<open>std::fs::read_to_string\<close>.\<close>

definition text_of :: "disc_files \<Rightarrow> rstr \<Rightarrow> rstr io" where
  "text_of env path =
     after (opened (df_open env path)) (\<lambda>f.
     after (file_read f 0 (length (fi_bytes f))) (\<lambda>bytes.
     or_invalid (from_utf8 bytes)))"

definition parent_dir :: "rstr \<Rightarrow> rstr" where
  "parent_dir path = (case path_parent path of Some dir \<Rightarrow> dir | None \<Rightarrow> lit ''.'')"

definition find_file_case_insensitive :: "disc_files \<Rightarrow> rstr \<Rightarrow> rstr \<Rightarrow> rstr option" where
  "find_file_case_insensitive env dir name =
     (case df_read_dir env dir of
        None \<Rightarrow> None
      | Some names \<Rightarrow> map_option (path_join dir) (find_first (eq_ignore_case name) names))"

section \<open>GDI\<close>

record gdi_track =
  gt_num :: nat
  gt_start_lba :: u32
  gt_is_data :: bool
  gt_sector_size :: nat
  gt_file :: rstr

definition number_or :: "nat \<Rightarrow> nat \<Rightarrow> rstr \<Rightarrow> nat" where
  "number_or w d s = (case parse_uint w s of Some n \<Rightarrow> n | None \<Rightarrow> d)"

definition gdi_line :: "rstr \<Rightarrow> rstr \<Rightarrow> gdi_track option" where
  "gdi_line parent line =
     (let toks = split_whitespace line
      in if length toks < 6 then None
         else
           let fname = (if 34 \<in> set line then (case split_on 34 line of _ # name # _ \<Rightarrow> name | _ \<Rightarrow> [])
                        else join [32] (drop 4 (butlast toks)))
           in Some \<lparr>gt_num = number_or 32 0 (toks ! 0), gt_start_lba = of_nat (number_or 32 0 (toks ! 1)),
                    gt_is_data = number_or 32 0 (toks ! 2) = 4, gt_sector_size = number_or 64 2352 (toks ! 3),
                    gt_file = path_join parent fname\<rparr>)"

definition parse_gdi :: "disc_files \<Rightarrow> rstr \<Rightarrow> gdi_track list io" where
  "parse_gdi env path =
     after (text_of env path) (\<lambda>text.
       let tracks = List.map_filter (gdi_line (parent_dir path)) (drop 1 (str_lines text))
       in if tracks = [] then Fail InvalidData else Done tracks)"

section \<open>CUE\<close>

record cue_frame_layout =
  cl_physical_size :: nat
  cl_payload_offset :: nat
  cl_payload_size :: nat

definition layout_from_track_kind :: "rstr \<Rightarrow> cue_frame_layout option" where
  "layout_from_track_kind kind =
     (if eq_ignore_case kind (lit ''AUDIO'') then Some \<lparr>cl_physical_size = 2352, cl_payload_offset = 0, cl_payload_size = 2352\<rparr>
      else case split_once 47 kind of
             None \<Rightarrow> None
           | Some (mode, len) \<Rightarrow>
               (case parse_uint 64 len of
                  None \<Rightarrow> None
                | Some physical \<Rightarrow>
                    let mode = to_ascii_uppercase mode;
                        payload = (if mode = lit ''MODE1'' \<and> physical = 2048 then Some (0, 2048)
                                   else if mode = lit ''MODE1'' \<and> physical = 2352 then Some (16, 2048)
                                   else if mode = lit ''MODE2'' \<and> physical = 2336 then Some (8, 2048)
                                   else if mode = lit ''MODE2'' \<and> physical = 2352 then Some (24, 2048)
                                   else None)
                    in map_option (\<lambda>(offset, len).
                         \<lparr>cl_physical_size = physical, cl_payload_offset = offset, cl_payload_size = len\<rparr>) payload))"

record cue_track =
  ct_file_name :: rstr
  ct_layout :: cue_frame_layout
  ct_session :: nat
  ct_number :: nat
  ct_first_index :: "nat option"
  ct_file_offset :: nat

definition cue_command :: "rstr \<Rightarrow> rstr \<Rightarrow> rstr option" where
  "cue_command line command =
     (case byte_split (utf8_len command) line of
        None \<Rightarrow> None
      | Some (pre, rest) \<Rightarrow>
          if \<not> eq_ignore_case pre command then None
          else if rest = [] \<or> is_whitespace (hd rest) then Some (trim_start_matches is_whitespace rest)
          else None)"

definition cue_file_name :: "rstr \<Rightarrow> rstr option" where
  "cue_file_name rest =
     (case strip_prefix [34] (trim rest) of
        Some quoted \<Rightarrow> map_option fst (split_once 34 quoted)
      | None \<Rightarrow> (case split_whitespace (trim rest) of name # _ \<Rightarrow> Some name | [] \<Rightarrow> None))"

text \<open>Minutes, seconds and frames as frames, in wrapping \<open>u64\<close> arithmetic.\<close>

definition cue_msf_frames :: "rstr \<Rightarrow> nat option" where
  "cue_msf_frames v =
     (case split_on 58 v of
        [m, s, f] \<Rightarrow>
          (case (parse_uint 64 m, parse_uint 64 s, parse_uint 64 f) of
             (Some minutes, Some seconds, Some frames) \<Rightarrow>
               if seconds < 60 \<and> frames < 75 then Some (((minutes * 60 + seconds) * 75 + frames) mod 2 ^ 64) else None
           | _ \<Rightarrow> None)
      | _ \<Rightarrow> None)"

text \<open>The local variables of the loop over the lines.\<close>

record cue_state =
  cq_file :: "rstr option"
  cq_session :: nat
  cq_previous :: "cue_track option"
  cq_current :: "cue_track option"

definition cue_start :: cue_state where
  "cue_start = \<lparr>cq_file = None, cq_session = 1, cq_previous = None, cq_current = None\<rparr>"

definition first_word :: "rstr \<Rightarrow> rstr option" where
  "first_word s = (case split_whitespace s of w # _ \<Rightarrow> Some w | [] \<Rightarrow> None)"

definition cue_rem :: "rstr \<Rightarrow> cue_state \<Rightarrow> cue_state io" where
  "cue_rem rest st =
     (case cue_command rest (lit ''SESSION'') of
        None \<Rightarrow> Done st
      | Some v \<Rightarrow> after (or_invalid (Option.bind (first_word v) (parse_uint 32))) (\<lambda>n. Done (st\<lparr>cq_session := n\<rparr>)))"

definition cue_file :: "rstr \<Rightarrow> cue_state \<Rightarrow> cue_state" where
  "cue_file rest st = st\<lparr>cq_current := None, cq_previous := None, cq_file := cue_file_name rest\<rparr>"

definition cue_track_line :: "(cue_track \<Rightarrow> bool) \<Rightarrow> rstr \<Rightarrow> cue_state \<Rightarrow> cue_state io" where
  "cue_track_line selected rest st =
     (if (case cq_current st of Some t \<Rightarrow> selected t | None \<Rightarrow> False) then Fail InvalidData
      else
        let fields = split_whitespace rest in
        after (or_invalid (Option.bind (first_word rest) (parse_uint 32))) (\<lambda>number.
        after (or_invalid (cq_file st)) (\<lambda>name.
        after (or_invalid (layout_from_track_kind (case fields of _ # kind # _ \<Rightarrow> kind | _ \<Rightarrow> []))) (\<lambda>layout.
          Done (st\<lparr>cq_previous := cq_current st,
                   cq_current := Some \<lparr>ct_file_name = name, ct_layout = layout, ct_session = cq_session st,
                                       ct_number = number, ct_first_index = None, ct_file_offset = 0\<rparr>\<rparr>)))))"

text \<open>
  Where the current track begins in its file, after an index line: from its own first index when
  nothing precedes it in the file, else from the end of the previous track.
\<close>

definition cue_offset :: "cue_track option \<Rightarrow> cue_track \<Rightarrow> nat \<Rightarrow> nat \<Rightarrow> nat io" where
  "cue_offset previous track frames first =
     after (case previous of
              None \<Rightarrow> checked (first * cl_physical_size (ct_layout track))
            | Some _ \<Rightarrow> Done (ct_file_offset track)) (\<lambda>offset.
       case previous of
         None \<Rightarrow> Done offset
       | Some p \<Rightarrow>
           if first = frames \<and> ct_file_name p = ct_file_name track
           then after (or_invalid (ct_first_index p)) (\<lambda>previous_first.
                after (checked_sub frames previous_first) (\<lambda>previous_frames.
                after (checked (previous_frames * cl_physical_size (ct_layout p))) (\<lambda>bytes.
                checked (ct_file_offset p + bytes))))
           else Done offset)"

record cue_location =
  co_path :: rstr
  co_layout :: cue_frame_layout
  co_data_offset :: nat

definition cue_index :: "disc_files \<Rightarrow> rstr \<Rightarrow> (cue_track \<Rightarrow> bool) \<Rightarrow> rstr \<Rightarrow> cue_state \<Rightarrow> (cue_state + cue_location) io" where
  "cue_index env parent selected rest st =
     (case cq_current st of
        None \<Rightarrow> Done (Inl st)
      | Some track \<Rightarrow>
          let fields = split_whitespace rest;
              index = (case fields of i # _ \<Rightarrow> parse_uint 8 i | [] \<Rightarrow> None) in
          after (or_invalid (case fields of _ # f # _ \<Rightarrow> cue_msf_frames f | _ \<Rightarrow> None)) (\<lambda>frames.
            let first = (case ct_first_index track of Some n \<Rightarrow> n | None \<Rightarrow> frames) in
            after (cue_offset (cq_previous st) track frames first) (\<lambda>offset.
              let track = track\<lparr>ct_first_index := Some first, ct_file_offset := offset\<rparr> in
              if index \<noteq> Some 1 \<or> \<not> selected track then Done (Inl (st\<lparr>cq_current := Some track\<rparr>))
              else after (checked_sub frames first) (\<lambda>pregap.
                   after (checked (pregap * cl_physical_size (ct_layout track))) (\<lambda>bytes.
                   after (checked (offset + bytes)) (\<lambda>data_offset.
                     Done (Inr \<lparr>co_path = (case find_file_case_insensitive env parent (ct_file_name track) of
                                            Some path \<Rightarrow> path
                                          | None \<Rightarrow> path_join parent (ct_file_name track)),
                                co_layout = ct_layout track, co_data_offset = data_offset\<rparr>)))))))"

definition cue_line :: "disc_files \<Rightarrow> rstr \<Rightarrow> (cue_track \<Rightarrow> bool) \<Rightarrow> cue_state \<Rightarrow> rstr \<Rightarrow> (cue_state + cue_location) io" where
  "cue_line env parent selected st line =
     (case cue_command line (lit ''REM'') of
        Some rest \<Rightarrow> map_io Inl (cue_rem rest st)
      | None \<Rightarrow>
     (case cue_command line (lit ''FILE'') of
        Some rest \<Rightarrow> Done (Inl (cue_file rest st))
      | None \<Rightarrow>
     (case cue_command line (lit ''TRACK'') of
        Some rest \<Rightarrow> map_io Inl (cue_track_line selected rest st)
      | None \<Rightarrow>
     (case cue_command line (lit ''INDEX'') of
        Some rest \<Rightarrow> cue_index env parent selected rest st
      | None \<Rightarrow> Done (Inl st)))))"

fun cue_scan :: "disc_files \<Rightarrow> rstr \<Rightarrow> (cue_track \<Rightarrow> bool) \<Rightarrow> cue_state \<Rightarrow> rstr list \<Rightarrow> cue_location io" where
  "cue_scan env parent selected st [] = Fail NotFound"
| "cue_scan env parent selected st (line # rest) =
     (case cue_line env parent selected st (trim line) of
        Panic \<Rightarrow> Panic
      | Fail e \<Rightarrow> Fail e
      | Done (Inr location) \<Rightarrow> Done location
      | Done (Inl st) \<Rightarrow> cue_scan env parent selected st rest)"

definition cue_selected_track :: "disc_files \<Rightarrow> rstr \<Rightarrow> (cue_track \<Rightarrow> bool) \<Rightarrow> cue_location io" where
  "cue_selected_track env cue selected =
     after (text_of env cue) (\<lambda>text. cue_scan env (parent_dir cue) selected cue_start (str_lines text))"

definition cue_first_track_of_second_session :: "disc_files \<Rightarrow> rstr \<Rightarrow> cue_location io" where
  "cue_first_track_of_second_session env cue = cue_selected_track env cue (\<lambda>t. ct_session t = 2)"

definition cue_track_two :: "disc_files \<Rightarrow> rstr \<Rightarrow> cue_location io" where
  "cue_track_two env cue = cue_selected_track env cue (\<lambda>t. ct_number t = 2)"

text \<open>The first file of a CUE sheet, for readers that take the whole file.\<close>

fun first_bin :: "disc_files \<Rightarrow> rstr \<Rightarrow> rstr list \<Rightarrow> rstr io" where
  "first_bin env parent [] = Fail NotFound"
| "first_bin env parent (line # rest) =
     (case strip_prefix (lit ''FILE '') (trim line) of
        None \<Rightarrow> first_bin env parent rest
      | Some name \<Rightarrow>
          let name = takeWhile (\<lambda>c. c \<noteq> 34) (trim_start_matches (\<lambda>c. c = 34) (trim name));
              candidate = path_join parent name
          in if df_is_file env candidate then Done candidate
             else case find_file_case_insensitive env parent name of
                    Some found \<Rightarrow> Done found
                  | None \<Rightarrow> Done candidate)"

definition first_bin_from_cue :: "disc_files \<Rightarrow> rstr \<Rightarrow> rstr io" where
  "first_bin_from_cue env cue = after (text_of env cue) (\<lambda>text. first_bin env (parent_dir cue) (str_lines text))"

end
