(* ===== verification/Jaguar_Cd.thy ===== *)
theory Jaguar_Cd
  imports Disc_Files
begin

text \<open>
  Atari Jaguar CD (\<open>rc_hash_disc.rs\<close>): readers of whole CD frames, the boot executable and its
  identity, and the tracks of a CDI image.
\<close>

section \<open>Frames\<close>

text \<open>\<open>RawFrameReader\<close>: a frame of 2352 bytes, or nothing past the end.\<close>

type_synonym 's frame_reader = "u32 \<Rightarrow> ('s, u8 list option) act"

definition chd_frames :: "chd_reader \<Rightarrow> hunk_cache frame_reader" where
  "chd_frames r frame = frame_raw r (cr_frame_base r + frame)"

text \<open>A file whose sectors carry a part of the frames' bytes each.\<close>

record raw_frames =
  rf_file :: disk_file
  rf_physical_frame_size :: nat
  rf_payload_offset :: nat
  rf_payload_size :: nat
  rf_base_offset :: nat

text \<open>The layout is checked before the file is opened.\<close>

definition open_layout :: "io_kind + disk_file \<Rightarrow> nat \<Rightarrow> nat \<Rightarrow> nat \<Rightarrow> nat \<Rightarrow> raw_frames io" where
  "open_layout src_file physical payload_offset payload base =
     (if payload = 0 \<or> physical < saturating (payload_offset + payload) then Fail InvalidData
      else map_io (\<lambda>f. \<lparr>rf_file = f, rf_physical_frame_size = physical, rf_payload_offset = payload_offset,
                        rf_payload_size = payload, rf_base_offset = base\<rparr>) (opened src_file))"

definition open_at :: "io_kind + disk_file \<Rightarrow> nat \<Rightarrow> nat \<Rightarrow> raw_frames io" where
  "open_at src_file frame_size base = open_layout src_file frame_size 0 frame_size base"

definition frame_position :: "raw_frames \<Rightarrow> nat \<Rightarrow> nat io" where
  "frame_position r logical =
     after (checked (rf_base_offset r + saturating (logical div rf_payload_size r * rf_physical_frame_size r)))
       (\<lambda>offset. checked (offset + (rf_payload_offset r + logical mod rf_payload_size r)))"

text \<open>The loop of \<open>read_frame\<close>; the first division by a payload size of zero panics.\<close>

function frame_bytes :: "raw_frames \<Rightarrow> nat \<Rightarrow> nat \<Rightarrow> u8 list \<Rightarrow> u8 list option io" where
  "frame_bytes r need logical got =
     (if need = 0 then Done (Some got)
      else if rf_payload_size r = 0 then Panic
      else
        let want = min (rf_payload_size r - logical mod rf_payload_size r) need in
        after (frame_position r logical) (\<lambda>position.
        after (file_read (rf_file r) position want) (\<lambda>bs.
          if length bs < want then Done None
          else frame_bytes r (need - want) (logical + want) (got @ bs))))"
  by pat_completeness auto
termination
  by (relation "measure (\<lambda>(r, need, logical, got). need)") (auto simp: Let_def)

declare frame_bytes.simps [simp del]

definition raw_read_frame :: "raw_frames \<Rightarrow> unit frame_reader" where
  "raw_read_frame r frame = lift_io (frame_bytes r CD_FRAME_SIZE (unat frame * CD_FRAME_SIZE) [])"

section \<open>The boot executable\<close>

definition swap_frame :: "u8 list \<Rightarrow> u8 list" where
  "swap_frame = byteswap16"

function executable :: "'s frame_reader \<Rightarrow> nat \<Rightarrow> u32 \<Rightarrow> nat \<Rightarrow> bool \<Rightarrow> u8 list \<Rightarrow> ('s, u8 list option) act" where
  "executable rd remaining frame offset swapped out =
     (if remaining = 0 then ret (Some out)
      else if CD_FRAME_SIZE < offset then panic
      else then_do (rd frame) (\<lambda>raw.
             case raw of
               None \<Rightarrow> ret None
             | Some bytes \<Rightarrow>
                 let bytes = (if swapped then swap_frame bytes else bytes);
                     count = min remaining (CD_FRAME_SIZE - offset)
                 in executable rd (remaining - count) (frame + 1) 0 swapped (out @ take count (drop offset bytes))))"
  by pat_completeness auto
termination
  by (relation "measure (\<lambda>(rd, remaining, frame, offset, swapped, out). 2 * remaining + (if offset = 0 then 0 else 1))")
    (auto simp: Let_def)

declare executable.simps [simp del]

definition jaguar_cd_executable :: "md5 \<Rightarrow> 's frame_reader \<Rightarrow> nat \<Rightarrow> nat \<Rightarrow> bool \<Rightarrow> ('s, rstr option) act" where
  "jaguar_cd_executable md5 rd start_offset len swapped =
     then_do (executable rd (min len MAX_BUFFER_SIZE) 0 start_offset swapped []) (\<lambda>body.
       ret (map_option (md5_hex md5) body))"

text \<open>A big-endian length whose bytes may be swapped in pairs.\<close>

definition boot_length :: "bool \<Rightarrow> u8 list \<Rightarrow> nat \<Rightarrow> nat" where
  "boot_length swapped bytes i =
     unat (be32 (if swapped then [bytes ! (i + 1), bytes ! i, bytes ! (i + 3), bytes ! (i + 2)] else take 4 (drop i bytes)) 0)"

datatype jaguar_cd_boot_hash = Game rstr | HomebrewLoader

definition HOMEBREW_BOOT_HASH :: rstr where
  "HOMEBREW_BOOT_HASH = lit ''254487b59ab21bc005338e85cbf9fd2f''"

definition boot_hash :: "md5 \<Rightarrow> 's frame_reader \<Rightarrow> ('s, jaguar_cd_boot_hash option) act" where
  "boot_hash md5 rd =
     then_do (rd 0) (\<lambda>raw.
       case raw of
         None \<Rightarrow> ret None
       | Some first \<Rightarrow>
           (case jaguar_cd_boot_header first of
              None \<Rightarrow> ret None
            | Some (header_offset, swapped) \<Rightarrow>
                let size_offset = header_offset + 36;
                    len = boot_length swapped first size_offset
                in if len = 0 then ret None
                   else then_do (jaguar_cd_executable md5 rd (size_offset + 4) len swapped) (\<lambda>boot.
                     ret (if boot = Some HOMEBREW_BOOT_HASH then Some HomebrewLoader else map_option Game boot))))"

definition jaguar_cd_homebrew_hash :: "md5 \<Rightarrow> 's frame_reader \<Rightarrow> ('s, rstr option) act" where
  "jaguar_cd_homebrew_hash md5 rd =
     then_do (rd 0) (\<lambda>raw.
       case raw of
         None \<Rightarrow> ret None
       | Some first \<Rightarrow>
           let tag = take 8 (drop 94 first);
               kart = (\<lambda>swapped. jaguar_cd_executable md5 rd 170 (boot_length swapped first 166) swapped)
           in if tag = bytes_lit ''RT!IRTKA'' then kart True
              else if tag = bytes_lit ''TRI!TRAK'' then kart False
              else ret None)"

text \<open>The second track is opened only for the shared loader.\<close>

definition jaguar_cd_hash :: "md5 \<Rightarrow> 's frame_reader \<Rightarrow> 's \<Rightarrow> (unit \<Rightarrow> ('t frame_reader \<times> 't) option io option) \<Rightarrow> rstr option io option" where
  "jaguar_cd_hash md5 boot_track s open_track_two =
     (case boot_hash md5 boot_track s of
        Panic \<Rightarrow> Some Panic
      | Fail e \<Rightarrow> Some (Fail e)
      | Done (None, _) \<Rightarrow> Some (Done None)
      | Done (Some (Game h), _) \<Rightarrow> Some (Done (Some h))
      | Done (Some HomebrewLoader, _) \<Rightarrow>
          (case open_track_two () of
             None \<Rightarrow> None
           | Some Panic \<Rightarrow> Some Panic
           | Some (Fail e) \<Rightarrow> Some (Fail e)
           | Some (Done None) \<Rightarrow> Some (Done None)
           | Some (Done (Some (track_two, t))) \<Rightarrow> Some (result (jaguar_cd_homebrew_hash md5 track_two t))))"

section \<open>CDI\<close>

definition CDI_V2_ID :: u32 where "CDI_V2_ID = 0x80000004"
definition CDI_V3_ID :: u32 where "CDI_V3_ID = 0x80000005"
definition CDI_V35_ID :: u32 where "CDI_V35_ID = 0x80000006"

definition CDI_TRACK_MARKER :: "u8 list" where
  "CDI_TRACK_MARKER = [0, 0, 1, 0, 0, 0, 255, 255, 255, 255, 0, 0, 1, 0, 0, 0, 255, 255, 255, 255]"

text \<open>Reading at a cursor, which is the state.\<close>

definition take_bytes :: "disk_file \<Rightarrow> nat \<Rightarrow> (nat, u8 list) act" where
  "take_bytes f n position = (case file_read_exact f position n of Panic \<Rightarrow> Panic | Fail e \<Rightarrow> Fail e | Done bs \<Rightarrow> Done (bs, position + n))"

definition skip_bytes :: "nat \<Rightarrow> (nat, unit) act" where
  "skip_bytes n position = Done ((), position + n)"

definition read_le_u16 :: "disk_file \<Rightarrow> (nat, nat) act" where
  "read_le_u16 f = then_do (take_bytes f 2) (\<lambda>bs. ret (le16 bs 0))"

definition read_le_u32 :: "disk_file \<Rightarrow> (nat, u32) act" where
  "read_le_u32 f = then_do (take_bytes f 4) (\<lambda>bs. ret (le32 bs 0))"

definition cdi_sector_size :: "u32 \<Rightarrow> u32 \<Rightarrow> nat" where
  "cdi_sector_size mode code =
     (if mode = 0 \<and> code = 2 then 2352
      else if (mode = 1 \<or> mode = 2) \<and> code = 0 then 2048
      else if mode = 2 \<and> code = 1 then 2336
      else 2352)"

text \<open>The local variables of the loops over sessions and tracks.\<close>

record cdi_state =
  cd_byte_offset :: nat
  cd_fallback :: "(nat \<times> nat) option"
  cd_boot_track :: "(nat \<times> nat) option"
  cd_track_two :: "(nat \<times> nat) option"
  cd_track_number :: nat

definition cdi_start :: cdi_state where
  "cdi_start = \<lparr>cd_byte_offset = 0, cd_fallback = None, cd_boot_track = None, cd_track_two = None, cd_track_number = 0\<rparr>"

text \<open>The fields of one track's descriptor: pregap, length, total length and sector size.\<close>

definition cdi_track_data :: "disk_file \<Rightarrow> u32 \<Rightarrow> (nat, nat \<times> nat \<times> nat \<times> nat) act" where
  "cdi_track_data f version =
     then_do (read_le_u32 f) (\<lambda>new_format.
     then_do (skip_bytes (if new_format \<noteq> 0 then 8 else 0)) (\<lambda>_.
     then_do (take_bytes f 20) (\<lambda>marker.
     if marker \<noteq> CDI_TRACK_MARKER then throw InvalidData
     else
     then_do (skip_bytes 4) (\<lambda>_.
     then_do (take_bytes f 1) (\<lambda>filename_length.
     then_do (skip_bytes (byte_at filename_length 0 + 19)) (\<lambda>_.
     then_do (read_le_u32 f) (\<lambda>index_format.
     then_do (skip_bytes (if index_format = 0x80000000 then 10 else 2)) (\<lambda>_.
     then_do (take_bytes f 87) (\<lambda>track_data.
     then_do (if version = CDI_V2_ID then ret ()
              else then_do (skip_bytes 5) (\<lambda>_. then_do (read_le_u32 f) (\<lambda>extra.
                     skip_bytes (if extra = - 1 then 78 else 0)))) (\<lambda>_.
     ret (unat (le32 track_data 0), unat (le32 track_data 4), unat (le32 track_data 34),
          cdi_sector_size (le32 track_data 14) (le32 track_data 54))))))))))))"

definition cdi_add_track :: "nat \<Rightarrow> nat \<times> nat \<times> nat \<times> nat \<Rightarrow> cdi_state \<Rightarrow> cdi_state io" where
  "cdi_add_track session = (\<lambda>(pregap, len, total, sector_size) st.
     after (checked (cd_byte_offset st + saturating (pregap * sector_size))) (\<lambda>data_offset.
       let location = Some (data_offset, sector_size);
           number = cd_track_number st + 1;
           frames = (if total \<noteq> 0 then total else saturating (pregap + len))
       in after (checked (cd_byte_offset st + saturating (frames * sector_size))) (\<lambda>byte_offset.
            Done \<lparr>cd_byte_offset = byte_offset,
                  cd_fallback = (if cd_fallback st = None then location else cd_fallback st),
                  cd_boot_track = (if session = 1 \<and> cd_boot_track st = None then location else cd_boot_track st),
                  cd_track_two = (if number = 2 then location else cd_track_two st),
                  cd_track_number = number\<rparr>)))"

primrec cdi_tracks :: "nat \<Rightarrow> disk_file \<Rightarrow> u32 \<Rightarrow> nat \<Rightarrow> cdi_state \<Rightarrow> (nat, cdi_state) act" where
  "cdi_tracks 0 f version session st = ret st"
| "cdi_tracks (Suc n) f version session st =
     then_do (cdi_track_data f version) (\<lambda>data.
     then_do (lift_io (cdi_add_track session data st)) (\<lambda>st.
     cdi_tracks n f version session st))"

text \<open>\<open>n\<close> sessions are left of \<open>count\<close>.\<close>

primrec cdi_sessions :: "nat \<Rightarrow> nat \<Rightarrow> disk_file \<Rightarrow> u32 \<Rightarrow> cdi_state \<Rightarrow> (nat, cdi_state) act" where
  "cdi_sessions 0 count f version st = ret st"
| "cdi_sessions (Suc n) count f version st =
     then_do (read_le_u16 f) (\<lambda>track_count.
     then_do (cdi_tracks track_count f version (count - Suc n) st) (\<lambda>st.
     then_do (skip_bytes (if version = CDI_V2_ID then 12 else 13)) (\<lambda>_.
     cdi_sessions n count f version st)))"

text \<open>
  The boot header nearest to where the descriptor places the track, within 64 KiB: the first of
  the nearest ones in the order of the file.
\<close>

definition nearer :: "nat \<Rightarrow> nat option \<Rightarrow> nat \<Rightarrow> nat option" where
  "nearer declared best content =
     (let distance = (\<lambda>n. if n \<le> declared then declared - n else n - declared)
      in case best of
           None \<Rightarrow> Some content
         | Some b \<Rightarrow> if distance content < distance b then Some content else best)"

definition header_starts :: "nat \<Rightarrow> u8 list \<Rightarrow> nat list" where
  "header_starts start bytes =
     map (\<lambda>i. start + i - 66)
       (filter (\<lambda>i. 66 \<le> start + i \<and> (take 32 (drop i bytes) = HEADER \<or> take 32 (drop i bytes) = SWAPPED_HEADER))
         [0 ..< length bytes - 31])"

definition cdi_corrected_boot_offset :: "disk_file \<Rightarrow> nat \<Rightarrow> io_kind + nat" where
  "cdi_corrected_boot_offset f declared =
     (let start = declared - 65536;
          finish = min (saturating (declared + 65536)) (length (fi_bytes f))
      in case file_read_exact f start (finish - start) of
           Done bytes \<Rightarrow>
             Inr (case foldl (nearer declared) None (header_starts start bytes) of Some content \<Rightarrow> content | None \<Rightarrow> declared)
         | Fail e \<Rightarrow> Inl e
         | Panic \<Rightarrow> Inl OtherError)"

definition cdi_header_position :: "disk_file \<Rightarrow> (u32 \<times> nat) io" where
  "cdi_header_position f =
     (let file_size = length (fi_bytes f) in
      if file_size < 8 then Fail InvalidData
      else after (file_read_exact f (file_size - 8) 8) (\<lambda>trailer.
        let version = le32 trailer 0; header_offset = unat (le32 trailer 4) in
        if \<not> (version = CDI_V2_ID \<or> version = CDI_V3_ID \<or> version = CDI_V35_ID) then Fail InvalidData
        else after (if version = CDI_V35_ID then checked_sub file_size header_offset else Done header_offset) (\<lambda>position.
          if position < file_size - 8 then Done (version, position) else Fail InvalidData)))"

definition cdi_jaguar_tracks :: "disk_file \<Rightarrow> ((nat \<times> nat) \<times> (nat \<times> nat) option) io" where
  "cdi_jaguar_tracks f =
     after (cdi_header_position f) (\<lambda>(version, position).
     after (then_do (read_le_u16 f) (\<lambda>session_count. cdi_sessions session_count session_count f version cdi_start) position)
       (\<lambda>(st, _).
     after (or_invalid (case cd_boot_track st of Some t \<Rightarrow> Some t | None \<Rightarrow> cd_fallback st)) (\<lambda>(declared, sector_size).
     after (opened (cdi_corrected_boot_offset f declared)) (\<lambda>corrected.
       Done ((corrected, sector_size),
             Option.bind (cd_track_two st) (\<lambda>(offset, len).
               let adjusted = (if declared \<le> corrected
                               then (if offset + (corrected - declared) < 2 ^ 64 then Some (offset + (corrected - declared)) else None)
                               else (if declared - corrected \<le> offset then Some (offset - (declared - corrected)) else None))
               in case adjusted of
                    Some n \<Rightarrow> if n < length (fi_bytes f) then Some (n, len) else None
                  | None \<Rightarrow> None))))))"

end
