(* ===== verification/Nintendo_Discs.thy ===== *)
theory Nintendo_Discs
  imports Disc_Files
begin

text \<open>
  GameCube and Wii identities (\<open>rc_hash_disc/gamecube.rs\<close>, \<open>rc_hash_disc/wii.rs\<close>): the bytes that
  are hashed, read by absolute offsets from the logical disc. The crate \<open>nod\<close> gives the logical disc of a
  compressed image. All offsets stay far below the end of \<open>u64\<close>, so they are natural numbers.
\<close>

section \<open>Reading\<close>

definition read_u32 :: "disk_file \<Rightarrow> nat \<Rightarrow> nat io" where
  "read_u32 f offset = after (file_read_exact f offset 4) (\<lambda>bs. Done (unat (be32 bs 0)))"

abbreviation CLUSTER_DATA_SIZE :: nat where
  "CLUSTER_DATA_SIZE \<equiv> 31744"

abbreviation MAX_CLUSTER_COUNT :: nat where
  "MAX_CLUSTER_COUNT \<equiv> 1024"

abbreviation MAX_PARTITION_COUNT :: nat where
  "MAX_PARTITION_COUNT \<equiv> 128"

text \<open>A run of bytes, read in chunks and appended to what is hashed.\<close>

function read_chunks :: "disk_file \<Rightarrow> nat \<Rightarrow> nat \<Rightarrow> nat \<Rightarrow> u8 list \<Rightarrow> u8 list io" where
  "read_chunks f chunk offset len out =
     (if len = 0 \<or> chunk = 0 then Done out
      else after (file_read_exact f offset (min len chunk)) (\<lambda>bs.
             read_chunks f chunk (offset + min len chunk) (len - min len chunk) (out @ bs)))"
  by pat_completeness auto
termination
  by (relation "measure (\<lambda>(f, chunk, offset, len, out). len)") auto

declare read_chunks.simps [simp del]

definition append_range :: "disk_file \<Rightarrow> u8 list \<Rightarrow> nat \<Rightarrow> nat \<Rightarrow> u8 list io" where
  "append_range f digest offset len = read_chunks f CLUSTER_DATA_SIZE offset len digest"

text \<open>A loop that stops at the first error.\<close>

fun each_io :: "('s \<Rightarrow> 'a \<Rightarrow> 's io) \<Rightarrow> 's \<Rightarrow> 'a list \<Rightarrow> 's io" where
  "each_io f s [] = Done s"
| "each_io f s (x # xs) = after (f s x) (\<lambda>s. each_io f s xs)"

section \<open>GameCube\<close>

definition append_segment :: "disk_file \<Rightarrow> nat \<Rightarrow> nat \<Rightarrow> u8 list \<Rightarrow> u8 list \<Rightarrow> nat \<Rightarrow> u8 list io" where
  "append_segment f base shift segments digest i =
     read_chunks f 1048576 (base + unat (be32 segments (i * 4)) * 2 ^ shift)
       (unat (be32 segments (144 + i * 4)) * 2 ^ shift) digest"

definition append_partition :: "disk_file \<Rightarrow> u8 list \<Rightarrow> nat \<Rightarrow> nat \<Rightarrow> u8 list io" where
  "append_partition f digest base shift =
     after (file_read_exact f (base + 9300) 8) (\<lambda>sizes.
     after (file_read_exact f base (min (9312 + unat (be32 sizes 0) + unat (be32 sizes 4)) 1048576)) (\<lambda>apploader.
     after (file_read_exact f (base + unat (be32 apploader 1056) * 2 ^ shift) 216) (\<lambda>segments.
       each_io (append_segment f base shift segments) (digest @ apploader) [0 ..< 18])))"

definition gamecube_hash :: "md5 \<Rightarrow> disk_file \<Rightarrow> rstr option io" where
  "gamecube_hash md5 f =
     after (file_read_exact f 28 4) (\<lambda>magic.
       if magic \<noteq> [194, 51, 159, 61] then Done None
       else after (append_partition f [] 0 0) (\<lambda>digest. Done (Some (md5_hex md5 digest))))"

definition gamecube_hash_path :: "disc_files \<Rightarrow> md5 \<Rightarrow> rstr \<Rightarrow> rstr option io" where
  "gamecube_hash_path env md5 path =
     (let ext = lower_extension path in
      if one_of ext [''iso'', ''gcm''] then after (opened (df_open env path)) (gamecube_hash md5)
      else if one_of ext [''rvz'', ''wia'', ''gcz'', ''ciso''] then after (opened (df_nod env False path)) (gamecube_hash md5)
      else Done None)"

section \<open>Wii discs\<close>

text \<open>The partitions of one of the four tables, \<open>None\<close> when there are too many.\<close>

fun table_entries :: "disk_file \<Rightarrow> nat \<Rightarrow> nat list \<Rightarrow> (nat \<times> nat) list io" where
  "table_entries f table_offset [] = Done []"
| "table_entries f table_offset (i # is) =
     after (read_u32 f (table_offset + i * 8)) (\<lambda>offset.
     after (read_u32 f (table_offset + i * 8 + 4)) (\<lambda>kind.
     after (table_entries f table_offset is) (\<lambda>rest. Done ((offset * 4, kind) # rest))))"

fun partition_tables :: "disk_file \<Rightarrow> nat list \<Rightarrow> (nat \<times> nat) list \<Rightarrow> (nat \<times> nat) list option io" where
  "partition_tables f [] partitions = Done (Some partitions)"
| "partition_tables f (table # tables) partitions =
     after (read_u32 f (262144 + table * 8)) (\<lambda>count.
       if MAX_PARTITION_COUNT < count \<or> MAX_PARTITION_COUNT < length partitions + count then Done None
       else after (read_u32 f (262148 + table * 8)) (\<lambda>offset.
            after (table_entries f (offset * 4) [0 ..< count]) (\<lambda>new.
            partition_tables f tables (partitions @ new))))"

definition append_cluster :: "disk_file \<Rightarrow> nat \<Rightarrow> u8 list \<Rightarrow> nat \<Rightarrow> u8 list io" where
  "append_cluster f data_offset digest cluster = append_range f digest (data_offset + cluster * 32768 + 1024) CLUSTER_DATA_SIZE"

definition append_wii_partition :: "disk_file \<Rightarrow> u8 \<Rightarrow> u8 list \<Rightarrow> nat \<times> nat \<Rightarrow> u8 list io" where
  "append_wii_partition f encryption_flag digest = (\<lambda>(base, kind).
     if kind = 1 then Done digest
     else
       after (read_u32 f (base + 676)) (\<lambda>tmd_size.
       after (read_u32 f (base + 680)) (\<lambda>tmd_offset.
       after (append_range f digest (base + tmd_offset * 4) (min tmd_size CLUSTER_DATA_SIZE)) (\<lambda>digest.
       after (read_u32 f (base + 696)) (\<lambda>data_offset.
       after (read_u32 f (base + 700)) (\<lambda>data_size.
       if encryption_flag = 0
       then each_io (append_cluster f (data_offset * 4)) digest [0 ..< min (data_size * 4 div 32768) MAX_CLUSTER_COUNT]
       else append_partition f digest (data_offset * 4) 2))))))"

definition append_disc :: "disk_file \<Rightarrow> u8 list \<Rightarrow> u8 list option io" where
  "append_disc f digest =
     after (file_read_exact f 97 1) (\<lambda>encryption_flag.
     after (append_range f digest 0 128) (\<lambda>digest.
     after (append_range f digest 319488 4) (\<lambda>digest.
     after (partition_tables f [0 ..< 4] []) (\<lambda>partitions.
       case partitions of
         None \<Rightarrow> Done None
       | Some ps \<Rightarrow>
           if ps = [] then Done None
           else map_io Some (each_io (append_wii_partition f (encryption_flag ! 0)) digest ps)))))"

section \<open>WAD files\<close>

definition aligned :: "nat \<Rightarrow> nat \<Rightarrow> nat" where
  "aligned v boundary = (v + boundary - 1) div boundary * boundary"

text \<open>One content: the digest and where the next one begins.\<close>

definition append_content :: "disk_file \<Rightarrow> nat \<Rightarrow> u8 list \<times> nat \<Rightarrow> nat \<Rightarrow> (u8 list \<times> nat) io" where
  "append_content f tmd_start = (\<lambda>(digest, content_offset) i.
     let size_offset = tmd_start + 484 + 8 + i * 36 in
     after (read_u32 f size_offset) (\<lambda>high.
     after (if high = 0 then after (read_u32 f (size_offset + 4)) (\<lambda>n. Done (aligned n 16)) else Done MAX_BUFFER_SIZE) (\<lambda>content_size.
     after (append_range f digest content_offset (min content_size MAX_BUFFER_SIZE)) (\<lambda>digest.
       Done (digest, aligned (content_offset + content_size) 64)))))"

definition append_wad :: "disk_file \<Rightarrow> u8 list \<Rightarrow> u8 list io" where
  "append_wad f digest =
     after (read_u32 f 8) (\<lambda>cert.
     after (read_u32 f 16) (\<lambda>ticket.
     after (read_u32 f 20) (\<lambda>tmd.
       let tmd_size = min (aligned tmd 64) MAX_BUFFER_SIZE;
           tmd_start = 64 + aligned cert 64 + aligned ticket 64 in
       after (append_range f digest tmd_start tmd_size) (\<lambda>digest.
       after (file_read_exact f (tmd_start + 478) 2) (\<lambda>count.
         map_io fst (each_io (append_content f tmd_start) (digest, tmd_start + tmd_size)
           [0 ..< 256 * byte_at count 0 + byte_at count 1]))))))"

definition wii_hash :: "md5 \<Rightarrow> disk_file \<Rightarrow> rstr option io" where
  "wii_hash md5 f =
     after (file_read_exact f 24 4) (\<lambda>magic.
       if magic = [93, 28, 158, 163]
       then map_io (map_option (md5_hex md5)) (append_disc f [])
       else after (file_read_exact f 4 4) (\<lambda>magic.
              if magic \<noteq> [73, 115, 0, 0] then Done None
              else map_io (\<lambda>digest. Some (md5_hex md5 digest)) (append_wad f [])))"

definition wii_hash_path :: "disc_files \<Rightarrow> md5 \<Rightarrow> rstr \<Rightarrow> rstr option io" where
  "wii_hash_path env md5 path =
     (let ext = lower_extension path in
      if one_of ext [''iso'', ''wad''] then after (opened (df_open env path)) (wii_hash md5)
      else if one_of ext [''wbfs'', ''rvz'', ''wia'', ''gcz'', ''ciso''] then after (opened (df_nod env True path)) (wii_hash md5)
      else Done None)"

section \<open>No panics\<close>

lemma read_chunks_no_panic [simp]: "read_chunks f chunk offset len out \<noteq> Panic"
proof (induction f chunk offset len out rule: read_chunks.induct)
  case (1 f chunk offset len out)
  show ?case
    by (subst read_chunks.simps) (use 1 in \<open>auto simp: after_Panic_iff\<close>)
qed

lemma read_chunks_prefix:
  "read_chunks f chunk offset len out = Done out' \<Longrightarrow> chunk \<noteq> 0 \<Longrightarrow> \<exists>bs. out' = out @ bs \<and> length bs = len"
proof (induction f chunk offset len out arbitrary: out' rule: read_chunks.induct)
  case (1 f chunk offset len out)
  show ?case
  proof (cases "len = 0")
    case True
    with 1(2) show ?thesis by (simp add: read_chunks.simps)
  next
    case False
    with 1(2,3) obtain bs where bs: "file_read_exact f offset (min len chunk) = Done bs"
      "read_chunks f chunk (offset + min len chunk) (len - min len chunk) (out @ bs) = Done out'"
      by (subst (asm) read_chunks.simps) (auto simp: after_Done_iff)
    from 1(1) [OF _ bs(1) bs(2) 1(3)] False 1(3) obtain cs where "out' = (out @ bs) @ cs" "length cs = len - min len chunk" by blast
    moreover have "length bs = min len chunk" using bs(1) by (rule file_read_exact_length)
    ultimately show ?thesis by (intro exI [of _ "bs @ cs"]) simp
  qed
qed

lemma each_io_no_panic: "(\<And>s x. f s x \<noteq> Panic) \<Longrightarrow> each_io f s xs \<noteq> Panic"
  by (induction xs arbitrary: s) (auto simp: after_Panic_iff)

lemma read_u32_no_panic [simp]: "read_u32 f offset \<noteq> Panic"
  by (auto simp: read_u32_def after_Panic_iff)

lemma append_partition_no_panic [simp]: "append_partition f digest base shift \<noteq> Panic"
  by (auto simp: append_partition_def append_segment_def after_Panic_iff each_io_no_panic)

lemma gamecube_hash_no_panic [simp]: "gamecube_hash md5 f \<noteq> Panic"
  by (auto simp: gamecube_hash_def after_Panic_iff)

lemma table_entries_no_panic [simp]: "table_entries f offset is \<noteq> Panic"
  by (induction "is") (auto simp: after_Panic_iff)

lemma partition_tables_no_panic [simp]: "partition_tables f tables ps \<noteq> Panic"
  by (induction tables arbitrary: ps) (auto simp: after_Panic_iff)

lemma append_range_no_panic [simp]: "append_range f digest offset len \<noteq> Panic"
  by (simp add: append_range_def)

lemma append_wii_partition_no_panic [simp]: "append_wii_partition f flag digest p \<noteq> Panic"
  by (cases p) (auto simp: append_wii_partition_def append_cluster_def after_Panic_iff each_io_no_panic)

lemma append_disc_no_panic [simp]: "append_disc f digest \<noteq> Panic"
  by (auto simp: append_disc_def after_Panic_iff each_io_no_panic split: option.split)

lemma append_wad_no_panic [simp]: "append_wad f digest \<noteq> Panic"
  by (auto simp: append_wad_def append_content_def Let_def after_Panic_iff each_io_no_panic split: prod.splits)

lemma wii_hash_no_panic [simp]: "wii_hash md5 f \<noteq> Panic"
  by (auto simp: wii_hash_def after_Panic_iff)

lemma nintendo_hash_path_no_panic [simp]: "gamecube_hash_path env md5 path \<noteq> Panic" "wii_hash_path env md5 path \<noteq> Panic"
  by (auto simp: gamecube_hash_path_def wii_hash_path_def Let_def after_Panic_iff)

end
