(* ===== verification/Disc_Batch.thy ===== *)
theory Disc_Batch
  imports Disc_Identity Jaguar_Cd Nintendo_Discs
begin

text \<open>
  From a path to an identity (\<open>rc_hash_disc.rs\<close>, \<open>rc_hash_disc/ps2.rs\<close>): the choice of a reader and
  a recipe by system and extension, playlists, and the batch over the discs of a system. A hash
  that does not end is \<open>None\<close>, as in the recipes.
\<close>

section \<open>Readers\<close>

text \<open>The readers behind \<open>Box<dyn SectorReader>\<close>, each with its initial state.\<close>

datatype disc_reader =
    RawDisc raw_bin
  | ChdDisc chd_reader hunk_cache
  | CsoDisc cso cso_cache
  | GzipDisc gzip
  | CueDisc cue_reader

fun run_recipe :: "rc_hash_kind \<Rightarrow> md5 \<Rightarrow> codecs \<Rightarrow> disc_reader \<Rightarrow> rstr option io option" where
  "run_recipe kind md5 cd (RawDisc r) = map_option result (sector_recipe kind md5 (raw_bin_reader r) ())"
| "run_recipe kind md5 cd (ChdDisc r s) = map_option result (sector_recipe kind md5 (chd_sector_reader r) s)"
| "run_recipe kind md5 cd (CsoDisc c s) = map_option result (sector_recipe kind md5 (cso_reader cd c) s)"
| "run_recipe kind md5 cd (GzipDisc g) = map_option result (sector_recipe kind md5 (gzip_reader g) 0)"
| "run_recipe kind md5 cd (CueDisc r) = map_option result (sector_recipe kind md5 (cue_sector_reader r) ())"

fun run_ps2 :: "md5 \<Rightarrow> codecs \<Rightarrow> disc_reader \<Rightarrow> rstr option io" where
  "run_ps2 md5 cd (RawDisc r) = result (ps2_hash md5 (raw_bin_reader r) ())"
| "run_ps2 md5 cd (ChdDisc r s) = result (ps2_hash md5 (chd_sector_reader r) s)"
| "run_ps2 md5 cd (CsoDisc c s) = result (ps2_hash md5 (cso_reader cd c) s)"
| "run_ps2 md5 cd (GzipDisc g) = result (ps2_hash md5 (gzip_reader g) 0)"
| "run_ps2 md5 cd (CueDisc r) = result (ps2_hash md5 (cue_sector_reader r) ())"

text \<open>A step that may not end after one that may not end.\<close>

definition next_step :: "'a io option \<Rightarrow> ('a \<Rightarrow> 'b io option) \<Rightarrow> 'b io option" where
  "next_step r f =
     (case r of
        None \<Rightarrow> None
      | Some Panic \<Rightarrow> Some Panic
      | Some (Fail e) \<Rightarrow> Some (Fail e)
      | Some (Done x) \<Rightarrow> f x)"

definition open_chd :: "disc_files \<Rightarrow> rstr \<Rightarrow> track_selection \<Rightarrow> (chd_reader \<times> hunk_cache) io option" where
  "open_chd env path selection = next_step (Some (opened (df_chd env path))) (\<lambda>c. chd_open c selection)"

definition open_raw :: "disc_files \<Rightarrow> rstr \<Rightarrow> raw_bin io" where
  "open_raw env path = after (opened (df_open env path)) raw_bin_open"

definition open_reader :: "disc_files \<Rightarrow> rstr \<Rightarrow> disc_reader option io option" where
  "open_reader env path =
     (let ext = lower_extension path in
      if ext = lit ''chd'' then next_step (open_chd env path FirstData) (\<lambda>(r, s). Some (Done (Some (ChdDisc r s))))
      else if ext = lit ''cue'' then
        Some (after (first_bin_from_cue env path) (\<lambda>bin.
          if \<not> df_is_file env bin then Done None
          else map_io (\<lambda>r. Some (RawDisc r)) (open_raw env bin)))
      else if one_of ext [''bin'', ''iso'', ''img''] then Some (map_io (\<lambda>r. Some (RawDisc r)) (open_raw env path))
      else Some (Done None))"

section \<open>Recipes with readers of their own\<close>

text \<open>Dreamcast: the third track first, then the first data track.\<close>

definition gdi_candidates :: "gdi_track list \<Rightarrow> gdi_track list" where
  "gdi_candidates tracks =
     (let third = (case find_first (\<lambda>t. gt_num t = 3 \<and> gt_is_data t) tracks of Some t \<Rightarrow> [t] | None \<Rightarrow> [])
      in third @ (case find_first gt_is_data tracks of
                    Some t \<Rightarrow> if list_ex (\<lambda>c. gt_num c = gt_num t) third then [] else [t]
                  | None \<Rightarrow> []))"

fun dreamcast_tracks :: "disc_files \<Rightarrow> md5 \<Rightarrow> gdi_track list \<Rightarrow> rstr option io" where
  "dreamcast_tracks env md5 [] = Done None"
| "dreamcast_tracks env md5 (t # ts) =
     after (opened (df_open env (gt_file t))) (\<lambda>f.
     after (gdi_open f (gt_sector_size t) (gt_start_lba t)) (\<lambda>r.
     after (result (dreamcast_hash md5 (gdi_sector_reader r) ())) (\<lambda>h.
       case h of Some h \<Rightarrow> Done (Some h) | None \<Rightarrow> dreamcast_tracks env md5 ts)))"

fun run_dreamcast :: "md5 \<Rightarrow> codecs \<Rightarrow> disc_reader \<Rightarrow> rstr option io" where
  "run_dreamcast md5 cd (RawDisc r) = result (dreamcast_hash md5 (raw_bin_reader r) ())"
| "run_dreamcast md5 cd (ChdDisc r s) = result (dreamcast_hash md5 (chd_sector_reader r) s)"
| "run_dreamcast md5 cd (CsoDisc c s) = result (dreamcast_hash md5 (cso_reader cd c) s)"
| "run_dreamcast md5 cd (GzipDisc g) = result (dreamcast_hash md5 (gzip_reader g) 0)"
| "run_dreamcast md5 cd (CueDisc r) = result (dreamcast_hash md5 (cue_sector_reader r) ())"

definition dreamcast_hash_path :: "disc_files \<Rightarrow> md5 \<Rightarrow> codecs \<Rightarrow> rstr \<Rightarrow> rstr option io option" where
  "dreamcast_hash_path env md5 cd path =
     (if lower_extension path \<noteq> lit ''gdi''
      then next_step (open_reader env path) (\<lambda>reader.
             case reader of Some rd \<Rightarrow> Some (run_dreamcast md5 cd rd) | None \<Rightarrow> Some (Done None))
      else Some (after (parse_gdi env path) (\<lambda>tracks. dreamcast_tracks env md5 (gdi_candidates tracks))))"

text \<open>Jaguar CD, by container.\<close>

definition open_location :: "disc_files \<Rightarrow> cue_location \<Rightarrow> raw_frames option io" where
  "open_location env l =
     (if \<not> df_is_file env (co_path l) then Done None
      else map_io Some (open_layout (df_open env (co_path l)) (cl_physical_size (co_layout l))
             (cl_payload_offset (co_layout l)) (cl_payload_size (co_layout l)) (co_data_offset l)))"

definition raw_track :: "raw_frames \<Rightarrow> unit frame_reader \<times> unit" where
  "raw_track r = (raw_read_frame r, ())"

definition jaguar_chd :: "disc_files \<Rightarrow> md5 \<Rightarrow> rstr \<Rightarrow> rstr option io option" where
  "jaguar_chd env md5 path =
     next_step (open_chd env path FirstOfSecondSession) (\<lambda>(r, s).
       jaguar_cd_hash md5 (chd_frames r) s (\<lambda>_.
         next_step (open_chd env path TrackTwo) (\<lambda>(r, s). Some (Done (Some (chd_frames r, s))))))"

definition jaguar_cue :: "disc_files \<Rightarrow> md5 \<Rightarrow> rstr \<Rightarrow> rstr option io option" where
  "jaguar_cue env md5 path =
     next_step (Some (after (cue_first_track_of_second_session env path) (open_location env))) (\<lambda>track.
       case track of
         None \<Rightarrow> Some (Done None)
       | Some r \<Rightarrow> jaguar_cd_hash md5 (raw_read_frame r) () (\<lambda>_.
           Some (map_io (map_option raw_track) (after (cue_track_two env path) (open_location env)))))"

definition jaguar_cdi :: "disc_files \<Rightarrow> md5 \<Rightarrow> rstr \<Rightarrow> rstr option io option" where
  "jaguar_cdi env md5 path =
     next_step (Some (after (opened (df_open env path)) (\<lambda>f.
         after (cdi_jaguar_tracks f) (\<lambda>((offset, frame_size), track_two).
         after (open_at (df_open env path) frame_size offset) (\<lambda>r. Done (r, track_two)))))) (\<lambda>(r, track_two).
       jaguar_cd_hash md5 (raw_read_frame r) () (\<lambda>_.
         Some (case track_two of
                 None \<Rightarrow> Done None
               | Some (offset, frame_size) \<Rightarrow> map_io (\<lambda>r. Some (raw_track r)) (open_at (df_open env path) frame_size offset))))"

definition jaguar_raw :: "disc_files \<Rightarrow> md5 \<Rightarrow> rstr \<Rightarrow> rstr option io option" where
  "jaguar_raw env md5 path =
     next_step (Some (open_at (df_open env path) CD_FRAME_SIZE 0)) (\<lambda>r.
       jaguar_cd_hash md5 (raw_read_frame r) () (\<lambda>_. Some (Done (None :: (unit frame_reader \<times> unit) option))))"

definition jaguar_cd_hash_path :: "disc_files \<Rightarrow> md5 \<Rightarrow> rstr \<Rightarrow> rstr option io option" where
  "jaguar_cd_hash_path env md5 path =
     (let ext = lower_extension path in
      if ext = lit ''chd'' then jaguar_chd env md5 path
      else if ext = lit ''cue'' then jaguar_cue env md5 path
      else if ext = lit ''cdi'' then jaguar_cdi env md5 path
      else if one_of ext [''bin'', ''img''] then jaguar_raw env md5 path
      else Some (Done None))"

text \<open>PlayStation 2: an image is always read as 2048-byte sectors.\<close>

definition ps2_cue :: "disc_files \<Rightarrow> rstr \<Rightarrow> disc_reader option io" where
  "ps2_cue env path =
     after (cue_selected_track env path (\<lambda>t. ct_number t = 1)) (\<lambda>l.
       if cl_payload_size (co_layout l) \<noteq> 2048 then Done None
       else after (opened (df_open env (co_path l))) (\<lambda>f.
            Done (Some (CueDisc \<lparr>cu_file = f,
                                 cu_base = (co_data_offset l + cl_payload_offset (co_layout l)) mod 2 ^ 64,
                                 cu_stride = cl_physical_size (co_layout l)\<rparr>))))"

definition ps2_reader :: "disc_files \<Rightarrow> rstr \<Rightarrow> disc_reader option io option" where
  "ps2_reader env path =
     (let ext = lower_extension path in
      if ext = lit ''iso'' then
        Some (after (opened (df_open env path)) (\<lambda>f.
          Done (Some (RawDisc \<lparr>rb_file = f, rb_raw_sector_size = 2048, rb_header = 0\<rparr>))))
      else if ext = lit ''chd'' then next_step (open_chd env path FirstData) (\<lambda>(r, s). Some (Done (Some (ChdDisc r s))))
      else if one_of ext [''cso'', ''ciso'', ''zso''] then
        Some (after (opened (df_open env path)) (\<lambda>f. map_io (\<lambda>(c, s). Some (CsoDisc c s)) (cso_open f)))
      else if ext = lit ''gz'' then Some (after (opened (df_gunzip env path)) (\<lambda>g. Done (Some (GzipDisc g))))
      else if ext = lit ''cue'' then Some (ps2_cue env path)
      else Some (Done None))"

definition ps2_hash_path :: "disc_files \<Rightarrow> md5 \<Rightarrow> codecs \<Rightarrow> rstr \<Rightarrow> rstr option io option" where
  "ps2_hash_path env md5 cd path =
     next_step (ps2_reader env path) (\<lambda>reader.
       case reader of Some rd \<Rightarrow> Some (run_ps2 md5 cd rd) | None \<Rightarrow> Some (Done None))"

definition whole_file_md5 :: "disc_files \<Rightarrow> md5 \<Rightarrow> rstr \<Rightarrow> rstr io" where
  "whole_file_md5 env md5 path =
     after (opened (df_open env path)) (\<lambda>f.
     after (file_read f 0 (length (fi_bytes f))) (\<lambda>bytes. Done (md5_hex md5 bytes)))"

section \<open>Dispatch\<close>

definition disc_rc_hash_kind :: "rstr \<Rightarrow> rc_hash_kind option" where
  "disc_rc_hash_kind name =
     (case Option.bind (find_system name) sy_rc_kind of
        Some kind \<Rightarrow> if is_disc kind then Some kind else None
      | None \<Rightarrow> None)"

definition is_disc_rc_hash_system :: "rstr \<Rightarrow> bool" where
  "is_disc_rc_hash_system name \<longleftrightarrow> disc_rc_hash_kind name \<noteq> None"

definition compute_disc_rc_hash :: "disc_files \<Rightarrow> md5 \<Rightarrow> codecs \<Rightarrow> rstr \<Rightarrow> rstr \<Rightarrow> rstr option io option" where
  "compute_disc_rc_hash env md5 cd name path =
     (case disc_rc_hash_kind name of
        None \<Rightarrow> Some (Done None)
      | Some kind \<Rightarrow>
          if kind = DreamcastDisc then dreamcast_hash_path env md5 cd path
          else if kind = JaguarCd then jaguar_cd_hash_path env md5 path
          else if kind = GameCube then Some (gamecube_hash_path env md5 path)
          else if kind = Wii then Some (wii_hash_path env md5 path)
          else if kind = Ps2 then ps2_hash_path env md5 cd path
          else if kind = Psp \<and> (case path_extension path of Some e \<Rightarrow> eq_ignore_case e (lit ''pbp'') | None \<Rightarrow> False)
          then Some (map_io Some (whole_file_md5 env md5 path))
          else next_step (open_reader env path) (\<lambda>reader.
                 case reader of Some rd \<Rightarrow> run_recipe kind md5 cd rd | None \<Rightarrow> Some (Done None)))"

section \<open>Playlists\<close>

definition looks_like_m3u_reference :: "rstr \<Rightarrow> bool" where
  "looks_like_m3u_reference line \<longleftrightarrow>
     one_of (lower_extension line) [''chd'', ''cue'', ''bin'', ''iso'', ''img'', ''gdi'', ''gcm'', ''ciso'', ''gcz'', ''rvz'', ''wia'',
       ''wbfs'', ''wad'']"

text \<open>The lines of the first 8192 bytes; a line that is not UTF-8 fails the whole playlist.\<close>

definition byte_lines :: "u8 list \<Rightarrow> u8 list list" where
  "byte_lines bytes = (let ls = split_on 10 bytes in if last ls = [] then butlast ls else ls)"

fun m3u_lines :: "u8 list list \<Rightarrow> rstr list io" where
  "m3u_lines [] = Done []"
| "m3u_lines (l # ls) =
     (case from_utf8 l of
        None \<Rightarrow> Fail InvalidData
      | Some line \<Rightarrow>
          let trimmed = trim (trim_start_matches (\<lambda>c. c = 65279) (trim line)) in
          if trimmed = [] \<or> take 1 trimmed = [35] then m3u_lines ls
          else if 0 \<in> set trimmed then Done []
          else let reference = trim (trim_matches (\<lambda>c. c = 34) trimmed)
               in if looks_like_m3u_reference reference then map_io ((#) reference) (m3u_lines ls) else m3u_lines ls)"

text \<open>A playlist cut inside a character loses the lines before the cut as well.\<close>

lemma m3u_cut_character_fails: "m3u_lines [utf8_bytes (lit ''disc1.chd''), [195]] = Fail InvalidData"
  by code_simp

definition parse_m3u_lines :: "disc_files \<Rightarrow> rstr \<Rightarrow> rstr list io" where
  "parse_m3u_lines env path =
     after (opened (df_open env path)) (\<lambda>f.
     after (file_read f 0 8192) (\<lambda>bytes. m3u_lines (byte_lines bytes)))"

definition m3u_candidates :: "rstr \<Rightarrow> rstr \<Rightarrow> rstr \<Rightarrow> rstr list" where
  "m3u_candidates normalized m3u_parent storage_root =
     (case find_split (lit ''/roms/'') normalized of
        Some (_, rest) \<Rightarrow>
          [path_join (path_join storage_root (lit ''roms''))
             (case find_split (lit ''/roms/'') rest of Some (after_roms, _) \<Rightarrow> after_roms | None \<Rightarrow> rest)]
      | None \<Rightarrow> []) @
     [join_relative storage_root normalized, path_join m3u_parent normalized] @
     (case path_file_name normalized of Some name \<Rightarrow> [path_join m3u_parent name] | None \<Rightarrow> [])"

definition existing_candidate :: "disc_files \<Rightarrow> rstr \<Rightarrow> rstr option" where
  "existing_candidate env candidate =
     (if df_is_file env candidate then Some candidate
      else case (path_parent candidate, path_file_name candidate) of
             (Some parent, Some name) \<Rightarrow> find_file_case_insensitive env parent name
           | _ \<Rightarrow> None)"

definition resolve_m3u_reference :: "disc_files \<Rightarrow> rstr \<Rightarrow> rstr \<Rightarrow> rstr \<Rightarrow> rstr option" where
  "resolve_m3u_reference env line m3u_parent storage_root =
     (let normalized = map (\<lambda>c. if c = 92 then 47 else c) line in
      if take 1 normalized = [47] \<and> df_is_file env normalized then Some normalized
      else first_some (existing_candidate env) (m3u_candidates normalized m3u_parent storage_root))"

definition first_disc_from_m3u :: "disc_files \<Rightarrow> rstr \<Rightarrow> rstr \<Rightarrow> rstr option" where
  "first_disc_from_m3u env m3u_path storage_root =
     (case path_parent m3u_path of
        None \<Rightarrow> None
      | Some parent \<Rightarrow>
          (case parse_m3u_lines env m3u_path of
             Done references \<Rightarrow> first_some (\<lambda>line. resolve_m3u_reference env line parent storage_root) references
           | _ \<Rightarrow> None))"

definition disc_hash_identity_path :: "disc_files \<Rightarrow> rstr \<Rightarrow> rstr \<Rightarrow> rstr" where
  "disc_hash_identity_path env path storage_root =
     (if (case path_extension path of Some e \<Rightarrow> eq_ignore_case e (lit ''m3u'') | None \<Rightarrow> False)
      then (case first_disc_from_m3u env path storage_root of Some p \<Rightarrow> p | None \<Rightarrow> path)
      else path)"

section \<open>The batch\<close>

record disc_env =
  de_files :: disc_files
  de_md5 :: md5
  de_codecs :: codecs
  de_root :: rstr
  de_cancelled :: "nat \<Rightarrow> bool"

definition disc_one ::
  "disc_env \<Rightarrow> rstr \<Rightarrow> (rstr \<rightharpoonup> stored_hash) \<Rightarrow> bool \<Rightarrow> rstr \<times> rstr \<times> nat \<Rightarrow> hash_result list \<times> hash_stats \<Rightarrow>
     (hash_result list \<times> hash_stats) io option" where
  "disc_one env name stored force = (\<lambda>(rom_filename, rom_path, _) (results, stats).
     let target = disc_hash_identity_path (de_files env) (join_relative (de_root env) rom_path) (de_root env) in
     case df_metadata (de_files env) target of
       None \<Rightarrow> Some (Done (results, count_skipped stats))
     | Some (current_mtime, current_size) \<Rightarrow>
         (case (if force then None
                else Option.bind (stored rom_filename) (\<lambda>c. reusable_stored_hash rom_filename c current_mtime current_size)) of
            Some reused \<Rightarrow> Some (Done (results @ [reused], count_reuse Exact stats))
          | None \<Rightarrow>
              (case compute_disc_rc_hash (de_files env) (de_md5 env) (de_codecs env) name target of
                 None \<Rightarrow> None
               | Some Panic \<Rightarrow> Some Panic
               | Some (Fail e) \<Rightarrow> Some (Done (results, count_skipped stats))
               | Some (Done rc_hash) \<Rightarrow>
                   Some (Done (results @ [\<lparr>hr_rom_filename = rom_filename, hr_crc32 = 0, hr_mtime_secs = current_mtime,
                                           hr_size_bytes = current_size, hr_matched_name = None, hr_ra_id = None,
                                           hr_rc_hash = rc_hash\<rparr>], count_computed force stats)))))"

fun disc_loop ::
  "disc_env \<Rightarrow> rstr \<Rightarrow> (rstr \<rightharpoonup> stored_hash) \<Rightarrow> bool \<Rightarrow> nat \<Rightarrow> (rstr \<times> rstr \<times> nat) list \<Rightarrow> hash_result list \<times> hash_stats \<Rightarrow>
     (hash_result list \<times> hash_stats) io option" where
  "disc_loop env name stored force i [] acc = Some (Done acc)"
| "disc_loop env name stored force i (file # rest) acc =
     (if de_cancelled env i then Some (Done acc)
      else next_step (disc_one env name stored force file acc) (disc_loop env name stored force (i + 1) rest))"

text \<open>A panic of the worker loses the batch: the caller takes an empty result.\<close>

definition hash_and_identify_discs ::
  "disc_env \<Rightarrow> catalog \<Rightarrow> rstr \<Rightarrow> (rstr \<times> rstr \<times> nat) list \<Rightarrow> (rstr \<rightharpoonup> stored_hash) \<Rightarrow> bool \<Rightarrow>
     (hash_result list \<times> hash_stats) option" where
  "hash_and_identify_discs env cat name rom_files stored force =
     (if \<not> is_disc_rc_hash_system name then Some ([], no_stats)
      else case disc_loop env name stored force 0 rom_files ([], no_stats) of
             None \<Rightarrow> None
           | Some (Done (results, stats)) \<Rightarrow> Some (resolve_ra_ids cat results, stats)
           | Some _ \<Rightarrow> Some (resolve_ra_ids cat [], no_stats))"

end
