(* ===== verification/Disc_Hashing.thy ===== *)
theory Disc_Hashing
  imports Disc_Batch
begin

text \<open>
  Properties of the whole path from a disc file to its identity: no file makes it panic, a batch
  accounts for its discs, CD frames are a slice of the track's data, and the identity of a
  Jaguar CD does not depend on the byte order of its track.
\<close>

section \<open>No panics\<close>

fun disc_ok :: "disc_reader \<Rightarrow> bool" where
  "disc_ok (ChdDisc r s) \<longleftrightarrow> chd_inv r s"
| "disc_ok (RawDisc r) \<longleftrightarrow> True"
| "disc_ok (GzipDisc g) \<longleftrightarrow> True"
| "disc_ok (CueDisc r) \<longleftrightarrow> True"
| "disc_ok (CsoDisc c s) \<longleftrightarrow> (\<forall>cd. cso_inv cd c s)"

lemma run_recipe_no_panic: "disc_ok rd \<Longrightarrow> run_recipe kind md5 cd rd \<noteq> Some Panic"
  by (cases rd)
    (use chd.recipe_no_panic raw_bin.recipe_no_panic gzip.recipe_no_panic cue.recipe_no_panic cso.recipe_no_panic in auto)

lemma run_ps2_no_panic: "disc_ok rd \<Longrightarrow> run_ps2 md5 cd rd \<noteq> Panic"
  by (cases rd)
    (use chd.ps2_no_panic raw_bin.ps2_no_panic gzip.ps2_no_panic cue.ps2_no_panic cso.ps2_no_panic in auto)

lemma run_dreamcast_no_panic: "disc_ok rd \<Longrightarrow> run_dreamcast md5 cd rd \<noteq> Panic"
  by (cases rd)
    (use chd.dreamcast_no_panic raw_bin.dreamcast_no_panic gzip.dreamcast_no_panic cue.dreamcast_no_panic
       cso.dreamcast_no_panic in auto)

lemma next_step_Panic_iff:
  "next_step r f = Some Panic \<longleftrightarrow> r = Some Panic \<or> (\<exists>x. r = Some (Done x) \<and> f x = Some Panic)"
  by (auto simp: next_step_def split: option.splits io.splits)

lemma next_step_Done_iff:
  "next_step r f = Some (Done y) \<longleftrightarrow> (\<exists>x. r = Some (Done x) \<and> f x = Some (Done y))"
  by (auto simp: next_step_def split: option.splits io.splits)

lemmas step_simps = next_step_Panic_iff next_step_Done_iff after_Panic_iff after_Done_iff

text \<open>The crate \<open>chd\<close> fills the buffer of a hunk or fails.\<close>

definition chd_crate_ok :: "disc_files \<Rightarrow> bool" where
  "chd_crate_ok env \<longleftrightarrow> (\<forall>path c. df_chd env path = Inr c \<longrightarrow> whole_hunks c)"

lemma opened_Done_iff [simp]: "opened x = Done y \<longleftrightarrow> x = Inr y"
  by (cases x) simp_all

lemma text_of_no_panic [simp]: "text_of env path \<noteq> Panic"
  by (auto simp: text_of_def after_Panic_iff)

lemma cue_scan_no_panic [simp]: "cue_scan env parent selected st ls \<noteq> Panic"
proof (induction ls arbitrary: st)
  case (Cons l ls)
  have "cue_line env parent selected st (trim l) \<noteq> Panic"
    by (auto simp: cue_line_def cue_rem_def cue_track_line_def cue_index_def cue_offset_def Let_def after_Panic_iff
        split: option.splits list.splits if_splits)
  with Cons show ?case by (auto split: io.splits sum.splits)
qed simp

lemma format_no_panic [simp]:
  "parse_gdi env path \<noteq> Panic" "first_bin_from_cue env path \<noteq> Panic" "cue_selected_track env path selected \<noteq> Panic"
proof -
  have "first_bin env parent ls \<noteq> Panic" for parent ls
    by (induction ls) (auto simp: Let_def split: option.split)
  then show "first_bin_from_cue env path \<noteq> Panic" by (simp add: first_bin_from_cue_def after_Panic_iff)
qed (auto simp: parse_gdi_def cue_selected_track_def after_Panic_iff Let_def)

text \<open>Opening a CHD image.\<close>

lemma meta_walk_no_panic: "meta_walk f off session chd_ofs tracks = Some r \<Longrightarrow> r \<noteq> Panic"
proof (rule meta_walk.raw_induct [where P = "\<lambda>f off session chd_ofs tracks r. r \<noteq> Panic"])
  fix walk f off session chd_ofs tracks r
  assume IH: "\<And>f off session chd_ofs tracks r. walk f off session chd_ofs tracks = Some r \<Longrightarrow> r \<noteq> Panic"
    and eq: "(if off = 0 then Some (Done tracks)
      else if 2 ^ 63 \<le> off then Some (Fail OtherError)
      else (case file_read_exact f off 16 of
              Done hdr \<Rightarrow>
                (case meta_record f off hdr session chd_ofs tracks of
                   Panic \<Rightarrow> Some Panic
                 | Fail e \<Rightarrow> Some (Fail e)
                 | Done None \<Rightarrow> Some (Done tracks)
                 | Done (Some (session, chd_ofs, tracks)) \<Rightarrow> walk f (be64 hdr 8) session chd_ofs tracks)
            | _ \<Rightarrow> Some (Done tracks))) = Some r"
  have "meta_record f off hdr session chd_ofs tracks \<noteq> Panic" for hdr
    by (auto simp: meta_record_def Let_def split: io.splits option.splits)
  with eq show "r \<noteq> Panic" by (auto split: if_splits io.splits option.splits dest: IH)
qed

lemma safe_frame_raw [safe_intros]: "safe (frame_raw r frame)"
  by (auto simp: safe_def frame_raw_def load_hunk_def cached_bytes_def then_do_def ret_def throw_def Let_def
      split: io.splits sum.splits if_splits)

lemma safe_probe_tracks [safe_intros]: "safe (probe_tracks c ts)"
  by (induction ts) (auto intro!: safe_intros)

lemma safe_detect_header_skip [safe_intros]: "safe (Chd_Reader.detect_header_skip r)"
  unfolding Chd_Reader.detect_header_skip_def by (auto intro!: safe_intros split: option.split)

lemma chd_open_no_panic: "chd_open c selection \<noteq> Some Panic"
proof -
  have "track_offset tracks selection \<noteq> Panic" for tracks
    by (auto simp: track_offset_def split: option.split track_selection.split)
  then have "safe (chd_base c selection tracks)" for tracks
    by (auto simp: chd_base_def intro!: safe_intros split: io.split)
  moreover have "safe (chd_configure c base)" for base
    unfolding chd_configure_def Let_def by (intro safe_intros)
  ultimately have "safe (then_do (chd_base c selection tracks) (chd_configure c))" for tracks
    by (intro safe_then_do)
  then show ?thesis
    by (auto simp: chd_open_def chd_tracks_def safe_def split: option.splits io.splits dest: meta_walk_no_panic)
qed

lemma open_chd_ok:
  assumes "chd_crate_ok env"
  shows "open_chd env path selection \<noteq> Some Panic"
    and "open_chd env path selection = Some (Done (r, s)) \<Longrightarrow> chd_inv r s"
  using assms chd_open_no_panic chd_open_inv
  by (auto simp: open_chd_def chd_crate_ok_def step_simps)

lemma raw_open_no_panic [simp]: "raw_bin_open f \<noteq> Panic" "gdi_open f sector_size start_lba \<noteq> Panic" "open_raw env path \<noteq> Panic"
  by (auto simp: raw_bin_open_def gdi_open_def open_raw_def after_Panic_iff split: io.splits prod.splits)

lemma open_reader_ok:
  assumes "chd_crate_ok env"
  shows "open_reader env path \<noteq> Some Panic"
    and "open_reader env path = Some (Done (Some rd)) \<Longrightarrow> disc_ok rd"
  using open_chd_ok [OF assms]
  by (auto simp: open_reader_def Let_def step_simps split: if_splits prod.splits)

text \<open>Frames.\<close>

definition safe_frames :: "'s frame_reader \<Rightarrow> bool" where
  "safe_frames rd \<longleftrightarrow> (\<forall>n. safe (rd n))"

lemma safe_executable_frames:
  assumes "safe_frames rd"
  shows "safe (executable rd remaining frame 0 swapped out)"
proof (induction remaining arbitrary: frame out rule: less_induct)
  case (less remaining)
  show ?case
  proof (cases "remaining = 0")
    case False
    then have "safe (executable rd (remaining - min remaining CD_FRAME_SIZE) (frame + 1) 0 swapped out')" for out'
      by (intro less) simp
    with assms show ?thesis
      by (subst executable.simps) (auto simp: safe_frames_def Let_def intro!: safe_then_do safe_ret split: option.split)
  qed (simp add: executable.simps safe_ret)
qed

lemma safe_executable:
  assumes rd: "safe_frames rd" and "offset \<le> CD_FRAME_SIZE"
  shows "safe (executable rd remaining frame offset swapped out)"
proof (cases "remaining = 0")
  case False
  have "safe (rd frame)" using rd by (simp add: safe_frames_def)
  then show ?thesis
    unfolding executable.simps [of rd remaining frame offset swapped out] Let_def
    using False assms(2) by (intro safe_if safe_then_do safe_option safe_ret safe_executable_frames [OF rd]) simp_all
qed (simp add: executable.simps safe_ret)

lemma safe_jaguar_cd_executable: "safe_frames rd \<Longrightarrow> offset \<le> CD_FRAME_SIZE \<Longrightarrow> safe (jaguar_cd_executable md5 rd offset len swapped)"
  unfolding jaguar_cd_executable_def by (intro safe_intros safe_executable)

lemma first_some_SomeD: "first_some f xs = Some y \<Longrightarrow> \<exists>x \<in> set xs. f x = Some y"
  by (induction xs) (auto split: option.splits)

lemma boot_header_bounds: "jaguar_cd_boot_header first = Some (offset, swapped) \<Longrightarrow> 64 \<le> offset \<and> offset < 2308"
  unfolding jaguar_cd_boot_header_def by (drule first_some_SomeD) (auto simp del: upt_rec_numeral split: if_splits)

lemma safe_first_frame: "safe_frames rd \<Longrightarrow> safe (rd 0)"
  by (simp add: safe_frames_def)

lemma safe_boot_hash: "safe_frames rd \<Longrightarrow> safe (boot_hash md5 rd)"
  unfolding boot_hash_def
  by (auto simp: Let_def intro!: safe_then_do [OF safe_first_frame] safe_then_do [OF safe_jaguar_cd_executable] safe_ret
      split: option.split dest!: boot_header_bounds)

lemma safe_homebrew_hash: "safe_frames rd \<Longrightarrow> safe (jaguar_cd_homebrew_hash md5 rd)"
  unfolding jaguar_cd_homebrew_hash_def
  by (auto simp: Let_def intro!: safe_then_do [OF safe_first_frame] safe_jaguar_cd_executable safe_ret split: option.split)

lemma jaguar_cd_hash_panicD:
  fixes open_two :: "unit \<Rightarrow> ('t frame_reader \<times> 't) option io option"
  assumes "jaguar_cd_hash md5 rd s open_two = Some Panic" and "safe_frames rd"
  shows "open_two () = Some Panic \<or> (\<exists>rd t. open_two () = Some (Done (Some (rd, t))) \<and> \<not> safe_frames rd)"
proof -
  have "boot_hash md5 rd s \<noteq> Panic" using safe_boot_hash [OF assms(2)] by (simp add: safe_def)
  moreover have "jaguar_cd_homebrew_hash md5 rd' t \<noteq> Panic" if "safe_frames rd'" for rd' :: "'t frame_reader" and t
    using safe_homebrew_hash [OF that] by (simp add: safe_def)
  ultimately show ?thesis
    using assms(1) by (auto simp: jaguar_cd_hash_def split: io.splits option.splits jaguar_cd_boot_hash.splits)
qed

lemma Some_map_option_iff: "Some y = map_option f x \<longleftrightarrow> (\<exists>z. x = Some z \<and> y = f z)"
  by (cases x) auto

lemma safe_chd_frames: "safe_frames (chd_frames r)"
  by (simp add: safe_frames_def chd_frames_def safe_frame_raw)

lemma frame_position_no_panic [simp]: "frame_position r logical \<noteq> Panic"
  by (simp add: frame_position_def after_Panic_iff)

lemma frame_bytes_no_panic:
  assumes "0 < rf_payload_size r"
  shows "frame_bytes r need logical got \<noteq> Panic"
proof (induction need arbitrary: logical got rule: less_induct)
  case (less need)
  have "need - min (rf_payload_size r - logical mod rf_payload_size r) need < need" if "need \<noteq> 0"
    using assms that mod_less_divisor [of "rf_payload_size r" logical] by auto
  with less show ?case
    using assms by (subst frame_bytes.simps) (simp add: Let_def after_Panic_iff)
qed

lemma safe_raw_frames: "0 < rf_payload_size r \<Longrightarrow> safe_frames (raw_read_frame r)"
  using frame_bytes_no_panic by (auto simp: safe_frames_def safe_def raw_read_frame_def lift_io_def split: io.split)

lemma open_layout_ok [simp]:
  "open_layout f a b c d \<noteq> Panic" "open_layout f a b c d = Done r \<Longrightarrow> 0 < rf_payload_size r"
  by (auto simp: open_layout_def split: if_splits)

lemma open_at_ok [simp]: "open_at f a b \<noteq> Panic" "open_at f a b = Done r \<Longrightarrow> 0 < rf_payload_size r"
  by (auto simp: open_at_def)

lemma open_location_ok [simp]:
  "open_location env l \<noteq> Panic" "open_location env l = Done (Some r) \<Longrightarrow> 0 < rf_payload_size r"
  by (auto simp: open_location_def split: if_splits)

section \<open>Identities without panics\<close>

lemma safe_lift [safe_intros]: "r \<noteq> Panic \<Longrightarrow> safe (lift_io r)"
  by (auto simp: safe_def lift_io_def split: io.split)

lemma safe_take_bytes [safe_intros]: "safe (take_bytes f n)"
  by (auto simp: safe_def take_bytes_def split: io.split)

lemma safe_skip_bytes [safe_intros]: "safe (skip_bytes n)"
  by (simp add: safe_def skip_bytes_def)

lemma safe_cdi_sessions: "safe (cdi_sessions n count f version st)"
proof -
  have "cdi_add_track session d st \<noteq> Panic" for session d st
    by (cases d) (auto simp: cdi_add_track_def after_Panic_iff Let_def)
  then have "safe (cdi_tracks n f version session st)" for n session st
    by (induction n arbitrary: st) (auto simp: cdi_track_data_def read_le_u32_def intro!: safe_intros)
  then show ?thesis
    by (induction n arbitrary: st) (auto simp: read_le_u16_def intro!: safe_intros)
qed

lemma cdi_no_panic: "cdi_jaguar_tracks f \<noteq> Panic"
proof -
  have "cdi_header_position f \<noteq> Panic"
    by (auto simp: cdi_header_position_def Let_def after_Panic_iff)
  moreover have "safe (then_do (read_le_u16 f) (\<lambda>n. cdi_sessions n n f version cdi_start))" for version
    by (auto simp: read_le_u16_def intro!: safe_intros safe_cdi_sessions)
  ultimately show ?thesis
    by (auto simp: cdi_jaguar_tracks_def after_Panic_iff safe_def split: prod.splits)
qed

lemma jaguar_no_panic:
  assumes "chd_crate_ok env"
  shows "jaguar_cd_hash_path env md5 path \<noteq> Some Panic"
proof -
  have "jaguar_chd env md5 path \<noteq> Some Panic"
    using open_chd_ok [OF assms]
    by (auto simp: jaguar_chd_def step_simps safe_chd_frames split: prod.splits dest!: jaguar_cd_hash_panicD)
  moreover have "jaguar_cue env md5 path \<noteq> Some Panic"
    by (auto simp: jaguar_cue_def step_simps Some_map_option_iff raw_track_def cue_first_track_of_second_session_def cue_track_two_def
        safe_raw_frames open_location_ok(2) split: option.splits prod.splits dest!: jaguar_cd_hash_panicD)
  moreover have "jaguar_cdi env md5 path \<noteq> Some Panic"
    using cdi_no_panic
    by (auto simp: jaguar_cdi_def step_simps Some_map_option_iff raw_track_def safe_raw_frames open_at_ok(2)
        split: option.splits prod.splits dest!: jaguar_cd_hash_panicD)
  moreover have "jaguar_raw env md5 path \<noteq> Some Panic"
    by (auto simp: jaguar_raw_def step_simps safe_raw_frames open_at_ok(2) dest!: jaguar_cd_hash_panicD)
  ultimately show ?thesis by (simp add: jaguar_cd_hash_path_def Let_def)
qed

lemma cso_open_no_panic [simp]: "cso_open f \<noteq> Panic"
  by (auto simp: cso_open_def Let_def split: io.splits)

lemma ps2_reader_ok:
  assumes "chd_crate_ok env"
  shows "ps2_reader env path \<noteq> Some Panic"
    and "ps2_reader env path = Some (Done (Some rd)) \<Longrightarrow> disc_ok rd"
  using open_chd_ok [OF assms]
  by (auto simp: ps2_reader_def ps2_cue_def Let_def step_simps cso_open_inv split: if_splits prod.splits)

lemma dreamcast_tracks_no_panic: "dreamcast_tracks env md5 ts \<noteq> Panic"
  using gdi.dreamcast_no_panic by (induction ts) (auto simp: after_Panic_iff split: option.splits)

lemma disc_hash_never_panics:
  assumes "chd_crate_ok env"
  shows "compute_disc_rc_hash env md5 cd name path \<noteq> Some Panic"
proof -
  note reader = open_reader_ok [OF assms] and ps2 = ps2_reader_ok [OF assms]
  have "dreamcast_hash_path env md5 cd path \<noteq> Some Panic"
    using reader dreamcast_tracks_no_panic
    by (auto simp: dreamcast_hash_path_def step_simps run_dreamcast_no_panic split: option.splits)
  moreover have "ps2_hash_path env md5 cd path \<noteq> Some Panic"
    using ps2 by (auto simp: ps2_hash_path_def step_simps run_ps2_no_panic split: option.splits)
  moreover have "next_step (open_reader env path) (\<lambda>reader.
      case reader of Some rd \<Rightarrow> run_recipe kind md5 cd rd | None \<Rightarrow> Some (Done None)) \<noteq> Some Panic" for kind
    using reader by (auto simp: step_simps run_recipe_no_panic split: option.splits)
  moreover have "whole_file_md5 env md5 path \<noteq> Panic"
    by (simp add: whole_file_md5_def after_Panic_iff)
  ultimately show ?thesis
    using jaguar_no_panic [OF assms] by (simp add: compute_disc_rc_hash_def split: option.split)
qed

section \<open>The batch\<close>

lemma disc_one_counts:
  assumes "disc_one env name stored force entry (results, stats) = Some (Done (results', stats'))"
  shows "\<exists>new. results' = results @ new \<and> subseq (map hr_rom_filename new) [fst entry] \<and>
    done_files stats' = done_files stats + length new \<and> sa_skipped stats' + length new = sa_skipped stats + 1 \<and>
    (force \<longrightarrow> reused_files stats' = reused_files stats \<and> sa_computed stats' = sa_computed stats)"
  using assms
  by (auto simp: disc_one_def Let_def reusable_stored_hash_def count_computed_def count_skipped_def stats_simps
      split: prod.splits if_splits option.splits io.splits bind_splits)

lemma disc_one_no_panic:
  "chd_crate_ok (de_files env) \<Longrightarrow> disc_one env name stored force entry acc \<noteq> Some Panic"
  using disc_hash_never_panics
  by (auto simp: disc_one_def Let_def split: prod.splits option.splits io.splits)

lemma disc_one_no_error: "disc_one env name stored force entry acc \<noteq> Some (Fail e)"
  by (auto simp: disc_one_def Let_def split: prod.splits option.splits io.splits)

lemma disc_loop_Done:
  assumes "chd_crate_ok (de_files env)" and "disc_loop env name stored force i fs acc = Some r"
  shows "\<exists>x. r = Done x"
  using assms(2)
proof (induction fs arbitrary: i acc)
  case (Cons e fs)
  have "disc_one env name stored force e acc = None \<or> (\<exists>x. disc_one env name stored force e acc = Some (Done x))"
    using disc_one_no_panic [OF assms(1)] disc_one_no_error by (metis io.exhaust option.exhaust)
  with Cons show ?case by (auto simp: next_step_def split: if_splits)
qed auto

lemma disc_loop_counts:
  assumes "disc_loop env name stored force i fs (results, stats) = Some (Done (results', stats'))" and "\<And>j. \<not> de_cancelled env j"
  shows "\<exists>new. results' = results @ new \<and> subseq (map hr_rom_filename new) (map fst fs) \<and>
    done_files stats' = done_files stats + length new \<and> sa_skipped stats' + length new = sa_skipped stats + length fs \<and>
    (force \<longrightarrow> reused_files stats' = reused_files stats \<and> sa_computed stats' = sa_computed stats)"
  using assms(1)
proof (induction fs arbitrary: i results stats)
  case (Cons e fs)
  from Cons.prems assms(2) obtain results1 stats1 where
    one: "disc_one env name stored force e (results, stats) = Some (Done (results1, stats1))" and
    rest: "disc_loop env name stored force (i + 1) fs (results1, stats1) = Some (Done (results', stats'))"
    by (auto simp: next_step_Done_iff)
  from disc_one_counts [OF one] obtain new1 where n1: "results1 = results @ new1"
    "subseq (map hr_rom_filename new1) [fst e]" "done_files stats1 = done_files stats + length new1"
    "sa_skipped stats1 + length new1 = sa_skipped stats + 1"
    "force \<longrightarrow> reused_files stats1 = reused_files stats \<and> sa_computed stats1 = sa_computed stats" by blast
  from Cons.IH [OF rest] obtain new2 where n2: "results' = results1 @ new2"
    "subseq (map hr_rom_filename new2) (map fst fs)" "done_files stats' = done_files stats1 + length new2"
    "sa_skipped stats' + length new2 = sa_skipped stats1 + length fs"
    "force \<longrightarrow> reused_files stats' = reused_files stats1 \<and> sa_computed stats' = sa_computed stats1" by blast
  have "subseq (map hr_rom_filename (new1 @ new2)) ([fst e] @ map fst fs)"
    unfolding map_append by (rule list_emb_append_mono [OF n1(2) n2(2)])
  with n1 n2 show ?case by (intro exI [of _ "new1 @ new2"]) auto
qed simp


text \<open>Two discs: one that is not there, one whose image is too short for a file system.\<close>

definition demo_discs :: disc_env where
  "demo_discs = \<lparr>de_files = \<lparr>df_is_file = (\<lambda>_. True), df_open = (\<lambda>_. Inr \<lparr>fi_bytes = [1, 2, 3], fi_fault = (\<lambda>_. False)\<rparr>),
       df_read_dir = (\<lambda>_. None), df_metadata = (\<lambda>p. if p = lit ''/roms/a.iso'' then Some (7, 3) else None),
       df_chd = (\<lambda>_. Inl NotFound), df_gunzip = (\<lambda>_. Inl NotFound), df_nod = (\<lambda>_ _. Inl NotFound)\<rparr>,
     de_md5 = take 16, de_codecs = demo_codecs, de_root = lit ''/'', de_cancelled = (\<lambda>_. False)\<rparr>"


section \<open>Byte order\<close>

lemma length_byteswap16 [simp]: "length (byteswap16 bs) = length bs"
  by (induction bs rule: byteswap16.induct) simp_all

lemma nth_byteswap16:
  "even i \<Longrightarrow> i + 1 < length bs \<Longrightarrow> byteswap16 bs ! i = bs ! (i + 1) \<and> byteswap16 bs ! (i + 1) = bs ! i"
proof (induction bs arbitrary: i rule: byteswap16.induct)
  case (1 a b bs)
  show ?case
  proof (cases "i = 0")
    case False
    with 1(2) obtain j where j: "i = Suc (Suc j)" "even j" by (metis dvd_0_right even_Suc not0_implies_Suc)
    with 1 show ?thesis by simp
  qed simp
qed auto

lemma drop_byteswap16: "even i \<Longrightarrow> drop i (byteswap16 bs) = byteswap16 (drop i bs)"
proof (induction bs arbitrary: i rule: byteswap16.induct)
  case (1 a b bs)
  show ?case
  proof (cases "i = 0")
    case False
    with 1(2) obtain j where j: "i = Suc (Suc j)" "even j" by (metis dvd_0_right even_Suc not0_implies_Suc)
    with 1(1) show ?thesis by simp
  qed simp
qed (auto simp: drop_Cons' elim: oddE)

lemma take_byteswap16: "even n \<Longrightarrow> take n (byteswap16 bs) = byteswap16 (take n bs)"
proof (induction bs arbitrary: n rule: byteswap16.induct)
  case (1 a b bs)
  show ?case
  proof (cases "n = 0")
    case False
    with 1(2) obtain j where j: "n = Suc (Suc j)" "even j" by (metis dvd_0_right even_Suc not0_implies_Suc)
    with 1(1) show ?thesis by simp
  qed simp
qed (auto simp: take_Cons' elim: oddE)

text \<open>A track whose frames have the bytes of every pair exchanged.\<close>

definition swapped_track :: "'s frame_reader \<Rightarrow> 's frame_reader" where
  "swapped_track rd n = then_do (rd n) (\<lambda>x. ret (map_option swap_frame x))"

definition whole_frames :: "'s frame_reader \<Rightarrow> bool" where
  "whole_frames rd \<longleftrightarrow> (\<forall>n s bytes s'. rd n s = Done (Some bytes, s') \<longrightarrow> length bytes = CD_FRAME_SIZE)"

lemma swap_frame_twice: "swap_frame (swap_frame bs) = bs"
  by (simp add: swap_frame_def byteswap16_twice)

lemma swapped_track_run:
  "swapped_track rd n s = (case rd n s of Panic \<Rightarrow> Panic | Fail e \<Rightarrow> Fail e | Done (x, s') \<Rightarrow> Done (map_option swap_frame x, s'))"
  by (auto simp: swapped_track_def then_do_def ret_def split: io.split)

lemma executable_step_swapped:
  assumes "\<And>frame out s. remaining - min remaining (CD_FRAME_SIZE - offset) < bound \<Longrightarrow>
      executable (swapped_track rd) (remaining - min remaining (CD_FRAME_SIZE - offset)) frame 0 (\<not> swapped) out s
      = executable rd (remaining - min remaining (CD_FRAME_SIZE - offset)) frame 0 swapped out s"
    and "remaining - min remaining (CD_FRAME_SIZE - offset) < bound \<or> remaining = 0"
  shows "executable (swapped_track rd) remaining frame offset (\<not> swapped) out s = executable rd remaining frame offset swapped out s"
  unfolding executable.simps [of "swapped_track rd" remaining frame offset "\<not> swapped" out]
    executable.simps [of rd remaining frame offset swapped out]
  using assms by (cases swapped) (auto simp: swapped_track_run then_do_def Let_def swap_frame_twice split: io.splits option.splits)

lemma executable_swapped:
  "executable (swapped_track rd) remaining frame offset (\<not> swapped) out s = executable rd remaining frame offset swapped out s"
proof -
  have from_start: "executable (swapped_track rd) n frame 0 (\<not> swapped) out s = executable rd n frame 0 swapped out s"
    for n frame out s
  proof (induction n arbitrary: frame out s rule: less_induct)
    case (less n)
    show ?case
    proof (rule executable_step_swapped [where bound = n])
      show "n - min n (CD_FRAME_SIZE - 0) < n \<or> n = 0" by arith
    qed (rule less)
  qed
  show ?thesis
  proof (rule executable_step_swapped [where bound = "Suc remaining"])
    show "remaining - min remaining (CD_FRAME_SIZE - offset) < Suc remaining \<or> remaining = 0" by arith
  qed (rule from_start)
qed

lemma jaguar_cd_executable_swapped:
  "jaguar_cd_executable md5 (swapped_track rd) offset len (\<not> swapped) = jaguar_cd_executable md5 rd offset len swapped"
  by (rule ext) (simp add: jaguar_cd_executable_def then_do_def executable_swapped)

lemma boot_length_swapped:
  "even i \<Longrightarrow> i + 3 < length bs \<Longrightarrow> boot_length (\<not> swapped) (swap_frame bs) i = boot_length swapped bs i"
proof -
  assume i: "even i" "i + 3 < length bs"
  have at: "take 4 (drop i xs) = [xs ! i, xs ! (i + 1), xs ! (i + 2), xs ! (i + 3)]" if "length xs = length bs" for xs :: "u8 list"
    using i that by (simp add: take_Suc_conv_app_nth numeral_eq_Suc)
  show ?thesis
    using nth_byteswap16 [of i bs] nth_byteswap16 [of "i + 2" bs] i
    by (auto simp: boot_length_def swap_frame_def at numeral_3_eq_3)
qed

lemma homebrew_swapped:
  assumes "whole_frames rd"
  shows "jaguar_cd_homebrew_hash md5 (swapped_track rd) s = jaguar_cd_homebrew_hash md5 rd s"
proof -
  have tag: "take 8 (drop 94 (swap_frame first)) = byteswap16 (take 8 (drop 94 first))" for first
    by (simp add: swap_frame_def drop_byteswap16 take_byteswap16)
  have swap_iff: "byteswap16 xs = ys \<longleftrightarrow> xs = byteswap16 ys" for xs ys by (metis byteswap16_twice)
  have tags: "byteswap16 (bytes_lit ''RT!IRTKA'') = bytes_lit ''TRI!TRAK''" "byteswap16 (bytes_lit ''TRI!TRAK'') = bytes_lit ''RT!IRTKA''"
    "bytes_lit ''TRI!TRAK'' \<noteq> bytes_lit ''RT!IRTKA''"
    by (simp_all add: bytes_lit_def)
  show ?thesis
  proof (cases "rd 0 s")
    case (Done r)
    obtain raw s' where r: "r = (raw, s')" by fastforce
    show ?thesis
    proof (cases raw)
      case (Some first)
      have len: "length first = CD_FRAME_SIZE" using assms Done r Some by (auto simp: whole_frames_def)
      have kart: "jaguar_cd_executable md5 (swapped_track rd) 170 (boot_length (\<not> swapped) (swap_frame first) 166) (\<not> swapped)
          = jaguar_cd_executable md5 rd 170 (boot_length swapped first 166) swapped" for swapped
        using len by (simp only: jaguar_cd_executable_swapped) (simp add: boot_length_swapped)
      show ?thesis
        using kart [of True] kart [of False] tags
        by (auto simp: jaguar_cd_homebrew_hash_def then_do_def swapped_track_run Done r Some Let_def tag swap_iff)
    qed (simp add: jaguar_cd_homebrew_hash_def then_do_def swapped_track_run Done r ret_def)
  qed (simp_all add: jaguar_cd_homebrew_hash_def then_do_def swapped_track_run)
qed

lemma boot_hash_swapped:
  assumes "rd 0 s = Done (Some first, s')" and "length first = CD_FRAME_SIZE"
    and "jaguar_cd_boot_header first = Some (offset, False)" and "even offset"
    and "jaguar_cd_boot_header (swap_frame first) = Some (offset, True)"
  shows "boot_hash md5 (swapped_track rd) s = boot_hash md5 rd s"
proof -
  have "offset < 2308" using boot_header_bounds [OF assms(3)] by blast
  then have len: "boot_length True (swap_frame first) (offset + 36) = boot_length False first (offset + 36)"
    using boot_length_swapped [of "offset + 36" first False] assms(2,4) by simp
  have exec: "jaguar_cd_executable md5 (swapped_track rd) n k True = jaguar_cd_executable md5 rd n k False" for n k
    using jaguar_cd_executable_swapped [of md5 rd n k False] by simp
  show ?thesis
    by (simp add: boot_hash_def then_do_def swapped_track_run assms(1,3,5) Let_def len exec)
qed

text \<open>
  C27: the identity of a Jaguar CD does not depend on the byte order of its tracks: if the boot
  header stands at the same even place after the bytes of every pair are exchanged, the game or,
  behind the shared loader, the executable of the second track keeps its hash.
\<close>

theorem jaguar_identity_ignores_byte_order:
  assumes "whole_frames boot" and "whole_frames two" and "boot 0 s = Done (Some first, s')"
    and "jaguar_cd_boot_header first = Some (offset, False)" and "even offset"
    and "jaguar_cd_boot_header (swap_frame first) = Some (offset, True)"
  shows "jaguar_cd_hash md5 (swapped_track boot) s (\<lambda>_. Some (Done (Some (swapped_track two, t))))
      = jaguar_cd_hash md5 boot s (\<lambda>_. Some (Done (Some (two, t))))"
proof -
  have "length first = CD_FRAME_SIZE" using assms(1,3) by (auto simp: whole_frames_def)
  with boot_hash_swapped [of boot s first s' offset] assms homebrew_swapped [OF assms(2)]
  show ?thesis by (simp add: jaguar_cd_hash_def split: io.split option.split jaguar_cd_boot_hash.split)
qed

lemma byteswap16_append: "even (length xs) \<Longrightarrow> byteswap16 (xs @ ys) = byteswap16 xs @ byteswap16 ys"
  by (induction xs rule: byteswap16.induct) auto

lemma headers_swapped: "byteswap16 HEADER = SWAPPED_HEADER" "length HEADER = 32" "length SWAPPED_HEADER = 32"
  by (simp_all add: HEADER_def SWAPPED_HEADER_def bytes_lit_def)

lemma boot_header_at_64:
  assumes "length pre = 64"
  shows "jaguar_cd_boot_header (pre @ HEADER @ rest) = Some (64, False)"
    and "jaguar_cd_boot_header (pre @ SWAPPED_HEADER @ rest) = Some (64, True)"
proof -
  have upt: "[64 ..< CD_FRAME_SIZE - 44] = 64 # [65 ..< CD_FRAME_SIZE - 44]" by (subst upt_conv_Cons) simp_all
  have "HEADER \<noteq> SWAPPED_HEADER" by (simp add: HEADER_def SWAPPED_HEADER_def bytes_lit_def)
  then show "jaguar_cd_boot_header (pre @ HEADER @ rest) = Some (64, False)"
    and "jaguar_cd_boot_header (pre @ SWAPPED_HEADER @ rest) = Some (64, True)"
    using assms unfolding jaguar_cd_boot_header_def upt by (auto simp: headers_swapped simp del: upt_rec_numeral)
qed

definition demo_frame :: "u8 list" where
  "demo_frame = replicate 64 0 @ HEADER @ replicate 2256 7"

theorem jaguar_identity_ignores_byte_order_witness:
  "\<exists>track :: unit frame_reader. track 0 () = Done (Some demo_frame, ()) \<and>
     jaguar_cd_hash (take 16) (swapped_track track) () (\<lambda>_. Some (Done (Some (swapped_track track, ()))))
     = jaguar_cd_hash (take 16) track () (\<lambda>_. Some (Done (Some (track, ()))))"
proof -
  let ?track = "\<lambda>_ _. Done (Some demo_frame, ()) :: (u8 list option \<times> unit) io"
  have whole: "whole_frames ?track" by (simp add: whole_frames_def demo_frame_def headers_swapped)
  have "jaguar_cd_boot_header demo_frame = Some (64, False)"
    unfolding demo_frame_def by (rule boot_header_at_64) simp
  moreover have "swap_frame demo_frame = byteswap16 (replicate 64 0) @ SWAPPED_HEADER @ byteswap16 (replicate 2256 7)"
    by (simp add: swap_frame_def demo_frame_def byteswap16_append headers_swapped)
  then have "jaguar_cd_boot_header (swap_frame demo_frame) = Some (64, True)"
    using boot_header_at_64(2) [of "byteswap16 (replicate 64 0)"] by simp
  ultimately have "jaguar_cd_hash (take 16) (swapped_track ?track) () (\<lambda>_. Some (Done (Some (swapped_track ?track, ()))))
     = jaguar_cd_hash (take 16) ?track () (\<lambda>_. Some (Done (Some (?track, ()))))"
    using jaguar_identity_ignores_byte_order [where boot = ?track and two = ?track and s = "()" and s' = "()" and first = demo_frame and offset = 64] whole
    by simp
  then show ?thesis by (intro exI [of _ ?track]) simp
qed

section \<open>Frames of a track\<close>

text \<open>Where byte \<open>k\<close> of the track's data lies in the file.\<close>

definition data_position :: "raw_frames \<Rightarrow> nat \<Rightarrow> nat" where
  "data_position r k =
     rf_base_offset r + k div rf_payload_size r * rf_physical_frame_size r + rf_payload_offset r + k mod rf_payload_size r"

lemma data_position_within:
  assumes "i < rf_payload_size r - k mod rf_payload_size r"
  shows "data_position r (k + i) = data_position r k + i"
proof -
  let ?p = "rf_payload_size r"
  have small: "k mod ?p + i < ?p" using assms by simp
  have "k + i = k div ?p * ?p + (k mod ?p + i)" by simp
  then have "(k + i) div ?p = k div ?p" "(k + i) mod ?p = k mod ?p + i"
    using small by (metis div_mult_self3 div_less add.right_neutral mult.commute add_0 gr_zeroI not_less_zero)
      (metis small mod_mult_self3 mod_less \<open>k + i = k div ?p * ?p + (k mod ?p + i)\<close>)
  then show ?thesis by (simp add: data_position_def)
qed

definition track_data :: "raw_frames \<Rightarrow> nat \<Rightarrow> u8" where
  "track_data r k = fi_bytes (rf_file r) ! data_position r k"

definition holds_data :: "raw_frames \<Rightarrow> nat \<Rightarrow> bool" where
  "holds_data r n \<longleftrightarrow> 0 < rf_payload_size r \<and> (\<forall>i. \<not> fi_fault (rf_file r) i) \<and> length (fi_bytes (rf_file r)) < 2 ^ 63 \<and>
     (\<forall>k < n. data_position r k < length (fi_bytes (rf_file r)))"

lemma frame_position_data:
  assumes "data_position r k < 2 ^ 63"
  shows "frame_position r k = Done (data_position r k)"
  using assms by (simp add: frame_position_def data_position_def after_def checked_def saturating_def add.assoc)

lemma file_read_data:
  assumes "holds_data r n" and "k + want \<le> n" and "0 < want" and "want \<le> rf_payload_size r - k mod rf_payload_size r"
  shows "file_read (rf_file r) (data_position r k) want = Done (map (track_data r) [k ..< k + want])"
proof -
  let ?bs = "fi_bytes (rf_file r)"
  have at: "data_position r (k + i) = data_position r k + i" if "i < want" for i
    using data_position_within [of i r k] that assms(4) by simp
  have "data_position r (k + (want - 1)) < length ?bs" using assms by (simp add: holds_data_def)
  then have fits: "data_position r k + want \<le> length ?bs" using at [of "want - 1"] assms(3) by simp
  have "take want (drop (data_position r k) ?bs) = map (track_data r) [k ..< k + want]"
    by (rule nth_equalityI) (use fits at in \<open>auto simp: track_data_def\<close>)
  then show ?thesis
    using assms(1) fits by (simp add: file_read_def holds_data_def list_ex_iff)
qed

lemma frame_bytes_data:
  assumes "holds_data r n" and "logical + need \<le> n"
  shows "frame_bytes r need logical got = Done (Some (got @ map (track_data r) [logical ..< logical + need]))"
  using assms(2)
proof (induction need arbitrary: logical got rule: less_induct)
  case (less need)
  let ?want = "min (rf_payload_size r - logical mod rf_payload_size r) need"
  have pos: "0 < rf_payload_size r" using assms(1) by (simp add: holds_data_def)
  show ?case
  proof (cases "need = 0")
    case False
    then have want: "0 < ?want" "?want \<le> need" using pos by auto
    have "logical < n" using less.prems False by simp
    then have "data_position r logical < 2 ^ 63"
      using assms(1) unfolding holds_data_def by (blast intro: less_trans)
    note frame_position_data [OF this] file_read_data [OF assms(1) _ want(1), of logical]
    moreover have "frame_bytes r (need - ?want) (logical + ?want) (got @ map (track_data r) [logical ..< logical + ?want])
        = Done (Some ((got @ map (track_data r) [logical ..< logical + ?want]) @ map (track_data r) [logical + ?want ..< logical + ?want + (need - ?want)]))"
      by (rule less.IH) (use want less.prems in auto)
    moreover have "[logical ..< logical + need] = [logical ..< logical + ?want] @ [logical + ?want ..< logical + ?want + (need - ?want)]"
      using want(2) upt_add_eq_append [of logical "logical + ?want" "need - ?want"] by simp
    ultimately show ?thesis
      using False pos want(2) less.prems by (subst frame_bytes.simps) (simp add: Let_def after_def)
  qed (simp add: frame_bytes.simps)
qed

text \<open>
  A frame of a CUE or CDI track is a slice of the track's data, the payloads of its sectors
  one after another, however large the sectors and their payloads are.
\<close>

lemma frames_slice_track_data:
  assumes "holds_data r ((unat n + 1) * CD_FRAME_SIZE)"
  shows "raw_read_frame r n () =
    Done (Some (map (track_data r) [unat n * CD_FRAME_SIZE ..< unat n * CD_FRAME_SIZE + CD_FRAME_SIZE]), ())"
  using frame_bytes_data [OF assms, of "unat n * CD_FRAME_SIZE" CD_FRAME_SIZE "[]"]
  by (simp add: raw_read_frame_def lift_io_def)

text \<open>Sectors of 2336 bytes that carry 2048 each, after a subheader of eight.\<close>

definition demo_track :: raw_frames where
  "demo_track = \<lparr>rf_file = \<lparr>fi_bytes = replicate 10000 3, fi_fault = (\<lambda>_. False)\<rparr>, rf_physical_frame_size = 2336,
     rf_payload_offset = 8, rf_payload_size = 2048, rf_base_offset = 0\<rparr>"

lemma frames_slice_track_data_witness:
  "raw_read_frame demo_track 1 () = Done (Some (map (track_data demo_track) [2352 ..< 4704]), ())"
proof -
  have "data_position demo_track k < 10000" if "k < 4704" for k
  proof -
    have "k div 2048 \<le> 2" "k mod 2048 < 2048" using that by auto
    then show ?thesis by (simp add: data_position_def demo_track_def)
  qed
  then have "holds_data demo_track ((unat (1 :: u32) + 1) * CD_FRAME_SIZE)"
    by (simp add: holds_data_def demo_track_def)
  from frames_slice_track_data [OF this] show ?thesis by (simp del: upt_rec_numeral)
qed

end
