(* ===== verification/Platform_Map.thy ===== *)
theory Platform_Map
  imports Systems "HOL-Library.Multiset"
begin

text \<open>
  The fingerprint of the LaunchBox platform map: the bytes it hashes determine the map and nothing else.
\<close>

section \<open>The fingerprint\<close>

lemma terminator_cut: "t \<notin> set a \<Longrightarrow> t \<notin> set b \<Longrightarrow> a @ t # u = b @ t # v \<longleftrightarrow> a = b \<and> u = v"
  by (metis split_once_append option.inject prod.inject)

lemma terminated_words_inject:
  assumes "concat (map (\<lambda>x. g x @ [t]) xs) = concat (map (\<lambda>x. g x @ [t]) ys)"
    and "\<And>x. x \<in> set xs \<union> set ys \<Longrightarrow> t \<notin> set (g x)" and "inj_on g (set xs \<union> set ys)"
  shows "xs = ys"
  using assms
proof (induction xs arbitrary: ys)
  case Nil
  then show ?case by (cases ys) auto
next
  case (Cons x xs)
  from Cons.prems(1) obtain y zs where ys: "ys = y # zs" by (cases ys) auto
  have "t \<notin> set (g x)" "t \<notin> set (g y)" using Cons.prems(2) ys by auto
  moreover have "g x @ t # concat (map (\<lambda>x. g x @ [t]) xs) = g y @ t # concat (map (\<lambda>x. g x @ [t]) zs)"
    using Cons.prems(1) ys by simp
  ultimately have "g x = g y" and rest: "concat (map (\<lambda>x. g x @ [t]) xs) = concat (map (\<lambda>x. g x @ [t]) zs)"
    using terminator_cut [of t "g x" "g y"] by simp_all
  moreover have "xs = zs"
  proof (rule Cons.IH [OF rest])
    show "t \<notin> set (g u)" if "u \<in> set xs \<union> set zs" for u using Cons.prems(2) that by (auto simp: ys)
    show "inj_on g (set xs \<union> set zs)" using Cons.prems(3) by (rule inj_on_subset) (auto simp: ys)
  qed
  moreover have "x = y"
    using Cons.prems(3) \<open>g x = g y\<close> by (rule inj_onD) (auto simp: ys)
  ultimately show ?case by (simp add: ys)
qed

text \<open>
  Names without control characters; what the map is about: each system that has platforms, with
  the collection of its platforms.
\<close>

definition plain_name :: "rstr \<Rightarrow> bool" where
  "plain_name s \<longleftrightarrow> list_all (\<lambda>c. 31 < c \<and> c < 128) s"

definition plain_system :: "rom_system \<Rightarrow> bool" where
  "plain_system s \<longleftrightarrow> plain_name (sy_folder_name s) \<and> list_all plain_name (sy_launchbox_platforms s)"

definition platform_claims :: "rom_system list \<Rightarrow> (rstr \<times> rstr multiset) set" where
  "platform_claims xs =
     (\<lambda>s. (sy_folder_name s, mset (sy_launchbox_platforms s))) ` {s \<in> set xs. sy_launchbox_platforms s \<noteq> []}"

definition plain_entry :: "rstr \<times> rstr list \<Rightarrow> bool" where
  "plain_entry e \<longleftrightarrow> plain_name (fst e) \<and> list_all plain_name (snd e)"

lemma utf8_bytes_plain: "plain_name s \<Longrightarrow> utf8_bytes s = map of_nat s"
  by (induction s) (auto simp: plain_name_def utf8_bytes_def utf8_char_def)

lemma plain_bytes: "plain_name s \<Longrightarrow> b \<in> set (utf8_bytes s) \<Longrightarrow> 31 < unat b"
  by (auto simp: utf8_bytes_plain plain_name_def list_all_iff unat_of_nat)

lemma utf8_bytes_inject: "plain_name a \<Longrightarrow> plain_name b \<Longrightarrow> utf8_bytes a = utf8_bytes b \<longleftrightarrow> a = b"
proof -
  assume plain: "plain_name a" "plain_name b"
  have "map unat (utf8_bytes s) = s" if "plain_name s" for s
    using that by (auto simp: utf8_bytes_plain plain_name_def list_all_iff unat_of_nat intro!: map_idI)
  with plain show ?thesis by metis
qed

definition entry_bytes :: "rstr \<times> rstr list \<Rightarrow> u8 list" where
  "entry_bytes = (\<lambda>(folder, platforms). utf8_bytes folder @ 0 # concat (map (\<lambda>p. utf8_bytes p @ [1]) platforms))"

lemma fingerprint_bytes_entries: "fingerprint_bytes xs = concat (map (\<lambda>e. entry_bytes e @ [10]) (fingerprint_entries xs))"
  by (auto simp: fingerprint_bytes_def entry_bytes_def intro!: arg_cong [where f = concat] map_cong)

lemma entry_bytes_no_newline: "plain_entry e \<Longrightarrow> 10 \<notin> set (entry_bytes e)"
proof
  assume plain: "plain_entry e" and newline: "10 \<in> set (entry_bytes e)"
  obtain folder ps where e: "e = (folder, ps)" by fastforce
  from newline consider "10 \<in> set (utf8_bytes folder)" | p where "p \<in> set ps" "10 \<in> set (utf8_bytes p)"
    by (auto simp: e entry_bytes_def split: if_splits)
  then show False
    using plain by cases (auto simp: e plain_entry_def list_all_iff dest!: plain_bytes)
qed

lemma entry_bytes_inject: "plain_entry d \<Longrightarrow> plain_entry e \<Longrightarrow> entry_bytes d = entry_bytes e \<longleftrightarrow> d = e"
proof -
  assume plain: "plain_entry d" "plain_entry e"
  obtain f ps g qs where d: "d = (f, ps)" and e: "e = (g, qs)" by fastforce
  have zero: "0 \<notin> set (utf8_bytes f)" "0 \<notin> set (utf8_bytes g)"
    using plain by (auto simp: d e plain_entry_def dest: plain_bytes)
  have "ps = qs" if "concat (map (\<lambda>p. utf8_bytes p @ [1]) ps) = concat (map (\<lambda>p. utf8_bytes p @ [1]) qs)"
  proof (rule terminated_words_inject [OF that])
    show "1 \<notin> set (utf8_bytes p)" if "p \<in> set ps \<union> set qs" for p
      using plain that by (force simp: d e plain_entry_def list_all_iff dest: plain_bytes)
    show "inj_on utf8_bytes (set ps \<union> set qs)"
      using plain by (intro inj_onI) (auto simp: d e plain_entry_def list_all_iff utf8_bytes_inject)
  qed
  with plain show ?thesis
    by (auto simp: d e entry_bytes_def terminator_cut [OF zero] plain_entry_def utf8_bytes_inject)
qed

lemma set_fingerprint_entries:
  "set (fingerprint_entries xs) = (\<lambda>(folder, m). (folder, sorted_list_of_multiset m)) ` platform_claims xs"
  by (auto simp: fingerprint_entries_def platform_claims_def image_image)

lemma fingerprint_entries_eq:
  assumes "distinct (map sy_folder_name xs)" and "distinct (map sy_folder_name ys)"
  shows "fingerprint_entries xs = fingerprint_entries ys \<longleftrightarrow> platform_claims xs = platform_claims ys"
proof -
  have ordered: "sorted (map fst (fingerprint_entries zs)) \<and> distinct (map fst (fingerprint_entries zs))"
    if "distinct (map sy_folder_name zs)" for zs
  proof -
    let ?pairs = "map (\<lambda>s. (sy_folder_name s, sort (sy_launchbox_platforms s))) (filter (\<lambda>s. sy_launchbox_platforms s \<noteq> []) zs)"
    have "mset (map fst (sort_key fst ?pairs)) = mset (map fst ?pairs)" by (simp only: mset_map mset_sort)
    moreover have "distinct (map fst ?pairs)" using that by (simp add: comp_def distinct_map_filter)
    ultimately have "distinct (map fst (sort_key fst ?pairs))" by (rule mset_eq_imp_distinct_iff [THEN iffD2])
    then show ?thesis by (simp add: fingerprint_entries_def)
  qed
  have "fingerprint_entries xs = fingerprint_entries ys \<longleftrightarrow> set (fingerprint_entries xs) = set (fingerprint_entries ys)"
  proof (intro iffI map_sorted_distinct_set_unique [where f = fst])
    assume eq: "set (fingerprint_entries xs) = set (fingerprint_entries ys)"
    with ordered [OF assms(1)] show "inj_on fst (set (fingerprint_entries xs) \<union> set (fingerprint_entries ys))"
      by (simp add: distinct_map)
  qed (use ordered [OF assms(1)] ordered [OF assms(2)] in auto)
  moreover have "inj (\<lambda>(folder :: rstr, m :: rstr multiset). (folder, sorted_list_of_multiset m))"
    by (rule injI) (auto dest: arg_cong [where f = mset])
  ultimately show ?thesis by (simp add: set_fingerprint_entries inj_image_eq_iff)
qed

lemma fingerprint_bytes_eq:
  assumes "list_all plain_system xs" and "list_all plain_system ys"
  shows "fingerprint_bytes xs = fingerprint_bytes ys \<longleftrightarrow> fingerprint_entries xs = fingerprint_entries ys"
proof
  assume "fingerprint_bytes xs = fingerprint_bytes ys"
  then show "fingerprint_entries xs = fingerprint_entries ys"
    unfolding fingerprint_bytes_entries
  proof (rule terminated_words_inject)
    have plain: "plain_entry e" if "e \<in> set (fingerprint_entries xs) \<union> set (fingerprint_entries ys)" for e
      using that assms by (force simp: fingerprint_entries_def plain_entry_def plain_system_def list_all_iff)
    then show "10 \<notin> set (entry_bytes e)" if "e \<in> set (fingerprint_entries xs) \<union> set (fingerprint_entries ys)" for e
      using that entry_bytes_no_newline by blast
    show "inj_on entry_bytes (set (fingerprint_entries xs) \<union> set (fingerprint_entries ys))"
      using plain by (intro inj_onI) (simp add: entry_bytes_inject)
  qed
qed (simp add: fingerprint_bytes_entries)



end
