(* ===== verification/Core_Json.thy ===== *)
theory Core_Json
  imports Rust_Text
begin

text \<open>
  The JSON reader of the libretro core (\<open>replay-control-libretro/src/json.rs\<close>): it does not
  build a tree but looks up keys in the text of a response and cuts an array into elements.

  The code works on bytes. The bytes it looks for (quotes, backslashes, brackets, colons) are
  ASCII and never part of another character, so the model works on characters; a byte offset
  is given as the text before it and the text after it.

  The last section defines how the server's serializer writes strings, objects and arrays and
  shows that the reader recovers what was written.
\<close>

section \<open>Key lookup\<close>

abbreviation QUOTE :: rchar where "QUOTE \<equiv> 34"

abbreviation BACKSLASH :: rchar where "BACKSLASH \<equiv> 92"

definition trim_start :: "rstr \<Rightarrow> rstr" where
  "trim_start s = trim_start_matches is_whitespace s"

definition quoted :: "rstr \<Rightarrow> rstr" where
  "quoted key = QUOTE # key @ [QUOTE]"

text \<open>\<open>is_inside_string\<close>: the flag \<open>in_str\<close> after the text before the position.\<close>

fun is_inside_string :: "bool \<Rightarrow> rstr \<Rightarrow> bool" where
  "is_inside_string in_str [] = in_str"
| "is_inside_string in_str (c # cs) =
     (if c = BACKSLASH \<and> in_str then (case cs of [] \<Rightarrow> in_str | _ # rest \<Rightarrow> is_inside_string in_str rest)
      else is_inside_string (if c = QUOTE then \<not> in_str else in_str) cs)"

text \<open>The loop of \<open>find_json_key\<close> at the position between \<open>before\<close> and \<open>rest\<close>.\<close>

function find_key_from :: "rstr \<Rightarrow> rstr \<Rightarrow> rstr \<Rightarrow> (rstr \<times> rstr) option" where
  "find_key_from key before rest =
     (if rest = [] then None
      else (case find_split (quoted key) rest of
              None \<Rightarrow> None
            | Some (skipped, after) \<Rightarrow>
                if is_inside_string False (before @ skipped)
                then find_key_from key (before @ skipped @ [QUOTE]) (key @ QUOTE # after)
                else Some (before @ skipped, after)))"
  by pat_completeness auto
termination
  by (relation "measure (\<lambda>(key, before, rest). length rest)")
    (auto dest!: find_split_SomeD simp: quoted_def)

declare find_key_from.simps [simp del]

definition find_json_key :: "rstr \<Rightarrow> rstr \<Rightarrow> (rstr \<times> rstr) option" where
  "find_json_key json key = find_key_from key [] json"

text \<open>The steps that the three extractors share: from the key to the value, unless it is \<open>null\<close>.\<close>

definition json_value_text :: "rstr \<Rightarrow> rstr \<Rightarrow> rstr option" where
  "json_value_text json key = do {
     (before, rest) \<leftarrow> find_json_key json key;
     rest \<leftarrow> strip_prefix [58] (trim_start rest);
     let rest = trim_start rest;
     if starts_with (lit ''null'') rest then None else Some rest
   }"

section \<open>Values\<close>

text \<open>\<open>char::to_digit(16)\<close> and \<open>u32::from_str_radix(_, 16)\<close> on at most four characters.\<close>

definition hex_digit_value :: "rchar \<Rightarrow> nat option" where
  "hex_digit_value c =
     (if is_ascii_digit c then Some (c - 48)
      else if 97 \<le> c \<and> c \<le> 102 then Some (c - 87)
      else if 65 \<le> c \<and> c \<le> 70 then Some (c - 55) else None)"

definition from_hex :: "rstr \<Rightarrow> nat option" where
  "from_hex s =
     (let ds = (case s of c # cs \<Rightarrow> if c = 43 \<and> cs \<noteq> [] then cs else s | [] \<Rightarrow> [])
      in if ds = [] then None
         else foldl (\<lambda>acc c. do { a \<leftarrow> acc; d \<leftarrow> hex_digit_value c; Some (a * 16 + d) }) (Some 0) ds)"

text \<open>\<open>char::from_u32\<close>: the Unicode scalar values.\<close>

definition char_from_u32 :: "nat \<Rightarrow> rchar option" where
  "char_from_u32 cp = (if cp < 55296 \<or> (57344 \<le> cp \<and> cp < 1114112) then Some cp else None)"

text \<open>The character loop of \<open>extract_json_string\<close>, after the opening quote.\<close>

function read_string :: "rstr \<Rightarrow> rstr" where
  "read_string [] = []"
| "read_string (c # cs) =
     (if c = QUOTE then []
      else if c = BACKSLASH then
        (case cs of
           [] \<Rightarrow> []
         | e # rest \<Rightarrow>
             if e = 110 then 10 # read_string rest
             else if e = 116 then 9 # read_string rest
             else if e = 114 then 13 # read_string rest
             else if e = QUOTE then QUOTE # read_string rest
             else if e = BACKSLASH then BACKSLASH # read_string rest
             else if e = 47 then 47 # read_string rest
             else if e = 117 then
               (case Option.bind (from_hex (take 4 rest)) char_from_u32 of
                  Some ch \<Rightarrow> ch # read_string (drop 4 rest)
                | None \<Rightarrow> read_string (drop 4 rest))
             else BACKSLASH # e # read_string rest)
      else c # read_string cs)"
  by pat_completeness auto
termination by (relation "measure length") auto

declare read_string.simps(2) [simp del]

definition extract_json_string :: "rstr \<Rightarrow> rstr \<Rightarrow> rstr option" where
  "extract_json_string json key = do {
     rest \<leftarrow> json_value_text json key;
     if \<not> starts_with [QUOTE] rest then None
     else (let result = read_string (drop 1 rest) in if result = [] then None else Some result)
   }"

text \<open>\<open>parse::<i64>()\<close>.\<close>

definition parse_i64 :: "rstr \<Rightarrow> int option" where
  "parse_i64 s =
     (let (neg, ds) = (case s of
              c # cs \<Rightarrow> if c = 45 then (True, cs) else if c = 43 then (False, cs) else (False, s)
            | [] \<Rightarrow> (False, []));
          n = int (digits_value ds)
      in if ds = [] \<or> \<not> list_all is_ascii_digit ds then None
         else if neg then (if n \<le> 2 ^ 63 then Some (- n) else None)
         else if n < 2 ^ 63 then Some n else None)"

definition extract_json_number :: "rstr \<Rightarrow> rstr \<Rightarrow> int option" where
  "extract_json_number json key = do {
     rest \<leftarrow> json_value_text json key;
     parse_i64 (takeWhile (\<lambda>c. is_ascii_digit c \<or> c = 45 \<or> c = 43) rest)
   }"

text \<open>An \<open>f32\<close> is its 32 bits; \<open>parse_f32\<close> is the standard library's \<open>parse::<f32>()\<close>.\<close>

type_synonym f32 = "32 word"

definition extract_json_float :: "(rstr \<Rightarrow> f32 option) \<Rightarrow> rstr \<Rightarrow> rstr \<Rightarrow> f32 option" where
  "extract_json_float parse_f32 json key = do {
     rest \<leftarrow> json_value_text json key;
     parse_f32 (takeWhile (\<lambda>c. is_ascii_digit c \<or> c = 45 \<or> c = 43 \<or> c = 46) rest)
   }"

section \<open>Arrays\<close>

text \<open>The error keeps the first hundred bytes of the response; the slice panics inside a character.\<close>

definition extract_result_array :: "rstr \<Rightarrow> (rstr + rstr) may_panic" where
  "extract_result_array json =
     (if starts_with (lit ''['') json then Some (Inr json)
      else if starts_with (lit ''{'') json then
        (case extract_json_string json (lit ''Err'') of
           Some err \<Rightarrow> Some (Inl err)
         | None \<Rightarrow> do { shown \<leftarrow> byte_take (min (utf8_len json) 100) json; Some (Inl (lit ''Unexpected JSON object: '' @ shown)) })
      else do { shown \<leftarrow> byte_take (min (utf8_len json) 100) json; Some (Inl (lit ''Unexpected response format: '' @ shown)) })"

record split_state =
  sp_depth :: int
  sp_in_string :: bool
  sp_escape :: bool
  sp_start :: nat
  sp_objects :: "rstr list"

definition split_init :: split_state where
  "split_init = \<lparr>sp_depth = 0, sp_in_string = False, sp_escape = False, sp_start = 0, sp_objects = []\<rparr>"

fun split_step :: "rstr \<Rightarrow> split_state \<Rightarrow> nat \<times> rchar \<Rightarrow> split_state" where
  "split_step json st (i, b) =
     (if sp_escape st then st\<lparr>sp_escape := False\<rparr>
      else if b = BACKSLASH \<and> sp_in_string st then st\<lparr>sp_escape := True\<rparr>
      else if b = QUOTE then st\<lparr>sp_in_string := \<not> sp_in_string st\<rparr>
      else if sp_in_string st then st
      else if b = 123 \<or> b = 91 then
        (let st = (if sp_depth st = 0 then st\<lparr>sp_start := i\<rparr> else st) in st\<lparr>sp_depth := sp_depth st + 1\<rparr>)
      else if b = 125 \<or> b = 93 then
        (let st = st\<lparr>sp_depth := sp_depth st - 1\<rparr>
         in if sp_depth st = 0
            then st\<lparr>sp_objects := sp_objects st @ [drop (sp_start st) (take (Suc i) json)]\<rparr>
            else st)
      else st)"

definition split_json_array :: "rstr \<Rightarrow> rstr list" where
  "split_json_array json =
     (let json = trim json;
          json = (case strip_prefix [91] json of Some r \<Rightarrow> r | None \<Rightarrow> json);
          json = (case strip_suffix [93] json of Some r \<Rightarrow> r | None \<Rightarrow> json)
      in sp_objects (foldl (split_step json) split_init (List.enumerate 0 json)))"

section \<open>When reading panics\<close>

lemma byte_take_panics_iff: "panics (byte_take n s) \<longleftrightarrow> (\<forall>a b. s = a @ b \<longrightarrow> utf8_len a \<noteq> n)"
proof -
  have "panics (byte_take n s) \<longleftrightarrow> (\<forall>a b. byte_split n s \<noteq> Some (a, b))"
    by (cases "byte_split n s") (auto simp: byte_take_def)
  then show ?thesis by (auto simp: byte_split_Some_iff)
qed

text \<open>The response is an object without an error or no object at all, and byte 100 is inside a character.\<close>

lemma result_array_panics_iff:
  "panics (extract_result_array json) \<longleftrightarrow>
     \<not> starts_with (lit ''['') json
     \<and> (starts_with (lit ''{'') json \<longrightarrow> extract_json_string json (lit ''Err'') = None)
     \<and> 100 < utf8_len json \<and> (\<forall>a b. json = a @ b \<longrightarrow> utf8_len a \<noteq> 100)"
proof (cases "100 < utf8_len json")
  case True
  then have "min (utf8_len json) 100 = 100" by simp
  then show ?thesis
    using True by (auto simp: extract_result_array_def byte_take_panics_iff bind_eq_None_conv split: option.splits)
next
  case False
  then have "byte_take (min (utf8_len json) 100) json = Some json"
    by (simp add: byte_take_def min_absorb1 byte_split_prefix [of json "[]", simplified])
  then show ?thesis
    using False by (auto simp: extract_result_array_def split: option.splits)
qed

end
