(* ===== verification/Core_Json_Text.thy ===== *)
theory Core_Json_Text
  imports Core_Json
begin

text \<open>
  The text that the server's serializer (\<open>serde_json\<close>, compact form) produces for strings,
  flat objects and arrays of them, and the lemmas that the libretro core's reader
  (\<open>Core_Json\<close>) recovers what was written: keys are found outside string values only, values are
  unescaped, arrays are cut at their elements.

  The writer below is a specification, not code of this repository: RFC 8259 escapes, with the
  short forms for the characters that have one.
\<close>

section \<open>The writer\<close>

definition hex_char :: "nat \<Rightarrow> rchar" where
  "hex_char n = (if n < 10 then 48 + n else 87 + n)"

definition escape_char :: "rchar \<Rightarrow> rstr" where
  "escape_char c =
     (if c = QUOTE then [BACKSLASH, QUOTE]
      else if c = BACKSLASH then [BACKSLASH, BACKSLASH]
      else if c = 8 then [BACKSLASH, 98]
      else if c = 9 then [BACKSLASH, 116]
      else if c = 10 then [BACKSLASH, 110]
      else if c = 12 then [BACKSLASH, 102]
      else if c = 13 then [BACKSLASH, 114]
      else if c < 32 then [BACKSLASH, 117, 48, 48, hex_char (c div 16), hex_char (c mod 16)]
      else [c])"

definition escape :: "rstr \<Rightarrow> rstr" where
  "escape v = concat (map escape_char v)"

datatype json_value = JNull | JString rstr | JNumber rstr

fun value_text :: "json_value \<Rightarrow> rstr" where
  "value_text JNull = lit ''null''"
| "value_text (JString v) = QUOTE # escape v @ [QUOTE]"
| "value_text (JNumber n) = n"

definition field_text :: "rstr \<times> json_value \<Rightarrow> rstr" where
  "field_text f = quoted (fst f) @ [58] @ value_text (snd f)"

definition object_text :: "(rstr \<times> json_value) list \<Rightarrow> rstr" where
  "object_text fs = [123] @ join [44] (map field_text fs) @ [125]"

definition array_text :: "rstr list \<Rightarrow> rstr" where
  "array_text objs = [91] @ join [44] objs @ [93]"

text \<open>Keys are plain; numbers have no quote, bracket or backslash; strings avoid U+0008 and U+000C.\<close>

definition plain_key :: "rstr \<Rightarrow> bool" where
  "plain_key k \<longleftrightarrow> list_all (\<lambda>c. 32 \<le> c \<and> c \<noteq> QUOTE \<and> c \<noteq> BACKSLASH) k"

definition plain_number :: "rstr \<Rightarrow> bool" where
  "plain_number n \<longleftrightarrow> n \<noteq> [] \<and> list_all (\<lambda>c. is_ascii_digit c \<or> c \<in> {43, 45, 46, 101}) n"

definition readable :: "rstr \<Rightarrow> bool" where
  "readable v \<longleftrightarrow> 8 \<notin> set v \<and> 12 \<notin> set v"

fun value_ok :: "json_value \<Rightarrow> bool" where
  "value_ok JNull = True"
| "value_ok (JString v) = True"
| "value_ok (JNumber n) = plain_number n"

lemma escape_Nil [simp]: "escape [] = []"
  by (simp add: escape_def)

lemma escape_Cons [simp]: "escape (c # v) = escape_char c @ escape v"
  by (simp add: escape_def)

section \<open>Strings are read back\<close>

lemma hex_digit_value_hex_char: "n < 16 \<Longrightarrow> hex_digit_value (hex_char n) = Some n"
  by (auto simp: hex_digit_value_def hex_char_def is_ascii_digit_def)

lemma from_hex_control: "c < 32 \<Longrightarrow> from_hex [48, 48, hex_char (c div 16), hex_char (c mod 16)] = Some c"
  by (simp add: from_hex_def hex_digit_value_hex_char hex_digit_value_def [of 48] is_ascii_digit_def)

lemma read_escape_char:
  assumes "c \<noteq> 8" and "c \<noteq> 12"
  shows "read_string (escape_char c @ s) = c # read_string s"
proof (cases "c < 32 \<and> c \<notin> {9, 10, 13}")
  case True
  then have "escape_char c = [BACKSLASH, 117, 48, 48, hex_char (c div 16), hex_char (c mod 16)]"
    using assms by (auto simp: escape_char_def)
  moreover have "char_from_u32 c = Some c" using True by (simp add: char_from_u32_def)
  ultimately show ?thesis
    using True by (simp add: read_string.simps(2) from_hex_control)
next
  case False
  then show ?thesis
    using assms by (auto simp: escape_char_def read_string.simps(2))
qed

lemma read_escaped: "readable v \<Longrightarrow> read_string (escape v @ QUOTE # s) = v"
  by (induction v) (auto simp: readable_def read_escape_char read_string.simps(2))

section \<open>Keys are found\<close>

text \<open>Being inside a string, as an automaton: the flag and whether a backslash is pending.\<close>

fun string_state :: "bool \<times> bool \<Rightarrow> rchar \<Rightarrow> bool \<times> bool" where
  "string_state (ins, esc) c =
     (if esc then (ins, False)
      else if c = BACKSLASH \<and> ins then (ins, True)
      else if c = QUOTE then (\<not> ins, False) else (ins, False))"

abbreviation state_after :: "rstr \<Rightarrow> bool \<times> bool" where
  "state_after s \<equiv> foldl string_state (False, False) s"

lemma inside_state: "is_inside_string ins s = fst (foldl string_state (ins, False) s)"
proof (induction ins s rule: is_inside_string.induct)
  case (2 ins c cs)
  then show ?case by (cases cs) auto
qed simp

lemma find_key_step:
  "find_key_from key before (c # rest) =
     (if prefix (quoted key) (c # rest) \<and> \<not> fst (state_after before)
      then Some (before, drop (length (quoted key)) (c # rest))
      else find_key_from key (before @ [c]) rest)"
proof (cases "prefix (quoted key) (c # rest)")
  case True
  then obtain after where "c # rest = quoted key @ after" by (auto simp: prefix_def)
  then have c: "c = QUOTE" and rest: "rest = key @ QUOTE # after" by (simp_all add: quoted_def)
  have "find_split (quoted key) (c # rest) = Some ([], after)"
    using c rest by (simp add: quoted_def)
  then show ?thesis
    using True c rest
    by (simp add: find_key_from.simps [of key before "QUOTE # key @ QUOTE # after"] inside_state quoted_def)
next
  case False
  then have split: "find_split (quoted key) (c # rest) = map_option (map_prod ((#) c) id) (find_split (quoted key) rest)"
    by simp
  show ?thesis
    unfolding find_key_from.simps [of key before "c # rest"] find_key_from.simps [of key "before @ [c]" rest] split
    using False by (cases "find_split (quoted key) rest"; cases "rest = []") (auto simp: quoted_def)
qed

text \<open>Text is skipped while inside a string, and while no quote occurs.\<close>

lemma skip_plain:
  "QUOTE \<notin> set a \<Longrightarrow> state_after before = (False, False) \<Longrightarrow>
   find_key_from key before (a @ rest) = find_key_from key (before @ a) rest \<and> state_after (before @ a) = (False, False)"
proof (induction a arbitrary: before)
  case (Cons c a)
  then have "\<not> prefix (quoted key) (c # a @ rest)" by (auto simp: quoted_def)
  moreover have "state_after (before @ [c]) = (False, False)" using Cons.prems by auto
  ultimately show ?case using Cons.IH [of "before @ [c]"] Cons.prems by (simp add: find_key_step)
qed simp

lemma skip_step: "fst (state_after before) \<Longrightarrow> find_key_from key before (c # rest) = find_key_from key (before @ [c]) rest"
  by (simp add: find_key_step)

lemma hex_char_plain: "hex_char n \<noteq> QUOTE" "n < 16 \<Longrightarrow> hex_char n \<noteq> BACKSLASH"
  by (auto simp: hex_char_def)

lemma skip_escape_char:
  assumes "state_after before = (True, False)"
  shows "find_key_from key before (escape_char c @ rest) = find_key_from key (before @ escape_char c) rest
     \<and> state_after (before @ escape_char c) = (True, False)"
  using assms by (simp add: escape_char_def skip_step hex_char_plain)

lemma skip_escaped:
  "state_after before = (True, False) \<Longrightarrow>
   find_key_from key before (escape v @ rest) = find_key_from key (before @ escape v) rest
   \<and> state_after (before @ escape v) = (True, False)"
proof (induction v arbitrary: before)
  case (Cons c v)
  then show ?case
    using skip_escape_char [OF Cons.prems, of key c "escape v @ rest"] Cons.IH [of "before @ escape_char c"] by simp
qed simp

lemma quoted_prefix_escaped:
  assumes "plain_key key" and "prefix (key @ [QUOTE]) (escape v @ QUOTE # rest)"
  shows "v = key"
  using assms
proof (induction v arbitrary: key)
  case Nil
  then show ?case by (cases key) (auto simp: plain_key_def)
next
  case (Cons c v)
  have short: "escape_char c = [c] \<and> 32 \<le> c \<and> c \<noteq> QUOTE \<and> c \<noteq> BACKSLASH \<or> (\<exists>t. escape_char c = BACKSLASH # t)"
    by (auto simp: escape_char_def)
  obtain d k where key: "key = d # k" using short Cons.prems(2) by (cases key) auto
  then have "d \<noteq> BACKSLASH" using Cons.prems(1) by (auto simp: plain_key_def)
  then have "escape_char c = [c]" using short Cons.prems(2) key by auto
  then show ?case using Cons.IH [of k] Cons.prems key by (auto simp: plain_key_def)
qed

lemma skip_string:
  assumes "state_after before = (False, False)" and "plain_key key" and "v \<noteq> key"
  shows "find_key_from key before ((QUOTE # escape v @ [QUOTE]) @ rest) = find_key_from key (before @ QUOTE # escape v @ [QUOTE]) rest
     \<and> state_after (before @ QUOTE # escape v @ [QUOTE]) = (False, False)"
proof -
  have "\<not> prefix (quoted key) (QUOTE # escape v @ QUOTE # rest)"
    using quoted_prefix_escaped [OF assms(2), of v rest] assms(3) by (auto simp: quoted_def)
  then have first: "find_key_from key before (QUOTE # escape v @ QUOTE # rest) = find_key_from key (before @ [QUOTE]) (escape v @ QUOTE # rest)"
    by (simp add: find_key_step)
  have st: "state_after (before @ [QUOTE]) = (True, False)" using assms(1) by simp
  note mid = skip_escaped [OF st, of key v "QUOTE # rest"]
  then have "find_key_from key ((before @ [QUOTE]) @ escape v) (QUOTE # rest)
      = find_key_from key (((before @ [QUOTE]) @ escape v) @ [QUOTE]) rest"
    by (intro skip_step) simp
  then show ?thesis using first mid by simp
qed

lemma escape_plain_key: "plain_key k \<Longrightarrow> escape k = k"
  by (induction k) (auto simp: plain_key_def escape_char_def)

lemma skip_value:
  assumes "state_after before = (False, False)" and "plain_key key" and "value_ok v" and "v \<noteq> JString key"
  shows "find_key_from key before (value_text v @ rest) = find_key_from key (before @ value_text v) rest
     \<and> state_after (before @ value_text v) = (False, False)"
proof (cases v)
  case (JString w)
  then show ?thesis using skip_string [OF assms(1,2), of w rest] assms(4) by auto
next
  case JNull
  then show ?thesis using skip_plain [OF _ assms(1), of "lit ''null''" key rest] by (simp add: lit_def)
next
  case (JNumber n)
  then have "QUOTE \<notin> set n" using assms(3) by (auto simp: plain_number_def list_all_iff is_ascii_digit_def)
  then show ?thesis using skip_plain [OF _ assms(1)] JNumber by simp
qed

lemma skip_field:
  assumes "state_after before = (False, False)" and "plain_key key" and "plain_key k" and "k \<noteq> key"
    and "value_ok v" and "v \<noteq> JString key"
  shows "find_key_from key before (field_text (k, v) @ rest) = find_key_from key (before @ field_text (k, v)) rest
     \<and> state_after (before @ field_text (k, v)) = (False, False)"
proof -
  have q: "quoted k = QUOTE # escape k @ [QUOTE]" using assms(3) by (simp add: quoted_def escape_plain_key)
  note s1 = skip_string [OF assms(1,2,4), of "58 # value_text v @ rest"]
  then have st1: "state_after (before @ quoted k) = (False, False)" by (simp add: q)
  note s2 = skip_plain [of "[58]", OF _ st1, of key "value_text v @ rest"]
  then have st2: "state_after (before @ quoted k @ [58]) = (False, False)" by simp
  note s3 = skip_value [OF st2 assms(2,5,6), of rest]
  show ?thesis using s1 s2 s3 by (simp add: field_text_def q)
qed

text \<open>The fields before the wanted one are skipped.\<close>

definition fields_ok :: "(rstr \<times> json_value) list \<Rightarrow> bool" where
  "fields_ok fs \<longleftrightarrow> list_all (\<lambda>f. plain_key (fst f) \<and> value_ok (snd f)) fs"

definition unambiguous :: "(rstr \<times> json_value) list \<Rightarrow> rstr \<Rightarrow> bool" where
  "unambiguous fs key \<longleftrightarrow> list_all (\<lambda>f. fst f \<noteq> key \<and> snd f \<noteq> JString key) fs"

lemma skip_fields:
  "state_after before = (False, False) \<Longrightarrow> plain_key key \<Longrightarrow> fields_ok fs \<Longrightarrow> unambiguous fs key \<Longrightarrow>
   \<exists>before'. find_key_from key before (concat (map (\<lambda>f. field_text f @ [44]) fs) @ rest) = find_key_from key before' rest
     \<and> state_after before' = (False, False)"
proof (induction fs arbitrary: before)
  case (Cons f fs)
  obtain k v where f: "f = (k, v)" by (cases f)
  note s1 = skip_field [of before key k v "[44] @ concat (map (\<lambda>f. field_text f @ [44]) fs) @ rest"]
  have one: "find_key_from key before (field_text f @ [44] @ concat (map (\<lambda>f. field_text f @ [44]) fs) @ rest)
      = find_key_from key (before @ field_text f) ([44] @ concat (map (\<lambda>f. field_text f @ [44]) fs) @ rest)"
    and st1: "state_after (before @ field_text f) = (False, False)"
    using s1 Cons.prems f by (auto simp: fields_ok_def unambiguous_def)
  note s2 = skip_plain [of "[44]", OF _ st1, of key "concat (map (\<lambda>f. field_text f @ [44]) fs) @ rest"]
  then obtain before' where "find_key_from key (before @ field_text f @ [44]) (concat (map (\<lambda>f. field_text f @ [44]) fs) @ rest)
      = find_key_from key before' rest" "state_after before' = (False, False)"
    using Cons.IH [of "before @ field_text f @ [44]"] Cons.prems by (auto simp: fields_ok_def unambiguous_def)
  then show ?case using one s2 by auto
qed auto

lemma join_comma: "join [c] (map g (fs @ f # gs)) = concat (map (\<lambda>f. g f @ [c]) fs) @ join [c] (map g (f # gs))"
proof (induction fs)
  case (Cons a fs)
  then show ?case by (cases fs) auto
qed simp

lemma join_first: "\<exists>t. join [c] (map g (f # gs)) = g f @ t \<and> (gs = [] \<longrightarrow> t = []) \<and> (gs \<noteq> [] \<longrightarrow> (\<exists>u. t = c # u))"
  by (cases gs) auto

lemma find_field:
  assumes "plain_key key" and "fields_ok fs" and "unambiguous fs key"
  shows "\<exists>before t. find_json_key (object_text (fs @ (key, v) # gs)) key = Some (before, 58 # value_text v @ t)
     \<and> (\<exists>u. t = 44 # u \<or> t = 125 # u)"
proof -
  obtain t where t: "join [44] (map field_text ((key, v) # gs)) = field_text (key, v) @ t"
    and finish: "gs = [] \<longrightarrow> t = []" "gs \<noteq> [] \<longrightarrow> (\<exists>u. t = 44 # u)"
    using join_first [of 44 field_text "(key, v)" gs] by blast
  let ?rest = "field_text (key, v) @ t @ [125]"
  have written: "object_text (fs @ (key, v) # gs) = 123 # concat (map (\<lambda>f. field_text f @ [44]) fs) @ ?rest"
    using t join_comma [of 44 field_text fs "(key, v)" gs] by (simp add: object_text_def)
  have st: "state_after [123] = (False, False)" by simp
  have open_brace: "find_json_key (object_text (fs @ (key, v) # gs)) key
      = find_key_from key [123] (concat (map (\<lambda>f. field_text f @ [44]) fs) @ ?rest)"
    using skip_plain [of "[123]" "[]" key] by (simp add: find_json_key_def written)
  obtain before' where skipped: "find_key_from key [123] (concat (map (\<lambda>f. field_text f @ [44]) fs) @ ?rest)
      = find_key_from key before' ?rest" "state_after before' = (False, False)"
    using skip_fields [OF st assms] by blast
  have "?rest = QUOTE # key @ QUOTE # 58 # value_text v @ t @ [125]"
    by (simp add: field_text_def quoted_def)
  then have "find_key_from key before' ?rest = Some (before', 58 # value_text v @ t @ [125])"
    using skipped(2) by (simp add: find_key_step quoted_def)
  moreover have "\<exists>u. t @ [125] = 44 # u \<or> t @ [125] = 125 # u" using finish by (cases gs) auto
  ultimately show ?thesis using open_brace skipped(1) by auto
qed


section \<open>Fields are read back\<close>

fun field_string :: "json_value \<Rightarrow> rstr option" where
  "field_string (JString v) = (if v = [] then None else Some v)"
| "field_string _ = None"

lemma trim_start_id: "s \<noteq> [] \<Longrightarrow> \<not> is_whitespace (hd s) \<Longrightarrow> trim_start s = s"
  by (cases s) (auto simp: trim_start_def trim_start_matches_def)

lemma value_not_white: "value_ok v \<Longrightarrow> value_text v \<noteq> [] \<and> \<not> is_whitespace (hd (value_text v))"
proof (cases v)
  case (JNumber n)
  moreover assume "value_ok v"
  ultimately obtain c t where "n = c # t" and "is_ascii_digit c \<or> c \<in> {43, 45, 46, 101}"
    by (cases n) (auto simp: plain_number_def)
  then show ?thesis using JNumber by (auto simp: is_whitespace_def is_ascii_digit_def)
qed (simp_all add: lit_def is_whitespace_def)

lemma value_of_field:
  assumes "plain_key key" and "fields_ok fs" and "unambiguous fs key" and "value_ok v"
  shows "\<exists>t. json_value_text (object_text (fs @ (key, v) # gs)) key =
            (if starts_with (lit ''null'') (value_text v @ t) then None else Some (value_text v @ t))
          \<and> (\<exists>u. t = 44 # u \<or> t = 125 # u)"
proof -
  obtain before t where found: "find_json_key (object_text (fs @ (key, v) # gs)) key = Some (before, 58 # value_text v @ t)"
    and t: "\<exists>u. t = 44 # u \<or> t = 125 # u"
    using find_field [OF assms(1-3)] by blast
  have "trim_start (58 # value_text v @ t) = 58 # value_text v @ t"
    by (rule trim_start_id) (simp_all add: is_whitespace_def)
  moreover have "trim_start (value_text v @ t) = value_text v @ t"
    using value_not_white [OF assms(4)] by (intro trim_start_id) auto
  moreover have "strip_prefix [58] (58 # value_text v @ t) = Some (value_text v @ t)"
    using strip_prefix_append [of "[58]"] by simp
  ultimately have "json_value_text (object_text (fs @ (key, v) # gs)) key =
      (if starts_with (lit ''null'') (value_text v @ t) then None else Some (value_text v @ t))"
    using found by (simp add: json_value_text_def Let_def)
  then show ?thesis using t by blast
qed

lemma extract_field:
  assumes "plain_key key" and "fields_ok fs" and "unambiguous fs key" and "value_ok v"
    and "\<forall>w. v = JString w \<longrightarrow> readable w" and "\<forall>n. v \<noteq> JNumber n"
  shows "extract_json_string (object_text (fs @ (key, v) # gs)) key = field_string v"
proof -
  obtain t where val: "json_value_text (object_text (fs @ (key, v) # gs)) key =
      (if starts_with (lit ''null'') (value_text v @ t) then None else Some (value_text v @ t))"
    using value_of_field [OF assms(1-4)] by blast
  show ?thesis
  proof (cases v)
    case JNull
    then show ?thesis using val by (simp add: extract_json_string_def starts_with_def)
  next
    case (JString w)
    then have "\<not> starts_with (lit ''null'') (value_text v @ t)" by (auto simp: starts_with_def lit_def)
    then show ?thesis
      using val JString assms(5) by (simp add: extract_json_string_def starts_with_def read_escaped)
  next
    case (JNumber n)
    then show ?thesis using assms(6) by blast
  qed
qed

lemma plain_number_digits: "plain_number (nat_to_str n)"
  using nat_to_str_digits [of n] by (auto simp: plain_number_def list_all_iff)

lemma extract_number_field:
  assumes "plain_key key" and "fields_ok fs" and "unambiguous fs key" and "n < 2 ^ 63"
  shows "extract_json_number (object_text (fs @ (key, JNumber (nat_to_str n)) # gs)) key = Some (int n)"
proof -
  let ?d = "nat_to_str n"
  have ok: "value_ok (JNumber ?d)" by (simp add: plain_number_digits)
  obtain t where val: "json_value_text (object_text (fs @ (key, JNumber ?d) # gs)) key =
      (if starts_with (lit ''null'') (?d @ t) then None else Some (?d @ t))"
    and t: "\<exists>u. t = 44 # u \<or> t = 125 # u"
    using value_of_field [OF assms(1-3) ok, of gs] by (simp only: value_text.simps) blast
  have digits: "list_all is_ascii_digit ?d" by (rule nat_to_str_digits)
  obtain d ds where d: "?d = d # ds" by (cases ?d) auto
  then have dd: "is_ascii_digit d" using digits by simp
  then have "\<not> starts_with (lit ''null'') (?d @ t)" using d by (auto simp: starts_with_def lit_def is_ascii_digit_def)
  moreover have "takeWhile (\<lambda>c. is_ascii_digit c \<or> c = 45 \<or> c = 43) (?d @ t) = ?d"
    using digits t by (auto simp: list_all_iff is_ascii_digit_def)
  moreover have "parse_i64 ?d = Some (int n)"
    using dd digits assms(4) digits_value_nat_to_str [of n] unfolding d
    by (simp add: parse_i64_def) (auto simp: is_ascii_digit_def)
  ultimately show ?thesis using val by (simp add: extract_json_number_def)
qed

lemma extract_float_field:
  assumes "plain_key key" and "fields_ok fs" and "unambiguous fs key"
    and "n \<noteq> []" and "list_all (\<lambda>c. is_ascii_digit c \<or> c = 46) n"
  shows "extract_json_float parse_f32 (object_text (fs @ (key, JNumber n) # gs)) key = parse_f32 n"
proof -
  have ok: "value_ok (JNumber n)" using assms(4,5) by (auto simp: plain_number_def list_all_iff)
  obtain t where val: "json_value_text (object_text (fs @ (key, JNumber n) # gs)) key =
      (if starts_with (lit ''null'') (n @ t) then None else Some (n @ t))"
    and t: "\<exists>u. t = 44 # u \<or> t = 125 # u"
    using value_of_field [OF assms(1-3) ok, of gs] by (simp only: value_text.simps) blast
  obtain d ds where d: "n = d # ds" using assms(4) by (cases n) auto
  then have "\<not> starts_with (lit ''null'') (n @ t)"
    using assms(5) by (auto simp: starts_with_def lit_def is_ascii_digit_def)
  moreover have "takeWhile (\<lambda>c. is_ascii_digit c \<or> c = 45 \<or> c = 43 \<or> c = 46) (n @ t) = n"
    by (subst takeWhile_append2) (use assms(5) t in \<open>auto simp: list_all_iff is_ascii_digit_def\<close>)
  ultimately show ?thesis using val by (simp add: extract_json_float_def)
qed

text \<open>
  The same for any field of an object whose keys are distinct and none of whose strings is the
  name of a field.
\<close>

definition clean_fields :: "(rstr \<times> json_value) list \<Rightarrow> bool" where
  "clean_fields fs \<longleftrightarrow> fields_ok fs \<and> distinct (map fst fs) \<and>
     list_all (\<lambda>f. list_all (\<lambda>k. snd f \<noteq> JString k) (map fst fs)) fs"

lemma clean_split:
  assumes "clean_fields fs" and "(k, v) \<in> set fs"
  shows "\<exists>a b. fs = a @ (k, v) # b \<and> plain_key k \<and> fields_ok a \<and> unambiguous a k \<and> value_ok v"
proof -
  obtain a b where fs: "fs = a @ (k, v) # b" using split_list [OF assms(2)] by blast
  have "unambiguous a k"
    using assms(1) fs by (force simp: clean_fields_def unambiguous_def list_all_iff)
  then show ?thesis using fs assms(1) by (auto simp: clean_fields_def fields_ok_def)
qed

lemma clean_string:
  assumes "clean_fields fs" and "(k, v) \<in> set fs" and "\<forall>w. v = JString w \<longrightarrow> readable w" and "\<forall>n. v \<noteq> JNumber n"
  shows "extract_json_string (object_text fs) k = field_string v"
  using clean_split [OF assms(1,2)] extract_field assms(3,4) by blast

lemma clean_number:
  assumes "clean_fields fs" and "(k, JNumber (nat_to_str n)) \<in> set fs" and "n < 2 ^ 63"
  shows "extract_json_number (object_text fs) k = Some (int n)"
  using clean_split [OF assms(1,2)] extract_number_field assms(3) by blast

lemma clean_float:
  assumes "clean_fields fs" and "(k, JNumber n) \<in> set fs" and "n \<noteq> []" and "list_all (\<lambda>c. is_ascii_digit c \<or> c = 46) n"
  shows "extract_json_float parse_f32 (object_text fs) k = parse_f32 n"
  using clean_split [OF assms(1,2)] extract_float_field assms(3,4) by blast

lemma clean_null_float:
  assumes "clean_fields fs" and "(k, JNull) \<in> set fs"
  shows "extract_json_float parse_f32 (object_text fs) k = None"
proof -
  obtain a b where ab: "fs = a @ (k, JNull) # b" "plain_key k" "fields_ok a" "unambiguous a k"
    using clean_split [OF assms] by blast
  then show ?thesis
    using value_of_field [OF ab(2-4), of JNull b] by (auto simp: extract_json_float_def starts_with_def)
qed

section \<open>Arrays are cut at their elements\<close>

text \<open>Text inside an element that leaves the splitter's state as it was.\<close>

definition in_object :: "split_state \<Rightarrow> bool" where
  "in_object st \<longleftrightarrow> sp_depth st = 1 \<and> \<not> sp_in_string st \<and> \<not> sp_escape st"

definition split_run :: "rstr \<Rightarrow> nat \<Rightarrow> rstr \<Rightarrow> split_state \<Rightarrow> split_state" where
  "split_run json i t st = foldl (split_step json) st (List.enumerate i t)"

lemma split_run_Nil [simp]: "split_run json i [] st = st"
  by (simp add: split_run_def)

lemma split_run_Cons [simp]: "split_run json i (c # t) st = split_run json (Suc i) t (split_step json st (i, c))"
  by (simp add: split_run_def)

lemma split_run_append [simp]: "split_run json i (a @ b) st = split_run json (i + length a) b (split_run json i a st)"
  by (simp add: split_run_def enumerate_append_eq)

definition calm :: "rstr \<Rightarrow> bool" where
  "calm t \<longleftrightarrow> (\<forall>json i st. in_object st \<longrightarrow> split_run json i t st = st)"

lemma calm_append: "calm a \<Longrightarrow> calm b \<Longrightarrow> calm (a @ b)"
  by (simp add: calm_def)

lemma calm_plain: "set t \<inter> {QUOTE, 91, 93, 123, 125} = {} \<Longrightarrow> calm t"
  unfolding calm_def in_object_def
  by (intro allI impI) (induction t, auto)

lemma calm_escape_char:
  "sp_in_string st \<Longrightarrow> \<not> sp_escape st \<Longrightarrow> split_run json i (escape_char c) st = st"
  by (auto simp: escape_char_def hex_char_plain)

lemma calm_escape: "sp_in_string st \<Longrightarrow> \<not> sp_escape st \<Longrightarrow> split_run json i (escape v) st = st"
  by (induction v arbitrary: i) (simp_all add: calm_escape_char)

lemma calm_string: "calm (QUOTE # escape v @ [QUOTE])"
proof -
  have "split_run json i (QUOTE # escape v @ [QUOTE]) st = st" if "in_object st" for json i and st :: split_state
  proof -
    have "split_run json (Suc i) (escape v) (st\<lparr>sp_in_string := True\<rparr>) = st\<lparr>sp_in_string := True\<rparr>"
      using that by (intro calm_escape) (auto simp: in_object_def)
    then show ?thesis using that by (simp add: in_object_def)
  qed
  then show ?thesis by (simp add: calm_def)
qed

lemma calm_value: "value_ok v \<Longrightarrow> calm (value_text v)"
proof (cases v)
  case JNull
  then show ?thesis by (simp add: calm_plain lit_def)
next
  case (JNumber n)
  moreover assume "value_ok v"
  ultimately show ?thesis
    by (auto simp: plain_number_def list_all_iff is_ascii_digit_def intro!: calm_plain)
qed (simp add: calm_string)

lemma calm_field: "plain_key (fst f) \<Longrightarrow> value_ok (snd f) \<Longrightarrow> calm (field_text f)"
  unfolding field_text_def quoted_def
  using calm_string [of "fst f"] calm_plain [of "[58]"] calm_value [of "snd f"]
  by (intro calm_append) (simp_all add: escape_plain_key)

lemma calm_fields: "fields_ok fs \<Longrightarrow> calm (join [44] (map field_text fs))"
proof (induction fs)
  case (Cons f fs)
  then have f: "calm (field_text f)" and fs: "calm (join [44] (map field_text fs))"
    by (auto simp: fields_ok_def calm_field)
  show ?case
  proof (cases fs)
    case Nil
    then show ?thesis using f by simp
  next
    case (Cons g gs)
    have "calm (field_text f @ [44] @ join [44] (map field_text fs))"
      by (intro calm_append f fs calm_plain) simp
    then show ?thesis using Cons by simp
  qed
qed (simp add: calm_def)

text \<open>A whole object is appended to the elements.\<close>

definition between :: "split_state \<Rightarrow> bool" where
  "between st \<longleftrightarrow> sp_depth st = 0 \<and> \<not> sp_in_string st \<and> \<not> sp_escape st"

lemma split_object:
  assumes "between st" and "fields_ok fs"
  shows "between (split_run (a @ object_text fs @ b) (length a) (object_text fs) st)"
    and "sp_objects (split_run (a @ object_text fs @ b) (length a) (object_text fs) st) = sp_objects st @ [object_text fs]"
proof -
  let ?json = "a @ object_text fs @ b" and ?body = "join [44] (map field_text fs)"
  let ?st = "st\<lparr>sp_start := length a, sp_depth := 1\<rparr>"
  have opened: "split_step ?json st (length a, 123) = ?st" using assms(1) by (simp add: between_def)
  have "in_object ?st" using assms(1) by (simp add: in_object_def between_def)
  then have body: "split_run ?json (Suc (length a)) ?body ?st = ?st"
    using calm_fields [OF assms(2)] by (simp only: calm_def)
  have run: "split_run ?json (length a) (object_text fs) st
      = split_step ?json ?st (Suc (length a) + length ?body, 125)"
    using opened body by (simp add: object_text_def del: split_step.simps)
  have slice: "drop (length a) (take (Suc (Suc (length a) + length ?body)) ?json) = object_text fs"
    by (simp add: object_text_def)
  show "between (split_run ?json (length a) (object_text fs) st)"
    and "sp_objects (split_run ?json (length a) (object_text fs) st) = sp_objects st @ [object_text fs]"
    unfolding run using assms(1) slice by (simp_all add: between_def Let_def)
qed

lemma split_objects:
  "between st \<Longrightarrow> list_all fields_ok fss \<Longrightarrow>
   sp_objects (split_run (a @ join [44] (map object_text fss)) (length a) (join [44] (map object_text fss)) st)
     = sp_objects st @ map object_text fss"
proof (induction fss arbitrary: a st)
  case (Cons fs fss)
  show ?case
  proof (cases fss)
    case Nil
    then show ?thesis using split_object [OF Cons.prems(1), of fs a "[]"] Cons.prems(2) by simp
  next
    case (Cons gs gss)
    let ?rest = "join [44] (map object_text fss)"
    let ?json = "a @ object_text fs @ 44 # ?rest"
    let ?st = "split_run ?json (length a) (object_text fs) st"
    have obj: "between ?st" "sp_objects ?st = sp_objects st @ [object_text fs]"
      using split_object [OF Cons.prems(1), of fs a "44 # ?rest"] Cons.prems(2) by simp_all
    have comma: "split_step ?json ?st (length a + length (object_text fs), 44) = ?st"
      using obj(1) by (simp add: between_def)
    have "sp_objects (split_run ((a @ object_text fs @ [44]) @ ?rest) (length (a @ object_text fs @ [44])) ?rest ?st)
        = sp_objects ?st @ map object_text fss"
      using Cons.IH [OF obj(1), of "a @ object_text fs @ [44]"] Cons.prems(2) by simp
    then show ?thesis
      using Cons obj(2) comma by (simp del: split_step.simps)
  qed
qed simp

lemma array_trim: "trim (array_text objs) = array_text objs"
  by (rule trim_id) (simp add: bare_def array_text_def is_whitespace_def)

lemma split_array: "list_all fields_ok fss \<Longrightarrow> split_json_array (array_text (map object_text fss)) = map object_text fss"
proof -
  assume ok: "list_all fields_ok fss"
  let ?body = "join [44] (map object_text fss)"
  have "strip_prefix [91] (array_text (map object_text fss)) = Some (?body @ [93])"
    using strip_prefix_append [of "[91]"] by (simp add: array_text_def)
  moreover have "strip_suffix [93] (?body @ [93]) = Some ?body"
    by (simp add: strip_suffix_def)
  moreover have "sp_objects (foldl (split_step ?body) split_init (List.enumerate 0 ?body)) = map object_text fss"
    using split_objects [of split_init fss "[]"] ok by (simp add: between_def split_init_def split_run_def)
  ultimately show ?thesis
    by (simp add: split_json_array_def array_trim)
qed

end
