(* ===== verification/Core_Layout.thy ===== *)
theory Core_Layout
  imports App_Settings Rust_Text
begin

text \<open>
  Screen layout and colours of the libretro core (\<open>replay-control-libretro/src/layout.rs\<close>,
  \<open>palette.rs\<close>): the four layouts, their detection from \<open>replay.cfg\<close>, the core's own reader of
  configuration values, the skin palettes and the detection of the skin.

  The core reads files that the server writes. The last section relates its reader to the
  server's writer, and shows what becomes of the skin the user chose.
\<close>

section \<open>Layouts\<close>

record layout_config =
  lc_width :: nat
  lc_height :: nat
  lc_font_scale :: nat
  lc_title_scale :: nat
  lc_label_scale :: nat
  lc_margin_x :: nat
  lc_margin_y :: nat
  lc_max_desc_lines :: nat
  lc_chars_per_line :: nat
  lc_full_chars_per_line :: nat
  lc_max_desc_lines_full :: nat
  lc_show_extra_metadata :: bool

definition crt_320x240 :: layout_config where
  "crt_320x240 = \<lparr>lc_width = 320, lc_height = 240, lc_font_scale = 1, lc_title_scale = 1, lc_label_scale = 1,
     lc_margin_x = 10, lc_margin_y = 8, lc_max_desc_lines = 6, lc_chars_per_line = 33,
     lc_full_chars_per_line = 33, lc_max_desc_lines_full = 8, lc_show_extra_metadata = False\<rparr>"

definition hdmi_720p :: layout_config where
  "hdmi_720p = \<lparr>lc_width = 1280, lc_height = 720, lc_font_scale = 2, lc_title_scale = 3, lc_label_scale = 1,
     lc_margin_x = 38, lc_margin_y = 22, lc_max_desc_lines = 8, lc_chars_per_line = 60,
     lc_full_chars_per_line = 66, lc_max_desc_lines_full = 12, lc_show_extra_metadata = True\<rparr>"

definition hdmi_1080p :: layout_config where
  "hdmi_1080p = \<lparr>lc_width = 1920, lc_height = 1080, lc_font_scale = 3, lc_title_scale = 4, lc_label_scale = 2,
     lc_margin_x = 58, lc_margin_y = 32, lc_max_desc_lines = 10, lc_chars_per_line = 70,
     lc_full_chars_per_line = 66, lc_max_desc_lines_full = 14, lc_show_extra_metadata = True\<rparr>"

definition crt_640x480 :: layout_config where
  "crt_640x480 = \<lparr>lc_width = 640, lc_height = 480, lc_font_scale = 1, lc_title_scale = 2, lc_label_scale = 1,
     lc_margin_x = 22, lc_margin_y = 16, lc_max_desc_lines = 6, lc_chars_per_line = 50,
     lc_full_chars_per_line = 66, lc_max_desc_lines_full = 10, lc_show_extra_metadata = False\<rparr>"

text \<open>\<open>parse_cfg_value\<close>: the body of the loop over the lines, and the loop.\<close>

definition strip_quotes :: "rstr \<Rightarrow> rstr" where
  "strip_quotes value =
     (case strip_prefix [34] value of
        None \<Rightarrow> value
      | Some v \<Rightarrow> (case strip_suffix [34] v of None \<Rightarrow> value | Some w \<Rightarrow> w))"

definition cfg_line_value :: "rstr \<Rightarrow> rstr \<Rightarrow> rstr option" where
  "cfg_line_value key line =
     (case strip_prefix key (trim line) of
        None \<Rightarrow> None
      | Some rest \<Rightarrow>
          (case rest of
             [] \<Rightarrow> None
           | b # _ \<Rightarrow>
               if b = 61 \<or> b = 32 \<or> b = 9
               then (case strip_prefix [61] (trim_start_matches is_whitespace rest) of
                       None \<Rightarrow> None | Some value \<Rightarrow> Some (strip_quotes (trim value)))
               else None))"

fun parse_cfg_lines :: "rstr list \<Rightarrow> rstr \<Rightarrow> rstr option" where
  "parse_cfg_lines [] key = None"
| "parse_cfg_lines (line # ls) key =
     (case cfg_line_value key line of Some value \<Rightarrow> Some value | None \<Rightarrow> parse_cfg_lines ls key)"

definition parse_cfg_value :: "rstr \<Rightarrow> rstr \<Rightarrow> rstr option" where
  "parse_cfg_value text key = parse_cfg_lines (str_lines text) key"

definition detect :: "disk_file \<Rightarrow> layout_config" where
  "detect replay_cfg =
     (case read_to_string (lit ''/media/sd/config/replay.cfg'') replay_cfg of
        Inl _ \<Rightarrow> crt_320x240
      | Inr config_text \<Rightarrow>
          let connector = or_default (parse_cfg_value config_text (lit ''video_connector'')) (lit ''1'')
          in if connector = lit ''0'' then
               (let mode = or_default (parse_cfg_value config_text (lit ''video_mode'')) (lit ''5'')
                in if mode = lit ''0'' then crt_320x240
                   else if mode = lit ''1'' then crt_640x480
                   else if one_of mode [''2'', ''3'', ''4'', ''5''] then hdmi_720p
                   else hdmi_1080p)
             else
               (let crt_type = or_default (parse_cfg_value config_text (lit ''video_crt_type'')) (lit ''generic_15'')
                in if contains_str (lit ''31'') crt_type then crt_640x480 else crt_320x240))"

definition box_art_dimensions :: "layout_config \<Rightarrow> nat \<times> nat" where
  "box_art_dimensions l =
     (if lc_width l \<le> 320 then (95, 135)
      else if lc_width l \<le> 640 then (120, 165)
      else if lc_width l \<le> 1280 then (200, 275)
      else (280, 385))"

section \<open>Palettes\<close>

record core_palette =
  cp_bg :: u32
  cp_header_bg :: u32
  cp_title :: u32
  cp_system :: u32
  cp_value :: u32
  cp_label :: u32
  cp_desc :: u32
  cp_nav :: u32
  cp_arrow :: u32
  cp_accent :: u32
  cp_star :: u32
  cp_star_dim :: u32
  cp_rating_text :: u32
  cp_error :: u32
  cp_loading :: u32

unbundle bit_operations_syntax

definition rgb :: "u8 \<Rightarrow> u8 \<Rightarrow> u8 \<Rightarrow> u32" where
  "rgb r g b = push_bit 16 (ucast r) OR push_bit 8 (ucast g) OR ucast b"

definition blend :: "u32 \<Rightarrow> u32 \<Rightarrow> u8 \<Rightarrow> u32" where
  "blend a b t =
     (let t = ucast t;
          inv = 255 - t;
          r = ((drop_bit 16 a AND 255) * inv + (drop_bit 16 b AND 255) * t) div 255;
          g = ((drop_bit 8 a AND 255) * inv + (drop_bit 8 b AND 255) * t) div 255;
          bl = ((a AND 255) * inv + (b AND 255) * t) div 255
      in push_bit 16 r OR push_bit 8 g OR bl)"

definition make_palette :: "u32 \<Rightarrow> u32 \<Rightarrow> u32 \<Rightarrow> u32 \<Rightarrow> u32 \<Rightarrow> u32 \<Rightarrow> core_palette" where
  "make_palette bg surface text text_secondary accent accent_hover =
     \<lparr>cp_bg = bg, cp_header_bg = surface, cp_title = text, cp_system = accent, cp_value = text,
      cp_label = text_secondary, cp_desc = blend text text_secondary 89, cp_nav = blend text_secondary bg 77,
      cp_arrow = blend text text_secondary 89, cp_accent = accent, cp_star = 0x00F59E0B,
      cp_star_dim = blend bg text_secondary 128, cp_rating_text = text_secondary,
      cp_error = 0x00FF6644, cp_loading = accent_hover\<rparr>"

definition PALETTES :: "core_palette list" where
  "PALETTES = [
     make_palette (rgb 0x0f 0x11 0x15) (rgb 0x1a 0x1d 0x23) (rgb 0xe4 0xe6 0xea) (rgb 0x8b 0x8f 0x96) (rgb 0x63 0x66 0xf1) (rgb 0x81 0x8c 0xf8),
     make_palette (rgb 0x1a 0x1c 0x1a) (rgb 0x25 0x28 0x25) (rgb 0xe2 0xe4 0xe2) (rgb 0x84 0x86 0x84) (rgb 0xff 0x00 0x4a) (rgb 0xff 0x33 0x70),
     make_palette (rgb 0x0a 0x20 0x0a) (rgb 0x14 0x2e 0x14) (rgb 0xd8 0xec 0xd8) (rgb 0x7a 0xaa 0x7a) (rgb 0xff 0x43 0x00) (rgb 0xff 0x6b 0x33),
     make_palette (rgb 0x08 0x08 0x08) (rgb 0x14 0x14 0x14) (rgb 0xe0 0xe8 0xe0) (rgb 0x7a 0x8a 0x7a) (rgb 0x00 0xb5 0x43) (rgb 0x33 0xcc 0x66),
     make_palette (rgb 0x08 0x08 0x0c) (rgb 0x14 0x14 0x20) (rgb 0xe0 0xe2 0xea) (rgb 0x7a 0x7e 0x8e) (rgb 0x2f 0x54 0xa4) (rgb 0x4a 0x72 0xc4),
     make_palette (rgb 0x0f 0x0f 0x0f) (rgb 0x1a 0x1a 0x1a) (rgb 0xe4 0xe4 0xe4) (rgb 0x8a 0x8a 0x8a) (rgb 0xe0 0x00 0x00) (rgb 0xff 0x22 0x22),
     make_palette (rgb 0x1e 0x1c 0x1e) (rgb 0x2a 0x28 0x2a) (rgb 0xe4 0xdc 0xd4) (rgb 0x9a 0x8e 0x82) (rgb 0x6d 0xaa 0x2c) (rgb 0x84 0xc4 0x3e),
     make_palette (rgb 0x06 0x04 0x3a) (rgb 0x0e 0x0c 0x4e) (rgb 0xe4 0xea 0xf5) (rgb 0x9a 0x9e 0xc8) (rgb 0xbe 0x12 0x50) (rgb 0xd8 0x30 0x70),
     make_palette (rgb 0x11 0x11 0x11) (rgb 0x1c 0x1c 0x1c) (rgb 0xe8 0xe8 0xe8) (rgb 0x90 0x90 0x90) (rgb 0x7c 0x3a 0xed) (rgb 0x9b 0x5b 0xff),
     make_palette (rgb 0x0a 0x0a 0x0a) (rgb 0x16 0x16 0x16) (rgb 0xd0 0xd0 0xd0) (rgb 0x77 0x77 0x77) (rgb 0x7e 0x25 0x53) (rgb 0x9e 0x3a 0x70),
     make_palette (rgb 0x0a 0x0a 0x08) (rgb 0x16 0x16 0x14) (rgb 0xe4 0xe2 0xdc) (rgb 0xa0 0x94 0x60) (rgb 0xc8 0xa8 0x48) (rgb 0xdc 0xc0 0x60)]"

definition load_palette :: "nat \<Rightarrow> core_palette" where
  "load_palette skin_index = (if skin_index < length PALETTES then PALETTES ! skin_index else PALETTES ! 0)"

text \<open>\<open>detect_skin_index\<close> over the two files it reads; each block gives an index or falls through.\<close>

definition skin_index_in :: "rstr \<Rightarrow> disk_file \<Rightarrow> rstr \<Rightarrow> nat option" where
  "skin_index_in path f key =
     (case read_to_string path f of
        Inl _ \<Rightarrow> None
      | Inr text \<Rightarrow> (case parse_cfg_value text key of None \<Rightarrow> None | Some val \<Rightarrow> parse_uint 32 val))"

definition detect_skin_index :: "disk_file \<Rightarrow> disk_file \<Rightarrow> nat" where
  "detect_skin_index settings_cfg replay_cfg =
     (case skin_index_in (lit ''/media/usb/.replay-control/settings.cfg'') settings_cfg (lit ''skin'') of
        Some idx \<Rightarrow> idx
      | None \<Rightarrow>
          (case skin_index_in (lit ''/media/sd/config/replay.cfg'') replay_cfg (lit ''system_skin'') of
             Some idx \<Rightarrow> idx
           | None \<Rightarrow> 0))"

section \<open>Every layout is one of four\<close>

lemma detect_cases: "detect f \<in> {crt_320x240, crt_640x480, hdmi_720p, hdmi_1080p}"
  by (simp add: detect_def Let_def split: sum.split)

lemmas layout_defs = crt_320x240_def crt_640x480_def hdmi_720p_def hdmi_1080p_def

section \<open>The core reads what the server writes\<close>

lemma cfg_line_kind:
  assumes "wf_key k" and "k \<noteq> []" and "cfg_line_value k l = Some v"
  shows "\<exists>w. kind_of l = Pair k w"
proof -
  from assms(3) obtain rest val where l: "trim l = k @ rest"
    and rest: "dropWhile is_whitespace rest = 61 # val"
    by (auto simp: cfg_line_value_def strip_prefix_Some_iff trim_start_matches_def split: option.splits list.splits if_splits)
  define ws where "ws = takeWhile is_whitespace rest"
  have ws: "list_all is_whitespace ws" and split: "rest = ws @ 61 # val"
    using takeWhile_dropWhile_id [of is_whitespace rest] rest
    by (auto simp: ws_def list_all_iff dest: set_takeWhileD)
  have no_eq: "61 \<notin> set (k @ ws)"
    using assms(1) ws by (auto simp: wf_key_def list_all_iff is_whitespace_def)
  have "trim (k @ ws) = k"
    using trim_pad [of "[]" ws k] ws assms(1) by (simp add: trim_id wf_key_def)
  moreover have "split_once 61 (trim l) = Some (k @ ws, val)"
    using split_once_append [OF no_eq, of val] by (simp add: l split)
  moreover have "\<not> starts_with [35] (trim l)"
    using assms(1,2) l by (cases k) (auto simp: wf_key_def starts_with_def)
  ultimately show ?thesis using assms(2) l by (simp add: kind_of_def Let_def)
qed

lemma cfg_entry_line:
  assumes "wf_key k" and "k \<noteq> []"
  shows "cfg_line_value k (entry_line k v) = Some v"
proof -
  have "trim (entry_line k v) = entry_line k v"
    using assms by (intro trim_id) (auto simp: bare_def entry_line_def wf_key_def is_whitespace_def)
  moreover have "trim_start_matches is_whitespace (32 # 61 # 32 # 34 # v @ [34]) = 61 # 32 # 34 # v @ [34]"
    by (simp add: trim_start_matches_def is_whitespace_def)
  moreover have "trim (32 # 34 # v @ [34]) = 34 # v @ [34]"
  proof -
    have "trim ([32] @ (34 # v @ [34]) @ []) = trim (34 # v @ [34])"
      by (rule trim_pad) (simp_all add: is_whitespace_def)
    also have "\<dots> = 34 # v @ [34]" by (rule trim_id) (simp add: bare_def is_whitespace_def)
    finally show ?thesis by simp
  qed
  moreover have "strip_quotes (34 # v @ [34]) = v"
    using strip_prefix_append [of "[34]"] by (simp add: strip_quotes_def strip_suffix_def)
  ultimately show ?thesis
    using strip_prefix_append [of "[61]"] by (simp add: cfg_line_value_def entry_line_def)
qed

lemma parse_cfg_lines_all:
  "\<forall>l \<in> set ls. cfg_line_value k l \<in> {None, Some v} \<Longrightarrow> \<exists>l \<in> set ls. cfg_line_value k l = Some v \<Longrightarrow>
   parse_cfg_lines ls k = Some v"
  by (induction ls) (auto split: option.split)

lemma rendered_entry:
  assumes "wf_entries es" and "map_of es k = Some v" and "l \<in> set (rendered_lines es ls)" and "kind_of l = Pair k w"
  shows "l = entry_line k v"
proof -
  consider l' where "l = render_line es l'" | k' v' where "map_of es k' = Some v'" "l = entry_line k' v'"
    using assms(3) by (auto simp: rendered_lines_def set_new_keys)
  then show ?thesis
  proof cases
    case 1
    then have "\<exists>u. kind_of l' = Pair k u"
      using assms(1,4) by (auto simp: kind_of_render_line split: line_kind.splits)
    then show ?thesis using 1 assms(2) by (auto simp: render_line_def)
  next
    case 2
    then show ?thesis
      using assms kind_of_entry_line [of k' v'] by (auto dest: wf_entries_lookup)
  qed
qed

lemma core_reads_rendered:
  assumes "wf_kv kv" and "wf_key k" and "k \<noteq> []" and "kv_get kv k = Some v"
  shows "parse_cfg_value (render_preserving kv c) k = Some v"
proof -
  let ?es = "entries kv"
  let ?ls = "rendered_lines ?es (str_lines c)"
  have v: "map_of ?es k = Some v" using assms(4) by (simp add: kv_get_def)
  have strip: "cfg_line_value k (strip_cr l) = cfg_line_value k l" for l
    by (simp add: cfg_line_value_def)
  have "cfg_line_value k l \<in> {None, Some v}" if "l \<in> set ?ls" for l
    using cfg_line_kind [OF assms(2,3), of l] rendered_entry [OF assms(1) v that] cfg_entry_line [OF assms(2,3)]
    by (cases "cfg_line_value k l") auto
  moreover have "\<exists>l \<in> set ?ls. cfg_line_value k l = Some v"
  proof -
    have "map_of (rev (pairs_of ?ls)) k = Some v"
      using v by (simp add: map_of_pairs_rendered [OF assms(1)])
    then have "(k, v) \<in> set (pairs_of ?ls)" by (auto dest: map_of_SomeD)
    then obtain l where l: "l \<in> set ?ls" "kind_of l = Pair k v"
      by (force simp: pairs_of_def split: line_kind.splits)
    then show ?thesis using rendered_entry [OF assms(1) v l] cfg_entry_line [OF assms(2,3)] by auto
  qed
  ultimately show ?thesis
    unfolding parse_cfg_value_def str_lines_render [OF assms(1)]
    by (intro parse_cfg_lines_all) (auto simp: strip)
qed

text \<open>A setting that the server writes over any file it can load is what the core reads.\<close>

lemma core_reads_saved:
  assumes "loadable f" and "wf_key k" and "k \<noteq> []"
  shows "\<exists>c. fst (store_save None (set_key k v (store_load f)) f) = Contents c
     \<and> parse_cfg_value c k = Some (sanitize_config_value v)"
proof -
  define c where "c = (case f of Contents c \<Rightarrow> c | _ \<Rightarrow> [])"
  obtain kv where kv: "parse c = Inr kv" and load: "store_load f = \<lparr>as_inner = kv\<rparr>"
    using assms(1) by (cases f) (auto simp: c_def loadable_def store_load_simps app_settings_empty_def split: sum.splits)
  have "store_save None (set_key k v (store_load f)) f = (Contents (render_preserving (kv_set k v kv) c), Inr ())"
    using assms(1) load
    by (cases f) (auto simp: c_def loadable_def store_save_def app_settings_save_def kv_write_def write_atomic_def
        read_to_string_def set_key_def)
  moreover have "parse_cfg_value (render_preserving (kv_set k v kv) c) k = Some (sanitize_config_value v)"
    by (rule core_reads_rendered [OF kv_set_wf [OF parse_wf [OF kv] assms(2)] assms(2,3)]) (simp add: kv_get_set)
  ultimately show ?thesis by auto
qed

section \<open>Skins as the core sees them\<close>

text \<open>
  The names of the bundled skins are not numbers, and the core's tables are not those of the
  server.
\<close>

lemma skin_names_not_numbers: "list_all (\<lambda>s. parse_uint 32 (sk_id s) = None \<and> sanitize_config_value (sk_id s) = sk_id s) SKINS"
  by code_simp

lemma supported_in_table: "is_supported sk \<Longrightarrow> \<exists>s \<in> set SKINS. sk_id s = sk"
  by (auto simp: is_supported_def skin_definition_of_def find_Some_iff intro: nth_mem)

lemma supported_skin_not_number:
  assumes "is_supported sk"
  shows "parse_uint 32 sk = None \<and> sanitize_config_value sk = sk"
proof -
  obtain s where "s \<in> set SKINS" and "sk_id s = sk" using supported_in_table [OF assms] by blast
  then show ?thesis using skin_names_not_numbers by (auto simp: list_all_iff)
qed

definition css_color :: "rstr \<Rightarrow> nat" where
  "css_color s = foldl (\<lambda>a c. a * 16 + (if c < 58 then c - 48 else c - 87)) 0 (tl s)"

lemma core_backgrounds:
  "map cp_bg PALETTES = [0x0f1115, 0x1a1c1a, 0x0a200a, 0x080808, 0x08080c, 0x0f0f0f, 0x1e1c1e, 0x06043a, 0x111111, 0x0a0a0a, 0x0a0a08]"
  by (simp add: PALETTES_def make_palette_def rgb_def)

lemma core_palettes_out_of_sync:
  "map (\<lambda>(s, c). css_color (sp_bg (sk_palette s)) = unat c) (zip SKINS (map cp_bg PALETTES))
     = [False, False, False, False, False, True, False, False, False, False, False]"
  unfolding core_backgrounds by (simp add: SKINS_def css_color_def lit_def)

text \<open>
  C38: the libretro core never shows the skin chosen in the settings. When the server writes a
  supported skin over any settings file that loads, the server reads that skin back, but the
  core, which takes the value for a number, detects the skin it would detect without a
  settings file.
\<close>

theorem core_ignores_chosen_skin:
  assumes "loadable f" and "is_supported sk"
  shows "read_skin (fst (write_skin None (Some sk) f)) = Some (skin_new sk)
     \<and> detect_skin_index (fst (write_skin None (Some sk) f)) replay_cfg = detect_skin_index Missing replay_cfg"
proof -
  let ?k = "lit ''skin''"
  have k: "wf_key ?k" "?k \<noteq> []" by code_simp simp
  have sk: "parse_uint 32 sk = None" "sanitize_config_value sk = sk"
    using supported_skin_not_number [OF assms(2)] by simp_all
  have writer: "write_skin None (Some sk) f = store_save None (set_key ?k sk (store_load f)) f"
    by (simp add: write_skin_def set_skin_def)
  obtain c where c: "fst (write_skin None (Some sk) f) = Contents c" "parse_cfg_value c ?k = Some sk"
    using core_reads_saved [OF assms(1) k, of sk] sk(2) by (auto simp: writer)
  then have "detect_skin_index (Contents c) replay_cfg = detect_skin_index Missing replay_cfg"
    using sk(1) by (simp add: detect_skin_index_def skin_index_in_def read_to_string_def)
  moreover have "read_skin (Contents c) = Some (skin_new sk)"
  proof -
    obtain s where s: "s \<in> set SKINS" "sk_id s = sk" using supported_in_table [OF assms(2)] by blast
    have "list_all (\<lambda>s. skin_from_stored_value (sk_id s) = Some (skin_new (sk_id s)) \<and> sk_id s \<noteq> []) SKINS" by code_simp
    then have stored: "skin_from_stored_value sk = Some (skin_new sk)" "sk \<noteq> []" using s by (auto simp: list_all_iff)
    have "settings_map (Contents c) ?k = Some sk"
      by (rule store_save_set_key [OF assms(1) k(1), of sk]) (use c(1) sk(2) in \<open>simp add: writer\<close>)
    then show ?thesis
      using stored by (simp add: read_skin_def skin_def get_non_empty_def settings_map_def)
  qed
  ultimately show ?thesis using c(1) by simp
qed

theorem core_ignores_chosen_skin_witness:
  "loadable Missing \<and> is_supported (lit ''astro'')
   \<and> detect_skin_index (fst (write_skin None (Some (lit ''astro'')) Missing)) Missing = 0"
proof -
  have h: "loadable Missing" "is_supported (lit ''astro'')" by code_simp+
  have "detect_skin_index Missing Missing = 0" by code_simp
  then show ?thesis using h core_ignores_chosen_skin [OF h, of Missing] by simp
qed

end
