(* ===== verification/Core_Api.thy ===== *)
theory Core_Api
  imports Core_Json_Text Core_Layout
begin

text \<open>
  What the libretro core asks the server and what it makes of the answers
  (\<open>replay-control-libretro/src/http.rs\<close> and the data types of \<open>lib.rs\<close>): requests and their
  errors, the two response parsers, URL encoding, decoding and scaling of box art.

  The HTTP client and the PNG decoder are crates; with the two configuration files and the
  standard library's single-precision numbers they form the record \<open>core_env\<close>.
\<close>

section \<open>Data\<close>

record game_entry =
  ge_system :: rstr
  ge_system_display :: rstr
  ge_rom_filename :: rstr
  ge_display_name :: rstr
  ge_box_art_url :: "rstr option"

record box_art_image =
  ba_pixels :: "u32 list"
  ba_width :: nat
  ba_height :: nat

record precomputed_display =
  pd_sys_year_line :: rstr
  pd_players_text :: rstr
  pd_rating_text :: rstr
  pd_desc_lines :: "rstr list"
  pd_desc_lines_full :: "rstr list"

record game_detail =
  gd_display_name :: rstr
  gd_system_display :: rstr
  gd_year :: rstr
  gd_developer :: rstr
  gd_genre :: rstr
  gd_players :: u8
  gd_rating :: "f32 option"
  gd_description :: "rstr option"
  gd_publisher :: "rstr option"
  gd_region :: "rstr option"
  gd_box_art :: "box_art_image option"
  gd_display :: precomputed_display

definition empty_display :: precomputed_display where
  "empty_display = \<lparr>pd_sys_year_line = [], pd_players_text = [], pd_rating_text = [], pd_desc_lines = [], pd_desc_lines_full = []\<rparr>"

section \<open>The environment\<close>

record f32_ops =
  f32_parse :: "rstr \<Rightarrow> f32 option"
  f32_fixed1 :: "f32 \<Rightarrow> rstr"
  f32_floor :: "f32 \<Rightarrow> int"
  f32_has_half :: "f32 \<Rightarrow> bool"
  f32_of_u32 :: "nat \<Rightarrow> f32"
  f32_div :: "f32 \<Rightarrow> f32 \<Rightarrow> f32"
  f32_mul :: "f32 \<Rightarrow> f32 \<Rightarrow> f32"
  f32_min :: "f32 \<Rightarrow> f32 \<Rightarrow> f32"
  f32_round :: "f32 \<Rightarrow> nat"

record http_response =
  rsp_status :: nat
  rsp_body :: "u8 list"

datatype png_color = Rgba | Rgb | GrayscaleAlpha | Grayscale | Indexed

record png_frame =
  pf_width :: nat
  pf_height :: nat
  pf_line_size :: nat
  pf_color :: png_color
  pf_data :: "u8 list"

record core_env =
  ce_http :: "rstr \<Rightarrow> nat \<Rightarrow> rstr + http_response"
  ce_utf8_error :: "u8 list \<Rightarrow> rstr"
  ce_png :: "u8 list \<Rightarrow> rstr + png_frame"
  ce_f32 :: f32_ops
  ce_replay_cfg :: disk_file
  ce_settings_cfg :: disk_file

section \<open>URL encoding\<close>

definition url_hex_char :: "nat \<Rightarrow> rchar" where
  "url_hex_char nibble = (if nibble \<le> 9 then 48 + nibble else 65 + nibble - 10)"

definition unreserved :: "nat \<Rightarrow> bool" where
  "unreserved b \<longleftrightarrow> (65 \<le> b \<and> b \<le> 90) \<or> (97 \<le> b \<and> b \<le> 122) \<or> (48 \<le> b \<and> b \<le> 57) \<or> b \<in> {45, 95, 46, 126}"

definition encode_byte :: "u8 \<Rightarrow> rstr" where
  "encode_byte byte =
     (if unreserved (unat byte) then [unat byte]
      else [37, url_hex_char (unat byte div 16), url_hex_char (unat byte mod 16)])"

definition url_encode :: "rstr \<Rightarrow> rstr" where
  "url_encode input = concat (map encode_byte (utf8_bytes input))"

definition api_base :: rstr where
  "api_base = lit ''http://localhost:8080''"

section \<open>Response parsers\<close>

definition unwrap_or_default :: "rstr option \<Rightarrow> rstr" where
  "unwrap_or_default x = (case x of Some s \<Rightarrow> s | None \<Rightarrow> [])"

definition parse_entry :: "rstr \<Rightarrow> game_entry option" where
  "parse_entry obj =
     (let system = unwrap_or_default (extract_json_string obj (lit ''system''));
          system_display = unwrap_or_default (extract_json_string obj (lit ''system_display''));
          rom_filename = unwrap_or_default (extract_json_string obj (lit ''rom_filename''));
          display_name = (case extract_json_string obj (lit ''display_name'') of Some n \<Rightarrow> n | None \<Rightarrow> rom_filename);
          box_art_url = extract_json_string obj (lit ''box_art_url'')
      in if system \<noteq> [] \<and> rom_filename \<noteq> []
         then Some \<lparr>ge_system = system, ge_system_display = system_display, ge_rom_filename = rom_filename,
                    ge_display_name = display_name, ge_box_art_url = box_art_url\<rparr>
         else None)"

definition parse_game_list_json :: "rstr \<Rightarrow> (rstr + game_entry list) may_panic" where
  "parse_game_list_json json = do {
     array \<leftarrow> extract_result_array (trim json);
     Some (case array of
             Inl e \<Rightarrow> Inl e
           | Inr array_str \<Rightarrow> Inr (List.map_filter parse_entry (split_json_array array_str)))
   }"

definition parse_rom_detail_json :: "f32_ops \<Rightarrow> rstr \<Rightarrow> rstr + game_detail" where
  "parse_rom_detail_json fl json =
     (let obj = trim json
      in if \<not> starts_with (lit ''{'') obj then Inl (lit ''Expected JSON object'')
         else Inr \<lparr>gd_display_name = unwrap_or_default (extract_json_string obj (lit ''display_name'')),
               gd_system_display = unwrap_or_default (extract_json_string obj (lit ''system_display'')),
               gd_year = unwrap_or_default (extract_json_string obj (lit ''year'')),
               gd_developer = unwrap_or_default (extract_json_string obj (lit ''developer'')),
               gd_genre = unwrap_or_default (extract_json_string obj (lit ''genre'')),
               gd_players = word_of_int (case extract_json_number obj (lit ''players'') of Some n \<Rightarrow> n | None \<Rightarrow> 0),
               gd_rating = extract_json_float (f32_parse fl) obj (lit ''rating''),
               gd_description = extract_json_string obj (lit ''description''),
               gd_publisher = extract_json_string obj (lit ''publisher''),
               gd_region = extract_json_string obj (lit ''region''),
               gd_box_art = None,
               gd_display = empty_display\<rparr>)"

section \<open>Requests\<close>

text \<open>\<open>resp.as_str()\<close>; a failed decoding is described by the standard library's message.\<close>

definition response_text :: "core_env \<Rightarrow> http_response \<Rightarrow> rstr + rstr" where
  "response_text env resp =
     (case from_utf8 (rsp_body resp) of
        Some body \<Rightarrow> Inr body
      | None \<Rightarrow> Inl (lit ''UTF-8 error: '' @ ce_utf8_error env (rsp_body resp)))"

definition fetch_recents :: "core_env \<Rightarrow> (rstr + game_entry list) may_panic" where
  "fetch_recents env =
     (case ce_http env (api_base @ lit ''/api/core/recents'') 5 of
        Inl e \<Rightarrow> Some (Inl (lit ''HTTP error: '' @ e))
      | Inr resp \<Rightarrow>
          if rsp_status resp \<noteq> 200
          then Some (Inl (lit ''HTTP '' @ nat_to_str (rsp_status resp) @ lit '': ''
                 @ (case response_text env resp of Inr body \<Rightarrow> body | Inl _ \<Rightarrow> [])))
          else (case response_text env resp of Inl e \<Rightarrow> Some (Inl e) | Inr body \<Rightarrow> parse_game_list_json body))"

definition fetch_favorites :: "core_env \<Rightarrow> (rstr + game_entry list) may_panic" where
  "fetch_favorites env =
     (case ce_http env (api_base @ lit ''/api/core/favorites'') 5 of
        Inl e \<Rightarrow> Some (Inl (lit ''HTTP error: '' @ e))
      | Inr resp \<Rightarrow>
          if rsp_status resp \<noteq> 200 then Some (Inl (lit ''HTTP '' @ nat_to_str (rsp_status resp)))
          else (case response_text env resp of Inl e \<Rightarrow> Some (Inl e) | Inr body \<Rightarrow> parse_game_list_json body))"

definition detail_url :: "rstr \<Rightarrow> rstr \<Rightarrow> rstr" where
  "detail_url system filename = api_base @ lit ''/api/core/game/'' @ url_encode system @ lit ''/'' @ url_encode filename"

definition fetch_rom_detail :: "core_env \<Rightarrow> rstr \<Rightarrow> rstr \<Rightarrow> rstr + game_detail" where
  "fetch_rom_detail env system filename =
     (case ce_http env (detail_url system filename) 5 of
        Inl e \<Rightarrow> Inl (lit ''HTTP error: '' @ e)
      | Inr resp \<Rightarrow>
          if rsp_status resp \<noteq> 200 then Inl (lit ''HTTP '' @ nat_to_str (rsp_status resp))
          else (case response_text env resp of Inl e \<Rightarrow> Inl e | Inr body \<Rightarrow> parse_rom_detail_json (ce_f32 env) body))"

section \<open>Box art\<close>

definition MAX_BOX_ART_PREFETCH :: nat where
  "MAX_BOX_ART_PREFETCH = 20"

text \<open>The results of a body that may panic, one per element.\<close>

fun collect :: "('a \<Rightarrow> 'b may_panic) \<Rightarrow> 'a list \<Rightarrow> 'b list may_panic" where
  "collect f [] = Some []"
| "collect f (x # xs) = do { y \<leftarrow> f x; ys \<leftarrow> collect f xs; Some (y # ys) }"

text \<open>The pairs of two nested loops over rows and columns.\<close>

definition grid :: "nat \<Rightarrow> nat \<Rightarrow> (nat \<times> nat) list" where
  "grid width height = concat (map (\<lambda>y. map (\<lambda>x. (x, y)) [0..<width]) [0..<height])"

definition index_at :: "'a list \<Rightarrow> nat \<Rightarrow> 'a may_panic" where
  "index_at xs i = (if i < length xs then Some (xs ! i) else None)"

fun bytes_per_pixel :: "png_color \<Rightarrow> nat" where
  "bytes_per_pixel Rgba = 4"
| "bytes_per_pixel Rgb = 3"
| "bytes_per_pixel GrayscaleAlpha = 2"
| "bytes_per_pixel Grayscale = 1"
| "bytes_per_pixel Indexed = 3"

definition source_pixel :: "png_frame \<Rightarrow> nat \<times> nat \<Rightarrow> u32 may_panic" where
  "source_pixel info xy =
     (case xy of (x, y) \<Rightarrow>
       let bpp = bytes_per_pixel (pf_color info); offset = y * pf_line_size info + x * bpp
       in if 3 \<le> bpp then do {
            r \<leftarrow> index_at (pf_data info) offset;
            g \<leftarrow> index_at (pf_data info) (offset + 1);
            b \<leftarrow> index_at (pf_data info) (offset + 2);
            Some (rgb r g b)
          } else do { v \<leftarrow> index_at (pf_data info) offset; Some (rgb v v v) })"

definition fit_dimensions :: "f32_ops \<Rightarrow> nat \<Rightarrow> nat \<Rightarrow> nat \<Rightarrow> nat \<Rightarrow> nat \<times> nat" where
  "fit_dimensions fl src_w src_h max_w max_h =
     (if src_w = 0 \<or> src_h = 0 then (0, 0)
      else (let scale_w = f32_div fl (f32_of_u32 fl max_w) (f32_of_u32 fl src_w);
                scale_h = f32_div fl (f32_of_u32 fl max_h) (f32_of_u32 fl src_h);
                scale = f32_min fl scale_w scale_h;
                dst_w = f32_round fl (f32_mul fl (f32_of_u32 fl src_w) scale);
                dst_h = f32_round fl (f32_mul fl (f32_of_u32 fl src_h) scale)
            in (max dst_w 1, max dst_h 1)))"

definition scale_image_nearest :: "u32 list \<Rightarrow> nat \<Rightarrow> nat \<Rightarrow> nat \<Rightarrow> nat \<Rightarrow> u32 list may_panic" where
  "scale_image_nearest src src_w src_h dst_w dst_h =
     collect (\<lambda>(x, y). index_at src (y * src_h div dst_h * src_w + x * src_w div dst_w)) (grid dst_w dst_h)"

definition decode_png_to_xrgb8888 :: "core_env \<Rightarrow> u8 list \<Rightarrow> nat \<Rightarrow> nat \<Rightarrow> (rstr + box_art_image) may_panic" where
  "decode_png_to_xrgb8888 env data max_w max_h =
     (case ce_png env data of
        Inl e \<Rightarrow> Some (Inl e)
      | Inr info \<Rightarrow> do {
          src_pixels \<leftarrow> collect (source_pixel info) (grid (pf_width info) (pf_height info));
          let (dst_w, dst_h) = fit_dimensions (ce_f32 env) (pf_width info) (pf_height info) max_w max_h;
          if dst_w = 0 \<or> dst_h = 0 then Some (Inl (lit ''Image too small to display''))
          else do {
            scaled \<leftarrow> scale_image_nearest src_pixels (pf_width info) (pf_height info) dst_w dst_h;
            Some (Inr \<lparr>ba_pixels = scaled, ba_width = dst_w, ba_height = dst_h\<rparr>)
          }
        })"

definition fetch_and_decode_box_art :: "core_env \<Rightarrow> rstr \<Rightarrow> nat \<Rightarrow> nat \<Rightarrow> (rstr + box_art_image) may_panic" where
  "fetch_and_decode_box_art env url max_w max_h =
     (case ce_http env url 10 of
        Inl e \<Rightarrow> Some (Inl (lit ''HTTP error: '' @ e))
      | Inr resp \<Rightarrow>
          if rsp_status resp \<noteq> 200 then Some (Inl (lit ''HTTP '' @ nat_to_str (rsp_status resp)))
          else decode_png_to_xrgb8888 env (rsp_body resp) max_w max_h)"

definition box_art_full_url :: "rstr \<Rightarrow> rstr" where
  "box_art_full_url url =
     (if starts_with (lit ''http'') url then url
      else api_base @ join (lit ''/'') (map url_encode (split_on 47 url)))"

definition fetch_box_art_for_layout :: "core_env \<Rightarrow> rstr \<Rightarrow> layout_config \<Rightarrow> box_art_image option may_panic" where
  "fetch_box_art_for_layout env url layout =
     (case box_art_dimensions layout of (max_w, max_h) \<Rightarrow>
        map_option (\<lambda>r. case r of Inr img \<Rightarrow> Some img | Inl _ \<Rightarrow> None)
          (fetch_and_decode_box_art env (box_art_full_url url) max_w max_h))"


section \<open>Images have the size they claim\<close>

definition image_ok :: "box_art_image \<Rightarrow> bool" where
  "image_ok img \<longleftrightarrow> length (ba_pixels img) = ba_width img * ba_height img"

lemma collect_length: "collect f xs = Some ys \<Longrightarrow> length ys = length xs"
  by (induction xs arbitrary: ys) (auto simp: bind_eq_Some_conv)

lemma collect_returns: "(\<And>x. x \<in> set xs \<Longrightarrow> \<not> panics (f x)) \<Longrightarrow> \<not> panics (collect f xs)"
proof (induction xs)
  case (Cons x xs)
  then have "\<not> panics (f x)" and "\<not> panics (collect f xs)" by simp_all
  then show ?case by auto
qed simp

lemma sum_list_const: "sum_list (map (\<lambda>x. n) xs) = length xs * (n :: nat)"
  by (induction xs) simp_all

lemma grid_length [simp]: "length (grid w h) = w * h"
  by (simp add: grid_def length_concat o_def sum_list_const mult.commute)

lemma grid_bounds: "(x, y) \<in> set (grid w h) \<longleftrightarrow> x < w \<and> y < h"
  by (force simp: grid_def)

lemma grid_index: "x < w \<Longrightarrow> y < h \<Longrightarrow> y * w + x < w * (h :: nat)"
proof -
  assume "x < w" and "y < h"
  then have "y * w + x < Suc y * w" by simp
  also have "\<dots> \<le> h * w" using \<open>y < h\<close> by (intro mult_le_mono1) simp
  finally show ?thesis by (simp add: mult.commute)
qed

lemma scaled_coordinate: "x < dst \<Longrightarrow> 0 < src \<Longrightarrow> x * src div dst < (src :: nat)"
proof -
  assume "x < dst" and "0 < src"
  then have "x * src < src * dst" by simp
  then show ?thesis by (rule less_mult_imp_div_less)
qed

lemma scale_image_size:
  assumes "length src = src_w * src_h" and "0 < src_w" and "0 < src_h"
  shows "\<exists>dst. scale_image_nearest src src_w src_h dst_w dst_h = Some dst \<and> length dst = dst_w * dst_h"
proof -
  have "\<not> panics (scale_image_nearest src src_w src_h dst_w dst_h)"
    unfolding scale_image_nearest_def
  proof (rule collect_returns)
    fix xy
    assume "xy \<in> set (grid dst_w dst_h)"
    moreover obtain x y where "xy = (x, y)" by (cases xy)
    ultimately have xy: "xy = (x, y)" "x < dst_w" "y < dst_h" using grid_bounds [of x y dst_w dst_h] by simp_all
    then have "x * src_w div dst_w < src_w" and "y * src_h div dst_h < src_h"
      using assms(2,3) by (simp_all add: scaled_coordinate)
    then show "\<not> panics (case xy of (x, y) \<Rightarrow> index_at src (y * src_h div dst_h * src_w + x * src_w div dst_w))"
      using grid_index xy by (simp add: index_at_def assms(1))
  qed
  then show ?thesis using collect_length unfolding scale_image_nearest_def by fastforce
qed

text \<open>What the PNG decoder promises: every row of the frame is in the buffer.\<close>

definition png_laws :: "core_env \<Rightarrow> bool" where
  "png_laws env \<longleftrightarrow> (\<forall>data info. ce_png env data = Inr info \<longrightarrow>
     pf_width info * bytes_per_pixel (pf_color info) \<le> pf_line_size info \<and> pf_height info * pf_line_size info \<le> length (pf_data info))"

lemma source_pixel_returns:
  assumes "pf_width info * bytes_per_pixel (pf_color info) \<le> pf_line_size info"
    and "pf_height info * pf_line_size info \<le> length (pf_data info)"
    and "x < pf_width info" and "y < pf_height info"
  shows "\<exists>v. source_pixel info (x, y) = Some v"
proof -
  let ?b = "bytes_per_pixel (pf_color info)"
  have "Suc x * ?b \<le> pf_width info * ?b" using assms(3) by (intro mult_le_mono1) simp
  then have "x * ?b + ?b \<le> pf_line_size info" using assms(1) by simp
  moreover have "Suc y * pf_line_size info \<le> pf_height info * pf_line_size info"
    using assms(4) by (intro mult_le_mono1) simp
  ultimately have row: "y * pf_line_size info + x * ?b + ?b \<le> length (pf_data info)" using assms(2) by simp
  have "0 < ?b" by (cases "pf_color info") simp_all
  then show ?thesis using row by (simp add: source_pixel_def Let_def index_at_def)
qed

lemma decode_png_image:
  assumes "decode_png_to_xrgb8888 env data max_w max_h = Some (Inr img)"
  shows "image_ok img"
proof -
  from assms obtain info where info: "ce_png env data = Inr info"
    by (auto simp: decode_png_to_xrgb8888_def split: sum.splits)
  obtain w h where fit: "fit_dimensions (ce_f32 env) (pf_width info) (pf_height info) max_w max_h = (w, h)"
    by (cases "fit_dimensions (ce_f32 env) (pf_width info) (pf_height info) max_w max_h")
  from assms obtain src scaled where "scale_image_nearest src (pf_width info) (pf_height info) w h = Some scaled"
    and "img = \<lparr>ba_pixels = scaled, ba_width = w, ba_height = h\<rparr>"
    by (auto simp: decode_png_to_xrgb8888_def info fit bind_eq_Some_conv split: if_splits)
  then show ?thesis by (auto simp: image_ok_def scale_image_nearest_def dest: collect_length)
qed

lemma decode_png_returns:
  assumes "png_laws env"
  shows "\<exists>r. decode_png_to_xrgb8888 env data max_w max_h = Some r"
proof (cases "ce_png env data")
  case (Inr info)
  have "\<not> panics (collect (source_pixel info) (grid (pf_width info) (pf_height info)))"
    using assms Inr by (intro collect_returns) (auto simp: png_laws_def grid_bounds source_pixel_returns)
  then obtain src where src: "collect (source_pixel info) (grid (pf_width info) (pf_height info)) = Some src"
    "length src = pf_width info * pf_height info"
    using collect_length by fastforce
  obtain dst_w dst_h where fit: "fit_dimensions (ce_f32 env) (pf_width info) (pf_height info) max_w max_h = (dst_w, dst_h)"
    by (cases "fit_dimensions (ce_f32 env) (pf_width info) (pf_height info) max_w max_h")
  show ?thesis
  proof (cases "dst_w = 0 \<or> dst_h = 0")
    case False
    then have "0 < pf_width info" "0 < pf_height info" using fit by (auto simp: fit_dimensions_def split: if_splits)
    then obtain dst where "scale_image_nearest src (pf_width info) (pf_height info) dst_w dst_h = Some dst"
      using scale_image_size [OF src(2)] by blast
    then show ?thesis using Inr src fit False by (simp add: decode_png_to_xrgb8888_def)
  qed (use Inr src fit in \<open>simp add: decode_png_to_xrgb8888_def\<close>)
qed (simp add: decode_png_to_xrgb8888_def)

lemma fetch_image: "fetch_and_decode_box_art env url max_w max_h = Some (Inr img) \<Longrightarrow> image_ok img"
  by (auto simp: fetch_and_decode_box_art_def split: sum.splits if_splits dest: decode_png_image)

lemma box_art_image:
  assumes "fetch_box_art_for_layout env url layout = Some (Some img)"
  shows "image_ok img"
proof -
  obtain w h where "box_art_dimensions layout = (w, h)" by (cases "box_art_dimensions layout")
  with assms obtain r where "fetch_and_decode_box_art env (box_art_full_url url) w h = Some r"
    and "(case r of Inr img \<Rightarrow> Some img | Inl _ \<Rightarrow> None) = Some img"
    by (auto simp: fetch_box_art_for_layout_def)
  then show ?thesis by (cases r) (auto dest: fetch_image)
qed

lemma box_art_returns: "png_laws env \<Longrightarrow> \<exists>r. fetch_box_art_for_layout env url layout = Some r"
  using decode_png_returns
  by (auto simp: fetch_box_art_for_layout_def fetch_and_decode_box_art_def split: prod.splits sum.splits)

section \<open>Requests name the game\<close>

fun hex_nibble :: "rchar \<Rightarrow> nat" where
  "hex_nibble c = (if c < 58 then c - 48 else c - 55)"

fun pct_decode :: "rstr \<Rightarrow> u8 list" where
  "pct_decode [] = []"
| "pct_decode (c # s) =
     (if c = 37 then (case s of h # l # t \<Rightarrow> of_nat (hex_nibble h * 16 + hex_nibble l) # pct_decode t | _ \<Rightarrow> [])
      else of_nat c # pct_decode s)"

lemma hex_nibble_char: "n < 16 \<Longrightarrow> hex_nibble (url_hex_char n) = n"
  by (simp add: url_hex_char_def)

lemma unat_byte_bound: "unat (b :: u8) < 256"
  using unsigned_less [of b, where ?'a = nat] by simp

lemma pct_decode_byte: "pct_decode (encode_byte b @ s) = b # pct_decode s"
proof (cases "unreserved (unat b)")
  case True
  then show ?thesis by (auto simp: encode_byte_def unreserved_def)
next
  case False
  have "hex_nibble (url_hex_char (unat b div 16)) * 16 + hex_nibble (url_hex_char (unat b mod 16)) = unat b"
    using unat_byte_bound [of b] by (simp add: hex_nibble_char del: hex_nibble.simps)
  then have "of_nat (hex_nibble (url_hex_char (unat b div 16)) * 16 + hex_nibble (url_hex_char (unat b mod 16))) = b"
    by (simp del: hex_nibble.simps of_nat_add of_nat_mult)
  then show ?thesis using False by (simp add: encode_byte_def del: hex_nibble.simps)
qed

lemma pct_decode_encode: "pct_decode (url_encode s) = utf8_bytes s"
proof -
  have "pct_decode (concat (map encode_byte bs)) = bs" for bs
    by (induction bs) (simp_all add: pct_decode_byte)
  then show ?thesis by (simp add: url_encode_def)
qed

lemma url_encode_chars: "c \<in> set (url_encode s) \<Longrightarrow> unreserved c \<or> c = 37"
proof -
  have "unreserved (url_hex_char n)" if "n < 16" for n
    using that by (auto simp: url_hex_char_def unreserved_def)
  then have "\<forall>c \<in> set (encode_byte b). unreserved c \<or> c = 37" for b
    using unat_byte_bound [of b] by (auto simp: encode_byte_def)
  then show "c \<in> set (url_encode s) \<Longrightarrow> unreserved c \<or> c = 37" by (auto simp: url_encode_def)
qed

lemma url_encode_segment: "47 \<notin> set (url_encode s)" "63 \<notin> set (url_encode s)" "35 \<notin> set (url_encode s)"
  using url_encode_chars [of 47 s] url_encode_chars [of 63 s] url_encode_chars [of 35 s] by (auto simp: unreserved_def)

text \<open>
  The request for a game's details is a path of the server whose last two segments are the
  percent-encoded system and file name, whatever characters they hold: no slash, query or
  fragment in a file name changes the route, and decoding the segments gives the names back.
\<close>

lemma detail_request_roundtrip:
  "split_on 47 (drop (length api_base) (detail_url system filename))
     = [[], lit ''api'', lit ''core'', lit ''game'', url_encode system, url_encode filename]
   \<and> pct_decode (url_encode system) = utf8_bytes system \<and> pct_decode (url_encode filename) = utf8_bytes filename
   \<and> {63, 35} \<inter> set (drop (length api_base) (detail_url system filename)) = {}"
proof -
  have path: "drop (length api_base) (detail_url system filename)
      = lit ''/api/core/game/'' @ url_encode system @ 47 # url_encode filename"
    by (simp add: detail_url_def lit_def)
  have "split_on 47 (lit ''/api/core/game'' @ 47 # url_encode system @ 47 # url_encode filename)
      = split_on 47 (lit ''/api/core/game'') @ [url_encode system, url_encode filename]"
    by (simp only: split_on_append split_on_notin url_encode_segment append.simps not_False_eq_True)
  moreover have "split_on 47 (lit ''/api/core/game'') = [[], lit ''api'', lit ''core'', lit ''game'']" by (simp add: lit_def)
  moreover have "lit ''/api/core/game/'' = lit ''/api/core/game'' @ [47]" by (simp add: lit_def)
  moreover have "{63, 35} \<inter> set (lit ''/api/core/game/'') = {}" by (simp add: lit_def)
  ultimately show ?thesis using url_encode_segment by (simp add: path pct_decode_encode)
qed

section \<open>Responses are read as they were written\<close>

definition string_or_null :: "rstr option \<Rightarrow> json_value" where
  "string_or_null x = (case x of Some s \<Rightarrow> JString s | None \<Rightarrow> JNull)"

text \<open>The fields in the order of the server's \<open>CoreGameEntry\<close>.\<close>

definition entry_fields :: "game_entry \<Rightarrow> (rstr \<times> json_value) list" where
  "entry_fields e =
     [(lit ''system'', JString (ge_system e)), (lit ''system_display'', JString (ge_system_display e)),
      (lit ''rom_filename'', JString (ge_rom_filename e)), (lit ''display_name'', JString (ge_display_name e)),
      (lit ''box_art_url'', string_or_null (ge_box_art_url e))]"

text \<open>Values are readable, the required ones not empty, and none is the name of a field.\<close>

definition readable_value :: "json_value \<Rightarrow> bool" where
  "readable_value v = (case v of JString w \<Rightarrow> readable w | _ \<Rightarrow> True)"

definition entry_ok :: "game_entry \<Rightarrow> bool" where
  "entry_ok e \<longleftrightarrow>
     ge_system e \<noteq> [] \<and> ge_rom_filename e \<noteq> [] \<and> ge_display_name e \<noteq> [] \<and> ge_box_art_url e \<noteq> Some [] \<and>
     clean_fields (entry_fields e) \<and> list_all (readable_value \<circ> snd) (entry_fields e)"

lemma entry_fields_ok: "fields_ok (entry_fields e)"
  by (simp add: entry_fields_def fields_ok_def plain_key_def lit_def string_or_null_def split: option.split)

lemma clean_readable:
  assumes "clean_fields fs" and "list_all (readable_value \<circ> snd) fs" and "(k, v) \<in> set fs" and "\<forall>n. v \<noteq> JNumber n"
  shows "extract_json_string (object_text fs) k = field_string v"
  using assms by (intro clean_string) (auto simp: list_all_iff readable_value_def split: json_value.splits)

lemma parse_entry_text:
  assumes "entry_ok e"
  shows "parse_entry (object_text (entry_fields e)) = Some e"
proof -
  let ?t = "object_text (entry_fields e)"
  note get = clean_readable [of "entry_fields e"]
  have clean: "clean_fields (entry_fields e)" "list_all (readable_value \<circ> snd) (entry_fields e)"
    using assms by (simp_all add: entry_ok_def)
  have "extract_json_string ?t (lit ''system'') = field_string (JString (ge_system e))"
    "extract_json_string ?t (lit ''system_display'') = field_string (JString (ge_system_display e))"
    "extract_json_string ?t (lit ''rom_filename'') = field_string (JString (ge_rom_filename e))"
    "extract_json_string ?t (lit ''display_name'') = field_string (JString (ge_display_name e))"
    "extract_json_string ?t (lit ''box_art_url'') = field_string (string_or_null (ge_box_art_url e))"
    by (rule get [OF clean]; simp add: entry_fields_def string_or_null_def split: option.split)+
  then show ?thesis
    using assms
    by (cases "ge_box_art_url e") (auto simp: parse_entry_def Let_def unwrap_or_default_def string_or_null_def entry_ok_def)
qed

lemma map_filter_id: "(\<And>x. x \<in> set xs \<Longrightarrow> g (f x) = Some x) \<Longrightarrow> List.map_filter g (map f xs) = xs"
  by (induction xs) (simp_all add: List.map_filter_simps)

lemma reads_game_list:
  assumes "list_all entry_ok es"
  shows "parse_game_list_json (array_text (map (object_text \<circ> entry_fields) es)) = Some (Inr es)"
proof -
  let ?t = "array_text (map (object_text \<circ> entry_fields) es)"
  have "starts_with (lit ''['') ?t" by (simp add: array_text_def starts_with_def lit_def)
  then have "extract_result_array (trim ?t) = Some (Inr ?t)" by (simp add: extract_result_array_def array_trim)
  moreover have "split_json_array ?t = map (object_text \<circ> entry_fields) es"
    using split_array [of "map entry_fields es"] entry_fields_ok by (simp add: list_all_iff)
  moreover have "List.map_filter parse_entry (map (object_text \<circ> entry_fields) es) = es"
    using assms by (intro map_filter_id) (simp add: list_all_iff parse_entry_text)
  ultimately show ?thesis by (simp add: parse_game_list_json_def)
qed


definition sample_entry :: game_entry where
  "sample_entry = \<lparr>ge_system = lit ''snes'', ge_system_display = lit ''Super NES'',
     ge_rom_filename = lit ''[a] \"rom_filename\":{.sfc'', ge_display_name = lit ''Tab'' @ [9] @ lit ''and '' @ [92], ge_box_art_url = None\<rparr>"


text \<open>The fields in the order of the server's \<open>CoreGameDetail\<close>; the rating is its decimal text.\<close>

definition detail_fields :: "game_detail \<Rightarrow> rstr option \<Rightarrow> (rstr \<times> json_value) list" where
  "detail_fields d rating =
     [(lit ''display_name'', JString (gd_display_name d)), (lit ''system_display'', JString (gd_system_display d)),
      (lit ''year'', JString (gd_year d)), (lit ''developer'', JString (gd_developer d)), (lit ''genre'', JString (gd_genre d)),
      (lit ''players'', JNumber (nat_to_str (unat (gd_players d)))),
      (lit ''rating'', case rating of Some r \<Rightarrow> JNumber r | None \<Rightarrow> JNull),
      (lit ''description'', string_or_null (gd_description d)), (lit ''publisher'', string_or_null (gd_publisher d)),
      (lit ''region'', string_or_null (gd_region d))]"

definition detail_ok :: "f32_ops \<Rightarrow> game_detail \<Rightarrow> rstr option \<Rightarrow> bool" where
  "detail_ok fl d rating \<longleftrightarrow>
     clean_fields (detail_fields d rating) \<and> list_all (readable_value \<circ> snd) (detail_fields d rating) \<and>
     (\<forall>r. rating = Some r \<longrightarrow> r \<noteq> [] \<and> list_all (\<lambda>c. is_ascii_digit c \<or> c = 46) r) \<and>
     gd_rating d = Option.bind rating (f32_parse fl) \<and>
     gd_description d \<noteq> Some [] \<and> gd_publisher d \<noteq> Some [] \<and> gd_region d \<noteq> Some [] \<and>
     gd_box_art d = None \<and> gd_display d = empty_display"


definition no_f32 :: f32_ops where
  "no_f32 = \<lparr>f32_parse = (\<lambda>s. Some (of_nat (length s))), f32_fixed1 = (\<lambda>r. []), f32_floor = (\<lambda>r. 0), f32_has_half = (\<lambda>r. False),
     f32_of_u32 = of_nat, f32_div = (\<lambda>a b. a), f32_mul = (\<lambda>a b. a), f32_min = min, f32_round = unat\<rparr>"

definition sample_detail :: game_detail where
  "sample_detail = \<lparr>gd_display_name = lit ''A \"year\": game'', gd_system_display = lit ''NES'', gd_year = lit ''1990'',
     gd_developer = lit ''D'', gd_genre = [], gd_players = 2, gd_rating = Some 3, gd_description = Some (lit ''Two'' @ [10] @ lit ''lines''),
     gd_publisher = None, gd_region = Some (lit ''EU''), gd_box_art = None, gd_display = empty_display\<rparr>"


end
