(* ===== verification/Core_Wrap.thy ===== *)
theory Core_Wrap
  imports Rust_Text
begin

text \<open>
  Word wrapping of the libretro core (\<open>word_wrap\<close> of \<open>replay-control-libretro/src/draw.rs\<close>): its
  loops, when it panics, what its lines hold and how long they are.
\<close>

section \<open>Word wrapping\<close>

lemma utf8_len_eq_0 [simp]: "utf8_len s = 0 \<longleftrightarrow> s = []"
  by (cases s) auto

lemma utf8_len_pos [simp]: "0 < utf8_len s \<longleftrightarrow> s \<noteq> []"
  by (cases s) auto

lemma byte_split_shorter:
  assumes "byte_split n s = Some (a, b)" and "0 < n"
  shows "length b < length s"
proof -
  have "s = a @ b" and "a \<noteq> []" using assms by (auto simp: byte_split_Some_iff)
  then show ?thesis by simp
qed

text \<open>
  The loop that breaks a word too long for a line. With a width of zero the loop of the code
  never ends (and grows the list until memory is exhausted); that is a \<open>None\<close> here too.
\<close>

function break_word :: "nat \<Rightarrow> rstr \<Rightarrow> rstr list may_panic" where
  "break_word max_chars word =
     (if word = [] then Some []
      else if max_chars = 0 then None
      else do {
        (piece, rest) \<leftarrow> byte_split (min max_chars (utf8_len word)) word;
        pieces \<leftarrow> break_word max_chars rest;
        Some (piece # pieces)
      })"
  by pat_completeness auto
termination
proof (relation "measure (\<lambda>(max_chars, word). length word)")
  fix max_chars word x piece rest
  assume "word \<noteq> []" and "max_chars \<noteq> (0 :: nat)" and "byte_split (min max_chars (utf8_len word)) word = Some x"
    and "(piece, rest) = x"
  then show "((max_chars, rest), max_chars, word) \<in> measure (\<lambda>(max_chars, word). length word)"
    using byte_split_shorter [of "min max_chars (utf8_len word)" word piece rest] by simp
qed simp

declare break_word.simps [simp del]

fun wrap_word :: "nat \<Rightarrow> rstr list \<times> rstr \<Rightarrow> rstr \<Rightarrow> (rstr list \<times> rstr) may_panic" where
  "wrap_word max_chars (ls, current_line) word =
     (if current_line = [] then
        (if max_chars < utf8_len word
         then do { pieces \<leftarrow> break_word max_chars word; Some (ls @ pieces, []) }
         else Some (ls, word))
      else if utf8_len current_line + 1 + utf8_len word \<le> max_chars then Some (ls, current_line @ [32] @ word)
      else Some (ls @ [current_line], word))"

definition wrap_paragraph :: "nat \<Rightarrow> rstr list \<Rightarrow> rstr \<Rightarrow> rstr list may_panic" where
  "wrap_paragraph max_chars ls paragraph =
     (let words = split_whitespace paragraph
      in if words = [] then Some (ls @ [[]])
         else do {
           (ls, current_line) \<leftarrow> each (wrap_word max_chars) (ls, []) words;
           Some (if current_line \<noteq> [] then ls @ [current_line] else ls)
         })"

definition word_wrap :: "rstr \<Rightarrow> nat \<Rightarrow> rstr list may_panic" where
  "word_wrap s max_chars = each (wrap_paragraph max_chars) [] (split_on 10 s)"


section \<open>Breaking a long word\<close>

lemma break_word_Nil [simp]: "break_word m [] = Some []"
  by (simp add: break_word.simps)

lemma break_word_step:
  assumes "word \<noteq> []" and "0 < m"
  shows "break_word m word = do {
     (piece, rest) \<leftarrow> byte_split (min m (utf8_len word)) word;
     pieces \<leftarrow> break_word m rest;
     Some (piece # pieces) }"
  using assms by (simp add: break_word.simps [of m word])

text \<open>A word that cannot be cut: some multiple of the width falls inside a character.\<close>

definition boundary :: "rstr \<Rightarrow> nat \<Rightarrow> bool" where
  "boundary word n \<longleftrightarrow> (\<exists>a b. word = a @ b \<and> utf8_len a = n)"

definition unbreakable :: "nat \<Rightarrow> rstr \<Rightarrow> bool" where
  "unbreakable m word \<longleftrightarrow> word \<noteq> [] \<and> m = 0 \<or> (\<exists>k. k * m < utf8_len word \<and> \<not> boundary word (k * m))"

lemma byte_split_None_iff: "byte_split n s = None \<longleftrightarrow> \<not> boundary s n"
  by (cases "byte_split n s") (auto simp: boundary_def byte_split_Some_iff [symmetric])

lemma boundary_append_shift: "boundary (a @ b) (utf8_len a + n) = boundary b n"
proof
  assume "boundary (a @ b) (utf8_len a + n)"
  then obtain c d where cd: "a @ b = c @ d" "utf8_len c = utf8_len a + n" by (auto simp: boundary_def)
  then consider u where "a = c @ u" | u where "c = a @ u" "b = u @ d" by (auto simp: append_eq_append_conv2)
  then show "boundary b n"
  proof cases
    case 1
    then have "n = 0" using cd(2) by simp
    then show ?thesis by (auto simp: boundary_def intro: exI [of _ "[]"])
  next
    case 2
    then show ?thesis using cd(2) by (auto simp: boundary_def)
  qed
next
  assume "boundary b n"
  then obtain c d where "b = c @ d" "utf8_len c = n" by (auto simp: boundary_def)
  then have "a @ b = (a @ c) @ d \<and> utf8_len (a @ c) = utf8_len a + n" by simp
  then show "boundary (a @ b) (utf8_len a + n)" unfolding boundary_def by blast
qed

lemma break_word_panics_iff: "panics (break_word m word) \<longleftrightarrow> unbreakable m word"
proof (induction m word rule: break_word.induct)
  case (1 m word)
  show ?case
  proof (cases "word = [] \<or> m = 0")
    case True
    then show ?thesis by (auto simp: break_word.simps [of m word] unbreakable_def)
  next
    case False
    then have ne: "word \<noteq> []" and m: "0 < m" by simp_all
    let ?n = "min m (utf8_len word)"
    have start: "boundary word 0" by (auto simp: boundary_def intro: exI [of _ "[]"])
    show ?thesis
    proof (cases "byte_split ?n word")
      case None
      then have nb: "\<not> boundary word ?n" by (simp add: byte_split_None_iff)
      have "boundary word (utf8_len word)" unfolding boundary_def by (intro exI [of _ word] exI [of _ "[]"]) simp
      then have "m < utf8_len word" using nb by (metis min.commute min_def not_le_imp_less)
      then have "1 * m < utf8_len word \<and> \<not> boundary word (1 * m)" using nb by (simp add: min_def)
      then have "unbreakable m word" unfolding unbreakable_def by blast
      then show ?thesis using None ne m by (simp add: break_word_step)
    next
      case (Some pr)
      obtain piece rest where pr: "pr = (piece, rest)" by (cases pr)
      then have split: "word = piece @ rest" "utf8_len piece = ?n"
        using Some byte_split_Some_iff [of ?n word piece rest] by blast+
      have IH: "panics (break_word m rest) \<longleftrightarrow> unbreakable m rest"
        by (rule "1.IH" [of "(piece, rest)" piece rest]) (use ne m Some pr in auto)
      have "unbreakable m word \<longleftrightarrow> unbreakable m rest"
      proof (cases "utf8_len word \<le> m")
        case True
        have "utf8_len piece = utf8_len word" unfolding split(2) by (rule min_absorb2 [OF True])
        moreover have "utf8_len word = utf8_len piece + utf8_len rest" unfolding split(1) by (rule utf8_len_append)
        ultimately have "utf8_len rest = 0" by linarith
        then have "rest = []" by (simp only: utf8_len_eq_0)
        moreover have "\<not> unbreakable m word"
        proof -
          have "boundary word (k * m)" if "k * m < utf8_len word" for k
          proof -
            have "k * m < 1 * m" using that True by linarith
            then have "k < 1" unfolding mult_less_cancel2 by (rule conjunct2)
            then have "k = 0" by simp
            then show ?thesis using start by simp
          qed
          then show ?thesis using m by (auto simp: unbreakable_def)
        qed
        ultimately show ?thesis using m by (simp add: unbreakable_def)
      next
        case False
        then have len: "utf8_len piece = m" unfolding split(2) by (intro min_absorb1) simp
        have shift: "boundary word (Suc k * m) = boundary rest (k * m)" for k
          using boundary_append_shift [of piece rest "k * m"] split(1) len by simp
        have bound: "Suc k * m < utf8_len word \<longleftrightarrow> k * m < utf8_len rest" for k
          using split(1) len by simp
        have "(\<exists>k. k * m < utf8_len word \<and> \<not> boundary word (k * m)) \<longleftrightarrow> (\<exists>k. k * m < utf8_len rest \<and> \<not> boundary rest (k * m))"
          (is "(\<exists>k. ?P k) \<longleftrightarrow> (\<exists>k. ?Q k)")
        proof
          assume "\<exists>k. ?P k"
          then obtain k where k: "?P k" by blast
          then obtain j where "k = Suc j" using start by (cases k) auto
          then show "\<exists>k. ?Q k" using k shift bound by blast
        next
          assume "\<exists>k. ?Q k"
          then show "\<exists>k. ?P k" using shift bound by blast
        qed
        then show ?thesis using m by (simp add: unbreakable_def)
      qed
      moreover have "panics (break_word m word) \<longleftrightarrow> panics (break_word m rest)"
        unfolding break_word_step [OF ne m] Some pr by (cases "break_word m rest") simp_all
      ultimately show ?thesis using IH by simp
    qed
  qed
qed

lemma break_word_pieces:
  "break_word m word = Some pieces \<Longrightarrow> concat pieces = word \<and> (\<forall>p \<in> set pieces. utf8_len p \<le> m)"
proof (induction m word arbitrary: pieces rule: break_word.induct)
  case (1 m word)
  show ?case
  proof (cases "word = [] \<or> m = 0")
    case True
    then show ?thesis using "1.prems" by (auto simp: break_word.simps [of m word] split: if_splits)
  next
    case False
    then have "word \<noteq> []" "0 < m" by simp_all
    with "1.prems" obtain piece rest ps where split: "byte_split (min m (utf8_len word)) word = Some (piece, rest)"
      and ps: "break_word m rest = Some ps" "pieces = piece # ps"
      by (auto simp: break_word_step bind_eq_Some_conv)
    moreover have "concat ps = rest \<and> (\<forall>p \<in> set ps. utf8_len p \<le> m)"
      using "1.IH" [of "(piece, rest)" piece rest ps] False split ps(1) by simp
    moreover have "word = piece @ rest" and "utf8_len piece \<le> m"
      using split byte_split_Some_iff [of "min m (utf8_len word)" word piece rest] by (metis, metis min.cobounded1)
    ultimately show ?thesis by simp
  qed
qed

section \<open>Words\<close>

definition visible :: "rstr \<Rightarrow> rstr" where
  "visible s = filter (\<lambda>c. \<not> is_whitespace c) s"

lemma visible_append [simp]: "visible (a @ b) = visible a @ visible b"
  by (simp add: visible_def)

lemma visible_Nil [simp]: "visible [] = []"
  by (simp add: visible_def)

lemma visible_blank [simp]: "visible (32 # s) = visible s" "visible (10 # s) = visible s"
  by (simp_all add: visible_def is_whitespace_def)

lemma split_by_pieces_ne [simp]: "split_by P s \<noteq> []"
  by (cases s) (auto split: list.split)

lemma split_by_visible: "concat (split_by P s) = filter (\<lambda>c. \<not> P c) s"
proof (induction s)
  case (Cons c s)
  then show ?case by (cases "split_by P s") auto
qed simp

lemma concat_nonempty: "concat (filter (\<lambda>w. w \<noteq> []) ws) = concat ws"
  by (induction ws) auto

lemma words_visible: "concat (split_whitespace s) = visible s"
  by (simp add: split_whitespace_def concat_nonempty split_by_visible visible_def)

lemma words_nonempty: "w \<in> set (split_whitespace s) \<Longrightarrow> w \<noteq> []"
  by (simp add: split_whitespace_def)

lemma word_visible: "w \<in> set (split_whitespace s) \<Longrightarrow> visible w = w"
proof -
  assume "w \<in> set (split_whitespace s)"
  then have "set w \<subseteq> set (visible s)" unfolding words_visible [symmetric] by auto
  then show ?thesis by (auto simp: visible_def filter_id_conv)
qed

section \<open>Lines of a paragraph\<close>

text \<open>Once a line is open no word is broken any more.\<close>

lemma wrap_open_returns: "cur \<noteq> [] \<Longrightarrow> [] \<notin> set ws \<Longrightarrow> \<not> panics (each (wrap_word m) (ls, cur) ws)"
proof (induction ws arbitrary: ls cur)
  case (Cons w ws)
  then have "w \<noteq> []" by auto
  then show ?case using Cons by (cases "utf8_len cur + 1 + utf8_len w \<le> m") simp_all
qed simp

lemma wrap_words_panics_iff:
  "[] \<notin> set ws \<Longrightarrow>
   panics (each (wrap_word m) (ls, []) ws) \<longleftrightarrow> (\<exists>w \<in> set (takeWhile (\<lambda>w. m < utf8_len w) ws). unbreakable m w)"
proof (induction ws arbitrary: ls)
  case (Cons w ws)
  show ?case
  proof (cases "m < utf8_len w")
    case True
    then show ?thesis
      using Cons break_word_panics_iff [of m w] by (cases "break_word m w") auto
  next
    case False
    moreover have "w \<noteq> []" using Cons.prems by auto
    ultimately show ?thesis using wrap_open_returns [of w ws m ls] Cons.prems by simp
  qed
qed simp

text \<open>What the lines hold, and which of them are longer than the width.\<close>

lemma wrap_open_lines:
  "each (wrap_word m) (ls, cur) ws = Some (ls', cur') \<Longrightarrow> cur \<noteq> [] \<Longrightarrow> [] \<notin> set ws \<Longrightarrow>
   cur' \<noteq> [] \<and> visible (concat ls' @ cur') = visible (concat ls @ cur) @ visible (concat ws)
   \<and> (\<exists>new. ls' = ls @ new \<and> (\<forall>l \<in> set (new @ [cur']). utf8_len l \<le> m \<or> l = cur \<or> l \<in> set ws))"
proof (induction ws arbitrary: ls cur)
  case (Cons w ws)
  show ?case
  proof (cases "utf8_len cur + 1 + utf8_len w \<le> m")
    case True
    then have "each (wrap_word m) (ls, cur @ [32] @ w) ws = Some (ls', cur')" using Cons.prems by simp
    from Cons.IH [OF this] Cons.prems(2,3) obtain new where
      "cur' \<noteq> []" "visible (concat ls' @ cur') = visible (concat ls @ cur @ 32 # w) @ visible (concat ws)"
      "ls' = ls @ new" "\<forall>l \<in> set (new @ [cur']). utf8_len l \<le> m \<or> l = cur @ 32 # w \<or> l \<in> set ws"
      by fastforce
    moreover have "utf8_len (cur @ 32 # w) \<le> m" using True by (simp add: utf8_width_def)
    ultimately show ?thesis by (intro conjI exI [of _ new]) auto
  next
    case False
    then have "each (wrap_word m) (ls @ [cur], w) ws = Some (ls', cur')" using Cons.prems by simp
    from Cons.IH [OF this] Cons.prems(2,3) obtain new where
      "cur' \<noteq> []" "visible (concat ls' @ cur') = visible (concat (ls @ [cur]) @ w) @ visible (concat ws)"
      "ls' = (ls @ [cur]) @ new" "\<forall>l \<in> set (new @ [cur']). utf8_len l \<le> m \<or> l = w \<or> l \<in> set ws"
      by auto
    then show ?thesis by (intro conjI exI [of _ "cur # new"]) auto
  qed
qed auto

lemma wrap_words_lines:
  "each (wrap_word m) (ls, []) ws = Some (ls', cur') \<Longrightarrow> [] \<notin> set ws \<Longrightarrow>
   visible (concat ls' @ cur') = visible (concat ls) @ visible (concat ws)
   \<and> (\<exists>new. ls' = ls @ new \<and> (\<forall>l \<in> set (new @ [cur']). utf8_len l \<le> m \<or> l \<in> set (dropWhile (\<lambda>w. m < utf8_len w) ws)))"
proof (induction ws arbitrary: ls)
  case (Cons w ws)
  show ?case
  proof (cases "m < utf8_len w")
    case True
    then obtain pieces where p: "break_word m w = Some pieces"
      and run: "each (wrap_word m) (ls @ pieces, []) ws = Some (ls', cur')"
      using Cons.prems(1) by (auto simp: bind_eq_Some_conv)
    from Cons.IH [OF run] Cons.prems(2) obtain new where
      "visible (concat ls' @ cur') = visible (concat (ls @ pieces)) @ visible (concat ws)"
      "ls' = (ls @ pieces) @ new" "\<forall>l \<in> set (new @ [cur']). utf8_len l \<le> m \<or> l \<in> set (dropWhile (\<lambda>w. m < utf8_len w) ws)"
      by auto
    then show ?thesis
      using break_word_pieces [OF p] True by (intro conjI exI [of _ "pieces @ new"]) auto
  next
    case False
    then have run: "each (wrap_word m) (ls, w) ws = Some (ls', cur')" using Cons.prems(1) by simp
    from wrap_open_lines [OF run] Cons.prems(2) False show ?thesis by auto
  qed
qed simp

section \<open>The whole text\<close>

lemma wrap_paragraph_panics_iff:
  "panics (wrap_paragraph m ls p) \<longleftrightarrow>
     (\<exists>w \<in> set (takeWhile (\<lambda>w. m < utf8_len w) (split_whitespace p)). unbreakable m w)"
proof (cases "split_whitespace p = []")
  case False
  have "[] \<notin> set (split_whitespace p)" using words_nonempty by blast
  then show ?thesis
    using wrap_words_panics_iff [of "split_whitespace p" m ls] False
    by (simp add: wrap_paragraph_def Let_def bind_eq_None_conv split_def)
qed (simp add: wrap_paragraph_def)

lemma wrap_paragraph_lines:
  assumes "wrap_paragraph m ls p = Some ls'"
  shows "visible (concat ls') = visible (concat ls) @ visible p
     \<and> (\<exists>new. ls' = ls @ new \<and> (\<forall>l \<in> set new. utf8_len l \<le> m \<or> l \<in> set (dropWhile (\<lambda>w. m < utf8_len w) (split_whitespace p))))"
proof (cases "split_whitespace p = []")
  case True
  then show ?thesis
    using assms words_visible [of p] by (auto simp: wrap_paragraph_def)
next
  case False
  then obtain ls1 cur where run: "each (wrap_word m) (ls, []) (split_whitespace p) = Some (ls1, cur)"
    and ls': "ls' = (if cur \<noteq> [] then ls1 @ [cur] else ls1)"
    using assms by (auto simp: wrap_paragraph_def Let_def bind_eq_Some_conv)
  have "[] \<notin> set (split_whitespace p)" using words_nonempty by blast
  from wrap_words_lines [OF run this] obtain new where
    new: "visible (concat ls1 @ cur) = visible (concat ls) @ visible (visible p)" "ls1 = ls @ new"
      "\<forall>l \<in> set (new @ [cur]). utf8_len l \<le> m \<or> l \<in> set (dropWhile (\<lambda>w. m < utf8_len w) (split_whitespace p))"
    by (auto simp: words_visible)
  have "visible (visible p) = visible p" by (simp add: visible_def)
  then show ?thesis using new ls' by (cases "cur = []") auto
qed

lemma visible_join: "visible (join [10] ps) = concat (map visible ps)"
  by (induction ps rule: induct_list012) (auto simp: visible_def is_whitespace_def)

lemma visible_lines: "concat (map visible (split_on 10 s)) = visible s"
  using visible_join [of "split_on 10 s"] by (simp add: join_split_on)

lemma wrap_paragraphs_lines:
  "each (wrap_paragraph m) ls ps = Some ls' \<Longrightarrow>
   visible (concat ls') = visible (concat ls) @ concat (map visible ps)
   \<and> (\<exists>new. ls' = ls @ new \<and> (\<forall>l \<in> set new. utf8_len l \<le> m
        \<or> (\<exists>p \<in> set ps. l \<in> set (dropWhile (\<lambda>w. m < utf8_len w) (split_whitespace p)))))"
proof (induction ps arbitrary: ls)
  case (Cons p ps)
  then obtain ls1 where one: "wrap_paragraph m ls p = Some ls1" and rest: "each (wrap_paragraph m) ls1 ps = Some ls'"
    by (auto simp: bind_eq_Some_conv)
  from wrap_paragraph_lines [OF one] Cons.IH [OF rest] show ?case by fastforce
qed simp

lemma word_wrap_panics: "panics (word_wrap s m) \<longleftrightarrow>
     (\<exists>p \<in> set (split_on 10 s). \<exists>w \<in> set (takeWhile (\<lambda>w. m < utf8_len w) (split_whitespace p)). unbreakable m w)"
  unfolding word_wrap_def by (rule each_panics_iff) (rule wrap_paragraph_panics_iff)

lemma word_wrap_lines:
  assumes "word_wrap s m = Some ls"
  shows "visible (concat ls) = visible s"
    and "\<And>l. l \<in> set ls \<Longrightarrow> utf8_len l \<le> m \<or> (\<exists>p \<in> set (split_on 10 s). l \<in> set (dropWhile (\<lambda>w. m < utf8_len w) (split_whitespace p)))"
  using wrap_paragraphs_lines [OF assms [unfolded word_wrap_def]] by (auto simp: visible_lines)

text \<open>
  C16: wrapping a text at a width panics exactly when one of the words that lead a paragraph and
  are each wider than the line has a character across a multiple of the width, in bytes (a width
  of 0 never ends). Otherwise no visible character is lost, added or moved, and a line is wider
  than asked only if it is a single word that does not stand among the leading ones: such a word
  is never broken.
\<close>

theorem word_wrap_spec:
  "(panics (word_wrap s m) \<longleftrightarrow>
     (\<exists>p \<in> set (split_on 10 s). \<exists>w \<in> set (takeWhile (\<lambda>w. m < utf8_len w) (split_whitespace p)). unbreakable m w)) \<and>
   (\<forall>ls. word_wrap s m = Some ls \<longrightarrow> visible (concat ls) = visible s \<and>
     (\<forall>l \<in> set ls. utf8_len l \<le> m \<or>
        (\<exists>p \<in> set (split_on 10 s). l \<in> set (dropWhile (\<lambda>w. m < utf8_len w) (split_whitespace p)))))"
  using word_wrap_panics word_wrap_lines by blast

text \<open>A word of seventeen Hiragana letters does not fit a line of 50 bytes.\<close>

theorem word_wrap_spec_witness:
  "panics (word_wrap (replicate 17 12354) 50) \<and> word_wrap (lit ''a bbbbbb'') 4 = Some [lit ''a'', lit ''bbbbbb''] \<and>
   visible (concat [lit ''a'', lit ''bbbbbb'']) = visible (lit ''a bbbbbb'')"
proof -
  have ls: "word_wrap (lit ''a bbbbbb'') 4 = Some [lit ''a'', lit ''bbbbbb'']" by code_simp
  moreover have "panics (word_wrap (replicate 17 12354) 50)" by code_simp
  ultimately show ?thesis using word_wrap_spec [of "lit ''a bbbbbb''" 4] by blast
qed

end
