(* ===== verification/Core_State.thy ===== *)
theory Core_State
  imports Core_Api Core_Wrap
begin

text \<open>
  State and operations of the libretro core (\<open>replay-control-libretro/src/lib.rs\<close>): loading of the
  two game lists, gamepad input, save states and the calls of the libretro interface, except
  drawing (\<open>Core_Render\<close>).

  The global \<open>STATE\<close> is passed explicitly. Of a frontend callback the state keeps whether it is
  set; calls to callbacks are the datatype \<open>frontend_call\<close> and part of the result. Logging and
  the reservation of capacity are left out.
\<close>

section \<open>Data\<close>

datatype core_view = HomeView | GameDetailView

datatype list_mode = Recents | Favorites

datatype page_kind = GameInfo | Description

definition PAGE_COUNT :: nat where
  "PAGE_COUNT = 2"

definition PAGES :: "page_kind list" where
  "PAGES = [GameInfo, Description]"

definition page_at :: "nat \<Rightarrow> page_kind option" where
  "page_at i = (if i < length PAGES then Some (PAGES ! i) else None)"

datatype pixel_format = Bgr565 | Xrgb8888

type_synonym u16 = "16 word"

record callback_state =
  cb_environment :: bool
  cb_video :: bool
  cb_audio_sample :: bool
  cb_audio_batch :: bool
  cb_input_poll :: bool
  cb_input_state :: bool

record display_state =
  ds_framebuffer :: "u32 list"
  ds_present_buffer :: "u32 list"
  ds_framebuffer_16 :: "u16 list"
  ds_present_buffer_16 :: "u16 list"
  ds_pixel_format :: pixel_format
  ds_frame_count :: u64
  ds_layout :: layout_config
  ds_palette :: core_palette

record game_data =
  gm_view :: core_view
  gm_home_cursor :: nat
  gm_list_mode :: list_mode
  gm_entries :: "game_entry list"
  gm_favorites :: "game_entry list"
  gm_current_index :: nat
  gm_detail_cache :: "game_detail option list"
  gm_fav_detail_cache :: "game_detail option list"
  gm_desc_scroll :: nat
  gm_current_page :: nat
  gm_recents_index :: nat
  gm_favorites_index :: nat

record network_state =
  ns_api_available :: bool
  ns_status_message :: rstr
  ns_loading :: bool

record input_state =
  in_prev_left :: bool
  in_prev_right :: bool
  in_prev_b :: bool
  in_prev_l1 :: bool
  in_prev_r1 :: bool
  in_prev_a :: bool
  in_prev_up :: bool
  in_prev_down :: bool
  in_scroll_cooldown :: nat

record scratch_buffers =
  sb_header_text :: rstr
  sb_scroll_indicator :: rstr
  sb_recents_count_text :: rstr
  sb_favorites_count_text :: rstr

record core_state =
  cs_cb :: callback_state
  cs_display :: display_state
  cs_game :: game_data
  cs_net :: network_state
  cs_input :: input_state
  cs_scratch :: scratch_buffers

text \<open>The initial value of the static \<open>STATE\<close>.\<close>

definition initial_layout :: layout_config where
  "initial_layout = \<lparr>lc_width = 320, lc_height = 240, lc_font_scale = 1, lc_title_scale = 2, lc_label_scale = 1,
     lc_margin_x = 10, lc_margin_y = 8, lc_max_desc_lines = 6, lc_chars_per_line = 33,
     lc_full_chars_per_line = 33, lc_max_desc_lines_full = 8, lc_show_extra_metadata = False\<rparr>"

definition STATE :: core_state where
  "STATE =
     \<lparr>cs_cb = \<lparr>cb_environment = False, cb_video = False, cb_audio_sample = False, cb_audio_batch = False,
               cb_input_poll = False, cb_input_state = False\<rparr>,
      cs_display = \<lparr>ds_framebuffer = [], ds_present_buffer = [], ds_framebuffer_16 = [], ds_present_buffer_16 = [],
               ds_pixel_format = Xrgb8888, ds_frame_count = 0, ds_layout = initial_layout, ds_palette = load_palette 0\<rparr>,
      cs_game = \<lparr>gm_view = HomeView, gm_home_cursor = 0, gm_list_mode = Recents, gm_entries = [], gm_favorites = [],
               gm_current_index = 0, gm_detail_cache = [], gm_fav_detail_cache = [], gm_desc_scroll = 0,
               gm_current_page = 0, gm_recents_index = 0, gm_favorites_index = 0\<rparr>,
      cs_net = \<lparr>ns_api_available = False, ns_status_message = [], ns_loading = False\<rparr>,
      cs_input = \<lparr>in_prev_left = False, in_prev_right = False, in_prev_b = False, in_prev_l1 = False, in_prev_r1 = False,
               in_prev_a = False, in_prev_up = False, in_prev_down = False, in_scroll_cooldown = 0\<rparr>,
      cs_scratch = \<lparr>sb_header_text = [], sb_scroll_indicator = [], sb_recents_count_text = [], sb_favorites_count_text = []\<rparr>\<rparr>"

text \<open>Updates of one part of the state.\<close>

definition in_game :: "(game_data \<Rightarrow> game_data) \<Rightarrow> core_state \<Rightarrow> core_state" where
  "in_game f s = s\<lparr>cs_game := f (cs_game s)\<rparr>"

definition in_net :: "(network_state \<Rightarrow> network_state) \<Rightarrow> core_state \<Rightarrow> core_state" where
  "in_net f s = s\<lparr>cs_net := f (cs_net s)\<rparr>"

definition in_input :: "(input_state \<Rightarrow> input_state) \<Rightarrow> core_state \<Rightarrow> core_state" where
  "in_input f s = s\<lparr>cs_input := f (cs_input s)\<rparr>"

definition in_scratch :: "(scratch_buffers \<Rightarrow> scratch_buffers) \<Rightarrow> core_state \<Rightarrow> core_state" where
  "in_scratch f s = s\<lparr>cs_scratch := f (cs_scratch s)\<rparr>"

definition in_display :: "(display_state \<Rightarrow> display_state) \<Rightarrow> core_state \<Rightarrow> core_state" where
  "in_display f s = s\<lparr>cs_display := f (cs_display s)\<rparr>"

lemmas state_updates = in_game_def in_net_def in_input_def in_scratch_def in_display_def

abbreviation status :: "core_state \<Rightarrow> rstr" where
  "status s \<equiv> ns_status_message (cs_net s)"

abbreviation set_status :: "rstr \<Rightarrow> core_state \<Rightarrow> core_state" where
  "set_status msg \<equiv> in_net (\<lambda>n. n\<lparr>ns_status_message := msg\<rparr>)"

section \<open>Texts computed in advance\<close>

definition precompute_display :: "f32_ops \<Rightarrow> game_detail \<Rightarrow> nat \<Rightarrow> nat \<Rightarrow> precomputed_display may_panic" where
  "precompute_display fl detail chars_per_line full_chars_per_line = do {
     let sys_year_line = (if gd_year detail \<noteq> [] then gd_system_display detail @ lit ''  -  '' @ gd_year detail
                          else gd_system_display detail);
     let n = unat (gd_players detail);
     let players_text = (if n = 0 then [] else if n = 1 then lit ''1 Player''
                         else lit ''1-'' @ nat_to_str n @ lit '' Players'');
     let rating_text = (case gd_rating detail of Some r \<Rightarrow> f32_fixed1 fl r | None \<Rightarrow> []);
     desc_lines \<leftarrow> (case gd_description detail of Some desc \<Rightarrow> word_wrap desc chars_per_line | None \<Rightarrow> Some []);
     desc_lines_full \<leftarrow> (case gd_description detail of Some desc \<Rightarrow> word_wrap desc full_chars_per_line | None \<Rightarrow> Some []);
     Some \<lparr>pd_sys_year_line = sys_year_line, pd_players_text = players_text, pd_rating_text = rating_text,
           pd_desc_lines = desc_lines, pd_desc_lines_full = desc_lines_full\<rparr>
   }"

definition mode_entries :: "game_data \<Rightarrow> list_mode \<Rightarrow> game_entry list" where
  "mode_entries g mode = (case mode of Recents \<Rightarrow> gm_entries g | Favorites \<Rightarrow> gm_favorites g)"

definition mode_cache :: "game_data \<Rightarrow> list_mode \<Rightarrow> game_detail option list" where
  "mode_cache g mode = (case mode of Recents \<Rightarrow> gm_detail_cache g | Favorites \<Rightarrow> gm_fav_detail_cache g)"

definition active_list :: "game_data \<Rightarrow> game_entry list \<times> game_detail option list" where
  "active_list g = (mode_entries g (gm_list_mode g), mode_cache g (gm_list_mode g))"

fun mode_label :: "list_mode \<Rightarrow> rstr" where
  "mode_label Recents = lit ''RECENTLY PLAYED''"
| "mode_label Favorites = lit ''FAVORITES''"

definition update_header_text :: "core_state \<Rightarrow> core_state" where
  "update_header_text s =
     (let total = length (fst (active_list (cs_game s)))
      in in_scratch (\<lambda>b. b\<lparr>sb_header_text :=
           if 0 < total
           then mode_label (gm_list_mode (cs_game s)) @ lit ''  ('' @ nat_to_str (gm_current_index (cs_game s) + 1) @ lit ''/''
                @ nat_to_str total @ lit '')''
           else []\<rparr>) s)"

text \<open>\<open>cache.get(index)\<close>, flattened: the detail of a game if the index and the slot are filled.\<close>

definition cached :: "game_detail option list \<Rightarrow> nat \<Rightarrow> game_detail option" where
  "cached cache i = (if i < length cache then cache ! i else None)"

definition current_detail :: "game_data \<Rightarrow> game_detail option" where
  "current_detail g = cached (snd (active_list g)) (gm_current_index g)"

definition update_scroll_indicator :: "core_state \<Rightarrow> core_state" where
  "update_scroll_indicator s =
     (let g = cs_game s; layout = ds_layout (cs_display s)
      in in_scratch (\<lambda>b. b\<lparr>sb_scroll_indicator :=
           (case current_detail g of
              None \<Rightarrow> []
            | Some detail \<Rightarrow>
                let (total_lines, max_lines) =
                      (if page_at (gm_current_page g) = Some Description
                       then (length (pd_desc_lines_full (gd_display detail)), lc_max_desc_lines_full layout)
                       else (length (pd_desc_lines (gd_display detail)), lc_max_desc_lines layout))
                in if max_lines < total_lines
                   then lit ''['' @ nat_to_str (min (gm_desc_scroll g) (total_lines - max_lines) + 1) @ lit ''/''
                        @ nat_to_str (total_lines - max_lines + 1) @ lit '']''
                   else [])\<rparr>) s)"

definition update_home_counts :: "core_state \<Rightarrow> core_state" where
  "update_home_counts s =
     in_scratch (\<lambda>b. b\<lparr>sb_recents_count_text := nat_to_str (length (gm_entries (cs_game s))),
       sb_favorites_count_text := nat_to_str (length (gm_favorites (cs_game s)))\<rparr>) s"

section \<open>Loading\<close>

fun empty_message :: "list_mode \<Rightarrow> rstr" where
  "empty_message Recents = lit ''No recently played games found.''"
| "empty_message Favorites = lit ''No favorites found.''"

fun fetch_message :: "list_mode \<Rightarrow> rstr" where
  "fetch_message Recents = lit ''Fetching recently played...''"
| "fetch_message Favorites = lit ''Fetching favorites...''"

fun error_message :: "list_mode \<Rightarrow> rstr \<Rightarrow> rstr" where
  "error_message Recents e = lit ''Replay Control not available: '' @ e"
| "error_message Favorites e = lit ''Could not load favorites: '' @ e"

definition set_cache :: "list_mode \<Rightarrow> nat \<Rightarrow> game_detail \<Rightarrow> core_state \<Rightarrow> core_state" where
  "set_cache mode i detail s =
     (if i < length (mode_cache (cs_game s) mode)
      then in_game (\<lambda>g. case mode of
             Recents \<Rightarrow> g\<lparr>gm_detail_cache := (gm_detail_cache g)[i := Some detail]\<rparr>
           | Favorites \<Rightarrow> g\<lparr>gm_fav_detail_cache := (gm_fav_detail_cache g)[i := Some detail]\<rparr>) s
      else s)"

definition fallback_detail :: "game_entry \<Rightarrow> game_detail" where
  "fallback_detail entry =
     \<lparr>gd_display_name = ge_display_name entry, gd_system_display = ge_system_display entry, gd_year = [], gd_developer = [],
      gd_genre = [], gd_players = 0, gd_rating = None, gd_description = None, gd_publisher = None, gd_region = None,
      gd_box_art = None, gd_display = empty_display\<rparr>"

definition prefetch_detail :: "core_env \<Rightarrow> list_mode \<Rightarrow> core_state \<Rightarrow> nat \<Rightarrow> core_state may_panic" where
  "prefetch_detail env mode s i =
     (let g = cs_game s; layout = ds_layout (cs_display s)
      in if length (mode_entries g mode) \<le> i then Some s
         else if cached (mode_cache g mode) i \<noteq> None then Some s
         else (let entry = mode_entries g mode ! i
               in case fetch_rom_detail env (ge_system entry) (ge_rom_filename entry) of
                    Inr detail \<Rightarrow> do {
                      detail \<leftarrow> (if i < MAX_BOX_ART_PREFETCH then
                                   (case ge_box_art_url entry of
                                      Some url \<Rightarrow> map_option (\<lambda>art. detail\<lparr>gd_box_art := art\<rparr>) (fetch_box_art_for_layout env url layout)
                                    | None \<Rightarrow> Some detail)
                                 else Some detail);
                      display \<leftarrow> precompute_display (ce_f32 env) detail (lc_chars_per_line layout) (lc_full_chars_per_line layout);
                      Some (set_cache mode i (detail\<lparr>gd_display := display\<rparr>) s)
                    }
                  | Inl _ \<Rightarrow> do {
                      let fallback = fallback_detail entry;
                      display \<leftarrow> precompute_display (ce_f32 env) fallback (lc_chars_per_line layout) (lc_full_chars_per_line layout);
                      Some (set_cache mode i (fallback\<lparr>gd_display := display\<rparr>) s)
                    }))"

definition install_list :: "list_mode \<Rightarrow> game_entry list \<Rightarrow> game_data \<Rightarrow> game_data" where
  "install_list mode es g =
     (case mode of
        Recents \<Rightarrow> g\<lparr>gm_entries := es, gm_detail_cache := replicate (length es) None,
                      gm_current_index := 0, gm_desc_scroll := 0, gm_recents_index := 0\<rparr>
      | Favorites \<Rightarrow> g\<lparr>gm_favorites := es, gm_fav_detail_cache := replicate (length es) None,
                      gm_current_index := 0, gm_desc_scroll := 0, gm_favorites_index := 0\<rparr>)"

definition load_list :: "core_env \<Rightarrow> list_mode \<Rightarrow> core_state \<Rightarrow> core_state may_panic" where
  "load_list env mode s = do {
     let s = in_net (\<lambda>n. n\<lparr>ns_status_message := fetch_message mode, ns_loading := True\<rparr>) s;
     result \<leftarrow> (case mode of Recents \<Rightarrow> fetch_recents env | Favorites \<Rightarrow> fetch_favorites env);
     (case result of
        Inr es \<Rightarrow>
          let s = in_net (\<lambda>n. n\<lparr>ns_api_available := True, ns_loading := False\<rparr>) (in_game (install_list mode es) s)
          in if es = [] then Some (set_status (empty_message mode) s)
             else each (prefetch_detail env mode) (set_status [] s) [0..<length es]
      | Inl e \<Rightarrow>
          Some (in_net (\<lambda>n. n\<lparr>ns_api_available := False, ns_loading := False, ns_status_message := error_message mode e\<rparr>) s))
   }"


section \<open>Input\<close>

datatype frontend_call =
    PollInput
  | EnvShutdown
  | EnvSupportNoGame
  | EnvSetPixelFormat
  | Video32 "u32 list" nat nat nat
  | Video16 "u16 list" nat nat nat
  | AudioSilence nat

text \<open>The buttons that the frontend reports as pressed, by their libretro number.\<close>

type_synonym buttons = "nat \<Rightarrow> bool"

definition JOYPAD_B :: nat where "JOYPAD_B = 0"
definition JOYPAD_UP :: nat where "JOYPAD_UP = 4"
definition JOYPAD_DOWN :: nat where "JOYPAD_DOWN = 5"
definition JOYPAD_LEFT :: nat where "JOYPAD_LEFT = 6"
definition JOYPAD_RIGHT :: nat where "JOYPAD_RIGHT = 7"
definition JOYPAD_A :: nat where "JOYPAD_A = 8"
definition JOYPAD_L :: nat where "JOYPAD_L = 10"
definition JOYPAD_R :: nat where "JOYPAD_R = 11"

definition HOME_MENU_COUNT :: nat where
  "HOME_MENU_COUNT = 2"

definition saved_index :: "nat \<Rightarrow> nat \<Rightarrow> nat" where
  "saved_index i len = (if 0 < len then min i (len - 1) else 0)"

text \<open>The A button of the home screen: open the list under the cursor.\<close>

definition open_list :: "core_state \<Rightarrow> core_state" where
  "open_list s =
     (let g = cs_game s;
          s = (if gm_home_cursor g = 0
               then set_status (if gm_entries g = [] then empty_message Recents else [])
                      (in_game (\<lambda>g. g\<lparr>gm_list_mode := Recents, gm_current_index := saved_index (gm_recents_index g) (length (gm_entries g))\<rparr>) s)
               else set_status (if gm_favorites g = [] then empty_message Favorites else [])
                      (in_game (\<lambda>g. g\<lparr>gm_list_mode := Favorites, gm_current_index := saved_index (gm_favorites_index g) (length (gm_favorites g))\<rparr>) s));
          s = in_game (\<lambda>g. g\<lparr>gm_desc_scroll := 0, gm_current_page := 0, gm_view := GameDetailView\<rparr>) s
      in update_scroll_indicator (update_header_text s))"

definition handle_input_home :: "core_state \<Rightarrow> bool \<Rightarrow> bool \<Rightarrow> bool \<Rightarrow> bool \<Rightarrow> core_state \<times> frontend_call list" where
  "handle_input_home s up down a_pressed b_pressed =
     (let s = (if up \<and> \<not> in_prev_up (cs_input s)
               then in_game (\<lambda>g. g\<lparr>gm_home_cursor := if 0 < gm_home_cursor g then gm_home_cursor g - 1 else HOME_MENU_COUNT - 1\<rparr>) s else s);
          s = (if down \<and> \<not> in_prev_down (cs_input s)
               then in_game (\<lambda>g. g\<lparr>gm_home_cursor := if gm_home_cursor g < HOME_MENU_COUNT - 1 then gm_home_cursor g + 1 else 0\<rparr>) s else s);
          s = (if a_pressed \<and> \<not> in_prev_a (cs_input s) then open_list s else s)
      in (s, if b_pressed \<and> \<not> in_prev_b (cs_input s) \<and> cb_environment (cs_cb s) then [EnvShutdown] else []))"

definition save_index :: "game_data \<Rightarrow> game_data" where
  "save_index g =
     (case gm_list_mode g of
        Recents \<Rightarrow> g\<lparr>gm_recents_index := gm_current_index g\<rparr>
      | Favorites \<Rightarrow> g\<lparr>gm_favorites_index := gm_current_index g\<rparr>)"

definition page_back :: "game_data \<Rightarrow> game_data" where
  "page_back g = g\<lparr>gm_current_page := if 0 < gm_current_page g then gm_current_page g - 1 else PAGE_COUNT - 1, gm_desc_scroll := 0\<rparr>"

definition page_forward :: "game_data \<Rightarrow> game_data" where
  "page_forward g = g\<lparr>gm_current_page := if gm_current_page g < PAGE_COUNT - 1 then gm_current_page g + 1 else 0, gm_desc_scroll := 0\<rparr>"

definition go_to :: "nat \<Rightarrow> game_data \<Rightarrow> game_data" where
  "go_to i g = (save_index (g\<lparr>gm_current_index := i\<rparr>))\<lparr>gm_desc_scroll := 0, gm_current_page := 0\<rparr>"

definition game_left :: "nat \<Rightarrow> game_data \<Rightarrow> game_data" where
  "game_left len g = go_to (if 0 < gm_current_index g then gm_current_index g - 1 else len - 1) g"

definition game_right :: "nat \<Rightarrow> game_data \<Rightarrow> game_data" where
  "game_right len g = go_to (if gm_current_index g < len - 1 then gm_current_index g + 1 else 0) g"

text \<open>How far the description of the current game can be scrolled, if its detail is cached.\<close>

definition max_scroll :: "core_state \<Rightarrow> nat option" where
  "max_scroll s =
     map_option (\<lambda>d. length (pd_desc_lines_full (gd_display d)) - lc_max_desc_lines_full (ds_layout (cs_display s)))
       (current_detail (cs_game s))"

definition scroll_up :: "core_state \<Rightarrow> core_state" where
  "scroll_up s = in_input (\<lambda>i. i\<lparr>in_scroll_cooldown := 8\<rparr>) (in_game (\<lambda>g. g\<lparr>gm_desc_scroll := gm_desc_scroll g - 1\<rparr>) s)"

definition scroll_down :: "core_state \<Rightarrow> core_state" where
  "scroll_down s = in_input (\<lambda>i. i\<lparr>in_scroll_cooldown := 8\<rparr>) (in_game (\<lambda>g. g\<lparr>gm_desc_scroll := gm_desc_scroll g + 1\<rparr>) s)"

text \<open>The scrolling block: the new state and whether it scrolled.\<close>

definition scroll_step :: "core_state \<Rightarrow> bool \<Rightarrow> bool \<Rightarrow> core_state \<times> bool" where
  "scroll_step s up down =
     (if (up \<or> down) \<and> in_scroll_cooldown (cs_input s) = 0 \<and> page_at (gm_current_page (cs_game s)) = Some Description
      then (case max_scroll s of
              None \<Rightarrow> (s, False)
            | Some limit \<Rightarrow>
                let (s, scrolled) = (if up \<and> 0 < gm_desc_scroll (cs_game s) then (scroll_up s, True) else (s, False))
                in if down \<and> gm_desc_scroll (cs_game s) < limit then (scroll_down s, True) else (s, scrolled))
      else (s, False))"

definition handle_input_detail :: "core_state \<Rightarrow> bool \<Rightarrow> bool \<Rightarrow> bool \<Rightarrow> bool \<Rightarrow> bool \<Rightarrow> bool \<Rightarrow> bool \<Rightarrow> core_state" where
  "handle_input_detail s left right up down b_pressed l1 r1 =
     (let len = length (mode_entries (cs_game s) (gm_list_mode (cs_game s)));
          s = (if 0 < len \<and> len \<le> gm_current_index (cs_game s) then in_game (\<lambda>g. g\<lparr>gm_current_index := 0\<rparr>) s else s);
          prev = cs_input s
      in if b_pressed \<and> \<not> in_prev_b prev
         then in_game (\<lambda>g. (save_index g)\<lparr>gm_view := HomeView\<rparr>) s
         else
           (let l1_hit = (l1 \<and> \<not> in_prev_l1 prev); r1_hit = (r1 \<and> \<not> in_prev_r1 prev);
                left_hit = (left \<and> \<not> in_prev_left prev \<and> 0 < len); right_hit = (right \<and> \<not> in_prev_right prev \<and> 0 < len);
                s = (if l1_hit then in_game page_back s else s);
                s = (if r1_hit then in_game page_forward s else s);
                s = (if left_hit then in_game (game_left len) s else s);
                s = (if right_hit then in_game (game_right len) s else s);
                s = (if 0 < in_scroll_cooldown (cs_input s)
                     then in_input (\<lambda>i. i\<lparr>in_scroll_cooldown := in_scroll_cooldown i - 1\<rparr>) s else s);
                (s, scrolled) = scroll_step s up down;
                s = (if \<not> up \<and> \<not> down then in_input (\<lambda>i. i\<lparr>in_scroll_cooldown := 0\<rparr>) s else s)
            in if l1_hit \<or> r1_hit \<or> left_hit \<or> right_hit then update_scroll_indicator (update_header_text s)
               else if scrolled then update_scroll_indicator s
               else s))"

definition handle_input :: "buttons \<Rightarrow> core_state \<Rightarrow> core_state \<times> frontend_call list" where
  "handle_input btn s =
     (if \<not> cb_input_state (cs_cb s) then (s, [])
      else
        (let left = btn JOYPAD_LEFT; right = btn JOYPAD_RIGHT; up = btn JOYPAD_UP; down = btn JOYPAD_DOWN;
             b_pressed = btn JOYPAD_B; a_pressed = btn JOYPAD_A; l1 = btn JOYPAD_L; r1 = btn JOYPAD_R;
             (s, calls) = (case gm_view (cs_game s) of
                HomeView \<Rightarrow> handle_input_home s up down a_pressed b_pressed
              | GameDetailView \<Rightarrow> (handle_input_detail s left right up down b_pressed l1 r1, []))
         in (in_input (\<lambda>i. i\<lparr>in_prev_left := left, in_prev_right := right, in_prev_b := b_pressed, in_prev_a := a_pressed,
               in_prev_up := up, in_prev_down := down, in_prev_l1 := l1, in_prev_r1 := r1\<rparr>) s, calls)))"

section \<open>The libretro interface\<close>

definition retro_set_environment :: "bool \<Rightarrow> core_state \<Rightarrow> core_state \<times> frontend_call list" where
  "retro_set_environment accepted s =
     (in_display (\<lambda>d. d\<lparr>ds_pixel_format := if accepted then Xrgb8888 else Bgr565\<rparr>)
        (s\<lparr>cs_cb := (cs_cb s)\<lparr>cb_environment := True\<rparr>\<rparr>), [EnvSupportNoGame, EnvSetPixelFormat])"

definition retro_set_video_refresh :: "core_state \<Rightarrow> core_state" where
  "retro_set_video_refresh s = s\<lparr>cs_cb := (cs_cb s)\<lparr>cb_video := True\<rparr>\<rparr>"

definition retro_set_audio_sample :: "core_state \<Rightarrow> core_state" where
  "retro_set_audio_sample s = s\<lparr>cs_cb := (cs_cb s)\<lparr>cb_audio_sample := True\<rparr>\<rparr>"

definition retro_set_audio_sample_batch :: "core_state \<Rightarrow> core_state" where
  "retro_set_audio_sample_batch s = s\<lparr>cs_cb := (cs_cb s)\<lparr>cb_audio_batch := True\<rparr>\<rparr>"

definition retro_set_input_poll :: "core_state \<Rightarrow> core_state" where
  "retro_set_input_poll s = s\<lparr>cs_cb := (cs_cb s)\<lparr>cb_input_poll := True\<rparr>\<rparr>"

definition retro_set_input_state :: "core_state \<Rightarrow> core_state" where
  "retro_set_input_state s = s\<lparr>cs_cb := (cs_cb s)\<lparr>cb_input_state := True\<rparr>\<rparr>"

definition retro_deinit :: "core_state \<Rightarrow> core_state" where
  "retro_deinit s =
     (let s = s\<lparr>cs_cb := \<lparr>cb_environment = False, cb_video = False, cb_audio_sample = False, cb_audio_batch = False,
                 cb_input_poll = False, cb_input_state = False\<rparr>\<rparr>;
          s = in_game (\<lambda>g. g\<lparr>gm_entries := [], gm_favorites := [], gm_detail_cache := [], gm_fav_detail_cache := []\<rparr>) s;
          s = in_display (\<lambda>d. d\<lparr>ds_framebuffer := [], ds_present_buffer := [], ds_framebuffer_16 := [], ds_present_buffer_16 := []\<rparr>) s
      in s\<lparr>cs_scratch := \<lparr>sb_header_text = [], sb_scroll_indicator = [], sb_recents_count_text = [], sb_favorites_count_text = []\<rparr>\<rparr>)"

definition home_position :: "game_data \<Rightarrow> game_data" where
  "home_position g = g\<lparr>gm_view := HomeView, gm_home_cursor := 0, gm_list_mode := Recents, gm_current_index := 0,
     gm_desc_scroll := 0, gm_current_page := 0, gm_recents_index := 0, gm_favorites_index := 0\<rparr>"

definition refresh_texts :: "core_state \<Rightarrow> core_state" where
  "refresh_texts s = update_home_counts (update_scroll_indicator (update_header_text s))"

definition clear_status_if_games :: "core_state \<Rightarrow> core_state" where
  "clear_status_if_games s = (if gm_entries (cs_game s) \<noteq> [] then set_status [] s else s)"

definition retro_reset :: "core_env \<Rightarrow> core_state \<Rightarrow> core_state may_panic" where
  "retro_reset env s = do {
     let s = in_game home_position (in_display (\<lambda>d. d\<lparr>ds_frame_count := 0\<rparr>) s);
     s \<leftarrow> load_list env Recents s;
     s \<leftarrow> load_list env Favorites s;
     let s = in_game (\<lambda>g. g\<lparr>gm_list_mode := Recents, gm_current_index := 0, gm_desc_scroll := 0,
                        gm_recents_index := 0, gm_favorites_index := 0\<rparr>) s;
     Some (refresh_texts (clear_status_if_games s))
   }"

definition retro_load_game :: "core_env \<Rightarrow> core_state \<Rightarrow> core_state may_panic" where
  "retro_load_game env s = do {
     let layout = detect (ce_replay_cfg env);
     let palette = load_palette (detect_skin_index (ce_settings_cfg env) (ce_replay_cfg env));
     let pixel_count = lc_width layout * lc_height layout;
     let s = in_display (\<lambda>d. d\<lparr>ds_layout := layout, ds_palette := palette,
               ds_framebuffer := replicate pixel_count 0, ds_present_buffer := replicate pixel_count 0,
               ds_framebuffer_16 := replicate pixel_count 0, ds_present_buffer_16 := replicate pixel_count 0\<rparr>) s;
     s \<leftarrow> load_list env Recents s;
     s \<leftarrow> load_list env Favorites s;
     let s = clear_status_if_games (in_game home_position s);
     Some (refresh_texts s)
   }"

definition retro_unload_game :: "core_state \<Rightarrow> core_state" where
  "retro_unload_game s =
     in_display (\<lambda>d. d\<lparr>ds_present_buffer := replicate (length (ds_present_buffer d)) 0,
                       ds_present_buffer_16 := replicate (length (ds_present_buffer_16 d)) 0\<rparr>)
       (in_game (\<lambda>g. g\<lparr>gm_entries := [], gm_favorites := [], gm_detail_cache := [], gm_fav_detail_cache := []\<rparr>) s)"

section \<open>Save states\<close>

definition SAVE_STATE_SIZE :: nat where
  "SAVE_STATE_SIZE = 24"

text \<open>\<open>(x as u32).to_le_bytes()\<close> and \<open>u32::from_le_bytes\<close>.\<close>

definition le32 :: "nat \<Rightarrow> u8 list" where
  "le32 n = (let n = n mod 2 ^ 32 in [of_nat n, of_nat (n div 256), of_nat (n div 65536), of_nat (n div 16777216)])"

definition of_le32 :: "u8 list \<Rightarrow> nat" where
  "of_le32 b = unat (b ! 0) + 256 * unat (b ! 1) + 65536 * unat (b ! 2) + 16777216 * unat (b ! 3)"

definition bytes_at :: "nat \<Rightarrow> u8 list \<Rightarrow> nat" where
  "bytes_at i buf = of_le32 (take 4 (drop i buf))"

text \<open>The 24 bytes written to the frontend's memory, or the refusal of a smaller one.\<close>

definition retro_serialize :: "nat \<Rightarrow> core_state \<Rightarrow> u8 list option" where
  "retro_serialize capacity s =
     (if capacity < SAVE_STATE_SIZE then None
      else (let g = cs_game s
            in Some (le32 (gm_current_index g) @ le32 (gm_desc_scroll g)
                 @ [case gm_list_mode g of Recents \<Rightarrow> 0 | Favorites \<Rightarrow> 1, of_nat (gm_current_page g),
                    case gm_view g of HomeView \<Rightarrow> 0 | GameDetailView \<Rightarrow> 1, of_nat (gm_home_cursor g)]
                 @ le32 (gm_recents_index g) @ le32 (gm_favorites_index g) @ [0, 0, 0, 0])))"

definition retro_unserialize :: "u8 list \<Rightarrow> core_state \<Rightarrow> core_state \<times> bool" where
  "retro_unserialize data s =
     (if length data < SAVE_STATE_SIZE then (s, False)
      else
        (let buf = take SAVE_STATE_SIZE data;
             g = cs_game s;
             mode = (if buf ! 8 = 1 then Favorites else Recents);
             page = unat (buf ! 9);
             s = in_game (\<lambda>g. g\<lparr>
                   gm_view := (if buf ! 10 = 1 then GameDetailView else HomeView),
                   gm_home_cursor := min (unat (buf ! 11)) 1,
                   gm_list_mode := mode,
                   gm_current_index := saved_index (bytes_at 0 buf) (length (mode_entries g mode)),
                   gm_desc_scroll := bytes_at 4 buf,
                   gm_current_page := (if page < PAGE_COUNT then page else 0),
                   gm_recents_index := saved_index (bytes_at 12 buf) (length (gm_entries g)),
                   gm_favorites_index := saved_index (bytes_at 16 buf) (length (gm_favorites g))\<rparr>) s
         in (update_scroll_indicator (update_header_text s), True)))"

end
