(* ===== verification/Core_Draw.thy ===== *)
theory Core_Draw
  imports Rust_Text Core_Font
begin

text \<open>
  Drawing of the libretro core (\<open>replay-control-libretro/src/draw.rs\<close>).

  The frame buffer is the list of its pixels, row by row; an index outside it is a panic, as in
  the code. Widths and heights are natural numbers and coordinates integers: screens are at
  most 1920 by 1080 and every coordinate stays far below \<open>2 ^ 31\<close>, so no \<open>i32\<close> wraps.
  Loops over ranges are \<open>each\<close> over the list of the range.
\<close>

type_synonym fb = "u32 list"

definition set_at :: "int \<Rightarrow> u32 \<Rightarrow> fb \<Rightarrow> fb may_panic" where
  "set_at i color fb = (if 0 \<le> i \<and> i < int (length fb) then Some (fb[nat i := color]) else None)"

section \<open>Characters and strings\<close>

definition put_pixel :: "nat \<Rightarrow> nat \<Rightarrow> int \<Rightarrow> int \<Rightarrow> u32 \<Rightarrow> fb \<Rightarrow> fb may_panic" where
  "put_pixel w h px py color fb =
     (if 0 \<le> px \<and> px < int w \<and> 0 \<le> py \<and> py < int h then set_at (py * int w + px) color fb else Some fb)"

definition draw_char :: "nat \<Rightarrow> nat \<Rightarrow> u8 \<Rightarrow> int \<Rightarrow> int \<Rightarrow> u32 \<Rightarrow> nat \<Rightarrow> fb \<Rightarrow> fb may_panic" where
  "draw_char w h ch x y color scale fb =
     each (\<lambda>fb (row, bits).
       each (\<lambda>fb col.
         if bit bits (7 - col) then
           each (\<lambda>fb sy.
             each (\<lambda>fb sx.
               put_pixel w h (x + int (col * scale + sx)) (y + int (row * scale + sy)) color fb)
             fb [0..<scale])
           fb [0..<scale]
         else Some fb)
       fb [0..<8])
     fb (List.enumerate 0 (get_char_bitmap ch))"

fun draw_bytes :: "nat \<Rightarrow> nat \<Rightarrow> u8 list \<Rightarrow> int \<Rightarrow> int \<Rightarrow> u32 \<Rightarrow> nat \<Rightarrow> fb \<Rightarrow> (fb \<times> int) may_panic" where
  "draw_bytes w h [] cx y color scale fb = Some (fb, cx)"
| "draw_bytes w h (ch # bytes) cx y color scale fb =
     (if int w \<le> cx then Some (fb, cx)
      else do {
        fb \<leftarrow> draw_char w h ch cx y color scale fb;
        draw_bytes w h bytes (cx + 9 * int scale) y color scale fb
      })"

definition draw_string :: "nat \<Rightarrow> nat \<Rightarrow> rstr \<Rightarrow> int \<Rightarrow> int \<Rightarrow> u32 \<Rightarrow> nat \<Rightarrow> fb \<Rightarrow> (fb \<times> int) may_panic" where
  "draw_string w h s x y color scale fb = draw_bytes w h (utf8_bytes s) x y color scale fb"

definition draw_string_truncated ::
  "nat \<Rightarrow> nat \<Rightarrow> rstr \<Rightarrow> int \<Rightarrow> int \<Rightarrow> u32 \<Rightarrow> nat \<Rightarrow> nat \<Rightarrow> fb \<Rightarrow> fb may_panic" where
  "draw_string_truncated w h s x y color scale max_chars fb =
     (if length s \<le> max_chars then map_option fst (draw_string w h s x y color scale fb)
      else do {
        (fb, end_x) \<leftarrow> draw_string w h (take (max_chars - 2) s) x y color scale fb;
        map_option fst (draw_string w h (lit ''..'') end_x y color scale fb)
      })"

section \<open>Rectangles, lines, images\<close>

definition draw_rect :: "nat \<Rightarrow> nat \<Rightarrow> int \<Rightarrow> int \<Rightarrow> nat \<Rightarrow> nat \<Rightarrow> u32 \<Rightarrow> fb \<Rightarrow> fb may_panic" where
  "draw_rect w h rx ry rw rh color fb =
     each (\<lambda>fb row.
       each (\<lambda>fb col. set_at (row * int w + col) color fb)
       fb [max rx 0 .. min (rx + int rw) (int w) - 1])
     fb [max ry 0 .. min (ry + int rh) (int h) - 1]"

definition draw_hline :: "nat \<Rightarrow> nat \<Rightarrow> int \<Rightarrow> int \<Rightarrow> nat \<Rightarrow> u32 \<Rightarrow> fb \<Rightarrow> fb may_panic" where
  "draw_hline w h x y len color fb =
     (if y < 0 \<or> int h \<le> y then Some fb
      else each (\<lambda>fb col. set_at (y * int w + col) color fb) fb [max x 0 .. min (x + int len) (int w) - 1])"

text \<open>\<open>dst[i..i + n].copy_from_slice(&src[j..j + n])\<close>.\<close>

definition copy_slice :: "nat \<Rightarrow> nat \<Rightarrow> u32 list \<Rightarrow> nat \<Rightarrow> fb \<Rightarrow> fb may_panic" where
  "copy_slice i n src j dst =
     (if i + n \<le> length dst \<and> j + n \<le> length src
      then Some (take i dst @ take n (drop j src) @ drop (i + n) dst) else None)"

fun blit_rows :: "nat \<Rightarrow> nat \<Rightarrow> u32 list \<Rightarrow> nat \<Rightarrow> nat \<Rightarrow> nat \<Rightarrow> nat list \<Rightarrow> fb \<Rightarrow> fb may_panic" where
  "blit_rows fb_w fb_h pixels img_w dx dy [] fb = Some fb"
| "blit_rows fb_w fb_h pixels img_w dx dy (row # rows) fb =
     (let fb_y = dy + row
      in if fb_h \<le> fb_y then Some fb
         else (let copy_w = min img_w (fb_w - dx)
               in if copy_w = 0 then blit_rows fb_w fb_h pixels img_w dx dy rows fb
                  else do {
                    fb \<leftarrow> copy_slice (fb_y * fb_w + dx) copy_w pixels (row * img_w) fb;
                    blit_rows fb_w fb_h pixels img_w dx dy rows fb
                  }))"

definition blit_image :: "nat \<Rightarrow> nat \<Rightarrow> u32 list \<Rightarrow> nat \<Rightarrow> nat \<Rightarrow> nat \<Rightarrow> nat \<Rightarrow> fb \<Rightarrow> fb may_panic" where
  "blit_image fb_w fb_h pixels img_w img_h dx dy fb = blit_rows fb_w fb_h pixels img_w dx dy [0..<img_h] fb"

section \<open>Stars\<close>

definition draw_star_filled :: "nat \<Rightarrow> nat \<Rightarrow> int \<Rightarrow> int \<Rightarrow> int \<Rightarrow> u32 \<Rightarrow> fb \<Rightarrow> fb may_panic" where
  "draw_star_filled w h cx cy radius color fb =
     each (\<lambda>fb dy.
       let spread = radius - \<bar>dy\<bar>
       in each (\<lambda>fb dx. put_pixel w h (cx + dx) (cy + dy) color fb) fb [- spread .. spread])
     fb [- radius .. radius]"

definition draw_star_empty :: "nat \<Rightarrow> nat \<Rightarrow> int \<Rightarrow> int \<Rightarrow> int \<Rightarrow> u32 \<Rightarrow> fb \<Rightarrow> fb may_panic" where
  "draw_star_empty w h cx cy radius color fb = do {
     fb \<leftarrow> each (\<lambda>fb dy.
             let spread = radius - \<bar>dy\<bar>
             in each (\<lambda>fb dx. put_pixel w h (cx + dx) (cy + dy) color fb) fb [- spread, spread])
           fb [- radius .. radius];
     each (\<lambda>fb dx.
       let px = cx + dx; py_top = cy - radius; py_bot = cy + radius
       in if 0 \<le> px \<and> px < int w then do {
            fb \<leftarrow> (if 0 \<le> py_top \<and> py_top < int h then set_at (py_top * int w + px) color fb else Some fb);
            if 0 \<le> py_bot \<and> py_bot < int h then set_at (py_bot * int w + px) color fb else Some fb
          } else Some fb)
     fb [- 1 .. 1]
   }"

text \<open>
  \<open>full_stars\<close> and \<open>half\<close> are \<open>rating.floor() as i32\<close> and \<open>rating - rating.floor() >= 0.25\<close>: the
  caller passes the two results instead of the single-precision number.
\<close>

definition draw_rating ::
  "nat \<Rightarrow> nat \<Rightarrow> int \<Rightarrow> bool \<Rightarrow> int \<Rightarrow> int \<Rightarrow> int \<Rightarrow> rstr \<Rightarrow> u32 \<Rightarrow> u32 \<Rightarrow> u32 \<Rightarrow> fb \<Rightarrow> (fb \<times> int) may_panic" where
  "draw_rating w h full_stars half x y star_size rating_text star_color star_dim_color rating_text_color fb =
     (let spacing = star_size * 3
      in do {
        fb \<leftarrow> each (\<lambda>fb i.
                let sx = x + i * spacing + star_size; sy = y + star_size
                in if i < full_stars then draw_star_filled w h sx sy star_size star_color fb
                   else if i = full_stars \<and> half then draw_star_filled w h sx sy star_size star_color fb
                   else draw_star_empty w h sx sy star_size star_dim_color fb)
              fb [0 .. 4];
        let text_x = x + 5 * spacing + star_size * 2;
        (fb, _) \<leftarrow> draw_string w h rating_text text_x y rating_text_color 1 fb;
        Some (fb, text_x + int (utf8_len rating_text) * 9)
      })"

section \<open>Runs that return\<close>

text \<open>A computation that may panic returns, and its result satisfies a condition.\<close>

definition returns :: "'a may_panic \<Rightarrow> ('a \<Rightarrow> bool) \<Rightarrow> bool" where
  "returns m Q \<longleftrightarrow> (\<exists>r. m = Some r \<and> Q r)"

named_theorems returns_intros \<open>rules for computations that return\<close>

lemma returns_Some [simp]: "returns (Some r) Q \<longleftrightarrow> Q r"
  by (simp add: returns_def)

lemma returns_bind [simp]: "returns (m \<bind> f) Q \<longleftrightarrow> returns m (\<lambda>r. returns (f r) Q)"
  by (cases m) (auto simp: returns_def)

lemma returns_map_option [simp]: "returns (map_option f m) Q \<longleftrightarrow> returns m (\<lambda>r. Q (f r))"
  by (auto simp: returns_def)

lemma returns_mono: "returns m P \<Longrightarrow> (\<And>r. P r \<Longrightarrow> Q r) \<Longrightarrow> returns m Q"
  by (auto simp: returns_def)

lemma returnsD: "returns m Q \<Longrightarrow> \<exists>r. m = Some r \<and> Q r"
  by (simp add: returns_def)

section \<open>What is painted\<close>

text \<open>
  Going from one buffer to the other sets exactly the given screen points to the colour;
  points outside the screen are dropped.
\<close>

definition on_screen :: "nat \<Rightarrow> nat \<Rightarrow> fb \<Rightarrow> bool" where
  "on_screen w h fb \<longleftrightarrow> length fb = w * h"

definition painted :: "nat \<Rightarrow> nat \<Rightarrow> (int \<times> int) set \<Rightarrow> u32 \<Rightarrow> fb \<Rightarrow> fb \<Rightarrow> bool" where
  "painted w h A c fb fb' \<longleftrightarrow> on_screen w h fb' \<and>
     (\<forall>x < w. \<forall>y < h. fb' ! (y * w + x) = (if (int x, int y) \<in> A then c else fb ! (y * w + x)))"

lemma painted_on_screen: "painted w h A c fb fb' \<Longrightarrow> on_screen w h fb'"
  by (simp add: painted_def)

lemma painted_empty: "on_screen w h fb \<Longrightarrow> painted w h {} c fb fb"
  by (simp add: painted_def)

lemma painted_trans: "painted w h A c fb fb' \<Longrightarrow> painted w h B c fb' fb'' \<Longrightarrow> painted w h (A \<union> B) c fb fb''"
  by (auto simp: painted_def)

lemma painted_cong:
  "painted w h A c fb fb' \<Longrightarrow> (\<And>x y. 0 \<le> x \<Longrightarrow> x < int w \<Longrightarrow> 0 \<le> y \<Longrightarrow> y < int h \<Longrightarrow> (x, y) \<in> A \<longleftrightarrow> (x, y) \<in> B) \<Longrightarrow>
   painted w h B c fb fb'"
  by (auto simp: painted_def)

lemma pixel_index:
  fixes x y px py w :: nat
  assumes "x < w" and "px < w"
  shows "y * w + x = py * w + px \<longleftrightarrow> x = px \<and> y = py"
proof
  assume eq: "y * w + x = py * w + px"
  have "(y * w + x) mod w = x" and "(py * w + px) mod w = px" using assms by simp_all
  moreover have "(y * w + x) div w = y" and "(py * w + px) div w = py" using assms by simp_all
  ultimately show "x = px \<and> y = py" using eq by metis
qed simp

lemma pixel_bound: "x < w \<Longrightarrow> y < h \<Longrightarrow> y * w + x < w * (h :: nat)"
proof -
  assume "x < w" and "y < h"
  then have "y * w + x < y * w + w" by simp
  also have "\<dots> = Suc y * w" by simp
  also have "\<dots> \<le> h * w" using \<open>y < h\<close> by (intro mult_le_mono1) simp
  finally show ?thesis by (simp add: mult.commute)
qed

lemma set_at_painted:
  assumes "on_screen w h fb" and "0 \<le> px" "px < int w" "0 \<le> py" "py < int h"
  shows "returns (set_at (py * int w + px) c fb) (painted w h {(px, py)} c fb)"
proof -
  obtain x y where xy: "px = int x" "py = int y" using assms(2,4) nonneg_int_cases by metis
  then have b: "x < w" "y < h" using assms by simp_all
  have index: "py * int w + px = int (y * w + x)" unfolding xy by simp
  have "y * w + x < length fb" using pixel_bound [OF b] assms(1) by (simp add: on_screen_def)
  then have "set_at (py * int w + px) c fb = Some (fb[y * w + x := c])"
    unfolding index set_at_def by (simp del: of_nat_add of_nat_mult)
  then show ?thesis
    using assms(1) b pixel_bound [OF b] by (auto simp: painted_def on_screen_def nth_list_update xy pixel_index)
qed

lemma put_pixel_painted:
  "on_screen w h fb \<Longrightarrow> returns (put_pixel w h px py c fb) (painted w h {(px, py)} c fb)"
  by (auto simp: put_pixel_def set_at_painted painted_def)

lemma each_painted:
  assumes "\<And>x fb. x \<in> set xs \<Longrightarrow> on_screen w h fb \<Longrightarrow> returns (f fb x) (painted w h (A x) c fb)"
    and "on_screen w h fb"
  shows "returns (each f fb xs) (painted w h (\<Union>x \<in> set xs. A x) c fb)"
  using assms
proof (induction xs arbitrary: fb)
  case (Cons x xs)
  from Cons.prems(1) [of x fb] Cons.prems(2)
  obtain fb' where fb': "f fb x = Some fb'" "painted w h (A x) c fb fb'" by (auto dest: returnsD)
  have "returns (each f fb' xs) (painted w h (\<Union>x \<in> set xs. A x) c fb')"
    by (rule Cons.IH) (use Cons.prems(1) painted_on_screen [OF fb'(2)] in auto)
  then show ?case
    using fb' by (auto elim!: returns_mono dest: painted_trans [OF fb'(2)])
qed (simp add: painted_empty)

section \<open>Each operation paints its shape\<close>

lemma draw_rect_painted:
  assumes "on_screen w h fb"
  shows "returns (draw_rect w h rx ry rw rh c fb)
     (painted w h {(x, y). rx \<le> x \<and> x < rx + int rw \<and> ry \<le> y \<and> y < ry + int rh} c fb)"
proof -
  let ?cols = "[max rx 0 .. min (rx + int rw) (int w) - 1]" and ?rows = "[max ry 0 .. min (ry + int rh) (int h) - 1]"
  have "returns (draw_rect w h rx ry rw rh c fb) (painted w h (\<Union>row \<in> set ?rows. \<Union>col \<in> set ?cols. {(col, row)}) c fb)"
    unfolding draw_rect_def using assms by (intro each_painted set_at_painted) auto
  then show ?thesis by (rule returns_mono) (auto elim!: painted_cong)
qed

lemma draw_hline_painted:
  assumes "on_screen w h fb"
  shows "returns (draw_hline w h x y len c fb) (painted w h {(px, py). py = y \<and> x \<le> px \<and> px < x + int len} c fb)"
proof (cases "y < 0 \<or> int h \<le> y")
  case True
  have "painted w h {(px, py). py = y \<and> x \<le> px \<and> px < x + int len} c fb fb"
    by (rule painted_cong [OF painted_empty [OF assms]]) (use True in auto)
  then show ?thesis using True by (simp add: draw_hline_def)
next
  case False
  let ?cols = "[max x 0 .. min (x + int len) (int w) - 1]"
  have "draw_hline w h x y len c fb = each (\<lambda>fb col. set_at (y * int w + col) c fb) fb ?cols"
    using False by (simp add: draw_hline_def)
  moreover have "returns (each (\<lambda>fb col. set_at (y * int w + col) c fb) fb ?cols) (painted w h (\<Union>col \<in> set ?cols. {(col, y)}) c fb)"
    using assms False by (intro each_painted set_at_painted) auto
  ultimately have "returns (draw_hline w h x y len c fb) (painted w h (\<Union>col \<in> set ?cols. {(col, y)}) c fb)" by simp
  then show ?thesis by (rule returns_mono) (auto elim!: painted_cong)
qed

definition glyph_points :: "u8 \<Rightarrow> int \<Rightarrow> int \<Rightarrow> nat \<Rightarrow> (int \<times> int) set" where
  "glyph_points ch x y scale =
     {(x + int (col * scale + sx), y + int (row * scale + sy)) | row col sx sy.
        row < 16 \<and> col < 8 \<and> bit (get_char_bitmap ch ! row) (7 - col) \<and> sx < scale \<and> sy < scale}"

lemma draw_char_painted:
  assumes "on_screen w h fb"
  shows "returns (draw_char w h ch x y c scale fb) (painted w h (glyph_points ch x y scale) c fb)"
proof -
  let ?A = "\<lambda>(row, bits). \<Union>col \<in> set [0..<8]. if bit bits (7 - col)
      then \<Union>sy \<in> set [0..<scale]. \<Union>sx \<in> set [0..<scale]. {(x + int (col * scale + sx), y + int (row * scale + sy))} else {}"
  let ?rows = "List.enumerate 0 (get_char_bitmap ch)"
  have step: "returns (each (\<lambda>fb col. if bit bits (7 - col) then
         each (\<lambda>fb sy. each (\<lambda>fb sx. put_pixel w h (x + int (col * scale + sx)) (y + int (row * scale + sy)) c fb)
           fb [0..<scale]) fb [0..<scale] else Some fb) fb [0..<8]) (painted w h (?A (row, bits)) c fb)"
    if "on_screen w h fb" for row bits fb
    unfolding prod.case using that
  proof (intro each_painted)
    fix col and fb :: fb
    assume "on_screen w h fb"
    then show "returns (if bit bits (7 - col) then
         each (\<lambda>fb sy. each (\<lambda>fb sx. put_pixel w h (x + int (col * scale + sx)) (y + int (row * scale + sy)) c fb)
           fb [0..<scale]) fb [0..<scale] else Some fb)
       (painted w h (if bit bits (7 - col) then \<Union>sy \<in> set [0..<scale]. \<Union>sx \<in> set [0..<scale].
          {(x + int (col * scale + sx), y + int (row * scale + sy))} else {}) c fb)"
      by (cases "bit bits (7 - col)") (simp_all only: if_True if_False returns_Some painted_empty, intro each_painted put_pixel_painted)
  qed
  have "returns (draw_char w h ch x y c scale fb) (painted w h (\<Union>r \<in> set ?rows. ?A r) c fb)"
    unfolding draw_char_def
    by (rule each_painted [OF _ assms]) (clarsimp split del: if_split simp del: upt_rec_numeral, use step in simp)
  moreover have "(\<Union>r \<in> set ?rows. ?A r) = glyph_points ch x y scale"
  proof
    show "(\<Union>r \<in> set ?rows. ?A r) \<subseteq> glyph_points ch x y scale"
      by (auto simp: glyph_points_def in_set_enumerate_eq split: if_splits) blast
    show "glyph_points ch x y scale \<subseteq> (\<Union>r \<in> set ?rows. ?A r)"
    proof
      fix p
      assume "p \<in> glyph_points ch x y scale"
      then obtain row col sx sy where p: "p = (x + int (col * scale + sx), y + int (row * scale + sy))"
        and b: "row < 16" "col < 8" "bit (get_char_bitmap ch ! row) (7 - col)" "sx < scale" "sy < scale"
        by (auto simp: glyph_points_def)
      then have "(row, get_char_bitmap ch ! row) \<in> set ?rows" by (simp add: in_set_enumerate_eq)
      moreover have "p \<in> ?A (row, get_char_bitmap ch ! row)"
        unfolding prod.case
      proof (rule UN_I [of col])
        have "p \<in> (\<Union>sy \<in> set [0..<scale]. \<Union>sx \<in> set [0..<scale]. {(x + int (col * scale + sx), y + int (row * scale + sy))})"
          by (rule UN_I [of sy], use b in simp, rule UN_I [of sx]) (use b p in simp_all)
        then show "p \<in> (if bit (get_char_bitmap ch ! row) (7 - col) then \<Union>sy \<in> set [0..<scale]. \<Union>sx \<in> set [0..<scale].
            {(x + int (col * scale + sx), y + int (row * scale + sy))} else {})"
          by (simp only: b(3) if_True)
      qed (use b in simp)
      ultimately show "p \<in> (\<Union>r \<in> set ?rows. ?A r)" by blast
    qed
  qed
  ultimately show ?thesis by simp
qed


section \<open>Text stays in its box\<close>

fun string_points :: "nat \<Rightarrow> u8 list \<Rightarrow> int \<Rightarrow> int \<Rightarrow> nat \<Rightarrow> (int \<times> int) set" where
  "string_points w [] cx y scale = {}"
| "string_points w (ch # bytes) cx y scale =
     (if int w \<le> cx then {} else glyph_points ch cx y scale \<union> string_points w bytes (cx + 9 * int scale) y scale)"

fun string_end :: "nat \<Rightarrow> u8 list \<Rightarrow> int \<Rightarrow> nat \<Rightarrow> int" where
  "string_end w [] cx scale = cx"
| "string_end w (ch # bytes) cx scale = (if int w \<le> cx then cx else string_end w bytes (cx + 9 * int scale) scale)"

lemma draw_bytes_painted:
  assumes "on_screen w h fb"
  shows "returns (draw_bytes w h bytes x y c scale fb)
     (\<lambda>(fb', end_x). painted w h (string_points w bytes x y scale) c fb fb' \<and> end_x = string_end w bytes x scale)"
  using assms
proof (induction bytes arbitrary: x fb)
  case (Cons ch bytes)
  show ?case
  proof (cases "int w \<le> x")
    case False
    obtain fb' where fb': "draw_char w h ch x y c scale fb = Some fb'" "painted w h (glyph_points ch x y scale) c fb fb'"
      using returnsD [OF draw_char_painted [OF Cons.prems, of ch x y c scale]] by blast
    show ?thesis
      using Cons.IH [OF painted_on_screen [OF fb'(2)], of "x + 9 * int scale"] fb' False
      by (auto elim!: returns_mono dest: painted_trans [OF fb'(2)])
  qed (simp add: Cons.prems painted_empty)
qed (simp add: painted_empty)

lemma draw_string_painted:
  assumes "on_screen w h fb"
  shows "returns (draw_string w h s x y c scale fb)
     (\<lambda>(fb', end_x). painted w h (string_points w (utf8_bytes s) x y scale) c fb fb' \<and> end_x = string_end w (utf8_bytes s) x scale)"
  unfolding draw_string_def by (rule draw_bytes_painted [OF assms])

lemma scaled_below: "k < n \<Longrightarrow> s < scale \<Longrightarrow> k * scale + s < n * (scale :: nat)"
proof -
  assume "k < n" and "s < scale"
  then have "k * scale + s < Suc k * scale" by simp
  also have "\<dots> \<le> n * scale" using \<open>k < n\<close> by (intro mult_le_mono1) simp
  finally show ?thesis .
qed

lemma glyph_box: "(px, py) \<in> glyph_points ch x y scale \<Longrightarrow> x \<le> px \<and> px < x + 8 * int scale \<and> y \<le> py \<and> py < y + 16 * int scale"
proof -
  assume "(px, py) \<in> glyph_points ch x y scale"
  then obtain row col sx sy where p: "px = x + int (col * scale + sx)" "py = y + int (row * scale + sy)"
    and b: "row < 16" "col < 8" "sx < scale" "sy < scale"
    by (auto simp: glyph_points_def)
  have "int (col * scale + sx) < int (8 * scale)" and "int (row * scale + sy) < int (16 * scale)"
    unfolding of_nat_less_iff using b scaled_below by blast+
  then show ?thesis using p by simp
qed

lemma string_end_mono: "x \<le> string_end w bytes x scale"
proof (induction bytes arbitrary: x)
  case (Cons ch bytes)
  have "x \<le> x + 9 * int scale" by simp
  also have "\<dots> \<le> string_end w bytes (x + 9 * int scale) scale" by (rule Cons.IH)
  finally show ?case by auto
qed simp

lemma string_box:
  "(px, py) \<in> string_points w bytes x y scale \<Longrightarrow> x \<le> px \<and> px < string_end w bytes x scale \<and> y \<le> py \<and> py < y + 16 * int scale"
proof (induction bytes arbitrary: x)
  case (Cons ch bytes)
  then have "\<not> int w \<le> x" by auto
  then consider "(px, py) \<in> glyph_points ch x y scale" | "(px, py) \<in> string_points w bytes (x + 9 * int scale) y scale"
    using Cons.prems by auto
  then show ?case
  proof cases
    case 1
    then show ?thesis
      using glyph_box [OF 1] string_end_mono [of "x + 9 * int scale" w bytes scale] \<open>\<not> int w \<le> x\<close> by auto
  next
    case 2
    then show ?thesis using Cons.IH [OF 2] \<open>\<not> int w \<le> x\<close> by auto
  qed
qed simp

lemma string_end_bound: "string_end w bytes x scale \<le> x + 9 * int scale * int (length bytes)"
proof (induction bytes arbitrary: x)
  case (Cons ch bytes)
  then show ?case using Cons [of "x + 9 * int scale"] by (auto simp: algebra_simps)
qed simp

section \<open>Images\<close>

lemma copy_slice_rows:
  assumes "on_screen w h fb" and "dx + n \<le> w" and "y < h" and "j + n \<le> length src"
  shows "returns (copy_slice (y * w + dx) n src j fb) (on_screen w h)"
proof -
  have "y * w + dx + n \<le> y * w + w" using assms(2) by simp
  also have "\<dots> = Suc y * w" by simp
  also have "\<dots> \<le> h * w" using assms(3) by (intro mult_le_mono1) simp
  finally have "y * w + dx + n \<le> w * h" by (simp add: mult.commute)
  then show ?thesis using assms by (simp add: copy_slice_def on_screen_def)
qed

lemma blit_on_screen:
  assumes "on_screen w h fb" and "img_w * img_h \<le> length pixels"
  shows "returns (blit_image w h pixels img_w img_h dx dy fb) (on_screen w h)"
proof -
  have "returns (blit_rows w h pixels img_w dx dy rows fb) (on_screen w h)"
    if "\<forall>r \<in> set rows. r < img_h" "on_screen w h fb" for rows fb
    using that
  proof (induction rows arbitrary: fb)
    case (Cons row rows)
    show ?case
    proof (cases "h \<le> dy + row \<or> min img_w (w - dx) = 0")
      case True
      then show ?thesis using Cons by (auto simp: Let_def)
    next
      case False
      have "row * img_w + min img_w (w - dx) \<le> Suc row * img_w" by simp
      also have "\<dots> \<le> img_h * img_w" using Cons.prems(1) by (intro mult_le_mono1) simp
      finally have "row * img_w + min img_w (w - dx) \<le> length pixels" using assms(2) by (simp add: mult.commute)
      then have "returns (copy_slice ((dy + row) * w + dx) (min img_w (w - dx)) pixels (row * img_w) fb) (on_screen w h)"
        using False Cons.prems(2) by (intro copy_slice_rows) auto
      then show ?thesis
        using False Cons.IH Cons.prems(1) by (auto simp: Let_def elim!: returns_mono)
    qed
  qed simp
  then show ?thesis using assms(1) by (simp add: blit_image_def)
qed


section \<open>Rating stars\<close>

lemma draw_star_filled_painted:
  assumes "on_screen w h fb"
  shows "returns (draw_star_filled w h cx cy radius c fb) (painted w h {(x, y). \<bar>x - cx\<bar> + \<bar>y - cy\<bar> \<le> radius} c fb)"
proof -
  have "returns (draw_star_filled w h cx cy radius c fb)
     (painted w h (\<Union>dy \<in> set [- radius .. radius]. \<Union>dx \<in> set [- (radius - \<bar>dy\<bar>) .. radius - \<bar>dy\<bar>]. {(cx + dx, cy + dy)}) c fb)"
    unfolding draw_star_filled_def Let_def using assms by (intro each_painted put_pixel_painted)
  moreover have "(\<Union>dy \<in> set [- radius .. radius]. \<Union>dx \<in> set [- (radius - \<bar>dy\<bar>) .. radius - \<bar>dy\<bar>]. {(cx + dx, cy + dy)})
     = {(x, y). \<bar>x - cx\<bar> + \<bar>y - cy\<bar> \<le> radius}" (is "?A = ?B")
  proof
    show "?B \<subseteq> ?A"
    proof clarify
      fix x y
      assume "\<bar>x - cx\<bar> + \<bar>y - cy\<bar> \<le> radius"
      then have "y - cy \<in> set [- radius .. radius]" and "x - cx \<in> set [- (radius - \<bar>y - cy\<bar>) .. radius - \<bar>y - cy\<bar>]" by auto
      then show "(x, y) \<in> ?A" by (intro UN_I [of "y - cy"] UN_I [of "x - cx"]) simp_all
    qed
  qed auto
  ultimately show ?thesis by simp
qed

text \<open>An update of the frame that never panics and keeps the size of the buffer.\<close>

definition draws :: "nat \<Rightarrow> nat \<Rightarrow> (fb \<Rightarrow> fb may_panic) \<Rightarrow> bool" where
  "draws w h f \<longleftrightarrow> (\<forall>fb. on_screen w h fb \<longrightarrow> returns (f fb) (on_screen w h))"

lemma drawsD: "draws w h f \<Longrightarrow> on_screen w h fb \<Longrightarrow> returns (f fb) (on_screen w h)"
  by (simp add: draws_def)

lemma each_draws:
  assumes "\<And>x fb. x \<in> set xs \<Longrightarrow> on_screen w h fb \<Longrightarrow> returns (f fb x) (on_screen w h)"
    and "on_screen w h fb"
  shows "returns (each f fb xs) (on_screen w h)"
  using assms
proof (induction xs arbitrary: fb)
  case (Cons x xs)
  have "returns (f fb x) (on_screen w h)" using Cons.prems by simp
  then show ?case using Cons.IH Cons.prems(1) by (auto elim!: returns_mono)
qed simp

lemma set_at_on_screen:
  "on_screen w h fb \<Longrightarrow> 0 \<le> px \<Longrightarrow> px < int w \<Longrightarrow> 0 \<le> py \<Longrightarrow> py < int h \<Longrightarrow> returns (set_at (py * int w + px) c fb) (on_screen w h)"
  by (rule returns_mono [OF set_at_painted painted_on_screen])

lemma put_pixel_on_screen: "on_screen w h fb \<Longrightarrow> returns (put_pixel w h px py c fb) (on_screen w h)"
  by (rule returns_mono [OF put_pixel_painted painted_on_screen])

lemma draw_star_empty_on_screen: "on_screen w h fb \<Longrightarrow> returns (draw_star_empty w h cx cy radius c fb) (on_screen w h)"
proof -
  assume fb: "on_screen w h fb"
  have outline: "returns (each (\<lambda>fb dy. let spread = radius - \<bar>dy\<bar> in each (\<lambda>fb dx. put_pixel w h (cx + dx) (cy + dy) c fb) fb [- spread, spread]) fb [- radius .. radius])
     (on_screen w h)"
    unfolding Let_def using fb by (intro each_draws put_pixel_on_screen)
  have tip: "returns (if 0 \<le> py \<and> py < int h then set_at (py * int w + px) c fb else Some fb) (on_screen w h)"
    if "0 \<le> px" "px < int w" "on_screen w h fb" for px py fb
    using that by (simp add: set_at_on_screen)
  have "returns (let px = cx + dx; py_top = cy - radius; py_bot = cy + radius
       in if 0 \<le> px \<and> px < int w then do {
            fb \<leftarrow> (if 0 \<le> py_top \<and> py_top < int h then set_at (py_top * int w + px) c fb else Some fb);
            if 0 \<le> py_bot \<and> py_bot < int h then set_at (py_bot * int w + px) c fb else Some fb
          } else Some fb) (on_screen w h)" if "on_screen w h fb" for dx fb
  proof (cases "0 \<le> cx + dx \<and> cx + dx < int w")
    case True
    then have x: "0 \<le> cx + dx" "cx + dx < int w" by simp_all
    show ?thesis
      unfolding Let_def if_P [OF True] returns_bind by (rule returns_mono [OF tip [OF x that] tip [OF x]])
  next
    case False
    show ?thesis unfolding Let_def if_not_P [OF False] using that by simp
  qed
  then have tips: "returns (each (\<lambda>fb dx. let px = cx + dx; py_top = cy - radius; py_bot = cy + radius
       in if 0 \<le> px \<and> px < int w then do {
            fb \<leftarrow> (if 0 \<le> py_top \<and> py_top < int h then set_at (py_top * int w + px) c fb else Some fb);
            if 0 \<le> py_bot \<and> py_bot < int h then set_at (py_bot * int w + px) c fb else Some fb
          } else Some fb) fb [- 1 .. 1]) (on_screen w h)" if "on_screen w h fb" for fb
    using that by (intro each_draws)
  show ?thesis
    unfolding draw_star_empty_def returns_bind by (rule returns_mono [OF outline tips])
qed

section \<open>Screen preservation for every operation\<close>

lemma draw_rect_on_screen [returns_intros]: "on_screen w h fb \<Longrightarrow> (\<And>fb'. on_screen w h fb' \<Longrightarrow> Q fb') \<Longrightarrow> returns (draw_rect w h rx ry rw rh c fb) Q"
  by (rule returns_mono [OF draw_rect_painted]) (auto dest: painted_on_screen)

lemma draw_hline_on_screen [returns_intros]: "on_screen w h fb \<Longrightarrow> (\<And>fb'. on_screen w h fb' \<Longrightarrow> Q fb') \<Longrightarrow> returns (draw_hline w h x y len c fb) Q"
  by (rule returns_mono [OF draw_hline_painted]) (auto dest: painted_on_screen)

lemma draw_string_on_screen [returns_intros]:
  "on_screen w h fb \<Longrightarrow> (\<And>fb' end_x. on_screen w h fb' \<Longrightarrow> Q (fb', end_x)) \<Longrightarrow> returns (draw_string w h s x y c scale fb) Q"
  by (rule returns_mono [OF draw_string_painted]) (auto dest: painted_on_screen)

lemma draw_string_truncated_on_screen [returns_intros]:
  "on_screen w h fb \<Longrightarrow> (\<And>fb'. on_screen w h fb' \<Longrightarrow> Q fb') \<Longrightarrow> returns (draw_string_truncated w h s x y c scale n fb) Q"
  by (auto simp: draw_string_truncated_def intro!: draw_string_on_screen)

lemma blit_image_on_screen [returns_intros]:
  "on_screen w h fb \<Longrightarrow> img_w * img_h \<le> length pixels \<Longrightarrow> (\<And>fb'. on_screen w h fb' \<Longrightarrow> Q fb') \<Longrightarrow>
   returns (blit_image w h pixels img_w img_h dx dy fb) Q"
  by (rule returns_mono [OF blit_on_screen]) auto

lemma draw_rating_on_screen [returns_intros]:
  assumes "on_screen w h fb" and "\<And>fb' end_x. on_screen w h fb' \<Longrightarrow> Q (fb', end_x)"
  shows "returns (draw_rating w h full half x y star s c1 c2 c3 fb) Q"
proof -
  have star: "returns (let sx = x + i * (star * 3) + star; sy = y + star
                in if i < full then draw_star_filled w h sx sy star c1 fb
                   else if i = full \<and> half then draw_star_filled w h sx sy star c1 fb
                   else draw_star_empty w h sx sy star c2 fb) (on_screen w h)"
    if "on_screen w h fb" for i fb
    unfolding Let_def
    using that by (auto intro: draw_star_empty_on_screen returns_mono [OF draw_star_filled_painted painted_on_screen])
  have "returns (each (\<lambda>fb i. let sx = x + i * (star * 3) + star; sy = y + star
                in if i < full then draw_star_filled w h sx sy star c1 fb
                   else if i = full \<and> half then draw_star_filled w h sx sy star c1 fb
                   else draw_star_empty w h sx sy star c2 fb) fb [0 .. 4]) (on_screen w h)"
    using assms(1) star by (intro each_draws)
  then show ?thesis
    unfolding draw_rating_def Let_def [of "star * 3"] returns_bind
    by (rule returns_mono) (simp add: Let_def draw_string_on_screen assms(2))
qed

end
