(* ===== verification/Core_Render.thy ===== *)
theory Core_Render
  imports Core_State Core_Draw
begin

text \<open>
  Rendering and the frame loop of the libretro core (\<open>render_frame\<close> and below, \<open>retro_run\<close> in
  \<open>replay-control-libretro/src/lib.rs\<close>). A rendering function takes the state it reads and the
  frame buffer it draws into; only \<open>render_detail\<close> changes the state besides, when it clamps the
  page and the index.

  Divisions have non-negative dividends on every layout, so \<open>div\<close> is the division of \<open>i32\<close>.
\<close>

section \<open>Home screen\<close>

definition draw_text :: "layout_config \<Rightarrow> rstr \<Rightarrow> int \<Rightarrow> int \<Rightarrow> u32 \<Rightarrow> nat \<Rightarrow> fb \<Rightarrow> fb may_panic" where
  "draw_text l t x y color scale fb = map_option fst (draw_string (lc_width l) (lc_height l) t x y color scale fb)"

definition count_text :: "rstr \<Rightarrow> rstr" where
  "count_text t = (case from_utf8 (take 16 (utf8_bytes t)) of Some u \<Rightarrow> u | None \<Rightarrow> [])"

definition header_h :: "layout_config \<Rightarrow> int" where
  "header_h l = int (lc_label_scale l * 16 + 8)"

definition clear_screen :: "u32 \<Rightarrow> fb \<Rightarrow> fb" where
  "clear_screen color fb = replicate (length fb) color"

definition render_home_menu_item :: "core_state \<Rightarrow> nat \<Rightarrow> rstr \<Rightarrow> rstr \<Rightarrow> int \<Rightarrow> fb \<Rightarrow> fb may_panic" where
  "render_home_menu_item s i label count y fb = do {
     let l = ds_layout (cs_display s);
     let pal = ds_palette (cs_display s);
     let selected = (gm_home_cursor (cs_game s) = i);
     let marker = (if selected then lit ''[>]'' else lit ''[ ]'');
     let marker_color = (if selected then cp_accent pal else cp_nav pal);
     let text_color = (if selected then cp_title pal else cp_label pal);
     (fb, end_x) \<leftarrow> draw_string (lc_width l) (lc_height l) marker (int (lc_margin_x l) + int (lc_font_scale l * 4)) y
                      marker_color (lc_label_scale l) fb;
     fb \<leftarrow> draw_text l label (end_x + int (lc_font_scale l * 6)) y text_color (lc_font_scale l) fb;
     let count_w = int (utf8_len count) * int (lc_font_scale l * 9);
     draw_text l count (int (lc_width l) - int (lc_margin_x l) - count_w) y (cp_nav pal) (lc_font_scale l) fb
   }"

definition home_hints :: "layout_config \<Rightarrow> rstr \<times> rstr" where
  "home_hints l =
     (if lc_width l \<le> 640 then (lit ''^v:select  A:open  B:exit'', lit ''In game: <->:browse L1/R1:page'')
      else (lit ''Up/Down: select  |  A: open  |  B: exit'',
            lit ''In game:  Left/Right: browse  |  L1/R1: page  |  Up/Down: scroll''))"

definition render_home :: "core_state \<Rightarrow> fb \<Rightarrow> fb may_panic" where
  "render_home s fb = do {
     let l = ds_layout (cs_display s);
     let pal = ds_palette (cs_display s);
     let w = lc_width l;
     let h = lc_height l;
     let mx = int (lc_margin_x l);
     let my = int (lc_margin_y l);
     fb \<leftarrow> draw_rect w h 0 0 w (nat (header_h l)) (cp_header_bg pal) (clear_screen (cp_bg pal) fb);
     fb \<leftarrow> draw_hline w h 0 (header_h l) w (cp_accent pal) fb;
     let header_text_y = my div 2 + 2;
     fb \<leftarrow> draw_text l (lit ''REPLAY'') mx header_text_y (cp_accent pal) (lc_label_scale l) fb;
     let version = lit ''v0.6.0'';
     let version_w = int (utf8_len version) * int (lc_label_scale l * 9);
     fb \<leftarrow> draw_text l version (int w - mx - version_w) header_text_y (cp_nav pal) (lc_label_scale l) fb;
     let title_text = lit ''RePlayOS'';
     let title_w = int (utf8_len title_text) * int (lc_title_scale l * 9);
     let title_y = header_h l + my + 12;
     fb \<leftarrow> draw_text l title_text ((int w - title_w) div 2) title_y (cp_title pal) (lc_title_scale l) fb;
     let y0 = title_y + int (lc_title_scale l * 18) + my + 8;
     let item_h = int (lc_font_scale l * 18 + 8);
     fb \<leftarrow> render_home_menu_item s 0 (lit ''Recently Played'') (count_text (sb_recents_count_text (cs_scratch s))) y0 fb;
     let y1 = y0 + item_h + 4;
     fb \<leftarrow> render_home_menu_item s 1 (lit ''Favorites'') (count_text (sb_favorites_count_text (cs_scratch s))) y1 fb;
     let label_h = int (lc_label_scale l * 16);
     let (line1, line2) = home_hints l;
     let footer_line2_y = int h - my - label_h;
     let footer_line1_y = footer_line2_y - label_h - 2;
     fb \<leftarrow> draw_hline w h mx (footer_line1_y - 4) (nat (int w - 2 * mx)) (cp_accent pal) fb;
     fb \<leftarrow> draw_text l line1 mx footer_line1_y (cp_nav pal) (lc_label_scale l) fb;
     draw_text l line2 mx footer_line2_y (cp_nav pal) (lc_label_scale l) fb
   }"

section \<open>Game detail\<close>

definition render_back_hint :: "core_state \<Rightarrow> fb \<Rightarrow> fb may_panic" where
  "render_back_hint s fb =
     (let l = ds_layout (cs_display s); hint = lit ''B:back'';
          hint_w = int (utf8_len hint) * 9
      in draw_text l hint (int (lc_width l) - int (lc_margin_x l) - hint_w) (int (lc_height l) - int (lc_margin_y l) - 16)
           (cp_nav (ds_palette (cs_display s))) 1 fb)"

definition render_page_indicator :: "core_state \<Rightarrow> fb \<Rightarrow> fb may_panic" where
  "render_page_indicator s fb =
     (let l = ds_layout (cs_display s); w = lc_width l; pal = ds_palette (cs_display s);
          dot_size = (if w \<le> 640 then 3 else 5);
          dot_spacing = (if w \<le> 640 then 8 else 12);
          total_width = int PAGE_COUNT * dot_spacing;
          start_x = int w - int (lc_margin_x l) - int (lc_label_scale l * 9) - 6 - total_width;
          cy = int (lc_margin_y l) div 2 + int (lc_label_scale l * 8)
      in each (\<lambda>fb i. draw_rect w (lc_height l) (start_x + int i * dot_spacing) (cy - int dot_size div 2) dot_size dot_size
                 (if i = gm_current_page (cs_game s) then cp_title pal else cp_nav pal) fb)
           fb [0..<PAGE_COUNT])"

text \<open>
  Title, system with year and the separator, common to both pages. The gaps below the title and
  the separator differ; the result carries the next line's position.
\<close>

definition draw_title :: "core_state \<Rightarrow> game_entry \<Rightarrow> game_detail option \<Rightarrow> int \<Rightarrow> int \<Rightarrow> fb \<Rightarrow> (fb \<times> int) may_panic" where
  "draw_title s entry detail title_gap rule_gap fb = do {
     let l = ds_layout (cs_display s);
     let pal = ds_palette (cs_display s);
     let w = lc_width l;
     let mx = int (lc_margin_x l);
     let y = header_h l + int (lc_margin_y l) div 2 + 4;
     let title = (case detail of Some d \<Rightarrow> gd_display_name d | None \<Rightarrow> ge_display_name entry);
     let title_max = nat ((int w - 2 * mx) div int (lc_title_scale l * 9));
     fb \<leftarrow> draw_string_truncated w (lc_height l) title mx y (cp_title pal) (lc_title_scale l) title_max fb;
     let y = y + int (lc_title_scale l * 18) + title_gap;
     let sys_year = (case detail of Some d \<Rightarrow> pd_sys_year_line (gd_display d) | None \<Rightarrow> ge_system_display entry);
     fb \<leftarrow> draw_text l sys_year mx y (cp_system pal) (lc_font_scale l) fb;
     let y = y + int (lc_font_scale l * 18);
     fb \<leftarrow> draw_hline w (lc_height l) mx y (nat (int w - 2 * mx)) (cp_accent pal) fb;
     Some (fb, y + rule_gap)
   }"

text \<open>One row of metadata, if it is shown: its label, then its value, cut to a width or not.\<close>

definition field_row ::
  "core_state \<Rightarrow> bool \<Rightarrow> rstr \<Rightarrow> rstr \<Rightarrow> nat option \<Rightarrow> int \<Rightarrow> fb \<times> int \<Rightarrow> (fb \<times> int) may_panic" where
  "field_row s shown label val limit text_x fby =
     (case fby of (fb, y) \<Rightarrow>
        if \<not> shown then Some (fb, y)
        else do {
          let l = ds_layout (cs_display s);
          let pal = ds_palette (cs_display s);
          (fb, end_x) \<leftarrow> draw_string (lc_width l) (lc_height l) label text_x y (cp_label pal) (lc_label_scale l) fb;
          fb \<leftarrow> (case limit of
                   Some n \<Rightarrow> draw_string_truncated (lc_width l) (lc_height l) val end_x y (cp_value pal) (lc_font_scale l) n fb
                 | None \<Rightarrow> draw_text l val end_x y (cp_value pal) (lc_font_scale l) fb);
          Some (fb, y + int (lc_font_scale l * 18))
        })"

definition rating_row :: "f32_ops \<Rightarrow> core_state \<Rightarrow> game_detail \<Rightarrow> int \<Rightarrow> fb \<times> int \<Rightarrow> (fb \<times> int) may_panic" where
  "rating_row fl s d text_x fby =
     (case fby of (fb, y) \<Rightarrow>
        (case gd_rating d of
           None \<Rightarrow> Some (fb, y)
         | Some rating \<Rightarrow> do {
             let l = ds_layout (cs_display s);
             let pal = ds_palette (cs_display s);
             (fb, end_x) \<leftarrow> draw_string (lc_width l) (lc_height l) (lit ''Rating: '') text_x y (cp_label pal) (lc_label_scale l) fb;
             let star_size = int (max (lc_font_scale l * 4) 3);
             (fb, _) \<leftarrow> draw_rating (lc_width l) (lc_height l) (f32_floor fl rating) (f32_has_half fl rating) end_x y star_size
                         (pd_rating_text (gd_display d)) (cp_star pal) (cp_star_dim pal) (cp_rating_text pal) fb;
             Some (fb, y + int (lc_font_scale l * 18))
           }))"

definition opt_text :: "rstr option \<Rightarrow> rstr" where
  "opt_text x = (case x of Some t \<Rightarrow> t | None \<Rightarrow> [])"

definition metadata_rows :: "f32_ops \<Rightarrow> core_state \<Rightarrow> game_detail \<Rightarrow> int \<Rightarrow> nat \<Rightarrow> fb \<times> int \<Rightarrow> (fb \<times> int) may_panic" where
  "metadata_rows fl s d text_x meta_chars fby = do {
     let extra = lc_show_extra_metadata (ds_layout (cs_display s));
     fby \<leftarrow> field_row s (gd_developer d \<noteq> []) (lit ''Dev: '') (gd_developer d) (Some (meta_chars - 5)) text_x fby;
     fby \<leftarrow> rating_row fl s d text_x fby;
     fby \<leftarrow> field_row s (gd_genre d \<noteq> []) (lit ''Genre: '') (gd_genre d) (Some (meta_chars - 7)) text_x fby;
     fby \<leftarrow> field_row s (pd_players_text (gd_display d) \<noteq> []) (lit ''Players: '') (pd_players_text (gd_display d)) None text_x fby;
     fby \<leftarrow> field_row s (extra \<and> opt_text (gd_publisher d) \<noteq> []) (lit ''Publisher: '') (opt_text (gd_publisher d)) None text_x fby;
     field_row s (extra \<and> opt_text (gd_region d) \<noteq> []) (lit ''Region: '') (opt_text (gd_region d)) None text_x fby
   }"

definition render_page_game_info :: "f32_ops \<Rightarrow> core_state \<Rightarrow> fb \<Rightarrow> fb may_panic" where
  "render_page_game_info fl s fb =
     (let g = cs_game s; l = ds_layout (cs_display s); es = fst (active_list g)
      in if length es \<le> gm_current_index g then Some fb
         else do {
           let detail = current_detail g;
           let mx = int (lc_margin_x l);
           (fb, y) \<leftarrow> draw_title s (es ! gm_current_index g) detail 4 6 fb;
           let (text_x, text_w) =
             (case Option.bind detail gd_box_art of
                Some art \<Rightarrow>
                  let gap = (if lc_width l \<le> 320 then 6 else 12); tx = mx + int (ba_width art) + gap
                  in (tx, max (int (lc_width l) - tx - mx) 40)
              | None \<Rightarrow> (mx, int (lc_width l) - 2 * mx));
           fb \<leftarrow> (case Option.bind detail gd_box_art of
                    Some art \<Rightarrow> blit_image (lc_width l) (lc_height l) (ba_pixels art) (ba_width art) (ba_height art)
                                  (lc_margin_x l) (nat y) fb
                  | None \<Rightarrow> Some fb);
           let meta_chars = nat (text_w div int (lc_font_scale l * 9));
           (case detail of
              None \<Rightarrow> Some fb
            | Some d \<Rightarrow> map_option fst (metadata_rows fl s d text_x meta_chars (fb, y)))
         })"

text \<open>The loop over the visible lines of the description, which stops above the footer.\<close>

fun draw_lines :: "core_state \<Rightarrow> int \<Rightarrow> rstr list \<Rightarrow> fb \<times> int \<Rightarrow> (fb \<times> int) may_panic" where
  "draw_lines s footer_top [] fby = Some fby"
| "draw_lines s footer_top (line # ls) (fb, y) =
     (let l = ds_layout (cs_display s); line_h = int (lc_font_scale l * 18)
      in if footer_top \<le> y + line_h then Some (fb, y)
         else do {
           fb \<leftarrow> draw_text l line (int (lc_margin_x l)) y (cp_desc (ds_palette (cs_display s))) (lc_font_scale l) fb;
           draw_lines s footer_top ls (fb, y + line_h)
         })"

text \<open>\<open>&lines[scroll..end]\<close>.\<close>

definition slice_lines :: "rstr list \<Rightarrow> nat \<Rightarrow> nat \<Rightarrow> rstr list may_panic" where
  "slice_lines ls from_line to_line = (if from_line \<le> to_line \<and> to_line \<le> length ls then Some (take (to_line - from_line) (drop from_line ls)) else None)"

definition no_description :: "core_state \<Rightarrow> fb \<Rightarrow> fb may_panic" where
  "no_description s fb =
     (let l = ds_layout (cs_display s)
      in draw_text l (lit ''No description available.'') (int (lc_margin_x l)) (int (lc_height l) div 2 + 10)
           (cp_nav (ds_palette (cs_display s))) (lc_font_scale l) fb)"

definition render_page_description :: "core_state \<Rightarrow> fb \<Rightarrow> fb may_panic" where
  "render_page_description s fb =
     (let g = cs_game s; l = ds_layout (cs_display s); es = fst (active_list g)
      in if length es \<le> gm_current_index g then Some fb
         else do {
           let detail = current_detail g;
           (fb, y) \<leftarrow> draw_title s (es ! gm_current_index g) detail 2 8 fb;
           (case detail of
              None \<Rightarrow> no_description s fb
            | Some d \<Rightarrow>
                let ls = pd_desc_lines_full (gd_display d)
                in if ls = [] then no_description s fb
                   else do {
                     let max_desc_lines = lc_max_desc_lines_full l;
                     let scroll = min (gm_desc_scroll g) (length ls - max_desc_lines);
                     let footer_top = int (lc_height l) - int (lc_margin_y l) - 16 - 2;
                     visible \<leftarrow> slice_lines ls scroll (min (length ls) (scroll + max_desc_lines));
                     (fb, y) \<leftarrow> draw_lines s footer_top visible (fb, y);
                     let indicator = sb_scroll_indicator (cs_scratch s);
                     if indicator = [] then Some fb
                     else (let ix = int (lc_width l) - int (lc_margin_x l) - int (utf8_len indicator) * int (lc_label_scale l * 9);
                               indicator_y = min y (footer_top - int (lc_font_scale l * 18)) + 2
                           in draw_text l indicator ix indicator_y (cp_nav (ds_palette (cs_display s))) (lc_label_scale l) fb)
                   })
         })"

text \<open>The safety clamps of \<open>render_detail\<close>.\<close>

definition clamp_position :: "core_state \<Rightarrow> core_state" where
  "clamp_position s =
     (let s = (if PAGE_COUNT \<le> gm_current_page (cs_game s) then in_game (\<lambda>g. g\<lparr>gm_current_page := 0\<rparr>) s else s);
          total = length (fst (active_list (cs_game s)))
      in if 0 < total \<and> total \<le> gm_current_index (cs_game s) then in_game (\<lambda>g. g\<lparr>gm_current_index := 0\<rparr>) s else s)"

definition draw_detail_header :: "core_state \<Rightarrow> fb \<Rightarrow> fb may_panic" where
  "draw_detail_header s fb = do {
     let l = ds_layout (cs_display s);
     let pal = ds_palette (cs_display s);
     let w = lc_width l;
     let h = lc_height l;
     let mx = int (lc_margin_x l);
     let text_y = int (lc_margin_y l) div 2 + 2;
     let scale = lc_label_scale l;
     fb \<leftarrow> draw_rect w h 0 0 w (nat (header_h l)) (cp_header_bg pal) fb;
     fb \<leftarrow> draw_hline w h 0 (header_h l) w (cp_accent pal) fb;
     if fst (active_list (cs_game s)) = [] then draw_text l (mode_label (gm_list_mode (cs_game s))) mx text_y (cp_nav pal) scale fb
     else do {
       fb \<leftarrow> draw_text l (lit ''<'') mx text_y (cp_arrow pal) scale fb;
       fb \<leftarrow> draw_text l (sb_header_text (cs_scratch s)) (mx + int (scale * 9 + 4)) text_y (cp_nav pal) scale fb;
       draw_text l (lit ''>'') (int w - mx - int (scale * 9)) text_y (cp_arrow pal) scale fb
     }
   }"

definition render_detail_frame :: "f32_ops \<Rightarrow> core_state \<Rightarrow> fb \<Rightarrow> fb may_panic" where
  "render_detail_frame fl s fb = do {
     let l = ds_layout (cs_display s);
     let pal = ds_palette (cs_display s);
     fb \<leftarrow> draw_detail_header s (clear_screen (cp_bg pal) fb);
     fb \<leftarrow> render_page_indicator s fb;
     if status s \<noteq> [] then do {
       let color = (if ns_api_available (cs_net s) then cp_loading pal else cp_error pal);
       fb \<leftarrow> draw_text l (status s) (int (lc_margin_x l)) (int (lc_height l) div 2 - 8) color (lc_font_scale l) fb;
       render_back_hint s fb
     }
     else if fst (active_list (cs_game s)) = [] then render_back_hint s fb
     else do {
       fb \<leftarrow> (case (case page_at (gm_current_page (cs_game s)) of Some p \<Rightarrow> p | None \<Rightarrow> GameInfo) of
                GameInfo \<Rightarrow> render_page_game_info fl s fb
              | Description \<Rightarrow> render_page_description s fb);
       render_back_hint s fb
     }
   }"

definition set_framebuffer :: "fb \<Rightarrow> core_state \<Rightarrow> core_state" where
  "set_framebuffer fb = in_display (\<lambda>d. d\<lparr>ds_framebuffer := fb\<rparr>)"

definition render_frame :: "f32_ops \<Rightarrow> core_state \<Rightarrow> core_state may_panic" where
  "render_frame fl s =
     (case gm_view (cs_game s) of
        HomeView \<Rightarrow> map_option (\<lambda>fb. set_framebuffer fb s) (render_home s (ds_framebuffer (cs_display s)))
      | GameDetailView \<Rightarrow>
          let s = clamp_position s
          in map_option (\<lambda>fb. set_framebuffer fb s) (render_detail_frame fl s (ds_framebuffer (cs_display s))))"

section \<open>The frame loop\<close>

unbundle bit_operations_syntax

definition to_bgr565 :: "u32 \<Rightarrow> u16" where
  "to_bgr565 c =
     (let r = ucast (drop_bit 16 c AND 255) :: u16; g = ucast (drop_bit 8 c AND 255) :: u16; b = ucast (c AND 255) :: u16
      in push_bit 11 (drop_bit 3 b) OR push_bit 5 (drop_bit 2 g) OR drop_bit 3 r)"

text \<open>The conversion loop indexes both buffers.\<close>

definition convert_frame :: "nat \<Rightarrow> u32 list \<Rightarrow> u16 list \<Rightarrow> u16 list may_panic" where
  "convert_frame pixel_count fb fb16 =
     (if pixel_count \<le> length fb \<and> pixel_count \<le> length fb16
      then Some (map to_bgr565 (take pixel_count fb) @ drop pixel_count fb16) else None)"

text \<open>\<open>dst.copy_from_slice(&src)\<close> panics unless the lengths agree.\<close>

definition copy_from_slice :: "'a list \<Rightarrow> 'a list \<Rightarrow> 'a list may_panic" where
  "copy_from_slice dst src = (if length dst = length src then Some src else None)"

definition present :: "core_state \<Rightarrow> (core_state \<times> frontend_call list) may_panic" where
  "present s =
     (let d = cs_display s; w = lc_width (ds_layout d); h = lc_height (ds_layout d)
      in if \<not> cb_video (cs_cb s) then Some (s, [])
         else (case ds_pixel_format d of
                 Xrgb8888 \<Rightarrow> do {
                   front \<leftarrow> copy_from_slice (ds_present_buffer d) (ds_framebuffer d);
                   Some (in_display (\<lambda>d. d\<lparr>ds_present_buffer := front\<rparr>) s, [Video32 front w h (w * 4)])
                 }
               | Bgr565 \<Rightarrow> do {
                   back \<leftarrow> convert_frame (w * h) (ds_framebuffer d) (ds_framebuffer_16 d);
                   front \<leftarrow> copy_from_slice (ds_present_buffer_16 d) back;
                   Some (in_display (\<lambda>d. d\<lparr>ds_framebuffer_16 := back, ds_present_buffer_16 := front\<rparr>) s, [Video16 front w h (w * 2)])
                 }))"

definition retro_run :: "f32_ops \<Rightarrow> buttons \<Rightarrow> core_state \<Rightarrow> (core_state \<times> frontend_call list) may_panic" where
  "retro_run fl btn s =
     (if ds_framebuffer (cs_display s) = [] then Some (s, [])
      else do {
        let poll = (if cb_input_poll (cs_cb s) then [PollInput] else []);
        let (s, calls) = handle_input btn s;
        s \<leftarrow> render_frame fl s;
        let s = in_display (\<lambda>d. d\<lparr>ds_frame_count := ds_frame_count d + 1\<rparr>) s;
        (s, video) \<leftarrow> present s;
        Some (s, poll @ calls @ video @ (if cb_audio_batch (cs_cb s) then [AudioSilence 735] else []))
      })"

end
