(* ===== verification/Core_Machine.thy ===== *)
theory Core_Machine
  imports Core_Render
begin

text \<open>
  The libretro core as a machine driven by its frontend: the calls of the interface as events,
  the states they lead to, and the invariant that keeps the frame loop from panicking.
\<close>

section \<open>Rendering never panics\<close>

abbreviation screen :: "core_state \<Rightarrow> fb \<Rightarrow> bool" where
  "screen s \<equiv> on_screen (lc_width (ds_layout (cs_display s))) (lc_height (ds_layout (cs_display s)))"

lemma draw_text_on_screen [returns_intros]:
  "on_screen (lc_width l) (lc_height l) fb \<Longrightarrow> (\<And>fb'. on_screen (lc_width l) (lc_height l) fb' \<Longrightarrow> Q fb') \<Longrightarrow>
   returns (draw_text l t x y c scale fb) Q"
  by (auto simp: draw_text_def intro!: draw_string_on_screen)

lemma clear_on_screen [simp]: "on_screen w h (clear_screen c fb) = on_screen w h fb"
  by (simp add: on_screen_def clear_screen_def)

lemma menu_item_on_screen [returns_intros]:
  "screen s fb \<Longrightarrow> (\<And>fb'. screen s fb' \<Longrightarrow> Q fb') \<Longrightarrow> returns (render_home_menu_item s i label count y fb) Q"
  unfolding render_home_menu_item_def Let_def returns_bind by (auto intro!: returns_intros)

lemma render_home_on_screen: "screen s fb \<Longrightarrow> returns (render_home s fb) (screen s)"
  unfolding render_home_def Let_def returns_bind
  by (auto simp: home_hints_def intro!: returns_intros)

lemma back_hint_on_screen [returns_intros]:
  "screen s fb \<Longrightarrow> (\<And>fb'. screen s fb' \<Longrightarrow> Q fb') \<Longrightarrow> returns (render_back_hint s fb) Q"
  unfolding render_back_hint_def Let_def by (auto intro!: returns_intros)

lemma page_indicator_on_screen [returns_intros]:
  assumes "screen s fb" and "\<And>fb'. screen s fb' \<Longrightarrow> Q fb'"
  shows "returns (render_page_indicator s fb) Q"
proof -
  have "returns (render_page_indicator s fb) (screen s)"
    unfolding render_page_indicator_def Let_def
    using assms(1) by (intro each_draws) (auto intro!: returns_intros)
  then show ?thesis using assms(2) by (rule returns_mono)
qed

lemma title_on_screen [returns_intros]:
  "screen s fb \<Longrightarrow> (\<And>fb' y. screen s fb' \<Longrightarrow> Q (fb', y)) \<Longrightarrow> returns (draw_title s entry detail a b fb) Q"
  unfolding draw_title_def Let_def returns_bind by (auto intro!: returns_intros)

lemma field_row_on_screen [returns_intros]:
  "screen s (fst fby) \<Longrightarrow> (\<And>fb' y. screen s fb' \<Longrightarrow> Q (fb', y)) \<Longrightarrow> returns (field_row s shown label val limit x fby) Q"
  unfolding field_row_def Let_def
  by (cases fby; cases limit) (auto intro!: returns_intros)

lemma rating_row_on_screen [returns_intros]:
  "screen s (fst fby) \<Longrightarrow> (\<And>fb' y. screen s fb' \<Longrightarrow> Q (fb', y)) \<Longrightarrow> returns (rating_row fl s d x fby) Q"
  unfolding rating_row_def Let_def
  by (cases fby; cases "gd_rating d") (auto intro!: returns_intros)

lemma metadata_rows_on_screen [returns_intros]:
  "screen s (fst fby) \<Longrightarrow> (\<And>fb' y. screen s fb' \<Longrightarrow> Q (fb', y)) \<Longrightarrow> returns (metadata_rows fl s d x n fby) Q"
  unfolding metadata_rows_def Let_def returns_bind by (auto intro!: returns_intros)

text \<open>Cached box art has the size it claims.\<close>

definition art_ok :: "game_detail \<Rightarrow> bool" where
  "art_ok d \<longleftrightarrow> (\<forall>art. gd_box_art d = Some art \<longrightarrow> image_ok art)"

lemma game_info_on_screen [returns_intros]:
  assumes "screen s fb" and "\<And>fb'. screen s fb' \<Longrightarrow> Q fb'" and "\<And>d. current_detail (cs_game s) = Some d \<Longrightarrow> art_ok d"
  shows "returns (render_page_game_info fl s fb) Q"
proof (cases "current_detail (cs_game s)")
  case None
  then show ?thesis
    using assms(1,2) unfolding render_page_game_info_def Let_def by (auto intro!: returns_intros)
next
  case (Some d)
  show ?thesis
  proof (cases "gd_box_art d")
    case None
    then show ?thesis
      using assms(1,2) Some unfolding render_page_game_info_def Let_def by (auto intro!: returns_intros)
  next
    case (Some art)
    then have "ba_width art * ba_height art \<le> length (ba_pixels art)"
      using assms(3) \<open>current_detail (cs_game s) = Some d\<close> by (simp add: art_ok_def image_ok_def)
    then show ?thesis
      using assms(1,2) Some \<open>current_detail (cs_game s) = Some d\<close>
      unfolding render_page_game_info_def Let_def by (auto intro!: returns_intros)
  qed
qed

lemma draw_lines_on_screen [returns_intros]:
  "screen s (fst fby) \<Longrightarrow> (\<And>fb' y. screen s fb' \<Longrightarrow> Q (fb', y)) \<Longrightarrow> returns (draw_lines s footer ls fby) Q"
proof (induction ls arbitrary: fby)
  case Nil
  then show ?case by (cases fby) simp
next
  case (Cons line ls)
  then show ?case by (cases fby) (auto simp: Let_def intro!: returns_intros)
qed

lemma slice_lines_returns:
  "scroll \<le> length ls - n \<Longrightarrow> (\<And>v. Q v) \<Longrightarrow> returns (slice_lines ls scroll (min (length ls) (scroll + n))) Q"
proof -
  assume scroll: "scroll \<le> length ls - n" and Q: "\<And>v. Q v"
  have "scroll \<le> length ls" using scroll by linarith
  then show "returns (slice_lines ls scroll (min (length ls) (scroll + n))) Q"
    using Q by (simp add: slice_lines_def)
qed

lemma description_on_screen [returns_intros]:
  assumes "screen s fb" and "\<And>fb'. screen s fb' \<Longrightarrow> Q fb'"
  shows "returns (render_page_description s fb) Q"
proof (cases "current_detail (cs_game s)")
  case None
  then show ?thesis
    using assms unfolding render_page_description_def Let_def no_description_def by (auto intro!: returns_intros)
next
  case (Some d)
  then show ?thesis
    using assms unfolding render_page_description_def Let_def no_description_def
    by (auto intro!: returns_intros slice_lines_returns)
qed

lemma detail_header_on_screen [returns_intros]:
  "screen s fb \<Longrightarrow> (\<And>fb'. screen s fb' \<Longrightarrow> Q fb') \<Longrightarrow> returns (draw_detail_header s fb) Q"
  unfolding draw_detail_header_def Let_def returns_bind by (auto intro!: returns_intros)

lemma detail_frame_on_screen:
  assumes "screen s fb" and "\<And>d. current_detail (cs_game s) = Some d \<Longrightarrow> art_ok d"
  shows "returns (render_detail_frame fl s fb) (screen s)"
proof -
  have page: "returns (case (case page_at (gm_current_page (cs_game s)) of Some p \<Rightarrow> p | None \<Rightarrow> GameInfo) of
                GameInfo \<Rightarrow> render_page_game_info fl s fb
              | Description \<Rightarrow> render_page_description s fb) (\<lambda>fb. returns (render_back_hint s fb) (screen s))" if "screen s fb" for fb
    using that assms(2) by (auto split: page_kind.split intro!: returns_intros)
  show ?thesis
    unfolding render_detail_frame_def Let_def returns_bind
    using assms(1) page by (auto intro!: returns_intros)
qed


section \<open>The invariant\<close>

text \<open>
  The four buffers have one length, nothing or the pixels of the screen; a list and its cache
  have one length and cached images are well-formed; the cursor, page and positions are in
  range.
\<close>

definition buffers_ok :: "core_state \<Rightarrow> bool" where
  "buffers_ok s \<longleftrightarrow>
     (let d = cs_display s; n = length (ds_framebuffer d)
      in length (ds_present_buffer d) = n \<and> length (ds_framebuffer_16 d) = n \<and> length (ds_present_buffer_16 d) = n \<and>
         (n = 0 \<or> n = lc_width (ds_layout d) * lc_height (ds_layout d)))"

definition cache_ok :: "game_entry list \<Rightarrow> game_detail option list \<Rightarrow> bool" where
  "cache_ok es cache \<longleftrightarrow> length cache = length es \<and> list_all (\<lambda>d. case d of Some d \<Rightarrow> art_ok d | None \<Rightarrow> True) cache"

definition lists_ok :: "game_data \<Rightarrow> bool" where
  "lists_ok g \<longleftrightarrow> cache_ok (gm_entries g) (gm_detail_cache g) \<and> cache_ok (gm_favorites g) (gm_fav_detail_cache g)"

definition position_ok :: "nat \<Rightarrow> game_entry list \<Rightarrow> bool" where
  "position_ok i es \<longleftrightarrow> es = [] \<or> i < length es"

definition positions_ok :: "game_data \<Rightarrow> bool" where
  "positions_ok g \<longleftrightarrow> gm_home_cursor g < HOME_MENU_COUNT \<and> gm_current_page g < PAGE_COUNT \<and>
     position_ok (gm_current_index g) (mode_entries g (gm_list_mode g)) \<and>
     position_ok (gm_recents_index g) (gm_entries g) \<and> position_ok (gm_favorites_index g) (gm_favorites g)"

definition core_ok :: "core_state \<Rightarrow> bool" where
  "core_ok s \<longleftrightarrow> buffers_ok s \<and> lists_ok (cs_game s) \<and> positions_ok (cs_game s)"

lemma current_detail_art: "lists_ok g \<Longrightarrow> current_detail g = Some d \<Longrightarrow> art_ok d"
  by (auto simp: current_detail_def cached_def active_list_def mode_cache_def lists_ok_def cache_ok_def list_all_length
      split: list_mode.splits if_splits option.splits)

text \<open>Operations that change none of the parts an invariant reads.\<close>

lemma update_texts_game [simp]:
  "cs_game (update_header_text s) = cs_game s" "cs_game (update_scroll_indicator s) = cs_game s" "cs_game (update_home_counts s) = cs_game s"
  by (simp_all add: update_header_text_def update_scroll_indicator_def update_home_counts_def in_scratch_def Let_def)

lemma update_texts_display [simp]:
  "cs_display (update_header_text s) = cs_display s" "cs_display (update_scroll_indicator s) = cs_display s" "cs_display (update_home_counts s) = cs_display s"
  by (simp_all add: update_header_text_def update_scroll_indicator_def update_home_counts_def in_scratch_def Let_def)

lemma update_texts_net [simp]:
  "cs_net (update_header_text s) = cs_net s" "cs_net (update_scroll_indicator s) = cs_net s" "cs_net (update_home_counts s) = cs_net s"
  by (simp_all add: update_header_text_def update_scroll_indicator_def update_home_counts_def in_scratch_def Let_def)

lemma update_texts_cb [simp]:
  "cs_cb (update_header_text s) = cs_cb s" "cs_cb (update_scroll_indicator s) = cs_cb s" "cs_cb (update_home_counts s) = cs_cb s"
  by (simp_all add: update_header_text_def update_scroll_indicator_def update_home_counts_def in_scratch_def Let_def)

lemma update_texts_input [simp]:
  "cs_input (update_header_text s) = cs_input s" "cs_input (update_scroll_indicator s) = cs_input s" "cs_input (update_home_counts s) = cs_input s"
  by (simp_all add: update_header_text_def update_scroll_indicator_def update_home_counts_def in_scratch_def Let_def)

lemma in_part_simps [simp]:
  "cs_game (in_game f s) = f (cs_game s)" "cs_display (in_game f s) = cs_display s" "cs_net (in_game f s) = cs_net s"
  "cs_cb (in_game f s) = cs_cb s" "cs_input (in_game f s) = cs_input s"
  "cs_game (in_net h s) = cs_game s" "cs_display (in_net h s) = cs_display s" "cs_net (in_net h s) = h (cs_net s)"
  "cs_cb (in_net h s) = cs_cb s" "cs_input (in_net h s) = cs_input s"
  "cs_game (in_input i s) = cs_game s" "cs_display (in_input i s) = cs_display s" "cs_net (in_input i s) = cs_net s"
  "cs_cb (in_input i s) = cs_cb s" "cs_input (in_input i s) = i (cs_input s)"
  "cs_game (in_display d s) = cs_game s" "cs_display (in_display d s) = d (cs_display s)" "cs_net (in_display d s) = cs_net s"
  "cs_cb (in_display d s) = cs_cb s" "cs_input (in_display d s) = cs_input s"
  by (simp_all add: state_updates)

lemma saved_index_ok: "position_ok (saved_index i (length es)) es"
  by (cases es) (auto simp: position_ok_def saved_index_def)

text \<open>Game data with the lists of another one.\<close>

definition same_lists :: "game_data \<Rightarrow> game_data \<Rightarrow> bool" where
  "same_lists g g' \<longleftrightarrow> gm_entries g' = gm_entries g \<and> gm_favorites g' = gm_favorites g \<and>
     gm_detail_cache g' = gm_detail_cache g \<and> gm_fav_detail_cache g' = gm_fav_detail_cache g"

lemma same_lists_ok: "same_lists g g' \<Longrightarrow> lists_ok g \<Longrightarrow> lists_ok g'"
  by (simp add: same_lists_def lists_ok_def)

lemma same_lists_refl [simp]: "same_lists g g"
  by (simp add: same_lists_def)

lemma same_lists_trans: "same_lists g g' \<Longrightarrow> same_lists g' g'' \<Longrightarrow> same_lists g g''"
  by (simp add: same_lists_def)

section \<open>Input keeps the invariant\<close>

lemma open_list_ok:
  "positions_ok (cs_game s) \<Longrightarrow> positions_ok (cs_game (open_list s)) \<and> same_lists (cs_game s) (cs_game (open_list s))"
  using saved_index_ok
  by (auto simp: open_list_def Let_def positions_ok_def same_lists_def mode_entries_def PAGE_COUNT_def)

lemma cursor_ok:
  "positions_ok g \<Longrightarrow> positions_ok (g\<lparr>gm_home_cursor := if 0 < gm_home_cursor g then gm_home_cursor g - 1 else HOME_MENU_COUNT - 1\<rparr>)"
  "positions_ok g \<Longrightarrow> positions_ok (g\<lparr>gm_home_cursor := if gm_home_cursor g < HOME_MENU_COUNT - 1 then gm_home_cursor g + 1 else 0\<rparr>)"
  by (auto simp: positions_ok_def HOME_MENU_COUNT_def mode_entries_def split: list_mode.splits)

lemma home_input_ok:
  assumes "positions_ok (cs_game s)"
  shows "positions_ok (cs_game (fst (handle_input_home s up down a b))) \<and> same_lists (cs_game s) (cs_game (fst (handle_input_home s up down a b)))
     \<and> cs_display (fst (handle_input_home s up down a b)) = cs_display s"
proof -
  define s1 where "s1 = (if up \<and> \<not> in_prev_up (cs_input s)
     then in_game (\<lambda>g. g\<lparr>gm_home_cursor := if 0 < gm_home_cursor g then gm_home_cursor g - 1 else HOME_MENU_COUNT - 1\<rparr>) s else s)"
  define s2 where "s2 = (if down \<and> \<not> in_prev_down (cs_input s1)
     then in_game (\<lambda>g. g\<lparr>gm_home_cursor := if gm_home_cursor g < HOME_MENU_COUNT - 1 then gm_home_cursor g + 1 else 0\<rparr>) s1 else s1)"
  have s1: "positions_ok (cs_game s1)" "same_lists (cs_game s) (cs_game s1)" "cs_display s1 = cs_display s"
    using assms cursor_ok(1) by (auto simp: s1_def same_lists_def)
  have s2: "positions_ok (cs_game s2)" "same_lists (cs_game s1) (cs_game s2)" "cs_display s2 = cs_display s"
    using s1 cursor_ok(2) by (auto simp: s2_def same_lists_def)
  have "fst (handle_input_home s up down a b) = (if a \<and> \<not> in_prev_a (cs_input s2) then open_list s2 else s2)"
    by (simp add: handle_input_home_def Let_def s1_def s2_def)
  moreover have "cs_display (open_list s2) = cs_display s2" by (simp add: open_list_def Let_def)
  ultimately show ?thesis
    using s2 open_list_ok [OF s2(1)] same_lists_trans [OF s1(2) s2(2)] same_lists_trans by auto
qed

lemma go_to_ok: "positions_ok g \<Longrightarrow> position_ok i (mode_entries g (gm_list_mode g)) \<Longrightarrow> positions_ok (go_to i g)"
  by (cases "gm_list_mode g") (auto simp: positions_ok_def go_to_def save_index_def mode_entries_def PAGE_COUNT_def)

lemma go_to_lists: "same_lists g (go_to i g) \<and> gm_list_mode (go_to i g) = gm_list_mode g"
  by (cases "gm_list_mode g") (auto simp: same_lists_def go_to_def save_index_def)

lemma mode_entries_same: "same_lists g g' \<Longrightarrow> mode_entries g' m = mode_entries g m"
  by (cases m) (auto simp: same_lists_def mode_entries_def)

lemma page_ok: "positions_ok g \<Longrightarrow> positions_ok (page_back g)" "positions_ok g \<Longrightarrow> positions_ok (page_forward g)"
  unfolding positions_ok_def page_back_def page_forward_def
  by (auto simp: PAGE_COUNT_def mode_entries_def split: list_mode.splits)

text \<open>Changes of the game data that keep lists, mode and the invariant.\<close>

definition moves :: "(game_data \<Rightarrow> game_data) \<Rightarrow> game_data \<Rightarrow> bool" where
  "moves f g \<longleftrightarrow> (positions_ok g \<longrightarrow> positions_ok (f g)) \<and> same_lists g (f g) \<and> gm_list_mode (f g) = gm_list_mode g"

lemma moves_pages: "moves page_back g" "moves page_forward g"
  using page_ok [of g] by (auto simp: moves_def same_lists_def) (simp_all add: page_back_def page_forward_def)

lemma moves_games:
  assumes "len = length (mode_entries g (gm_list_mode g))" and "0 < len"
  shows "moves (game_left len) g" "moves (game_right len) g"
  using assms go_to_lists
  by (auto simp: moves_def game_left_def game_right_def position_ok_def positions_ok_def [of g] intro!: go_to_ok)

text \<open>Steps of the input handlers, which change positions and input memory only.\<close>

definition same_elsewhere :: "core_state \<Rightarrow> core_state \<Rightarrow> bool" where
  "same_elsewhere s s' \<longleftrightarrow> cs_display s' = cs_display s \<and> cs_net s' = cs_net s \<and> cs_cb s' = cs_cb s"

definition calm :: "core_state \<Rightarrow> core_state \<Rightarrow> bool" where
  "calm s s' \<longleftrightarrow> same_elsewhere s s' \<and> (positions_ok (cs_game s) \<longrightarrow> positions_ok (cs_game s')) \<and> same_lists (cs_game s) (cs_game s')"

lemma calm_refl [simp]: "calm s s"
  by (simp add: calm_def same_elsewhere_def)

lemma calm_trans [trans]: "calm s s' \<Longrightarrow> calm s' s'' \<Longrightarrow> calm s s''"
  using same_lists_trans by (auto simp: calm_def same_elsewhere_def)

lemma calm_moves: "moves f (cs_game s) \<Longrightarrow> calm s (in_game f s)"
  by (simp add: calm_def same_elsewhere_def moves_def)

lemma calm_input [simp]: "calm s (in_input f s)"
  by (simp add: calm_def same_elsewhere_def)

lemma calm_texts [simp]: "calm s (update_header_text s)" "calm s (update_scroll_indicator s)"
  by (simp_all add: calm_def same_elsewhere_def)

lemma moves_scroll: "moves (\<lambda>g. g\<lparr>gm_desc_scroll := f g\<rparr>) g"
  by (auto simp: moves_def same_lists_def positions_ok_def mode_entries_def split: list_mode.splits)

lemma moves_home: "moves (\<lambda>g. (save_index g)\<lparr>gm_view := HomeView\<rparr>) g"
  by (cases "gm_list_mode g") (auto simp: moves_def same_lists_def positions_ok_def mode_entries_def save_index_def)

lemma moves_reset_index: "moves (\<lambda>g. g\<lparr>gm_current_index := 0\<rparr>) g"
  by (cases "gm_list_mode g") (auto simp: moves_def same_lists_def positions_ok_def position_ok_def mode_entries_def)

lemma calm_scroll_step: "calm s (fst (scroll_step s up down))"
proof -
  have up: "calm t (scroll_up t)" and down: "calm t (scroll_down t)" for t
    unfolding scroll_up_def scroll_down_def by (rule calm_trans [OF calm_moves [OF moves_scroll] calm_input])+
  show ?thesis
    using up down calm_trans [OF up down]
    by (auto simp: scroll_step_def Let_def split: option.split)
qed

lemma calm_games:
  assumes "len = length (mode_entries (cs_game s) (gm_list_mode (cs_game s)))" and "0 < len"
  shows "calm s (in_game (game_left len) s)" "calm s (in_game (game_right len) s)"
  using assms moves_games calm_moves by blast+

text \<open>The list length that \<open>handle_input_detail\<close> reads stays the one of the current list.\<close>

definition steady :: "nat \<Rightarrow> core_state \<Rightarrow> core_state \<Rightarrow> bool" where
  "steady len s s' \<longleftrightarrow> calm s s' \<and> length (mode_entries (cs_game s') (gm_list_mode (cs_game s'))) = len"

lemma steady_moves:
  "steady len s s' \<Longrightarrow> moves f (cs_game s') \<Longrightarrow> steady len s (if b then in_game f s' else s')"
  using calm_moves calm_trans mode_entries_same by (auto simp: steady_def moves_def)

lemma detail_input_ok: "calm s (handle_input_detail s left right up down b l1 r1)"
proof -
  define len where "len = length (mode_entries (cs_game s) (gm_list_mode (cs_game s)))"
  define s0 where "s0 = (if 0 < len \<and> len \<le> gm_current_index (cs_game s) then in_game (\<lambda>g. g\<lparr>gm_current_index := 0\<rparr>) s else s)"
  define prev where "prev = cs_input s0"
  define s1 where "s1 = (if l1 \<and> \<not> in_prev_l1 prev then in_game page_back s0 else s0)"
  define s2 where "s2 = (if r1 \<and> \<not> in_prev_r1 prev then in_game page_forward s1 else s1)"
  define s3 where "s3 = (if left \<and> \<not> in_prev_left prev \<and> 0 < len then in_game (game_left len) s2 else s2)"
  define s4 where "s4 = (if right \<and> \<not> in_prev_right prev \<and> 0 < len then in_game (game_right len) s3 else s3)"
  define s5 where "s5 = (if 0 < in_scroll_cooldown (cs_input s4) then in_input (\<lambda>i. i\<lparr>in_scroll_cooldown := in_scroll_cooldown i - 1\<rparr>) s4 else s4)"
  define s6 where "s6 = fst (scroll_step s5 up down)"
  define s7 where "s7 = (if \<not> up \<and> \<not> down then in_input (\<lambda>i. i\<lparr>in_scroll_cooldown := 0\<rparr>) s6 else s6)"
  have "steady len s s" by (simp add: steady_def len_def)
  then have s0: "steady len s s0" unfolding s0_def by (rule steady_moves) (rule moves_reset_index)
  then have s2: "steady len s s2"
    unfolding s2_def s1_def by (intro steady_moves moves_pages)
  have s3: "steady len s s3"
    using s2 steady_moves [OF s2 moves_games(1), of len] by (cases "0 < len") (auto simp: s3_def steady_def)
  have s4: "steady len s s4"
    using s3 steady_moves [OF s3 moves_games(2), of len] by (cases "0 < len") (auto simp: s4_def steady_def)
  have "calm s s5" using s4 calm_trans [OF _ calm_input] by (auto simp: s5_def steady_def)
  then have "calm s s6" unfolding s6_def by (rule calm_trans) (rule calm_scroll_step)
  then have s7: "calm s s7" using calm_trans [OF _ calm_input] by (auto simp: s7_def)
  have home: "calm s (in_game (\<lambda>g. (save_index g)\<lparr>gm_view := HomeView\<rparr>) s0)"
    using s0 calm_trans [OF _ calm_moves [OF moves_home]] by (auto simp: steady_def)
  have texts: "calm s (update_scroll_indicator (update_header_text s7))" "calm s (update_scroll_indicator s7)"
    using s7 calm_trans [OF _ calm_texts(2)] calm_trans [OF _ calm_texts(1)] by blast+
  have "handle_input_detail s left right up down b l1 r1 \<in>
      {in_game (\<lambda>g. (save_index g)\<lparr>gm_view := HomeView\<rparr>) s0, update_scroll_indicator (update_header_text s7),
       update_scroll_indicator s7, s7}"
    unfolding handle_input_detail_def Let_def case_prod_beta
    unfolding len_def [symmetric] s0_def [symmetric] prev_def [symmetric] s1_def [symmetric] s2_def [symmetric]
      s3_def [symmetric] s4_def [symmetric] s5_def [symmetric] s6_def [symmetric] s7_def [symmetric]
    by (simp split: if_split)
  then show ?thesis using home texts s7 by auto
qed

lemma input_ok:
  "positions_ok (cs_game s) \<Longrightarrow> positions_ok (cs_game (fst (handle_input btn s))) \<and>
   same_lists (cs_game s) (cs_game (fst (handle_input btn s))) \<and> cs_display (fst (handle_input btn s)) = cs_display s"
  using home_input_ok [of s] detail_input_ok [of s]
  by (auto simp: handle_input_def Let_def calm_def same_elsewhere_def case_prod_beta split: core_view.split)


section \<open>Loading keeps the invariant\<close>

lemma cached_update: "cache_ok es cache \<Longrightarrow> art_ok d \<Longrightarrow> cache_ok es (cache[i := Some d])"
  by (cases "i < length cache") (auto simp: cache_ok_def list_all_iff dest: set_update_subset_insert [THEN subsetD])

lemma set_cache_ok: "lists_ok (cs_game s) \<Longrightarrow> art_ok d \<Longrightarrow> lists_ok (cs_game (set_cache mode i d s))"
  using cached_update by (auto simp: set_cache_def lists_ok_def split: list_mode.split)

lemma set_cache_rest [simp]:
  "cs_display (set_cache mode i d s) = cs_display s" "cs_net (set_cache mode i d s) = cs_net s" "cs_cb (set_cache mode i d s) = cs_cb s"
  "cs_input (set_cache mode i d s) = cs_input s"
  by (simp_all add: set_cache_def)

text \<open>What prefetching leaves as it is: everything but the caches.\<close>

definition positions :: "game_data \<Rightarrow> core_view \<times> nat \<times> list_mode \<times> nat \<times> nat \<times> nat \<times> nat \<times> nat" where
  "positions g = (gm_view g, gm_home_cursor g, gm_list_mode g, gm_current_index g, gm_desc_scroll g, gm_current_page g,
     gm_recents_index g, gm_favorites_index g)"

definition only_caches :: "core_state \<Rightarrow> core_state \<Rightarrow> bool" where
  "only_caches s s' \<longleftrightarrow> cs_display s' = cs_display s \<and> cs_net s' = cs_net s \<and> cs_cb s' = cs_cb s \<and>
     positions (cs_game s') = positions (cs_game s) \<and> gm_entries (cs_game s') = gm_entries (cs_game s) \<and>
     gm_favorites (cs_game s') = gm_favorites (cs_game s) \<and> (lists_ok (cs_game s) \<longrightarrow> lists_ok (cs_game s'))"

lemma only_caches_refl [simp]: "only_caches s s"
  by (simp add: only_caches_def)

lemma only_caches_trans: "only_caches s s' \<Longrightarrow> only_caches s' s'' \<Longrightarrow> only_caches s s''"
  by (simp add: only_caches_def)

lemma set_cache_only: "art_ok d \<Longrightarrow> only_caches s (set_cache mode i d s)"
  using set_cache_ok
  by (auto simp: only_caches_def positions_def) (auto simp: set_cache_def split: list_mode.splits)

lemma fetched_detail_art: "fetch_rom_detail env sys f = Inr d \<Longrightarrow> gd_box_art d = None"
  by (auto simp: fetch_rom_detail_def parse_rom_detail_json_def Let_def split: sum.splits if_splits)

text \<open>Prefetching changes nothing, or fills one slot of the cache.\<close>

lemma prefetch_fills:
  assumes "prefetch_detail env mode s i = Some s'"
  shows "s' = s \<or> (\<exists>d. s' = set_cache mode i d s \<and> art_ok d)"
proof (cases "length (mode_entries (cs_game s) mode) \<le> i \<or> cached (mode_cache (cs_game s) mode) i \<noteq> None")
  case True
  then have "prefetch_detail env mode s i = Some s" by (elim disjE) (simp_all add: prefetch_detail_def Let_def)
  then show ?thesis using assms by simp
next
  case False
  then have miss: "\<not> length (mode_entries (cs_game s) mode) \<le> i" "cached (mode_cache (cs_game s) mode) i = None" by simp_all
  define e where "e = mode_entries (cs_game s) mode ! i"
  define layout where "layout = ds_layout (cs_display s)"
  show ?thesis
  proof (cases "fetch_rom_detail env (ge_system e) (ge_rom_filename e)")
    case (Inl err)
    then show ?thesis
      using assms miss by (auto simp: prefetch_detail_def Let_def e_def bind_eq_Some_conv fallback_detail_def art_ok_def)
  next
    case (Inr d)
    have "(if i < MAX_BOX_ART_PREFETCH
           then (case ge_box_art_url e of
                   Some url \<Rightarrow> map_option (\<lambda>art. d\<lparr>gd_box_art := art\<rparr>) (fetch_box_art_for_layout env url layout)
                 | None \<Rightarrow> Some d)
           else Some d) \<bind> (\<lambda>d. precompute_display (ce_f32 env) d (lc_chars_per_line layout) (lc_full_chars_per_line layout)
             \<bind> (\<lambda>display. Some (set_cache mode i (d\<lparr>gd_display := display\<rparr>) s))) = Some s'"
      using assms miss Inr by (simp add: prefetch_detail_def Let_def e_def layout_def split del: if_split cong del: if_weak_cong option.case_cong_weak)
    then obtain d' display where d': "(if i < MAX_BOX_ART_PREFETCH
           then (case ge_box_art_url e of
                   Some url \<Rightarrow> map_option (\<lambda>art. d\<lparr>gd_box_art := art\<rparr>) (fetch_box_art_for_layout env url layout)
                 | None \<Rightarrow> Some d)
           else Some d) = Some d'" and s': "s' = set_cache mode i (d'\<lparr>gd_display := display\<rparr>) s"
      by (auto simp: bind_eq_Some_conv)
    have "art_ok d'"
      using d' fetched_detail_art [OF Inr]
      by (auto simp: art_ok_def split: if_splits option.splits dest: box_art_image)
    then have "art_ok (d'\<lparr>gd_display := display\<rparr>)" by (simp add: art_ok_def)
    then show ?thesis using s' by blast
  qed
qed

lemma prefetch_only: "prefetch_detail env mode s i = Some s' \<Longrightarrow> only_caches s s'"
  using prefetch_fills set_cache_only by fastforce

lemma prefetch_all_only: "each (prefetch_detail env mode) s is = Some s' \<Longrightarrow> only_caches s s'"
proof (induction "is" arbitrary: s)
  case (Cons i "is")
  then obtain t where "prefetch_detail env mode s i = Some t" "each (prefetch_detail env mode) t is = Some s'"
    by (auto simp: bind_eq_Some_conv)
  then show ?case using Cons.IH prefetch_only only_caches_trans by blast
qed simp

text \<open>One list is loaded, or the old one stays and the error is noted.\<close>

definition loaded :: "list_mode \<Rightarrow> core_state \<Rightarrow> core_state \<Rightarrow> bool" where
  "loaded mode s s' \<longleftrightarrow> cs_display s' = cs_display s \<and> cs_cb s' = cs_cb s \<and> (lists_ok (cs_game s) \<longrightarrow> lists_ok (cs_game s')) \<and>
     gm_view (cs_game s') = gm_view (cs_game s) \<and> gm_home_cursor (cs_game s') = gm_home_cursor (cs_game s) \<and>
     gm_current_page (cs_game s') = gm_current_page (cs_game s)"

lemma loaded_trans: "loaded m s s' \<Longrightarrow> loaded m' s' s'' \<Longrightarrow> loaded m s s''"
  by (simp add: loaded_def)

lemma install_ok: "lists_ok g \<Longrightarrow> lists_ok (install_list mode es g)"
  by (auto simp: install_list_def lists_ok_def cache_ok_def list_all_length split: list_mode.split)

lemma install_rest [simp]:
  "gm_view (install_list mode es g) = gm_view g" "gm_home_cursor (install_list mode es g) = gm_home_cursor g"
  "gm_current_page (install_list mode es g) = gm_current_page g" "gm_list_mode (install_list mode es g) = gm_list_mode g"
  by (cases mode; simp add: install_list_def)+

lemma load_list_loaded:
  assumes "load_list env mode s = Some s'"
  shows "loaded mode s s'"
proof -
  define s0 where "s0 = in_net (\<lambda>n. n\<lparr>ns_status_message := fetch_message mode, ns_loading := True\<rparr>) s"
  obtain r where "(case mode of Recents \<Rightarrow> fetch_recents env | Favorites \<Rightarrow> fetch_favorites env) = Some r"
    and r: "(case r of
        Inr es \<Rightarrow>
          let s = in_net (\<lambda>n. n\<lparr>ns_api_available := True, ns_loading := False\<rparr>) (in_game (install_list mode es) s0)
          in if es = [] then Some (set_status (empty_message mode) s)
             else each (prefetch_detail env mode) (set_status [] s) [0..<length es]
      | Inl e \<Rightarrow>
          Some (in_net (\<lambda>n. n\<lparr>ns_api_available := False, ns_loading := False, ns_status_message := error_message mode e\<rparr>) s0)) = Some s'"
    using assms unfolding load_list_def Let_def s0_def bind_eq_Some_conv by blast
  show ?thesis
  proof (cases r)
    case (Inl e)
    then show ?thesis using r by (auto simp: loaded_def s0_def)
  next
    case (Inr es)
    define s1 where "s1 = in_net (\<lambda>n. n\<lparr>ns_api_available := True, ns_loading := False\<rparr>) (in_game (install_list mode es) s0)"
    have s1: "loaded mode s s1"
      using install_ok by (auto simp: loaded_def s1_def s0_def)
    show ?thesis
    proof (cases "es = []")
      case True
      then have "s' = set_status (empty_message mode) s1" using r Inr by (simp add: s1_def)
      then show ?thesis using s1 by (auto simp: loaded_def)
    next
      case False
      then have "only_caches (set_status [] s1) s'"
        using r Inr by (intro prefetch_all_only) (simp add: s1_def)
      then show ?thesis using s1 by (auto simp: loaded_def only_caches_def positions_def)
    qed
  qed
qed

lemma both_lists_loaded:
  "load_list env Recents s = Some t \<Longrightarrow> load_list env Favorites t = Some s' \<Longrightarrow> loaded Recents s s'"
  using load_list_loaded loaded_trans by blast


section \<open>The machine\<close>

text \<open>The calls of the frontend that can change the state, with what their callbacks answer.\<close>

datatype core_event =
    SetEnvironment bool
  | SetVideoRefresh
  | SetAudioSample
  | SetAudioSampleBatch
  | SetInputPoll
  | SetInputState
  | Deinit
  | LoadGame core_env
  | UnloadGame
  | Reset core_env
  | Run f32_ops buttons
  | Unserialize "u8 list"

fun core_step :: "core_event \<Rightarrow> core_state \<Rightarrow> (core_state \<times> frontend_call list) may_panic" where
  "core_step (SetEnvironment accepted) s = Some (retro_set_environment accepted s)"
| "core_step SetVideoRefresh s = Some (retro_set_video_refresh s, [])"
| "core_step SetAudioSample s = Some (retro_set_audio_sample s, [])"
| "core_step SetAudioSampleBatch s = Some (retro_set_audio_sample_batch s, [])"
| "core_step SetInputPoll s = Some (retro_set_input_poll s, [])"
| "core_step SetInputState s = Some (retro_set_input_state s, [])"
| "core_step Deinit s = Some (retro_deinit s, [])"
| "core_step (LoadGame env) s = map_option (\<lambda>s. (s, [])) (retro_load_game env s)"
| "core_step UnloadGame s = Some (retro_unload_game s, [])"
| "core_step (Reset env) s = map_option (\<lambda>s. (s, [])) (retro_reset env s)"
| "core_step (Run fl btn) s = retro_run fl btn s"
| "core_step (Unserialize data) s = Some (fst (retro_unserialize data s), [])"

text \<open>States after any sequence of allowed calls, none of which panicked.\<close>

inductive driven :: "(core_event \<Rightarrow> bool) \<Rightarrow> core_state \<Rightarrow> bool" for allowed where
  start: "driven allowed STATE"
| call: "driven allowed s \<Longrightarrow> allowed e \<Longrightarrow> core_step e s = Some (s', calls) \<Longrightarrow> driven allowed s'"

abbreviation core_reachable :: "core_state \<Rightarrow> bool" where
  "core_reachable \<equiv> driven (\<lambda>e. True)"

inductive_cases driven_cases: "driven allowed s"

text \<open>A condition that holds at the start and that every allowed call keeps.\<close>

locale core_invariant =
  fixes allowed :: "core_event \<Rightarrow> bool" and inv :: "core_state \<Rightarrow> bool"
  assumes start: "inv STATE"
    and keep: "inv s \<Longrightarrow> allowed e \<Longrightarrow> core_step e s = Some (s', calls) \<Longrightarrow> inv s'"
begin

lemma driven_inv: "driven allowed s \<Longrightarrow> inv s"
  by (induction rule: driven.induct) (use start keep in auto)

end

section \<open>Every call keeps the invariant\<close>

lemma core_okI: "buffers_ok s \<Longrightarrow> lists_ok (cs_game s) \<Longrightarrow> positions_ok (cs_game s) \<Longrightarrow> core_ok s"
  by (simp add: core_ok_def)

lemma buffers_display: "cs_display s' = cs_display s \<Longrightarrow> buffers_ok s \<Longrightarrow> buffers_ok s'"
  by (simp add: buffers_ok_def)

lemma initial_ok: "core_ok STATE"
  by (simp add: core_ok_def STATE_def buffers_ok_def lists_ok_def cache_ok_def positions_ok_def position_ok_def mode_entries_def
      HOME_MENU_COUNT_def PAGE_COUNT_def)

lemma input_core_ok: "core_ok s \<Longrightarrow> core_ok (fst (handle_input btn s))"
  using input_ok [of s btn] buffers_display same_lists_ok by (auto simp: core_ok_def)

definition drawn :: "core_state \<Rightarrow> core_state \<Rightarrow> bool" where
  "drawn s s' \<longleftrightarrow> (\<exists>fb. s' = set_framebuffer fb s \<and> length fb = length (ds_framebuffer (cs_display s)))"

lemma render_frame_ok:
  assumes "core_ok s" and "ds_framebuffer (cs_display s) \<noteq> []"
  shows "\<exists>s'. render_frame fl s = Some s' \<and> drawn s s'"
proof -
  have fb: "screen s (ds_framebuffer (cs_display s))"
    using assms by (auto simp: core_ok_def buffers_ok_def Let_def on_screen_def)
  have clamp: "clamp_position s = s"
  proof -
    have "gm_current_page (cs_game s) < PAGE_COUNT"
      and "fst (active_list (cs_game s)) = [] \<or> gm_current_index (cs_game s) < length (fst (active_list (cs_game s)))"
      using assms(1) by (auto simp: core_ok_def positions_ok_def position_ok_def active_list_def)
    then show ?thesis by (auto simp: clamp_position_def Let_def)
  qed
  have art: "art_ok d" if "current_detail (cs_game s) = Some d" for d
    using assms(1) that by (auto simp: core_ok_def intro: current_detail_art)
  show ?thesis
  proof (cases "gm_view (cs_game s)")
    case HomeView
    obtain fb' where "render_home s (ds_framebuffer (cs_display s)) = Some fb'" "screen s fb'"
      using render_home_on_screen [OF fb] by (auto dest: returnsD)
    then show ?thesis using HomeView fb by (auto simp: render_frame_def drawn_def on_screen_def)
  next
    case GameDetailView
    obtain fb' where "render_detail_frame fl s (ds_framebuffer (cs_display s)) = Some fb'" "screen s fb'"
      using detail_frame_on_screen [OF fb art] by (auto dest: returnsD)
    then show ?thesis using GameDetailView fb clamp by (auto simp: render_frame_def drawn_def on_screen_def)
  qed
qed

text \<open>Frames handed to the frontend have the size that goes with them.\<close>

fun frame_fits :: "frontend_call \<Rightarrow> bool" where
  "frame_fits (Video32 px w h pitch) = (length px = w * h \<and> pitch = w * 4)"
| "frame_fits (Video16 px w h pitch) = (length px = w * h \<and> pitch = w * 2)"
| "frame_fits _ = True"

lemma home_calls: "\<forall>c \<in> set (snd (handle_input_home s up down a b)). frame_fits c"
  by (simp add: handle_input_home_def Let_def)

lemma input_calls: "\<forall>c \<in> set (snd (handle_input btn s)). frame_fits c"
  using home_calls by (auto simp: handle_input_def Let_def case_prod_beta split: core_view.split)

lemma present_ok:
  assumes "buffers_ok s" and "ds_framebuffer (cs_display s) \<noteq> []"
  shows "\<exists>s' calls. present s = Some (s', calls) \<and> buffers_ok s' \<and> cs_game s' = cs_game s \<and> (\<forall>c \<in> set calls. frame_fits c)"
proof (cases "cb_video (cs_cb s)")
  case True
  let ?d = "cs_display s"
  have len: "length (ds_framebuffer ?d) = lc_width (ds_layout ?d) * lc_height (ds_layout ?d)"
    and same: "length (ds_present_buffer ?d) = length (ds_framebuffer ?d)" "length (ds_framebuffer_16 ?d) = length (ds_framebuffer ?d)"
      "length (ds_present_buffer_16 ?d) = length (ds_framebuffer ?d)"
    using assms by (auto simp: buffers_ok_def Let_def)
  show ?thesis
    using True len same
    by (cases "ds_pixel_format ?d") (simp_all add: present_def Let_def copy_from_slice_def convert_frame_def buffers_ok_def)
qed (simp add: present_def assms Let_def)

lemma run_ok:
  assumes "core_ok s"
  shows "\<exists>s' calls. retro_run fl btn s = Some (s', calls) \<and> core_ok s' \<and> (\<forall>c \<in> set calls. frame_fits c)"
proof (cases "ds_framebuffer (cs_display s) = []")
  case True
  then show ?thesis using assms by (simp add: retro_run_def)
next
  case False
  define t where "t = fst (handle_input btn s)"
  have t: "core_ok t" "cs_display t = cs_display s"
    using input_core_ok [OF assms] input_ok [of s btn] assms by (auto simp: t_def core_ok_def)
  then obtain u where u: "render_frame fl t = Some u" "drawn t u"
    using render_frame_ok False by metis
  define v where "v = in_display (\<lambda>d. d\<lparr>ds_frame_count := ds_frame_count d + 1\<rparr>) u"
  have v: "buffers_ok v" "cs_game v = cs_game t" "ds_framebuffer (cs_display v) \<noteq> []"
    using t u(2) False by (auto simp: v_def drawn_def set_framebuffer_def core_ok_def buffers_ok_def Let_def)
  then obtain w calls where w: "present v = Some (w, calls)" "buffers_ok w" "cs_game w = cs_game v" "\<forall>c \<in> set calls. frame_fits c"
    using present_ok by metis
  have "core_ok w" using w(2,3) v(2) t(1) by (simp add: core_ok_def)
  then show ?thesis
    using False u(1) w(1,4) input_calls [of btn s]
    by (auto simp: retro_run_def t_def [symmetric] v_def [symmetric] case_prod_beta)
qed

lemma position_zero [simp]: "position_ok 0 es"
  by (auto simp: position_ok_def)

lemma clear_status_simps [simp]:
  "cs_game (clear_status_if_games s) = cs_game s" "cs_display (clear_status_if_games s) = cs_display s"
  by (simp_all add: clear_status_if_games_def)

lemma home_position_ok: "positions_ok (home_position g)" "lists_ok (home_position g) = lists_ok g"
  by (simp_all add: home_position_def positions_ok_def lists_ok_def HOME_MENU_COUNT_def PAGE_COUNT_def)

lemma load_game_ok:
  assumes "retro_load_game env s = Some s'" and "core_ok s"
  shows "core_ok s'"
proof -
  define layout where "layout = detect (ce_replay_cfg env)"
  define palette where "palette = load_palette (detect_skin_index (ce_settings_cfg env) (ce_replay_cfg env))"
  define n where "n = lc_width layout * lc_height layout"
  define s1 where "s1 = in_display (\<lambda>d. d\<lparr>ds_layout := layout, ds_palette := palette,
               ds_framebuffer := replicate n 0, ds_present_buffer := replicate n 0,
               ds_framebuffer_16 := replicate n 0, ds_present_buffer_16 := replicate n 0\<rparr>) s"
  obtain s2 s3 where "load_list env Recents s1 = Some s2" "load_list env Favorites s2 = Some s3"
    and s': "s' = refresh_texts (clear_status_if_games (in_game home_position s3))"
    using assms(1)
    unfolding retro_load_game_def Let_def layout_def [symmetric] palette_def [symmetric] n_def [symmetric] s1_def [symmetric]
    by (auto simp: bind_eq_Some_conv)
  then have "loaded Recents s1 s3" by (blast intro: both_lists_loaded)
  moreover have "buffers_ok s1" "lists_ok (cs_game s1)"
    using assms(2) by (simp_all add: s1_def buffers_ok_def n_def core_ok_def)
  ultimately have "buffers_ok s3" "lists_ok (cs_game s3)" by (auto simp: loaded_def buffers_ok_def)
  then show ?thesis
    by (auto simp: s' refresh_texts_def core_ok_def home_position_ok buffers_ok_def)
qed

lemma reset_steps:
  assumes "retro_reset env s = Some s'"
  shows "\<exists>s3. loaded Recents (in_game home_position (in_display (\<lambda>d. d\<lparr>ds_frame_count := 0\<rparr>) s)) s3 \<and>
    s' = refresh_texts (clear_status_if_games (in_game (\<lambda>g. g\<lparr>gm_list_mode := Recents, gm_current_index := 0,
                gm_desc_scroll := 0, gm_recents_index := 0, gm_favorites_index := 0\<rparr>) s3))"
proof -
  define s1 where "s1 = in_game home_position (in_display (\<lambda>d. d\<lparr>ds_frame_count := 0\<rparr>) s)"
  obtain s2 s3 where "load_list env Recents s1 = Some s2" "load_list env Favorites s2 = Some s3"
    and s': "s' = refresh_texts (clear_status_if_games (in_game (\<lambda>g. g\<lparr>gm_list_mode := Recents, gm_current_index := 0,
                gm_desc_scroll := 0, gm_recents_index := 0, gm_favorites_index := 0\<rparr>) s3))"
    using assms(1) unfolding retro_reset_def Let_def s1_def [symmetric] by (auto simp: bind_eq_Some_conv)
  then show ?thesis unfolding s1_def [symmetric] by (blast intro: both_lists_loaded)
qed

lemma reset_ok:
  assumes "retro_reset env s = Some s'" and "core_ok s"
  shows "core_ok s'"
proof -
  define s1 where "s1 = in_game home_position (in_display (\<lambda>d. d\<lparr>ds_frame_count := 0\<rparr>) s)"
  obtain s3 where "loaded Recents s1 s3"
    and s': "s' = refresh_texts (clear_status_if_games (in_game (\<lambda>g. g\<lparr>gm_list_mode := Recents, gm_current_index := 0,
                gm_desc_scroll := 0, gm_recents_index := 0, gm_favorites_index := 0\<rparr>) s3))"
    using reset_steps [OF assms(1)] unfolding s1_def [symmetric] by blast
  moreover have "buffers_ok s1" "lists_ok (cs_game s1)" "gm_home_cursor (cs_game s1) = 0" "gm_current_page (cs_game s1) = 0"
    using assms(2) home_position_ok by (simp_all add: s1_def buffers_ok_def core_ok_def Let_def) (simp_all add: home_position_def)
  ultimately have "buffers_ok s3" "lists_ok (cs_game s3)" "gm_home_cursor (cs_game s3) = 0" "gm_current_page (cs_game s3) = 0"
    by (auto simp: loaded_def buffers_ok_def)
  then show ?thesis
    by (simp add: s' refresh_texts_def core_ok_def buffers_ok_def positions_ok_def lists_ok_def HOME_MENU_COUNT_def PAGE_COUNT_def)
qed

lemma unserialize_ok:
  assumes "core_ok s"
  shows "core_ok (fst (retro_unserialize data s))"
proof (cases "length data < SAVE_STATE_SIZE")
  case True
  then show ?thesis using assms by (simp add: retro_unserialize_def)
next
  case False
  let ?g = "cs_game (fst (retro_unserialize data s))"
  have "same_lists (cs_game s) ?g" using False by (simp add: retro_unserialize_def Let_def same_lists_def)
  moreover have "positions_ok ?g"
    using False saved_index_ok
    by (simp add: retro_unserialize_def Let_def positions_ok_def mode_entries_def HOME_MENU_COUNT_def PAGE_COUNT_def)
  moreover have "cs_display (fst (retro_unserialize data s)) = cs_display s"
    using False by (simp add: retro_unserialize_def Let_def)
  ultimately show ?thesis using assms same_lists_ok buffers_display by (auto simp: core_ok_def)
qed

lemma teardown_ok: "core_ok s \<Longrightarrow> core_ok (retro_deinit s)" "core_ok s \<Longrightarrow> core_ok (retro_unload_game s)"
  by (auto simp: retro_deinit_def retro_unload_game_def core_ok_def buffers_ok_def lists_ok_def cache_ok_def positions_ok_def
      position_ok_def mode_entries_def Let_def split: list_mode.splits)

lemma callbacks_ok:
  "core_ok (s\<lparr>cs_cb := cb\<rparr>) = core_ok s"
  "core_ok (in_display (\<lambda>d. d\<lparr>ds_pixel_format := p\<rparr>) s) = core_ok s"
  by (simp_all add: core_ok_def buffers_ok_def Let_def)

lemma step_ok: "core_ok s \<Longrightarrow> core_step e s = Some (s', calls) \<Longrightarrow> core_ok s'"
proof (cases e)
  case (Run fl btn)
  then show "core_ok s \<Longrightarrow> core_step e s = Some (s', calls) \<Longrightarrow> core_ok s'" using run_ok [of s fl btn] by auto
qed (auto simp: teardown_ok unserialize_ok callbacks_ok retro_set_environment_def retro_set_video_refresh_def
       retro_set_audio_sample_def retro_set_audio_sample_batch_def retro_set_input_poll_def retro_set_input_state_def
       intro: load_game_ok reset_ok)

interpretation running: core_invariant "\<lambda>e. True" core_ok
  by unfold_locales (auto simp: initial_ok intro: step_ok)

end
