(* ===== verification/Core_Behaviour.thy ===== *)
theory Core_Behaviour
  imports Core_Machine
begin

text \<open>
  What the libretro core does under its frontend: the frame loop never panics and presents
  well-formed frames, fetch errors stay hidden, save states bring positions back, and every game
  of a list is reached.
\<close>

section \<open>The frame loop\<close>

fun is_frame :: "frontend_call \<Rightarrow> bool" where
  "is_frame (Video32 px w h pitch) = True"
| "is_frame (Video16 px w h pitch) = True"
| "is_frame _ = False"

lemma home_no_frames: "filter is_frame (snd (handle_input_home s up down a b)) = []"
  by (simp add: handle_input_home_def Let_def)

lemma input_no_frames: "filter is_frame (snd (handle_input btn s)) = []"
  using home_no_frames by (auto simp: handle_input_def Let_def case_prod_beta split: core_view.split)

lemma present_frames: "present s = Some (s', calls) \<Longrightarrow> length (filter is_frame calls) = (if cb_video (cs_cb s) then 1 else 0)"
  by (auto simp: present_def Let_def bind_eq_Some_conv split: if_splits pixel_format.splits)

text \<open>What a frame does to the state besides drawing: it handles the input.\<close>

lemma input_cb: "cs_cb (fst (handle_input btn s)) = cs_cb s"
proof -
  have "cs_cb (fst (handle_input_home s up down a b)) = cs_cb s" for up down a b
    by (simp add: handle_input_home_def Let_def open_list_def)
  moreover have "cs_cb (handle_input_detail s left right up down b l1 r1) = cs_cb s" for left right up down b l1 r1
    using detail_input_ok [of s] by (simp add: calm_def same_elsewhere_def)
  ultimately show ?thesis by (auto simp: handle_input_def Let_def case_prod_beta split: core_view.split)
qed

lemma present_rest:
  "present s = Some (s', calls) \<Longrightarrow> cs_game s' = cs_game s \<and> cs_net s' = cs_net s \<and> cs_cb s' = cs_cb s \<and> cs_input s' = cs_input s
    \<and> length (ds_framebuffer (cs_display s')) = length (ds_framebuffer (cs_display s)) \<and> ds_layout (cs_display s') = ds_layout (cs_display s)"
  by (auto simp: present_def Let_def bind_eq_Some_conv split: if_splits pixel_format.splits)

lemma run_is_input:
  assumes "core_ok s" and "retro_run fl btn s = Some (s', calls)" and "ds_framebuffer (cs_display s) \<noteq> []"
  defines "t \<equiv> fst (handle_input btn s)"
  shows "cs_game s' = cs_game t \<and> cs_net s' = cs_net t \<and> cs_cb s' = cs_cb s \<and> cs_input s' = cs_input t \<and>
         length (ds_framebuffer (cs_display s')) = length (ds_framebuffer (cs_display s)) \<and>
         length (filter is_frame calls) = (if cb_video (cs_cb s) then 1 else 0)"
proof -
  have t: "core_ok t" "cs_display t = cs_display s"
    using input_core_ok [OF assms(1)] input_ok [of s btn] assms(1) by (auto simp: t_def core_ok_def)
  then obtain u where u: "render_frame fl t = Some u" "drawn t u"
    using render_frame_ok assms(3) by metis
  obtain w video where w: "present (in_display (\<lambda>d. d\<lparr>ds_frame_count := ds_frame_count d + 1\<rparr>) u) = Some (w, video)"
    and s': "s' = w" "calls = (if cb_input_poll (cs_cb s) then [PollInput] else []) @ snd (handle_input btn s) @ video
       @ (if cb_audio_batch (cs_cb w) then [AudioSilence 735] else [])"
    using assms(2,3) u(1) by (auto simp: retro_run_def t_def case_prod_beta bind_eq_Some_conv)
  have u': "cs_game u = cs_game t" "cs_net u = cs_net t" "cs_cb u = cs_cb t" "cs_input u = cs_input t"
    "length (ds_framebuffer (cs_display u)) = length (ds_framebuffer (cs_display s))"
    using u(2) t(2) by (auto simp: drawn_def set_framebuffer_def)
  have "cs_cb t = cs_cb s" by (simp add: t_def input_cb)
  then show ?thesis
    using present_rest [OF w] present_frames [OF w] u' s' input_no_frames [of btn s] by simp
qed

text \<open>
  C12: however the frontend has driven the core -- any sequence of loads, resets, frames, restored
  save states and teardowns that did not panic -- the frame loop never panics: no drawing
  routine, slice or buffer copy leaves its buffer. Once a game is loaded and the video callback
  is set, each call presents exactly one frame, whose buffer holds the pixels its dimensions and
  pitch promise to the frontend.
\<close>

theorem core_run_never_panics:
  assumes "core_reachable s"
  shows "\<exists>s' calls. retro_run fl btn s = Some (s', calls) \<and> (\<forall>c \<in> set calls. frame_fits c) \<and>
           length (filter is_frame calls) = (if ds_framebuffer (cs_display s) \<noteq> [] \<and> cb_video (cs_cb s) then 1 else 0)"
proof -
  have ok: "core_ok s" using assms by (rule running.driven_inv)
  obtain s' calls where run: "retro_run fl btn s = Some (s', calls)" "\<forall>c \<in> set calls. frame_fits c"
    using run_ok [OF ok] by blast
  show ?thesis
  proof (cases "ds_framebuffer (cs_display s) = []")
    case False
    then show ?thesis using run run_is_input [OF ok run(1)] by simp
  qed (use run in \<open>simp add: retro_run_def\<close>)
qed

section \<open>A core without a server\<close>

text \<open>A server that cannot be reached, and no configuration files.\<close>

definition offline :: core_env where
  "offline = \<lparr>ce_http = (\<lambda>url timeout. Inl (lit ''refused'')), ce_utf8_error = (\<lambda>b. []), ce_png = (\<lambda>b. Inl []),
     ce_f32 = no_f32, ce_replay_cfg = Missing, ce_settings_cfg = Missing\<rparr>"

definition with_callbacks :: core_state where
  "with_callbacks = retro_set_video_refresh (retro_set_input_state STATE)"

lemma with_callbacks_driven: "allowed SetInputState \<Longrightarrow> allowed SetVideoRefresh \<Longrightarrow> driven allowed with_callbacks"
  unfolding with_callbacks_def by (rule call [where e = SetVideoRefresh], rule call [where e = SetInputState], rule start) simp_all

lemma offline_lists:
  "load_list offline mode s =
     Some (in_net (\<lambda>n. n\<lparr>ns_api_available := False, ns_loading := False, ns_status_message := error_message mode (lit ''HTTP error: '' @ lit ''refused'')\<rparr>) s)"
  by (cases mode) (simp_all add: load_list_def offline_def fetch_recents_def fetch_favorites_def in_net_def)

lemma offline_files [simp]: "ce_replay_cfg offline = Missing" "ce_settings_cfg offline = Missing"
  by (simp_all add: offline_def)

lemma offline_load:
  "\<exists>s. retro_load_game offline with_callbacks = Some s \<and> gm_view (cs_game s) = HomeView \<and> gm_home_cursor (cs_game s) = 0 \<and>
     gm_entries (cs_game s) = [] \<and> status s = error_message Favorites (lit ''HTTP error: '' @ lit ''refused'') \<and> \<not> ns_api_available (cs_net s) \<and>
     cb_input_state (cs_cb s) \<and> cb_video (cs_cb s) \<and> \<not> in_prev_a (cs_input s) \<and> ds_framebuffer (cs_display s) \<noteq> []"
  by (auto simp: retro_load_game_def offline_lists with_callbacks_def retro_set_video_refresh_def retro_set_input_state_def
      Let_def refresh_texts_def clear_status_if_games_def home_position_def STATE_def detect_def read_to_string_def crt_320x240_def)

theorem core_run_never_panics_witness:
  "\<exists>s. core_reachable s \<and> ds_framebuffer (cs_display s) \<noteq> [] \<and>
     (\<forall>fl btn. \<exists>s' calls. retro_run fl btn s = Some (s', calls) \<and> length (filter is_frame calls) = 1 \<and> (\<forall>c \<in> set calls. frame_fits c))"
proof -
  obtain s where s: "retro_load_game offline with_callbacks = Some s" "ds_framebuffer (cs_display s) \<noteq> []" "cb_video (cs_cb s)"
    using offline_load by blast
  have "core_reachable s" by (rule call [OF with_callbacks_driven, where e = "LoadGame offline"]) (use s in simp_all)
  then show ?thesis using core_run_never_panics s(2,3) by fastforce
qed

section \<open>Messages of the detail view\<close>

definition quiet :: "core_state \<Rightarrow> bool" where
  "quiet s \<longleftrightarrow> core_ok s \<and>
     (gm_view (cs_game s) = GameDetailView \<longrightarrow> status s \<in> {[], empty_message Recents, empty_message Favorites})"

lemma open_list_status: "status (open_list s) \<in> {[], empty_message Recents, empty_message Favorites}"
  by (simp add: open_list_def Let_def)

lemma home_quiet:
  "gm_view (cs_game s) = HomeView \<Longrightarrow> gm_view (cs_game (fst (handle_input_home s up down a b))) = GameDetailView \<Longrightarrow>
   status (fst (handle_input_home s up down a b)) \<in> {[], empty_message Recents, empty_message Favorites}"
  using open_list_status by (auto simp: handle_input_home_def Let_def split: if_splits)

lemma detail_status: "status (handle_input_detail s left right up down b l1 r1) = status s"
  using detail_input_ok [of s] by (simp add: calm_def same_elsewhere_def)

lemma input_quiet: "quiet s \<Longrightarrow> quiet (fst (handle_input btn s))"
  using input_core_ok [of s btn] home_quiet [of s]
  by (auto simp: quiet_def handle_input_def Let_def case_prod_beta detail_status split: core_view.splits)

lemma load_game_home: "retro_load_game env s = Some s' \<Longrightarrow> gm_view (cs_game s') = HomeView"
  by (auto simp: retro_load_game_def Let_def bind_eq_Some_conv refresh_texts_def home_position_def)

lemma reset_home: "retro_reset env s = Some s' \<Longrightarrow> gm_view (cs_game s') = HomeView"
  by (auto simp: home_position_def loaded_def refresh_texts_def dest!: reset_steps)

lemma step_quiet:
  assumes "quiet s" and "\<nexists>data. e = Unserialize data" and "core_step e s = Some (s', calls)"
  shows "quiet s'"
proof -
  have ok: "core_ok s'" using step_ok assms(1,3) by (auto simp: quiet_def)
  show ?thesis
  proof (cases e)
    case (Run fl btn)
    then have run: "retro_run fl btn s = Some (s', calls)" using assms(3) by simp
    show ?thesis
    proof (cases "ds_framebuffer (cs_display s) = []")
      case True
      then show ?thesis using run assms(1) by (simp add: retro_run_def)
    next
      case False
      then show ?thesis
        using run_is_input [OF _ run False] input_quiet [OF assms(1), of btn] ok assms(1) by (auto simp: quiet_def)
    qed
  qed (use assms ok load_game_home reset_home in \<open>auto simp: quiet_def retro_set_environment_def retro_set_video_refresh_def
       retro_set_audio_sample_def retro_set_audio_sample_batch_def retro_set_input_poll_def retro_set_input_state_def
       retro_deinit_def retro_unload_game_def Let_def\<close>)
qed

lemma start_home: "gm_view (cs_game STATE) = HomeView"
  by (simp add: STATE_def)

interpretation messages: core_invariant "\<lambda>e. \<nexists>data. e = Unserialize data" quiet
  by unfold_locales (simp add: quiet_def initial_ok start_home, rule step_quiet)

lemma home_without_status: "render_home (set_status msg s) fb = render_home s fb"
proof -
  have "cs_scratch (set_status msg s) = cs_scratch s" by (simp add: in_net_def)
  then show ?thesis by (simp only: render_home_def render_home_menu_item_def in_part_simps)
qed

text \<open>
  C15: the player never sees why a list could not be fetched. The home screen does not draw the
  status message, and entering a list replaces it: unless a save state was restored, the detail
  view shows no message or one of the two empty-list messages, whatever the server answered.
\<close>

theorem fetch_errors_never_shown:
  assumes "driven (\<lambda>e. \<nexists>data. e = Unserialize data) s"
  shows "(gm_view (cs_game s) = GameDetailView \<longrightarrow> status s \<in> {[], empty_message Recents, empty_message Favorites}) \<and>
         render_home (set_status msg s) fb = render_home s fb"
  using messages.driven_inv [OF assms] by (simp add: quiet_def home_without_status)

theorem fetch_errors_never_shown_witness:
  "\<exists>s. driven (\<lambda>e. \<nexists>data. e = Unserialize data) s \<and> \<not> ns_api_available (cs_net s) \<and> gm_view (cs_game s) = GameDetailView \<and>
     status s \<in> {[], empty_message Recents, empty_message Favorites}"
proof -
  obtain s where s: "retro_load_game offline with_callbacks = Some s" "gm_view (cs_game s) = HomeView"
      "gm_home_cursor (cs_game s) = 0" "\<not> ns_api_available (cs_net s)" "cb_input_state (cs_cb s)" "\<not> in_prev_a (cs_input s)"
      "ds_framebuffer (cs_display s) \<noteq> []"
    using offline_load by blast
  have driven: "driven (\<lambda>e. \<nexists>data. e = Unserialize data) s"
    by (rule call [OF with_callbacks_driven, where e = "LoadGame offline"]) (use s in simp_all)
  have ok: "core_ok s" using messages.driven_inv [OF driven] by (simp add: quiet_def)
  define press where "press = (\<lambda>b. b = JOYPAD_A)"
  obtain s' calls where run: "retro_run no_f32 press s = Some (s', calls)" using run_ok [OF ok] by blast
  have d: "driven (\<lambda>e. \<nexists>data. e = Unserialize data) s'"
    by (rule call [OF driven, where e = "Run no_f32 press"]) (use run in simp_all)
  have "gm_view (cs_game s') = GameDetailView" "\<not> ns_api_available (cs_net s')"
    using run_is_input [OF ok run s(7)] s
    by (simp_all add: handle_input_def handle_input_home_def open_list_def Let_def press_def JOYPAD_A_def JOYPAD_UP_def JOYPAD_DOWN_def
        JOYPAD_B_def)
  then show ?thesis using d fetch_errors_never_shown [OF d] by blast
qed

section \<open>Save states\<close>

lemma nested_digits:
  "(a :: nat) + 256 * (b + 256 * (c + 256 * d)) = m \<Longrightarrow> a + 256 * b + 65536 * c + 16777216 * d = m"
  by simp

lemma byte_digits: "(m :: nat) < 2 ^ 32 \<Longrightarrow>
  m mod 256 + 256 * (m div 256 mod 256) + 65536 * (m div 65536 mod 256) + 16777216 * (m div 16777216 mod 256) = m"
proof -
  assume "m < 2 ^ 32"
  define a where "a = m div 256"
  define b where "b = a div 256"
  have "m div 65536 = b" by (simp add: a_def b_def div_mult2_eq [symmetric])
  moreover have "m div 16777216 = b div 256" by (simp add: a_def b_def div_mult2_eq [symmetric])
  moreover have "b div 256 mod 256 = b div 256"
    using \<open>m < 2 ^ 32\<close> by (simp add: a_def b_def div_mult2_eq [symmetric] less_mult_imp_div_less)
  moreover have "m mod 256 + 256 * (a mod 256 + 256 * (b mod 256 + 256 * (b div 256))) = m"
    by (simp only: mod_mult_div_eq b_def a_def)
  ultimately show ?thesis by (simp only: a_def [symmetric]) (rule nested_digits)
qed

lemma le32_roundtrip [simp]: "n < 2 ^ 32 \<Longrightarrow> of_le32 (le32 n) = n"
  using byte_digits [of n] by (simp add: le32_def of_le32_def Let_def unat_of_nat)

lemma le32_length [simp]: "length (le32 n) = 4"
  by (simp add: le32_def Let_def)

text \<open>The fields of a save state, by the place where they are read.\<close>

lemma saved_fields:
  assumes "data = le32 a @ le32 b @ [m, p, v, h] @ le32 r @ le32 f @ z"
  shows "bytes_at 0 data = of_le32 (le32 a)" "bytes_at 4 data = of_le32 (le32 b)" "bytes_at 12 data = of_le32 (le32 r)"
    "bytes_at 16 data = of_le32 (le32 f)" "data ! 8 = m" "data ! 9 = p" "data ! 10 = v" "data ! 11 = h"
  by (simp_all add: assms bytes_at_def nth_append)

definition restored :: "nat \<Rightarrow> game_entry list \<Rightarrow> nat" where
  "restored i es = (if es = [] then 0 else i)"

text \<open>
  C13: restoring a save state brings back the position it was taken at. When the core has loaded
  lists of the same lengths, every part of the position -- view, menu cursor, list, page, scroll
  offset and the remembered place in each list -- is what it was; the index in an empty list
  becomes 0.
\<close>

theorem save_state_roundtrip:
  assumes "core_reachable s" and "SAVE_STATE_SIZE \<le> capacity"
    and "length (gm_entries (cs_game s)) \<le> 2 ^ 32" and "length (gm_favorites (cs_game s)) \<le> 2 ^ 32" and "gm_desc_scroll (cs_game s) < 2 ^ 32"
    and "length (gm_entries (cs_game t)) = length (gm_entries (cs_game s))"
    and "length (gm_favorites (cs_game t)) = length (gm_favorites (cs_game s))"
  shows "\<exists>data t'. retro_serialize capacity s = Some data \<and> length data = SAVE_STATE_SIZE \<and> retro_unserialize data t = (t', True) \<and>
      positions (cs_game t') =
        (gm_view (cs_game s), gm_home_cursor (cs_game s), gm_list_mode (cs_game s),
         restored (gm_current_index (cs_game s)) (mode_entries (cs_game s) (gm_list_mode (cs_game s))),
         gm_desc_scroll (cs_game s), gm_current_page (cs_game s),
         restored (gm_recents_index (cs_game s)) (gm_entries (cs_game s)),
         restored (gm_favorites_index (cs_game s)) (gm_favorites (cs_game s)))"
proof -
  let ?g = "cs_game s"
  have pos: "positions_ok ?g" using running.driven_inv [OF assms(1)] by (simp add: core_ok_def)
  define data where "data = le32 (gm_current_index ?g) @ le32 (gm_desc_scroll ?g)
    @ [case gm_list_mode ?g of Recents \<Rightarrow> 0 | Favorites \<Rightarrow> 1, of_nat (gm_current_page ?g),
       case gm_view ?g of HomeView \<Rightarrow> 0 | GameDetailView \<Rightarrow> 1, of_nat (gm_home_cursor ?g)]
    @ le32 (gm_recents_index ?g) @ le32 (gm_favorites_index ?g) @ [0, 0, 0, 0]"
  note read = saved_fields [OF data_def]
  have mode: "(if data ! 8 = 1 then Favorites else Recents) = gm_list_mode ?g"
    by (cases "gm_list_mode ?g") (simp_all add: read)
  have view: "(if data ! 10 = 1 then GameDetailView else HomeView) = gm_view ?g"
    by (cases "gm_view ?g") (simp_all add: read)
  have page: "unat (data ! 9) = gm_current_page ?g" and cursor: "min (unat (data ! 11)) 1 = gm_home_cursor ?g"
    using pos by (simp_all add: read positions_ok_def PAGE_COUNT_def HOME_MENU_COUNT_def unat_of_nat)
  have index: "saved_index (of_le32 (le32 i)) (length es') = restored i es"
    if "position_ok i es" "length es \<le> 2 ^ 32" "length es' = length es" for i es es'
    using that by (cases "es = []") (auto simp: saved_index_def restored_def position_ok_def)
  have current: "saved_index (bytes_at 0 data) (length (mode_entries (cs_game t) (gm_list_mode ?g)))
      = restored (gm_current_index ?g) (mode_entries ?g (gm_list_mode ?g))"
    unfolding read using pos assms(3-7) by (intro index) (cases "gm_list_mode ?g"; simp add: positions_ok_def mode_entries_def)+
  have len: "length data = SAVE_STATE_SIZE" by (simp add: data_def SAVE_STATE_SIZE_def)
  have "positions (cs_game (fst (retro_unserialize data t))) =
        (gm_view ?g, gm_home_cursor ?g, gm_list_mode ?g, restored (gm_current_index ?g) (mode_entries ?g (gm_list_mode ?g)),
         gm_desc_scroll ?g, gm_current_page ?g, restored (gm_recents_index ?g) (gm_entries ?g),
         restored (gm_favorites_index ?g) (gm_favorites ?g))"
    using mode view page cursor current len pos index [of _ "gm_entries ?g" "gm_entries (cs_game t)"]
      index [of _ "gm_favorites ?g" "gm_favorites (cs_game t)"] assms(3-7)
    by (simp add: retro_unserialize_def Let_def positions_def read(2-4) positions_ok_def PAGE_COUNT_def)
  moreover have "retro_serialize capacity s = Some data" using assms(2) by (simp add: retro_serialize_def Let_def data_def)
  moreover have "snd (retro_unserialize data t)" using len by (simp add: retro_unserialize_def Let_def)
  ultimately show ?thesis using len by (metis prod.collapse)
qed

text \<open>A position reached through a save state: page 2 of the favorites, scrolled by seven lines.\<close>

definition some_position :: core_state where
  "some_position = fst (retro_unserialize [0, 0, 0, 0, 7, 0, 0, 0, 1, 1, 1, 1, 0, 0, 0, 0, 0, 0, 0, 0, 0, 0, 0, 0] STATE)"

lemma some_position_driven: "core_reachable some_position"
  unfolding some_position_def
  by (rule call [where e = "Unserialize [0, 0, 0, 0, 7, 0, 0, 0, 1, 1, 1, 1, 0, 0, 0, 0, 0, 0, 0, 0, 0, 0, 0, 0]"], rule start) simp_all

lemma some_position_fields:
  "positions (cs_game some_position) = (GameDetailView, 1, Favorites, 0, 7, 1, 0, 0) \<and>
   gm_entries (cs_game some_position) = [] \<and> gm_favorites (cs_game some_position) = []"
  by (simp add: some_position_def retro_unserialize_def Let_def SAVE_STATE_SIZE_def positions_def saved_index_def bytes_at_def of_le32_def
      PAGE_COUNT_def STATE_def mode_entries_def)

theorem save_state_roundtrip_witness:
  "\<exists>data t'. retro_serialize 64 some_position = Some data \<and> length data = SAVE_STATE_SIZE \<and> retro_unserialize data STATE = (t', True) \<and>
     positions (cs_game t') = (GameDetailView, 1, Favorites, 0, 7, 1, 0, 0)"
proof -
  have lists: "gm_entries (cs_game STATE) = []" "gm_favorites (cs_game STATE) = []" by (simp_all add: STATE_def)
  show ?thesis
    using save_state_roundtrip [OF some_position_driven, of 64 STATE] some_position_fields lists
    by (simp add: SAVE_STATE_SIZE_def positions_def restored_def mode_entries_def)
qed

section \<open>Browsing\<close>

text \<open>The games of the open list are browsed: the detail view, a game loaded, RIGHT not held.\<close>

definition browsing :: "core_state \<Rightarrow> nat \<Rightarrow> nat \<Rightarrow> bool" where
  "browsing s len i \<longleftrightarrow> core_ok s \<and> gm_view (cs_game s) = GameDetailView \<and> ds_framebuffer (cs_display s) \<noteq> [] \<and>
     cb_input_state (cs_cb s) \<and> length (mode_entries (cs_game s) (gm_list_mode (cs_game s))) = len \<and> 0 < len \<and>
     gm_current_index (cs_game s) = i"

definition press :: "nat \<Rightarrow> buttons" where
  "press button = (\<lambda>b. b = button)"

definition release :: buttons where
  "release = (\<lambda>b. False)"

lemma scroll_idle: "scroll_step s False False = (s, False)"
  by (simp add: scroll_step_def)

lemma last_wraps: "i < len \<Longrightarrow> \<not> i < len - Suc 0 \<Longrightarrow> Suc i mod len = 0"
proof -
  assume "i < len" and "\<not> i < len - Suc 0"
  then have "Suc i = len" by linarith
  then show "Suc i mod len = 0" by simp
qed

lemma right_input:
  assumes "gm_current_index (cs_game s) < len" and "length (mode_entries (cs_game s) (gm_list_mode (cs_game s))) = len"
    and "\<not> in_prev_right (cs_input s)"
  shows "gm_current_index (cs_game (handle_input_detail s False True False False False False False)) = Suc (gm_current_index (cs_game s)) mod len"
    and "gm_view (cs_game (handle_input_detail s False True False False False False False)) = gm_view (cs_game s)"
    and "gm_list_mode (cs_game (handle_input_detail s False True False False False False False)) = gm_list_mode (cs_game s)"
  using assms
  by (auto simp: handle_input_detail_def Let_def scroll_idle game_right_def go_to_def save_index_def last_wraps split: list_mode.split)

lemma idle_input:
  assumes "gm_current_index (cs_game s) < len" and "length (mode_entries (cs_game s) (gm_list_mode (cs_game s))) = len"
  shows "cs_game (handle_input_detail s False False False False False False False) = cs_game s"
  using assms by (auto simp: handle_input_detail_def Let_def scroll_idle)

lemma handle_right:
  assumes "browsing s len i" and "\<not> in_prev_right (cs_input s)"
  defines "t \<equiv> fst (handle_input (press JOYPAD_RIGHT) s)"
  shows "gm_view (cs_game t) = GameDetailView" "gm_list_mode (cs_game t) = gm_list_mode (cs_game s)" "gm_current_index (cs_game t) = Suc i mod len"
proof -
  have i: "i < len" using assms(1) by (auto simp: browsing_def core_ok_def positions_ok_def position_ok_def)
  have "cs_game t = cs_game (handle_input_detail s False True False False False False False)"
    using assms(1) by (simp add: t_def handle_input_def browsing_def press_def JOYPAD_RIGHT_def JOYPAD_LEFT_def JOYPAD_UP_def
        JOYPAD_DOWN_def JOYPAD_A_def JOYPAD_B_def JOYPAD_L_def JOYPAD_R_def Let_def)
  then show "gm_view (cs_game t) = GameDetailView" "gm_list_mode (cs_game t) = gm_list_mode (cs_game s)" "gm_current_index (cs_game t) = Suc i mod len"
    using right_input [of s len] assms(1,2) i by (simp_all add: browsing_def)
qed

lemma handle_release:
  assumes "browsing s len i"
  shows "cs_game (fst (handle_input release s)) = cs_game s" "\<not> in_prev_right (cs_input (fst (handle_input release s)))"
proof -
  have i: "i < len" using assms by (auto simp: browsing_def core_ok_def positions_ok_def position_ok_def)
  then show "cs_game (fst (handle_input release s)) = cs_game s" "\<not> in_prev_right (cs_input (fst (handle_input release s)))"
    using assms idle_input [of s len] by (simp_all add: handle_input_def browsing_def release_def Let_def)
qed

lemma browsing_frame:
  fixes btn
  assumes "browsing s len i"
  defines "t \<equiv> fst (handle_input btn s)"
  assumes "gm_view (cs_game t) = GameDetailView" and "gm_list_mode (cs_game t) = gm_list_mode (cs_game s)" and "gm_current_index (cs_game t) = j"
  shows "\<exists>s' calls. retro_run fl btn s = Some (s', calls) \<and> browsing s' len j \<and> cs_input s' = cs_input t
    \<and> mode_entries (cs_game s') (gm_list_mode (cs_game s')) = mode_entries (cs_game s) (gm_list_mode (cs_game s))"
proof -
  have ok: "core_ok s" and fb: "ds_framebuffer (cs_display s) \<noteq> []" using assms(1) by (simp_all add: browsing_def)
  obtain s' calls where run: "retro_run fl btn s = Some (s', calls)" "core_ok s'" using run_ok [OF ok] by blast
  have same: "mode_entries (cs_game t) m = mode_entries (cs_game s) m" for m
    using input_ok [of s btn] ok mode_entries_same by (auto simp: t_def core_ok_def)
  note r = run_is_input [OF ok run(1) fb, folded t_def]
  then have "ds_framebuffer (cs_display s') \<noteq> []" using fb by (metis length_0_conv)
  then have "browsing s' len j" using r run(2) assms(1,3-5) same by (simp add: browsing_def)
  then show ?thesis using run(1) r same assms(4) by auto
qed

definition run_frames :: "f32_ops \<Rightarrow> buttons list \<Rightarrow> core_state \<Rightarrow> core_state may_panic" where
  "run_frames fl btns s = each (\<lambda>s btn. map_option fst (retro_run fl btn s)) s btns"

lemma run_frames_step:
  "retro_run fl btn s = Some (s', calls) \<Longrightarrow> run_frames fl (btn # btns) s = run_frames fl btns s'"
  by (simp add: run_frames_def)

text \<open>The list under the cursor, as \<open>render_detail\<close> reads it.\<close>

abbreviation shown_list :: "core_state \<Rightarrow> game_entry list" where
  "shown_list s \<equiv> fst (active_list (cs_game s))"

lemma shown_list_entries: "shown_list s = mode_entries (cs_game s) (gm_list_mode (cs_game s))"
  by (simp add: active_list_def)

definition tap_right :: "buttons list" where
  "tap_right = [press JOYPAD_RIGHT, release]"

lemma taps:
  "browsing s len i \<Longrightarrow> \<not> in_prev_right (cs_input s) \<Longrightarrow>
   \<exists>s'. run_frames fl (concat (replicate k tap_right)) s = Some s' \<and> browsing s' len ((i + k) mod len) \<and> shown_list s' = shown_list s"
proof (induction k arbitrary: s i)
  case 0
  then have "i < len" by (auto simp: browsing_def core_ok_def positions_ok_def position_ok_def)
  then show ?case using 0 by (simp add: run_frames_def)
next
  case (Suc k)
  obtain s1 c1 where s1: "retro_run fl (press JOYPAD_RIGHT) s = Some (s1, c1)" "browsing s1 len (Suc i mod len)" "shown_list s1 = shown_list s"
    using browsing_frame [OF Suc.prems(1) handle_right [OF Suc.prems]] unfolding shown_list_entries by blast
  obtain s2 c2 where s2: "retro_run fl release s1 = Some (s2, c2)" "browsing s2 len (Suc i mod len)" "shown_list s2 = shown_list s1"
    "\<not> in_prev_right (cs_input s2)"
    using browsing_frame [OF s1(2), of release] handle_release [OF s1(2)] s1(2) unfolding shown_list_entries by (force simp: browsing_def)
  from Suc.IH [OF s2(2,4)] obtain s' where
    "run_frames fl (concat (replicate k tap_right)) s2 = Some s'" "browsing s' len ((Suc i mod len + k) mod len)" "shown_list s' = shown_list s2"
    by blast
  then show ?case
    using s1 s2 by (simp add: tap_right_def run_frames_step mod_simps)
qed

text \<open>
  C14: in the detail view every game of the open list is reached by tapping RIGHT. From any state
  the frontend can bring the core to, frames with RIGHT released, then pressed and released k
  times all return and move from game i to game i + k, wrapping at the end of the list; the list
  shown stays the same one.
\<close>

theorem browsing_reaches_every_game:
  assumes "core_reachable s" and "ds_framebuffer (cs_display s) \<noteq> []" and "cb_input_state (cs_cb s)"
    and "gm_view (cs_game s) = GameDetailView" and "shown_list s \<noteq> []"
  shows "\<exists>s'. run_frames fl (release # concat (replicate k tap_right)) s = Some s' \<and> shown_list s' = shown_list s \<and>
           gm_view (cs_game s') = GameDetailView \<and>
           gm_current_index (cs_game s') = (gm_current_index (cs_game s) + k) mod length (shown_list s)"
proof -
  have b: "browsing s (length (shown_list s)) (gm_current_index (cs_game s))"
    using assms running.driven_inv [OF assms(1)] by (simp add: browsing_def shown_list_entries)
  obtain s1 c1 where s1: "retro_run fl release s = Some (s1, c1)" "browsing s1 (length (shown_list s)) (gm_current_index (cs_game s))"
    "shown_list s1 = shown_list s" "\<not> in_prev_right (cs_input s1)"
    using browsing_frame [OF b, of release] handle_release [OF b] b unfolding shown_list_entries by (force simp: browsing_def)
  from taps [OF s1(2,4)] show ?thesis
    using s1 by (fastforce simp: run_frames_step browsing_def)
qed

text \<open>A server that lists two recently played games and knows nothing else.\<close>

definition two_games_text :: rstr where
  "two_games_text = array_text (map (object_text \<circ> entry_fields) [sample_entry, sample_entry])"

definition two_games :: core_env where
  "two_games = offline\<lparr>ce_http := (\<lambda>url timeout.
     if url = api_base @ lit ''/api/core/recents'' then Inr \<lparr>rsp_status = 200, rsp_body = utf8_bytes two_games_text\<rparr>
     else Inl (lit ''refused''))\<rparr>"

lemma two_games_recents: "fetch_recents two_games = Some (Inr [sample_entry, sample_entry])"
proof -
  have "list_all (\<lambda>c. c < 128) two_games_text" by code_simp
  then have "response_text two_games \<lparr>rsp_status = 200, rsp_body = utf8_bytes two_games_text\<rparr> = Inr two_games_text"
    by (simp add: response_text_def from_utf8_ascii)
  moreover have "parse_game_list_json two_games_text = Some (Inr [sample_entry, sample_entry])"
    unfolding two_games_text_def by (rule reads_game_list) code_simp
  ultimately show ?thesis by (simp add: fetch_recents_def two_games_def)
qed

lemma two_games_rest:
  "fetch_favorites two_games = Some (Inl (lit ''HTTP error: '' @ lit ''refused''))"
  "fetch_rom_detail two_games sys f = Inl (lit ''HTTP error: '' @ lit ''refused'')"
  "ce_replay_cfg two_games = Missing" "ce_settings_cfg two_games = Missing"
  by (simp_all add: fetch_favorites_def fetch_rom_detail_def detail_url_def two_games_def lit_def)

lemma fallback_fetched:
  assumes "fetch_rom_detail env (ge_system (mode_entries (cs_game s) mode ! i)) (ge_rom_filename (mode_entries (cs_game s) mode ! i)) = Inl e"
  shows "\<exists>s'. prefetch_detail env mode s i = Some s'"
  using assms by (simp add: prefetch_detail_def Let_def precompute_display_def fallback_detail_def)

lemma fallbacks_fetched:
  assumes "\<And>sys f. fetch_rom_detail env sys f = Inl (e sys f)"
  shows "\<exists>s'. each (prefetch_detail env mode) s is = Some s'"
proof (induction "is" arbitrary: s)
  case (Cons i "is")
  obtain t where "prefetch_detail env mode s i = Some t" using fallback_fetched assms by blast
  then show ?case using Cons.IH by simp
qed simp

lemma two_games_recents_loaded:
  "\<exists>s'. load_list two_games Recents s = Some s' \<and> gm_entries (cs_game s') = [sample_entry, sample_entry] \<and>
     cs_display s' = cs_display s \<and> cs_cb s' = cs_cb s"
proof -
  define t where "t = set_status [] (in_net (\<lambda>n. n\<lparr>ns_api_available := True, ns_loading := False\<rparr>)
    (in_game (install_list Recents [sample_entry, sample_entry])
      (in_net (\<lambda>n. n\<lparr>ns_status_message := fetch_message Recents, ns_loading := True\<rparr>) s)))"
  have t: "gm_entries (cs_game t) = [sample_entry, sample_entry]" "cs_display t = cs_display s" "cs_cb t = cs_cb s"
    by (simp_all add: t_def install_list_def)
  obtain s' where s': "each (prefetch_detail two_games Recents) t [0..<2] = Some s'"
    using fallbacks_fetched [OF two_games_rest(2)] by blast
  then have "load_list two_games Recents s = Some s'"
    by (simp add: load_list_def two_games_recents t_def numeral_2_eq_2)
  then show ?thesis using prefetch_all_only [OF s'] t by (auto simp: only_caches_def)
qed

lemma two_games_favorites_loaded:
  "\<exists>s'. load_list two_games Favorites s = Some s' \<and> cs_game s' = cs_game s \<and> cs_display s' = cs_display s \<and> cs_cb s' = cs_cb s"
  by (simp add: load_list_def two_games_rest)

lemma two_games_started:
  "\<exists>s. retro_load_game two_games with_callbacks = Some s \<and> shown_list s = [sample_entry, sample_entry] \<and>
     ds_framebuffer (cs_display s) \<noteq> [] \<and> cb_input_state (cs_cb s)"
proof -
  have layout: "detect (ce_replay_cfg two_games) = crt_320x240" by (simp add: two_games_rest detect_def read_to_string_def)
  define s1 where "s1 = in_display (\<lambda>d. d\<lparr>ds_layout := crt_320x240,
    ds_palette := load_palette (detect_skin_index (ce_settings_cfg two_games) (ce_replay_cfg two_games)),
    ds_framebuffer := replicate (320 * 240) 0, ds_present_buffer := replicate (320 * 240) 0,
    ds_framebuffer_16 := replicate (320 * 240) 0, ds_present_buffer_16 := replicate (320 * 240) 0\<rparr>) with_callbacks"
  have s1: "ds_framebuffer (cs_display s1) \<noteq> []" "cb_input_state (cs_cb s1)"
    by (simp_all add: s1_def with_callbacks_def retro_set_video_refresh_def retro_set_input_state_def)
  obtain s2 where s2: "load_list two_games Recents s1 = Some s2" "gm_entries (cs_game s2) = [sample_entry, sample_entry]"
    "cs_display s2 = cs_display s1" "cs_cb s2 = cs_cb s1"
    using two_games_recents_loaded by blast
  obtain s3 where s3: "load_list two_games Favorites s2 = Some s3" "cs_game s3 = cs_game s2" "cs_display s3 = cs_display s2" "cs_cb s3 = cs_cb s2"
    using two_games_favorites_loaded by blast
  have "retro_load_game two_games with_callbacks = Some (refresh_texts (clear_status_if_games (in_game home_position s3)))"
    using s2(1) s3(1) by (simp add: retro_load_game_def layout s1_def crt_320x240_def Let_def)
  moreover have "cs_cb (clear_status_if_games s) = cs_cb s" for s by (simp add: clear_status_if_games_def)
  ultimately show ?thesis
    using s1 s2 s3 by (simp add: refresh_texts_def home_position_def active_list_def mode_entries_def)
qed

text \<open>Such a core in the detail view of the list: a save state of that view is restored.\<close>

theorem browsing_reaches_every_game_witness:
  "\<exists>s s'. core_reachable s \<and> gm_view (cs_game s) = GameDetailView \<and> shown_list s = [sample_entry, sample_entry] \<and>
     run_frames no_f32 (release # concat (replicate 3 tap_right)) s = Some s' \<and> gm_current_index (cs_game s') = 1"
proof -
  obtain s where s: "retro_load_game two_games with_callbacks = Some s" "shown_list s = [sample_entry, sample_entry]"
    "ds_framebuffer (cs_display s) \<noteq> []" "cb_input_state (cs_cb s)"
    using two_games_started by blast
  have reach: "core_reachable s"
    by (rule call [OF with_callbacks_driven, where e = "LoadGame two_games"]) (use s in simp_all)
  have games: "gm_entries (cs_game s) = [sample_entry, sample_entry]"
    using s(1,2) by (auto simp: retro_load_game_def Let_def bind_eq_Some_conv refresh_texts_def home_position_def active_list_def mode_entries_def)
  define data :: "u8 list" where "data = [0, 0, 0, 0, 0, 0, 0, 0, 0, 0, 1, 0, 0, 0, 0, 0, 0, 0, 0, 0, 0, 0, 0, 0]"
  define t where "t = fst (retro_unserialize data s)"
  have r: "core_reachable t" by (rule call [OF reach, where e = "Unserialize data"]) (simp_all add: t_def)
  have t: "gm_view (cs_game t) = GameDetailView" "shown_list t = [sample_entry, sample_entry]" "gm_current_index (cs_game t) = 0"
    "ds_framebuffer (cs_display t) \<noteq> []" "cb_input_state (cs_cb t)"
    using s games by (simp_all add: t_def data_def retro_unserialize_def SAVE_STATE_SIZE_def Let_def active_list_def mode_entries_def
        bytes_at_def of_le32_def saved_index_def)
  have "shown_list t \<noteq> []" using t(2) by simp
  from browsing_reaches_every_game [OF r t(4,5,1) this, of no_f32 3]
  obtain s' where "run_frames no_f32 (release # concat (replicate 3 tap_right)) t = Some s'"
    "gm_current_index (cs_game s') = (0 + 3) mod length [sample_entry, sample_entry]"
    unfolding t(2,3) by blast
  then have "run_frames no_f32 (release # concat (replicate 3 tap_right)) t = Some s' \<and> gm_current_index (cs_game s') = 1"
    by (simp add: numeral_3_eq_3 mod_Suc)
  then show ?thesis using r t(1,2) by blast
qed

end
