(* ===== verification/Spec2Isabelle.thy ===== *)
theory Spec2Isabelle
  imports Auth_Handlers Activity Search_Scoring Title_Utils Update_Check Disc_Hashing Platform_Map Core_Behaviour
begin

text \<open>
  Replay Control: a verification library for the logic of the server and of its libretro core.

  \<^bold>\<open>The program.\<close> Replay Control is a web companion of a retro-gaming appliance (RePlayOS): a Rust
  server that keeps the library of ROM files, edits the appliance's configuration and lets
  users and an administrator sign in from a browser. The crate \<open>replay-control-core\<close> holds pure
  logic (names, tags, search, settings types), \<open>replay-control-core-server\<close> the parts that touch
  files and the database, and \<open>replay-control-app\<close> the HTTP server and its pages.
  \<open>replay-control-libretro\<close> is a program of its own, loaded by the appliance's frontend, which shows
  recently played games on the television. Source paths below are relative to the crates' \<open>src\<close>
  directories.

  \<^bold>\<open>Theories, the code they model, and what their lemmas show.\<close>

  \<^item> \<open>Rust_Prelude\<close>: the Rust types and the part of the standard library the components share:
    characters, UTF-8, splitting, trimming, decimal numbers, errors as values.
  \<^item> \<open>Rust_Text\<close>: panics as missing results, byte slices, searching, the Unicode case tables as the
    parameter \<open>unicode\<close> with the laws \<open>lower_laws\<close>.
  \<^item> \<open>Key_Value_Config\<close> (\<open>platform/config.rs\<close>, \<open>KeyValueFile\<close>): parsing, setting and rendering of
    configuration files. A written value cannot inject another entry, rendering and parsing are
    inverse, comments and order survive, and an error names the first bad line.
  \<^item> \<open>Regions\<close>, \<open>Skins\<close>, \<open>App_Settings\<close> (\<open>game/rom_tags.rs\<close>, \<open>settings/skins.rs\<close>,
    \<open>platform/config.rs\<close>, \<open>locale.rs\<close>, \<open>settings.rs\<close>): the typed settings, the settings store with
    its I/O failures, the region sort key and the skin table.
  \<^item> \<open>Auth_Session\<close> (\<open>core/auth.rs\<close>, \<open>core-server/auth.rs\<close>): claims, signed tokens, the
    \<open>AuthStore\<close> and the whole life of a session. The locale \<open>session_authority\<close> states what the
    rest of the server relies on; \<open>auth_store\<close> interprets it.
  \<^item> \<open>Login_Rate_Limiter\<close> (\<open>core-server/auth.rs\<close>): the failure window and the lockout.
  \<^item> \<open>Auth_Gate\<close> (\<open>api/auth_gate.rs\<close>): the middleware that decides every request.
  \<^item> \<open>Auth_Handlers\<close> (\<open>server_fns/auth.rs\<close>): the authentication server functions as transformers
    of the server state, and runs of requests as a step relation; the locale \<open>server_frame\<close>,
    interpreted by \<open>auth_frame\<close>, states what no request may change.
  \<^item> \<open>Activity\<close> (\<open>api/activity.rs\<close>): the single-flight lock, its guards and its broadcast
    messages as a step relation, and its refinement of an abstract lock.
  \<^item> \<open>Rom_Tags\<close>, \<open>Rom_Classify\<close> (\<open>game/rom_tags.rs\<close>): tag iterators and parsers, classification,
    display suffix, TOSEC metadata.
  \<^item> \<open>Search_Scoring\<close> (\<open>search_scoring.rs\<close>): relevance of a file for a query, on top of the
    classification and the region sort key.
  \<^item> \<open>Title_Utils\<close> (\<open>game/title_utils.rs\<close>): base titles, matching keys, series keys.
  \<^item> \<open>Update_Check\<close> (\<open>core/update.rs\<close>, \<open>core-server/update.rs\<close>): releases, the update to offer, the
    changelog and its links, asset URLs and checksums.
  \<^item> \<open>Systems\<close>, \<open>Platform_Map\<close> (\<open>platform/systems.rs\<close>): the table of emulated systems, its lookups
    and the LaunchBox platform map, whose fingerprint determines it.
  \<^item> \<open>Disc_Io\<close>: files, I/O errors and panics as values, actions on a reader's state, and the locale
    \<open>sector_source\<close>: a reader with hidden state presents a fixed disc. Each reader interprets it.
  \<^item> \<open>Disc_Readers\<close>, \<open>Chd_Reader\<close> (\<open>library/rc_hash_disc.rs\<close>, \<open>rc_hash_disc/containers.rs\<close>,
    \<open>rc_hash_disc/ps2.rs\<close>): raw, GDI, CUE, CSO/ZSO, gzip and CHD images with their caches.
  \<^item> \<open>Disc_Recipes\<close> (\<open>library/rc_hash_disc.rs\<close>, \<open>rc_hash_disc/ps2.rs\<close>): the ISO 9660 walk and the
    identity of a disc for RetroAchievements, for each kind of disc, over any reader.
  \<^item> \<open>Disc_Identity\<close>: what the recipes compute on discs that hold given directories, that containers
    and caches do not matter, that no recipe panics, and when the searches end.
  \<^item> \<open>Nintendo_Discs\<close> (\<open>rc_hash_disc/gamecube.rs\<close>, \<open>rc_hash_disc/wii.rs\<close>), \<open>Jaguar_Cd\<close>
    (\<open>library/rc_hash_disc.rs\<close>): recipes that do not read an ISO file system.
  \<^item> \<open>Disc_Files\<close>, \<open>Disc_Batch\<close> (\<open>library/rc_hash_disc.rs\<close>): sheets, descriptors and playlists, the choice of
    reader and recipe, the batch. \<open>Disc_Hashing\<close>: no disc file makes it panic, the batch counts
    every disc, frames are slices of the track, byte order does not matter.
  \<^item> \<open>Rom_Hash\<close> (\<open>library/rom_hash.rs\<close>): cartridge hashes, reuse of stored hashes, the batch.
  \<^item> \<open>Core_Json\<close>, \<open>Core_Json_Text\<close>, \<open>Core_Api\<close> (\<open>libretro/json.rs\<close>, \<open>http.rs\<close>): the core's JSON reader against
    a specification of the server's JSON writer, requests, box art.
  \<^item> \<open>Core_Layout\<close>, \<open>Core_Font\<close>, \<open>Core_Draw\<close>, \<open>Core_Wrap\<close> (\<open>layout.rs\<close>, \<open>palette.rs\<close>, \<open>font.rs\<close>, \<open>draw.rs\<close>): which
    pixels each drawing routine paints, that none leaves the frame buffer, and what wrapping does.
  \<^item> \<open>Core_State\<close>, \<open>Core_Render\<close> (\<open>libretro/lib.rs\<close>): the core's state, input, rendering, save states.
  \<^item> \<open>Core_Machine\<close>: the calls of the frontend as events, the states they lead to, and the invariant
    of those states; the locale \<open>core_invariant\<close> is interpreted by \<open>running\<close> and \<open>messages\<close>.
    \<open>Core_Behaviour\<close>: the frame loop never panics, save states, browsing, the messages shown.

  \<^bold>\<open>How the parts interact.\<close> Every request passes \<open>with_auth_guard\<close>, which asks \<open>AuthStore\<close> for
  the role behind the cookie and compares it with the role of the route or server function. The
  authentication functions behind it read the settings (the access code), the shadow file (the
  root password) and the two rate limiters, and change the signing key, the limiters, the
  settings and the response cookies. Settings and the configuration are key-value files. The
  activity lock serialises long operations. The search score calls \<open>classify\<close> on the file name
  and the user's region preference; display names join \<open>title_utils\<close> and \<open>rom_tags\<close>.
  Hashing looks up the recipe of a system in the registry, opens a reader for the container and
  runs the recipe over its sectors. The libretro core asks the server for its lists and reads the
  settings file the server writes; between loads it only draws what it fetched.

  \<^bold>\<open>Correspondence.\<close> A struct is a record, an enum a datatype, a function or method the
  definition of its name; \<open>Result<T, E>\<close> is a sum with the error on the left; \<open>u64\<close> and \<open>u32\<close>
  that can wrap are words; a function that may panic has a result of type \<open>may_panic\<close>; local
  variables that a loop updates form a record and the loop body is a function on it. Files are
  part of an explicit environment with a field for the I/O error of the next write.

  \<^bold>\<open>Parameters.\<close> Cryptography (HMAC, SHA-256, base64, \<open>crypt\<close>, random bytes) is the record
  \<open>crypto\<close> with the laws \<open>b64_laws\<close>; \<open>urlencoding\<close> and \<open>http::Uri\<close> are functions; Unicode case
  mapping and character classes beyond ASCII are \<open>unicode\<close>; MD5, CRC-32, inflating, LZ4, the
  \<open>chd\<close> and \<open>nod\<close> crates, the file system and the game catalog are functions. The core's environment \<open>core_env\<close> holds
  the HTTP client, the PNG decoder, single-precision arithmetic and two files. Every theorem that assumes a law has a
  witness with a concrete instance.

  \<^bold>\<open>Bounds and termination.\<close> No fuel is used: loops are structural or come with a termination
  proof (tag iteration by the length of the rest, the word-boundary scan by the length of the
  haystack, decimal conversion by division, single-precision scaling by the distance to the
  normal range). Session times are 64-bit words and the session theorems assume a clock more than
  thirty days before the end of its range (\<open>sane_clock\<close>), so that no sum wraps.
  The walks over an Opera directory and over CHD metadata are unbounded in the code: they are
  partial functions whose \<open>None\<close> is a run that does not end. Sector arithmetic on \<open>u32\<close> wraps, as in
  the release build. Sizes of box art and coordinates on the screen are unbounded: the layouts have
  at most 1920 by 1080 pixels, and a decoded image is assumed to have fewer than \<open>2 ^ 32\<close>. The counter of
  the scroll cooldown and list indices are far below their widths. Search scores are natural numbers: they stay far below
  the width of \<open>u32\<close> for queries with fewer than ten million words.

  \<^bold>\<open>Shared automation.\<close> The collection \<open>str_simps\<close> evaluates string primitives. \<open>keepsD\<close> and the
  \<open>keeps_\<close> lemmas frame server functions, \<open>additive\<close> updates carry the classification loop, and
  word lists (\<open>words_ok\<close>) carry the matching keys.

  \<^bold>\<open>Not modelled, and why.\<close> The library database and its queries (SQL executed by SQLite);
  thumbnails, metadata import and enrichment (network and file-system traversal); web pages and components (view code of the framework); translations (tables
  of text); TLS, mDNS and start-up (calls into libraries); the catalog builder (a
  separate program); the core's C structures and information calls; the installation of an update (package managers and a shell script). Within the modelled files, test-only
  constructors, serialisation attributes and log messages are left out.
\<close>

end
